(* ===== verification/Prelude.thy ===== *)
theory Prelude
  imports Complex_Main "HOL-Library.Multiset"
begin

text \<open>
  What every component of the development shares.

  \<^item> the names of the model's basic types: a \<open>uuid\<close> is the 128-bit number a textual uuid denotes
    (so the order of the numbers is the order of Postgres and of \<open>localeCompare\<close> on the canonical
    text), a \<open>msec\<close> is an instant or a duration in milliseconds (JavaScript's \<open>Date.getTime\<close>);
  \<^item> \<open>error\<close>: the exceptions the services raise, as values;
  \<^item> \<open>tx\<close>: code that runs inside one database transaction. It takes the state and either raises,
    in which case the state is gone (the transaction rolls back), or returns a value and the new
    state;
  \<^item> \<open>act\<close>: code outside a transaction (a service method that runs several transactions, or calls
    another service). An exception does not undo what was already committed, so an \<open>act\<close> returns
    the state in both cases;
  \<^item> \<open>tx_rel\<close> and \<open>act_rel\<close>: every run relates the state before and after; the locale \<open>frame\<close>
    proves once, for any preorder on states, the rules that carry such a fact through a body;
  \<^item> the string operations of JavaScript the sources use, on ASCII text.
\<close>

section \<open>Collections of the development\<close>

named_theorems frame_intros \<open>rules that prove tx_rel and act_rel facts of a body\<close>
named_theorems tx_defs \<open>definitions of the transaction and action combinators\<close>

section \<open>Basic types\<close>

type_synonym uuid = nat
type_synonym msec = int

text \<open>
  The exceptions of the services: the HTTP exceptions of the framework with the message or the
  label and id the message is made of, an SQLSTATE raised by the database, and a plain
  \<open>Error\<close>.
\<close>

datatype error =
    BadRequest string
  | Unauthorized string
  | Forbidden string
  | NotFound string uuid
  | TooManyRequests string int
  | Conflict string
  | DbError string
  | Failure string

text \<open>
  The JSON values the code builds and stores. Identifiers and timestamps keep their own
  constructors instead of their printed text.
\<close>

datatype json =
    JNull
  | JBool bool
  | JNum rat
  | JStr string
  | JId uuid
  | JDate msec
  | JArr "json list"
  | JObj "(string \<times> json) list"

section \<open>Transactions\<close>

type_synonym ('s, 'a) tx = "'s \<Rightarrow> error + 'a \<times> 's"

definition tx_return :: "'a \<Rightarrow> ('s, 'a) tx" where
  [tx_defs]: "tx_return x = (\<lambda>s. Inr (x, s))"

definition tx_throw :: "error \<Rightarrow> ('s, 'a) tx" where
  [tx_defs]: "tx_throw e = (\<lambda>s. Inl e)"

definition tx_bind :: "('s, 'a) tx \<Rightarrow> ('a \<Rightarrow> ('s, 'b) tx) \<Rightarrow> ('s, 'b) tx" where
  [tx_defs]: "tx_bind m f = (\<lambda>s. case m s of Inl e \<Rightarrow> Inl e | Inr (x, s') \<Rightarrow> f x s')"

definition tx_gets :: "('s \<Rightarrow> 'a) \<Rightarrow> ('s, 'a) tx" where
  [tx_defs]: "tx_gets f = (\<lambda>s. Inr (f s, s))"

text \<open>\<open>for (const x of xs) acc = await f(x, acc)\<close>.\<close>

fun tx_fold :: "('x \<Rightarrow> 'a \<Rightarrow> ('s, 'a) tx) \<Rightarrow> 'x list \<Rightarrow> 'a \<Rightarrow> ('s, 'a) tx" where
  "tx_fold f [] a = tx_return a"
| "tx_fold f (x # xs) a = tx_bind (f x a) (tx_fold f xs)"

text \<open>\<open>if (b) await m\<close>.\<close>

definition tx_when :: "bool \<Rightarrow> ('s, unit) tx \<Rightarrow> ('s, unit) tx" where
  "tx_when b m = (if b then m else tx_return ())"

lemma tx_bind_eq_Inr:
  "tx_bind m f s = Inr (y, t) \<longleftrightarrow> (\<exists>x u. m s = Inr (x, u) \<and> f x u = Inr (y, t))"
  by (auto simp: tx_bind_def split: sum.splits)

lemma tx_bind_eq_Inl:
  "tx_bind m f s = Inl e \<longleftrightarrow> m s = Inl e \<or> (\<exists>x u. m s = Inr (x, u) \<and> f x u = Inl e)"
  by (auto simp: tx_bind_def split: sum.splits)

lemma tx_bind_Inr [simp]: "m s = Inr (x, u) \<Longrightarrow> tx_bind m f s = f x u"
  by (simp add: tx_bind_def)

lemma tx_bind_Inl [simp]: "m s = Inl e \<Longrightarrow> tx_bind m f s = Inl e"
  by (simp add: tx_bind_def)

lemma tx_return_app [simp]: "tx_return x s = Inr (x, s)"
  by (simp add: tx_return_def)

lemma tx_throw_app [simp]: "tx_throw e s = Inl e"
  by (simp add: tx_throw_def)

lemma tx_gets_app [simp]: "tx_gets f s = Inr (f s, s)"
  by (simp add: tx_gets_def)

lemma tx_bind_gets [simp]: "tx_bind (tx_gets f) k s = k (f s) s"
  by (simp add: tx_bind_def)

lemma tx_bind_assoc: "tx_bind (tx_bind m f) g = tx_bind m (\<lambda>x. tx_bind (f x) g)"
  by (rule ext) (auto simp: tx_bind_def split: sum.splits)

lemma tx_fold_append: "tx_fold f (xs @ ys) a = tx_bind (tx_fold f xs a) (tx_fold f ys)"
proof (induction xs arbitrary: a)
  case Nil
  then show ?case by (simp add: fun_eq_iff)
next
  case (Cons x xs)
  then have "tx_fold f (xs @ ys) = (\<lambda>b. tx_bind (tx_fold f xs b) (tx_fold f ys))" by (simp add: fun_eq_iff)
  then show ?case by (simp only: append_Cons tx_fold.simps tx_bind_assoc)
qed

section \<open>Actions\<close>

type_synonym ('s, 'a) act = "'s \<Rightarrow> (error + 'a) \<times> 's"

definition act_return :: "'a \<Rightarrow> ('s, 'a) act" where
  [tx_defs]: "act_return x = (\<lambda>s. (Inr x, s))"

definition act_throw :: "error \<Rightarrow> ('s, 'a) act" where
  [tx_defs]: "act_throw e = (\<lambda>s. (Inl e, s))"

definition act_bind :: "('s, 'a) act \<Rightarrow> ('a \<Rightarrow> ('s, 'b) act) \<Rightarrow> ('s, 'b) act" where
  [tx_defs]: "act_bind m f = (\<lambda>s. case m s of (Inl e, s') \<Rightarrow> (Inl e, s') | (Inr x, s') \<Rightarrow> f x s')"

text \<open>\<open>m.catch(h)\<close>, or \<open>try { m } catch { h }\<close>.\<close>

definition act_catch :: "('s, 'a) act \<Rightarrow> (error \<Rightarrow> ('s, 'a) act) \<Rightarrow> ('s, 'a) act" where
  [tx_defs]: "act_catch m h = (\<lambda>s. case m s of (Inl e, s') \<Rightarrow> h e s' | (Inr x, s') \<Rightarrow> (Inr x, s'))"

definition act_gets :: "('s \<Rightarrow> 'a) \<Rightarrow> ('s, 'a) act" where
  [tx_defs]: "act_gets f = (\<lambda>s. (Inr (f s), s))"

fun act_fold :: "('x \<Rightarrow> 'a \<Rightarrow> ('s, 'a) act) \<Rightarrow> 'x list \<Rightarrow> 'a \<Rightarrow> ('s, 'a) act" where
  "act_fold f [] a = act_return a"
| "act_fold f (x # xs) a = act_bind (f x a) (act_fold f xs)"

definition act_when :: "bool \<Rightarrow> ('s, unit) act \<Rightarrow> ('s, unit) act" where
  "act_when b m = (if b then m else act_return ())"

lemma act_return_app [simp]: "act_return x s = (Inr x, s)"
  by (simp add: act_return_def)

lemma act_throw_app [simp]: "act_throw e s = (Inl e, s)"
  by (simp add: act_throw_def)

lemma act_gets_app [simp]: "act_gets f s = (Inr (f s), s)"
  by (simp add: act_gets_def)

lemma act_bind_Inr [simp]: "m s = (Inr x, u) \<Longrightarrow> act_bind m f s = f x u"
  by (simp add: act_bind_def)

lemma act_bind_Inl [simp]: "m s = (Inl e, u) \<Longrightarrow> act_bind m f s = (Inl e, u)"
  by (simp add: act_bind_def)

lemma act_bind_eq_Inr:
  "act_bind m f s = (Inr y, t) \<longleftrightarrow> (\<exists>x u. m s = (Inr x, u) \<and> f x u = (Inr y, t))"
  by (auto simp: act_bind_def split: sum.splits prod.splits)

section \<open>Relations between the states before and after\<close>

definition tx_rel :: "('s \<Rightarrow> 's \<Rightarrow> bool) \<Rightarrow> ('s, 'a) tx \<Rightarrow> bool" where
  "tx_rel R m \<longleftrightarrow> (\<forall>s x t. m s = Inr (x, t) \<longrightarrow> R s t)"

definition act_rel :: "('s \<Rightarrow> 's \<Rightarrow> bool) \<Rightarrow> ('s, 'a) act \<Rightarrow> bool" where
  "act_rel R m \<longleftrightarrow> (\<forall>s. R s (snd (m s)))"

lemma tx_relD: "tx_rel R m \<Longrightarrow> m s = Inr (x, t) \<Longrightarrow> R s t"
  by (simp add: tx_rel_def)

lemma tx_relI [intro?]: "(\<And>s x t. m s = Inr (x, t) \<Longrightarrow> R s t) \<Longrightarrow> tx_rel R m"
  by (simp add: tx_rel_def)

lemma act_relD: "act_rel R m \<Longrightarrow> m s = (r, t) \<Longrightarrow> R s t"
  by (metis act_rel_def snd_conv)

lemma act_rel_snd: "act_rel R m \<Longrightarrow> R s (snd (m s))"
  by (simp add: act_rel_def)

lemma act_relI [intro?]: "(\<And>s r t. m s = (r, t) \<Longrightarrow> R s t) \<Longrightarrow> act_rel R m"
  by (metis act_rel_def prod.collapse)

lemma tx_bindE:
  assumes "tx_bind m f s = Inr (y, t)"
  obtains x u where "m s = Inr (x, u)" and "f x u = Inr (y, t)"
  using assms by (auto simp: tx_bind_eq_Inr)

text \<open>Branching does not touch the state, whatever the relation is.\<close>

lemma tx_rel_if [frame_intros]: "tx_rel R m \<Longrightarrow> tx_rel R m' \<Longrightarrow> tx_rel R (if b then m else m')"
  by simp

lemma tx_rel_option [frame_intros]:
  "tx_rel R m \<Longrightarrow> (\<And>x. tx_rel R (f x)) \<Longrightarrow> tx_rel R (case v of None \<Rightarrow> m | Some x \<Rightarrow> f x)"
  by (cases v) simp_all

lemma tx_rel_list [frame_intros]:
  "tx_rel R m \<Longrightarrow> (\<And>x xs. tx_rel R (f x xs)) \<Longrightarrow> tx_rel R (case v of [] \<Rightarrow> m | x # xs \<Rightarrow> f x xs)"
  by (cases v) simp_all

lemma tx_rel_sum [frame_intros]:
  "(\<And>x. tx_rel R (f x)) \<Longrightarrow> (\<And>y. tx_rel R (g y)) \<Longrightarrow> tx_rel R (case v of Inl x \<Rightarrow> f x | Inr y \<Rightarrow> g y)"
  by (cases v) simp_all

lemma tx_rel_prod [frame_intros]:
  "(\<And>x y. tx_rel R (f x y)) \<Longrightarrow> tx_rel R (case v of (x, y) \<Rightarrow> f x y)"
  by (cases v) simp

lemma tx_rel_Let [frame_intros]: "(\<And>x. tx_rel R (f x)) \<Longrightarrow> tx_rel R (let x = v in f x)"
  by simp

lemma act_rel_if [frame_intros]: "act_rel R m \<Longrightarrow> act_rel R m' \<Longrightarrow> act_rel R (if b then m else m')"
  by simp

lemma act_rel_option [frame_intros]:
  "act_rel R m \<Longrightarrow> (\<And>x. act_rel R (f x)) \<Longrightarrow> act_rel R (case v of None \<Rightarrow> m | Some x \<Rightarrow> f x)"
  by (cases v) simp_all

lemma act_rel_list [frame_intros]:
  "act_rel R m \<Longrightarrow> (\<And>x xs. act_rel R (f x xs)) \<Longrightarrow> act_rel R (case v of [] \<Rightarrow> m | x # xs \<Rightarrow> f x xs)"
  by (cases v) simp_all

lemma act_rel_prod [frame_intros]:
  "(\<And>x y. act_rel R (f x y)) \<Longrightarrow> act_rel R (case v of (x, y) \<Rightarrow> f x y)"
  by (cases v) simp

lemma act_rel_Let [frame_intros]: "(\<And>x. act_rel R (f x)) \<Longrightarrow> act_rel R (let x = v in f x)"
  by simp

text \<open>
  What a preorder on states gives: sequencing, loops, and code that only reads. Every isolation
  and every invariant of the development is an instance.
\<close>

locale frame =
  fixes R :: "'s \<Rightarrow> 's \<Rightarrow> bool"
  assumes frame_refl: "R s s"
    and frame_trans: "R s t \<Longrightarrow> R t u \<Longrightarrow> R s u"
begin

lemma tx_return_frame [frame_intros]: "tx_rel R (tx_return x)"
  by (simp add: tx_rel_def frame_refl)

lemma tx_throw_frame [frame_intros]: "tx_rel R (tx_throw e)"
  by (simp add: tx_rel_def)

lemma tx_gets_frame [frame_intros]: "tx_rel R (tx_gets f)"
  by (simp add: tx_rel_def frame_refl)

lemma tx_bind_frame [frame_intros]:
  assumes "tx_rel R m" and "\<And>x. tx_rel R (f x)"
  shows "tx_rel R (tx_bind m f)"
  by (rule tx_relI) (auto simp: tx_bind_eq_Inr intro: frame_trans dest: tx_relD [OF assms(1)] tx_relD [OF assms(2)])

lemma tx_fold_frame [frame_intros]:
  assumes "\<And>x a. tx_rel R (f x a)"
  shows "tx_rel R (tx_fold f xs a)"
proof (induction xs arbitrary: a)
  case Nil
  show ?case by (simp only: tx_fold.simps tx_return_frame)
next
  case (Cons x xs)
  show ?case by (simp add: tx_bind_frame assms Cons.IH)
qed

lemma tx_when_frame [frame_intros]: "tx_rel R m \<Longrightarrow> tx_rel R (tx_when b m)"
  by (simp add: tx_when_def tx_return_frame)

lemma act_return_frame [frame_intros]: "act_rel R (act_return x)"
  by (simp add: act_rel_def frame_refl)

lemma act_throw_frame [frame_intros]: "act_rel R (act_throw e)"
  by (simp add: act_rel_def frame_refl)

lemma act_gets_frame [frame_intros]: "act_rel R (act_gets f)"
  by (simp add: act_rel_def frame_refl)

lemma act_bind_frame [frame_intros]:
  assumes "act_rel R m" and "\<And>x. act_rel R (f x)"
  shows "act_rel R (act_bind m f)"
proof (rule act_relI)
  fix s r t
  assume run: "act_bind m f s = (r, t)"
  obtain q u where m: "m s = (q, u)" by (cases "m s")
  then have su: "R s u" by (rule act_relD [OF assms(1)])
  show "R s t"
  proof (cases q)
    case (Inl e)
    with run m su show ?thesis by simp
  next
    case (Inr x)
    with run m have "f x u = (r, t)" by simp
    then have "R u t" by (rule act_relD [OF assms(2)])
    with su show ?thesis by (rule frame_trans)
  qed
qed

lemma act_catch_frame [frame_intros]:
  assumes "act_rel R m" and "\<And>e. act_rel R (h e)"
  shows "act_rel R (act_catch m h)"
proof (rule act_relI)
  fix s r t
  assume run: "act_catch m h s = (r, t)"
  obtain q u where m: "m s = (q, u)" by (cases "m s")
  then have su: "R s u" by (rule act_relD [OF assms(1)])
  show "R s t"
  proof (cases q)
    case (Inl e)
    with run m have "h e u = (r, t)" by (simp add: act_catch_def)
    then have "R u t" by (rule act_relD [OF assms(2)])
    with su show ?thesis by (rule frame_trans)
  next
    case (Inr x)
    with run m su show ?thesis by (simp add: act_catch_def)
  qed
qed

lemma act_fold_frame [frame_intros]:
  assumes "\<And>x a. act_rel R (f x a)"
  shows "act_rel R (act_fold f xs a)"
proof (induction xs arbitrary: a)
  case Nil
  show ?case by (simp only: act_fold.simps act_return_frame)
next
  case (Cons x xs)
  show ?case by (simp add: act_bind_frame assms Cons.IH)
qed

lemma act_when_frame [frame_intros]: "act_rel R m \<Longrightarrow> act_rel R (act_when b m)"
  by (simp add: act_when_def act_return_frame)

end

text \<open>Preserving an invariant is the preorder \<open>I s \<longrightarrow> I t\<close>.\<close>

definition keeps :: "('s \<Rightarrow> bool) \<Rightarrow> 's \<Rightarrow> 's \<Rightarrow> bool" where
  "keeps I s t \<longleftrightarrow> (I s \<longrightarrow> I t)"

interpretation keeps_frame: frame "keeps I" for I
  by unfold_locales (auto simp: keeps_def)

lemma tx_rel_mono: "tx_rel R m \<Longrightarrow> (\<And>s t. R s t \<Longrightarrow> Q s t) \<Longrightarrow> tx_rel Q m"
  by (auto simp: tx_rel_def)

lemma act_rel_mono: "act_rel R m \<Longrightarrow> (\<And>s t. R s t \<Longrightarrow> Q s t) \<Longrightarrow> act_rel Q m"
  by (auto simp: act_rel_def)

section \<open>Strings of JavaScript\<close>

text \<open>\<open>String.prototype.toLowerCase\<close> on ASCII.\<close>

definition js_lower_char :: "char \<Rightarrow> char" where
  "js_lower_char c = (let n = (of_char c :: nat) in if 65 \<le> n \<and> n \<le> 90 then char_of (n + 32) else c)"

definition js_lower :: "string \<Rightarrow> string" where
  "js_lower = map js_lower_char"

text \<open>\<open>String.prototype.trim\<close>: the white space and line terminators of ASCII.\<close>

definition js_space :: "char \<Rightarrow> bool" where
  "js_space c \<longleftrightarrow> (let n = (of_char c :: nat) in n = 32 \<or> (9 \<le> n \<and> n \<le> 13))"

definition js_trim :: "string \<Rightarrow> string" where
  "js_trim s = rev (dropWhile js_space (rev (dropWhile js_space s)))"

text \<open>\<open>String.prototype.includes\<close>.\<close>

fun js_starts_with :: "string \<Rightarrow> string \<Rightarrow> bool" where
  "js_starts_with s [] = True"
| "js_starts_with [] (p # ps) = False"
| "js_starts_with (c # cs) (p # ps) = (c = p \<and> js_starts_with cs ps)"

fun js_includes :: "string \<Rightarrow> string \<Rightarrow> bool" where
  "js_includes [] p = (p = [])"
| "js_includes (c # cs) p = (js_starts_with (c # cs) p \<or> js_includes cs p)"

lemma js_starts_with_iff: "js_starts_with s p \<longleftrightarrow> (\<exists>r. s = p @ r)"
  by (induction s p rule: js_starts_with.induct) auto

lemma js_includes_iff: "js_includes s p \<longleftrightarrow> (\<exists>l r. s = l @ p @ r)"
proof (induction s)
  case Nil
  then show ?case by simp
next
  case (Cons c cs)
  have "(\<exists>l r. c # cs = l @ p @ r) \<longleftrightarrow> (\<exists>r. c # cs = p @ r) \<or> (\<exists>l r. cs = l @ p @ r)"
    by (metis append_Cons append_eq_Cons_conv append_Nil)
  with Cons show ?case by (simp add: js_starts_with_iff)
qed

subsection \<open>Numbers as text\<close>

definition digit_char :: "nat \<Rightarrow> char" where
  "digit_char d = char_of (48 + d)"

definition js_digit :: "char \<Rightarrow> bool" where
  "js_digit c \<longleftrightarrow> (let n = (of_char c :: nat) in 48 \<le> n \<and> n \<le> 57)"

definition digit_value :: "char \<Rightarrow> nat" where
  "digit_value c = of_char c - 48"

fun nat_text :: "nat \<Rightarrow> string" where
  "nat_text n = (if n < 10 then [digit_char n] else nat_text (n div 10) @ [digit_char (n mod 10)])"

declare nat_text.simps [simp del]

definition int_text :: "int \<Rightarrow> string" where
  "int_text i = (if i < 0 then CHR ''-'' # nat_text (nat (- i)) else nat_text (nat i))"

text \<open>\<open>Number(s)\<close> on a string of digits.\<close>

definition digits_value :: "string \<Rightarrow> nat" where
  "digits_value = foldl (\<lambda>n c. 10 * n + digit_value c) 0"

lemma js_digit_digit_char [simp]: "d < 10 \<Longrightarrow> js_digit (digit_char d)"
  by (simp add: js_digit_def digit_char_def)

lemma digit_value_digit_char [simp]: "d < 10 \<Longrightarrow> digit_value (digit_char d) = d"
  by (simp add: digit_value_def digit_char_def)

lemma nat_text_digits: "list_all js_digit (nat_text n)"
proof (induction n rule: nat_text.induct)
  case (1 n)
  then show ?case by (subst nat_text.simps) simp
qed

lemma nat_text_nonempty [simp]: "nat_text n \<noteq> []"
  by (subst nat_text.simps) simp

lemma digits_value_nat_text [simp]: "digits_value (nat_text n) = n"
proof (induction n rule: nat_text.induct)
  case (1 n)
  show ?case
  proof (cases "n < 10")
    case True
    then show ?thesis by (subst nat_text.simps) (simp add: digits_value_def)
  next
    case False
    with 1 have "digits_value (nat_text (n div 10)) = n div 10" by simp
    with False show ?thesis
      by (subst nat_text.simps) (simp add: digits_value_def)
  qed
qed

text \<open>
  How the engine prints a number that is not an integer, a uuid and a date; the rest of
  \<open>String(v)\<close> is \<open>js_text\<close>.
\<close>

record js_format =
  fmt_number :: "rat \<Rightarrow> string"
  fmt_uuid :: "uuid \<Rightarrow> string"
  fmt_date :: "msec \<Rightarrow> string"

definition js_number_text :: "js_format \<Rightarrow> rat \<Rightarrow> string" where
  "js_number_text F q = (if of_int \<lfloor>q\<rfloor> = q then int_text \<lfloor>q\<rfloor> else fmt_number F q)"

text \<open>\<open>Math.round\<close>.\<close>

definition js_round :: "rat \<Rightarrow> rat" where
  "js_round x = of_int \<lfloor>x + 1 / 2\<rfloor>"

fun js_join :: "string \<Rightarrow> string list \<Rightarrow> string" where
  "js_join sep [] = []"
| "js_join sep [s] = s"
| "js_join sep (s # ss) = s @ sep @ js_join sep ss"

fun js_text :: "js_format \<Rightarrow> json \<Rightarrow> string" where
  "js_text F JNull = ''null''"
| "js_text F (JBool b) = (if b then ''true'' else ''false'')"
| "js_text F (JNum q) = js_number_text F q"
| "js_text F (JStr s) = s"
| "js_text F (JId u) = fmt_uuid F u"
| "js_text F (JDate d) = fmt_date F d"
| "js_text F (JArr vs) = js_join '','' (map (\<lambda>v. if v = JNull then [] else js_text F v) vs)"
| "js_text F (JObj kvs) = ''[object Object]''"

text \<open>\<open>o.k\<close> for an object's own property, \<open>undefined\<close> being \<open>None\<close>; \<open>${o.k}\<close>; \<open>o.k ?? d\<close>.\<close>

definition js_prop :: "json \<Rightarrow> string \<Rightarrow> json option" where
  "js_prop j k = (case j of JObj kvs \<Rightarrow> map_of kvs k | _ \<Rightarrow> None)"

definition js_interp :: "js_format \<Rightarrow> json option \<Rightarrow> string" where
  "js_interp F v = (case v of None \<Rightarrow> ''undefined'' | Some j \<Rightarrow> js_text F j)"

definition js_or_else :: "json option \<Rightarrow> json \<Rightarrow> json" where
  "js_or_else v d = (case v of None \<Rightarrow> d | Some JNull \<Rightarrow> d | Some j \<Rightarrow> j)"

text \<open>Truthiness: \<open>if (v)\<close>.\<close>

definition js_truthy :: "json option \<Rightarrow> bool" where
  "js_truthy v = (case v of None \<Rightarrow> False | Some JNull \<Rightarrow> False | Some (JBool b) \<Rightarrow> b
     | Some (JNum q) \<Rightarrow> q \<noteq> 0 | Some (JStr s) \<Rightarrow> s \<noteq> [] | Some _ \<Rightarrow> True)"

section \<open>Arrays and sets\<close>

text \<open>\<open>Array.from(new Set(xs))\<close>: the first occurrence of every element, in order.\<close>

fun js_unique :: "'a list \<Rightarrow> 'a list" where
  "js_unique [] = []"
| "js_unique (x # xs) = x # filter (\<lambda>y. y \<noteq> x) (js_unique xs)"

lemma set_js_unique [simp]: "set (js_unique xs) = set xs"
  by (induction xs) auto

lemma distinct_js_unique [simp]: "distinct (js_unique xs)"
  by (induction xs) auto

lemma js_unique_distinct: "distinct xs \<Longrightarrow> js_unique xs = xs"
  by (induction xs) (auto simp: filter_id_conv)

text \<open>\<open>xs.find(p)\<close> and the destructuring \<open>const [x] = xs\<close>: the first element, if any.\<close>

definition first_of :: "'a list \<Rightarrow> 'a option" where
  "first_of xs = (case xs of [] \<Rightarrow> None | x # _ \<Rightarrow> Some x)"

lemma first_of_simps [simp]: "first_of [] = None" "first_of (x # xs) = Some x"
  by (simp_all add: first_of_def)

lemma first_of_eq_None [simp]: "first_of xs = None \<longleftrightarrow> xs = []"
  by (cases xs) simp_all

lemma first_of_filter_SomeD: "first_of (filter P xs) = Some x \<Longrightarrow> x \<in> set xs \<and> P x"
  by (cases "filter P xs") (auto simp: filter_eq_Cons_iff)

text \<open>\<open>a ?? b\<close> on optional values.\<close>

definition coalesce :: "'a option \<Rightarrow> 'a option \<Rightarrow> 'a option" where
  "coalesce a b = (case a of None \<Rightarrow> b | Some x \<Rightarrow> Some x)"

lemma coalesce_simps [simp]: "coalesce None b = b" "coalesce (Some x) b = Some x"
  by (simp_all add: coalesce_def)

end
