(* ===== verification/Database.thy ===== *)
theory Database
  imports Prelude "HOL-Library.Product_Lexorder"
begin

text \<open>
  The Postgres database as the services see it: tables of rows that carry a tenant, the row level
  security every migration puts on them, the SQL statements as operations on the state, the
  transaction of \<open>withTenantContext\<close>, and the tables of the foundation schema
  (\<open>database/migrations/1783945249566-CreateFoundationSchema.ts\<close>).

  A table is a list of rows in insertion order; a \<open>SELECT\<close> without \<open>ORDER BY\<close> returns that
  order. A statement names its table by the selector and the update function of a record field;
  the locale \<open>tenant_table\<close> says what the two must satisfy, and proves what row level security
  gives: a statement reads only rows of the current tenant, and leaves the rows of all other
  tenants as they are. Every table of the development interprets it.

  The clock and the supply of fresh identifiers (\<open>gen_random_uuid\<close>, \<open>randomUUID\<close>) are fields of
  the state: one operation reads one instant, and the identifiers it generates are new.
\<close>

section \<open>Rows and row level security\<close>

record row =
  row_id :: uuid
  tenant_id :: uuid

text \<open>
  A query runner is known by the value of \<open>app.current_tenant\<close> in its session; every policy
  compares the row's tenant with it, for reading (\<open>USING\<close>) and for writing (\<open>WITH CHECK\<close>).
\<close>

type_synonym query_runner = uuid

definition tenant_isolation :: "query_runner \<Rightarrow> 'r row_scheme \<Rightarrow> bool" where
  "tenant_isolation qr r \<longleftrightarrow> tenant_id r = qr"

text \<open>The rows the policy shows, and the rows it hides.\<close>

definition visible :: "query_runner \<Rightarrow> 'r row_scheme list \<Rightarrow> 'r row_scheme list" where
  "visible qr = filter (tenant_isolation qr)"

definition others :: "query_runner \<Rightarrow> 'r row_scheme list \<Rightarrow> 'r row_scheme list" where
  "others qr = filter (\<lambda>r. \<not> tenant_isolation qr r)"

text \<open>The SQLSTATEs the database raises by itself.\<close>

definition insufficient_privilege :: error where
  "insufficient_privilege = DbError ''42501''"

definition unique_violation :: error where
  "unique_violation = DbError ''23505''"

definition not_null_violation :: error where
  "not_null_violation = DbError ''23502''"

definition foreign_key_violation :: error where
  "foreign_key_violation = DbError ''23503''"

section \<open>Statements\<close>

definition sql_select ::
  "('s \<Rightarrow> 'r row_scheme list) \<Rightarrow> query_runner \<Rightarrow> ('r row_scheme \<Rightarrow> bool) \<Rightarrow> ('s, 'r row_scheme list) tx" where
  "sql_select tbl qr P = (\<lambda>s. Inr (filter P (visible qr (tbl s)), s))"

text \<open>\<open>const [row] = SELECT \<dots> WHERE P\<close>.\<close>

definition sql_first ::
  "('s \<Rightarrow> 'r row_scheme list) \<Rightarrow> query_runner \<Rightarrow> ('r row_scheme \<Rightarrow> bool) \<Rightarrow> ('s, 'r row_scheme option) tx" where
  "sql_first tbl qr P = (\<lambda>s. Inr (first_of (filter P (visible qr (tbl s))), s))"

definition by_id :: "uuid \<Rightarrow> 'r row_scheme \<Rightarrow> bool" where
  "by_id i r \<longleftrightarrow> row_id r = i"

definition sql_insert ::
  "(('r row_scheme list \<Rightarrow> 'r row_scheme list) \<Rightarrow> 's \<Rightarrow> 's) \<Rightarrow> query_runner \<Rightarrow> 'r row_scheme \<Rightarrow>
     ('s, 'r row_scheme) tx" where
  "sql_insert upd qr r = (\<lambda>s.
     if tenant_isolation qr r then Inr (r, upd (\<lambda>rs. rs @ [r]) s) else Inl insufficient_privilege)"

text \<open>\<open>UPDATE \<dots> SET f WHERE P RETURNING *\<close>.\<close>

definition update_rows ::
  "query_runner \<Rightarrow> ('r row_scheme \<Rightarrow> bool) \<Rightarrow> ('r row_scheme \<Rightarrow> 'r row_scheme) \<Rightarrow>
     'r row_scheme list \<Rightarrow> 'r row_scheme list" where
  "update_rows qr P f = map (\<lambda>r. if tenant_isolation qr r \<and> P r then f r else r)"

definition sql_update ::
  "('s \<Rightarrow> 'r row_scheme list) \<Rightarrow> (('r row_scheme list \<Rightarrow> 'r row_scheme list) \<Rightarrow> 's \<Rightarrow> 's) \<Rightarrow>
     query_runner \<Rightarrow> ('r row_scheme \<Rightarrow> bool) \<Rightarrow> ('r row_scheme \<Rightarrow> 'r row_scheme) \<Rightarrow>
     ('s, 'r row_scheme list) tx" where
  "sql_update tbl upd qr P f = (\<lambda>s.
     let changed = map f (filter P (visible qr (tbl s))) in
     if list_all (tenant_isolation qr) changed
     then Inr (changed, upd (update_rows qr P f) s)
     else Inl insufficient_privilege)"

text \<open>\<open>DELETE FROM \<dots> WHERE P RETURNING *\<close>.\<close>

definition delete_rows ::
  "query_runner \<Rightarrow> ('r row_scheme \<Rightarrow> bool) \<Rightarrow> 'r row_scheme list \<Rightarrow> 'r row_scheme list" where
  "delete_rows qr P = filter (\<lambda>r. \<not> (tenant_isolation qr r \<and> P r))"

definition sql_delete ::
  "('s \<Rightarrow> 'r row_scheme list) \<Rightarrow> (('r row_scheme list \<Rightarrow> 'r row_scheme list) \<Rightarrow> 's \<Rightarrow> 's) \<Rightarrow>
     query_runner \<Rightarrow> ('r row_scheme \<Rightarrow> bool) \<Rightarrow> ('s, 'r row_scheme list) tx" where
  "sql_delete tbl upd qr P = (\<lambda>s.
     Inr (filter P (visible qr (tbl s)), upd (delete_rows qr P) s))"

text \<open>
  The assignments of an \<open>UPDATE\<close> the services build from a request body: a field that is absent
  assigns nothing; assigning \<open>null\<close> to a column that is \<open>NOT NULL\<close> is an error of the database,
  here an assignment without effect function. \<open>None\<close> is an absent field; for a column that must not
  be null, \<open>Some None\<close> is \<open>null\<close> and \<open>Some (Some v)\<close> a value.
\<close>

type_synonym 'r assignments = "('r \<Rightarrow> 'r) option list"

definition set_nullable :: "'v option \<Rightarrow> ('v \<Rightarrow> 'r \<Rightarrow> 'r) \<Rightarrow> 'r assignments" where
  "set_nullable v f = (case v of None \<Rightarrow> [] | Some w \<Rightarrow> [Some (f w)])"

definition set_required :: "'v option option \<Rightarrow> ('v \<Rightarrow> 'r \<Rightarrow> 'r) \<Rightarrow> 'r assignments" where
  "set_required v f = (case v of None \<Rightarrow> [] | Some w \<Rightarrow> [map_option f w])"

definition apply_assignments :: "'r assignments \<Rightarrow> 'r \<Rightarrow> 'r" where
  "apply_assignments sets = fold (\<lambda>f. case f of None \<Rightarrow> id | Some g \<Rightarrow> g) sets"

definition sql_patch ::
  "('s \<Rightarrow> 'r row_scheme list) \<Rightarrow> (('r row_scheme list \<Rightarrow> 'r row_scheme list) \<Rightarrow> 's \<Rightarrow> 's) \<Rightarrow>
     query_runner \<Rightarrow> ('r row_scheme \<Rightarrow> bool) \<Rightarrow> 'r row_scheme assignments \<Rightarrow> ('s, 'r row_scheme list) tx" where
  "sql_patch tbl upd qr P sets = (\<lambda>s.
     if None \<in> set sets \<and> filter P (visible qr (tbl s)) \<noteq> [] then Inl not_null_violation
     else sql_update tbl upd qr P (apply_assignments sets) s)"

text \<open>\<open>const [row] = SELECT \<dots> WHERE id = i; if (!row) throw new NotFoundException(\<dots>)\<close>.\<close>

definition find_row ::
  "string \<Rightarrow> ('s \<Rightarrow> 'r row_scheme list) \<Rightarrow> query_runner \<Rightarrow> uuid \<Rightarrow> ('s, 'r row_scheme) tx" where
  "find_row label tbl qr i =
     tx_bind (sql_first tbl qr (by_id i)) (\<lambda>r. case r of None \<Rightarrow> tx_throw (NotFound label i) | Some r \<Rightarrow> tx_return r)"

text \<open>\<open>rows[0]\<close> of an \<open>UPDATE \<dots> RETURNING\<close>, and the exception when there is none.\<close>

definition first_row :: "string \<Rightarrow> uuid \<Rightarrow> 'r list \<Rightarrow> ('s, 'r) tx" where
  "first_row label i rows = (case rows of [] \<Rightarrow> tx_throw (NotFound label i) | r # _ \<Rightarrow> tx_return r)"

text \<open>\<open>DELETE \<dots> WHERE id = i RETURNING id\<close>, and the exception when nothing was deleted.\<close>

definition remove_row ::
  "string \<Rightarrow> ('s \<Rightarrow> 'r row_scheme list) \<Rightarrow> (('r row_scheme list \<Rightarrow> 'r row_scheme list) \<Rightarrow> 's \<Rightarrow> 's) \<Rightarrow>
     query_runner \<Rightarrow> uuid \<Rightarrow> ('s, unit) tx" where
  "remove_row label tbl upd qr i =
     tx_bind (sql_delete tbl upd qr (by_id i)) (\<lambda>rows.
       if rows = [] then tx_throw (NotFound label i) else tx_return ())"

text \<open>\<open>ORDER BY\<close>: a stable sort by the key.\<close>

definition order_by :: "('r \<Rightarrow> 'k :: linorder) \<Rightarrow> 'r list \<Rightarrow> 'r list" where
  "order_by k rows = sort_key k rows"

section \<open>The transaction\<close>

text \<open>
  \<open>withTenantContext\<close>: the work runs with \<open>app.current_tenant\<close> set to the tenant; its state is
  committed when it returns, and rolled back before the exception goes on when it raises.
\<close>

definition withTenantContext :: "uuid \<Rightarrow> (query_runner \<Rightarrow> ('s, 'a) tx) \<Rightarrow> ('s, 'a) act" where
  "withTenantContext tenantId work = (\<lambda>s.
     case work tenantId s of Inl e \<Rightarrow> (Inl e, s) | Inr (x, s') \<Rightarrow> (Inr x, s'))"

lemma withTenantContext_Inr:
  "withTenantContext t work s = (Inr x, s') \<longleftrightarrow> work t s = Inr (x, s')"
  by (auto simp: withTenantContext_def split: sum.splits)

lemma withTenantContext_Inl:
  "withTenantContext t work s = (Inl e, s') \<longleftrightarrow> work t s = Inl e \<and> s' = s"
  by (auto simp: withTenantContext_def split: sum.splits)

context frame
begin

lemma withTenantContext_frame [frame_intros]:
  "tx_rel R (work t) \<Longrightarrow> act_rel R (withTenantContext t work)"
  unfolding act_rel_def withTenantContext_def
  by (auto simp: frame_refl dest: tx_relD split: sum.splits)

lemma sql_select_frame [frame_intros]: "tx_rel R (sql_select tbl qr P)"
  by (simp add: tx_rel_def sql_select_def frame_refl)

lemma sql_first_frame [frame_intros]: "tx_rel R (sql_first tbl qr P)"
  by (simp add: tx_rel_def sql_first_def frame_refl)

lemma find_row_frame [frame_intros]: "tx_rel R (find_row label tbl qr i)"
  unfolding find_row_def by (intro frame_intros)

lemma first_row_frame [frame_intros]: "tx_rel R (first_row label i rows)"
  unfolding first_row_def by (intro frame_intros)

lemma remove_row_frame [frame_intros]:
  "tx_rel R (sql_delete tbl upd qr (by_id i)) \<Longrightarrow> tx_rel R (remove_row label tbl upd qr i)"
  unfolding remove_row_def by (intro frame_intros)

lemma sql_patch_frame [frame_intros]:
  "tx_rel R (sql_update tbl upd qr P (apply_assignments sets)) \<Longrightarrow> tx_rel R (sql_patch tbl upd qr P sets)"
  unfolding sql_patch_def tx_rel_def by simp

end

section \<open>What row level security gives\<close>

lemma visible_simps [simp]:
  "visible qr [] = []"
  "visible qr (r # rs) = (if tenant_isolation qr r then r # visible qr rs else visible qr rs)"
  "visible qr (rs @ rs') = visible qr rs @ visible qr rs'"
  by (simp_all add: visible_def)

lemma set_visible [simp]: "r \<in> set (visible qr rs) \<longleftrightarrow> r \<in> set rs \<and> tenant_id r = qr"
  by (auto simp: visible_def tenant_isolation_def)

lemma others_append [simp]: "others qr (rs @ rs') = others qr rs @ others qr rs'"
  by (simp add: others_def)

lemma others_update_rows:
  assumes "list_all (tenant_isolation qr) (map f (filter P (visible qr rs)))"
  shows "others qr (update_rows qr P f rs) = others qr rs"
  using assms by (induction rs) (auto simp: others_def update_rows_def)

lemma others_delete_rows [simp]: "others qr (delete_rows qr P rs) = others qr rs"
  by (induction rs) (auto simp: others_def delete_rows_def)

lemma visible_delete_rows [simp]: "visible qr (delete_rows qr P rs) = filter (\<lambda>r. \<not> P r) (visible qr rs)"
  by (induction rs) (auto simp: delete_rows_def)

lemma others_insert: "tenant_isolation qr r \<Longrightarrow> others qr [r] = []"
  by (simp add: others_def)

lemma visible_update_rows:
  assumes "\<And>r. tenant_id (f r) = tenant_id r"
  shows "visible qr (update_rows qr P f rs) = map (\<lambda>r. if P r then f r else r) (visible qr rs)"
  using assms by (induction rs) (auto simp: visible_def update_rows_def tenant_isolation_def)

lemma set_update_rowsD: "r \<in> set (update_rows qr P f rs) \<Longrightarrow> \<exists>r0 \<in> set rs. r = r0 \<or> (r = f r0 \<and> P r0 \<and> tenant_id r0 = qr)"
  by (auto simp: update_rows_def tenant_isolation_def split: if_splits)

lemma length_update_rows [simp]: "length (update_rows qr P f rs) = length rs"
  by (simp add: update_rows_def)

lemma map_update_rows:
  assumes "\<And>r. g (f r) = g r"
  shows "map g (update_rows qr P f rs) = map g rs"
  using assms by (induction rs) (auto simp: update_rows_def)

lemma row_id_inj: "distinct (map row_id rs) \<Longrightarrow> r \<in> set rs \<Longrightarrow> r' \<in> set rs \<Longrightarrow> row_id r = row_id r' \<Longrightarrow> r = r'"
  by (meson distinct_map inj_onD)

lemma filter_by_id:
  assumes "distinct (map row_id rs)" and "r \<in> set rs"
  shows "filter (by_id (row_id r)) rs = [r]"
proof -
  have "filter (by_id (row_id r)) rs = filter (\<lambda>x. x = r) rs"
    by (rule filter_cong) (use assms in \<open>auto simp: by_id_def dest: row_id_inj\<close>)
  also have "\<dots> = [r]"
    using assms by (induction rs) (auto simp: filter_empty_conv)
  finally show ?thesis .
qed

lemma distinct_visible: "distinct (map row_id rs) \<Longrightarrow> distinct (map row_id (visible qr rs))"
  by (simp add: visible_def distinct_map_filter)

lemma visible_by_id:
  assumes "distinct (map row_id rs)" and "r \<in> set rs" and "tenant_id r = qr"
  shows "filter (by_id (row_id r)) (visible qr rs) = [r]"
  using assms by (intro filter_by_id distinct_visible) simp_all

text \<open>
  A table of the state, and the relation that says that the other tenants' rows of all tables are
  as they were. The three statements that write keep that relation; reading keeps it anyway.
\<close>

locale tenant_table =
  fixes tbl :: "'s \<Rightarrow> 'r row_scheme list"
    and upd :: "('r row_scheme list \<Rightarrow> 'r row_scheme list) \<Rightarrow> 's \<Rightarrow> 's"
    and iso :: "query_runner \<Rightarrow> 's \<Rightarrow> 's \<Rightarrow> bool"
  assumes tbl_upd: "tbl (upd f s) = f (tbl s)"
    and iso_upd: "others qr (f (tbl s)) = others qr (tbl s) \<Longrightarrow> iso qr s (upd f s)"
begin

lemma sql_insert_iso [frame_intros]: "tx_rel (iso qr) (sql_insert upd qr r)"
  by (rule tx_relI)
    (auto simp: sql_insert_def others_insert intro!: iso_upd split: if_splits)

lemma sql_update_iso [frame_intros]: "tx_rel (iso qr) (sql_update tbl upd qr P f)"
  by (rule tx_relI)
    (auto simp: sql_update_def Let_def others_update_rows intro!: iso_upd split: if_splits)

lemma sql_delete_iso [frame_intros]: "tx_rel (iso qr) (sql_delete tbl upd qr P)"
  by (rule tx_relI) (auto simp: sql_delete_def intro!: iso_upd)

text \<open>Reading back what a statement wrote.\<close>

lemma select_after_insert:
  assumes "sql_insert upd qr r s = Inr (x, t)"
  shows "sql_select tbl qr P t = Inr (filter P (visible qr (tbl s)) @ filter P [r], t)"
  using assms by (auto simp: sql_insert_def sql_select_def tbl_upd split: if_splits)

lemma select_after_delete:
  assumes "sql_delete tbl upd qr P s = Inr (xs, t)"
  shows "sql_select tbl qr Q t = Inr (filter (\<lambda>r. \<not> P r \<and> Q r) (visible qr (tbl s)), t)"
  using assms by (auto simp: sql_delete_def sql_select_def tbl_upd conj_commute)

lemma find_after_insert:
  assumes "sql_insert upd qr r s = Inr (x, t)" and "row_id r \<notin> row_id ` set (tbl s)"
  shows "find_row label tbl qr (row_id r) t = Inr (r, t)"
proof -
  have "filter (by_id (row_id r)) (visible qr (tbl s)) = []"
    using assms(2) by (force simp: filter_empty_conv by_id_def image_iff)
  with assms(1) show ?thesis
    by (auto simp: sql_insert_def find_row_def sql_first_def tbl_upd by_id_def split: if_splits)
qed

lemma find_after_remove:
  assumes "remove_row label tbl upd qr i s = Inr (x, t)"
  shows "find_row label tbl qr i t = Inl (NotFound label i)"
  using assms
  by (auto simp: remove_row_def sql_delete_def find_row_def sql_first_def tbl_upd tx_bind_def split: if_splits)

end

section \<open>Invariants of the rows of a table\<close>

named_theorems row_intros \<open>rules that prove that a statement keeps a predicate on the state\<close>

definition rows_ok :: "('s \<Rightarrow> 'r list) \<Rightarrow> ('r \<Rightarrow> bool) \<Rightarrow> 's \<Rightarrow> bool" where
  "rows_ok tbl P s \<longleftrightarrow> list_all P (tbl s)"

context tenant_table
begin

lemma sql_insert_rows: "P r \<Longrightarrow> tx_rel (keeps (rows_ok tbl P)) (sql_insert upd qr r)"
  by (rule tx_relI) (auto simp: keeps_def rows_ok_def sql_insert_def tbl_upd split: if_splits)

lemma sql_update_rows:
  assumes "\<And>r. P r \<Longrightarrow> W r \<Longrightarrow> P (f r)"
  shows "tx_rel (keeps (rows_ok tbl P)) (sql_update tbl upd qr W f)"
  using assms
  by (intro tx_relI)
    (auto simp: keeps_def rows_ok_def sql_update_def tbl_upd Let_def list_all_iff dest!: set_update_rowsD split: if_splits)

lemma sql_delete_rows: "tx_rel (keeps (rows_ok tbl P)) (sql_delete tbl upd qr W)"
  by (rule tx_relI) (auto simp: keeps_def rows_ok_def sql_delete_def tbl_upd list_all_iff delete_rows_def)

end

text \<open>Statements on a table the predicate does not look at.\<close>

lemma sql_insert_other [row_intros]:
  "(\<And>f s. I (upd f s) = I s) \<Longrightarrow> tx_rel (keeps I) (sql_insert upd qr r)"
  by (rule tx_relI) (auto simp: keeps_def sql_insert_def split: if_splits)

lemma sql_update_other [row_intros]:
  "(\<And>f s. I (upd f s) = I s) \<Longrightarrow> tx_rel (keeps I) (sql_update tbl upd qr W g)"
  by (rule tx_relI) (auto simp: keeps_def sql_update_def Let_def split: if_splits)

lemma sql_delete_other [row_intros]:
  "(\<And>f s. I (upd f s) = I s) \<Longrightarrow> tx_rel (keeps I) (sql_delete tbl upd qr W)"
  by (rule tx_relI) (auto simp: keeps_def sql_delete_def)

text \<open>What a body leaves as it is: a function of the state with the same value before and after.\<close>

definition same :: "('s \<Rightarrow> 'b) \<Rightarrow> 's \<Rightarrow> 's \<Rightarrow> bool" where
  "same f s t \<longleftrightarrow> f t = f s"

interpretation same_frame: frame "same f" for f
  by unfold_locales (simp_all add: same_def)

lemma sql_insert_same [row_intros]:
  "(\<And>s. f (upd (\<lambda>rs. rs @ [r]) s) = f s) \<Longrightarrow> tx_rel (same f) (sql_insert upd qr r)"
  by (rule tx_relI) (auto simp: same_def sql_insert_def split: if_splits)

lemma sql_update_same [row_intros]:
  "(\<And>s. f (upd (update_rows qr W g) s) = f s) \<Longrightarrow> tx_rel (same f) (sql_update tbl upd qr W g)"
  by (rule tx_relI) (auto simp: same_def sql_update_def Let_def split: if_splits)

lemma sql_delete_same [row_intros]:
  "(\<And>s. f (upd (delete_rows qr W) s) = f s) \<Longrightarrow> tx_rel (same f) (sql_delete tbl upd qr W)"
  by (rule tx_relI) (auto simp: same_def sql_delete_def)

lemma reads_only: "tx_rel (same (\<lambda>s. s)) m \<Longrightarrow> m s = Inr (x, t) \<Longrightarrow> t = s"
  by (drule tx_relD) (simp_all add: same_def)

lemma find_row_eq_Inr: "find_row l tbl qr i s = Inr (r, t) \<longleftrightarrow> t = s \<and> first_of (filter (by_id i) (visible qr (tbl s))) = Some r"
  by (auto simp: find_row_def sql_first_def tx_bind_def split: option.splits)

lemma find_row_found:
  assumes "k \<in> set (tbl s)" and "row_id k = i" and "tenant_id k = qr"
  shows "\<exists>r. find_row l tbl qr i s = Inr (r, s)"
proof -
  have "filter (by_id i) (visible qr (tbl s)) \<noteq> []" using assms by (auto simp: filter_empty_conv by_id_def)
  then show ?thesis by (cases "filter (by_id i) (visible qr (tbl s))") (simp_all add: find_row_def sql_first_def tx_bind_def)
qed

section \<open>The foundation schema\<close>

text \<open>
  \<open>tenants\<close> has no row level security: it is what a tenant is. The business hours are the columns
  \<open>1784210000000-AddTenantBusinessHours\<close> adds.
\<close>

datatype plan_tier = Internal | Starter | Growth | Scale

datatype cost_rate_display = List_Price | Negotiated

record tenant =
  tn_id :: uuid
  tn_name :: string
  tn_slug :: string
  tn_plan_tier :: plan_tier
  financial_year_start_month :: int
  tn_cost_rate_display :: cost_rate_display
  tn_created_at :: msec
  tn_updated_at :: msec
  business_hours_start_minute :: int
  business_hours_end_minute :: int
  business_hours_days :: "int list"
  business_hours_timezone :: string

datatype user_role = Role_Admin | Role_Agent | Role_Viewer

record user = row +
  us_email :: string
  us_name :: string
  us_password_hash :: string
  us_role :: user_role
  us_created_at :: msec
  us_updated_at :: msec
  us_totp_secret :: "string option"
  us_totp_enabled :: bool

record event = row +
  ev_event_type :: string
  ev_payload :: json
  ev_created_at :: msec

datatype notification_status = Queued | Sent | Failed

record notification = row +
  nf_channel :: string
  nf_recipient :: string
  nf_template_name :: string
  nf_payload :: json
  nf_status :: notification_status
  nf_created_at :: msec
  nf_sent_at :: "msec option"

text \<open>
  The Redis stream of the event bus: the entries in the order \<open>XADD\<close> numbered them, and for every
  consumer group how many entries it was given and which of them it has not acknowledged.
\<close>

record domain_event =
  de_id :: uuid
  de_tenant_id :: uuid
  de_event_type :: string
  de_payload :: json
  de_created_at :: msec

record consumer_group =
  cg_delivered :: nat
  cg_pending :: "nat list"

text \<open>A message a channel accepted, in order.\<close>

record rendered_message =
  rm_subject :: string
  rm_body :: string
  rm_html :: "string option"

record outgoing =
  og_notification :: uuid
  og_channel :: string
  og_recipient :: string
  og_message :: rendered_message

record platform =
  clock :: msec
  next_uuid :: uuid
  tenants :: "tenant list"
  users :: "user list"
  events :: "event list"
  notifications :: "notification list"
  redis_up :: bool
  stream :: "domain_event list"
  consumer_groups :: "string \<Rightarrow> consumer_group option"
  outbox :: "outgoing list"

text \<open>\<open>gen_random_uuid()\<close>: an identifier no row has yet.\<close>

definition gen_random_uuid :: "('s platform_scheme, uuid) tx" where
  "gen_random_uuid = (\<lambda>s. Inr (next_uuid s, s\<lparr>next_uuid := Suc (next_uuid s)\<rparr>))"

text \<open>\<open>now()\<close> and \<open>new Date()\<close>.\<close>

definition sql_now :: "('s platform_scheme, msec) tx" where
  "sql_now = tx_gets clock"

definition randomUUID :: "('s platform_scheme, uuid) act" where
  "randomUUID = (\<lambda>s. (Inr (next_uuid s), s\<lparr>next_uuid := Suc (next_uuid s)\<rparr>))"

text \<open>
  What an operation of the platform on behalf of a tenant may change: the rows of the foundation
  tables that belong to other tenants, the tenants themselves, the clock and every table of the
  modules built on top (\<open>platform.more\<close>) are as they were.
\<close>

definition platform_frame :: "query_runner \<Rightarrow> 's platform_scheme \<Rightarrow> 's platform_scheme \<Rightarrow> bool" where
  "platform_frame qr s t \<longleftrightarrow>
     clock t = clock s \<and> tenants t = tenants s \<and>
     others qr (users t) = others qr (users s) \<and>
     others qr (events t) = others qr (events s) \<and>
     others qr (notifications t) = others qr (notifications s) \<and>
     platform.more t = platform.more s"

interpretation platform_frame: frame "platform_frame qr" for qr
  by unfold_locales (simp_all add: platform_frame_def)

interpretation users_tbl: tenant_table users users_update platform_frame
  by unfold_locales (simp_all add: platform_frame_def)

interpretation events_tbl: tenant_table events events_update platform_frame
  by unfold_locales (simp_all add: platform_frame_def)

interpretation notifications_tbl: tenant_table notifications notifications_update platform_frame
  by unfold_locales (simp_all add: platform_frame_def)

lemma gen_random_uuid_platform_frame [frame_intros]: "tx_rel (platform_frame qr) gen_random_uuid"
  by (rule tx_relI) (auto simp: gen_random_uuid_def platform_frame_def)

lemma randomUUID_platform_frame [frame_intros]: "act_rel (platform_frame qr) randomUUID"
  by (rule act_relI) (auto simp: randomUUID_def platform_frame_def)

lemma sql_now_frame [frame_intros]: "tx_rel (platform_frame qr) sql_now"
  unfolding sql_now_def by (rule frame_intros)

lemma gen_random_uuid_keeps [row_intros]:
  "(\<And>s i. I (s\<lparr>next_uuid := i\<rparr>) = I s) \<Longrightarrow> tx_rel (keeps I) gen_random_uuid"
  by (rule tx_relI) (auto simp: gen_random_uuid_def keeps_def)

lemma sql_now_keeps [row_intros]: "tx_rel (keeps I) sql_now"
  unfolding sql_now_def by (rule keeps_frame.tx_gets_frame)

lemma gen_random_uuid_same [row_intros]:
  "(\<And>s i. f (s\<lparr>next_uuid := i\<rparr>) = f s) \<Longrightarrow> tx_rel (same f) gen_random_uuid"
  by (rule tx_relI) (auto simp: gen_random_uuid_def same_def)

lemma sql_now_same [row_intros]: "tx_rel (same f) sql_now"
  unfolding sql_now_def by (rule same_frame.tx_gets_frame)

end
