(* ===== verification/Event_Bus.thy ===== *)
theory Event_Bus
  imports Database
begin

text \<open>
  The event bus (\<open>event-bus/event-bus.service.ts\<close>): \<open>publish\<close> writes the event to the \<open>events\<close>
  table and then to the Redis stream; a consumer group is created by \<open>consume\<close> and served by the
  loop, of which \<open>loop_iteration\<close> is one turn: read up to ten entries no consumer of the group was
  given yet, hand each to the handler, acknowledge it when the handler returns.

  Entry \<open>i\<close> of the stream is the \<open>i\<close>-th \<open>XADD\<close>. Redis is a part of the state
  (\<open>stream\<close>, \<open>consumer_groups\<close>) that answers while \<open>redis_up\<close> and raises otherwise.
\<close>

section \<open>Redis\<close>

definition redis_error :: error where
  "redis_error = Failure ''Redis is unreachable''"

definition xadd :: "domain_event \<Rightarrow> ('s platform_scheme, unit) act" where
  "xadd e = (\<lambda>s. if redis_up s then (Inr (), s\<lparr>stream := stream s @ [e]\<rparr>) else (Inl redis_error, s))"

text \<open>\<open>XGROUP CREATE\<close>: an existing group is the error \<open>BUSYGROUP\<close>.\<close>

definition busygroup :: error where
  "busygroup = Failure ''BUSYGROUP''"

datatype start_id = From_Start | From_Now

definition xgroup_create :: "string \<Rightarrow> start_id \<Rightarrow> ('s platform_scheme, unit) act" where
  "xgroup_create g start = (\<lambda>s.
     if \<not> redis_up s then (Inl redis_error, s)
     else case consumer_groups s g of
       Some _ \<Rightarrow> (Inl busygroup, s)
     | None \<Rightarrow> (Inr (), s\<lparr>consumer_groups := (consumer_groups s)(g \<mapsto>
         \<lparr>cg_delivered = (case start of From_Start \<Rightarrow> 0 | From_Now \<Rightarrow> length (stream s)), cg_pending = []\<rparr>)\<rparr>))"

definition read_count :: nat where
  "read_count = 10"

text \<open>
  \<open>XREADGROUP \<dots> COUNT 10 \<dots> >\<close>: the next entries, by number, that the group was not given; they
  become pending.
\<close>

definition xreadgroup :: "string \<Rightarrow> ('s platform_scheme, (nat \<times> domain_event) list) act" where
  "xreadgroup g = (\<lambda>s.
     if \<not> redis_up s then (Inl redis_error, s)
     else case consumer_groups s g of
       None \<Rightarrow> (Inl (Failure ''NOGROUP''), s)
     | Some cg \<Rightarrow>
         let n = cg_delivered cg;
             batch = take read_count (drop n (stream s));
             ids = [n ..< n + length batch]
         in (Inr (zip ids batch),
             s\<lparr>consumer_groups := (consumer_groups s)(g \<mapsto>
               \<lparr>cg_delivered = n + length batch, cg_pending = cg_pending cg @ ids\<rparr>)\<rparr>))"

definition xack :: "string \<Rightarrow> nat \<Rightarrow> ('s platform_scheme, unit) act" where
  "xack g i = (\<lambda>s.
     if \<not> redis_up s then (Inl redis_error, s)
     else case consumer_groups s g of
       None \<Rightarrow> (Inr (), s)
     | Some cg \<Rightarrow> (Inr (), s\<lparr>consumer_groups := (consumer_groups s)(g \<mapsto>
         cg\<lparr>cg_pending := filter (\<lambda>j. j \<noteq> i) (cg_pending cg)\<rparr>)\<rparr>))"

section \<open>The service\<close>

definition publish :: "uuid \<Rightarrow> string \<Rightarrow> json \<Rightarrow> ('s platform_scheme, domain_event) act" where
  "publish tenantId eventType payload =
     act_bind randomUUID (\<lambda>i.
     act_bind (act_gets clock) (\<lambda>createdAt.
     act_bind (withTenantContext tenantId (\<lambda>qr. sql_insert events_update qr
        \<lparr>row_id = i, tenant_id = tenantId, ev_event_type = eventType,
         ev_payload = payload, ev_created_at = createdAt\<rparr>)) (\<lambda>_.
     let message = \<lparr>de_id = i, de_tenant_id = tenantId, de_event_type = eventType,
                    de_payload = payload, de_created_at = createdAt\<rparr> in
     act_bind (xadd message) (\<lambda>_. act_return message))))"

definition consume :: "string \<Rightarrow> start_id \<Rightarrow> ('s platform_scheme, unit) act" where
  "consume groupName startId =
     act_catch (xgroup_create groupName startId)
       (\<lambda>e. if e = busygroup then act_return () else act_throw e)"

text \<open>One message of a batch: the handler, then the acknowledgement; a failure of either is logged.\<close>

definition handle_message ::
  "string \<Rightarrow> (domain_event \<Rightarrow> ('s platform_scheme, unit) act) \<Rightarrow> nat \<times> domain_event \<Rightarrow>
     ('s platform_scheme, unit) act" where
  "handle_message groupName handler m =
     act_catch (act_bind (handler (snd m)) (\<lambda>_. xack groupName (fst m))) (\<lambda>_. act_return ())"

text \<open>One turn of the consumer's loop; a read error is logged and the loop goes on.\<close>

definition loop_iteration ::
  "string \<Rightarrow> (domain_event \<Rightarrow> ('s platform_scheme, unit) act) \<Rightarrow> ('s platform_scheme, unit) act" where
  "loop_iteration groupName handler =
     act_bind (act_catch (xreadgroup groupName) (\<lambda>_. act_return [])) (\<lambda>messages.
       act_fold (\<lambda>m _. handle_message groupName handler m) messages ())"

text \<open>The loop, run for a number of turns.\<close>

fun run_loop ::
  "string \<Rightarrow> (domain_event \<Rightarrow> ('s platform_scheme, unit) act) \<Rightarrow> nat \<Rightarrow> 's platform_scheme \<Rightarrow> 's platform_scheme" where
  "run_loop g h 0 s = s"
| "run_loop g h (Suc k) s = run_loop g h k (snd (loop_iteration g h s))"

section \<open>Publishing\<close>

lemma publish_run:
  "publish tenantId eventType payload s =
     (let i = next_uuid s;
          m = \<lparr>de_id = i, de_tenant_id = tenantId, de_event_type = eventType,
               de_payload = payload, de_created_at = clock s\<rparr>;
          r = \<lparr>row_id = i, tenant_id = tenantId, ev_event_type = eventType,
               ev_payload = payload, ev_created_at = clock s\<rparr>;
          t = s\<lparr>next_uuid := Suc i, events := events s @ [r]\<rparr>
      in if redis_up s then (Inr m, t\<lparr>stream := stream s @ [m]\<rparr>) else (Inl redis_error, t))"
  by (simp add: publish_def randomUUID_def withTenantContext_def sql_insert_def tenant_isolation_def
      xadd_def act_bind_def Let_def)

lemma publish_frame [frame_intros]: "act_rel (platform_frame t) (publish t ty p)"
  by (rule act_relI) (auto simp: publish_run Let_def platform_frame_def others_def tenant_isolation_def split: if_splits)

text \<open>Every entry of the stream is recorded in the \<open>events\<close> table, under the same identifier.\<close>

definition stream_recorded :: "'s platform_scheme \<Rightarrow> bool" where
  "stream_recorded s \<longleftrightarrow> (\<forall>e \<in> set (stream s). \<exists>r \<in> set (events s).
     row_id r = de_id e \<and> tenant_id r = de_tenant_id e \<and> ev_event_type r = de_event_type e \<and>
     ev_payload r = de_payload e \<and> ev_created_at r = de_created_at e)"

text \<open>
  Publishing keeps the audit trail complete: if every entry of the Redis stream has its row in
  the \<open>events\<close> table, this is still so after \<open>publish\<close>, also when Redis is unreachable; and then
  the event is in the table although the call fails.
\<close>

theorem publish_keeps_stream_recorded:
  assumes "stream_recorded s" and "publish tenantId eventType payload s = (res, t)"
  shows "stream_recorded t \<and>
    (\<exists>r. events t = events s @ [r] \<and> tenant_id r = tenantId \<and> ev_event_type r = eventType \<and> ev_payload r = payload) \<and>
    (case res of
       Inr m \<Rightarrow> stream t = stream s @ [m] \<and> de_event_type m = eventType \<and> de_payload m = payload
     | Inl e \<Rightarrow> e = redis_error \<and> stream t = stream s \<and> \<not> redis_up s)"
  using assms by (auto simp: publish_run Let_def stream_recorded_def split: if_splits)

theorem publish_keeps_stream_recorded_witness:
  "let s = \<lparr>clock = 5, next_uuid = 7, tenants = [], users = [], events = [], notifications = [],
            redis_up = False, stream = [], consumer_groups = Map.empty, outbox = []\<rparr> :: platform
   in stream_recorded s \<and> fst (publish 1 ''ticket.overdue'' JNull s) = Inl redis_error \<and>
      length (events (snd (publish 1 ''ticket.overdue'' JNull s))) = 1"
proof -
  let ?s = "\<lparr>clock = 5, next_uuid = 7, tenants = [], users = [], events = [], notifications = [],
             redis_up = False, stream = [], consumer_groups = Map.empty, outbox = []\<rparr> :: platform"
  have inv: "stream_recorded ?s" by (simp add: stream_recorded_def)
  obtain res t where run: "publish 1 ''ticket.overdue'' JNull ?s = (res, t)" by fastforce
  moreover have "res = Inl redis_error" using run by (simp add: publish_run Let_def)
  ultimately show ?thesis
    using inv publish_keeps_stream_recorded [OF inv run] by (auto simp: Let_def)
qed

section \<open>Consuming\<close>

text \<open>What the loop relies on from a handler: it does not administer the bus.\<close>

definition bus_frame :: "'s platform_scheme \<Rightarrow> 's platform_scheme \<Rightarrow> bool" where
  "bus_frame s t \<longleftrightarrow> consumer_groups t = consumer_groups s \<and> redis_up t = redis_up s \<and>
     (\<exists>more. stream t = stream s @ more)"

interpretation bus_frame: frame bus_frame
  by unfold_locales (auto simp: bus_frame_def)

definition keeps_bus :: "(domain_event \<Rightarrow> ('s platform_scheme, unit) act) \<Rightarrow> bool" where
  "keeps_bus handler \<longleftrightarrow> (\<forall>e. act_rel bus_frame (handler e))"

text \<open>The entries a group holds as pending are among the ones it was given.\<close>

definition pending_ok :: "string \<Rightarrow> 's platform_scheme \<Rightarrow> bool" where
  "pending_ok g s \<longleftrightarrow> (\<forall>cg. consumer_groups s g = Some cg \<longrightarrow>
     (\<forall>i \<in> set (cg_pending cg). i < cg_delivered cg) \<and> cg_delivered cg \<le> length (stream s))"

lemma handle_message_groups:
  assumes "keeps_bus handler" and "consumer_groups s g = Some cg"
    and "snd (handle_message g handler (i, e) s) = t"
  shows "redis_up t = redis_up s \<and> (\<exists>more. stream t = stream s @ more) \<and>
    (\<exists>cg'. consumer_groups t g = Some cg' \<and> cg_delivered cg' = cg_delivered cg \<and>
       (cg_pending cg' = cg_pending cg \<or> cg_pending cg' = filter (\<lambda>j. j \<noteq> i) (cg_pending cg)))"
proof -
  obtain q u where h: "handler e s = (q, u)" by (cases "handler e s")
  with assms(1) have b: "bus_frame s u" by (auto simp: keeps_bus_def dest: act_relD)
  with assms(2) have cg: "consumer_groups u g = Some cg" by (simp add: bus_frame_def)
  show ?thesis
  proof (cases q)
    case (Inl x)
    with h assms(3) have "t = u" by (simp add: handle_message_def act_catch_def act_bind_def)
    with b cg show ?thesis by (auto simp: bus_frame_def)
  next
    case (Inr x)
    with h assms(3) have "t = snd (xack g i u)"
      by (auto simp: handle_message_def act_catch_def act_bind_def split: sum.splits prod.splits)
    with b cg show ?thesis by (auto simp: bus_frame_def xack_def)
  qed
qed

text \<open>A batch only removes its own entries from the pending list.\<close>

lemma batch_groups:
  assumes "keeps_bus handler" and "consumer_groups s g = Some cg"
    and "snd (act_fold (\<lambda>m _. handle_message g handler m) ms () s) = t"
  shows "redis_up t = redis_up s \<and> (\<exists>more. stream t = stream s @ more) \<and>
    (\<exists>cg'. consumer_groups t g = Some cg' \<and> cg_delivered cg' = cg_delivered cg \<and>
       set (cg_pending cg') \<subseteq> set (cg_pending cg) \<and>
       (\<forall>i \<in> set (cg_pending cg). i \<notin> fst ` set ms \<longrightarrow> i \<in> set (cg_pending cg')))"
  using assms(2,3)
proof (induction ms arbitrary: s cg)
  case Nil
  then show ?case by auto
next
  case (Cons m ms)
  obtain i e where m: "m = (i, e)" by (cases m)
  let ?u = "snd (handle_message g handler m s)"
  have hm: "fst (handle_message g handler m s) = Inr ()"
    by (auto simp: handle_message_def act_catch_def split: prod.splits sum.splits)
  then have run: "handle_message g handler m s = (Inr (), ?u)" by (simp add: prod_eq_iff)
  with Cons.prems(2) have rest: "snd (act_fold (\<lambda>m _. handle_message g handler m) ms () ?u) = t"
    by simp
  obtain cg1 where c1: "consumer_groups ?u g = Some cg1" "cg_delivered cg1 = cg_delivered cg"
      "cg_pending cg1 = cg_pending cg \<or> cg_pending cg1 = filter (\<lambda>j. j \<noteq> i) (cg_pending cg)"
    and u: "redis_up ?u = redis_up s" "\<exists>more. stream ?u = stream s @ more"
    using handle_message_groups [OF assms(1) Cons.prems(1), of i e ?u] m by metis
  from Cons.IH [OF c1(1) rest] c1 u m show ?case by fastforce
qed

text \<open>
  One turn: the entries handed to the handler are exactly the next ones, each once, and an entry
  given earlier stays as it was, acknowledged or pending.
\<close>

lemma loop_iteration_groups:
  assumes "keeps_bus handler" and "consumer_groups s g = Some cg"
    and "pending_ok g s"
  defines "t \<equiv> snd (loop_iteration g handler s)"
  shows "(\<exists>more. stream t = stream s @ more) \<and> redis_up t = redis_up s \<and> pending_ok g t \<and>
    (\<exists>cg'. consumer_groups t g = Some cg' \<and>
       cg_delivered cg' = cg_delivered cg +
         (if redis_up s then length (take read_count (drop (cg_delivered cg) (stream s))) else 0) \<and>
       (\<forall>i < cg_delivered cg. i \<in> set (cg_pending cg') \<longleftrightarrow> i \<in> set (cg_pending cg)))"
proof (cases "redis_up s")
  case False
  then have "t = s"
    by (simp add: t_def loop_iteration_def xreadgroup_def act_catch_def act_bind_def)
  with False assms(2,3) show ?thesis by auto
next
  case True
  let ?n = "cg_delivered cg"
  let ?batch = "take read_count (drop ?n (stream s))"
  let ?ids = "[?n ..< ?n + length ?batch]"
  let ?cg1 = "\<lparr>cg_delivered = ?n + length ?batch, cg_pending = cg_pending cg @ ?ids\<rparr>"
  let ?u = "s\<lparr>consumer_groups := (consumer_groups s)(g \<mapsto> ?cg1)\<rparr>"
  have t: "snd (act_fold (\<lambda>m _. handle_message g handler m) (zip ?ids ?batch) () ?u) = t"
    using True assms(2)
    by (simp add: t_def loop_iteration_def xreadgroup_def act_catch_def act_bind_def Let_def)
  have u: "consumer_groups ?u g = Some ?cg1" by simp
  have ids: "fst ` set (zip ?ids ?batch) = {?n ..< ?n + length ?batch}"
    by (simp flip: set_map)
  have len: "?n \<le> length (stream s)" and old: "\<forall>i \<in> set (cg_pending cg). i < ?n"
    using assms(2,3) by (auto simp: pending_ok_def)
  from batch_groups [OF assms(1) u t] obtain cg' more where c:
      "consumer_groups t g = Some cg'" "cg_delivered cg' = ?n + length ?batch"
      "set (cg_pending cg') \<subseteq> set (cg_pending cg @ ?ids)"
      "\<forall>i \<in> set (cg_pending cg @ ?ids). i \<notin> fst ` set (zip ?ids ?batch) \<longrightarrow> i \<in> set (cg_pending cg')"
      "stream t = stream s @ more" "redis_up t = redis_up s"
    by auto
  have sub: "i \<in> set (cg_pending cg') \<Longrightarrow> i < ?n + length ?batch" for i
    using c(3) old by (auto dest!: subsetD)
  have keep: "i < ?n \<Longrightarrow> i \<in> set (cg_pending cg') \<longleftrightarrow> i \<in> set (cg_pending cg)" for i
    using c(3,4) ids by auto
  have "pending_ok g t"
    using c(1,2,5) sub len by (auto simp: pending_ok_def)
  with c(1,2,5,6) keep True show ?thesis by auto
qed

lemma xreadgroup_fresh:
  assumes "pending_ok g s" and "consumer_groups s g = Some cg" and "xreadgroup g s = (Inr ms, t)"
    and "i < cg_delivered cg"
  shows "i \<notin> fst ` set ms"
  using assms by (auto simp: xreadgroup_def pending_ok_def Let_def dest!: set_zip_leftD split: if_splits)

lemma pending_stays:
  assumes "keeps_bus handler" and "consumer_groups s g = Some cg" and "pending_ok g s" and "i < cg_delivered cg"
  shows "\<exists>cg'. consumer_groups (run_loop g handler k s) g = Some cg' \<and> i < cg_delivered cg' \<and>
    (i \<in> set (cg_pending cg') \<longleftrightarrow> i \<in> set (cg_pending cg)) \<and> pending_ok g (run_loop g handler k s)"
  using assms(2-4)
proof (induction k arbitrary: s cg)
  case 0
  then show ?case by simp
next
  case (Suc k)
  from loop_iteration_groups [OF assms(1) Suc.prems(1,2)] Suc.prems(3)
  obtain cg1 where "consumer_groups (snd (loop_iteration g handler s)) g = Some cg1"
      "pending_ok g (snd (loop_iteration g handler s))" "i < cg_delivered cg1"
      "i \<in> set (cg_pending cg1) \<longleftrightarrow> i \<in> set (cg_pending cg)"
    by (auto split: if_splits)
  with Suc.IH [OF this(1-3)] show ?case by simp
qed

text \<open>While Redis answers, an entry stays pending exactly if its handler fails.\<close>

lemma handle_message_acks:
  assumes "keeps_bus handler" and "consumer_groups s g = Some cg" and "redis_up s"
  shows "\<exists>cg'. consumer_groups (snd (handle_message g handler (i, e) s)) g = Some cg' \<and>
    cg_pending cg' = (if isl (fst (handler e s)) then cg_pending cg else filter (\<lambda>j. j \<noteq> i) (cg_pending cg))"
proof -
  obtain q u where h: "handler e s = (q, u)" by (cases "handler e s")
  with assms(1) have "bus_frame s u" by (auto simp: keeps_bus_def dest: act_relD)
  with assms(2,3) h show ?thesis
    by (cases q) (simp_all add: handle_message_def act_catch_def act_bind_def bus_frame_def xack_def)
qed

lemma batch_step:
  "snd (act_fold (\<lambda>m _. handle_message g handler m) (m # ms) () s)
     = snd (act_fold (\<lambda>m _. handle_message g handler m) ms () (snd (handle_message g handler m s)))"
proof -
  obtain q t where run: "handle_message g handler m s = (q, t)" by (cases "handle_message g handler m s")
  moreover from run have "q = Inr ()"
    by (auto simp: handle_message_def act_catch_def split: prod.splits sum.splits)
  ultimately show ?thesis by (simp add: act_bind_def)
qed

lemma batch_append:
  "snd (act_fold (\<lambda>m _. handle_message g handler m) (xs @ ys) () s)
     = snd (act_fold (\<lambda>m _. handle_message g handler m) ys () (snd (act_fold (\<lambda>m _. handle_message g handler m) xs () s)))"
  by (induction xs arbitrary: s) (simp, simp only: append_Cons batch_step)

lemma batch_failed:
  fixes handler g
  defines "run \<equiv> \<lambda>ms s. snd (act_fold (\<lambda>m _. handle_message g handler m) ms () s)"
  assumes "keeps_bus handler" and "consumer_groups s g = Some cg" and "redis_up s"
    and "distinct (map fst ms)" and "j < length ms" and "fst (ms ! j) \<in> set (cg_pending cg)"
  shows "\<exists>cg'. consumer_groups (run ms s) g = Some cg' \<and>
    (fst (ms ! j) \<in> set (cg_pending cg') \<longleftrightarrow> isl (fst (handler (snd (ms ! j)) (run (take j ms) s))))"
proof -
  obtain i e where m: "ms ! j = (i, e)" by (cases "ms ! j")
  define pre suf where split: "pre = take j ms" "suf = drop (Suc j) ms"
  have ms: "ms = pre @ (i, e) # suf" using id_take_nth_drop [OF assms(6)] m by (simp add: split)
  have fresh: "i \<notin> fst ` set pre" "i \<notin> fst ` set suf" using assms(5) ms by auto
  have step: "run ms s = run suf (snd (handle_message g handler (i, e) (run pre s)))"
    unfolding ms run_def by (simp only: batch_append batch_step)
  obtain cg1 where c1: "consumer_groups (run pre s) g = Some cg1" "i \<in> set (cg_pending cg1)" "redis_up (run pre s)"
    using batch_groups [OF assms(2,3) refl, of pre] assms(4,7) fresh(1) m by (auto simp: run_def)
  obtain cg2 where c2: "consumer_groups (snd (handle_message g handler (i, e) (run pre s))) g = Some cg2"
      "i \<in> set (cg_pending cg2) \<longleftrightarrow> isl (fst (handler e (run pre s)))"
    using handle_message_acks [OF assms(2) c1(1,3), of i e] c1(2) by (auto split: if_splits)
  have "snd (act_fold (\<lambda>m _. handle_message g handler m) suf () (snd (handle_message g handler (i, e) (run pre s)))) = run ms s"
    using step unfolding run_def by simp
  from batch_groups [OF assms(2) c2(1) this] obtain cg3 where "consumer_groups (run ms s) g = Some cg3"
      "set (cg_pending cg3) \<subseteq> set (cg_pending cg2)"
      "\<forall>k \<in> set (cg_pending cg2). k \<notin> fst ` set suf \<longrightarrow> k \<in> set (cg_pending cg3)" by blast
  with c2(2) fresh(2) have "i \<in> set (cg_pending cg3) \<longleftrightarrow> isl (fst (handler e (run pre s)))" by blast
  with \<open>consumer_groups (run ms s) g = Some cg3\<close> m show ?thesis by (simp add: split)
qed

text \<open>
  The state in which a turn of the loop hands the \<open>j\<close>-th entry of its batch to the handler: after
  the read and the entries before it.
\<close>

definition handled_in ::
  "string \<Rightarrow> (domain_event \<Rightarrow> ('s platform_scheme, unit) act) \<Rightarrow> (nat \<times> domain_event) list \<Rightarrow> nat \<Rightarrow>
     's platform_scheme \<Rightarrow> 's platform_scheme" where
  "handled_in g handler messages j s =
     snd (act_fold (\<lambda>m _. handle_message g handler m) (take j messages) () (snd (xreadgroup g s)))"

text \<open>
  C37. A message whose handler failed is never retried. Let a turn of the loop read the group's next
  entries while Redis answers. After that turn and any number \<open>k\<close> of further ones an entry of the
  batch is pending exactly if the handler failed when the turn called it on this entry, and whether
  it failed or not no later read hands it over again, for any handler that does not administer
  the bus itself.
\<close>

theorem failed_message_never_retried:
  assumes "keeps_bus handler" and "consumer_groups s g = Some cg" and "pending_ok g s" and "redis_up s"
    and "fst (xreadgroup g s) = Inr messages" and "j < length messages" and "messages ! j = (i, e)"
  shows "(\<exists>cg'. consumer_groups (run_loop g handler (Suc k) s) g = Some cg' \<and>
      (i \<in> set (cg_pending cg') \<longleftrightarrow> isl (fst (handler e (handled_in g handler messages j s))))) \<and>
    (\<forall>ms t. xreadgroup g (run_loop g handler (Suc k) s) = (Inr ms, t) \<longrightarrow> i \<notin> fst ` set ms)"
proof -
  let ?n = "cg_delivered cg" and ?t = "snd (loop_iteration g handler s)"
  let ?batch = "take read_count (drop ?n (stream s))"
  let ?ids = "[?n ..< ?n + length ?batch]"
  obtain u where read: "xreadgroup g s = (Inr messages, u)" using assms(5) by (metis prod.collapse)
  have ms: "messages = zip ?ids ?batch"
    and u: "consumer_groups u g = Some \<lparr>cg_delivered = ?n + length ?batch, cg_pending = cg_pending cg @ ?ids\<rparr>" "redis_up u"
    using assms(2,4) read by (auto simp: xreadgroup_def Let_def)
  have "map fst messages = ?ids" by (simp add: ms)
  then have d: "distinct (map fst messages)" and i: "i = ?n + j" "i < ?n + length ?batch"
    using assms(6,7) nth_map [OF assms(6), of fst] by (auto simp: ms)
  have t: "?t = snd (act_fold (\<lambda>m _. handle_message g handler m) messages () u)"
    by (simp add: loop_iteration_def act_bind_def act_catch_def read)
  obtain cg1 where c1: "consumer_groups ?t g = Some cg1"
      "i \<in> set (cg_pending cg1) \<longleftrightarrow> isl (fst (handler e (handled_in g handler messages j s)))"
    using batch_failed [OF assms(1) u d assms(6)] assms(7) i unfolding t handled_in_def read by auto
  have "i < cg_delivered cg1" "pending_ok g ?t"
    using loop_iteration_groups [OF assms(1-3)] c1(1) assms(4) i by auto
  from pending_stays [OF assms(1) c1(1) this(2,1), of k] obtain cg' where
      "consumer_groups (run_loop g handler (Suc k) s) g = Some cg'" "i < cg_delivered cg'"
      "i \<in> set (cg_pending cg') \<longleftrightarrow> i \<in> set (cg_pending cg1)" "pending_ok g (run_loop g handler (Suc k) s)"
    by auto
  with c1(2) show ?thesis by (auto dest: xreadgroup_fresh)
qed

theorem failed_message_never_retried_witness:
  "let e = \<lparr>de_id = 1, de_tenant_id = 2, de_event_type = ''x'', de_payload = JNull, de_created_at = 0\<rparr>;
       s = \<lparr>clock = 0, next_uuid = 1, tenants = [], users = [], events = [], notifications = [],
       redis_up = True, stream = [e], consumer_groups = [''g'' \<mapsto> \<lparr>cg_delivered = 0, cg_pending = []\<rparr>], outbox = []\<rparr> :: platform;
       t = run_loop ''g'' (\<lambda>_. act_throw (Failure ''boom'')) 4 s
   in (\<exists>cg'. consumer_groups t ''g'' = Some cg' \<and> 0 \<in> set (cg_pending cg')) \<and>
      (\<forall>ms t'. xreadgroup ''g'' t = (Inr ms, t') \<longrightarrow> 0 \<notin> fst ` set ms)"
proof -
  let ?cg = "\<lparr>cg_delivered = 0, cg_pending = []\<rparr>" and ?h = "\<lambda>_. act_throw (Failure ''boom'')"
  let ?e = "\<lparr>de_id = 1, de_tenant_id = 2, de_event_type = ''x'', de_payload = JNull, de_created_at = 0\<rparr>"
  let ?s = "\<lparr>clock = 0, next_uuid = 1, tenants = [], users = [], events = [], notifications = [],
       redis_up = True, stream = [?e], consumer_groups = [''g'' \<mapsto> ?cg], outbox = []\<rparr> :: platform"
  have h: "keeps_bus ?h" by (simp add: keeps_bus_def bus_frame.act_throw_frame)
  have "consumer_groups ?s ''g'' = Some ?cg" "pending_ok ''g'' ?s" "redis_up ?s"
      "fst (xreadgroup ''g'' ?s) = Inr [(0, ?e)]" "0 < length [(0, ?e)]" "[(0, ?e)] ! 0 = (0, ?e)"
    by (simp_all add: pending_ok_def xreadgroup_def Let_def read_count_def)
  from failed_message_never_retried [OF h this, of 3] show ?thesis
    unfolding Let_def numeral_eq_Suc by (simp add: act_throw_def)
qed

end
