(* ===== verification/Notifications.thy ===== *)
theory Notifications
  imports Event_Bus
begin

text \<open>
  Notifications (\<open>notifications/\<close>): \<open>enqueue\<close> stores a queued row and publishes
  \<open>notification.requested\<close>; the dispatcher consumes that event, renders the row's template
  (\<open>templates/template-registry.ts\<close>), sends it through the row's channel (\<open>channels/\<close>) and marks
  the row sent or failed.

  The mail library and \<open>fetch\<close> are parameters (\<open>transports\<close>): given the message, they answer or
  raise. A message a channel accepted is recorded in \<open>outbox\<close>; the SMS and voice channels accept a
  message by logging it while no Twilio account is configured.
\<close>

section \<open>Transports and channels\<close>

record twilio_config =
  tw_transport :: string
  tw_accountSid :: "string option"
  tw_authToken :: "string option"
  tw_from :: "string option"

record transports =
  sendMail :: "string \<Rightarrow> rendered_message \<Rightarrow> json option \<Rightarrow> error option"
  fetch :: "string \<Rightarrow> json \<Rightarrow> error + nat \<times> string"
  sms_config :: twilio_config
  voice_config :: twilio_config

record send_input =
  si_recipient :: string
  si_message :: rendered_message
  si_payload :: json
  si_attachment :: "json option"

definition newline :: string where
  "newline = [CHR 0x0A]"

definition response_ok :: "nat \<Rightarrow> bool" where
  "response_ok st \<longleftrightarrow> 200 \<le> st \<and> st \<le> 299"

text \<open>A sending returns \<open>None\<close>, or the error it raised.\<close>

definition postJson :: "transports \<Rightarrow> string \<Rightarrow> json \<Rightarrow> error option" where
  "postJson T url body = (case fetch T url body of
      Inl e \<Rightarrow> Some e
    | Inr (st, detail) \<Rightarrow>
        if response_ok st then None
        else Some (Failure (''POST '' @ url @ '' returned '' @ nat_text st @
               (if detail = [] then [] else '': '' @ take 200 detail))))"

definition slack_send :: "transports \<Rightarrow> send_input \<Rightarrow> error option" where
  "slack_send T i = postJson T (si_recipient i)
     (JObj [(''text'', JStr (''*'' @ rm_subject (si_message i) @ ''*'' @ newline @ rm_body (si_message i)))])"

definition webhook_send :: "transports \<Rightarrow> send_input \<Rightarrow> error option" where
  "webhook_send T i = postJson T (si_recipient i)
     (JObj [(''subject'', JStr (rm_subject (si_message i))), (''body'', JStr (rm_body (si_message i))),
            (''payload'', si_payload i)])"

definition email_send :: "transports \<Rightarrow> send_input \<Rightarrow> error option" where
  "email_send T i = sendMail T (si_recipient i) (si_message i) (si_attachment i)"

text \<open>The four chained \<open>replace(/x/g, \<dots>)\<close> of \<open>escapeHtml\<close> and \<open>escapeXml\<close>.\<close>

definition replace_all :: "char \<Rightarrow> string \<Rightarrow> string \<Rightarrow> string" where
  "replace_all c t s = concat (map (\<lambda>x. if x = c then t else [x]) s)"

definition escapeHtml :: "string \<Rightarrow> string" where
  "escapeHtml s = replace_all (CHR 0x22) ''&quot;'' (replace_all (CHR ''>'') ''&gt;''
     (replace_all (CHR ''<'') ''&lt;'' (replace_all (CHR ''&'') ''&amp;'' s)))"

definition js_falsy_string :: "string option \<Rightarrow> bool" where
  "js_falsy_string v \<longleftrightarrow> v = None \<or> v = Some []"

text \<open>Both Twilio channels log and return unless the transport is fully configured.\<close>

definition twilio_off :: "twilio_config \<Rightarrow> bool" where
  "twilio_off C \<longleftrightarrow> tw_transport C \<noteq> ''twilio'' \<or> js_falsy_string (tw_accountSid C) \<or>
     js_falsy_string (tw_authToken C) \<or> js_falsy_string (tw_from C)"

definition twilio_post :: "transports \<Rightarrow> twilio_config \<Rightarrow> string \<Rightarrow> string \<Rightarrow> json \<Rightarrow> error option" where
  "twilio_post T C resource what body =
     (case fetch T (''https://api.twilio.com/2010-04-01/Accounts/'' @ the (tw_accountSid C) @ resource) body of
        Inl e \<Rightarrow> Some e
      | Inr (st, detail) \<Rightarrow>
          if response_ok st then None
          else Some (Failure (what @ '' failed: '' @ nat_text st @ '' '' @ take 200 detail)))"

definition sms_send :: "transports \<Rightarrow> send_input \<Rightarrow> error option" where
  "sms_send T i =
     (let text = js_trim (rm_subject (si_message i) @ newline @ rm_body (si_message i)); C = sms_config T in
      if twilio_off C then None
      else twilio_post T C ''/Messages.json'' ''Twilio SMS send''
        (JObj [(''To'', JStr (si_recipient i)), (''From'', JStr (the (tw_from C))), (''Body'', JStr text)]))"

definition voice_send :: "transports \<Rightarrow> send_input \<Rightarrow> error option" where
  "voice_send T i =
     (let spoken = js_trim (rm_subject (si_message i) @ ''. '' @ rm_body (si_message i)); C = voice_config T in
      if twilio_off C then None
      else twilio_post T C ''/Calls.json'' ''Twilio voice call''
        (JObj [(''To'', JStr (si_recipient i)), (''From'', JStr (the (tw_from C))),
               (''Twiml'', JStr (''<Response><Say>'' @ escapeHtml spoken @ ''</Say></Response>''))]))"

definition stub_send :: "string \<Rightarrow> send_input \<Rightarrow> error option" where
  "stub_send channel i = Some (Failure (''Notification channel '' @ [CHR 0x22] @ channel @ [CHR 0x22] @
     '' is not implemented yet (Phase 2, per the architecture plan)''))"

text \<open>The map of channels the dispatcher's constructor builds.\<close>

definition channels :: "transports \<Rightarrow> string \<Rightarrow> (send_input \<Rightarrow> error option) option" where
  "channels T = map_of
     [(''email'', email_send T), (''slack'', slack_send T), (''webhook'', webhook_send T),
      (''sms'', sms_send T), (''voice'', voice_send T),
      (''whatsapp'', stub_send ''whatsapp''), (''in_app'', stub_send ''in_app'')]"

section \<open>Templates\<close>

definition em_dash :: string where
  "em_dash = map char_of [226, 128, 148 :: nat]"

definition plain :: "string \<Rightarrow> string \<Rightarrow> rendered_message" where
  "plain subject body = \<lparr>rm_subject = subject, rm_body = body, rm_html = None\<rparr>"

definition template_overdue :: "js_format \<Rightarrow> json \<Rightarrow> rendered_message" where
  "template_overdue F p =
     (let label = (if js_prop p ''overdueType'' = Some (JStr ''resolution'') then ''Resolution'' else ''First response'');
          num = js_interp F (js_prop p ''ticketNumber'')
      in plain (''Ticket #'' @ num @ '' is '' @ js_lower label @ '' overdue'')
           (label @ '' SLA breached for ticket #'' @ num @ '': '' @ [CHR 0x22] @ js_interp F (js_prop p ''subject'') @ [CHR 0x22] @
            ''. It was due at '' @ js_interp F (js_prop p ''dueAt'') @ ''.''))"

definition template_reply :: "js_format \<Rightarrow> json \<Rightarrow> rendered_message" where
  "template_reply F p =
     (let agentName = (if js_truthy (js_prop p ''agentName'') then js_interp F (js_prop p ''agentName'') else ''Support'');
          bodyHtml = (if js_truthy (js_prop p ''bodyHtml'') then Some (js_interp F (js_prop p ''bodyHtml'')) else None)
      in \<lparr>rm_subject = ''[Ticket #'' @ js_interp F (js_prop p ''ticketNumber'') @ ''] '' @ js_interp F (js_prop p ''subject''),
          rm_body = js_interp F (js_prop p ''body'') @ newline @ newline @ em_dash @ '' '' @ agentName,
          rm_html = (case bodyHtml of
              None \<Rightarrow> None
            | Some h \<Rightarrow> if h = [] then None else Some (h @ ''<p>'' @ em_dash @ '' '' @ escapeHtml agentName @ ''</p>''))\<rparr>)"

definition template_assigned :: "js_format \<Rightarrow> json \<Rightarrow> rendered_message" where
  "template_assigned F p =
     (let num = js_interp F (js_prop p ''ticketNumber''); subject = js_interp F (js_prop p ''subject'')
      in plain (''Ticket #'' @ num @ '' assigned to you: '' @ subject)
           (''Ticket #'' @ num @ '' '' @ [CHR 0x22] @ subject @ [CHR 0x22] @ '' has been assigned to you.''))"

definition template_contact_reply :: "js_format \<Rightarrow> json \<Rightarrow> rendered_message" where
  "template_contact_reply F p =
     (let num = js_interp F (js_prop p ''ticketNumber''); subject = js_interp F (js_prop p ''subject'')
      in plain (''New reply on ticket #'' @ num @ '': '' @ subject)
           (js_text F (js_or_else (js_prop p ''contactName'') (JStr ''The customer'')) @ '' replied to ticket #'' @ num @
            '' '' @ [CHR 0x22] @ subject @ [CHR 0x22] @ '':'' @ newline @ newline @ js_interp F (js_prop p ''body'')))"

definition template_watcher_update :: "js_format \<Rightarrow> json \<Rightarrow> rendered_message" where
  "template_watcher_update F p =
     (let num = js_interp F (js_prop p ''ticketNumber''); subject = js_interp F (js_prop p ''subject'')
      in plain (''Update on watched ticket #'' @ num @ '': '' @ subject)
           (''There'' @ [CHR 0x27] @ ''s a new reply on ticket #'' @ num @ '' '' @ [CHR 0x22] @ subject @ [CHR 0x22] @
            '' you'' @ [CHR 0x27] @ ''re watching:'' @ newline @ newline @ js_interp F (js_prop p ''body'')))"

definition template_passthrough :: "string \<Rightarrow> js_format \<Rightarrow> json \<Rightarrow> rendered_message" where
  "template_passthrough dflt F p =
     plain (js_text F (js_or_else (js_prop p ''subject'') (JStr dflt)))
           (js_text F (js_or_else (js_prop p ''body'') (JStr [])))"

definition template_password_reset :: "js_format \<Rightarrow> json \<Rightarrow> rendered_message" where
  "template_password_reset F p =
     plain ''Reset your Cloud Ops Tool password''
       (''Hi '' @ js_text F (js_or_else (js_prop p ''name'') (JStr ''there'')) @ '','' @ newline @ newline @
        ''Use this link to reset your password (valid for 1 hour):'' @ newline @ js_interp F (js_prop p ''resetUrl'') @
        newline @ newline @ ''If you didn'' @ [CHR 0x27] @ ''t request this, you can ignore this email.'')"

definition js_upper_char :: "char \<Rightarrow> char" where
  "js_upper_char c = (let n = (of_char c :: nat) in if 97 \<le> n \<and> n \<le> 122 then char_of (n - 32) else c)"

definition template_scheduled_report :: "js_format \<Rightarrow> json \<Rightarrow> rendered_message" where
  "template_scheduled_report F p =
     plain (''Scheduled report: '' @ js_text F (js_or_else (js_prop p ''reportName'') (JStr ''Cost report'')))
       (''Your scheduled report '' @ [CHR 0x22] @ js_interp F (js_prop p ''reportName'') @ [CHR 0x22] @ '' is attached ('' @
        map js_upper_char (js_text F (js_or_else (js_prop p ''format'') (JStr []))) @ '').'')"

definition templates :: "(string \<times> (js_format \<Rightarrow> json \<Rightarrow> rendered_message)) list" where
  "templates =
     [(''sprint0.test_email'', \<lambda>F p. plain ''Cloud Ops Tool test notification''
          (''This is a Sprint 0 test notification. Message: '' @ js_text F (js_or_else (js_prop p ''message'') (JStr [])))),
      (''ticket.overdue'', template_overdue),
      (''ticket.reply'', template_reply),
      (''ticket.assigned'', template_assigned),
      (''ticket.contact_reply'', template_contact_reply),
      (''ticket.watcher_update'', template_watcher_update),
      (''monitoring.escalation'', template_passthrough ''Alert escalation''),
      (''platform.password_reset'', template_password_reset),
      (''cost.pace_alert'', template_passthrough ''Cost alert''),
      (''cost.scheduled_report'', template_scheduled_report)]"

definition renderTemplate :: "js_format \<Rightarrow> string \<Rightarrow> json \<Rightarrow> error + rendered_message" where
  "renderTemplate F templateName payload = (case map_of templates templateName of
      None \<Rightarrow> Inl (Failure (''Unknown notification template: '' @ [CHR 0x22] @ templateName @ [CHR 0x22]))
    | Some renderer \<Rightarrow> Inr (renderer F payload))"

section \<open>Enqueueing and dispatching\<close>

definition notification_requested :: string where
  "notification_requested = ''notification.requested''"

definition enqueue ::
  "uuid \<Rightarrow> string \<Rightarrow> string \<Rightarrow> string \<Rightarrow> json \<Rightarrow> ('s platform_scheme, uuid) act" where
  "enqueue tenantId channel recipient templateName payload =
     act_bind randomUUID (\<lambda>i.
     act_bind (act_gets clock) (\<lambda>now.
     act_bind (withTenantContext tenantId (\<lambda>qr. sql_insert notifications_update qr
        \<lparr>row_id = i, tenant_id = tenantId, nf_channel = channel, nf_recipient = recipient,
         nf_template_name = templateName, nf_payload = payload, nf_status = Queued, nf_created_at = now, nf_sent_at = None\<rparr>)) (\<lambda>_.
     act_bind (publish tenantId notification_requested (JObj [(''notificationId'', JId i)])) (\<lambda>_.
     act_return i))))"

definition markFailed :: "query_runner \<Rightarrow> uuid \<Rightarrow> ('s platform_scheme, unit) tx" where
  "markFailed qr notificationId =
     tx_bind (sql_update notifications notifications_update qr (by_id notificationId) (\<lambda>r. r\<lparr>nf_status := Failed\<rparr>))
       (\<lambda>_. tx_return ())"

definition record_outgoing :: "outgoing \<Rightarrow> ('s platform_scheme, unit) tx" where
  "record_outgoing m = (\<lambda>s. Inr ((), s\<lparr>outbox := outbox s @ [m]\<rparr>))"

text \<open>The body of \<open>handleEvent\<close>'s transaction for one notification row.\<close>

definition dispatch ::
  "js_format \<Rightarrow> transports \<Rightarrow> query_runner \<Rightarrow> notification \<Rightarrow> ('s platform_scheme, unit) tx" where
  "dispatch F T qr n =
     (case channels T (nf_channel n) of
        None \<Rightarrow> markFailed qr (row_id n)
      | Some send \<Rightarrow>
          (case renderTemplate F (nf_template_name n) (nf_payload n) of
             Inl e \<Rightarrow> markFailed qr (row_id n)
           | Inr message \<Rightarrow>
               (case send \<lparr>si_recipient = nf_recipient n, si_message = message, si_payload = nf_payload n,
                           si_attachment = js_prop (nf_payload n) ''attachment''\<rparr> of
                  Some e \<Rightarrow> markFailed qr (row_id n)
                | None \<Rightarrow>
                    tx_bind (record_outgoing \<lparr>og_notification = row_id n, og_channel = nf_channel n,
                        og_recipient = nf_recipient n, og_message = message\<rparr>) (\<lambda>_.
                    tx_bind sql_now (\<lambda>now.
                    tx_bind (sql_update notifications notifications_update qr (by_id (row_id n))
                        (\<lambda>r. r\<lparr>nf_status := Sent, nf_sent_at := Some now\<rparr>)) (\<lambda>_.
                    tx_return ()))))))"

definition handleEvent ::
  "js_format \<Rightarrow> transports \<Rightarrow> domain_event \<Rightarrow> ('s platform_scheme, unit) act" where
  "handleEvent F T ev =
     (if de_event_type ev \<noteq> notification_requested then act_return ()
      else withTenantContext (de_tenant_id ev) (\<lambda>qr.
        (case js_prop (de_payload ev) ''notificationId'' of
           Some (JId notificationId) \<Rightarrow>
             tx_bind (sql_first notifications qr (by_id notificationId)) (\<lambda>found.
               case found of None \<Rightarrow> tx_return () | Some n \<Rightarrow> dispatch F T qr n)
         | _ \<Rightarrow> tx_return ())))"

section \<open>Frames\<close>

lemma enqueue_frame [frame_intros]: "act_rel (platform_frame t) (enqueue t c r n p)"
  unfolding enqueue_def by (intro frame_intros)

lemma record_outgoing_frame [frame_intros]: "tx_rel (platform_frame qr) (record_outgoing m)"
  by (rule tx_relI) (auto simp: record_outgoing_def platform_frame_def)

lemma handleEvent_frame: "act_rel (platform_frame (de_tenant_id ev)) (handleEvent F T ev)"
proof (cases "js_prop (de_payload ev) ''notificationId''")
  case None
  then show ?thesis unfolding handleEvent_def by (auto intro!: frame_intros)
next
  case (Some j)
  then show ?thesis
    unfolding handleEvent_def dispatch_def markFailed_def
    by (cases j) (auto intro!: frame_intros)
qed

section \<open>What a notification becomes\<close>

text \<open>The outcome a row's channel, template and transport determine.\<close>

definition delivery :: "js_format \<Rightarrow> transports \<Rightarrow> notification \<Rightarrow> rendered_message option" where
  "delivery F T n = (case channels T (nf_channel n) of
      None \<Rightarrow> None
    | Some send \<Rightarrow> (case renderTemplate F (nf_template_name n) (nf_payload n) of
        Inl _ \<Rightarrow> None
      | Inr message \<Rightarrow>
          (case send \<lparr>si_recipient = nf_recipient n, si_message = message, si_payload = nf_payload n,
                      si_attachment = js_prop (nf_payload n) ''attachment''\<rparr> of
             Some _ \<Rightarrow> None | None \<Rightarrow> Some message)))"

lemma markFailed_run:
  "markFailed qr i s = Inr ((), s\<lparr>notifications := update_rows qr (by_id i) (\<lambda>r. r\<lparr>nf_status := Failed\<rparr>) (notifications s)\<rparr>)"
  by (simp add: markFailed_def sql_update_def Let_def list_all_iff tenant_isolation_def tx_bind_def)

lemma dispatch_run:
  "dispatch F T qr n s = (case delivery F T n of
      None \<Rightarrow> Inr ((), s\<lparr>notifications := update_rows qr (by_id (row_id n)) (\<lambda>r. r\<lparr>nf_status := Failed\<rparr>) (notifications s)\<rparr>)
    | Some m \<Rightarrow> Inr ((), s\<lparr>outbox := outbox s @ [\<lparr>og_notification = row_id n, og_channel = nf_channel n,
                        og_recipient = nf_recipient n, og_message = m\<rparr>],
        notifications := update_rows qr (by_id (row_id n)) (\<lambda>r. r\<lparr>nf_status := Sent, nf_sent_at := Some (clock s)\<rparr>) (notifications s)\<rparr>))"
  by (auto simp: dispatch_def delivery_def markFailed_run record_outgoing_def sql_now_def
      sql_update_def Let_def list_all_iff tenant_isolation_def tx_bind_def split: option.splits sum.splits)

text \<open>
  C18. A queued notification does not vanish: when the dispatcher handles its event, the row is
  marked sent, with exactly one message to its recipient handed to its channel, if the channel is
  registered, its template exists and the channel accepts the message; in every other case the
  row is marked failed and nothing is handed over. No other row changes.
\<close>

theorem handleEvent_settles:
  assumes "distinct (map row_id (notifications s))" and "n \<in> set (notifications s)"
    and "de_event_type ev = notification_requested" and "de_tenant_id ev = tenant_id n"
    and "js_prop (de_payload ev) ''notificationId'' = Some (JId (row_id n))"
    and "handleEvent F T ev s = (res, t)"
  shows "res = Inr () \<and>
    notifications t = map (\<lambda>r. if r = n then (case delivery F T n of
        None \<Rightarrow> n\<lparr>nf_status := Failed\<rparr>
      | Some _ \<Rightarrow> n\<lparr>nf_status := Sent, nf_sent_at := Some (clock s)\<rparr>) else r) (notifications s) \<and>
    outbox t = outbox s @ (case delivery F T n of
        None \<Rightarrow> []
      | Some m \<Rightarrow> [\<lparr>og_notification = row_id n, og_channel = nf_channel n, og_recipient = nf_recipient n, og_message = m\<rparr>])"
proof -
  have "sql_first notifications (tenant_id n) (by_id (row_id n)) s = Inr (Some n, s)"
    using visible_by_id [OF assms(1,2) refl] by (simp add: sql_first_def)
  with assms(3-6) have run: "withTenantContext (tenant_id n) (\<lambda>qr. dispatch F T qr n) s = (res, t)"
    by (simp add: handleEvent_def withTenantContext_def)
  have one: "update_rows (tenant_id n) (by_id (row_id n)) f (notifications s)
      = map (\<lambda>r. if r = n then f n else r) (notifications s)" for f
  proof -
    have "\<And>r. r \<in> set (notifications s) \<Longrightarrow> row_id r = row_id n \<Longrightarrow> r = n"
      using assms(1,2) by (auto simp: distinct_map inj_on_def)
    then show ?thesis by (auto simp: update_rows_def by_id_def tenant_isolation_def)
  qed
  from run show ?thesis
    by (auto simp: withTenantContext_def dispatch_run one split: option.splits)
qed

definition quiet :: twilio_config where
  "quiet = \<lparr>tw_transport = ''log'', tw_accountSid = None, tw_authToken = None, tw_from = None\<rparr>"

definition json_transport :: transports where
  "json_transport = \<lparr>sendMail = (\<lambda>_ _ _. None), fetch = (\<lambda>_ _. Inr (200, [])), sms_config = quiet, voice_config = quiet\<rparr>"

definition plain_format :: js_format where
  "plain_format = \<lparr>fmt_number = (\<lambda>_. ''?''), fmt_uuid = nat_text, fmt_date = int_text\<rparr>"

theorem handleEvent_settles_witness:
  "let n = \<lparr>row_id = 3, tenant_id = 1, nf_channel = ''email'', nf_recipient = ''a@b'', nf_template_name = ''cost.pace_alert'',
            nf_payload = JObj [], nf_status = Queued, nf_created_at = 2, nf_sent_at = None\<rparr>;
       s = \<lparr>clock = 9, next_uuid = 7, tenants = [], users = [], events = [], notifications = [n],
            redis_up = True, stream = [], consumer_groups = Map.empty, outbox = []\<rparr> :: platform;
       ev = \<lparr>de_id = 4, de_tenant_id = 1, de_event_type = notification_requested,
             de_payload = JObj [(''notificationId'', JId 3)], de_created_at = 9\<rparr>;
       t = snd (handleEvent plain_format json_transport ev s)
   in notifications t = [n\<lparr>nf_status := Sent, nf_sent_at := Some 9\<rparr>] \<and> length (outbox t) = 1"
proof -
  let ?n = "\<lparr>row_id = 3, tenant_id = 1, nf_channel = ''email'', nf_recipient = ''a@b'', nf_template_name = ''cost.pace_alert'',
            nf_payload = JObj [], nf_status = Queued, nf_created_at = 2, nf_sent_at = None\<rparr>"
  let ?s = "\<lparr>clock = 9, next_uuid = 7, tenants = [], users = [], events = [], notifications = [?n],
            redis_up = True, stream = [], consumer_groups = Map.empty, outbox = []\<rparr> :: platform"
  let ?ev = "\<lparr>de_id = 4, de_tenant_id = 1, de_event_type = notification_requested,
             de_payload = JObj [(''notificationId'', JId 3)], de_created_at = 9\<rparr>"
  obtain res t where run: "handleEvent plain_format json_transport ?ev ?s = (res, t)" by fastforce
  have sends: "delivery plain_format json_transport ?n \<noteq> None"
    by (simp add: delivery_def channels_def email_send_def json_transport_def renderTemplate_def templates_def)
  from handleEvent_settles [OF _ _ _ _ _ run, of ?n] sends run show ?thesis
    by (auto simp: js_prop_def Let_def)
qed

text \<open>Handling the same event twice sends the message twice: the row's status is not consulted.\<close>

theorem redelivered_event_sends_again:
  assumes "distinct (map row_id (notifications s))" and "n \<in> set (notifications s)"
    and "de_event_type ev = notification_requested" and "de_tenant_id ev = tenant_id n"
    and "js_prop (de_payload ev) ''notificationId'' = Some (JId (row_id n))"
    and "nf_status n = Sent" and "delivery F T n \<noteq> None"
  shows "length (outbox (snd (handleEvent F T ev s))) = Suc (length (outbox s))"
proof -
  obtain res t where run: "handleEvent F T ev s = (res, t)" by fastforce
  have "sql_first notifications (tenant_id n) (by_id (row_id n)) s = Inr (Some n, s)"
    using visible_by_id [OF assms(1,2) refl] by (simp add: sql_first_def)
  with assms(3-5) have "handleEvent F T ev s = withTenantContext (tenant_id n) (\<lambda>qr. dispatch F T qr n) s"
    by (simp add: handleEvent_def withTenantContext_def)
  with assms(7) show ?thesis
    by (auto simp: withTenantContext_def dispatch_run)
qed

section \<open>Escaping\<close>

lemma set_replace_all: "x \<in> set (replace_all c t s) \<Longrightarrow> x \<in> set t \<or> (x \<in> set s \<and> x \<noteq> c)"
  by (auto simp: replace_all_def split: if_splits)

text \<open>No markup survives: an escaped name cannot open a tag or close an attribute.\<close>

lemma escapeHtml_inert: "CHR ''<'' \<notin> set (escapeHtml s) \<and> CHR ''>'' \<notin> set (escapeHtml s) \<and> CHR 0x22 \<notin> set (escapeHtml s)"
  unfolding escapeHtml_def by (auto dest!: set_replace_all)

lemma publish_module: "act_rel (same platform.more) (publish t ty p)"
  by (rule act_rel_mono [OF publish_frame]) (simp add: platform_frame_def same_def)

lemma enqueue_module: "act_rel (same platform.more) (enqueue t c r n p)"
  by (rule act_rel_mono [OF enqueue_frame]) (simp add: platform_frame_def same_def)

end
