(* ===== verification/Business_Hours.thy ===== *)
theory Business_Hours
  imports Database
begin

text \<open>
  SLA arithmetic in business hours: \<open>sla/business-hours.ts\<close>, \<open>sla/calculate-due-dates.ts\<close> and the
  settings they read (\<open>business-hours-settings.service.ts\<close>).

  The calendar is the one of ECMAScript (\<open>DayFromYear\<close>, \<open>MakeDay\<close>, \<open>Date.UTC\<close>), on days since
  1970-01-01. The time zone database is a parameter: \<open>zone_offset\<close> gives, for the zones that exist,
  the offset of local time from UTC at every instant; \<open>midnight_24\<close> says whether
  \<open>Intl.DateTimeFormat\<close> prints midnight as \<open>24\<close>. The two loops of \<open>addBusinessMinutes\<close> need not
  end, so they are partial functions: \<open>None\<close> is a call that never returns.
\<close>

section \<open>The calendar\<close>

definition DayFromYear :: "int \<Rightarrow> int" where
  "DayFromYear y = 365 * (y - 1970) + (y - 1969) div 4 - (y - 1901) div 100 + (y - 1601) div 400"

definition leap_year :: "int \<Rightarrow> bool" where
  "leap_year y \<longleftrightarrow> 4 dvd y \<and> (\<not> 100 dvd y \<or> 400 dvd y)"

text \<open>The greatest year that starts at or before the day: an estimate that is off by at most one.\<close>

definition year_from_day :: "int \<Rightarrow> int" where
  "year_from_day d = (let y = 1970 + (400 * d) div 146097 in
     if DayFromYear (y + 1) \<le> d then y + 1 else if DayFromYear y \<le> d then y else y - 1)"

text \<open>The first day of every month, counted from the start of the year.\<close>

definition month_starts :: "int \<Rightarrow> int list" where
  "month_starts y = (let l = (if leap_year y then 1 else 0) in
     [0, 31, 59 + l, 90 + l, 120 + l, 151 + l, 181 + l, 212 + l, 243 + l, 273 + l, 304 + l, 334 + l])"

definition month_from_day :: "int \<Rightarrow> int \<Rightarrow> nat" where
  "month_from_day y n = length (filter (\<lambda>k. k \<le> n) (month_starts y)) - 1"

definition week_day :: "int \<Rightarrow> int" where
  "week_day d = (d + 4) mod 7"

text \<open>\<open>MakeDay\<close> for a month index in range.\<close>

definition MakeDay :: "int \<Rightarrow> nat \<Rightarrow> int \<Rightarrow> int" where
  "MakeDay y m dt = DayFromYear y + month_starts y ! m + dt - 1"

definition MINUTE_MS :: int where
  "MINUTE_MS = 60000"

definition DAY_MS :: int where
  "DAY_MS = 24 * 60 * 60 * 1000"

text \<open>\<open>Date.UTC(y, m, d, h, mi, 0, 0)\<close>: a two-digit year is of the twentieth century.\<close>

definition Date_UTC :: "int \<Rightarrow> nat \<Rightarrow> int \<Rightarrow> int \<Rightarrow> int \<Rightarrow> msec" where
  "Date_UTC y m d h mi =
     MakeDay (if 0 \<le> y \<and> y \<le> 99 then 1900 + y else y) m d * DAY_MS + (h * 60 + mi) * MINUTE_MS"

lemma div_next:
  fixes k n :: int
  assumes "0 < n"
  shows "(k + 1) div n = k div n + (if n dvd k + 1 then 1 else 0)"
proof (cases "n dvd k + 1")
  case True
  then obtain c where c: "k + 1 = n * c" by (elim dvdE)
  then have "k = n * (c - 1) + (n - 1)" by (simp add: algebra_simps)
  then have "k div n = c - 1" using assms by (intro int_div_pos_eq [of _ _ _ "n - 1"]) auto
  with c assms True show ?thesis by simp
next
  case False
  have k: "k = n * (k div n) + k mod n" by simp
  moreover have "k mod n \<noteq> n - 1"
  proof
    assume "k mod n = n - 1"
    with k have "k + 1 = n * (k div n + 1)" by (simp add: algebra_simps)
    with False show False by simp
  qed
  ultimately have "(k + 1) div n = k div n"
    using assms pos_mod_bound [of n k] pos_mod_sign [of n k] by (intro int_div_pos_eq [of _ _ _ "k mod n + 1"]) linarith+
  with False show ?thesis by simp
qed

lemma DayFromYear_step: "DayFromYear (y + 1) = DayFromYear y + (if leap_year y then 366 else 365)"
proof -
  have "4 dvd y - 1968 \<longleftrightarrow> 4 dvd y" "100 dvd y - 1900 \<longleftrightarrow> 100 dvd y" "400 dvd y - 1600 \<longleftrightarrow> 400 dvd y"
    using dvd_diff_left_iff [of 4 1968 y] dvd_diff_left_iff [of 100 1900 y] dvd_diff_left_iff [of 400 1600 y]
    by simp_all
  then have steps: "(y - 1968) div 4 = (y - 1969) div 4 + (if 4 dvd y then 1 else 0)"
      "(y - 1900) div 100 = (y - 1901) div 100 + (if 100 dvd y then 1 else 0)"
      "(y - 1600) div 400 = (y - 1601) div 400 + (if 400 dvd y then 1 else 0)"
    using div_next [of 4 "y - 1969"] div_next [of 100 "y - 1901"] div_next [of 400 "y - 1601"] by simp_all
  have "DayFromYear (y + 1) = 365 * (y - 1969) + (y - 1968) div 4 - (y - 1900) div 100 + (y - 1600) div 400"
    by (simp add: DayFromYear_def)
  then have eq: "DayFromYear (y + 1) = DayFromYear y + 365 + (if 4 dvd y then 1 else 0)
      - (if 100 dvd y then 1 else 0) + (if 400 dvd y then 1 else 0)"
    unfolding steps DayFromYear_def [of y] by (simp only: algebra_simps)
  have "(b \<longrightarrow> a) \<Longrightarrow> (c \<longrightarrow> b) \<Longrightarrow> x + 365 + (if a then 1 else 0) - (if b then 1 else 0) + (if c then 1 else 0)
      = x + (if a \<and> (\<not> b \<or> c) then 366 else 365)" for a b c and x :: int
    by (cases a; cases b; cases c) simp_all
  moreover have "100 dvd y \<longrightarrow> 4 dvd y" "400 dvd y \<longrightarrow> 100 dvd y"
    using dvd_trans [of 4 100 y] dvd_trans [of 100 400 y] by simp_all
  ultimately show ?thesis unfolding eq leap_year_def by blast
qed

lemma div_bounds:
  fixes k n :: int
  assumes "0 < n"
  shows "n * (k div n) \<le> k" "k < n * (k div n) + n"
  using assms pos_mod_sign [of n k] pos_mod_bound [of n k] minus_mod_eq_mult_div [of k n] by linarith+

lemma DayFromYear_bounds:
  "3652425 * (y - 1970) - 12650 \<le> 10000 * DayFromYear y"
  "10000 * DayFromYear y \<le> 3652425 * (y - 1970) + 14725"
  using div_bounds [of 4 "y - 1969"] div_bounds [of 100 "y - 1901"] div_bounds [of 400 "y - 1601"]
  by (simp_all add: DayFromYear_def)

lemma year_from_day_spec:
  "DayFromYear (year_from_day d) \<le> d \<and> d < DayFromYear (year_from_day d + 1)"
proof -
  define q where "q = (400 * d) div 146097"
  have q: "146097 * q \<le> 400 * d" "400 * d < 146097 * q + 146097"
    using div_bounds [of 146097 "400 * d"] by (simp_all add: q_def)
  then have "DayFromYear (1970 + q - 1) \<le> d"
    using DayFromYear_bounds(2) [of "1970 + q - 1"] by simp
  moreover from q have "d < DayFromYear (1970 + q + 2)"
    using DayFromYear_bounds(1) [of "1970 + q + 2"] by simp
  moreover have "year_from_day d = (if DayFromYear (1970 + q + 1) \<le> d then 1970 + q + 1
      else if DayFromYear (1970 + q) \<le> d then 1970 + q else 1970 + q - 1)"
    by (simp only: year_from_day_def q_def Let_def)
  ultimately show ?thesis by (simp add: add.commute)
qed

lemma month_from_day_range: "month_from_day y n < 12"
proof -
  have "length (filter (\<lambda>k. k \<le> n) (month_starts y)) \<le> length (month_starts y)" by (rule length_filter_le)
  also have "\<dots> = 12" by (simp add: month_starts_def Let_def)
  finally show ?thesis by (simp add: month_from_day_def)
qed

text \<open>The day of the month is a day the month has.\<close>

definition days_in_month :: "int \<Rightarrow> nat \<Rightarrow> int" where
  "days_in_month y m = (if m = 1 then (if leap_year y then 29 else 28) else if m \<in> {3, 5, 8, 10} then 30 else 31)"

lemma day_of_month_range:
  assumes "0 \<le> n" and "n < (if leap_year y then 366 else 365)"
  shows "month_starts y ! month_from_day y n \<le> n \<and>
    n < month_starts y ! month_from_day y n + days_in_month y (month_from_day y n)"
proof -
  define l :: int where "l = (if leap_year y then 1 else 0)"
  have l: "0 \<le> l" "l \<le> 1" "n < 365 + l" using assms by (auto simp: l_def)
  have dm: "days_in_month y m = (if m = 1 then 28 + l else if m \<in> {3, 5, 8, 10} then 30 else 31)" for m
    by (simp add: days_in_month_def l_def)
  have "n < 31 \<or> (31 \<le> n \<and> n < 59 + l) \<or> (59 + l \<le> n \<and> n < 90 + l) \<or> (90 + l \<le> n \<and> n < 120 + l) \<or>
      (120 + l \<le> n \<and> n < 151 + l) \<or> (151 + l \<le> n \<and> n < 181 + l) \<or> (181 + l \<le> n \<and> n < 212 + l) \<or>
      (212 + l \<le> n \<and> n < 243 + l) \<or> (243 + l \<le> n \<and> n < 273 + l) \<or> (273 + l \<le> n \<and> n < 304 + l) \<or>
      (304 + l \<le> n \<and> n < 334 + l) \<or> 334 + l \<le> n" by linarith
  then show ?thesis
    unfolding month_from_day_def month_starts_def dm l_def [symmetric] Let_def
    using assms(1) l by (elim disjE) simp_all
qed

section \<open>Wall-clock time\<close>

record intl =
  zone_offset :: "string \<Rightarrow> (msec \<Rightarrow> msec) option"
  midnight_24 :: bool

record BusinessHours =
  startMinute :: int
  endMinute :: int
  days :: "int list"
  timezone :: string

definition DEFAULT_BUSINESS_HOURS :: BusinessHours where
  "DEFAULT_BUSINESS_HOURS = \<lparr>startMinute = 9 * 60, endMinute = 17 * 60, days = [1, 2, 3, 4, 5], timezone = ''UTC''\<rparr>"

record ZonedParts =
  zp_year :: int
  zp_month :: int
  zp_day :: int
  zp_hour :: int
  zp_minute :: int
  zp_weekday :: int

definition weekday_names :: "string list" where
  "weekday_names = [''Sun'', ''Mon'', ''Tue'', ''Wed'', ''Thu'', ''Fri'', ''Sat'']"

definition WEEKDAY_INDEX :: "string \<Rightarrow> int option" where
  "WEEKDAY_INDEX = map_of (zip weekday_names [0, 1, 2, 3, 4, 5, 6])"

text \<open>\<open>formatToParts\<close> of an instant whose zone has the given offset, and the parts read back.\<close>

definition zonedParts :: "bool \<Rightarrow> (msec \<Rightarrow> msec) \<Rightarrow> msec \<Rightarrow> ZonedParts" where
  "zonedParts m24 off instant =
     (let local = (instant + off instant) div MINUTE_MS;
          d = local div 1440;
          y = year_from_day d;
          m = month_from_day y (d - DayFromYear y);
          h = local mod 1440 div 60;
          hour = (if m24 \<and> h = 0 then 24 else h)
      in \<lparr>zp_year = y, zp_month = int m + 1, zp_day = d - DayFromYear y - month_starts y ! m + 1,
          zp_hour = (if hour = 24 then 0 else hour), zp_minute = local mod 60,
          zp_weekday = (case WEEKDAY_INDEX (weekday_names ! nat (week_day d)) of None \<Rightarrow> 0 | Some i \<Rightarrow> i)\<rparr>)"

definition zonedAsUtc :: "ZonedParts \<Rightarrow> msec" where
  "zonedAsUtc z = Date_UTC (zp_year z) (nat (zp_month z - 1)) (zp_day z) (zp_hour z) (zp_minute z)"

text \<open>The two rounds of the correction.\<close>

definition correct_guess :: "bool \<Rightarrow> (msec \<Rightarrow> msec) \<Rightarrow> msec \<Rightarrow> msec \<Rightarrow> msec" where
  "correct_guess m24 off naiveUtc guess = naiveUtc - (zonedAsUtc (zonedParts m24 off guess) - guess)"

definition zonedTimeToUtc :: "bool \<Rightarrow> (msec \<Rightarrow> msec) \<Rightarrow> int \<Rightarrow> int \<Rightarrow> int \<Rightarrow> int \<Rightarrow> msec" where
  "zonedTimeToUtc m24 off year month day minutesIntoDay =
     (let naiveUtc = Date_UTC year (nat (month - 1)) day (minutesIntoDay div 60) (minutesIntoDay mod 60)
      in correct_guess m24 off naiveUtc (correct_guess m24 off naiveUtc naiveUtc))"

section \<open>Adding business minutes\<close>

definition isWorkingDay :: "BusinessHours \<Rightarrow> int \<Rightarrow> bool" where
  "isWorkingDay hours weekday \<longleftrightarrow> weekday \<in> set (days hours)"

text \<open>The do-while loop of \<open>advanceToNextWorkingDayStart\<close>.\<close>

partial_function (option) next_working_day ::
  "bool \<Rightarrow> (msec \<Rightarrow> msec) \<Rightarrow> BusinessHours \<Rightarrow> msec \<Rightarrow> ZonedParts option" where
  "next_working_day m24 off hours probe =
     (let probe' = probe + DAY_MS; cursor = zonedParts m24 off probe' in
      if isWorkingDay hours (zp_weekday cursor) then Some cursor else next_working_day m24 off hours probe')"

definition advanceToNextWorkingDayStart ::
  "bool \<Rightarrow> (msec \<Rightarrow> msec) \<Rightarrow> BusinessHours \<Rightarrow> ZonedParts \<Rightarrow> (ZonedParts \<times> int) option" where
  "advanceToNextWorkingDayStart m24 off hours cursor =
     map_option (\<lambda>c. (c, startMinute hours))
       (next_working_day m24 off hours
         (zonedTimeToUtc m24 off (zp_year cursor) (zp_month cursor) (zp_day cursor) (12 * 60)))"

text \<open>The \<open>for (;;)\<close> loop: consume business minutes day by day.\<close>

partial_function (option) consume_minutes ::
  "bool \<Rightarrow> (msec \<Rightarrow> msec) \<Rightarrow> BusinessHours \<Rightarrow> ZonedParts \<Rightarrow> int \<Rightarrow> int \<Rightarrow> msec option" where
  "consume_minutes m24 off hours cursor cursorMinuteOfDay remaining =
     (let availableToday = endMinute hours - cursorMinuteOfDay in
      if remaining \<le> availableToday
      then Some (zonedTimeToUtc m24 off (zp_year cursor) (zp_month cursor) (zp_day cursor) (cursorMinuteOfDay + remaining))
      else case advanceToNextWorkingDayStart m24 off hours cursor of
             None \<Rightarrow> None
           | Some cm \<Rightarrow> consume_minutes m24 off hours (fst cm) (snd cm) (remaining - availableToday))"

text \<open>
  The call: \<open>None\<close> when it does not return; \<open>RangeError\<close> when the zone does not exist, raised by
  the first \<open>zonedParts\<close>.
\<close>

definition range_error :: error where
  "range_error = Failure ''RangeError''"

text \<open>The cursor at the first business minute at or after the anchor.\<close>

definition position_cursor ::
  "bool \<Rightarrow> (msec \<Rightarrow> msec) \<Rightarrow> BusinessHours \<Rightarrow> msec \<Rightarrow> (ZonedParts \<times> int) option" where
  "position_cursor m24 off hours anchor =
     (let cursor = zonedParts m24 off anchor;
          cursorMinuteOfDay = zp_hour cursor * 60 + zp_minute cursor
      in if \<not> isWorkingDay hours (zp_weekday cursor) \<or> cursorMinuteOfDay \<ge> endMinute hours
         then advanceToNextWorkingDayStart m24 off hours cursor
         else if cursorMinuteOfDay < startMinute hours
         then Some (cursor, startMinute hours)
         else Some (cursor, cursorMinuteOfDay))"

definition addBusinessMinutes :: "intl \<Rightarrow> msec \<Rightarrow> int \<Rightarrow> BusinessHours \<Rightarrow> (error + msec) option" where
  "addBusinessMinutes I anchor minutesToAdd hours =
     (let windowLength = endMinute hours - startMinute hours in
      if windowLength \<le> 0 \<or> days hours = [] \<or> minutesToAdd \<le> 0
      then Some (Inr (anchor + max 0 minutesToAdd * 60000))
      else case zone_offset I (timezone hours) of
        None \<Rightarrow> Some (Inl range_error)
      | Some off \<Rightarrow>
          (case position_cursor (midnight_24 I) off hours anchor of
               None \<Rightarrow> None
             | Some cm \<Rightarrow>
                 map_option Inr (consume_minutes (midnight_24 I) off hours (fst cm) (snd cm) minutesToAdd)))"

record SlaTargets =
  first_response_target_minutes :: int
  resolution_target_minutes :: int
  business_hours_only :: bool

record SlaDueDates =
  firstResponseDueAt :: "msec option"
  resolutionDueAt :: "msec option"

text \<open>\<open>due\<close>, and \<open>calculateDueDates\<close>: the first response is computed first.\<close>

definition due :: "intl \<Rightarrow> msec \<Rightarrow> SlaTargets \<Rightarrow> BusinessHours option \<Rightarrow> int \<Rightarrow> (error + msec) option" where
  "due I createdAt slaPolicy businessHours targetMinutes =
     (case businessHours of
        Some hours \<Rightarrow> if business_hours_only slaPolicy
                      then addBusinessMinutes I createdAt targetMinutes hours
                      else Some (Inr (createdAt + targetMinutes * 60000))
      | None \<Rightarrow> Some (Inr (createdAt + targetMinutes * 60000)))"

definition calculateDueDates ::
  "intl \<Rightarrow> msec \<Rightarrow> SlaTargets option \<Rightarrow> BusinessHours option \<Rightarrow> (error + SlaDueDates) option" where
  "calculateDueDates I createdAt slaPolicy businessHours =
     (case slaPolicy of
        None \<Rightarrow> Some (Inr \<lparr>firstResponseDueAt = None, resolutionDueAt = None\<rparr>)
      | Some p \<Rightarrow>
          (case due I createdAt p businessHours (first_response_target_minutes p) of
             None \<Rightarrow> None
           | Some (Inl e) \<Rightarrow> Some (Inl e)
           | Some (Inr a) \<Rightarrow>
               (case due I createdAt p businessHours (resolution_target_minutes p) of
                  None \<Rightarrow> None
                | Some (Inl e) \<Rightarrow> Some (Inl e)
                | Some (Inr b) \<Rightarrow> Some (Inr \<lparr>firstResponseDueAt = Some a, resolutionDueAt = Some b\<rparr>))))"

section \<open>Wall-clock time, read back\<close>

text \<open>The local minute of an instant, counted from the local epoch.\<close>

definition local_minute :: "(msec \<Rightarrow> msec) \<Rightarrow> msec \<Rightarrow> int" where
  "local_minute off t = (t + off t) div MINUTE_MS"

lemma week_day_range: "0 \<le> week_day d \<and> week_day d < 7"
  by (simp add: week_day_def)

lemma zonedParts_weekday [simp]: "zp_weekday (zonedParts m24 off t) = week_day (local_minute off t div 1440)"
proof -
  let ?w = "week_day (local_minute off t div 1440)"
  have "?w \<in> {0, 1, 2, 3, 4, 5, 6}" using week_day_range [of "local_minute off t div 1440"] by auto
  then show ?thesis
    by (auto simp: zonedParts_def local_minute_def Let_def WEEKDAY_INDEX_def weekday_names_def)
qed

lemma zonedParts_minute [simp]:
  "zp_hour (zonedParts m24 off t) * 60 + zp_minute (zonedParts m24 off t) = local_minute off t mod 1440"
proof -
  have "l mod 1440 div 60 * 60 + l mod 60 = l mod 1440" for l :: int
  proof -
    have "l mod 60 = l mod 1440 mod 60" by (simp add: mod_mod_cancel)
    then show ?thesis by simp
  qed
  moreover have "zp_hour (zonedParts m24 off t) = local_minute off t mod 1440 div 60"
  proof -
    have "l mod 1440 div 60 \<noteq> 24" for l :: int
      using pos_mod_bound [of 1440 l] by simp
    then show ?thesis by (simp add: zonedParts_def local_minute_def Let_def)
  qed
  moreover have "zp_minute (zonedParts m24 off t) = local_minute off t mod 60"
    by (simp add: zonedParts_def local_minute_def Let_def)
  ultimately show ?thesis by simp
qed

text \<open>
  Reading the parts back with \<open>Date.UTC\<close> gives the instant truncated to the minute. Days before
  the year 327 are left out: \<open>Date.UTC\<close> reads a year below 100 as one of the twentieth century.
\<close>

definition modern :: "int \<Rightarrow> bool" where
  "modern d \<longleftrightarrow> - 600000 \<le> d"

lemma year_modern: "modern d \<Longrightarrow> 100 \<le> year_from_day d"
  using year_from_day_spec [of d] DayFromYear_bounds(2) [of "year_from_day d + 1"] by (simp add: modern_def)

lemma Date_UTC_zonedParts:
  fixes m24 off t
  defines "z \<equiv> zonedParts m24 off t" and "d \<equiv> local_minute off t div 1440"
  assumes "modern d"
  shows "Date_UTC (zp_year z) (nat (zp_month z - 1)) (zp_day z) (x div 60) (x mod 60) = d * DAY_MS + x * MINUTE_MS"
proof -
  have y: "zp_year z = year_from_day d" and m: "nat (zp_month z - 1) = month_from_day (year_from_day d) (d - DayFromYear (year_from_day d))"
    and dd: "zp_day z = d - DayFromYear (year_from_day d) - month_starts (year_from_day d) ! month_from_day (year_from_day d) (d - DayFromYear (year_from_day d)) + 1"
    by (simp_all add: z_def d_def zonedParts_def local_minute_def Let_def)
  have "\<not> (0 \<le> zp_year z \<and> zp_year z \<le> 99)" using year_modern [OF assms(3)] y by simp
  then have "Date_UTC (zp_year z) (nat (zp_month z - 1)) (zp_day z) (x div 60) (x mod 60)
      = MakeDay (zp_year z) (nat (zp_month z - 1)) (zp_day z) * DAY_MS + (x div 60 * 60 + x mod 60) * MINUTE_MS"
    by (simp only: Date_UTC_def if_False)
  also have "MakeDay (zp_year z) (nat (zp_month z - 1)) (zp_day z) = d"
    unfolding m unfolding y dd MakeDay_def by simp
  finally show ?thesis by simp
qed

lemma zonedAsUtc_zonedParts:
  assumes "modern (local_minute off t div 1440)"
  shows "zonedAsUtc (zonedParts m24 off t) = local_minute off t * MINUTE_MS"
proof -
  let ?z = "zonedParts m24 off t" and ?x = "local_minute off t mod 1440"
  have "zp_hour ?z * 60 + zp_minute ?z = ?x" by (rule zonedParts_minute)
  then have "zonedAsUtc ?z = Date_UTC (zp_year ?z) (nat (zp_month ?z - 1)) (zp_day ?z) (?x div 60) (?x mod 60)"
    by (simp only: zonedAsUtc_def Date_UTC_def div_mult_mod_eq)
  also have "\<dots> = local_minute off t div 1440 * DAY_MS + ?x * MINUTE_MS"
    by (rule Date_UTC_zonedParts [OF assms])
  also have "\<dots> = (local_minute off t div 1440 * 1440 + ?x) * MINUTE_MS"
    by (simp only: DAY_MS_def MINUTE_MS_def distrib_right)
  finally show ?thesis by simp
qed

text \<open>
  The zones for which stepping by 24 hours from local noon visits every calendar day: from the
  instant \<open>a\<close> on the offsets stay within a band of at most eleven hours. \<open>w\<close> is the width of the band:
  0 for a fixed offset, one hour for a zone with daylight saving time.
\<close>

definition zone_band :: "msec \<Rightarrow> int \<Rightarrow> int \<Rightarrow> (msec \<Rightarrow> msec) \<Rightarrow> bool" where
  "zone_band a c w off \<longleftrightarrow> - DAY_MS \<le> c \<and> c \<le> DAY_MS \<and> 0 \<le> w \<and> w \<le> 11 * 60 * MINUTE_MS \<and>
     (\<forall>t \<ge> a. c \<le> off t \<and> off t \<le> c + w)"

text \<open>The local days on which every conversion looks up an offset of the band only.\<close>

definition band_day :: "msec \<Rightarrow> int \<Rightarrow> bool" where
  "band_day a d \<longleftrightarrow> - 500000 \<le> d \<and> a \<le> (d - 2) * DAY_MS"

lemma band_day_mono: "band_day a d \<Longrightarrow> d \<le> e \<Longrightarrow> band_day a e"
  by (auto simp: band_day_def DAY_MS_def)

lemma correct_guess_band:
  assumes "zone_band a c w off" and "-599990 * DAY_MS \<le> guess" and "a \<le> guess"
  shows "naive - (c + w) \<le> correct_guess m24 off naive guess"
    "correct_guess m24 off naive guess < naive - c + MINUTE_MS"
proof -
  have o: "c \<le> off guess" "off guess \<le> c + w" "- DAY_MS \<le> c" using assms(1,3) by (auto simp: zone_band_def)
  then have "- 599991 * DAY_MS \<le> guess + off guess" using assms(2) by simp
  then have "(- 599991 * DAY_MS) div MINUTE_MS \<le> local_minute off guess"
    unfolding local_minute_def by (rule zdiv_mono1) (simp add: MINUTE_MS_def)
  then have "(- 599991 * DAY_MS) div MINUTE_MS div 1440 \<le> local_minute off guess div 1440"
    by (rule zdiv_mono1) simp
  then have "modern (local_minute off guess div 1440)" by (simp add: modern_def DAY_MS_def MINUTE_MS_def)
  then have "correct_guess m24 off naive guess = naive - (local_minute off guess * MINUTE_MS - guess)"
    by (simp add: correct_guess_def zonedAsUtc_zonedParts)
  moreover have "local_minute off guess * MINUTE_MS \<le> guess + off guess" "guess + off guess < local_minute off guess * MINUTE_MS + MINUTE_MS"
    using div_bounds [of MINUTE_MS "guess + off guess"] by (simp_all add: local_minute_def MINUTE_MS_def mult.commute)
  ultimately show "naive - (c + w) \<le> correct_guess m24 off naive guess"
    "correct_guess m24 off naive guess < naive - c + MINUTE_MS" using o by linarith+
qed

lemma zonedTimeToUtc_band:
  fixes m24
  assumes "zone_band a c w off" and "band_day a d" and "d = local_minute off t div 1440" and "0 \<le> x"
  defines "r \<equiv> zonedTimeToUtc m24 off (zp_year (zonedParts m24 off t)) (zp_month (zonedParts m24 off t)) (zp_day (zonedParts m24 off t)) x"
  shows "d * DAY_MS + x * MINUTE_MS - (c + w) \<le> r" "r < d * DAY_MS + x * MINUTE_MS - c + MINUTE_MS"
proof -
  let ?naive = "d * DAY_MS + x * MINUTE_MS"
  have d: "- 500000 \<le> d" "a \<le> (d - 2) * DAY_MS" using assms(2) by (simp_all add: band_day_def)
  then have "modern (local_minute off t div 1440)" using assms(3) by (simp add: modern_def)
  from Date_UTC_zonedParts [OF this]
  have r: "r = correct_guess m24 off ?naive (correct_guess m24 off ?naive ?naive)"
    by (simp only: r_def zonedTimeToUtc_def Let_def assms(3))
  have n: "- 500000 * DAY_MS \<le> ?naive" "a + 2 * DAY_MS \<le> ?naive"
    using d assms(4) by (simp_all add: DAY_MS_def MINUTE_MS_def)
  then have g: "- 599990 * DAY_MS \<le> ?naive" "a \<le> ?naive" by (simp_all add: DAY_MS_def)
  have "c + w \<le> 2 * DAY_MS" using assms(1) by (simp add: zone_band_def DAY_MS_def MINUTE_MS_def)
  with correct_guess_band(1) [OF assms(1) g, of ?naive m24] n
  have "- 599990 * DAY_MS \<le> correct_guess m24 off ?naive ?naive" "a \<le> correct_guess m24 off ?naive ?naive"
    by (simp_all add: DAY_MS_def)
  from correct_guess_band [OF assms(1) this]
  show "?naive - (c + w) \<le> r" "r < ?naive - c + MINUTE_MS" unfolding r by simp_all
qed

text \<open>The probe: \<open>k\<close> days after local noon of day \<open>d\<close> it is day \<open>d + k\<close>.\<close>

lemma probe_day:
  assumes "zone_band a c w off" and "band_day a d" and "d = local_minute off t div 1440" and "0 \<le> k"
  shows "local_minute off (zonedTimeToUtc m24 off (zp_year (zonedParts m24 off t)) (zp_month (zonedParts m24 off t))
      (zp_day (zonedParts m24 off t)) (12 * 60) + k * DAY_MS) div 1440 = d + k"
proof -
  define p where "p = zonedTimeToUtc m24 off (zp_year (zonedParts m24 off t)) (zp_month (zonedParts m24 off t))
      (zp_day (zonedParts m24 off t)) (12 * 60) + k * DAY_MS"
  have p: "(d + k) * DAY_MS + 12 * 60 * MINUTE_MS - (c + w) \<le> p"
    "p < (d + k) * DAY_MS + 12 * 60 * MINUTE_MS - c + MINUTE_MS"
    using zonedTimeToUtc_band [OF assms(1-3), of "12 * 60" m24] by (simp_all add: p_def algebra_simps)
  have w: "w \<le> 11 * 60 * MINUTE_MS" "c \<le> DAY_MS" using assms(1) by (simp_all add: zone_band_def)
  have "a \<le> (d - 2) * DAY_MS" "0 \<le> k * DAY_MS" using assms(2,4) by (simp_all add: band_day_def DAY_MS_def)
  then have "a \<le> p" using p(1) w by (simp add: DAY_MS_def MINUTE_MS_def)
  then have "c \<le> off p" "off p \<le> c + w" using assms(1) by (auto simp: zone_band_def)
  moreover note p w
  ultimately have "(d + k) * DAY_MS \<le> p + off p" "p + off p < (d + k) * DAY_MS + DAY_MS"
    by (simp_all add: DAY_MS_def MINUTE_MS_def)
  then have "(p + off p) div DAY_MS = d + k"
    by (intro int_div_pos_eq [of _ _ _ "p + off p - (d + k) * DAY_MS"]) (simp_all add: algebra_simps)
  moreover have "local_minute off p div 1440 = (p + off p) div DAY_MS"
    by (simp add: local_minute_def MINUTE_MS_def DAY_MS_def zdiv_zmult2_eq [symmetric])
  ultimately show ?thesis by (simp add: p_def)
qed

section \<open>The loops end\<close>

text \<open>A configuration with a weekday that exists, and a window inside the day.\<close>

definition hours_ok :: "BusinessHours \<Rightarrow> bool" where
  "hours_ok hours \<longleftrightarrow> 0 \<le> startMinute hours \<and> startMinute hours < endMinute hours \<and> endMinute hours \<le> 1440 \<and>
     (\<exists>w \<in> set (days hours). 0 \<le> w \<and> w < 7)"

lemma next_weekday: "0 \<le> w \<Longrightarrow> w < 7 \<Longrightarrow> \<exists>k. 1 \<le> k \<and> k \<le> 7 \<and> week_day (d + k) = w"
proof -
  assume w: "0 \<le> w" "w < 7"
  define k where "k = (w - d - 5) mod 7 + 1"
  have "d + k + 4 = w + 7 * (- ((w - d - 5) div 7))"
    using minus_mod_eq_mult_div [of "w - d - 5" 7] by (simp add: k_def algebra_simps)
  then have "week_day (d + k) = w mod 7" unfolding week_day_def by (simp only: mod_mult_self2)
  then show ?thesis using w by (intro exI [of _ k]) (simp add: k_def)
qed

text \<open>The first working day after \<open>d\<close> is at most a week away.\<close>

lemma first_working_day:
  assumes "hours_ok hours"
  obtains k where "1 \<le> k" and "k \<le> 7" and "isWorkingDay hours (week_day (d + k))"
    and "\<And>j. 1 \<le> j \<Longrightarrow> j < k \<Longrightarrow> \<not> isWorkingDay hours (week_day (d + j))"
proof -
  let ?P = "\<lambda>n :: nat. isWorkingDay hours (week_day (d + 1 + int n))"
  from assms obtain w where w: "w \<in> set (days hours)" "0 \<le> w" "w < 7" by (auto simp: hours_ok_def)
  from next_weekday [OF w(2,3), of d] obtain k where k: "1 \<le> k" "k \<le> 7" "week_day (d + k) = w" by auto
  then have P: "?P (nat (k - 1))" using w(1) by (simp add: isWorkingDay_def)
  define n where "n = (LEAST n. ?P n)"
  have "?P n" unfolding n_def by (rule LeastI) (rule P)
  moreover have "n \<le> nat (k - 1)" unfolding n_def by (rule Least_le) (rule P)
  moreover have "\<not> ?P m" if "m < n" for m using that not_less_Least unfolding n_def by blast
  ultimately show ?thesis
  proof (intro that [of "int n + 1"])
    fix j :: int
    assume "1 \<le> j" "j < int n + 1" and "\<And>m. m < n \<Longrightarrow> \<not> ?P m"
    then have "\<not> ?P (nat (j - 1))" by (intro \<open>\<And>m. m < n \<Longrightarrow> \<not> ?P m\<close>) linarith
    with \<open>1 \<le> j\<close> show "\<not> isWorkingDay hours (week_day (d + j))" by simp
  qed (use k in \<open>auto simp: add.commute add.left_commute\<close>)
qed

lemma next_working_day_steps:
  assumes "\<And>j. j < n \<Longrightarrow> \<not> isWorkingDay hours (week_day (local_minute off (p + (int j + 1) * DAY_MS) div 1440))"
    and "isWorkingDay hours (week_day (local_minute off (p + (int n + 1) * DAY_MS) div 1440))"
  shows "next_working_day m24 off hours p = Some (zonedParts m24 off (p + (int n + 1) * DAY_MS))"
  using assms
proof (induction n arbitrary: p)
  case 0
  then show ?case by (subst next_working_day.simps) (simp add: Let_def)
next
  case (Suc n)
  have shift: "p + (int (Suc j) + 1) * DAY_MS = p + DAY_MS + (int j + 1) * DAY_MS" for j
    by (simp add: algebra_simps)
  have "\<not> isWorkingDay hours (week_day (local_minute off (p + DAY_MS) div 1440))" using Suc.prems(1) [of 0] by simp
  moreover have "next_working_day m24 off hours (p + DAY_MS) = Some (zonedParts m24 off (p + DAY_MS + (int n + 1) * DAY_MS))"
  proof (rule Suc.IH)
    show "\<not> isWorkingDay hours (week_day (local_minute off (p + DAY_MS + (int j + 1) * DAY_MS) div 1440))" if "j < n" for j
      using Suc.prems(1) [OF Suc_mono [OF that]] unfolding shift .
  qed (use Suc.prems(2) in \<open>simp only: shift\<close>)
  ultimately show ?case
    by (subst next_working_day.simps) (simp add: Let_def algebra_simps)
qed

lemma advance_run:
  assumes "zone_band a c w off" and "band_day a d" and "d = local_minute off t div 1440" and "hours_ok hours"
  obtains t' k where "advanceToNextWorkingDayStart m24 off hours (zonedParts m24 off t) = Some (zonedParts m24 off t', startMinute hours)"
    and "1 \<le> k" and "local_minute off t' div 1440 = d + k" and "isWorkingDay hours (week_day (d + k))"
    and "\<And>j. 1 \<le> j \<Longrightarrow> j < k \<Longrightarrow> \<not> isWorkingDay hours (week_day (d + j))"
proof -
  obtain k where k: "1 \<le> k" "isWorkingDay hours (week_day (d + k))"
      "\<And>j. 1 \<le> j \<Longrightarrow> j < k \<Longrightarrow> \<not> isWorkingDay hours (week_day (d + j))"
    using first_working_day [OF assms(4)] by metis
  define p where "p = zonedTimeToUtc m24 off (zp_year (zonedParts m24 off t)) (zp_month (zonedParts m24 off t))
      (zp_day (zonedParts m24 off t)) (12 * 60)"
  have day: "local_minute off (p + j * DAY_MS) div 1440 = d + j" if "0 \<le> j" for j
    unfolding p_def using that by (rule probe_day [OF assms(1-3)])
  have "next_working_day m24 off hours p = Some (zonedParts m24 off (p + (int (nat (k - 1)) + 1) * DAY_MS))"
    using k by (intro next_working_day_steps) (simp_all add: day)
  then have "advanceToNextWorkingDayStart m24 off hours (zonedParts m24 off t)
      = Some (zonedParts m24 off (p + k * DAY_MS), startMinute hours)"
    using k(1) by (simp only: advanceToNextWorkingDayStart_def p_def [symmetric]) simp
  with k day show ?thesis by (intro that) auto
qed

section \<open>Counting business minutes\<close>

text \<open>A minute of local time is a business minute; how many there are from one minute to another.\<close>

definition business_minute :: "BusinessHours \<Rightarrow> int \<Rightarrow> bool" where
  "business_minute hours n \<longleftrightarrow> isWorkingDay hours (week_day (n div 1440)) \<and>
     startMinute hours \<le> n mod 1440 \<and> n mod 1440 < endMinute hours"

definition business_between :: "BusinessHours \<Rightarrow> int \<Rightarrow> int \<Rightarrow> nat" where
  "business_between hours a b = card ({a ..< b} \<inter> Collect (business_minute hours))"

lemma business_between_split:
  assumes "a \<le> b" and "b \<le> c"
  shows "business_between hours a c = business_between hours a b + business_between hours b c"
proof -
  let ?B = "Collect (business_minute hours)"
  have "{a ..< c} \<inter> ?B = ({a ..< b} \<inter> ?B) \<union> ({b ..< c} \<inter> ?B)" using assms by auto
  moreover have "({a ..< b} \<inter> ?B) \<inter> ({b ..< c} \<inter> ?B) = {}" by auto
  ultimately show ?thesis unfolding business_between_def by (simp only: card_Un_disjoint finite_Int finite_atLeastLessThan_int simp_thms)
qed

lemma business_between_none:
  "(\<And>n. a \<le> n \<Longrightarrow> n < b \<Longrightarrow> \<not> business_minute hours n) \<Longrightarrow> business_between hours a b = 0"
  by (auto simp: business_between_def card_eq_0_iff)

lemma day_minute: "0 \<le> (m :: int) \<Longrightarrow> m < 1440 \<Longrightarrow> (d * 1440 + m) div 1440 = d \<and> (d * 1440 + m) mod 1440 = m"
  by simp

lemma business_between_day:
  assumes "hours_ok hours" and "isWorkingDay hours (week_day d)" and "startMinute hours \<le> m" and "m \<le> m'" and "m' \<le> endMinute hours"
  shows "business_between hours (d * 1440 + m) (d * 1440 + m') = nat (m' - m)"
proof -
  have "business_minute hours n" if "d * 1440 + m \<le> n" "n < d * 1440 + m'" for n
  proof -
    have "n = d * 1440 + (n - d * 1440)" "0 \<le> n - d * 1440" "n - d * 1440 < 1440"
      using that assms by (auto simp: hours_ok_def)
    with day_minute [of "n - d * 1440" d] that assms show ?thesis by (simp add: business_minute_def)
  qed
  then have "{d * 1440 + m ..< d * 1440 + m'} \<inter> Collect (business_minute hours) = {d * 1440 + m ..< d * 1440 + m'}" by auto
  then show ?thesis by (simp add: business_between_def)
qed

text \<open>From the end of a window to the start of the window of the next working day.\<close>

lemma business_between_gap:
  assumes "hours_ok hours" and "1 \<le> k" and "endMinute hours \<le> m"
    and "\<And>j. 1 \<le> j \<Longrightarrow> j < k \<Longrightarrow> \<not> isWorkingDay hours (week_day (d + j))"
  shows "business_between hours (d * 1440 + m) ((d + k) * 1440 + startMinute hours) = 0"
proof (rule business_between_none)
  fix n
  assume n: "d * 1440 + m \<le> n" "n < (d + k) * 1440 + startMinute hours"
  show "\<not> business_minute hours n"
  proof
    assume b: "business_minute hours n"
    define e where "e = n div 1440 - d"
    have split: "n = (d + e) * 1440 + n mod 1440" by (simp add: e_def)
    have r: "startMinute hours \<le> n mod 1440" "n mod 1440 < endMinute hours" using b by (simp_all add: business_minute_def)
    have "e \<noteq> 0 \<and> e \<noteq> k \<and> 0 \<le> e \<and> e < k + 1"
      using n split r assms(1-3) by (auto simp: hours_ok_def)
    then have "1 \<le> e" "e < k" by auto
    from assms(4) [OF this] b show False by (simp add: business_minute_def e_def)
  qed
qed

text \<open>The loop over the days, from a cursor inside a window.\<close>

lemma consume_run:
  assumes "zone_band a c w off" and "hours_ok hours" and "band_day a d" and "d = local_minute off t div 1440"
    and "isWorkingDay hours (week_day d)" and "startMinute hours \<le> m" and "m < endMinute hours" and "0 < remaining"
  shows "\<exists>t' m'. consume_minutes m24 off hours (zonedParts m24 off t) m remaining
      = Some (zonedTimeToUtc m24 off (zp_year (zonedParts m24 off t')) (zp_month (zonedParts m24 off t')) (zp_day (zonedParts m24 off t')) m') \<and>
    d \<le> local_minute off t' div 1440 \<and> 0 \<le> m' \<and>
    d * 1440 + m < local_minute off t' div 1440 * 1440 + m' \<and>
    int (business_between hours (d * 1440 + m) (local_minute off t' div 1440 * 1440 + m')) = remaining \<and>
    business_minute hours (local_minute off t' div 1440 * 1440 + m' - 1)"
  using assms(3-)
proof (induction "nat remaining" arbitrary: d t m remaining rule: less_induct)
  case less
  have h: "0 \<le> startMinute hours" "startMinute hours < endMinute hours" "endMinute hours \<le> 1440"
    using assms(2) by (auto simp: hours_ok_def)
  show ?case
  proof (cases "remaining \<le> endMinute hours - m")
    case True
    have "business_between hours (d * 1440 + m) (d * 1440 + (m + remaining)) = nat (m + remaining - m)"
      using True less.prems by (intro business_between_day assms(2)) auto
    moreover have "business_minute hours (d * 1440 + (m + remaining - 1))"
      using day_minute [of "m + remaining - 1" d] True less.prems h by (simp add: business_minute_def)
    ultimately show ?thesis
      using True less.prems h
      by (intro exI [of _ t] exI [of _ "m + remaining"]) (subst consume_minutes.simps, simp add: Let_def algebra_simps)
  next
    case False
    let ?rest = "remaining - (endMinute hours - m)"
    obtain t' k where adv: "advanceToNextWorkingDayStart m24 off hours (zonedParts m24 off t) = Some (zonedParts m24 off t', startMinute hours)"
      and k: "1 \<le> k" and day: "local_minute off t' div 1440 = d + k" and w: "isWorkingDay hours (week_day (d + k))"
      and gap: "\<And>j. 1 \<le> j \<Longrightarrow> j < k \<Longrightarrow> \<not> isWorkingDay hours (week_day (d + j))"
      using advance_run [OF assms(1) less.prems(1,2) assms(2)] by metis
    have "nat ?rest < nat remaining" "0 < ?rest" "band_day a (d + k)"
      using False less.prems k by (auto elim: band_day_mono)
    from less.hyps [OF this(1,3) day [symmetric] w order_refl h(2) this(2)] obtain t'' m'' where rec:
      "consume_minutes m24 off hours (zonedParts m24 off t') (startMinute hours) ?rest
        = Some (zonedTimeToUtc m24 off (zp_year (zonedParts m24 off t'')) (zp_month (zonedParts m24 off t'')) (zp_day (zonedParts m24 off t'')) m'')"
      "d + k \<le> local_minute off t'' div 1440" "0 \<le> m''"
      "(d + k) * 1440 + startMinute hours < local_minute off t'' div 1440 * 1440 + m''"
      "int (business_between hours ((d + k) * 1440 + startMinute hours) (local_minute off t'' div 1440 * 1440 + m'')) = ?rest"
      "business_minute hours (local_minute off t'' div 1440 * 1440 + m'' - 1)" by blast
    let ?R = "local_minute off t'' div 1440 * 1440 + m''" and ?e = "d * 1440 + endMinute hours" and ?s = "(d + k) * 1440 + startMinute hours"
    have "?e \<le> ?s" using k h by (simp add: algebra_simps)
    have "d * 1440 + m \<le> ?e" "?e \<le> ?R" "?s \<le> ?R" using rec(4) less.prems(5) \<open>?e \<le> ?s\<close> by linarith+
    then have "business_between hours (d * 1440 + m) ?R
        = business_between hours (d * 1440 + m) ?e + (business_between hours ?e ?s + business_between hours ?s ?R)"
      using business_between_split [of "d * 1440 + m" ?e ?R] business_between_split [of ?e ?s ?R] \<open>?e \<le> ?s\<close> by metis
    moreover have "business_between hours (d * 1440 + m) ?e = nat (endMinute hours - m)"
      using less.prems by (intro business_between_day assms(2)) auto
    moreover have "business_between hours ?e ?s = 0"
      by (rule business_between_gap [OF assms(2) k order_refl gap])
    ultimately have "int (business_between hours (d * 1440 + m) ?R) = remaining"
      using rec(5) less.prems by simp
    moreover have "consume_minutes m24 off hours (zonedParts m24 off t) m remaining
        = consume_minutes m24 off hours (zonedParts m24 off t') (startMinute hours) ?rest"
      using False by (subst consume_minutes.simps) (simp add: Let_def adv)
    moreover have "d * 1440 + m < ?R" using rec(4) \<open>?e \<le> ?s\<close> less.prems by linarith
    ultimately show ?thesis using rec k by (intro exI [of _ t''] exI [of _ m'']) simp
  qed
qed

lemma no_business_before:
  assumes "hours_ok hours" and "a mod 1440 < startMinute hours"
  shows "business_between hours a (a div 1440 * 1440 + startMinute hours) = 0"
proof (rule business_between_none)
  fix n
  assume n: "a \<le> n" "n < a div 1440 * 1440 + startMinute hours"
  have "a div 1440 * 1440 \<le> n" using n(1) div_bounds [of 1440 a] by linarith
  with n assms(1) have "n = a div 1440 * 1440 + (n - a div 1440 * 1440)" "0 \<le> n - a div 1440 * 1440" "n - a div 1440 * 1440 < 1440"
    by (auto simp: hours_ok_def)
  with day_minute [of "n - a div 1440 * 1440" "a div 1440"] n show "\<not> business_minute hours n"
    by (simp add: business_minute_def)
qed

text \<open>Starting after the window, or on a day off.\<close>

lemma business_between_skip:
  assumes "hours_ok hours" and "1 \<le> k" and "\<not> isWorkingDay hours (week_day (a div 1440)) \<or> endMinute hours \<le> a mod 1440"
    and "\<And>j. 1 \<le> j \<Longrightarrow> j < k \<Longrightarrow> \<not> isWorkingDay hours (week_day (a div 1440 + j))"
  shows "business_between hours a ((a div 1440 + k) * 1440 + startMinute hours) = 0"
proof (cases "endMinute hours \<le> a mod 1440")
  case True
  show ?thesis using business_between_gap [OF assms(1,2) True assms(4)] by simp
next
  case False
  show ?thesis
  proof (rule business_between_none, rule notI)
    fix n
    assume n: "a \<le> n" "n < (a div 1440 + k) * 1440 + startMinute hours" and b: "business_minute hours n"
    define e where "e = n div 1440 - a div 1440"
    have "n = (a div 1440 + e) * 1440 + n mod 1440" by (simp add: e_def)
    moreover have "startMinute hours \<le> n mod 1440" using b by (simp add: business_minute_def)
    moreover have "0 \<le> e" using zdiv_mono1 [OF n(1), of 1440] by (simp add: e_def)
    ultimately have e: "0 \<le> e" "e < k" using n by (auto simp: algebra_simps)
    have "isWorkingDay hours (week_day (a div 1440 + e))" using b by (simp add: business_minute_def e_def)
    with e assms(3,4) False show False by (cases "e = 0") auto
  qed
qed

lemma position_cursor_run:
  fixes m24 off hours anchor
  defines "A \<equiv> local_minute off anchor"
  assumes "zone_band a c w off" and "hours_ok hours" and "band_day a (A div 1440)"
  obtains t m where "position_cursor m24 off hours anchor = Some (zonedParts m24 off t, m)"
    and "A div 1440 \<le> local_minute off t div 1440" and "isWorkingDay hours (week_day (local_minute off t div 1440))"
    and "startMinute hours \<le> m" and "m < endMinute hours" and "A \<le> local_minute off t div 1440 * 1440 + m"
    and "business_between hours A (local_minute off t div 1440 * 1440 + m) = 0"
proof -
  have h: "startMinute hours < endMinute hours" "0 \<le> startMinute hours" using assms(3) by (auto simp: hours_ok_def)
  have run: "position_cursor m24 off hours anchor =
      (if \<not> isWorkingDay hours (week_day (A div 1440)) \<or> endMinute hours \<le> A mod 1440
       then advanceToNextWorkingDayStart m24 off hours (zonedParts m24 off anchor)
       else if A mod 1440 < startMinute hours then Some (zonedParts m24 off anchor, startMinute hours)
       else Some (zonedParts m24 off anchor, A mod 1440))"
    by (simp only: position_cursor_def Let_def zonedParts_minute zonedParts_weekday A_def)
  show ?thesis
  proof (cases "\<not> isWorkingDay hours (week_day (A div 1440)) \<or> endMinute hours \<le> A mod 1440")
    case True
    obtain t k where adv: "advanceToNextWorkingDayStart m24 off hours (zonedParts m24 off anchor) = Some (zonedParts m24 off t, startMinute hours)"
      and k: "1 \<le> k" and day: "local_minute off t div 1440 = A div 1440 + k" and w: "isWorkingDay hours (week_day (A div 1440 + k))"
      and gap: "\<And>j. 1 \<le> j \<Longrightarrow> j < k \<Longrightarrow> \<not> isWorkingDay hours (week_day (A div 1440 + j))"
      using advance_run [OF assms(2,4) _ assms(3), of anchor] unfolding A_def by metis
    have "A \<le> (A div 1440 + k) * 1440 + startMinute hours"
      using k h div_bounds [of 1440 A] by (simp add: algebra_simps)
    with business_between_skip [OF assms(3) k True gap] True adv k day w h show ?thesis
      by (intro that [of t "startMinute hours"]) (simp_all add: run)
  next
    case False
    then show ?thesis
    proof (cases "A mod 1440 < startMinute hours")
      case True
      then have "A \<le> A div 1440 * 1440 + startMinute hours" using div_mult_mod_eq [of A 1440] by linarith
      with True False no_business_before [OF assms(3), of A] h show ?thesis
        by (intro that [of anchor "startMinute hours"]) (simp_all add: run A_def [symmetric])
    next
      case late: False
      have "business_between hours A (A div 1440 * 1440 + A mod 1440) = 0" by (simp add: business_between_def)
      with False late show ?thesis
        by (intro that [of anchor "A mod 1440"]) (simp_all add: run A_def [symmetric])
    qed
  qed
qed

lemma addBusinessMinutes_run:
  assumes "zone_offset I (timezone hours) = Some off" and "zone_band (anchor - 4 * DAY_MS) c w off" and "hours_ok hours"
    and "0 < minutes" and "0 \<le> anchor"
  shows "\<exists>t m. addBusinessMinutes I anchor minutes hours = Some (Inr (zonedTimeToUtc (midnight_24 I) off
        (zp_year (zonedParts (midnight_24 I) off t)) (zp_month (zonedParts (midnight_24 I) off t)) (zp_day (zonedParts (midnight_24 I) off t)) m)) \<and>
    band_day (anchor - 4 * DAY_MS) (local_minute off t div 1440) \<and> 0 \<le> m \<and>
    local_minute off anchor < local_minute off t div 1440 * 1440 + m \<and>
    int (business_between hours (local_minute off anchor) (local_minute off t div 1440 * 1440 + m)) = minutes \<and>
    business_minute hours (local_minute off t div 1440 * 1440 + m - 1)"
proof -
  let ?A = "local_minute off anchor" and ?m24 = "midnight_24 I"
  let ?a = "anchor - 4 * DAY_MS"
  have "- DAY_MS \<le> c" "c \<le> off anchor" using assms(2) by (auto simp: zone_band_def DAY_MS_def)
  then have lo: "anchor - DAY_MS \<le> anchor + off anchor" by linarith
  have split: "?A div 1440 = (anchor + off anchor) div DAY_MS"
    by (simp add: local_minute_def MINUTE_MS_def DAY_MS_def zdiv_zmult2_eq [symmetric])
  then have "anchor + off anchor < DAY_MS * (?A div 1440) + DAY_MS"
    using div_bounds(2) [of DAY_MS "anchor + off anchor"] by (simp add: DAY_MS_def)
  with lo have "anchor - 4 * DAY_MS \<le> (?A div 1440 - 2) * DAY_MS" by (simp add: DAY_MS_def)
  moreover have "- 2 * DAY_MS \<le> DAY_MS * (?A div 1440)"
    using lo assms(5) \<open>anchor + off anchor < DAY_MS * (?A div 1440) + DAY_MS\<close> by (simp add: DAY_MS_def)
  then have "- 500000 \<le> ?A div 1440" by (simp add: DAY_MS_def)
  ultimately have d: "band_day ?a (?A div 1440)" by (simp add: band_day_def)
  obtain t m where st: "position_cursor ?m24 off hours anchor = Some (zonedParts ?m24 off t, m)"
      "?A div 1440 \<le> local_minute off t div 1440" "isWorkingDay hours (week_day (local_minute off t div 1440))"
      "startMinute hours \<le> m" "m < endMinute hours" "?A \<le> local_minute off t div 1440 * 1440 + m"
      "business_between hours ?A (local_minute off t div 1440 * 1440 + m) = 0"
    using position_cursor_run [OF assms(2,3) d] by metis
  have d': "band_day ?a (local_minute off t div 1440)" by (rule band_day_mono [OF d st(2)])
  from consume_run [OF assms(2,3) d' refl st(3-5) assms(4), of ?m24] obtain t' m' where c:
      "consume_minutes ?m24 off hours (zonedParts ?m24 off t) m minutes
        = Some (zonedTimeToUtc ?m24 off (zp_year (zonedParts ?m24 off t')) (zp_month (zonedParts ?m24 off t')) (zp_day (zonedParts ?m24 off t')) m')"
      "local_minute off t div 1440 \<le> local_minute off t' div 1440" "0 \<le> m'"
      "local_minute off t div 1440 * 1440 + m < local_minute off t' div 1440 * 1440 + m'"
      "int (business_between hours (local_minute off t div 1440 * 1440 + m) (local_minute off t' div 1440 * 1440 + m')) = minutes"
      "business_minute hours (local_minute off t' div 1440 * 1440 + m' - 1)" by blast
  have "addBusinessMinutes I anchor minutes hours = map_option Inr (consume_minutes ?m24 off hours (zonedParts ?m24 off t) m minutes)"
    using assms(1,3,4) by (auto simp: addBusinessMinutes_def Let_def st(1) hours_ok_def)
  moreover have "business_between hours ?A (local_minute off t' div 1440 * 1440 + m')
      = business_between hours (local_minute off t div 1440 * 1440 + m) (local_minute off t' div 1440 * 1440 + m')"
    using business_between_split [OF st(6), of "local_minute off t' div 1440 * 1440 + m'" hours] st(7) c(4) by simp
  ultimately show ?thesis using c st(6) band_day_mono [OF d' c(2)] by (intro exI [of _ t'] exI [of _ m']) simp
qed

text \<open>
  The result of the two corrections is a whole minute, and its wall-clock time is the one asked
  for unless the clock is changed near the result.
\<close>

definition clock_unchanged :: "(msec \<Rightarrow> msec) \<Rightarrow> int \<Rightarrow> msec \<Rightarrow> bool" where
  "clock_unchanged off w r \<longleftrightarrow> (\<forall>t. \<bar>t - r\<bar> < w + MINUTE_MS \<longrightarrow> off t = off r)"

lemma clock_unchangedD: "clock_unchanged off w r \<Longrightarrow> \<bar>t - r\<bar> < w + MINUTE_MS \<Longrightarrow> off t = off r"
  unfolding clock_unchanged_def by blast

lemma correct_guess_minutes:
  assumes "modern (local_minute off (g * MINUTE_MS) div 1440)"
  shows "correct_guess m24 off (n * MINUTE_MS) (g * MINUTE_MS) = (n - off (g * MINUTE_MS) div MINUTE_MS) * MINUTE_MS"
proof -
  have "local_minute off (g * MINUTE_MS) = g + off (g * MINUTE_MS) div MINUTE_MS"
    by (simp add: local_minute_def MINUTE_MS_def)
  then show ?thesis by (simp only: correct_guess_def zonedAsUtc_zonedParts [OF assms]) (simp add: algebra_simps)
qed

lemma band_modern:
  assumes "zone_band a c w off" and "a \<le> t" and "- 500002 * DAY_MS \<le> t"
  shows "modern (local_minute off t div 1440)"
proof -
  have "c \<le> off t" "- DAY_MS \<le> c" using assms(1,2) by (auto simp: zone_band_def)
  with assms(3) have "- 500003 * DAY_MS \<le> t + off t" by simp
  then have "(- 500003 * DAY_MS) div DAY_MS \<le> (t + off t) div DAY_MS" by (rule zdiv_mono1) (simp add: DAY_MS_def)
  moreover have "local_minute off t div 1440 = (t + off t) div DAY_MS"
    by (simp add: local_minute_def MINUTE_MS_def DAY_MS_def zdiv_zmult2_eq [symmetric])
  ultimately show ?thesis by (simp add: modern_def DAY_MS_def)
qed

lemma zonedTimeToUtc_exact:
  fixes m24
  assumes "zone_band a c w off" and "band_day a (local_minute off t div 1440)" and "0 \<le> x"
  defines "z \<equiv> zonedParts m24 off t"
  defines "r \<equiv> zonedTimeToUtc m24 off (zp_year z) (zp_month z) (zp_day z) x"
  shows "r mod MINUTE_MS = 0"
    and "clock_unchanged off w r \<Longrightarrow> local_minute off r = local_minute off t div 1440 * 1440 + x"
proof -
  define d where "d = local_minute off t div 1440"
  define n where "n = d * 1440 + x"
  define g where "g = n - off (n * MINUTE_MS) div MINUTE_MS"
  have d: "- 500000 \<le> d" "a \<le> (d - 2) * DAY_MS" using assms(2) by (simp_all add: band_day_def d_def)
  have N: "a + 2 * DAY_MS \<le> n * MINUTE_MS" "- 500000 * DAY_MS \<le> n * MINUTE_MS"
    using d assms(3) by (simp_all add: n_def DAY_MS_def MINUTE_MS_def)
  have w: "c + w \<le> 2 * DAY_MS" "0 \<le> w" using assms(1) by (simp_all add: zone_band_def DAY_MS_def MINUTE_MS_def)
  have oN: "c \<le> off (n * MINUTE_MS)" "off (n * MINUTE_MS) \<le> c + w"
    using assms(1) N(1) by (auto simp: zone_band_def DAY_MS_def)
  then have G: "a \<le> g * MINUTE_MS" "- 500002 * DAY_MS \<le> g * MINUTE_MS"
    using N w div_bounds(1) [of MINUTE_MS "off (n * MINUTE_MS)"] by (simp_all add: g_def MINUTE_MS_def left_diff_distrib)
  have gM: "g * MINUTE_MS = n * MINUTE_MS - off (n * MINUTE_MS) div MINUTE_MS * MINUTE_MS"
    by (simp only: g_def left_diff_distrib)
  have oG: "c \<le> off (g * MINUTE_MS)" "off (g * MINUTE_MS) \<le> c + w" using assms(1) G(1) by (auto simp: zone_band_def)
  have "modern (local_minute off (n * MINUTE_MS) div 1440)" "modern (local_minute off (g * MINUTE_MS) div 1440)"
    using band_modern [OF assms(1)] N G by (simp_all add: DAY_MS_def)
  then have guess: "correct_guess m24 off (n * MINUTE_MS) (correct_guess m24 off (n * MINUTE_MS) (n * MINUTE_MS))
      = (n - off (g * MINUTE_MS) div MINUTE_MS) * MINUTE_MS"
    by (simp add: correct_guess_minutes g_def)
  have "Date_UTC (zp_year z) (nat (zp_month z - 1)) (zp_day z) (x div 60) (x mod 60) = n * MINUTE_MS"
    using Date_UTC_zonedParts [of off t m24 x] d(1)
    by (simp add: z_def d_def n_def modern_def DAY_MS_def MINUTE_MS_def algebra_simps)
  then have r: "r = (n - off (g * MINUTE_MS) div MINUTE_MS) * MINUTE_MS"
    by (simp only: r_def zonedTimeToUtc_def Let_def guess)
  then show "r mod MINUTE_MS = 0" by simp
  assume "clock_unchanged off w r"
  moreover have "\<bar>g * MINUTE_MS - r\<bar> < w + MINUTE_MS"
  proof -
    have "\<bar>u div MINUTE_MS * MINUTE_MS - v div MINUTE_MS * MINUTE_MS\<bar> < w + MINUTE_MS"
      if "c \<le> u" "u \<le> c + w" "c \<le> v" "v \<le> c + w" for u v
      using that div_bounds [of MINUTE_MS u] div_bounds [of MINUTE_MS v] by (simp add: MINUTE_MS_def)
    from this [OF oG oN]
    have "\<bar>off (g * MINUTE_MS) div MINUTE_MS * MINUTE_MS - off (n * MINUTE_MS) div MINUTE_MS * MINUTE_MS\<bar> < w + MINUTE_MS" .
    moreover have "g * MINUTE_MS - r = off (g * MINUTE_MS) div MINUTE_MS * MINUTE_MS - off (n * MINUTE_MS) div MINUTE_MS * MINUTE_MS"
      using gM unfolding r left_diff_distrib by linarith
    ultimately show ?thesis by (simp only:)
  qed
  ultimately have "off (g * MINUTE_MS) = off r" by (rule clock_unchangedD)
  moreover have "(a * MINUTE_MS + v) div MINUTE_MS = a + v div MINUTE_MS" for a v by (simp add: MINUTE_MS_def)
  ultimately have "local_minute off r = n" unfolding local_minute_def r by simp
  then show "local_minute off r = local_minute off t div 1440 * 1440 + x" by (simp add: n_def d_def)
qed

text \<open>
  The least instant, on a whole minute, by which a number of business minutes have passed on the
  local clock since the anchor's minute: exactly so many lie in between, and the last minute before
  it is one of them.
\<close>

definition business_deadline :: "BusinessHours \<Rightarrow> (msec \<Rightarrow> msec) \<Rightarrow> msec \<Rightarrow> int \<Rightarrow> msec \<Rightarrow> bool" where
  "business_deadline hours off anchor minutes r \<longleftrightarrow> anchor < r \<and> r mod MINUTE_MS = 0 \<and>
     int (business_between hours (local_minute off anchor) (local_minute off r)) = minutes \<and>
     business_minute hours (local_minute off r - 1)"

lemma addBusinessMinutes_deadline:
  assumes "zone_offset I (timezone hours) = Some off" and "zone_band (anchor - 4 * DAY_MS) c w off" and "hours_ok hours"
    and "0 < minutes" and "0 \<le> anchor"
  shows "\<exists>r. addBusinessMinutes I anchor minutes hours = Some (Inr r) \<and>
    (clock_unchanged off w r \<longrightarrow> business_deadline hours off anchor minutes r)"
proof -
  let ?m24 = "midnight_24 I"
  obtain t m where run: "addBusinessMinutes I anchor minutes hours = Some (Inr (zonedTimeToUtc ?m24 off
        (zp_year (zonedParts ?m24 off t)) (zp_month (zonedParts ?m24 off t)) (zp_day (zonedParts ?m24 off t)) m))"
    and t: "band_day (anchor - 4 * DAY_MS) (local_minute off t div 1440)" "0 \<le> m"
    and spec: "local_minute off anchor < local_minute off t div 1440 * 1440 + m"
      "int (business_between hours (local_minute off anchor) (local_minute off t div 1440 * 1440 + m)) = minutes"
      "business_minute hours (local_minute off t div 1440 * 1440 + m - 1)"
    using addBusinessMinutes_run [OF assms] by blast
  define r where "r = zonedTimeToUtc ?m24 off (zp_year (zonedParts ?m24 off t)) (zp_month (zonedParts ?m24 off t))
    (zp_day (zonedParts ?m24 off t)) m"
  note exact = zonedTimeToUtc_exact [OF assms(2) t, of ?m24, folded r_def]
  have near: "anchor - w < r"
  proof -
    have "anchor + off anchor < (local_minute off t div 1440 * 1440 + m) * MINUTE_MS"
      using spec(1) div_bounds(2) [of MINUTE_MS "anchor + off anchor"] by (simp add: local_minute_def MINUTE_MS_def)
    moreover have "c \<le> off anchor" using assms(2) by (auto simp: zone_band_def DAY_MS_def)
    ultimately show ?thesis
      using zonedTimeToUtc_band(1) [OF assms(2) t(1) refl t(2), of ?m24, folded r_def]
      by (simp add: DAY_MS_def MINUTE_MS_def)
  qed
  have "business_deadline hours off anchor minutes r" if c: "clock_unchanged off w r"
  proof -
    have "anchor < r"
    proof (cases "\<bar>anchor - r\<bar> < w + MINUTE_MS")
      case True
      then have "off anchor = off r" by (rule clock_unchangedD [OF c])
      moreover have "local_minute off anchor < local_minute off r" using spec(1) exact(2) [OF c] by simp
      ultimately have "(anchor + off r) div MINUTE_MS < (r + off r) div MINUTE_MS" by (simp add: local_minute_def)
      moreover have "(r + off r) div MINUTE_MS \<le> (anchor + off r) div MINUTE_MS" if "r \<le> anchor"
        using that by (intro zdiv_mono1) (simp_all add: MINUTE_MS_def)
      ultimately show ?thesis by linarith
    next
      case False
      with near show ?thesis by (simp add: MINUTE_MS_def)
    qed
    with exact spec c show ?thesis by (simp add: business_deadline_def)
  qed
  with run show ?thesis unfolding r_def [symmetric] by blast
qed


text \<open>
  C3. Business-hours deadlines are exact, daylight saving time included. For a time zone whose
  offsets, from four days before the anchor on, lie within a band of width \<open>w\<close> of at most eleven
  hours (0 for a fixed offset, an hour for summer time), an anchor from 1970 on, and working hours
  with a window inside the day and at least one weekday, \<open>addBusinessMinutes\<close> returns. Unless the
  clocks are changed within \<open>w\<close> of the result it is the least instant after the anchor, on a whole
  minute, by which exactly the requested number of business minutes have passed: that many lie
  between the local minute of the anchor and the one of the result, and the last minute before the
  result is one of them.
\<close>

theorem addBusinessMinutes_exact:
  assumes "zone_offset I (timezone hours) = Some off" and "zone_band (anchor - 4 * DAY_MS) c w off" and "hours_ok hours"
    and "0 < minutes" and "0 \<le> anchor"
  shows "\<exists>r. addBusinessMinutes I anchor minutes hours = Some (Inr r) \<and>
    (clock_unchanged off w r \<longrightarrow> business_deadline hours off anchor minutes r)"
  using assms by (rule addBusinessMinutes_deadline)

text \<open>Central European time around the change to summer time on 31 March 2024.\<close>

definition berlin_2024 :: "msec \<Rightarrow> msec" where
  "berlin_2024 t = (if t < 1711846800000 then 60 * MINUTE_MS else 120 * MINUTE_MS)"

definition dst_zone :: intl where
  "dst_zone = \<lparr>zone_offset = (\<lambda>z. if z = ''Europe/Berlin'' then Some berlin_2024 else None), midnight_24 = False\<rparr>"

definition office_hours :: BusinessHours where
  "office_hours = \<lparr>startMinute = 540, endMinute = 1020, days = [1, 2, 3, 4, 5], timezone = ''Europe/Berlin''\<rparr>"

declare next_working_day.simps [code] consume_minutes.simps [code]

text \<open>Ten working hours from Friday 09:13 local time end on Monday at 11:13 summer time.\<close>

lemma office_hours_over_dst: "addBusinessMinutes dst_zone 1711700000000 600 office_hours = Some (Inr 1711962780000)"
  by code_simp

theorem addBusinessMinutes_exact_witness:
  "addBusinessMinutes dst_zone 1711700000000 600 office_hours = Some (Inr 1711962780000) \<and>
   business_deadline office_hours berlin_2024 1711700000000 600 1711962780000"
proof -
  have "zone_offset dst_zone (timezone office_hours) = Some berlin_2024" by (simp add: dst_zone_def office_hours_def)
  moreover have "zone_band (1711700000000 - 4 * DAY_MS) (60 * MINUTE_MS) (60 * MINUTE_MS) berlin_2024"
    by (simp add: zone_band_def berlin_2024_def DAY_MS_def MINUTE_MS_def)
  moreover have "hours_ok office_hours" by (simp add: hours_ok_def office_hours_def)
  moreover have "clock_unchanged berlin_2024 (60 * MINUTE_MS) 1711962780000"
    by (auto simp: clock_unchanged_def berlin_2024_def MINUTE_MS_def)
  ultimately show ?thesis
    using addBusinessMinutes_exact [of dst_zone office_hours berlin_2024 1711700000000 "60 * MINUTE_MS" "60 * MINUTE_MS" 600]
    by (auto simp: office_hours_over_dst)
qed

section \<open>The loops end in every zone\<close>

text \<open>
  After every instant there is a week in which the clocks are not changed. Every zone of the time
  zone database has this property, the ones whose offset once jumped by a whole day included.
\<close>

definition zone_settles :: "(msec \<Rightarrow> msec) \<Rightarrow> bool" where
  "zone_settles off \<longleftrightarrow> (\<forall>t. \<exists>u \<ge> t. \<forall>v. u \<le> v \<and> v \<le> u + 7 * DAY_MS \<longrightarrow> off v = off u)"

definition some_weekday :: "BusinessHours \<Rightarrow> bool" where
  "some_weekday hours \<longleftrightarrow> (\<exists>w \<in> set (days hours). 0 \<le> w \<and> w < 7)"

lemma working_probe:
  assumes "zone_settles off" and "some_weekday hours"
  shows "\<exists>n. isWorkingDay hours (week_day (local_minute off (p + (int n + 1) * DAY_MS) div 1440))"
proof -
  obtain w where w: "w \<in> set (days hours)" "0 \<le> w" "w < 7" using assms(2) by (auto simp: some_weekday_def)
  obtain u where u: "p \<le> u" "\<And>v. u \<le> v \<Longrightarrow> v \<le> u + 7 * DAY_MS \<Longrightarrow> off v = off u"
    using assms(1) unfolding zone_settles_def by blast
  define q where "q = (u - p) div DAY_MS"
  have q: "0 \<le> q" "DAY_MS * q \<le> u - p" "u - p < DAY_MS * q + DAY_MS"
    using u(1) div_bounds [of DAY_MS "u - p"] by (simp_all add: q_def DAY_MS_def pos_imp_zdiv_nonneg_iff)
  define d where "d = (p + q * DAY_MS + off u) div DAY_MS"
  obtain k where k: "1 \<le> k" "k \<le> 7" "week_day (d + k) = w" using next_weekday [OF w(2,3)] by blast
  have "off (p + (q + k) * DAY_MS) = off u"
  proof (rule u(2))
    have "DAY_MS \<le> k * DAY_MS" "k * DAY_MS \<le> 7 * DAY_MS" using k by (simp_all add: DAY_MS_def)
    with q show "u \<le> p + (q + k) * DAY_MS" "p + (q + k) * DAY_MS \<le> u + 7 * DAY_MS"
      unfolding distrib_right by (simp_all only: mult.commute [of q])
  qed
  then have "local_minute off (p + (q + k) * DAY_MS) div 1440 = (p + q * DAY_MS + off u + k * DAY_MS) div DAY_MS"
    by (simp add: local_minute_def MINUTE_MS_def DAY_MS_def zdiv_zmult2_eq [symmetric] distrib_right)
  also have "\<dots> = d + k" by (simp add: d_def DAY_MS_def)
  finally have "local_minute off (p + (int (nat (q + k - 1)) + 1) * DAY_MS) div 1440 = d + k" using q(1) k(1) by simp
  with w(1) k(3) show ?thesis by (intro exI [of _ "nat (q + k - 1)"]) (simp add: isWorkingDay_def)
qed

lemma advance_ends:
  assumes "zone_settles off" and "some_weekday hours"
  shows "\<exists>c. advanceToNextWorkingDayStart m24 off hours cursor = Some (c, startMinute hours)"
proof -
  define p where "p = zonedTimeToUtc m24 off (zp_year cursor) (zp_month cursor) (zp_day cursor) (12 * 60)"
  let ?P = "\<lambda>n. isWorkingDay hours (week_day (local_minute off (p + (int n + 1) * DAY_MS) div 1440))"
  have "\<exists>n. ?P n" by (rule working_probe [OF assms])
  then have "?P (LEAST n. ?P n)" by (rule LeastI_ex)
  then have "next_working_day m24 off hours p = Some (zonedParts m24 off (p + (int (LEAST n. ?P n) + 1) * DAY_MS))"
    by (intro next_working_day_steps) (auto dest: not_less_Least)
  then show ?thesis by (simp only: advanceToNextWorkingDayStart_def p_def [symmetric]) simp
qed

lemma consume_ends:
  assumes "zone_settles off" and "some_weekday hours" and "startMinute hours < endMinute hours" and "m < endMinute hours"
  shows "\<exists>r. consume_minutes m24 off hours cursor m remaining = Some r"
  using assms(4)
proof (induction "nat remaining" arbitrary: cursor m remaining rule: less_induct)
  case less
  show ?case
  proof (cases "remaining \<le> endMinute hours - m")
    case True
    then show ?thesis by (subst consume_minutes.simps) (simp add: Let_def)
  next
    case False
    obtain c where c: "advanceToNextWorkingDayStart m24 off hours cursor = Some (c, startMinute hours)"
      using advance_ends [OF assms(1,2)] by blast
    have "nat (remaining - (endMinute hours - m)) < nat remaining" using False less.prems by simp
    from less.hyps [OF this assms(3), of c] False c show ?thesis
      by (subst consume_minutes.simps) (simp add: Let_def)
  qed
qed

lemma position_ends:
  assumes "zone_settles off" and "some_weekday hours" and "startMinute hours < endMinute hours"
  shows "\<exists>c m. position_cursor m24 off hours anchor = Some (c, m) \<and> m < endMinute hours"
  using advance_ends [OF assms(1,2), of m24 "zonedParts m24 off anchor"] assms(3)
  by (auto simp: position_cursor_def Let_def)

text \<open>
  C4. The two loops of \<open>addBusinessMinutes\<close> end, for every anchor, every target and every
  configuration whose days are weekdays, in every time zone in which, after every instant, there is
  some week without a change of the clocks. The call returns an instant; the one error is the
  \<open>RangeError\<close> for a zone that does not exist, and a window that is empty, a week without days or
  a target that is not positive falls back to elapsed time whatever the zone.
\<close>

theorem addBusinessMinutes_returns:
  assumes "\<And>off. zone_offset I (timezone hours) = Some off \<Longrightarrow> zone_settles off"
    and "list_all (\<lambda>w. 0 \<le> w \<and> w \<le> 6) (days hours)"
  shows "\<exists>r. addBusinessMinutes I anchor minutes hours = Some r \<and>
    (if endMinute hours \<le> startMinute hours \<or> days hours = [] \<or> minutes \<le> 0 then r = Inr (anchor + max 0 minutes * MINUTE_MS)
     else if zone_offset I (timezone hours) = None then r = Inl range_error else \<not> isl r)"
proof (cases "endMinute hours \<le> startMinute hours \<or> days hours = [] \<or> minutes \<le> 0")
  case True
  then show ?thesis by (auto simp: addBusinessMinutes_def Let_def MINUTE_MS_def)
next
  case False
  then have week: "some_weekday hours" using assms(2) by (cases "days hours") (auto simp: some_weekday_def)
  show ?thesis
  proof (cases "zone_offset I (timezone hours)")
    case None
    with False show ?thesis by (simp add: addBusinessMinutes_def Let_def)
  next
    case (Some off)
    have window: "startMinute hours < endMinute hours" using False by simp
    obtain c m where pos: "position_cursor (midnight_24 I) off hours anchor = Some (c, m)" "m < endMinute hours"
      using position_ends [OF assms(1) [OF Some] week window] by blast
    then obtain r where "consume_minutes (midnight_24 I) off hours c m minutes = Some r"
      using consume_ends [OF assms(1) [OF Some] week window] by blast
    with False Some pos show ?thesis by (simp add: addBusinessMinutes_def Let_def)
  qed
qed

lemma berlin_settles: "zone_settles berlin_2024"
  unfolding zone_settles_def
proof
  fix t
  show "\<exists>u \<ge> t. \<forall>v. u \<le> v \<and> v \<le> u + 7 * DAY_MS \<longrightarrow> berlin_2024 v = berlin_2024 u"
    by (rule exI [of _ "max t 1711846800000"]) (auto simp: berlin_2024_def)
qed

theorem addBusinessMinutes_returns_witness:
  "\<exists>r. addBusinessMinutes dst_zone (-1) 600 office_hours = Some (Inr r)"
proof -
  have "zone_settles off" if "zone_offset dst_zone (timezone office_hours) = Some off" for off
    using that berlin_settles by (simp add: dst_zone_def office_hours_def)
  from addBusinessMinutes_returns [of dst_zone office_hours, OF this, of "-1" 600] show ?thesis
    by (auto simp: office_hours_def dst_zone_def isl_def) (metis sum.exhaust)
qed

section \<open>Due dates\<close>

lemma local_minute_fixed: "local_minute (\<lambda>_. k * MINUTE_MS) t = t div MINUTE_MS + k"
  by (simp add: local_minute_def MINUTE_MS_def)

text \<open>The first deadline is not later than the second when its target is not larger.\<close>

lemma deadline_mono:
  assumes "business_deadline hours (\<lambda>_. k * MINUTE_MS) anchor n r" and "business_deadline hours (\<lambda>_. k * MINUTE_MS) anchor n' r'"
    and "n \<le> n'"
  shows "r \<le> r'"
proof (rule ccontr)
  assume less: "\<not> r \<le> r'"
  define A R R' where defs: "A = anchor div MINUTE_MS + k" "R = r div MINUTE_MS + k" "R' = r' div MINUTE_MS + k"
  have "r = r div MINUTE_MS * MINUTE_MS" "r' = r' div MINUTE_MS * MINUTE_MS"
    using assms(1,2) by (auto simp: business_deadline_def local_minute_fixed mod_eq_0_iff_dvd)
  with less have "R' < R" unfolding defs MINUTE_MS_def by linarith
  moreover have "A \<le> R'" unfolding defs using assms(2) by (simp add: business_deadline_def local_minute_fixed MINUTE_MS_def zdiv_mono1)
  ultimately have "business_between hours A R = business_between hours A R' + business_between hours R' R"
    by (intro business_between_split) simp_all
  moreover have "R - 1 \<in> {R' ..< R} \<inter> Collect (business_minute hours)"
    using assms(1) \<open>R' < R\<close> by (simp add: business_deadline_def local_minute_fixed defs)
  then have "0 < business_between hours R' R" unfolding business_between_def by (subst card_gt_0_iff) blast
  moreover have "int (business_between hours A R) = n" "int (business_between hours A R') = n'"
    using assms(1,2) by (simp_all add: business_deadline_def local_minute_fixed defs)
  ultimately show False using assms(3) by simp
qed

definition fixed_zone :: "int \<Rightarrow> intl \<Rightarrow> bool" where
  "fixed_zone k I \<longleftrightarrow> \<bar>k\<bar> \<le> 1440 \<and> (\<forall>z. zone_offset I z = Some (\<lambda>_. k * MINUTE_MS))"

text \<open>What \<open>due\<close> returns: elapsed time, or the deadline in business minutes.\<close>

lemma due_elapsed:
  assumes "\<nexists>h. businessHours = Some h \<and> business_hours_only p"
  shows "due I createdAt p businessHours n = Some (Inr (createdAt + n * MINUTE_MS))"
  using assms by (auto simp: due_def MINUTE_MS_def split: option.splits)

lemma due_business:
  assumes "fixed_zone k I" and "0 \<le> createdAt" and "hours_ok h" and "business_hours_only p" and "0 \<le> n"
  obtains r where "due I createdAt p (Some h) n = Some (Inr r)"
    and "if n = 0 then r = createdAt else business_deadline h (\<lambda>_. k * MINUTE_MS) createdAt n r"
proof (cases "n = 0")
  case True
  with assms(4) show ?thesis by (intro that [of createdAt]) (simp_all add: due_def addBusinessMinutes_def Let_def)
next
  case False
  let ?off = "\<lambda>_ :: msec. k * MINUTE_MS"
  have "zone_offset I (timezone h) = Some ?off" "zone_band (createdAt - 4 * DAY_MS) (k * MINUTE_MS) 0 ?off"
    using assms(1) by (auto simp: fixed_zone_def zone_band_def DAY_MS_def MINUTE_MS_def)
  from addBusinessMinutes_deadline [OF this assms(3) _ assms(2), of n] False assms(5)
  have "\<exists>r. addBusinessMinutes I createdAt n h = Some (Inr r) \<and> business_deadline h ?off createdAt n r"
    by (auto simp: clock_unchanged_def)
  with False assms(4) that show ?thesis by (auto simp: due_def)
qed

text \<open>
  Due dates are computed for every policy, they do not lie before the ticket's creation, and a
  first response whose target is not larger than the resolution's is not due later, with or without
  business hours, in any zone with a fixed offset.
\<close>

theorem due_dates_ordered:
  assumes "fixed_zone k I" and "0 \<le> createdAt" and "case businessHours of None \<Rightarrow> True | Some h \<Rightarrow> hours_ok h"
    and "0 \<le> first_response_target_minutes p" and "first_response_target_minutes p \<le> resolution_target_minutes p"
  shows "\<exists>a b. calculateDueDates I createdAt (Some p) businessHours
    = Some (Inr \<lparr>firstResponseDueAt = Some a, resolutionDueAt = Some b\<rparr>) \<and> createdAt \<le> a \<and> a \<le> b"
proof -
  let ?n = "first_response_target_minutes p" and ?n' = "resolution_target_minutes p"
  have "\<exists>a b. due I createdAt p businessHours ?n = Some (Inr a) \<and> due I createdAt p businessHours ?n' = Some (Inr b) \<and>
      createdAt \<le> a \<and> a \<le> b"
  proof (cases "\<exists>h. businessHours = Some h \<and> business_hours_only p")
    case True
    then obtain h where h: "businessHours = Some h" "business_hours_only p" by auto
    have ok: "hours_ok h" and n': "0 \<le> ?n'" using assms(3-5) h(1) by simp_all
    obtain a where a: "due I createdAt p (Some h) ?n = Some (Inr a)"
        "if ?n = 0 then a = createdAt else business_deadline h (\<lambda>_. k * MINUTE_MS) createdAt ?n a"
      by (rule due_business [OF assms(1,2) ok h(2) assms(4)])
    obtain b where b: "due I createdAt p (Some h) ?n' = Some (Inr b)"
        "if ?n' = 0 then b = createdAt else business_deadline h (\<lambda>_. k * MINUTE_MS) createdAt ?n' b"
      by (rule due_business [OF assms(1,2) ok h(2) n'])
    have "createdAt \<le> a" "createdAt \<le> b" using a(2) b(2) by (auto simp: business_deadline_def local_minute_fixed split: if_splits)
    moreover have "a \<le> b"
    proof (cases "?n = 0")
      case True
      with a(2) \<open>createdAt \<le> b\<close> show ?thesis by simp
    next
      case False
      with a(2) b(2) assms(4,5) show ?thesis by (intro deadline_mono [of h _ createdAt ?n a ?n' b]) (auto split: if_splits)
    qed
    ultimately show ?thesis using a(1) b(1) h(1) by simp
  next
    case False
    with assms(4,5) show ?thesis by (simp add: due_elapsed MINUTE_MS_def)
  qed
  then show ?thesis by (auto simp: calculateDueDates_def)
qed

definition utc_only :: intl where
  "utc_only = \<lparr>zone_offset = (\<lambda>_. Some (\<lambda>_. 0 * MINUTE_MS)), midnight_24 = True\<rparr>"

theorem due_dates_ordered_witness:
  "\<exists>a b. calculateDueDates utc_only 1700000000000
     (Some \<lparr>first_response_target_minutes = 60, resolution_target_minutes = 2880, business_hours_only = True\<rparr>) (Some DEFAULT_BUSINESS_HOURS)
    = Some (Inr \<lparr>firstResponseDueAt = Some a, resolutionDueAt = Some b\<rparr>) \<and> 1700000000000 \<le> a \<and> a \<le> b"
proof -
  have "fixed_zone 0 utc_only" by (simp add: fixed_zone_def utc_only_def)
  moreover have "hours_ok DEFAULT_BUSINESS_HOURS" by (simp add: hours_ok_def DEFAULT_BUSINESS_HOURS_def)
  ultimately show ?thesis
    using due_dates_ordered [of 0 utc_only 1700000000000 "Some DEFAULT_BUSINESS_HOURS"
        "\<lparr>first_response_target_minutes = 60, resolution_target_minutes = 2880, business_hours_only = True\<rparr>"] by auto
qed

end
