(* ===== verification/Tenant_Settings.thy ===== *)
theory Tenant_Settings
  imports Business_Hours
begin

text \<open>
  The settings stored on the tenant's own row: the business hours
  (\<open>ticketing/business-hours-settings.service.ts\<close>) and the cost settings
  (\<open>cost/tenant-cost-settings.service.ts\<close>). \<open>tenants\<close> has no row level security; what the running
  application may write there is decided by column privileges, which are part of the model.

  An optional field of a request body is \<open>None\<close> when it is absent, \<open>Some None\<close> when it is \<open>null\<close>
  (\<open>@IsOptional\<close> lets \<open>null\<close> through) and \<open>Some (Some v)\<close> when it has a value.
\<close>

section \<open>Writing columns of the tenant's row\<close>

text \<open>
  One assignment of an \<open>UPDATE\<close>: the column and how it changes the row; writing \<open>null\<close> to a column
  that is \<open>NOT NULL\<close> has no effect on a row but the error.
\<close>

type_synonym assignment = "string \<times> (tenant \<Rightarrow> tenant) option"

definition assign :: "string \<Rightarrow> 'v option option \<Rightarrow> ('v \<Rightarrow> tenant \<Rightarrow> tenant) \<Rightarrow> assignment list" where
  "assign column v f = (case v of None \<Rightarrow> [] | Some w \<Rightarrow> [(column, map_option f w)])"

text \<open>The columns \<open>GRANT UPDATE (\<dots>) ON tenants TO app_user\<close> names, in all migrations together.\<close>

definition granted_columns :: "string list" where
  "granted_columns = [''financial_year_start_month'', ''cost_rate_display'']"

definition update_tenant :: "uuid \<Rightarrow> assignment list \<Rightarrow> ('s platform_scheme, tenant) act" where
  "update_tenant tenantId sets = (\<lambda>s.
     if \<not> list_all (\<lambda>a. fst a \<in> set granted_columns) sets then (Inl insufficient_privilege, s)
     else if filter (\<lambda>t. tn_id t = tenantId) (tenants s) = [] then (Inl (NotFound ''Tenant'' tenantId), s)
     else if list_ex (\<lambda>a. snd a = None) sets then (Inl not_null_violation, s)
     else let f = (\<lambda>t. fold (\<lambda>a t. the (snd a) t) sets t);
              u = s\<lparr>tenants := map (\<lambda>t. if tn_id t = tenantId then f t else t) (tenants s)\<rparr>
          in (Inr (f (hd (filter (\<lambda>t. tn_id t = tenantId) (tenants s)))), u))"

definition get_tenant :: "uuid \<Rightarrow> ('s platform_scheme, tenant) act" where
  "get_tenant tenantId = (\<lambda>s. case first_of (filter (\<lambda>t. tn_id t = tenantId) (tenants s)) of
      None \<Rightarrow> (Inl (NotFound ''Tenant'' tenantId), s)
    | Some t \<Rightarrow> (Inr t, s))"

section \<open>Cost settings\<close>

record UpdateTenantCostSettings =
  uc_financialYearStartMonth :: "int option option"
  uc_costRateDisplay :: "cost_rate_display option option"

definition cost_settings_sets :: "UpdateTenantCostSettings \<Rightarrow> assignment list" where
  "cost_settings_sets dto =
     assign ''financial_year_start_month'' (uc_financialYearStartMonth dto) (\<lambda>v t. t\<lparr>financial_year_start_month := v\<rparr>) @
     assign ''cost_rate_display'' (uc_costRateDisplay dto) (\<lambda>v t. t\<lparr>tn_cost_rate_display := v\<rparr>)"

definition cost_settings_get :: "uuid \<Rightarrow> ('s platform_scheme, tenant) act" where
  "cost_settings_get = get_tenant"

definition cost_settings_update :: "uuid \<Rightarrow> UpdateTenantCostSettings \<Rightarrow> ('s platform_scheme, tenant) act" where
  "cost_settings_update tenantId dto =
     (let sets = cost_settings_sets dto in if sets = [] then get_tenant tenantId else update_tenant tenantId sets)"

section \<open>Business hours\<close>

record UpdateBusinessHours =
  ub_startMinute :: "int option option"
  ub_endMinute :: "int option option"
  ub_days :: "int list option option"
  ub_timezone :: "string option option"

definition hours_of :: "tenant \<Rightarrow> BusinessHours" where
  "hours_of t = \<lparr>startMinute = business_hours_start_minute t, endMinute = business_hours_end_minute t,
     days = business_hours_days t, timezone = business_hours_timezone t\<rparr>"

definition isValidTimezone :: "intl \<Rightarrow> string option \<Rightarrow> bool" where
  "isValidTimezone I tz = (case tz of None \<Rightarrow> False | Some z \<Rightarrow> zone_offset I z \<noteq> None)"

definition business_hours_sets :: "UpdateBusinessHours \<Rightarrow> assignment list" where
  "business_hours_sets dto =
     assign ''business_hours_start_minute'' (ub_startMinute dto) (\<lambda>v t. t\<lparr>business_hours_start_minute := v\<rparr>) @
     assign ''business_hours_end_minute'' (ub_endMinute dto) (\<lambda>v t. t\<lparr>business_hours_end_minute := v\<rparr>) @
     assign ''business_hours_days'' (ub_days dto) (\<lambda>v t. t\<lparr>business_hours_days := v\<rparr>) @
     assign ''business_hours_timezone'' (ub_timezone dto) (\<lambda>v t. t\<lparr>business_hours_timezone := v\<rparr>)"

definition business_hours_get :: "uuid \<Rightarrow> ('s platform_scheme, BusinessHours) act" where
  "business_hours_get tenantId = act_bind (get_tenant tenantId) (\<lambda>t. act_return (hours_of t))"

definition business_hours_update ::
  "intl \<Rightarrow> uuid \<Rightarrow> UpdateBusinessHours \<Rightarrow> ('s platform_scheme, BusinessHours) act" where
  "business_hours_update I tenantId dto =
     (if \<exists>tz. ub_timezone dto = Some tz \<and> \<not> isValidTimezone I tz
      then act_throw (BadRequest ''Unknown timezone'')
      else let sets = business_hours_sets dto in
        if sets = [] then business_hours_get tenantId
        else act_bind (update_tenant tenantId sets) (\<lambda>t. act_return (hours_of t)))"

section \<open>What can be written\<close>

lemma assign_empty [simp]: "assign c None f = []" "assign c (Some v) f = [(c, map_option f v)]"
  by (simp_all add: assign_def)

text \<open>
  The business hours of a tenant cannot be changed through the application: every update that
  names a column fails, for a bad time zone with the request's own error and otherwise because the
  application's role has no privilege to write the column, and the stored hours stay as they are.
\<close>

theorem business_hours_update_never_writes:
  assumes "business_hours_sets dto \<noteq> []"
  shows "\<exists>e. business_hours_update I tenantId dto s = (Inl e, s) \<and>
    (e = BadRequest ''Unknown timezone'' \<or> e = insufficient_privilege)"
proof -
  have "\<not> list_all (\<lambda>a. fst a \<in> set granted_columns) (business_hours_sets dto)"
  proof -
    obtain c g rest where "business_hours_sets dto = (c, g) # rest"
      using assms by (metis list.exhaust prod.exhaust)
    moreover from this have "c \<in> {''business_hours_start_minute'', ''business_hours_end_minute'',
        ''business_hours_days'', ''business_hours_timezone''}"
      by (auto simp: business_hours_sets_def assign_def split: option.splits)
    ultimately show ?thesis by (auto simp: granted_columns_def)
  qed
  with assms show ?thesis
    by (auto simp: business_hours_update_def Let_def update_tenant_def act_bind_def act_throw_def)
qed

theorem business_hours_update_never_writes_witness:
  "\<forall>s :: platform. \<exists>e. business_hours_update utc_only 1
     \<lparr>ub_startMinute = Some (Some 600), ub_endMinute = None, ub_days = None, ub_timezone = None\<rparr> s = (Inl e, s)"
  using business_hours_update_never_writes
    [of "\<lparr>ub_startMinute = Some (Some 600), ub_endMinute = None, ub_days = None, ub_timezone = None\<rparr>" utc_only 1]
  by (auto simp: business_hours_sets_def)

lemma update_tenant_get:
  assumes "update_tenant i sets s = (Inr row, t)" and "\<And>x. tn_id (fold (\<lambda>a t. the (snd a) t) sets x) = tn_id x"
  shows "fst (get_tenant i t) = Inr row \<and>
    filter (\<lambda>x. tn_id x \<noteq> i) (tenants t) = filter (\<lambda>x. tn_id x \<noteq> i) (tenants s) \<and>
    list_all (\<lambda>a. snd a \<noteq> None) sets \<and> (\<exists>x. row = fold (\<lambda>a t. the (snd a) t) sets x)"
proof -
  define f where "f = fold (\<lambda>a t. the (snd a) t) sets"
  have id: "tn_id (f x) = tn_id x" for x using assms(2) by (simp add: f_def)
  have t: "tenants t = map (\<lambda>x. if tn_id x = i then f x else x) (tenants s)"
    and row: "row = f (hd (filter (\<lambda>x. tn_id x = i) (tenants s)))" and ne: "filter (\<lambda>x. tn_id x = i) (tenants s) \<noteq> []"
    and nn: "list_all (\<lambda>a. snd a \<noteq> None) sets"
    using assms(1) by (auto simp: update_tenant_def Let_def f_def list_all_iff list_ex_iff split: if_splits)
  have "filter (\<lambda>x. tn_id x = i) (map (\<lambda>x. if tn_id x = i then f x else x) xs) = map f (filter (\<lambda>x. tn_id x = i) xs)" for xs
    by (induction xs) (auto simp: id)
  then have "filter (\<lambda>x. tn_id x = i) (tenants t) = map f (filter (\<lambda>x. tn_id x = i) (tenants s))" by (simp add: t)
  with ne row have "first_of (filter (\<lambda>x. tn_id x = i) (tenants t)) = Some row" by (cases "filter (\<lambda>x. tn_id x = i) (tenants s)") auto
  moreover have "filter (\<lambda>x. tn_id x \<noteq> i) (map (\<lambda>x. if tn_id x = i then f x else x) xs) = filter (\<lambda>x. tn_id x \<noteq> i) xs" for xs
    by (induction xs) (auto simp: id)
  ultimately show ?thesis using nn row by (auto simp: get_tenant_def t f_def)
qed

text \<open>
  The cost settings can be changed: an update writes the given values to that tenant's row and
  to no other, and reading the settings back returns what the update returned.
\<close>

theorem cost_settings_update_get:
  assumes "cost_settings_update tenantId dto s = (Inr row, t)"
  shows "fst (cost_settings_get tenantId t) = Inr row \<and>
    (\<forall>v. uc_financialYearStartMonth dto = Some (Some v) \<longrightarrow> financial_year_start_month row = v) \<and>
    (\<forall>v. uc_costRateDisplay dto = Some (Some v) \<longrightarrow> tn_cost_rate_display row = v) \<and>
    filter (\<lambda>x. tn_id x \<noteq> tenantId) (tenants t) = filter (\<lambda>x. tn_id x \<noteq> tenantId) (tenants s)"
proof (cases "cost_settings_sets dto = []")
  case True
  then have "uc_financialYearStartMonth dto = None" "uc_costRateDisplay dto = None"
    by (auto simp: cost_settings_sets_def assign_def split: option.splits)
  with True assms show ?thesis
    by (auto simp: cost_settings_update_def cost_settings_get_def get_tenant_def split: option.splits)
next
  case False
  with assms have run: "update_tenant tenantId (cost_settings_sets dto) s = (Inr row, t)"
    by (simp add: cost_settings_update_def)
  have null: "list_all (\<lambda>a. snd a \<noteq> None) (cost_settings_sets dto)"
    using run by (auto simp: update_tenant_def list_all_iff list_ex_iff split: if_splits)
  then have "tn_id (fold (\<lambda>a t. the (snd a) t) (cost_settings_sets dto) x) = tn_id x" for x
    by (auto simp: cost_settings_sets_def assign_def split: option.splits)
  from update_tenant_get [OF run this] null show ?thesis
    by (auto simp: cost_settings_get_def cost_settings_sets_def assign_def split: option.splits)
qed

definition acme :: tenant where
  "acme = \<lparr>tn_id = 1, tn_name = ''Acme'', tn_slug = ''acme'', tn_plan_tier = Growth, financial_year_start_month = 4,
     tn_cost_rate_display = List_Price, tn_created_at = 0, tn_updated_at = 0, business_hours_start_minute = 540,
     business_hours_end_minute = 1020, business_hours_days = [1, 2, 3, 4, 5], business_hours_timezone = ''UTC''\<rparr>"

definition empty_platform :: platform where
  "empty_platform = \<lparr>clock = 0, next_uuid = 100, tenants = [acme], users = [], events = [], notifications = [],
     redis_up = True, stream = [], consumer_groups = Map.empty, outbox = []\<rparr>"

theorem cost_settings_update_get_witness:
  "let dto = \<lparr>uc_financialYearStartMonth = Some (Some 1), uc_costRateDisplay = None\<rparr>;
       t = snd (cost_settings_update 1 dto empty_platform)
   in fst (cost_settings_get 1 t) = Inr (acme\<lparr>financial_year_start_month := 1\<rparr>)"
proof -
  let ?dto = "\<lparr>uc_financialYearStartMonth = Some (Some 1), uc_costRateDisplay = None\<rparr>"
  have "cost_settings_update 1 ?dto empty_platform = (Inr (acme\<lparr>financial_year_start_month := 1\<rparr>),
      snd (cost_settings_update 1 ?dto empty_platform))"
    by (simp add: Let_def cost_settings_update_def cost_settings_sets_def update_tenant_def granted_columns_def empty_platform_def acme_def)
  from cost_settings_update_get [OF this] show ?thesis by simp
qed

end
