(* ===== verification/Ticketing_Schema.thy ===== *)
theory Ticketing_Schema
  imports Notifications Tenant_Settings
begin

text \<open>
  The tables of the ticketing module (\<open>database/entities/\<close> and the migrations that extend them), as
  an extension of the platform's state, and the frame of an operation on behalf of one tenant: the
  rows of every other tenant, in every table, are as they were.

  Enumerations of the database are datatypes with the text the code compares and prints; casting a
  text that is not a value of the enumeration is the SQLSTATE 22P02.
\<close>

section \<open>Enumerations\<close>

definition invalid_text_representation :: error where
  "invalid_text_representation = DbError ''22P02''"

datatype ticket_status = New | Open | Pending | Resolved | Closed

fun status_text :: "ticket_status \<Rightarrow> string" where
  "status_text New = ''new''"
| "status_text Open = ''open''"
| "status_text Pending = ''pending''"
| "status_text Resolved = ''resolved''"
| "status_text Closed = ''closed''"

text \<open>\<open>status === 'resolved' || status === 'closed'\<close>.\<close>

definition closing :: "ticket_status \<Rightarrow> bool" where
  "closing st \<longleftrightarrow> st = Resolved \<or> st = Closed"

datatype ticket_priority = Low | Medium | High | Urgent

fun priority_text :: "ticket_priority \<Rightarrow> string" where
  "priority_text Low = ''low''"
| "priority_text Medium = ''medium''"
| "priority_text High = ''high''"
| "priority_text Urgent = ''urgent''"

datatype ticket_source = Src_Email | Web_Form | Web_Portal | Agent_Outbound | Whatsapp | Src_Chat | Src_Api | Src_Alert

fun source_text :: "ticket_source \<Rightarrow> string" where
  "source_text Src_Email = ''email''"
| "source_text Web_Form = ''web_form''"
| "source_text Web_Portal = ''web_portal''"
| "source_text Agent_Outbound = ''agent_outbound''"
| "source_text Whatsapp = ''whatsapp''"
| "source_text Src_Chat = ''chat''"
| "source_text Src_Api = ''api''"
| "source_text Src_Alert = ''alert''"

datatype ticket_platform = Aws | Azure | Alibaba_Cloud | Microsoft_365 | Tittu_Marketing_Platform | Other_Platform

fun platform_text :: "ticket_platform \<Rightarrow> string" where
  "platform_text Aws = ''aws''"
| "platform_text Azure = ''azure''"
| "platform_text Alibaba_Cloud = ''alibaba_cloud''"
| "platform_text Microsoft_365 = ''microsoft_365''"
| "platform_text Tittu_Marketing_Platform = ''tittu_marketing_platform''"
| "platform_text Other_Platform = ''other''"

text \<open>The cast of a text to an enumeration: the value that prints so.\<close>

definition enum_of_text :: "('e \<Rightarrow> string) \<Rightarrow> 'e list \<Rightarrow> string \<Rightarrow> 'e option" where
  "enum_of_text print values s = first_of (filter (\<lambda>e. print e = s) values)"

definition status_of_text :: "string \<Rightarrow> ticket_status option" where
  "status_of_text = enum_of_text status_text [New, Open, Pending, Resolved, Closed]"

definition priority_of_text :: "string \<Rightarrow> ticket_priority option" where
  "priority_of_text = enum_of_text priority_text [Low, Medium, High, Urgent]"

definition platform_of_text :: "string \<Rightarrow> ticket_platform option" where
  "platform_of_text = enum_of_text platform_text
     [Aws, Azure, Alibaba_Cloud, Microsoft_365, Tittu_Marketing_Platform, Other_Platform]"

lemma status_of_text [simp]: "status_of_text (status_text st) = Some st"
  by (cases st) (simp_all add: status_of_text_def enum_of_text_def)

lemma status_of_text_Some: "status_of_text s = Some st \<Longrightarrow> status_text st = s"
  unfolding status_of_text_def enum_of_text_def by (drule first_of_filter_SomeD) simp

section \<open>Rows\<close>

datatype assignment_strategy = Manual | Round_Robin | Load_Based | Skill_Based

record group = row +
  gr_name :: string
  gr_description :: "string option"
  gr_created_at :: msec
  gr_assignment_strategy :: assignment_strategy
  gr_max_open_tickets_per_agent :: "int option"

record agent = row +
  ag_user_id :: uuid
  ag_group_ids :: "uuid list"
  ag_is_active :: bool

record agent_skill = row +
  sk_agent_id :: uuid
  sk_skill :: string
  sk_created_at :: msec

record contact = row +
  ct_company_id :: "uuid option"
  ct_name :: string
  ct_email :: "string option"
  ct_phone :: "string option"
  ct_social_handles :: json
  ct_password_hash :: "string option"
  ct_oauth_provider :: "string option"
  ct_email_valid :: bool

record ticket_type = row +
  tt_name :: string
  tt_default_group_id :: "uuid option"
  tt_default_sla_policy_id :: "uuid option"

record sla_policy = row +
  sp_name :: string
  sp_first_response_target_minutes :: int
  sp_resolution_target_minutes :: int
  sp_business_hours_only :: bool
  sp_escalation_rules :: json

record ticket = row +
  tk_ticket_number :: nat
  tk_legacy_ticket_number :: "int option"
  tk_subject :: string
  tk_contact_id :: uuid
  tk_ticket_type_id :: "uuid option"
  tk_status :: ticket_status
  tk_priority :: ticket_priority
  tk_group_id :: "uuid option"
  tk_agent_id :: "uuid option"
  tk_resource_id :: "uuid option"
  tk_sla_policy_id :: "uuid option"
  tk_first_response_due_at :: "msec option"
  tk_first_response_at :: "msec option"
  tk_resolution_due_at :: "msec option"
  tk_resolved_at :: "msec option"
  tk_first_response_overdue_notified_at :: "msec option"
  tk_resolution_overdue_notified_at :: "msec option"
  tk_source :: ticket_source
  tk_source_detail :: "string option"
  tk_platform :: "ticket_platform option"
  tk_tags :: "string list"
  tk_custom_fields :: "(string \<times> json) list"
  tk_merged_into_id :: "uuid option"
  tk_required_skill :: "string option"
  tk_created_at :: msec
  tk_updated_at :: msec

datatype message_type = Reply | Note | Forward

datatype author_type = By_Agent | By_Contact | By_System

record ticket_message = row +
  ms_ticket_id :: uuid
  ms_type :: message_type
  ms_author_type :: author_type
  ms_author_id :: "uuid option"
  ms_body :: string
  ms_cc :: "string list"
  ms_created_at :: msec

record ticket_activity = row +
  ac_ticket_id :: uuid
  ac_field :: string
  ac_old_value :: "string option"
  ac_new_value :: "string option"
  ac_actor_agent_id :: "uuid option"
  ac_created_at :: msec

record attachment = row +
  at_ticket_id :: uuid
  at_ticket_message_id :: "uuid option"
  at_file_name :: string
  at_file_size_bytes :: int
  at_storage_path :: string
  at_created_at :: msec

record ticket_time_log = row +
  tl_ticket_id :: uuid
  tl_agent_id :: "uuid option"
  tl_minutes :: int
  tl_note :: "string option"
  tl_logged_at :: msec
  tl_created_at :: msec

text \<open>\<open>ticket_number_counters\<close> and \<open>group_assignment_cursor\<close>, keyed by the tenant and by the group.\<close>

record number_counter = row +
  nc_next_value :: nat

record assignment_cursor = row +
  cu_last_agent_id :: uuid
  cu_updated_at :: msec

datatype custom_field_type = Cf_Text | Cf_Number | Cf_Dropdown | Cf_Checkbox | Cf_Date

record custom_field_def = row +
  cf_key :: string
  cf_label :: string
  cf_field_type :: custom_field_type
  cf_options :: "string list"
  cf_is_required :: bool
  cf_is_active :: bool
  cf_position :: int
  cf_created_at :: msec
  cf_updated_at :: msec

datatype automation_trigger = Ticket_Created | Ticket_Updated | Time_Based

datatype condition_field = C_Status | C_Priority | C_Source | C_Subject | C_Ticket_Type_Id | C_Group_Id | C_Platform | C_Tags

datatype condition_operator = Equals | Contains

record automation_condition =
  co_field :: condition_field
  co_operator :: condition_operator
  co_value :: string

text \<open>An action carries its value; a group or an agent is named by its id.\<close>

datatype automation_action =
    Set_Status string
  | Set_Priority string
  | Set_Group uuid
  | Set_Agent uuid
  | Set_Platform string
  | Add_Note string
  | Add_Tag string

record automation_rule = row +
  ar_name :: string
  ar_trigger :: automation_trigger
  ar_position :: int
  ar_is_active :: bool
  ar_conditions :: "automation_condition list"
  ar_actions :: "automation_action list"
  ar_time_trigger_minutes :: "int option"
  ar_created_at :: msec
  ar_updated_at :: msec

record rule_application = row +
  ra_rule_id :: uuid
  ra_ticket_id :: uuid
  ra_applied_at :: msec

record ticket_watcher = row +
  wt_ticket_id :: uuid
  wt_agent_id :: uuid

record solution = row +
  so_title :: string
  so_body :: string
  so_is_published :: bool
  so_source_ticket_id :: "uuid option"
  so_created_at :: msec
  so_updated_at :: msec

text \<open>The foundation's table of resources, with the credential that discovered them (\<open>1784160000000\<close>).\<close>

datatype ResourceType = Rt_Server | Rt_Cloud_Account | Rt_Service | Rt_Website | Rt_Database | Rt_Other

record resource = row +
  re_name :: string
  re_resource_type :: ResourceType
  re_group_name :: "string option"
  re_external_ref :: json
  re_tags :: json
  re_cloud_credential_id :: "uuid option"
  re_created_at :: msec
  re_updated_at :: msec

section \<open>The state of the module\<close>

record ticketing = platform +
  groups :: "group list"
  agents :: "agent list"
  agent_skills :: "agent_skill list"
  contacts :: "contact list"
  ticket_types :: "ticket_type list"
  sla_policies :: "sla_policy list"
  resources :: "resource list"
  tickets :: "ticket list"
  ticket_messages :: "ticket_message list"
  ticket_activities :: "ticket_activity list"
  ticket_attachments :: "attachment list"
  ticket_time_logs :: "ticket_time_log list"
  number_counters :: "number_counter list"
  assignment_cursors :: "assignment_cursor list"
  custom_field_defs :: "custom_field_def list"
  automation_rules :: "automation_rule list"
  rule_applications :: "rule_application list"
  ticket_watchers :: "ticket_watcher list"
  solutions :: "solution list"

definition ticketing_frame :: "query_runner \<Rightarrow> 's ticketing_scheme \<Rightarrow> 's ticketing_scheme \<Rightarrow> bool" where
  "ticketing_frame qr s t \<longleftrightarrow>
     clock t = clock s \<and> tenants t = tenants s \<and>
     others qr (users t) = others qr (users s) \<and>
     others qr (events t) = others qr (events s) \<and>
     others qr (notifications t) = others qr (notifications s) \<and>
     others qr (groups t) = others qr (groups s) \<and>
     others qr (agents t) = others qr (agents s) \<and>
     others qr (agent_skills t) = others qr (agent_skills s) \<and>
     others qr (contacts t) = others qr (contacts s) \<and>
     others qr (ticket_types t) = others qr (ticket_types s) \<and>
     others qr (sla_policies t) = others qr (sla_policies s) \<and>
     others qr (resources t) = others qr (resources s) \<and>
     others qr (tickets t) = others qr (tickets s) \<and>
     others qr (ticket_messages t) = others qr (ticket_messages s) \<and>
     others qr (ticket_activities t) = others qr (ticket_activities s) \<and>
     others qr (ticket_attachments t) = others qr (ticket_attachments s) \<and>
     others qr (ticket_time_logs t) = others qr (ticket_time_logs s) \<and>
     others qr (number_counters t) = others qr (number_counters s) \<and>
     others qr (assignment_cursors t) = others qr (assignment_cursors s) \<and>
     others qr (custom_field_defs t) = others qr (custom_field_defs s) \<and>
     others qr (automation_rules t) = others qr (automation_rules s) \<and>
     others qr (rule_applications t) = others qr (rule_applications s) \<and>
     others qr (ticket_watchers t) = others qr (ticket_watchers s) \<and>
     others qr (solutions t) = others qr (solutions s) \<and>
     ticketing.more t = ticketing.more s"

interpretation ticketing_frame: frame "ticketing_frame qr" for qr
  by unfold_locales (simp_all add: ticketing_frame_def)

text \<open>What the platform does for a tenant stays within the tenant's frame.\<close>

lemma platform_ticketing_frame:
  fixes s t :: "'s ticketing_scheme"
  shows "platform_frame qr s t \<Longrightarrow> ticketing_frame qr s t"
  by (cases s; cases t) (simp add: platform_frame_def ticketing_frame_def)

interpretation groups_tbl: tenant_table groups groups_update ticketing_frame
  by unfold_locales (simp_all add: ticketing_frame_def)
interpretation agents_tbl: tenant_table agents agents_update ticketing_frame
  by unfold_locales (simp_all add: ticketing_frame_def)
interpretation agent_skills_tbl: tenant_table agent_skills agent_skills_update ticketing_frame
  by unfold_locales (simp_all add: ticketing_frame_def)
interpretation contacts_tbl: tenant_table contacts contacts_update ticketing_frame
  by unfold_locales (simp_all add: ticketing_frame_def)
interpretation ticket_types_tbl: tenant_table ticket_types ticket_types_update ticketing_frame
  by unfold_locales (simp_all add: ticketing_frame_def)
interpretation sla_policies_tbl: tenant_table sla_policies sla_policies_update ticketing_frame
  by unfold_locales (simp_all add: ticketing_frame_def)
interpretation tickets_tbl: tenant_table tickets tickets_update ticketing_frame
  by unfold_locales (simp_all add: ticketing_frame_def)
interpretation ticket_messages_tbl: tenant_table ticket_messages ticket_messages_update ticketing_frame
  by unfold_locales (simp_all add: ticketing_frame_def)
interpretation ticket_activities_tbl: tenant_table ticket_activities ticket_activities_update ticketing_frame
  by unfold_locales (simp_all add: ticketing_frame_def)
interpretation ticket_attachments_tbl: tenant_table ticket_attachments ticket_attachments_update ticketing_frame
  by unfold_locales (simp_all add: ticketing_frame_def)
interpretation ticket_time_logs_tbl: tenant_table ticket_time_logs ticket_time_logs_update ticketing_frame
  by unfold_locales (simp_all add: ticketing_frame_def)
interpretation number_counters_tbl: tenant_table number_counters number_counters_update ticketing_frame
  by unfold_locales (simp_all add: ticketing_frame_def)
interpretation assignment_cursors_tbl: tenant_table assignment_cursors assignment_cursors_update ticketing_frame
  by unfold_locales (simp_all add: ticketing_frame_def)
interpretation custom_field_defs_tbl: tenant_table custom_field_defs custom_field_defs_update ticketing_frame
  by unfold_locales (simp_all add: ticketing_frame_def)
interpretation automation_rules_tbl: tenant_table automation_rules automation_rules_update ticketing_frame
  by unfold_locales (simp_all add: ticketing_frame_def)
interpretation rule_applications_tbl: tenant_table rule_applications rule_applications_update ticketing_frame
  by unfold_locales (simp_all add: ticketing_frame_def)
interpretation ticket_watchers_tbl: tenant_table ticket_watchers ticket_watchers_update ticketing_frame
  by unfold_locales (simp_all add: ticketing_frame_def)
interpretation solutions_tbl: tenant_table solutions solutions_update ticketing_frame
  by unfold_locales (simp_all add: ticketing_frame_def)

lemma gen_random_uuid_ticketing_frame [frame_intros]: "tx_rel (ticketing_frame qr) gen_random_uuid"
  by (rule tx_rel_mono [OF gen_random_uuid_platform_frame platform_ticketing_frame])

lemma sql_now_ticketing_frame [frame_intros]: "tx_rel (ticketing_frame qr) sql_now"
  unfolding sql_now_def by (rule frame_intros)

lemma enqueue_ticketing_frame [frame_intros]: "act_rel (ticketing_frame t) (enqueue t c r n p)"
  by (rule act_rel_mono [OF enqueue_frame platform_ticketing_frame])

lemma module_tables:
  fixes s t :: "'a ticketing_scheme"
  assumes "platform.more t = platform.more s"
  shows "tickets t = tickets s" "ticket_messages t = ticket_messages s" "ticket_activities t = ticket_activities s"
  using assms by (cases s; cases t; simp)+

end
