(* ===== verification/Automation.thy ===== *)
theory Automation
  imports Ticketing_Schema
begin

text \<open>
  Automation rules: the conditions and actions (\<open>automation/apply-action.ts\<close>,
  \<open>automation/automation-rules.service.ts\<close>), the engine \<open>runRules\<close> that runs inside the transaction of
  a ticket's creation or update, and the time-based sweep
  (\<open>automation/time-automation-sweep.service.ts\<close>).
\<close>

section \<open>Conditions\<close>

text \<open>\<open>ticket[condition.field]\<close>: the tags, or a scalar as text with \<open>null\<close> as the empty string.\<close>

definition condition_value :: "js_format \<Rightarrow> ticket \<Rightarrow> condition_field \<Rightarrow> string list + string" where
  "condition_value F t field = (case field of
      C_Status \<Rightarrow> Inr (status_text (tk_status t))
    | C_Priority \<Rightarrow> Inr (priority_text (tk_priority t))
    | C_Source \<Rightarrow> Inr (source_text (tk_source t))
    | C_Subject \<Rightarrow> Inr (tk_subject t)
    | C_Ticket_Type_Id \<Rightarrow> Inr (case tk_ticket_type_id t of None \<Rightarrow> [] | Some i \<Rightarrow> fmt_uuid F i)
    | C_Group_Id \<Rightarrow> Inr (case tk_group_id t of None \<Rightarrow> [] | Some i \<Rightarrow> fmt_uuid F i)
    | C_Platform \<Rightarrow> Inr (case tk_platform t of None \<Rightarrow> [] | Some p \<Rightarrow> platform_text p)
    | C_Tags \<Rightarrow> Inl (tk_tags t))"

definition conditionMatches :: "js_format \<Rightarrow> ticket \<Rightarrow> automation_condition \<Rightarrow> bool" where
  "conditionMatches F t c = (case condition_value F t (co_field c) of
      Inl tags \<Rightarrow> (case co_operator c of
          Equals \<Rightarrow> co_value c \<in> set tags
        | Contains \<Rightarrow> list_ex (\<lambda>tag. js_includes (js_lower tag) (js_lower (co_value c))) tags)
    | Inr actual \<Rightarrow> (case co_operator c of
          Equals \<Rightarrow> actual = co_value c
        | Contains \<Rightarrow> js_includes (js_lower actual) (js_lower (co_value c))))"

section \<open>Writing to a ticket\<close>

text \<open>\<open>UPDATE tickets \<dots> WHERE id = i RETURNING *\<close> for a ticket the transaction has read.\<close>

definition update_ticket :: "query_runner \<Rightarrow> uuid \<Rightarrow> (ticket \<Rightarrow> ticket) \<Rightarrow> ('s ticketing_scheme, ticket) tx" where
  "update_ticket qr i f =
     tx_bind (sql_update tickets tickets_update qr (by_id i) f) (\<lambda>rows. case rows of
        [] \<Rightarrow> tx_throw (Failure ''TypeError'')
      | r # _ \<Rightarrow> tx_return r)"

definition insert_activity ::
  "query_runner \<Rightarrow> uuid \<Rightarrow> uuid \<Rightarrow> string \<Rightarrow> string option \<Rightarrow> string option \<Rightarrow> uuid option \<Rightarrow> ('s ticketing_scheme, unit) tx" where
  "insert_activity qr tenantId ticketId field old new actor =
     tx_bind gen_random_uuid (\<lambda>i. tx_bind sql_now (\<lambda>now.
     tx_bind (sql_insert ticket_activities_update qr
       \<lparr>row_id = i, tenant_id = tenantId, ac_ticket_id = ticketId, ac_field = field, ac_old_value = old,
        ac_new_value = new, ac_actor_agent_id = actor, ac_created_at = now\<rparr>) (\<lambda>_. tx_return ())))"

definition insert_message ::
  "query_runner \<Rightarrow> uuid \<Rightarrow> uuid \<Rightarrow> message_type \<Rightarrow> author_type \<Rightarrow> uuid option \<Rightarrow> string \<Rightarrow> string list \<Rightarrow>
     ('s ticketing_scheme, ticket_message) tx" where
  "insert_message qr tenantId ticketId type authorType authorId body cc =
     tx_bind gen_random_uuid (\<lambda>i. tx_bind sql_now (\<lambda>now.
     sql_insert ticket_messages_update qr
       \<lparr>row_id = i, tenant_id = tenantId, ms_ticket_id = ticketId, ms_type = type, ms_author_type = authorType,
        ms_author_id = authorId, ms_body = body, ms_cc = cc, ms_created_at = now\<rparr>))"

text \<open>A foreign key is checked against the whole table, not only the tenant's rows.\<close>

definition fk_check :: "('s \<Rightarrow> 'r row_scheme list) \<Rightarrow> uuid \<Rightarrow> ('s, unit) tx" where
  "fk_check tbl i = tx_bind (tx_gets (\<lambda>s. i \<in> row_id ` set (tbl s)))
     (\<lambda>ok. if ok then tx_return () else tx_throw foreign_key_violation)"

section \<open>Actions\<close>

fun assertActionTargetsBelongToTenant :: "query_runner \<Rightarrow> automation_action list \<Rightarrow> ('s ticketing_scheme, unit) tx" where
  "assertActionTargetsBelongToTenant qr [] = tx_return ()"
| "assertActionTargetsBelongToTenant qr (a # as) =
     tx_bind (case a of
         Set_Group g \<Rightarrow> tx_bind (sql_first groups qr (by_id g)) (\<lambda>r.
           if r = None then tx_throw (BadRequest ''set_group action references group, which does not exist for this tenant'')
           else tx_return ())
       | Set_Agent g \<Rightarrow> tx_bind (sql_first agents qr (by_id g)) (\<lambda>r.
           if r = None then tx_throw (BadRequest ''set_agent action references agent, which does not exist for this tenant'')
           else tx_return ())
       | _ \<Rightarrow> tx_return ())
       (\<lambda>_. assertActionTargetsBelongToTenant qr as)"

text \<open>The row an action on a column writes, for the value already cast to the column's type.\<close>

definition set_status :: "ticket_status \<Rightarrow> msec \<Rightarrow> ticket \<Rightarrow> ticket" where
  "set_status st now r = r\<lparr>tk_status := st, tk_updated_at := now, tk_resolved_at := (if closing st then Some now else None)\<rparr>"

definition write_property ::
  "query_runner \<Rightarrow> uuid \<Rightarrow> ticket \<Rightarrow> string \<Rightarrow> string option \<Rightarrow> string \<Rightarrow> (msec \<Rightarrow> ticket \<Rightarrow> ticket) \<Rightarrow> ('s ticketing_scheme, ticket) tx" where
  "write_property qr tenantId ticket field old new f =
     tx_bind sql_now (\<lambda>now.
     tx_bind (update_ticket qr (row_id ticket) (f now)) (\<lambda>row.
     tx_bind (insert_activity qr tenantId (row_id ticket) field old (Some new) None) (\<lambda>_.
     tx_return row)))"

definition applyAction ::
  "js_format \<Rightarrow> uuid \<Rightarrow> ticket \<Rightarrow> automation_action \<Rightarrow> query_runner \<Rightarrow> ('s ticketing_scheme, ticket) tx" where
  "applyAction F tenantId ticket action qr = (case action of
      Set_Status v \<Rightarrow>
        let old = status_text (tk_status ticket) in
        if old = v then tx_return ticket
        else (case status_of_text v of
            None \<Rightarrow> tx_throw invalid_text_representation
          | Some st \<Rightarrow> write_property qr tenantId ticket ''status'' (Some old) v (set_status st))
    | Set_Priority v \<Rightarrow>
        let old = priority_text (tk_priority ticket) in
        if old = v then tx_return ticket
        else (case priority_of_text v of
            None \<Rightarrow> tx_throw invalid_text_representation
          | Some p \<Rightarrow> write_property qr tenantId ticket ''priority'' (Some old) v (\<lambda>now r. r\<lparr>tk_priority := p, tk_updated_at := now\<rparr>))
    | Set_Group g \<Rightarrow>
        if tk_group_id ticket = Some g then tx_return ticket
        else tx_bind (fk_check groups g) (\<lambda>_.
          write_property qr tenantId ticket ''group_id'' (map_option (fmt_uuid F) (tk_group_id ticket)) (fmt_uuid F g)
            (\<lambda>now r. r\<lparr>tk_group_id := Some g, tk_updated_at := now\<rparr>))
    | Set_Agent a \<Rightarrow>
        if tk_agent_id ticket = Some a then tx_return ticket
        else tx_bind (fk_check agents a) (\<lambda>_.
          write_property qr tenantId ticket ''agent_id'' (map_option (fmt_uuid F) (tk_agent_id ticket)) (fmt_uuid F a)
            (\<lambda>now r. r\<lparr>tk_agent_id := Some a, tk_updated_at := now\<rparr>))
    | Set_Platform v \<Rightarrow>
        let old = map_option platform_text (tk_platform ticket) in
        if old = Some v then tx_return ticket
        else (case platform_of_text v of
            None \<Rightarrow> tx_throw invalid_text_representation
          | Some p \<Rightarrow> write_property qr tenantId ticket ''platform'' old v (\<lambda>now r. r\<lparr>tk_platform := Some p, tk_updated_at := now\<rparr>))
    | Add_Note v \<Rightarrow>
        tx_bind (insert_message qr tenantId (row_id ticket) Note By_System None v []) (\<lambda>_. tx_return ticket)
    | Add_Tag v \<Rightarrow>
        let tag = js_trim v in
        if tag = [] \<or> tag \<in> set (tk_tags ticket) then tx_return ticket
        else tx_bind sql_now (\<lambda>now.
          update_ticket qr (row_id ticket) (\<lambda>r. r\<lparr>tk_tags := tk_tags r @ [tag], tk_updated_at := now\<rparr>)))"

section \<open>The engine\<close>

definition apply_actions ::
  "js_format \<Rightarrow> uuid \<Rightarrow> query_runner \<Rightarrow> automation_action list \<Rightarrow> ticket \<Rightarrow> ('s ticketing_scheme, ticket) tx" where
  "apply_actions F tenantId qr actions ticket = tx_fold (\<lambda>a t. applyAction F tenantId t a qr) actions ticket"

definition runRules ::
  "js_format \<Rightarrow> uuid \<Rightarrow> automation_trigger \<Rightarrow> ticket \<Rightarrow> query_runner \<Rightarrow> ('s ticketing_scheme, ticket) tx" where
  "runRules F tenantId trigger ticket qr =
     tx_bind (sql_select automation_rules qr (\<lambda>r. ar_trigger r = trigger \<and> ar_is_active r)) (\<lambda>rules.
       tx_fold (\<lambda>rule current.
           if list_all (conditionMatches F current) (ar_conditions rule)
           then apply_actions F tenantId qr (ar_actions rule) current
           else tx_return current)
         (order_by (\<lambda>r. (ar_position r, ar_created_at r)) rules) ticket)"

section \<open>Frames\<close>

lemma fk_check_frame [frame_intros]: "tx_rel (ticketing_frame qr) (fk_check tbl i)"
  unfolding fk_check_def by (intro frame_intros)

lemma update_ticket_frame [frame_intros]: "tx_rel (ticketing_frame qr) (update_ticket qr i f)"
  unfolding update_ticket_def by (intro frame_intros)

lemma insert_activity_frame [frame_intros]: "tx_rel (ticketing_frame qr) (insert_activity qr t i f x y a)"
  unfolding insert_activity_def by (intro frame_intros)

lemma insert_message_frame [frame_intros]: "tx_rel (ticketing_frame qr) (insert_message qr t i ty au ai b c)"
  unfolding insert_message_def by (intro frame_intros)

lemma write_property_frame [frame_intros]: "tx_rel (ticketing_frame qr) (write_property qr t k f x y g)"
  unfolding write_property_def by (intro frame_intros)

lemma assertActionTargets_frame [frame_intros]: "tx_rel (ticketing_frame qr) (assertActionTargetsBelongToTenant qr as)"
proof (induction as)
  case Nil
  show ?case by (simp only: assertActionTargetsBelongToTenant.simps) (intro frame_intros)
next
  case (Cons a as)
  show ?case
    by (cases a) (simp_all only: assertActionTargetsBelongToTenant.simps automation_action.case, (intro frame_intros Cons.IH)+)
qed

lemma applyAction_frame [frame_intros]: "tx_rel (ticketing_frame qr) (applyAction F t k a qr)"
  by (cases a) (simp_all only: applyAction_def automation_action.case, (intro frame_intros)+)

lemma runRules_frame [frame_intros]: "tx_rel (ticketing_frame qr) (runRules F t trg k qr)"
  unfolding runRules_def apply_actions_def by (intro frame_intros)

section \<open>Resolved tickets have a resolution time\<close>

text \<open>A ticket is resolved or closed exactly when it has a time of resolution.\<close>

definition ticket_ok :: "ticket \<Rightarrow> bool" where
  "ticket_ok t \<longleftrightarrow> (tk_resolved_at t \<noteq> None \<longleftrightarrow> closing (tk_status t))"

abbreviation tickets_ok :: "'s ticketing_scheme \<Rightarrow> bool" where
  "tickets_ok \<equiv> rows_ok tickets ticket_ok"

lemma set_status_ok: "ticket_ok (set_status st now r)"
  by (simp add: ticket_ok_def set_status_def)

lemma update_ticket_ok: "(\<And>r. ticket_ok r \<Longrightarrow> ticket_ok (f r)) \<Longrightarrow> tx_rel (keeps tickets_ok) (update_ticket qr i f)"
  unfolding update_ticket_def by (intro keeps_frame.tx_bind_frame tx_rel_list frame_intros tickets_tbl.sql_update_rows)

lemma insert_activity_ok: "tx_rel (keeps tickets_ok) (insert_activity qr t i f x y a)"
  unfolding insert_activity_def by (intro frame_intros row_intros) (simp_all add: rows_ok_def)

lemma insert_message_ok: "tx_rel (keeps tickets_ok) (insert_message qr t i ty au ai b c)"
  unfolding insert_message_def by (intro frame_intros row_intros) (simp_all add: rows_ok_def)

lemma write_property_ok:
  "(\<And>now r. ticket_ok r \<Longrightarrow> ticket_ok (f now r)) \<Longrightarrow> tx_rel (keeps tickets_ok) (write_property qr t k fd x y f)"
  unfolding write_property_def
  by (intro frame_intros row_intros update_ticket_ok insert_activity_ok)

lemma fk_check_keeps: "tx_rel (keeps I) (fk_check tbl i)"
  unfolding fk_check_def by (intro frame_intros)

lemma applyAction_ok: "tx_rel (keeps tickets_ok) (applyAction F t k a qr)"
proof (cases a)
  case (Set_Status v)
  then show ?thesis
    by (simp only: applyAction_def automation_action.case) (intro frame_intros write_property_ok, simp_all add: set_status_ok)
qed (simp_all only: applyAction_def automation_action.case,
    (intro frame_intros row_intros fk_check_keeps write_property_ok insert_message_ok update_ticket_ok;
      simp add: ticket_ok_def)+)

lemma runRules_ok: "tx_rel (keeps tickets_ok) (runRules F t trg k qr)"
  unfolding runRules_def apply_actions_def by (intro frame_intros applyAction_ok)

section \<open>What an action does\<close>

lemma update_rows_one:
  assumes "distinct (map row_id rs)" and "k \<in> set rs" and "tenant_id k = qr"
  shows "update_rows qr (by_id (row_id k)) f rs = map (\<lambda>r. if r = k then f k else r) rs"
proof -
  have "\<And>r. r \<in> set rs \<Longrightarrow> row_id r = row_id k \<Longrightarrow> r = k" using assms(1,2) by (auto dest: row_id_inj)
  then show ?thesis using assms(3) by (auto simp: update_rows_def by_id_def tenant_isolation_def)
qed

lemma update_ticket_run:
  assumes "distinct (map row_id (tickets s))" and "k \<in> set (tickets s)" and "tenant_id k = qr" and "tenant_id (f k) = qr"
  shows "update_ticket qr (row_id k) f s
    = Inr (f k, s\<lparr>tickets := map (\<lambda>r. if r = k then f k else r) (tickets s)\<rparr>)"
  using visible_by_id [OF assms(1-3)] assms(4)
  by (simp add: update_ticket_def sql_update_def tx_bind_def Let_def update_rows_one [OF assms(1-3)] tenant_isolation_def)

definition activity_of :: "uuid \<Rightarrow> uuid \<Rightarrow> string \<Rightarrow> string option \<Rightarrow> string option \<Rightarrow> uuid option \<Rightarrow> 's ticketing_scheme \<Rightarrow> ticket_activity" where
  "activity_of tenantId ticketId field old new actor s =
     \<lparr>row_id = next_uuid s, tenant_id = tenantId, ac_ticket_id = ticketId, ac_field = field, ac_old_value = old,
      ac_new_value = new, ac_actor_agent_id = actor, ac_created_at = clock s\<rparr>"

lemma write_property_run:
  assumes "distinct (map row_id (tickets s))" and "k \<in> set (tickets s)" and "tenant_id k = qr" and "tenant_id (f (clock s) k) = qr"
  shows "write_property qr qr k field old new f s = Inr (f (clock s) k,
    s\<lparr>next_uuid := Suc (next_uuid s), tickets := map (\<lambda>r. if r = k then f (clock s) k else r) (tickets s),
      ticket_activities := ticket_activities s @ [activity_of qr (row_id k) field old (Some new) None s]\<rparr>)"
  using update_ticket_run [OF assms(1-3), of "f (clock s)"] assms(4)
  by (simp add: write_property_def tx_bind_def sql_now_def insert_activity_def gen_random_uuid_def sql_insert_def
      tenant_isolation_def activity_of_def)

text \<open>The column an action sets, its value before and the value it asks for.\<close>

definition action_column :: "js_format \<Rightarrow> ticket \<Rightarrow> automation_action \<Rightarrow> (string \<times> string option \<times> string) option" where
  "action_column F k a = (case a of
      Set_Status v \<Rightarrow> Some (''status'', Some (status_text (tk_status k)), v)
    | Set_Priority v \<Rightarrow> Some (''priority'', Some (priority_text (tk_priority k)), v)
    | Set_Group g \<Rightarrow> Some (''group_id'', map_option (fmt_uuid F) (tk_group_id k), fmt_uuid F g)
    | Set_Agent g \<Rightarrow> Some (''agent_id'', map_option (fmt_uuid F) (tk_agent_id k), fmt_uuid F g)
    | Set_Platform v \<Rightarrow> Some (''platform'', map_option platform_text (tk_platform k), v)
    | _ \<Rightarrow> None)"

lemma enum_of_text_Some: "enum_of_text print es s = Some e \<Longrightarrow> print e = s"
  unfolding enum_of_text_def by (drule first_of_filter_SomeD) simp

lemma priority_of_text_Some: "priority_of_text s = Some p \<Longrightarrow> priority_text p = s"
  unfolding priority_of_text_def by (rule enum_of_text_Some)

lemma platform_of_text_Some: "platform_of_text s = Some p \<Longrightarrow> platform_text p = s"
  unfolding platform_of_text_def by (rule enum_of_text_Some)

lemmas enum_texts = status_of_text_Some priority_of_text_Some platform_of_text_Some

lemma map_if_same [simp]: "map (\<lambda>r. if r = k then k else r) rs = rs"
  by (rule map_idI) simp

text \<open>The shape all property actions share: nothing if the value is there already, else write and log.\<close>

lemma property_action_effect:
  assumes "(if old = Some new then tx_return k else write_property qr qr k field old new f) s = Inr (k', t)"
    and "distinct (map row_id (tickets s))" and "k \<in> set (tickets s)" and "tenant_id k = qr" and "tenant_id (f (clock s) k) = qr"
  shows "k' = (if old = Some new then k else f (clock s) k) \<and>
    tickets t = map (\<lambda>r. if r = k then k' else r) (tickets s) \<and> ticket_messages t = ticket_messages s \<and>
    ticket_activities t = ticket_activities s @
      (if old = Some new then [] else [activity_of qr (row_id k) field old (Some new) None s])"
  using assms(1) write_property_run [OF assms(2-4), of f] assms(5) by (auto split: if_splits)

text \<open>
  An automation that sets a property sets it, logs it, and touches nothing else: the returned
  ticket has the requested value; if the value differs from the old one exactly one activity with
  the old and the new value is appended and the stored row is the returned one, otherwise nothing
  is written; every other ticket and all messages stay as they were.
\<close>

theorem applyAction_sets_and_logs:
  assumes "applyAction F qr k action qr s = Inr (k', t)" and "action_column F k action = Some (field, old, new)"
    and "distinct (map row_id (tickets s))" and "k \<in> set (tickets s)" and "tenant_id k = qr" and "inj (fmt_uuid F)"
  shows "action_column F k' action = Some (field, Some new, new) \<and>
    tickets t = map (\<lambda>r. if r = k then k' else r) (tickets s) \<and> ticket_messages t = ticket_messages s \<and>
    ticket_activities t = ticket_activities s @
      (if old = Some new then [] else [activity_of qr (row_id k) field old (Some new) None s])"
proof (cases action)
  case (Set_Status v)
  show ?thesis
  proof (cases "status_of_text v")
    case None
    then have "status_text (tk_status k) \<noteq> v" by (cases "tk_status k") (auto simp: status_of_text_def enum_of_text_def)
    with None assms(1) Set_Status show ?thesis by (simp add: applyAction_def)
  next
    case (Some st)
    have "(if old = Some new then tx_return k else write_property qr qr k field old new (set_status st)) s = Inr (k', t)"
      using assms(1,2) Set_Status Some by (auto simp: applyAction_def action_column_def Let_def split: if_splits)
    from property_action_effect [OF this assms(3-5)] assms(2,5) Set_Status status_of_text_Some [OF Some] show ?thesis
      by (auto simp: action_column_def set_status_def)
  qed
next
  case (Set_Priority v)
  show ?thesis
  proof (cases "priority_of_text v")
    case None
    then have "priority_text (tk_priority k) \<noteq> v" by (cases "tk_priority k") (auto simp: priority_of_text_def enum_of_text_def)
    with None assms(1) Set_Priority show ?thesis by (simp add: applyAction_def)
  next
    case (Some p)
    have "(if old = Some new then tx_return k else write_property qr qr k field old new
        (\<lambda>now r. r\<lparr>tk_priority := p, tk_updated_at := now\<rparr>)) s = Inr (k', t)"
      using assms(1,2) Set_Priority Some by (auto simp: applyAction_def action_column_def Let_def split: if_splits)
    from property_action_effect [OF this assms(3-5)] assms(2,5) Set_Priority priority_of_text_Some [OF Some] show ?thesis
      by (auto simp: action_column_def)
  qed
next
  case (Set_Group g)
  have "(if old = Some new then tx_return k else write_property qr qr k field old new
      (\<lambda>now r. r\<lparr>tk_group_id := Some g, tk_updated_at := now\<rparr>)) s = Inr (k', t)"
    using assms(1,2,6) Set_Group
    by (auto simp: applyAction_def action_column_def fk_check_def tx_bind_def dest: injD split: if_splits)
  from property_action_effect [OF this assms(3-5)] assms(2,5) Set_Group show ?thesis
    by (auto simp: action_column_def)
next
  case (Set_Agent g)
  have "(if old = Some new then tx_return k else write_property qr qr k field old new
      (\<lambda>now r. r\<lparr>tk_agent_id := Some g, tk_updated_at := now\<rparr>)) s = Inr (k', t)"
    using assms(1,2,6) Set_Agent
    by (auto simp: applyAction_def action_column_def fk_check_def tx_bind_def dest: injD split: if_splits)
  from property_action_effect [OF this assms(3-5)] assms(2,5) Set_Agent show ?thesis
    by (auto simp: action_column_def)
next
  case (Set_Platform v)
  show ?thesis
  proof (cases "platform_of_text v")
    case None
    then have "map_option platform_text (tk_platform k) \<noteq> Some v"
      by (cases "the (tk_platform k)") (auto simp: platform_of_text_def enum_of_text_def)
    with None assms(1) Set_Platform show ?thesis by (auto simp: applyAction_def Let_def split: if_splits)
  next
    case (Some p)
    have "(if old = Some new then tx_return k else write_property qr qr k field old new
        (\<lambda>now r. r\<lparr>tk_platform := Some p, tk_updated_at := now\<rparr>)) s = Inr (k', t)"
      using assms(1,2) Set_Platform Some by (auto simp: applyAction_def action_column_def Let_def split: if_splits)
    from property_action_effect [OF this assms(3-5)] assms(2,5) Set_Platform platform_of_text_Some [OF Some] show ?thesis
      by (auto simp: action_column_def)
  qed
qed (use assms(2) in \<open>simp_all add: action_column_def\<close>)

definition printer_ticket :: ticket where
  "printer_ticket = \<lparr>row_id = 20, tenant_id = 1, tk_ticket_number = 1, tk_legacy_ticket_number = None, tk_subject = ''Printer'',
     tk_contact_id = 30, tk_ticket_type_id = None, tk_status = Open, tk_priority = Medium, tk_group_id = None, tk_agent_id = None,
     tk_resource_id = None, tk_sla_policy_id = None, tk_first_response_due_at = None, tk_first_response_at = None,
     tk_resolution_due_at = None, tk_resolved_at = None, tk_first_response_overdue_notified_at = None,
     tk_resolution_overdue_notified_at = None, tk_source = Src_Email, tk_source_detail = None, tk_platform = None, tk_tags = [],
     tk_custom_fields = [], tk_merged_into_id = None, tk_required_skill = None, tk_created_at = 0, tk_updated_at = 0\<rparr>"

definition one_ticket :: ticketing where
  "one_ticket = platform.extend empty_platform
     (ticketing.fields [] [] [] [] [] [] [] [printer_ticket] [] [] [] [] [] [] [] [] [] [] [])"

lemma one_ticket_simps [simp]:
  "tickets one_ticket = [printer_ticket]" "clock one_ticket = 0" "next_uuid one_ticket = 100"
  "ticket_activities one_ticket = []" "ticket_messages one_ticket = []" "solutions one_ticket = []" "contacts one_ticket = []"
  "agents one_ticket = []" "users one_ticket = []" "ticket_watchers one_ticket = []" "automation_rules one_ticket = []"
  "number_counters one_ticket = []" "custom_field_defs one_ticket = []" "tenants one_ticket = [acme]" "redis_up one_ticket"
  "ticket_attachments one_ticket = []" "ticket_types one_ticket = []" "groups one_ticket = []"
  "row_id printer_ticket = 20" "tenant_id printer_ticket = 1" "tk_status printer_ticket = Open" "tk_resolved_at printer_ticket = None"
  by (simp_all add: one_ticket_def printer_ticket_def empty_platform_def platform.defs ticketing.defs)

definition unary_format :: js_format where
  "unary_format = \<lparr>fmt_number = (\<lambda>_. ''?''), fmt_uuid = (\<lambda>n. replicate n (CHR ''x'')), fmt_date = int_text\<rparr>"

theorem applyAction_sets_and_logs_witness:
  "\<exists>k' t. applyAction unary_format 1 printer_ticket (Set_Status ''resolved'') 1 one_ticket = Inr (k', t) \<and>
     tk_status k' = Resolved \<and> length (ticket_activities t) = 1"
proof -
  have inj: "inj (fmt_uuid unary_format)"
    by (auto simp: unary_format_def inj_def replicate_eq_replicate)
  have col: "action_column unary_format printer_ticket (Set_Status ''resolved'') = Some (''status'', Some ''open'', ''resolved'')"
    by (simp add: action_column_def)
  obtain k' t where run: "applyAction unary_format 1 printer_ticket (Set_Status ''resolved'') 1 one_ticket = Inr (k', t)"
    by (simp add: applyAction_def Let_def status_of_text_def enum_of_text_def
        write_property_run [of one_ticket printer_ticket 1 "set_status Resolved"] set_status_def del: One_nat_def)
  from applyAction_sets_and_logs [OF run col _ _ _ inj] have e: "action_column unary_format k' (Set_Status ''resolved'') = Some (''status'', Some ''resolved'', ''resolved'')"
    "length (ticket_activities t) = 1" by simp_all
  then have "tk_status k' = Resolved" by (cases "tk_status k'") (auto simp: action_column_def)
  with run e show ?thesis by blast
qed

section \<open>What actions leave alone\<close>

text \<open>
  Any part of the state that does not change when an activity or a message is appended, the next
  identifier moves on, or a ticket is rewritten with its id, number, merge target and first response
  kept.
\<close>

definition ticket_key :: "ticket \<Rightarrow> uuid \<times> uuid \<times> nat \<times> uuid option \<times> msec option" where
  "ticket_key r = (row_id r, tenant_id r, tk_ticket_number r, tk_merged_into_id r, tk_first_response_at r)"

definition ignores_actions :: "('s ticketing_scheme \<Rightarrow> 'b) \<Rightarrow> bool" where
  "ignores_actions f \<longleftrightarrow> (\<forall>s g. f (ticket_activities_update g s) = f s) \<and> (\<forall>s g. f (ticket_messages_update g s) = f s) \<and>
     (\<forall>s i. f (s\<lparr>next_uuid := i\<rparr>) = f s) \<and>
     (\<forall>s g qr W. (\<forall>r. ticket_key (g r) = ticket_key r) \<longrightarrow> f (tickets_update (update_rows qr W g) s) = f s)"

lemma insert_activity_same: "ignores_actions f \<Longrightarrow> tx_rel (same f) (insert_activity qr t i fd x y a)"
  unfolding insert_activity_def by (intro frame_intros row_intros) (simp_all add: ignores_actions_def)

lemma insert_message_same: "ignores_actions f \<Longrightarrow> tx_rel (same f) (insert_message qr t i ty au ai b c)"
  unfolding insert_message_def by (intro frame_intros row_intros) (simp_all add: ignores_actions_def)

lemma update_ticket_same:
  "ignores_actions f \<Longrightarrow> (\<And>r. ticket_key (g r) = ticket_key r) \<Longrightarrow> tx_rel (same f) (update_ticket qr i g)"
  unfolding update_ticket_def by (intro frame_intros row_intros) (simp_all add: ignores_actions_def)

lemma write_property_same:
  "ignores_actions f \<Longrightarrow> (\<And>now r. ticket_key (g now r) = ticket_key r) \<Longrightarrow>
    tx_rel (same f) (write_property qr t k fd x y g)"
  unfolding write_property_def by (intro frame_intros row_intros update_ticket_same insert_activity_same)

lemma fk_check_same: "tx_rel (same f) (fk_check tbl i)"
  unfolding fk_check_def by (intro frame_intros)

lemma applyAction_same: "ignores_actions f \<Longrightarrow> tx_rel (same f) (applyAction F t k a qr)"
  by (cases a) (simp_all only: applyAction_def automation_action.case,
    (intro frame_intros row_intros fk_check_same write_property_same insert_message_same update_ticket_same;
      simp add: set_status_def ticket_key_def)+)

lemma apply_actions_same: "ignores_actions f \<Longrightarrow> tx_rel (same f) (apply_actions F t qr as k)"
  unfolding apply_actions_def by (intro frame_intros applyAction_same)

lemma runRules_same: "ignores_actions f \<Longrightarrow> tx_rel (same f) (runRules F t trg k qr)"
  unfolding runRules_def by (intro frame_intros apply_actions_same)

lemma ticket_ids_ignore_actions: "ignores_actions (\<lambda>s. map row_id (tickets s))"
  by (simp add: ignores_actions_def map_update_rows ticket_key_def)

end
