(* ===== verification/Ticket_Support.thy ===== *)
theory Ticket_Support
  imports Automation
begin

text \<open>
  What the ticket service calls: the text of message bodies (\<open>sanitize-html.ts\<close>), the watchers of a
  ticket (\<open>ticket-watchers/ticket-watchers.service.ts\<close>) and the knowledge base
  (\<open>solutions.service.ts\<close>).

  The library \<open>sanitize-html\<close> is a parameter: \<open>sanitize\<close> with the allowlist of the module, and
  \<open>strip_tags\<close> with no tag allowed.
\<close>

section \<open>Message bodies\<close>

record html_lib =
  sanitize :: "string \<Rightarrow> string"
  strip_tags :: "string \<Rightarrow> string"

definition sanitizeTicketBody :: "html_lib \<Rightarrow> string \<Rightarrow> string" where
  "sanitizeTicketBody H body = sanitize H body"

definition block_tags :: "string list" where
  "block_tags = [''</p>'', ''</div>'', ''</h3>'', ''</h4>'', ''</li>'', ''</blockquote>'']"

text \<open>The length of a match of \<open>/<\/(p|div|h3|h4|li|blockquote)>/i\<close> or of \<open>/<br\s*\/?>/i\<close> at the start.\<close>

definition block_match :: "string \<Rightarrow> nat option" where
  "block_match s = map_option length (first_of (filter (\<lambda>t. js_lower (take (length t) s) = t) block_tags))"

definition br_match :: "string \<Rightarrow> nat option" where
  "br_match s =
     (if js_lower (take 3 s) = ''<br'' then
        let r = dropWhile js_space (drop 3 s); r' = (case r of [] \<Rightarrow> [] | c # cs \<Rightarrow> if c = CHR ''/'' then cs else r)
        in (case r' of [] \<Rightarrow> None | c # cs \<Rightarrow> if c = CHR ''>'' then Some (length s - length cs) else None)
      else None)"

text \<open>\<open>s.replace(/\<dots>/gi, '\n')\<close>; a match has at least one character.\<close>

fun replace_matches :: "(string \<Rightarrow> nat option) \<Rightarrow> string \<Rightarrow> string" where
  "replace_matches m [] = []"
| "replace_matches m (c # cs) = (case m (c # cs) of
      None \<Rightarrow> c # replace_matches m cs
    | Some n \<Rightarrow> newline @ replace_matches m (drop (n - 1) cs))"

text \<open>\<open>replace(/\n{3,}/g, '\n\n')\<close>: the number of line feeds just read, and what follows.\<close>

definition line_feed :: char where
  "line_feed = CHR 0x0A"

fun collapse_newlines :: "nat \<Rightarrow> string \<Rightarrow> string" where
  "collapse_newlines k [] = replicate (if 3 \<le> k then 2 else k) line_feed"
| "collapse_newlines k (c # cs) =
     (if c = line_feed then collapse_newlines (Suc k) cs
      else replicate (if 3 \<le> k then 2 else k) line_feed @ c # collapse_newlines 0 cs)"

definition htmlToPlainText :: "html_lib \<Rightarrow> string \<Rightarrow> string" where
  "htmlToPlainText H body =
     js_trim (collapse_newlines 0 (strip_tags H (replace_matches br_match (replace_matches block_match body))))"

section \<open>Agents and their users\<close>

text \<open>\<open>SELECT u.* FROM agents a JOIN users u ON u.id = a.user_id WHERE a.id = $1\<close>.\<close>

definition agent_users :: "query_runner \<Rightarrow> uuid \<Rightarrow> 's ticketing_scheme \<Rightarrow> user list" where
  "agent_users qr agentId s = concat (map (\<lambda>a. filter (by_id (ag_user_id a)) (visible qr (users s)))
     (filter (by_id agentId) (visible qr (agents s))))"

definition select_agent_user :: "query_runner \<Rightarrow> uuid \<Rightarrow> ('s ticketing_scheme, user option) tx" where
  "select_agent_user qr agentId = tx_gets (\<lambda>s. first_of (agent_users qr agentId s))"

section \<open>Watchers\<close>

record Watcher =
  wa_agentId :: uuid
  wa_name :: string
  wa_email :: string

definition watcherEmails :: "query_runner \<Rightarrow> uuid \<Rightarrow> uuid option \<Rightarrow> ('s ticketing_scheme, Watcher list) tx" where
  "watcherEmails qr ticketId excludeAgentId = tx_gets (\<lambda>s.
     concat (map (\<lambda>w. map (\<lambda>u. \<lparr>wa_agentId = wt_agent_id w, wa_name = us_name u, wa_email = us_email u\<rparr>)
         (agent_users qr (wt_agent_id w) s))
       (filter (\<lambda>w. wt_ticket_id w = ticketId \<and> (excludeAgentId = None \<or> Some (wt_agent_id w) \<noteq> excludeAgentId))
         (visible qr (ticket_watchers s)))))"

text \<open>\<open>ON CONFLICT (ticket_id, agent_id) DO NOTHING\<close>; both ids are foreign keys.\<close>

definition watch :: "uuid \<Rightarrow> uuid \<Rightarrow> uuid \<Rightarrow> ('s ticketing_scheme, Watcher list) act" where
  "watch tenantId ticketId agentId = withTenantContext tenantId (\<lambda>qr.
     tx_bind (tx_gets (\<lambda>s. \<exists>w \<in> set (ticket_watchers s). wt_ticket_id w = ticketId \<and> wt_agent_id w = agentId)) (\<lambda>conflict.
     tx_bind (if conflict then tx_return ()
        else tx_bind (fk_check tickets ticketId) (\<lambda>_. tx_bind (fk_check agents agentId) (\<lambda>_.
             tx_bind gen_random_uuid (\<lambda>i.
             tx_bind (sql_insert ticket_watchers_update qr
               \<lparr>row_id = i, tenant_id = tenantId, wt_ticket_id = ticketId, wt_agent_id = agentId\<rparr>) (\<lambda>_. tx_return ()))))) (\<lambda>_.
     watcherEmails qr ticketId None)))"

definition unwatch :: "uuid \<Rightarrow> uuid \<Rightarrow> uuid \<Rightarrow> ('s ticketing_scheme, Watcher list) act" where
  "unwatch tenantId ticketId agentId = withTenantContext tenantId (\<lambda>qr.
     tx_bind (sql_delete ticket_watchers ticket_watchers_update qr (\<lambda>w. wt_ticket_id w = ticketId \<and> wt_agent_id w = agentId)) (\<lambda>_.
     watcherEmails qr ticketId None))"

definition list_watchers :: "uuid \<Rightarrow> uuid \<Rightarrow> ('s ticketing_scheme, Watcher list) act" where
  "list_watchers tenantId ticketId = withTenantContext tenantId (\<lambda>qr. watcherEmails qr ticketId None)"

section \<open>The knowledge base\<close>

text \<open>\<open>s LIKE p\<close> on lists of characters: percent any text, underscore one character, backslash quotes.\<close>

fun sql_like :: "string \<Rightarrow> string \<Rightarrow> bool" where
  "sql_like [] s = (s = [])"
| "sql_like (p # ps) [] = (if p = CHR ''%'' then sql_like ps [] else False)"
| "sql_like (p # ps) (c # cs) =
     (if p = CHR ''%'' then sql_like ps (c # cs) \<or> sql_like (p # ps) cs
      else if p = CHR 0x5C \<and> ps \<noteq> [] then c = hd ps \<and> sql_like (tl ps) cs
      else (p = CHR ''_'' \<or> c = p) \<and> sql_like ps cs)"

definition sql_ilike :: "string \<Rightarrow> string \<Rightarrow> bool" where
  "sql_ilike s p = sql_like (js_lower p) (js_lower s)"

definition solutions_list :: "uuid \<Rightarrow> string option \<Rightarrow> ('s ticketing_scheme, solution list) act" where
  "solutions_list tenantId search = withTenantContext tenantId (\<lambda>qr.
     let term = (case search of None \<Rightarrow> [] | Some s \<Rightarrow> js_trim s);
         pattern = ''%'' @ term @ ''%'';
         P = (\<lambda>so. term = [] \<or> sql_ilike (so_title so) pattern \<or> sql_ilike (so_body so) pattern)
     in tx_bind (sql_select solutions qr P) (\<lambda>rows. tx_return (order_by (\<lambda>so. - so_updated_at so) rows)))"

definition solutions_get :: "uuid \<Rightarrow> uuid \<Rightarrow> ('s ticketing_scheme, solution) act" where
  "solutions_get tenantId i = withTenantContext tenantId (\<lambda>qr. find_row ''Solution'' solutions qr i)"

definition insert_solution ::
  "query_runner \<Rightarrow> uuid \<Rightarrow> string \<Rightarrow> string \<Rightarrow> bool \<Rightarrow> uuid option \<Rightarrow> ('s ticketing_scheme, solution) tx" where
  "insert_solution qr tenantId title body published source =
     tx_bind gen_random_uuid (\<lambda>i. tx_bind sql_now (\<lambda>now.
       sql_insert solutions_update qr \<lparr>row_id = i, tenant_id = tenantId, so_title = title, so_body = body,
         so_is_published = published, so_source_ticket_id = source, so_created_at = now, so_updated_at = now\<rparr>))"

definition solutions_create :: "uuid \<Rightarrow> string \<Rightarrow> string \<Rightarrow> bool option \<Rightarrow> ('s ticketing_scheme, solution) act" where
  "solutions_create tenantId title body isPublished = withTenantContext tenantId (\<lambda>qr.
     insert_solution qr tenantId title body (case isPublished of None \<Rightarrow> False | Some b \<Rightarrow> b) None)"

record UpdateSolution =
  uso_title :: "string option option"
  uso_body :: "string option option"
  uso_isPublished :: "bool option option"

definition solutions_update_article :: "uuid \<Rightarrow> uuid \<Rightarrow> UpdateSolution \<Rightarrow> ('s ticketing_scheme, solution) act" where
  "solutions_update_article tenantId i dto = withTenantContext tenantId (\<lambda>qr.
     tx_bind (find_row ''Solution'' solutions qr i) (\<lambda>_. tx_bind sql_now (\<lambda>now.
     tx_bind (sql_patch solutions solutions_update qr (by_id i)
        ([Some (\<lambda>so. so\<lparr>so_updated_at := now\<rparr>)] @
         set_required (uso_title dto) (\<lambda>v so. so\<lparr>so_title := v\<rparr>) @
         set_required (uso_body dto) (\<lambda>v so. so\<lparr>so_body := v\<rparr>) @
         set_required (uso_isPublished dto) (\<lambda>v so. so\<lparr>so_is_published := v\<rparr>)))
       (first_row ''Solution'' i))))"

definition solutions_remove :: "uuid \<Rightarrow> uuid \<Rightarrow> ('s ticketing_scheme, unit) act" where
  "solutions_remove tenantId i = withTenantContext tenantId (\<lambda>qr. remove_row ''Solution'' solutions solutions_update qr i)"

definition latestAgentReply :: "query_runner \<Rightarrow> uuid \<Rightarrow> ('s ticketing_scheme, ticket_message option) tx" where
  "latestAgentReply qr ticketId =
     tx_bind (sql_select ticket_messages qr (\<lambda>m. ms_ticket_id m = ticketId \<and> ms_type m = Reply \<and> ms_author_type m = By_Agent))
       (\<lambda>rows. tx_return (first_of (order_by (\<lambda>m. - ms_created_at m) rows)))"

definition createFromResolvedTicket :: "html_lib \<Rightarrow> uuid \<Rightarrow> uuid \<Rightarrow> ('s ticketing_scheme, solution option) act" where
  "createFromResolvedTicket H tenantId ticketId = withTenantContext tenantId (\<lambda>qr.
     tx_bind (sql_first solutions qr (\<lambda>so. so_source_ticket_id so = Some ticketId)) (\<lambda>existing.
       if existing \<noteq> None then tx_return None
       else tx_bind (sql_first tickets qr (by_id ticketId)) (\<lambda>ticket. case ticket of
            None \<Rightarrow> tx_return None
          | Some tk \<Rightarrow> tx_bind (latestAgentReply qr ticketId) (\<lambda>reply. case reply of
              None \<Rightarrow> tx_return None
            | Some r \<Rightarrow>
                let body = js_trim (htmlToPlainText H (ms_body r)) in
                if body = [] then tx_return None
                else tx_bind (insert_solution qr tenantId (tk_subject tk) body False (Some ticketId)) (\<lambda>so. tx_return (Some so))))))"

section \<open>Frames\<close>

lemma support_frames [frame_intros]:
  "tx_rel (ticketing_frame qr) (select_agent_user qr a)"
  "tx_rel (ticketing_frame qr) (watcherEmails qr k x)"
  "tx_rel (ticketing_frame qr) (insert_solution qr t title body pub src)"
  "tx_rel (ticketing_frame qr) (latestAgentReply qr k)"
  unfolding select_agent_user_def watcherEmails_def insert_solution_def latestAgentReply_def by (intro frame_intros)+

lemma watch_frames [frame_intros]:
  "act_rel (ticketing_frame t) (watch t k a)" "act_rel (ticketing_frame t) (unwatch t k a)" "act_rel (ticketing_frame t) (list_watchers t k)"
  unfolding watch_def unwatch_def list_watchers_def by (intro frame_intros)+

lemma solutions_frames [frame_intros]:
  "act_rel (ticketing_frame t) (solutions_list t search)" "act_rel (ticketing_frame t) (solutions_get t i)"
  "act_rel (ticketing_frame t) (solutions_create t title body pub)" "act_rel (ticketing_frame t) (solutions_update_article t i u)"
  "act_rel (ticketing_frame t) (solutions_remove t i)" "act_rel (ticketing_frame t) (createFromResolvedTicket H t i)"
  unfolding solutions_list_def solutions_get_def solutions_create_def solutions_update_article_def solutions_remove_def
    createFromResolvedTicket_def
  by (intro frame_intros)+

section \<open>What they promise\<close>

text \<open>The articles made from a ticket: at most one per ticket.\<close>

definition one_article_per_ticket :: "'s ticketing_scheme \<Rightarrow> bool" where
  "one_article_per_ticket s \<longleftrightarrow> (\<forall>qr. distinct (filter (\<lambda>k. k \<noteq> None) (map so_source_ticket_id (visible qr (solutions s)))))"

text \<open>
  Resolving a ticket makes at most one article: after \<open>createFromResolvedTicket\<close> a tenant's
  articles still have distinct source tickets, an article it creates is an unpublished draft whose
  title is the ticket's subject, and calling it again creates nothing.
\<close>

theorem createFromResolvedTicket_idempotent:
  assumes "createFromResolvedTicket H tenantId ticketId s = (Inr (Some so), t)" and "one_article_per_ticket s"
  shows "one_article_per_ticket t \<and> solutions t = solutions s @ [so] \<and> \<not> so_is_published so \<and> so_body so \<noteq> [] \<and>
    (\<exists>k \<in> set (tickets s). row_id k = ticketId \<and> tenant_id k = tenantId \<and> so_title so = tk_subject k) \<and>
    createFromResolvedTicket H tenantId ticketId t = (Inr None, t)"
proof -
  obtain tk where new: "filter (\<lambda>so. so_source_ticket_id so = Some ticketId) (visible tenantId (solutions s)) = []"
    and tk: "first_of (filter (by_id ticketId) (visible tenantId (tickets s))) = Some tk"
    and so: "tenant_id so = tenantId" "so_title so = tk_subject tk" "\<not> so_is_published so" "so_source_ticket_id so = Some ticketId"
      "so_body so \<noteq> []" "solutions t = solutions s @ [so]"
    using assms(1)
    by (auto simp: createFromResolvedTicket_def withTenantContext_Inr tx_bind_eq_Inr sql_first_def latestAgentReply_def
        sql_select_def insert_solution_def gen_random_uuid_def sql_now_def sql_insert_def Let_def split: option.splits if_splits)
  have "one_article_per_ticket t"
    unfolding one_article_per_ticket_def
  proof
    fix qr
    show "distinct (filter (\<lambda>k. k \<noteq> None) (map so_source_ticket_id (visible qr (solutions t))))"
      using assms(2) new so
      by (auto simp: one_article_per_ticket_def tenant_isolation_def filter_empty_conv)
  qed
  moreover have "createFromResolvedTicket H tenantId ticketId t = (Inr None, t)"
    using so new
    by (simp add: createFromResolvedTicket_def withTenantContext_def sql_first_def tx_bind_def tenant_isolation_def)
  moreover have "tk \<in> set (tickets s)" "row_id tk = ticketId" "tenant_id tk = tenantId"
    using first_of_filter_SomeD [OF tk] by (auto simp: by_id_def)
  ultimately show ?thesis using so by auto
qed

definition answered_ticket :: ticketing where
  "answered_ticket = one_ticket\<lparr>ticket_messages := [\<lparr>row_id = 40, tenant_id = 1, ms_ticket_id = 20, ms_type = Reply,
     ms_author_type = By_Agent, ms_author_id = None, ms_body = ''ok'', ms_cc = [], ms_created_at = 5\<rparr>]\<rparr>"

definition toy_html :: html_lib where
  "toy_html = \<lparr>sanitize = (\<lambda>s. s), strip_tags = (\<lambda>_. ''ok'')\<rparr>"

lemma answered_ticket_simps [simp]: "solutions answered_ticket = []" "tickets answered_ticket = [printer_ticket]"
  by (simp_all add: answered_ticket_def one_ticket_def platform.defs ticketing.defs)

theorem createFromResolvedTicket_idempotent_witness:
  "\<exists>so t. createFromResolvedTicket toy_html 1 20 answered_ticket = (Inr (Some so), t) \<and> solutions t = [so] \<and>
     createFromResolvedTicket toy_html 1 20 t = (Inr None, t)"
proof -
  have txt_eq: "js_trim (htmlToPlainText toy_html b) = ''ok''" for b
    by (simp add: htmlToPlainText_def toy_html_def line_feed_def js_trim_def js_space_def)
  obtain so t where run: "createFromResolvedTicket toy_html 1 20 answered_ticket = (Inr (Some so), t)"
    by (simp add: createFromResolvedTicket_def withTenantContext_def tx_bind_def sql_first_def latestAgentReply_def sql_select_def
        insert_solution_def gen_random_uuid_def sql_now_def sql_insert_def txt_eq Let_def answered_ticket_def order_by_def by_id_def
        tenant_isolation_def)
  have "one_article_per_ticket answered_ticket" by (simp add: one_article_per_ticket_def)
  from createFromResolvedTicket_idempotent [OF run this] run show ?thesis by auto
qed

end
