(* ===== verification/Assignment.thy ===== *)
theory Assignment
  imports Ticketing_Schema
begin

text \<open>
  Automatic assignment of new tickets (\<open>assignment/assignment.service.ts\<close>): the strategies of a
  group, run inside the transaction that creates the ticket. Agents are compared by their ids the
  way \<open>ORDER BY id\<close> and \<open>localeCompare\<close> do.
\<close>

definition OPEN_STATUSES :: "ticket_status list" where
  "OPEN_STATUSES = [New, Open, Pending]"

definition loadGroupConfig :: "query_runner \<Rightarrow> uuid \<Rightarrow> ('s ticketing_scheme, group option) tx" where
  "loadGroupConfig qr groupId = sql_first groups qr (by_id groupId)"

definition activeGroupAgents :: "query_runner \<Rightarrow> uuid \<Rightarrow> ('s ticketing_scheme, uuid list) tx" where
  "activeGroupAgents qr groupId =
     tx_bind (sql_select agents qr (\<lambda>a. groupId \<in> set (ag_group_ids a) \<and> ag_is_active a))
       (\<lambda>rows. tx_return (map row_id (order_by row_id rows)))"

text \<open>The counts of the open tickets: every listed agent starts at zero.\<close>

definition openTicketCounts :: "query_runner \<Rightarrow> uuid list \<Rightarrow> ('s ticketing_scheme, uuid \<Rightarrow> nat option) tx" where
  "openTicketCounts qr agentIds =
     tx_bind (sql_select tickets qr (\<lambda>t. tk_agent_id t \<in> Some ` set agentIds \<and> tk_status t \<in> set OPEN_STATUSES))
       (\<lambda>rows. tx_return (\<lambda>a. if a \<in> set agentIds
          then Some (length (filter (\<lambda>t. tk_agent_id t = Some a) rows)) else None))"

definition count_of :: "(uuid \<Rightarrow> nat option) \<Rightarrow> uuid \<Rightarrow> nat" where
  "count_of counts a = (case counts a of None \<Rightarrow> 0 | Some n \<Rightarrow> n)"

definition below_cap :: "(uuid \<Rightarrow> nat option) \<Rightarrow> int option \<Rightarrow> uuid \<Rightarrow> bool" where
  "below_cap counts cap a = (case cap of None \<Rightarrow> True | Some c \<Rightarrow> int (count_of counts a) < c)"

definition leastLoaded :: "uuid list \<Rightarrow> (uuid \<Rightarrow> nat option) \<Rightarrow> int option \<Rightarrow> uuid option" where
  "leastLoaded agentIds counts cap =
     (let eligible = filter (below_cap counts cap) agentIds in
      if eligible = [] then None else Some (hd (sort_key (\<lambda>a. (count_of counts a, a)) eligible)))"

text \<open>\<open>xs.indexOf(x)\<close>.\<close>

fun js_index_of :: "'a list \<Rightarrow> 'a \<Rightarrow> int" where
  "js_index_of [] x = - 1"
| "js_index_of (y # ys) x = (if y = x then 0 else let i = js_index_of ys x in if i = - 1 then - 1 else i + 1)"

definition roundRobin :: "query_runner \<Rightarrow> uuid \<Rightarrow> uuid \<Rightarrow> uuid list \<Rightarrow> ('s ticketing_scheme, uuid option) tx" where
  "roundRobin qr tenantId groupId agentIds =
     (if agentIds = [] then tx_return None
      else tx_bind (sql_first assignment_cursors qr (\<lambda>c. tenant_id c = tenantId \<and> row_id c = groupId)) (\<lambda>cursor.
        let lastIndex = (case cursor of None \<Rightarrow> - 1 | Some c \<Rightarrow> js_index_of agentIds (cu_last_agent_id c));
            nextIndex = (lastIndex + 1) mod int (length agentIds);
            chosen = agentIds ! nat nextIndex
        in tx_bind sql_now (\<lambda>now.
           tx_bind (case cursor of
               None \<Rightarrow> tx_bind (sql_insert assignment_cursors_update qr
                   \<lparr>row_id = groupId, tenant_id = tenantId, cu_last_agent_id = chosen, cu_updated_at = now\<rparr>) (\<lambda>_. tx_return ())
             | Some c \<Rightarrow> tx_bind (sql_update assignment_cursors assignment_cursors_update qr (by_id groupId)
                   (\<lambda>c. c\<lparr>cu_last_agent_id := chosen, cu_updated_at := now\<rparr>)) (\<lambda>_. tx_return ())) (\<lambda>_.
           tx_return (Some chosen)))))"

definition js_falsy_skill :: "string option \<Rightarrow> bool" where
  "js_falsy_skill s \<longleftrightarrow> s = None \<or> s = Some []"

text \<open>The strategies, over the active agents of the group.\<close>

definition assign_by_strategy ::
  "query_runner \<Rightarrow> uuid \<Rightarrow> uuid \<Rightarrow> string option \<Rightarrow> group \<Rightarrow> uuid list \<Rightarrow> ('s ticketing_scheme, uuid option) tx" where
  "assign_by_strategy qr tenantId groupId requiredSkill g agentIds =
     (if gr_assignment_strategy g = Skill_Based then
        (if js_falsy_skill requiredSkill then tx_return None
         else tx_bind (sql_select agent_skills qr (\<lambda>k. tenant_id k = tenantId \<and> Some (sk_skill k) = requiredSkill)) (\<lambda>skilled.
           let skilledIds = filter (\<lambda>a. a \<in> sk_agent_id ` set skilled) agentIds in
           if skilledIds = [] then tx_return None
           else tx_bind (openTicketCounts qr skilledIds) (\<lambda>counts.
             tx_return (leastLoaded skilledIds counts (gr_max_open_tickets_per_agent g)))))
      else if gr_assignment_strategy g = Load_Based then
        tx_bind (openTicketCounts qr agentIds) (\<lambda>counts.
          tx_return (leastLoaded agentIds counts (gr_max_open_tickets_per_agent g)))
      else roundRobin qr tenantId groupId agentIds)"

definition pickAssignee ::
  "query_runner \<Rightarrow> uuid \<Rightarrow> uuid \<Rightarrow> string option \<Rightarrow> ('s ticketing_scheme, uuid option) tx" where
  "pickAssignee qr tenantId groupId requiredSkill =
     tx_bind (loadGroupConfig qr groupId) (\<lambda>config. case config of
        None \<Rightarrow> tx_return None
      | Some g \<Rightarrow>
          if gr_assignment_strategy g = Manual then tx_return None
          else tx_bind (activeGroupAgents qr groupId) (\<lambda>agentIds.
            if agentIds = [] then tx_return None
            else assign_by_strategy qr tenantId groupId requiredSkill g agentIds))"

section \<open>Frames\<close>

lemma roundRobin_frame [frame_intros]: "tx_rel (ticketing_frame qr) (roundRobin qr t g as)"
  unfolding roundRobin_def by (intro frame_intros)

lemma pickAssignee_frame [frame_intros]: "tx_rel (ticketing_frame qr) (pickAssignee qr t g k)"
  unfolding pickAssignee_def assign_by_strategy_def loadGroupConfig_def activeGroupAgents_def openTicketCounts_def
  by (intro frame_intros)

section \<open>Least loaded\<close>

lemma hd_sort_key_min:
  fixes k :: "'a \<Rightarrow> 'b :: linorder"
  assumes "xs \<noteq> []"
  shows "hd (sort_key k xs) \<in> set xs \<and> (\<forall>x \<in> set xs. k (hd (sort_key k xs)) \<le> k x)"
proof -
  obtain y ys where e: "sort_key k xs = y # ys" using assms by (metis length_0_conv length_sort list.exhaust)
  have "sorted (map k (sort_key k xs))" by simp
  then have "\<forall>x \<in> set (y # ys). k y \<le> k x" unfolding e by auto
  moreover have "set (sort_key k xs) = set xs" by simp
  ultimately show ?thesis unfolding e by (metis list.sel(1) list.set_intros(1))
qed

lemma leastLoaded_spec:
  "case leastLoaded agentIds counts cap of
     None \<Rightarrow> \<forall>a \<in> set agentIds. \<not> below_cap counts cap a
   | Some a \<Rightarrow> a \<in> set agentIds \<and> below_cap counts cap a \<and>
       (\<forall>b \<in> set agentIds. below_cap counts cap b \<longrightarrow> (count_of counts a, a) \<le> (count_of counts b, b))"
proof (cases "filter (below_cap counts cap) agentIds = []")
  case True
  then show ?thesis by (auto simp: leastLoaded_def filter_empty_conv)
next
  case False
  from hd_sort_key_min [OF this, of "\<lambda>a. (count_of counts a, a)"] False show ?thesis
    by (auto simp: leastLoaded_def Let_def)
qed

text \<open>The open tickets of an agent.\<close>

definition open_load :: "query_runner \<Rightarrow> uuid \<Rightarrow> 's ticketing_scheme \<Rightarrow> nat" where
  "open_load qr a s = length (filter (\<lambda>t. tk_agent_id t = Some a \<and> tk_status t \<in> set OPEN_STATUSES) (visible qr (tickets s)))"

lemma openTicketCounts_run:
  obtains counts where "openTicketCounts qr as s = Inr (counts, s)" and "\<And>a. a \<in> set as \<Longrightarrow> count_of counts a = open_load qr a s"
  by (rule that) (auto simp: openTicketCounts_def sql_select_def tx_bind_def count_of_def open_load_def
      intro!: arg_cong [where f = length] filter_cong)

lemma activeGroupAgents_run:
  obtains as where "activeGroupAgents qr g s = Inr (as, s)" and
    "set as = {a. \<exists>r \<in> set (agents s). tenant_id r = qr \<and> row_id r = a \<and> g \<in> set (ag_group_ids r) \<and> ag_is_active r}"
  by (rule that) (auto simp: activeGroupAgents_def sql_select_def tx_bind_def order_by_def)

section \<open>Round robin\<close>

lemma js_index_of_nth: "distinct xs \<Longrightarrow> i < length xs \<Longrightarrow> js_index_of xs (xs ! i) = int i"
proof (induction xs arbitrary: i)
  case Nil
  then show ?case by simp
next
  case (Cons x xs)
  then show ?case by (cases i) (auto simp: Let_def)
qed

lemma js_index_of_range: "- 1 \<le> js_index_of xs x \<and> js_index_of xs x < int (length xs)"
  by (induction xs) (auto simp: Let_def)

text \<open>The cursor of a group: the last agent its round robin chose.\<close>

definition group_cursor :: "query_runner \<Rightarrow> uuid \<Rightarrow> 's ticketing_scheme \<Rightarrow> uuid option" where
  "group_cursor qr g s = map_option cu_last_agent_id (first_of (filter (by_id g) (visible qr (assignment_cursors s))))"

definition next_index :: "uuid list \<Rightarrow> uuid option \<Rightarrow> nat" where
  "next_index as cur = nat (((case cur of None \<Rightarrow> - 1 | Some a \<Rightarrow> js_index_of as a) + 1) mod int (length as))"

lemma filter_map_if_id: "(\<And>r. row_id (f r) = row_id r) \<Longrightarrow>
    filter (by_id g) (map (\<lambda>r. if by_id g r then f r else r) rs) = map f (filter (by_id g) rs)"
  by (induction rs) (auto simp: by_id_def)

lemma roundRobin_run:
  assumes "as \<noteq> []"
  shows "\<exists>t. roundRobin qr qr g as s = Inr (Some (as ! next_index as (group_cursor qr g s)), t) \<and>
    group_cursor qr g t = Some (as ! next_index as (group_cursor qr g s))"
proof -
  have first: "first_of (filter (\<lambda>c. tenant_id c = qr \<and> row_id c = g) (visible qr (assignment_cursors s)))
      = first_of (filter (by_id g) (visible qr (assignment_cursors s)))"
    by (rule arg_cong [where f = first_of], rule filter_cong) (auto simp: by_id_def)
  show ?thesis
  proof (cases "first_of (filter (by_id g) (visible qr (assignment_cursors s)))")
    case None
    with assms show ?thesis
      by (simp add: roundRobin_def sql_first_def first tx_bind_def Let_def sql_now_def sql_insert_def tenant_isolation_def
          group_cursor_def next_index_def by_id_def)
  next
    case (Some c)
    then obtain cs where cs: "filter (by_id g) (visible qr (assignment_cursors s)) = c # cs"
      by (cases "filter (by_id g) (visible qr (assignment_cursors s))") auto
    with assms show ?thesis
      by (simp add: roundRobin_def sql_first_def first tx_bind_def Let_def sql_now_def sql_update_def
          list_all_iff tenant_isolation_def group_cursor_def next_index_def visible_update_rows filter_map_if_id)
  qed
qed

text \<open>A transaction body run a number of times.\<close>

fun repeat_tx :: "nat \<Rightarrow> ('s, 'a) tx \<Rightarrow> ('s, 'a list) tx" where
  "repeat_tx 0 m = tx_return []"
| "repeat_tx (Suc n) m = tx_bind m (\<lambda>x. tx_bind (repeat_tx n m) (\<lambda>xs. tx_return (x # xs)))"

lemma next_index_step:
  assumes "distinct as" and "i < length as"
  shows "next_index as (Some (as ! i)) = Suc i mod length as"
  using assms by (simp add: next_index_def js_index_of_nth nat_mod_distrib nat_add_distrib)

lemma next_index_less: "as \<noteq> [] \<Longrightarrow> next_index as cur < length as"
  by (simp add: next_index_def nat_less_iff)

lemma round_robin_run:
  assumes "distinct as" and "as \<noteq> []"
  shows "\<exists>t. repeat_tx n (roundRobin qr qr g as) s
    = Inr (map (\<lambda>k. Some (as ! ((next_index as (group_cursor qr g s) + k) mod length as))) [0 ..< n], t)"
proof (induction n arbitrary: s)
  case 0
  then show ?case by simp
next
  case (Suc n)
  let ?i = "next_index as (group_cursor qr g s)"
  have lt: "?i < length as" using assms(2) by (rule next_index_less)
  obtain u where u: "roundRobin qr qr g as s = Inr (Some (as ! ?i), u)" "group_cursor qr g u = Some (as ! ?i)"
    using roundRobin_run [OF assms(2)] by blast
  from Suc.IH [of u] obtain t where "repeat_tx n (roundRobin qr qr g as) u
      = Inr (map (\<lambda>k. Some (as ! ((Suc ?i mod length as + k) mod length as))) [0 ..< n], t)"
    using next_index_step [OF assms(1) lt] u(2) by auto
  moreover have "(Suc ?i mod length as + k) mod length as = (?i + Suc k) mod length as" for k
    by (simp add: mod_add_left_eq)
  ultimately show ?case using u(1) lt
    by (simp add: tx_bind_def upt_conv_Cons map_Suc_upt [symmetric] del: upt_Suc)
qed

text \<open>
  Round robin is fair: from any cursor, as many assignments in a row as the group has agents
  give every agent exactly one ticket, as long as the list of agents stays the same.
\<close>

theorem round_robin_fair:
  assumes "distinct agentIds" and "agentIds \<noteq> []"
  shows "\<exists>picks t. repeat_tx (length agentIds) (roundRobin tenantId tenantId groupId agentIds) s = Inr (picks, t) \<and>
    mset picks = mset (map Some agentIds)"
proof -
  define i where "i = next_index agentIds (group_cursor tenantId groupId s)"
  have "map (\<lambda>k. Some (agentIds ! ((i + k) mod length agentIds))) [0 ..< length agentIds] = map Some (rotate i agentIds)"
    by (rule nth_equalityI) (simp_all add: nth_rotate)
  moreover have "mset (rotate i agentIds) = mset agentIds"
  proof -
    have "mset (rotate1 ys) = mset ys" for ys :: "uuid list" by (cases ys) simp_all
    then show ?thesis by (induction i) simp_all
  qed
  then have "mset (map Some (rotate i agentIds)) = mset (map Some agentIds)" by simp
  ultimately show ?thesis
    using round_robin_run [OF assms, of "length agentIds" tenantId groupId s] by (metis i_def)
qed

definition no_tickets :: ticketing where
  "no_tickets = platform.extend empty_platform
     (ticketing.fields [] [] [] [] [] [] [] [] [] [] [] [] [] [] [] [] [] [] [])"

theorem round_robin_fair_witness:
  "\<exists>picks t. repeat_tx 3 (roundRobin 1 1 9 [4, 5, 6]) no_tickets = Inr (picks, t) \<and> mset picks = {#Some 4, Some 5, Some 6#}"
  using round_robin_fair [of "[4, 5, 6]" 1 9 no_tickets] by (simp add: numeral_3_eq_3)

section \<open>Who is chosen\<close>

text \<open>The agents a strategy chooses from.\<close>

definition eligible :: "query_runner \<Rightarrow> uuid \<Rightarrow> string option \<Rightarrow> group \<Rightarrow> 's ticketing_scheme \<Rightarrow> uuid \<Rightarrow> bool" where
  "eligible qr groupId requiredSkill grp s a \<longleftrightarrow>
     (\<exists>r \<in> set (agents s). tenant_id r = qr \<and> row_id r = a \<and> groupId \<in> set (ag_group_ids r) \<and> ag_is_active r) \<and>
     (gr_assignment_strategy grp = Skill_Based \<longrightarrow>
       (\<exists>k \<in> set (agent_skills s). tenant_id k = qr \<and> sk_agent_id k = a \<and> Some (sk_skill k) = requiredSkill))"

definition has_room :: "group \<Rightarrow> nat \<Rightarrow> bool" where
  "has_room grp n = (case gr_max_open_tickets_per_agent grp of None \<Rightarrow> True | Some c \<Rightarrow> int n < c)"

lemma least_loaded_choice:
  assumes "leastLoaded as counts (gr_max_open_tickets_per_agent grp) = Some a"
    and "\<And>b. b \<in> set as \<Longrightarrow> count_of counts b = open_load qr b s"
  shows "a \<in> set as \<and> has_room grp (open_load qr a s) \<and>
    (\<forall>b \<in> set as. has_room grp (open_load qr b s) \<longrightarrow> open_load qr a s \<le> open_load qr b s)"
  using leastLoaded_spec [of as counts "gr_max_open_tickets_per_agent grp"] assms
  by (auto simp: below_cap_def has_room_def less_eq_prod_def split: option.splits)

lemma assign_skill:
  assumes "gr_assignment_strategy grp = Skill_Based" and "assign_by_strategy qr qr g skill grp as s = Inr (Some a, t)"
  defines "ids \<equiv> filter (\<lambda>a. a \<in> sk_agent_id ` set (filter (\<lambda>k. tenant_id k = qr \<and> Some (sk_skill k) = skill) (visible qr (agent_skills s)))) as"
  shows "a \<in> set ids \<and> has_room grp (open_load qr a s) \<and>
    (\<forall>b \<in> set ids. has_room grp (open_load qr b s) \<longrightarrow> open_load qr a s \<le> open_load qr b s)"
proof -
  obtain counts where c: "openTicketCounts qr ids s = Inr (counts, s)" "\<And>b. b \<in> set ids \<Longrightarrow> count_of counts b = open_load qr b s"
    using openTicketCounts_run by blast
  have "leastLoaded ids counts (gr_max_open_tickets_per_agent grp) = Some a"
    using assms(1,2) c(1) unfolding ids_def
    by (auto simp: assign_by_strategy_def tx_bind_def sql_select_def Let_def split: if_splits)
  from least_loaded_choice [OF this c(2)] show ?thesis .
qed

lemma assign_load:
  assumes "gr_assignment_strategy grp = Load_Based" and "assign_by_strategy qr qr g skill grp as s = Inr (Some a, t)"
  shows "a \<in> set as \<and> has_room grp (open_load qr a s) \<and>
    (\<forall>b \<in> set as. has_room grp (open_load qr b s) \<longrightarrow> open_load qr a s \<le> open_load qr b s)"
proof -
  obtain counts where c: "openTicketCounts qr as s = Inr (counts, s)" "\<And>b. b \<in> set as \<Longrightarrow> count_of counts b = open_load qr b s"
    using openTicketCounts_run by blast
  have "leastLoaded as counts (gr_max_open_tickets_per_agent grp) = Some a"
    using assms c(1) by (auto simp: assign_by_strategy_def tx_bind_def)
  from least_loaded_choice [OF this c(2)] show ?thesis .
qed

lemma assign_round_robin:
  assumes "gr_assignment_strategy grp = Round_Robin" and "assign_by_strategy qr qr g skill grp as s = Inr (Some a, t)" and "as \<noteq> []"
  shows "a \<in> set as"
  using assms roundRobin_run [OF assms(3), of qr g s] next_index_less [OF assms(3)]
  by (auto simp: assign_by_strategy_def)

text \<open>
  A ticket is only ever given to an active agent of the tenant who is a member of the group,
  and, for the skill strategy, who has the required skill; under the load and skill strategies the
  agent is below the group's cap and no eligible agent below the cap has fewer open tickets.
\<close>

theorem pickAssignee_choice:
  assumes "pickAssignee qr qr groupId requiredSkill s = Inr (Some a, t)"
  shows "\<exists>grp \<in> set (groups s). tenant_id grp = qr \<and> row_id grp = groupId \<and> gr_assignment_strategy grp \<noteq> Manual \<and>
    eligible qr groupId requiredSkill grp s a \<and>
    (gr_assignment_strategy grp \<noteq> Round_Robin \<longrightarrow> has_room grp (open_load qr a s) \<and>
      (\<forall>b. eligible qr groupId requiredSkill grp s b \<and> has_room grp (open_load qr b s) \<longrightarrow> open_load qr a s \<le> open_load qr b s))"
proof -
  obtain as where as: "activeGroupAgents qr groupId s = Inr (as, s)"
      "set as = {a. \<exists>r \<in> set (agents s). tenant_id r = qr \<and> row_id r = a \<and> groupId \<in> set (ag_group_ids r) \<and> ag_is_active r}"
    using activeGroupAgents_run by blast
  obtain grp where grp: "first_of (filter (by_id groupId) (visible qr (groups s))) = Some grp" "gr_assignment_strategy grp \<noteq> Manual"
      "as \<noteq> []" "assign_by_strategy qr qr groupId requiredSkill grp as s = Inr (Some a, t)"
    using assms as(1) by (auto simp: pickAssignee_def loadGroupConfig_def sql_first_def tx_bind_def split: option.splits if_splits)
  have g: "grp \<in> set (groups s)" "tenant_id grp = qr" "row_id grp = groupId"
    using first_of_filter_SomeD [OF grp(1)] by (auto simp: by_id_def)
  show ?thesis
  proof (cases "gr_assignment_strategy grp")
    case Manual
    with grp(2) show ?thesis by simp
  next
    case Round_Robin
    with assign_round_robin [OF Round_Robin grp(4,3)] as(2) g show ?thesis by (auto simp: eligible_def)
  next
    case Load_Based
    have "b \<in> set as \<longleftrightarrow> eligible qr groupId requiredSkill grp s b" for b
      using as(2) Load_Based by (simp add: eligible_def)
    with assign_load [OF Load_Based grp(4)] grp(2) g show ?thesis by blast
  next
    case Skill_Based
    have "b \<in> set (filter (\<lambda>a. a \<in> sk_agent_id ` set (filter (\<lambda>k. tenant_id k = qr \<and> Some (sk_skill k) = requiredSkill)
        (visible qr (agent_skills s)))) as) \<longleftrightarrow> eligible qr groupId requiredSkill grp s b" for b
      using as(2) Skill_Based by (auto simp: eligible_def image_iff)
    with assign_skill [OF Skill_Based grp(4)] grp(2) g show ?thesis by blast
  qed
qed

definition support_desk :: ticketing where
  "support_desk = no_tickets\<lparr>
     groups := [\<lparr>row_id = 9, tenant_id = 1, gr_name = ''Support'', gr_description = None, gr_created_at = 0,
                 gr_assignment_strategy = Load_Based, gr_max_open_tickets_per_agent = Some 5\<rparr>],
     agents := [\<lparr>row_id = 4, tenant_id = 1, ag_user_id = 2, ag_group_ids = [9], ag_is_active = False\<rparr>,
                \<lparr>row_id = 5, tenant_id = 1, ag_user_id = 3, ag_group_ids = [9], ag_is_active = True\<rparr>]\<rparr>"

theorem pickAssignee_choice_witness:
  "pickAssignee 1 1 9 None support_desk = Inr (Some 5, support_desk) \<and>
   (\<exists>grp \<in> set (groups support_desk). eligible 1 9 None grp support_desk 5)"
proof -
  have run: "pickAssignee 1 1 9 None support_desk = Inr (Some 5, support_desk)"
    by (simp add: pickAssignee_def assign_by_strategy_def loadGroupConfig_def activeGroupAgents_def openTicketCounts_def
        leastLoaded_def below_cap_def count_of_def sql_first_def sql_select_def support_desk_def no_tickets_def empty_platform_def
        platform.defs ticketing.defs by_id_def tenant_isolation_def tx_bind_def order_by_def)
  from pickAssignee_choice [OF run] run show ?thesis by blast
qed

end
