(* ===== verification/Custom_Fields.thy ===== *)
theory Custom_Fields
  imports Ticketing_Schema
begin

text \<open>
  Custom fields of tickets: the validation \<open>custom-fields/custom-field-validate.ts\<close> and the service
  that keeps the definitions (\<open>custom-fields/custom-fields.service.ts\<close>). An object is the list of its
  properties; numbers are exact.
\<close>

section \<open>Number(s)\<close>

text \<open>
  \<open>Number\<close> on a string: white space around it is ignored, the empty string is 0, then a decimal
  literal with optional fraction and exponent, or an unsigned literal in base 16, 8 or 2. \<open>None\<close> is
  \<open>NaN\<close> or an infinity.
\<close>

definition split_at :: "(char \<Rightarrow> bool) \<Rightarrow> string \<Rightarrow> string \<times> string option" where
  "split_at P s = (case dropWhile (\<lambda>c. \<not> P c) s of [] \<Rightarrow> (s, None) | _ # r \<Rightarrow> (takeWhile (\<lambda>c. \<not> P c) s, Some r))"

definition sign_of :: "string \<Rightarrow> rat \<times> string" where
  "sign_of s = (case s of [] \<Rightarrow> (1, s) | c # r \<Rightarrow> if c = CHR ''-'' then (-1, r) else if c = CHR ''+'' then (1, r) else (1, s))"

definition js_exponent :: "string option \<Rightarrow> int option" where
  "js_exponent e = (case e of None \<Rightarrow> Some 0
     | Some s \<Rightarrow> (let (sg, ds) = sign_of s in
         if ds \<noteq> [] \<and> list_all js_digit ds then Some (\<lfloor>sg\<rfloor> * int (digits_value ds)) else None))"

definition js_decimal :: "string \<Rightarrow> rat option" where
  "js_decimal s =
     (let (sg, u) = sign_of s; (m, ex) = split_at (\<lambda>c. c = CHR ''e'' \<or> c = CHR ''E'') u;
          (i, fr) = split_at (\<lambda>c. c = CHR ''.'') m; f = (case fr of None \<Rightarrow> [] | Some f \<Rightarrow> f)
      in if list_all js_digit (i @ f) \<and> i @ f \<noteq> []
         then map_option (\<lambda>x. sg * of_nat (digits_value (i @ f)) * (if 0 \<le> x - int (length f) then 10 ^ nat (x - int (length f))
                 else 1 / 10 ^ nat (int (length f) - x))) (js_exponent ex)
         else None)"

definition hex_value :: "char \<Rightarrow> nat option" where
  "hex_value c = (let n = (of_char c :: nat) in
     if 48 \<le> n \<and> n \<le> 57 then Some (n - 48) else if 65 \<le> n \<and> n \<le> 70 then Some (n - 55)
     else if 97 \<le> n \<and> n \<le> 102 then Some (n - 87) else None)"

definition js_radix :: "nat \<Rightarrow> string \<Rightarrow> rat option" where
  "js_radix b ds = (if ds \<noteq> [] \<and> list_all (\<lambda>c. case hex_value c of None \<Rightarrow> False | Some d \<Rightarrow> d < b) ds
     then Some (of_nat (foldl (\<lambda>n c. b * n + the (hex_value c)) 0 ds)) else None)"

definition js_number_of_string :: "string \<Rightarrow> rat option" where
  "js_number_of_string s =
     (let t = js_trim s; p = js_lower (take 2 t) in
      if t = [] then Some 0
      else if p = ''0x'' then js_radix 16 (drop 2 t)
      else if p = ''0o'' then js_radix 8 (drop 2 t)
      else if p = ''0b'' then js_radix 2 (drop 2 t)
      else js_decimal t)"

text \<open>\<open>Number(v)\<close>; an array goes through its text.\<close>

definition js_number :: "js_format \<Rightarrow> json \<Rightarrow> rat option" where
  "js_number F v = (case v of
      JNull \<Rightarrow> Some 0
    | JBool b \<Rightarrow> Some (if b then 1 else 0)
    | JNum q \<Rightarrow> Some q
    | JDate d \<Rightarrow> Some (of_int d)
    | JObj _ \<Rightarrow> None
    | _ \<Rightarrow> js_number_of_string (js_text F v))"

section \<open>Validation\<close>

text \<open>\<open>out[key] = v\<close>.\<close>

fun js_set :: "string \<Rightarrow> json \<Rightarrow> (string \<times> json) list \<Rightarrow> (string \<times> json) list" where
  "js_set k v [] = [(k, v)]"
| "js_set k v (p # ps) = (if fst p = k then (k, v) # ps else p # js_set k v ps)"

lemma map_of_js_set [simp]: "map_of (js_set k v kvs) = (map_of kvs)(k \<mapsto> v)"
  by (induction kvs) (auto simp: fun_eq_iff)

text \<open>\<open>{ ...a, ...b }\<close>.\<close>

definition js_spread :: "(string \<times> json) list \<Rightarrow> (string \<times> json) list \<Rightarrow> (string \<times> json) list" where
  "js_spread a b = fold (\<lambda>(k, v). js_set k v) b a"

definition provided :: "json option \<Rightarrow> bool" where
  "provided raw \<longleftrightarrow> raw \<noteq> None \<and> raw \<noteq> Some JNull \<and> raw \<noteq> Some (JStr [])"

definition iso_date :: "string \<Rightarrow> bool" where
  "iso_date s \<longleftrightarrow> length s = 10 \<and> list_all js_digit (take 4 s @ take 2 (drop 5 s) @ drop 8 s) \<and>
     s ! 4 = CHR ''-'' \<and> s ! 7 = CHR ''-''"

definition field_error :: "custom_field_def \<Rightarrow> string \<Rightarrow> error" where
  "field_error d what = Failure (''Custom field '' @ [CHR 0x22] @ cf_label d @ [CHR 0x22] @ what)"

text \<open>The switch on the field's type.\<close>

definition coerce :: "js_format \<Rightarrow> custom_field_def \<Rightarrow> json \<Rightarrow> error + json" where
  "coerce F d raw = (case cf_field_type d of
      Cf_Number \<Rightarrow> (case js_number F raw of None \<Rightarrow> Inl (field_error d '' must be a number'') | Some q \<Rightarrow> Inr (JNum q))
    | Cf_Checkbox \<Rightarrow> Inr (JBool (raw = JBool True \<or> raw = JStr ''true'' \<or> raw = JNum 1 \<or> raw = JStr ''1''))
    | Cf_Dropdown \<Rightarrow> (let value = js_text F raw in
        if value \<in> set (cf_options d) then Inr (JStr value)
        else Inl (field_error d ('' must be one of: '' @ js_join '', '' (cf_options d))))
    | Cf_Date \<Rightarrow> (let value = js_text F raw in
        if iso_date value then Inr (JStr value) else Inl (field_error d '' must be a date (YYYY-MM-DD)''))
    | Cf_Text \<Rightarrow> Inr (JStr (js_text F raw)))"

fun validate_defs ::
  "js_format \<Rightarrow> custom_field_def list \<Rightarrow> (string \<times> json) list \<Rightarrow> (string \<times> json) list \<Rightarrow> error + (string \<times> json) list" where
  "validate_defs F [] vals out = Inr out"
| "validate_defs F (d # ds) vals out =
     (let raw = map_of vals (cf_key d) in
      if \<not> provided raw
      then if cf_is_required d then Inl (field_error d '' is required'') else validate_defs F ds vals out
      else case coerce F d (the raw) of
             Inl e \<Rightarrow> Inl e
           | Inr v \<Rightarrow> validate_defs F ds vals (js_set (cf_key d) v out))"

definition validateCustomFields ::
  "js_format \<Rightarrow> custom_field_def list \<Rightarrow> (string \<times> json) list option \<Rightarrow> error + (string \<times> json) list" where
  "validateCustomFields F defs submitted =
     validate_defs F (filter cf_is_active defs) (case submitted of None \<Rightarrow> [] | Some v \<Rightarrow> v) []"

section \<open>The definitions of a tenant\<close>

definition loadDefs :: "query_runner \<Rightarrow> ('s ticketing_scheme, custom_field_def list) tx" where
  "loadDefs qr = tx_bind (sql_select custom_field_defs qr (\<lambda>_. True))
     (\<lambda>rows. tx_return (order_by (\<lambda>d. (cf_position d, cf_created_at d)) rows))"

definition custom_fields_list :: "uuid \<Rightarrow> ('s ticketing_scheme, custom_field_def list) act" where
  "custom_fields_list tenantId = withTenantContext tenantId loadDefs"

record CreateCustomField =
  ccf_key :: string
  ccf_label :: string
  ccf_fieldType :: custom_field_type
  ccf_options :: "string list option"
  ccf_isRequired :: "bool option"
  ccf_position :: "int option"

definition custom_fields_create :: "uuid \<Rightarrow> CreateCustomField \<Rightarrow> ('s ticketing_scheme, custom_field_def) act" where
  "custom_fields_create tenantId dto =
     (if ccf_fieldType dto = Cf_Dropdown \<and> (ccf_options dto = None \<or> ccf_options dto = Some [])
      then act_throw (BadRequest ''A dropdown custom field needs at least one option'')
      else withTenantContext tenantId (\<lambda>qr.
        tx_bind (sql_first custom_field_defs qr (\<lambda>d. cf_key d = ccf_key dto)) (\<lambda>existing.
          if existing \<noteq> None then tx_throw (BadRequest (''A custom field with key '' @ ccf_key dto @ '' already exists''))
          else tx_bind gen_random_uuid (\<lambda>i. tx_bind sql_now (\<lambda>now.
            sql_insert custom_field_defs_update qr
              \<lparr>row_id = i, tenant_id = tenantId, cf_key = ccf_key dto, cf_label = ccf_label dto, cf_field_type = ccf_fieldType dto,
               cf_options = (case ccf_options dto of None \<Rightarrow> [] | Some os \<Rightarrow> os),
               cf_is_required = (case ccf_isRequired dto of None \<Rightarrow> False | Some b \<Rightarrow> b), cf_is_active = True,
               cf_position = (case ccf_position dto of None \<Rightarrow> 0 | Some n \<Rightarrow> n), cf_created_at = now, cf_updated_at = now\<rparr>)))))"

record UpdateCustomField =
  ucf_label :: "string option option"
  ucf_options :: "string list option option"
  ucf_isRequired :: "bool option option"
  ucf_isActive :: "bool option option"
  ucf_position :: "int option option"

definition custom_fields_update :: "uuid \<Rightarrow> uuid \<Rightarrow> UpdateCustomField \<Rightarrow> ('s ticketing_scheme, custom_field_def) act" where
  "custom_fields_update tenantId i dto = withTenantContext tenantId (\<lambda>qr.
     let sets = set_required (ucf_label dto) (\<lambda>v d. d\<lparr>cf_label := v\<rparr>) @
                set_required (ucf_options dto) (\<lambda>v d. d\<lparr>cf_options := v\<rparr>) @
                set_required (ucf_isRequired dto) (\<lambda>v d. d\<lparr>cf_is_required := v\<rparr>) @
                set_required (ucf_isActive dto) (\<lambda>v d. d\<lparr>cf_is_active := v\<rparr>) @
                set_required (ucf_position dto) (\<lambda>v d. d\<lparr>cf_position := v\<rparr>)
     in if sets = [] then find_row ''Custom field'' custom_field_defs qr i
        else tx_bind sql_now (\<lambda>now.
             tx_bind (sql_patch custom_field_defs custom_field_defs_update qr (by_id i) (sets @ [Some (\<lambda>d. d\<lparr>cf_updated_at := now\<rparr>)]))
               (first_row ''Custom field'' i)))"

definition custom_fields_remove :: "uuid \<Rightarrow> uuid \<Rightarrow> ('s ticketing_scheme, unit) act" where
  "custom_fields_remove tenantId i = withTenantContext tenantId (\<lambda>qr.
     remove_row ''Custom field'' custom_field_defs custom_field_defs_update qr i)"

text \<open>A tenant's keys stay distinct: what the validation relies on.\<close>

definition keys_distinct :: "'s ticketing_scheme \<Rightarrow> bool" where
  "keys_distinct s \<longleftrightarrow> (\<forall>t. distinct (map cf_key (visible t (custom_field_defs s))))"

lemma loadDefs_distinct:
  assumes "keys_distinct s" and "loadDefs qr s = Inr (defs, t)"
  shows "distinct (map cf_key defs) \<and> t = s"
proof -
  let ?k = "\<lambda>d. (cf_position d, cf_created_at d)" and ?rows = "visible qr (custom_field_defs s)"
  have "mset (map cf_key (sort_key ?k ?rows)) = mset (map cf_key ?rows)" by simp
  then have "distinct (map cf_key (sort_key ?k ?rows)) = distinct (map cf_key ?rows)" by (rule mset_eq_imp_distinct_iff)
  with assms show ?thesis by (auto simp: loadDefs_def sql_select_def tx_bind_def order_by_def keys_distinct_def)
qed

section \<open>What a validated map is\<close>

text \<open>The value the field's type asks for.\<close>

definition fits :: "custom_field_def \<Rightarrow> json \<Rightarrow> bool" where
  "fits d v = (case cf_field_type d of
      Cf_Number \<Rightarrow> (\<exists>q. v = JNum q)
    | Cf_Checkbox \<Rightarrow> (\<exists>b. v = JBool b)
    | Cf_Dropdown \<Rightarrow> (\<exists>s \<in> set (cf_options d). v = JStr s)
    | Cf_Date \<Rightarrow> (\<exists>s. iso_date s \<and> v = JStr s)
    | Cf_Text \<Rightarrow> (\<exists>s. v = JStr s))"

lemma coerce_fits: "coerce F d raw = Inr v \<Longrightarrow> fits d v"
  by (auto simp: coerce_def fits_def Let_def split: custom_field_type.splits option.splits if_splits)

text \<open>What a definition contributes to the result.\<close>

definition field_result :: "js_format \<Rightarrow> (string \<times> json) list \<Rightarrow> custom_field_def \<Rightarrow> json option" where
  "field_result F vals d = (let raw = map_of vals (cf_key d) in
     if provided raw then (case coerce F d (the raw) of Inl _ \<Rightarrow> None | Inr v \<Rightarrow> Some v) else None)"

lemma validate_defs_map:
  assumes "validate_defs F ds vals out = Inr r" and "distinct (map cf_key ds)"
  shows "map_of r k = (case first_of (filter (\<lambda>d. cf_key d = k) ds) of
      None \<Rightarrow> map_of out k
    | Some d \<Rightarrow> coalesce (field_result F vals d) (map_of out k))"
  using assms
proof (induction F ds vals out rule: validate_defs.induct)
  case (1 F vals out)
  then show ?case by simp
next
  case (2 F d ds vals out)
  have none: "filter (\<lambda>e. cf_key e = cf_key d) ds = []"
    using 2(4) by (auto simp: filter_empty_conv image_iff)
  consider (skip) "\<not> provided (map_of vals (cf_key d))" "validate_defs F ds vals out = Inr r"
    | (set) v where "provided (map_of vals (cf_key d))" "coerce F d (the (map_of vals (cf_key d))) = Inr v"
        "validate_defs F ds vals (js_set (cf_key d) v out) = Inr r"
    using 2(3) by (auto simp: Let_def split: if_splits sum.splits)
  then show ?case
  proof cases
    case skip
    with 2(1) [OF refl skip(1)] 2(3,4) none show ?thesis
      by (auto simp: field_result_def Let_def split: if_splits)
  next
    case set
    from 2(2) [OF refl _ set(2) set(3)] set(1) 2(4) none set(2) show ?thesis
      by (auto simp: field_result_def Let_def split: option.splits)
  qed
qed

lemma validate_defs_required:
  assumes "validate_defs F ds vals out = Inr r" and "d \<in> set ds"
  shows "(cf_is_required d \<longrightarrow> provided (map_of vals (cf_key d))) \<and>
    (provided (map_of vals (cf_key d)) \<longrightarrow> (\<exists>v. coerce F d (the (map_of vals (cf_key d))) = Inr v))"
  using assms
  by (induction F ds vals out rule: validate_defs.induct) (auto simp: Let_def split: if_splits sum.splits)

lemma validate_defs_total:
  assumes "\<And>d. d \<in> set ds \<Longrightarrow> (cf_is_required d \<longrightarrow> provided (map_of vals (cf_key d))) \<and>
    (provided (map_of vals (cf_key d)) \<longrightarrow> (\<exists>v. coerce F d (the (map_of vals (cf_key d))) = Inr v))"
  shows "\<exists>r. validate_defs F ds vals out = Inr r"
  using assms
  by (induction F ds vals out rule: validate_defs.induct) (fastforce simp: Let_def split: sum.splits)+

lemma first_of_active:
  assumes "distinct (map cf_key defs)" and "d \<in> set defs" and "cf_is_active d"
  shows "first_of (filter (\<lambda>e. cf_key e = cf_key d) (filter cf_is_active defs)) = Some d"
proof -
  have "\<And>e. e \<in> set defs \<Longrightarrow> cf_key e = cf_key d \<Longrightarrow> e = d"
    using assms(1,2) by (auto simp: distinct_map inj_on_def)
  moreover obtain x where x: "first_of (filter (\<lambda>e. cf_key e = cf_key d) (filter cf_is_active defs)) = Some x"
    using assms(2,3) by (cases "filter (\<lambda>e. cf_key e = cf_key d) (filter cf_is_active defs)") (auto simp: filter_empty_conv)
  ultimately show ?thesis using first_of_filter_SomeD [OF x] by auto
qed

text \<open>
  What the validation accepts is well typed and complete: every stored key is the key of an
  active definition and its value has that definition's type (a dropdown's value is one of the
  options, a date has the form YYYY-MM-DD), and every required active field has a value.
\<close>

theorem validateCustomFields_sound:
  assumes "validateCustomFields F defs submitted = Inr r" and "distinct (map cf_key defs)"
  shows "(\<forall>k v. map_of r k = Some v \<longrightarrow> (\<exists>d \<in> set defs. cf_is_active d \<and> cf_key d = k \<and> fits d v)) \<and>
    (\<forall>d \<in> set defs. cf_is_active d \<and> cf_is_required d \<longrightarrow> (\<exists>v. map_of r (cf_key d) = Some v \<and> fits d v))"
proof -
  let ?ds = "filter cf_is_active defs" and ?vals = "case submitted of None \<Rightarrow> [] | Some v \<Rightarrow> v"
  have run: "validate_defs F ?ds ?vals [] = Inr r" using assms(1) by (simp add: validateCustomFields_def)
  have dist: "distinct (map cf_key ?ds)" using assms(2) by (simp add: distinct_map_filter)
  note m = validate_defs_map [OF run dist]
  have "\<exists>d \<in> set defs. cf_is_active d \<and> cf_key d = k \<and> fits d v" if kv: "map_of r k = Some v" for k v
  proof -
    obtain d where d: "first_of (filter (\<lambda>d. cf_key d = k) ?ds) = Some d" "field_result F ?vals d = Some v"
      using kv m [of k]
      by (cases "first_of (filter (\<lambda>d. cf_key d = k) ?ds)") (auto split: option.splits simp: coalesce_def simp del: filter_filter)
    then have "fits d v" by (auto simp: field_result_def Let_def coerce_fits split: if_splits sum.splits)
    with first_of_filter_SomeD [OF d(1)] show ?thesis by auto
  qed
  moreover have "\<exists>v. map_of r (cf_key d) = Some v \<and> fits d v" if d: "d \<in> set defs" "cf_is_active d" "cf_is_required d" for d
  proof -
    have "d \<in> set ?ds" using d by simp
    from validate_defs_required [OF run this] d(3) obtain v where "field_result F ?vals d = Some v" "fits d v"
      by (auto simp: field_result_def Let_def coerce_fits)
    with m [of "cf_key d"] first_of_active [OF assms(2) d(1,2)] show ?thesis by auto
  qed
  ultimately show ?thesis by blast
qed

definition severity_def :: custom_field_def where
  "severity_def = \<lparr>row_id = 1, tenant_id = 1, cf_key = ''sev'', cf_label = ''Severity'', cf_field_type = Cf_Dropdown,
     cf_options = [''low'', ''high''], cf_is_required = True, cf_is_active = True, cf_position = 0, cf_created_at = 0, cf_updated_at = 0\<rparr>"

theorem validateCustomFields_sound_witness:
  "\<exists>r. validateCustomFields plain_format [severity_def] (Some [(''sev'', JStr ''high''), (''x'', JBool True)]) = Inr r \<and>
     (\<exists>v. map_of r (cf_key severity_def) = Some v \<and> fits severity_def v)"
proof -
  have run: "validateCustomFields plain_format [severity_def] (Some [(''sev'', JStr ''high''), (''x'', JBool True)]) = Inr [(''sev'', JStr ''high'')]"
    by (simp add: validateCustomFields_def severity_def_def provided_def coerce_def)
  have "distinct (map cf_key [severity_def])" by simp
  from validateCustomFields_sound [OF run this] run show ?thesis by (auto simp: severity_def_def)
qed

text \<open>A value of the field's type is accepted as it is.\<close>

definition scalar_values :: "(string \<times> json) list \<Rightarrow> bool" where
  "scalar_values vals \<longleftrightarrow> list_all (\<lambda>(k, v). case v of JArr _ \<Rightarrow> False | JObj _ \<Rightarrow> False | JId _ \<Rightarrow> False | JDate _ \<Rightarrow> False | _ \<Rightarrow> True) vals"

text \<open>How the engine prints fractions: never as the empty string.\<close>

definition prints_numbers :: "js_format \<Rightarrow> bool" where
  "prints_numbers F \<longleftrightarrow> (\<forall>q. fmt_number F q \<noteq> [])"

lemma js_text_scalar_nonempty:
  assumes "prints_numbers F" and "provided (Some v)" and "case v of JArr _ \<Rightarrow> False | JObj _ \<Rightarrow> False | JId _ \<Rightarrow> False | JDate _ \<Rightarrow> False | _ \<Rightarrow> True"
  shows "js_text F v \<noteq> []"
  using assms by (cases v) (auto simp: provided_def prints_numbers_def js_number_text_def int_text_def)

lemma coerce_idem:
  assumes "coerce F d raw = Inr v" and "js_text F raw \<noteq> []"
  shows "provided (Some v) \<and> coerce F d v = Inr v"
  using assms
  by (auto simp: coerce_def provided_def Let_def js_number_def split: custom_field_type.splits option.splits if_splits)

text \<open>
  Re-validating what is stored changes nothing: the ticket update merges the stored map with the
  submitted keys and validates the whole again, so a map the validation returned (from scalar
  values) must be accepted unchanged.
\<close>

theorem validateCustomFields_idempotent:
  assumes "validateCustomFields F defs (Some vals) = Inr r" and "distinct (map cf_key defs)"
    and "scalar_values vals" and "prints_numbers F"
  shows "\<exists>r'. validateCustomFields F defs (Some r) = Inr r' \<and> map_of r' = map_of r"
proof -
  let ?ds = "filter cf_is_active defs"
  have run: "validate_defs F ?ds vals [] = Inr r" using assms(1) by (simp add: validateCustomFields_def)
  have dist: "distinct (map cf_key ?ds)" using assms(2) by (simp add: distinct_map_filter)
  have nonempty: "js_text F v \<noteq> []" if "map_of vals k = Some v" "provided (Some v)" for k v
    using that assms(3,4) by (intro js_text_scalar_nonempty) (auto simp: scalar_values_def list_all_iff dest!: map_of_SomeD)
  have res: "map_of r (cf_key d) = field_result F vals d" if "d \<in> set ?ds" for d
    using validate_defs_map [OF run dist, of "cf_key d"] first_of_active [OF assms(2), of d] that
    by (cases "field_result F vals d") auto
  have stored: "provided (Some v) \<and> coerce F d v = Inr v" if "d \<in> set ?ds" "map_of r (cf_key d) = Some v" for d v
  proof -
    have "field_result F vals d = Some v" using that res by simp
    then obtain raw where raw: "map_of vals (cf_key d) = Some raw" "provided (Some raw)" "coerce F d raw = Inr v"
      by (auto simp: field_result_def Let_def provided_def split: if_splits sum.splits)
    with nonempty [of "cf_key d" raw] show ?thesis by (intro coerce_idem) simp_all
  qed
  have keeps: "field_result F r d = map_of r (cf_key d)" if "d \<in> set ?ds" for d
  proof (cases "map_of r (cf_key d)")
    case None
    then show ?thesis by (simp add: field_result_def provided_def)
  next
    case (Some v)
    with stored [OF that Some] show ?thesis by (simp add: field_result_def)
  qed
  have "\<exists>r'. validate_defs F ?ds r [] = Inr r'"
  proof (rule validate_defs_total)
    fix d
    assume d: "d \<in> set ?ds"
    have "cf_is_required d \<Longrightarrow> field_result F vals d \<noteq> None"
      using validate_defs_required [OF run d] by (auto simp: field_result_def Let_def)
    then show "(cf_is_required d \<longrightarrow> provided (map_of r (cf_key d))) \<and>
      (provided (map_of r (cf_key d)) \<longrightarrow> (\<exists>v. coerce F d (the (map_of r (cf_key d))) = Inr v))"
      using res [OF d] stored [OF d] by (cases "map_of r (cf_key d)") (auto simp: provided_def)
  qed
  then obtain r' where run': "validate_defs F ?ds r [] = Inr r'" by auto
  have "map_of r' k = map_of r k" for k
  proof (cases "first_of (filter (\<lambda>d. cf_key d = k) ?ds)")
    case None
    then show ?thesis using validate_defs_map [OF run dist, of k] validate_defs_map [OF run' dist, of k] by simp
  next
    case (Some d)
    from first_of_filter_SomeD [OF Some] have "d \<in> set ?ds" "cf_key d = k" by auto
    with keeps [of d] Some validate_defs_map [OF run' dist, of k] show ?thesis
      by (cases "map_of r k") auto
  qed
  then show ?thesis using run' by (auto simp: validateCustomFields_def)
qed

theorem validateCustomFields_idempotent_witness:
  "\<exists>r'. validateCustomFields plain_format [severity_def] (Some [(''sev'', JStr ''high'')]) = Inr r' \<and> map_of r' = [''sev'' \<mapsto> JStr ''high'']"
proof -
  have run: "validateCustomFields plain_format [severity_def] (Some [(''sev'', JStr ''high''), (''x'', JBool True)]) = Inr [(''sev'', JStr ''high'')]"
    by (simp add: validateCustomFields_def severity_def_def provided_def coerce_def)
  from validateCustomFields_idempotent [OF run] show ?thesis
    by (simp add: scalar_values_def prints_numbers_def plain_format_def)
qed

section \<open>The invariant of the definitions\<close>

lemma visible_other_tenant: "others qr a = others qr b \<Longrightarrow> t \<noteq> qr \<Longrightarrow> visible t a = visible t b"
proof -
  assume o: "others qr a = others qr b" and ne: "t \<noteq> qr"
  have "visible t rs = filter (tenant_isolation t) (others qr rs)" for rs :: "'a row_scheme list"
    using ne by (auto simp: visible_def others_def tenant_isolation_def intro!: filter_cong)
  with o show ?thesis by metis
qed

lemma loadDefs_frame [frame_intros]: "tx_rel (ticketing_frame qr) (loadDefs qr)"
  unfolding loadDefs_def by (intro frame_intros)

lemma custom_fields_frames [frame_intros]:
  "act_rel (ticketing_frame t) (custom_fields_list t)"
  "act_rel (ticketing_frame t) (custom_fields_create t c)"
  "act_rel (ticketing_frame t) (custom_fields_update t i u)"
  "act_rel (ticketing_frame t) (custom_fields_remove t i)"
  unfolding custom_fields_list_def custom_fields_create_def custom_fields_update_def custom_fields_remove_def
  by (intro frame_intros)+

end
