(* ===== verification/Tickets.thy ===== *)
theory Tickets
  imports Ticket_Support Assignment Custom_Fields
begin

text \<open>
  The ticket service (\<open>tickets.service.ts\<close>): one definition per method and per helper of the module.
  What the code does after the transaction (mail to the assigned agent, to the requester, to the
  watchers, a draft for the knowledge base) is part of the method; the two calls it starts without
  waiting for them, triage and sentiment detection, are not: they are separate services.

  \<open>F\<close> is how the engine prints values, \<open>I\<close> the time zone database and \<open>H\<close> the HTML library.
\<close>

section \<open>Helpers\<close>

definition assertBelongsToTenant ::
  "js_format \<Rightarrow> ('s \<Rightarrow> 'r row_scheme list) \<Rightarrow> query_runner \<Rightarrow> uuid \<Rightarrow> string \<Rightarrow> ('s, unit) tx" where
  "assertBelongsToTenant F tbl qr i label =
     tx_bind (sql_first tbl qr (by_id i)) (\<lambda>row.
       if row = None then tx_throw (BadRequest (label @ '' '' @ fmt_uuid F i @ '' not found for this tenant''))
       else tx_return ())"

text \<open>The same for a field that may be absent: \<open>if (id) await assertBelongsToTenant(\<dots>)\<close>.\<close>

definition assert_optional ::
  "js_format \<Rightarrow> ('s \<Rightarrow> 'r row_scheme list) \<Rightarrow> query_runner \<Rightarrow> uuid option \<Rightarrow> string \<Rightarrow> ('s, unit) tx" where
  "assert_optional F tbl qr i label = (case i of None \<Rightarrow> tx_return () | Some j \<Rightarrow> assertBelongsToTenant F tbl qr j label)"

record InlineContact =
  ic_name :: string
  ic_email :: string

definition upsertContactByEmail :: "query_runner \<Rightarrow> uuid \<Rightarrow> InlineContact \<Rightarrow> ('s ticketing_scheme, uuid) tx" where
  "upsertContactByEmail qr tenantId contact =
     tx_bind (sql_first contacts qr (\<lambda>c. ct_email c = Some (ic_email contact))) (\<lambda>existing. case existing of
        Some c \<Rightarrow> tx_return (row_id c)
      | None \<Rightarrow> tx_bind gen_random_uuid (\<lambda>i.
          tx_bind (sql_insert contacts_update qr
            \<lparr>row_id = i, tenant_id = tenantId, ct_company_id = None, ct_name = ic_name contact,
             ct_email = Some (ic_email contact), ct_phone = None, ct_social_handles = JObj [],
             ct_password_hash = None, ct_oauth_provider = None, ct_email_valid = True\<rparr>) (\<lambda>created.
          tx_return (row_id created))))"

text \<open>\<open>INSERT \<dots> ON CONFLICT (tenant_id) DO UPDATE \<dots> RETURNING next_value - 1\<close>.\<close>

definition nextTicketNumber :: "query_runner \<Rightarrow> uuid \<Rightarrow> ('s ticketing_scheme, nat) tx" where
  "nextTicketNumber qr tenantId =
     tx_bind (sql_first number_counters qr (\<lambda>c. tenant_id c = tenantId)) (\<lambda>row. case row of
        None \<Rightarrow> tx_bind (sql_insert number_counters_update qr \<lparr>row_id = tenantId, tenant_id = tenantId, nc_next_value = 2\<rparr>)
                  (\<lambda>r. tx_return (nc_next_value r - 1))
      | Some c \<Rightarrow> tx_bind (sql_update number_counters number_counters_update qr (\<lambda>c. tenant_id c = tenantId)
                    (\<lambda>c. c\<lparr>nc_next_value := nc_next_value c + 1\<rparr>))
                  (\<lambda>rows. tx_return (nc_next_value (hd rows) - 1)))"

definition fetchSlaPolicy :: "query_runner \<Rightarrow> uuid option \<Rightarrow> ('s ticketing_scheme, SlaTargets option) tx" where
  "fetchSlaPolicy qr slaPolicyId = (case slaPolicyId of
      None \<Rightarrow> tx_return None
    | Some i \<Rightarrow> tx_bind (sql_first sla_policies qr (by_id i)) (\<lambda>policy.
        tx_return (map_option (\<lambda>p. \<lparr>first_response_target_minutes = sp_first_response_target_minutes p,
          resolution_target_minutes = sp_resolution_target_minutes p, business_hours_only = sp_business_hours_only p\<rparr>) policy)))"

definition fetchBusinessHours :: "uuid \<Rightarrow> ('s ticketing_scheme, BusinessHours option) tx" where
  "fetchBusinessHours tenantId = tx_gets (\<lambda>s. map_option hours_of (first_of (filter (\<lambda>t. tn_id t = tenantId) (tenants s))))"

text \<open>\<open>slaPolicy?.business_hours_only ? await fetchBusinessHours(\<dots>) : null\<close>.\<close>

definition hours_for :: "uuid \<Rightarrow> SlaTargets option \<Rightarrow> ('s ticketing_scheme, BusinessHours option) tx" where
  "hours_for tenantId policy = (case policy of
      Some p \<Rightarrow> if business_hours_only p then fetchBusinessHours tenantId else tx_return None
    | None \<Rightarrow> tx_return None)"

text \<open>A computation that raises aborts the transaction; one that does not return never commits it.\<close>

definition no_return :: error where
  "no_return = Failure ''no return''"

definition tx_lift :: "(error + 'a) option \<Rightarrow> ('s, 'a) tx" where
  "tx_lift v = (case v of None \<Rightarrow> tx_throw no_return | Some (Inl e) \<Rightarrow> tx_throw e | Some (Inr x) \<Rightarrow> tx_return x)"

text \<open>\<open>try { validateCustomFields(\<dots>) } catch (err) { throw new BadRequestException(err.message) }\<close>.\<close>

definition checked_fields ::
  "js_format \<Rightarrow> custom_field_def list \<Rightarrow> (string \<times> json) list option \<Rightarrow> ('s, (string \<times> json) list) tx" where
  "checked_fields F defs submitted = (case validateCustomFields F defs submitted of
      Inl (Failure m) \<Rightarrow> tx_throw (BadRequest m)
    | Inl e \<Rightarrow> tx_throw e
    | Inr v \<Rightarrow> tx_return v)"

section \<open>Creating\<close>

record CreateTicket =
  nt_subject :: string
  nt_contactId :: "uuid option"
  nt_contact :: "InlineContact option"
  nt_source :: ticket_source
  nt_sourceDetail :: "string option"
  nt_ticketTypeId :: "uuid option"
  nt_groupId :: "uuid option"
  nt_agentId :: "uuid option"
  nt_requiredSkill :: "string option"
  nt_resourceId :: "uuid option"
  nt_priority :: "ticket_priority option"
  nt_platform :: "ticket_platform option"
  nt_tags :: "string list option"
  nt_customFields :: "(string \<times> json) list option"

definition resolve_contact :: "js_format \<Rightarrow> query_runner \<Rightarrow> uuid \<Rightarrow> CreateTicket \<Rightarrow> ('s ticketing_scheme, uuid) tx" where
  "resolve_contact F qr tenantId dto = (case nt_contactId dto of
      Some c \<Rightarrow> tx_bind (assertBelongsToTenant F contacts qr c ''contact'') (\<lambda>_. tx_return c)
    | None \<Rightarrow> upsertContactByEmail qr tenantId (the (nt_contact dto)))"

text \<open>The group and the SLA policy: the type's defaults, the group of the request first.\<close>

definition resolve_type :: "js_format \<Rightarrow> query_runner \<Rightarrow> CreateTicket \<Rightarrow> ('s ticketing_scheme, uuid option \<times> uuid option) tx" where
  "resolve_type F qr dto = (case nt_ticketTypeId dto of
      None \<Rightarrow> tx_return (nt_groupId dto, None)
    | Some i \<Rightarrow>
        tx_bind (assertBelongsToTenant F ticket_types qr i ''ticket type'') (\<lambda>_.
        tx_bind (sql_first ticket_types qr (by_id i)) (\<lambda>ty.
          tx_return (coalesce (nt_groupId dto) (Option.bind ty tt_default_group_id), Option.bind ty tt_default_sla_policy_id))))"

definition new_ticket ::
  "uuid \<Rightarrow> uuid \<Rightarrow> CreateTicket \<Rightarrow> nat \<Rightarrow> uuid \<Rightarrow> uuid option \<Rightarrow> uuid option \<Rightarrow> uuid option \<Rightarrow> SlaDueDates \<Rightarrow> msec \<Rightarrow>
     (string \<times> json) list \<Rightarrow> ticket" where
  "new_ticket i tenantId dto number contactId groupId agentId slaPolicyId dueDates createdAt customFields =
     \<lparr>row_id = i, tenant_id = tenantId, tk_ticket_number = number, tk_legacy_ticket_number = None, tk_subject = nt_subject dto,
      tk_contact_id = contactId, tk_ticket_type_id = nt_ticketTypeId dto, tk_status = New,
      tk_priority = (case nt_priority dto of None \<Rightarrow> Medium | Some p \<Rightarrow> p), tk_group_id = groupId, tk_agent_id = agentId,
      tk_resource_id = nt_resourceId dto, tk_sla_policy_id = slaPolicyId,
      tk_first_response_due_at = firstResponseDueAt dueDates, tk_first_response_at = None,
      tk_resolution_due_at = resolutionDueAt dueDates, tk_resolved_at = None,
      tk_first_response_overdue_notified_at = None, tk_resolution_overdue_notified_at = None,
      tk_source = nt_source dto, tk_source_detail = nt_sourceDetail dto, tk_platform = nt_platform dto,
      tk_tags = (case nt_tags dto of None \<Rightarrow> [] | Some ts \<Rightarrow> ts), tk_custom_fields = customFields,
      tk_merged_into_id = None, tk_required_skill = nt_requiredSkill dto, tk_created_at = createdAt, tk_updated_at = createdAt\<rparr>"

definition create_body ::
  "js_format \<Rightarrow> intl \<Rightarrow> uuid \<Rightarrow> CreateTicket \<Rightarrow> query_runner \<Rightarrow> ('s ticketing_scheme, ticket) tx" where
  "create_body F I tenantId dto qr =
     tx_bind (resolve_contact F qr tenantId dto) (\<lambda>contactId.
     tx_bind (resolve_type F qr dto) (\<lambda>(groupId, slaPolicyId).
     tx_bind (assert_optional F groups qr groupId ''group'') (\<lambda>_.
     tx_bind (assert_optional F agents qr (nt_agentId dto) ''agent'') (\<lambda>_.
     tx_bind (assert_optional F resources qr (nt_resourceId dto) ''resource'') (\<lambda>_.
     tx_bind (fetchSlaPolicy qr slaPolicyId) (\<lambda>slaPolicy.
     tx_bind (hours_for tenantId slaPolicy) (\<lambda>businessHours.
     tx_bind (nextTicketNumber qr tenantId) (\<lambda>ticketNumber.
     tx_bind sql_now (\<lambda>createdAt.
     tx_bind (tx_lift (calculateDueDates I createdAt slaPolicy businessHours)) (\<lambda>dueDates.
     tx_bind (loadDefs qr) (\<lambda>customFieldDefs.
     tx_bind (checked_fields F customFieldDefs (nt_customFields dto)) (\<lambda>customFields.
     tx_bind (case (nt_agentId dto, groupId) of
         (Some a, _) \<Rightarrow> tx_return (Some a)
       | (None, Some g) \<Rightarrow> pickAssignee qr tenantId g (nt_requiredSkill dto)
       | (None, None) \<Rightarrow> tx_return None) (\<lambda>agentId.
     tx_bind gen_random_uuid (\<lambda>i.
     tx_bind (sql_insert tickets_update qr
       (new_ticket i tenantId dto ticketNumber contactId groupId agentId slaPolicyId dueDates createdAt customFields)) (\<lambda>ticket.
     runRules F tenantId Ticket_Created ticket qr)))))))))))))))"

definition contact_required :: error where
  "contact_required = BadRequest ''Either contactId or contact { name, email } is required''"

definition tickets_create :: "js_format \<Rightarrow> intl \<Rightarrow> uuid \<Rightarrow> CreateTicket \<Rightarrow> ('s ticketing_scheme, ticket) act" where
  "tickets_create F I tenantId dto =
     (if nt_contactId dto = None \<and> nt_contact dto = None then act_throw contact_required
      else withTenantContext tenantId (create_body F I tenantId dto))"

section \<open>Reading\<close>

record ListTicketsQuery =
  lq_status :: "ticket_status option"
  lq_priority :: "ticket_priority option"
  lq_platform :: "ticket_platform option"
  lq_groupId :: "uuid option"
  lq_agentId :: "uuid option"
  lq_unassigned :: bool
  lq_tag :: "string option"
  lq_overdue :: bool
  lq_createdFrom :: "msec option"
  lq_createdTo :: "msec option"
  lq_resolvedFrom :: "msec option"
  lq_resolvedTo :: "msec option"
  lq_limit :: "nat option"
  lq_offset :: "nat option"

definition ticket_overdue :: "msec \<Rightarrow> ticket \<Rightarrow> bool" where
  "ticket_overdue now t \<longleftrightarrow> \<not> closing (tk_status t) \<and>
     ((\<exists>d. tk_first_response_due_at t = Some d \<and> tk_first_response_at t = None \<and> d < now) \<or>
      (\<exists>d. tk_resolution_due_at t = Some d \<and> tk_resolved_at t = None \<and> d < now))"

text \<open>An absent filter lets everything through; an empty tag is no filter.\<close>

definition opt_filter :: "'v option \<Rightarrow> ('v \<Rightarrow> bool) \<Rightarrow> bool" where
  "opt_filter v P = (case v of None \<Rightarrow> True | Some x \<Rightarrow> P x)"

definition list_where :: "ListTicketsQuery \<Rightarrow> msec \<Rightarrow> ticket \<Rightarrow> bool" where
  "list_where q now t \<longleftrightarrow>
     opt_filter (lq_status q) (\<lambda>v. tk_status t = v) \<and>
     opt_filter (lq_priority q) (\<lambda>v. tk_priority t = v) \<and>
     opt_filter (lq_platform q) (\<lambda>v. tk_platform t = Some v) \<and>
     opt_filter (lq_groupId q) (\<lambda>v. tk_group_id t = Some v) \<and>
     opt_filter (lq_agentId q) (\<lambda>v. tk_agent_id t = Some v) \<and>
     (lq_unassigned q \<longrightarrow> tk_agent_id t = None) \<and>
     opt_filter (lq_tag q) (\<lambda>v. v = [] \<or> v \<in> set (tk_tags t)) \<and>
     (lq_overdue q \<longrightarrow> ticket_overdue now t) \<and>
     opt_filter (lq_createdFrom q) (\<lambda>v. v \<le> tk_created_at t) \<and>
     opt_filter (lq_createdTo q) (\<lambda>v. tk_created_at t \<le> v) \<and>
     opt_filter (lq_resolvedFrom q) (\<lambda>v. \<exists>r. tk_resolved_at t = Some r \<and> v \<le> r) \<and>
     opt_filter (lq_resolvedTo q) (\<lambda>v. \<exists>r. tk_resolved_at t = Some r \<and> r \<le> v)"

definition tickets_list :: "uuid \<Rightarrow> ListTicketsQuery \<Rightarrow> ('s ticketing_scheme, ticket list \<times> nat) act" where
  "tickets_list tenantId q = withTenantContext tenantId (\<lambda>qr.
     tx_bind sql_now (\<lambda>now.
     tx_bind (sql_select tickets qr (list_where q now)) (\<lambda>rows.
     let limit = (case lq_limit q of None \<Rightarrow> 25 | Some n \<Rightarrow> n); offset = (case lq_offset q of None \<Rightarrow> 0 | Some n \<Rightarrow> n) in
     tx_bind (sql_select tickets qr (list_where q now)) (\<lambda>all.
     tx_return (take limit (drop offset (order_by (\<lambda>t. - int (tk_ticket_number t)) rows)), length all)))))"

definition tickets_get :: "uuid \<Rightarrow> uuid \<Rightarrow> ('s ticketing_scheme, ticket) act" where
  "tickets_get tenantId i = withTenantContext tenantId (\<lambda>qr. find_row ''Ticket'' tickets qr i)"

text \<open>\<open>ticket_number\<close> is an \<open>int\<close> column: a larger parameter is an error of the database.\<close>

definition max_int :: nat where
  "max_int = 2147483647"

definition numeric_value_out_of_range :: error where
  "numeric_value_out_of_range = DbError ''22003''"

definition findByTicketNumber :: "uuid \<Rightarrow> nat \<Rightarrow> ('s ticketing_scheme, ticket option) act" where
  "findByTicketNumber tenantId ticketNumber = withTenantContext tenantId (\<lambda>qr.
     if ticketNumber > max_int then tx_throw numeric_value_out_of_range
     else sql_first tickets qr (\<lambda>t. tk_ticket_number t = ticketNumber))"

definition listMessages :: "uuid \<Rightarrow> uuid \<Rightarrow> ('s ticketing_scheme, ticket_message list) act" where
  "listMessages tenantId ticketId = withTenantContext tenantId (\<lambda>qr.
     tx_bind (find_row ''Ticket'' tickets qr ticketId) (\<lambda>_.
     tx_bind (sql_select ticket_messages qr (\<lambda>m. ms_ticket_id m = ticketId)) (\<lambda>rows. tx_return (order_by ms_created_at rows))))"

definition listActivities :: "uuid \<Rightarrow> uuid \<Rightarrow> ('s ticketing_scheme, ticket_activity list) act" where
  "listActivities tenantId ticketId = withTenantContext tenantId (\<lambda>qr.
     tx_bind (find_row ''Ticket'' tickets qr ticketId) (\<lambda>_.
     tx_bind (sql_select ticket_activities qr (\<lambda>a. ac_ticket_id a = ticketId)) (\<lambda>rows. tx_return (order_by ac_created_at rows))))"

datatype timeline_item = Message ticket_message | Activity ticket_activity | Time_Log ticket_time_log

fun timeline_timestamp :: "timeline_item \<Rightarrow> msec" where
  "timeline_timestamp (Message m) = ms_created_at m"
| "timeline_timestamp (Activity a) = ac_created_at a"
| "timeline_timestamp (Time_Log l) = tl_logged_at l"

definition getTimeline :: "uuid \<Rightarrow> uuid \<Rightarrow> ('s ticketing_scheme, timeline_item list) act" where
  "getTimeline tenantId ticketId = withTenantContext tenantId (\<lambda>qr.
     tx_bind (find_row ''Ticket'' tickets qr ticketId) (\<lambda>_.
     tx_bind (sql_select ticket_messages qr (\<lambda>m. ms_ticket_id m = ticketId)) (\<lambda>messages.
     tx_bind (sql_select ticket_activities qr (\<lambda>a. ac_ticket_id a = ticketId)) (\<lambda>activities.
     tx_bind (sql_select ticket_time_logs qr (\<lambda>l. tl_ticket_id l = ticketId)) (\<lambda>timeLogs.
     tx_return (sort_key timeline_timestamp (map Message messages @ map Activity activities @ map Time_Log timeLogs)))))))"

section \<open>Merging\<close>

definition hash_number :: "nat \<Rightarrow> string" where
  "hash_number n = CHR ''#'' # nat_text n"

definition merge_source ::
  "uuid \<Rightarrow> query_runner \<Rightarrow> ticket \<Rightarrow> uuid \<Rightarrow> nat list \<Rightarrow> ('s ticketing_scheme, nat list) tx" where
  "merge_source tenantId qr primary sourceId mergedNumbers =
     (if sourceId = row_id primary then tx_return mergedNumbers
      else tx_bind (find_row ''Ticket'' tickets qr sourceId) (\<lambda>source.
        if tk_merged_into_id source \<noteq> None then tx_return mergedNumbers
        else tx_bind (sql_update ticket_messages ticket_messages_update qr (\<lambda>m. ms_ticket_id m = sourceId)
               (\<lambda>m. m\<lparr>ms_ticket_id := row_id primary\<rparr>)) (\<lambda>_.
             tx_bind (sql_update ticket_attachments ticket_attachments_update qr (\<lambda>a. at_ticket_id a = sourceId)
               (\<lambda>a. a\<lparr>at_ticket_id := row_id primary\<rparr>)) (\<lambda>_.
             tx_bind sql_now (\<lambda>now.
             tx_bind (sql_update tickets tickets_update qr (by_id sourceId)
               (\<lambda>t. t\<lparr>tk_status := Closed, tk_resolved_at := coalesce (tk_resolved_at t) (Some now),
                      tk_merged_into_id := Some (row_id primary), tk_updated_at := now\<rparr>)) (\<lambda>_.
             tx_bind (insert_message qr tenantId sourceId Note By_System None
               (''This ticket was merged into '' @ hash_number (tk_ticket_number primary) @ ''.'') []) (\<lambda>_.
             tx_return (mergedNumbers @ [tk_ticket_number source])))))))) "

definition tickets_merge :: "uuid \<Rightarrow> uuid \<Rightarrow> uuid list \<Rightarrow> ('s ticketing_scheme, ticket) act" where
  "tickets_merge tenantId primaryId sourceTicketIds = withTenantContext tenantId (\<lambda>qr.
     tx_bind (find_row ''Ticket'' tickets qr primaryId) (\<lambda>primary.
     tx_bind (tx_fold (merge_source tenantId qr primary) sourceTicketIds []) (\<lambda>mergedNumbers.
     tx_bind (if mergedNumbers = [] then tx_return ()
        else tx_bind (insert_message qr tenantId primaryId Note By_System None
               (''Merged in ticket(s): '' @ js_join '', '' (map hash_number mergedNumbers) @ ''.'') []) (\<lambda>_. tx_return ())) (\<lambda>_.
     find_row ''Ticket'' tickets qr primaryId))))"

end
