(* ===== verification/Ticket_Updates.thy ===== *)
theory Ticket_Updates
  imports Tickets
begin

text \<open>
  The rest of the ticket service: updating a ticket, adding a message, and composing an outbound
  ticket. A field of an update is \<open>None\<close> when it is absent, \<open>Some None\<close> when it is \<open>null\<close>.
\<close>

section \<open>Updating\<close>

record UpdateTicket =
  ut_status :: "ticket_status option option"
  ut_priority :: "ticket_priority option option"
  ut_groupId :: "uuid option option"
  ut_agentId :: "uuid option option"
  ut_ticketTypeId :: "uuid option option"
  ut_platform :: "ticket_platform option option"
  ut_tags :: "string list option option"
  ut_customFields :: "(string \<times> json) list option option"

text \<open>\<open>trackChange\<close>: one entry per changed field, in the order of the code.\<close>

type_synonym change = "string \<times> string option \<times> string option"

definition trackChange :: "string \<Rightarrow> ('v \<Rightarrow> string) \<Rightarrow> 'v option \<Rightarrow> 'v option option \<Rightarrow> change list" where
  "trackChange field print old new = (case new of
      None \<Rightarrow> []
    | Some v \<Rightarrow> if old = v then [] else [(field, map_option print old, map_option print v)])"

definition activityChanges :: "js_format \<Rightarrow> ticket \<Rightarrow> UpdateTicket \<Rightarrow> change list" where
  "activityChanges F existing dto =
     trackChange ''status'' status_text (Some (tk_status existing)) (ut_status dto) @
     trackChange ''priority'' priority_text (Some (tk_priority existing)) (ut_priority dto) @
     trackChange ''platform'' platform_text (tk_platform existing) (ut_platform dto) @
     trackChange ''group_id'' (fmt_uuid F) (tk_group_id existing) (ut_groupId dto) @
     trackChange ''agent_id'' (fmt_uuid F) (tk_agent_id existing) (ut_agentId dto) @
     trackChange ''ticket_type_id'' (fmt_uuid F) (tk_ticket_type_id existing) (ut_ticketTypeId dto)"

definition normalize_tags :: "string list \<Rightarrow> string list" where
  "normalize_tags tags = js_unique (filter (\<lambda>t. t \<noteq> []) (map js_trim tags))"

text \<open>The assignments of the columns that need no query.\<close>

definition plain_assignments :: "UpdateTicket \<Rightarrow> msec \<Rightarrow> ticket assignments" where
  "plain_assignments dto now =
     set_required (ut_status dto) (\<lambda>v t. t\<lparr>tk_status := v, tk_resolved_at := (if closing v then Some now else None)\<rparr>) @
     set_required (ut_priority dto) (\<lambda>v t. t\<lparr>tk_priority := v\<rparr>) @
     set_nullable (ut_platform dto) (\<lambda>v t. t\<lparr>tk_platform := v\<rparr>) @
     set_nullable (ut_groupId dto) (\<lambda>v t. t\<lparr>tk_group_id := v\<rparr>) @
     set_nullable (ut_agentId dto) (\<lambda>v t. t\<lparr>tk_agent_id := v\<rparr>)"

text \<open>\<open>dto.tags.map(\<dots>)\<close> on \<open>null\<close> is a \<open>TypeError\<close>.\<close>

definition tag_assignments :: "UpdateTicket \<Rightarrow> ('s, ticket assignments) tx" where
  "tag_assignments dto = (case ut_tags dto of
      None \<Rightarrow> tx_return []
    | Some None \<Rightarrow> tx_throw (Failure ''TypeError'')
    | Some (Some tags) \<Rightarrow> tx_return [Some (\<lambda>t. t\<lparr>tk_tags := normalize_tags tags\<rparr>)])"

definition field_assignments ::
  "js_format \<Rightarrow> query_runner \<Rightarrow> ticket \<Rightarrow> UpdateTicket \<Rightarrow> ('s ticketing_scheme, ticket assignments) tx" where
  "field_assignments F qr existing dto = (case ut_customFields dto of
      None \<Rightarrow> tx_return []
    | Some v \<Rightarrow>
        tx_bind (loadDefs qr) (\<lambda>defs.
        tx_bind (checked_fields F defs (Some (js_spread (tk_custom_fields existing) (case v of None \<Rightarrow> [] | Some kvs \<Rightarrow> kvs)))) (\<lambda>validated.
        tx_return [Some (\<lambda>t. t\<lparr>tk_custom_fields := validated\<rparr>)])))"

text \<open>A new type may bring another SLA policy; the due dates stay anchored at the creation.\<close>

definition type_assignments ::
  "intl \<Rightarrow> query_runner \<Rightarrow> uuid \<Rightarrow> ticket \<Rightarrow> UpdateTicket \<Rightarrow> ('s ticketing_scheme, ticket assignments) tx" where
  "type_assignments I qr tenantId existing dto = (case ut_ticketTypeId dto of
      None \<Rightarrow> tx_return []
    | Some ty \<Rightarrow>
        tx_bind (case ty of None \<Rightarrow> tx_return None | Some i \<Rightarrow> sql_first ticket_types qr (by_id i)) (\<lambda>ticketType.
        let newSlaPolicyId = Option.bind ticketType tt_default_sla_policy_id; base = [Some (\<lambda>t. t\<lparr>tk_ticket_type_id := ty\<rparr>)] in
        if newSlaPolicyId = tk_sla_policy_id existing then tx_return base
        else tx_bind (fetchSlaPolicy qr newSlaPolicyId) (\<lambda>slaPolicy.
             tx_bind (hours_for tenantId slaPolicy) (\<lambda>businessHours.
             tx_bind (tx_lift (calculateDueDates I (tk_created_at existing) slaPolicy businessHours)) (\<lambda>dueDates.
             tx_return (base @ [Some (\<lambda>t. t\<lparr>tk_sla_policy_id := newSlaPolicyId,
               tk_first_response_due_at := firstResponseDueAt dueDates, tk_resolution_due_at := resolutionDueAt dueDates\<rparr>)]))))))"

definition insert_changes :: "query_runner \<Rightarrow> uuid \<Rightarrow> uuid \<Rightarrow> uuid option \<Rightarrow> change list \<Rightarrow> ('s ticketing_scheme, unit) tx" where
  "insert_changes qr tenantId ticketId actor changes =
     tx_fold (\<lambda>c _. insert_activity qr tenantId ticketId (fst c) (fst (snd c)) (snd (snd c)) actor) changes ()"

text \<open>The \<open>UPDATE\<close> with the assignments collected, the activities, and the rules for updates.\<close>

definition write_update ::
  "js_format \<Rightarrow> uuid \<Rightarrow> uuid \<Rightarrow> ticket \<Rightarrow> UpdateTicket \<Rightarrow> uuid option \<Rightarrow> query_runner \<Rightarrow> msec \<Rightarrow> ticket assignments \<Rightarrow>
     ('s ticketing_scheme, ticket) tx" where
  "write_update F tenantId i existing dto actorAgentId qr now sets =
     tx_bind (sql_patch tickets tickets_update qr (by_id i) (sets @ [Some (\<lambda>t. t\<lparr>tk_updated_at := now\<rparr>)])) (\<lambda>rows.
     tx_bind (insert_changes qr tenantId i actorAgentId (activityChanges F existing dto)) (\<lambda>_.
     runRules F tenantId Ticket_Updated (hd rows) qr))"

text \<open>The transaction: the updated ticket, the agent to notify, and whether it was resolved just now.\<close>

definition update_body ::
  "js_format \<Rightarrow> intl \<Rightarrow> uuid \<Rightarrow> uuid \<Rightarrow> UpdateTicket \<Rightarrow> uuid option \<Rightarrow> query_runner \<Rightarrow>
     ('s ticketing_scheme, ticket \<times> uuid option \<times> bool) tx" where
  "update_body F I tenantId i dto actorAgentId qr =
     tx_bind (find_row ''Ticket'' tickets qr i) (\<lambda>existing.
     let assignedAgentId = (case ut_agentId dto of Some (Some a) \<Rightarrow> if Some a \<noteq> tk_agent_id existing then Some a else None | _ \<Rightarrow> None);
         resolvedNow = (ut_status dto = Some (Some Resolved) \<and> tk_status existing \<noteq> Resolved)
     in tx_bind (assert_optional F groups qr (Option.bind (ut_groupId dto) id) ''group'') (\<lambda>_.
     tx_bind (assert_optional F agents qr (Option.bind (ut_agentId dto) id) ''agent'') (\<lambda>_.
     tx_bind (assert_optional F ticket_types qr (Option.bind (ut_ticketTypeId dto) id) ''ticket type'') (\<lambda>_.
     tx_bind sql_now (\<lambda>now.
     tx_bind (tag_assignments dto) (\<lambda>tagSets.
     tx_bind (field_assignments F qr existing dto) (\<lambda>fieldSets.
     tx_bind (type_assignments I qr tenantId existing dto) (\<lambda>typeSets.
     let sets = plain_assignments dto now @ tagSets @ fieldSets @ typeSets in
     if sets = [] then tx_return (existing, None, False)
     else tx_bind (write_update F tenantId i existing dto actorAgentId qr now sets) (\<lambda>result.
          tx_return (result, assignedAgentId, resolvedNow))))))))))"

definition resolveAgentEmail :: "uuid \<Rightarrow> uuid \<Rightarrow> ('s ticketing_scheme, string option) act" where
  "resolveAgentEmail tenantId agentId = withTenantContext tenantId (\<lambda>qr.
     tx_bind (select_agent_user qr agentId) (\<lambda>row. tx_return (map_option us_email row)))"

text \<open>\<open>if (!email) return\<close>: an empty address is none.\<close>

definition usable_email :: "string option \<Rightarrow> string option" where
  "usable_email e = (case e of Some [] \<Rightarrow> None | _ \<Rightarrow> e)"

definition notifyAgentAssignment :: "uuid \<Rightarrow> uuid \<Rightarrow> ticket \<Rightarrow> ('s ticketing_scheme, unit) act" where
  "notifyAgentAssignment tenantId agentId ticket =
     act_bind (resolveAgentEmail tenantId agentId) (\<lambda>email. case usable_email email of
        None \<Rightarrow> act_return ()
      | Some e \<Rightarrow> act_bind (enqueue tenantId ''email'' e ''ticket.assigned''
          (JObj [(''ticketNumber'', JNum (of_nat (tk_ticket_number ticket))), (''subject'', JStr (tk_subject ticket))])) (\<lambda>_. act_return ()))"

text \<open>\<open>await m.catch(err => this.logger.error(\<dots>))\<close>.\<close>

definition logged :: "('s, 'a) act \<Rightarrow> ('s, unit) act" where
  "logged m = act_catch (act_bind m (\<lambda>_. act_return ())) (\<lambda>_. act_return ())"

definition tickets_update_ticket ::
  "js_format \<Rightarrow> intl \<Rightarrow> html_lib \<Rightarrow> uuid \<Rightarrow> uuid \<Rightarrow> UpdateTicket \<Rightarrow> uuid option \<Rightarrow> ('s ticketing_scheme, ticket) act" where
  "tickets_update_ticket F I H tenantId i dto actorAgentId =
     act_bind (withTenantContext tenantId (update_body F I tenantId i dto actorAgentId)) (\<lambda>(result, assignedAgentId, resolvedNow).
     act_bind (case assignedAgentId of None \<Rightarrow> act_return () | Some a \<Rightarrow> logged (notifyAgentAssignment tenantId a result)) (\<lambda>_.
     act_bind (act_when resolvedNow (logged (createFromResolvedTicket H tenantId i))) (\<lambda>_.
     act_return result)))"

section \<open>Adding a message\<close>

record AddTicketMessage =
  am_type :: message_type
  am_authorType :: author_type
  am_authorId :: "uuid option"
  am_body :: string
  am_cc :: "string list option"

record outbound =
  ob_recipient :: string
  ob_agentName :: string
  ob_ticketNumber :: nat
  ob_subject :: string
  ob_body :: string
  ob_cc :: "string list"

record agent_notify =
  an_agentId :: uuid
  an_ticketNumber :: nat
  an_subject :: string
  an_contactName :: string
  an_body :: string

record watcher_notify =
  wn_watchers :: "Watcher list"
  wn_ticketNumber :: nat
  wn_subject :: string
  wn_body :: string

definition cc_of :: "AddTicketMessage \<Rightarrow> string list" where
  "cc_of dto = (case am_cc dto of None \<Rightarrow> [] | Some c \<Rightarrow> c)"

definition gather_outbound ::
  "query_runner \<Rightarrow> ticket \<Rightarrow> AddTicketMessage \<Rightarrow> string \<Rightarrow> ('s ticketing_scheme, outbound option) tx" where
  "gather_outbound qr ticket dto safeBody =
     (if am_type dto = Reply \<and> am_authorType dto = By_Agent then
        tx_bind (sql_first contacts qr (by_id (tk_contact_id ticket))) (\<lambda>contact.
        tx_bind (case am_authorId dto of None \<Rightarrow> tx_return None | Some a \<Rightarrow> select_agent_user qr a) (\<lambda>agent.
        let agentName = (case agent of Some u \<Rightarrow> if us_name u \<noteq> [] then us_name u else ''Support'' | None \<Rightarrow> ''Support'') in
        tx_return (case usable_email (Option.bind contact ct_email) of
            None \<Rightarrow> None
          | Some e \<Rightarrow> Some \<lparr>ob_recipient = e, ob_agentName = agentName, ob_ticketNumber = tk_ticket_number ticket,
                            ob_subject = tk_subject ticket, ob_body = safeBody, ob_cc = cc_of dto\<rparr>)))
      else tx_return None)"

definition gather_agent_notify ::
  "html_lib \<Rightarrow> query_runner \<Rightarrow> ticket \<Rightarrow> AddTicketMessage \<Rightarrow> string \<Rightarrow> ('s ticketing_scheme, agent_notify option) tx" where
  "gather_agent_notify H qr ticket dto safeBody =
     (if am_type dto = Reply \<and> am_authorType dto = By_Contact then
        (case tk_agent_id ticket of
           None \<Rightarrow> tx_return None
         | Some a \<Rightarrow> tx_bind (sql_first contacts qr (by_id (tk_contact_id ticket))) (\<lambda>c.
             tx_return (Some \<lparr>an_agentId = a, an_ticketNumber = tk_ticket_number ticket, an_subject = tk_subject ticket,
               an_contactName = (case c of None \<Rightarrow> ''The customer'' | Some x \<Rightarrow> ct_name x), an_body = htmlToPlainText H safeBody\<rparr>)))
      else tx_return None)"

definition gather_watcher_notify ::
  "html_lib \<Rightarrow> query_runner \<Rightarrow> ticket \<Rightarrow> AddTicketMessage \<Rightarrow> string \<Rightarrow> ('s ticketing_scheme, watcher_notify option) tx" where
  "gather_watcher_notify H qr ticket dto safeBody =
     (if am_type dto = Reply then
        tx_bind (watcherEmails qr (row_id ticket) (if am_authorType dto = By_Agent then am_authorId dto else None)) (\<lambda>watchers.
        tx_return (if watchers = [] then None
          else Some \<lparr>wn_watchers = watchers, wn_ticketNumber = tk_ticket_number ticket, wn_subject = tk_subject ticket,
                     wn_body = htmlToPlainText H safeBody\<rparr>))
      else tx_return None)"

definition message_body ::
  "js_format \<Rightarrow> html_lib \<Rightarrow> uuid \<Rightarrow> uuid \<Rightarrow> AddTicketMessage \<Rightarrow> query_runner \<Rightarrow>
     ('s ticketing_scheme, ticket_message \<times> outbound option \<times> agent_notify option \<times> watcher_notify option) tx" where
  "message_body F H tenantId ticketId dto qr =
     tx_bind (find_row ''Ticket'' tickets qr ticketId) (\<lambda>ticket.
     tx_bind (if am_authorType dto = By_Agent then assert_optional F agents qr (am_authorId dto) ''agent'' else tx_return ()) (\<lambda>_.
     tx_bind (if am_authorType dto = By_Contact then assert_optional F contacts qr (am_authorId dto) ''contact'' else tx_return ()) (\<lambda>_.
     let safeBody = sanitizeTicketBody H (am_body dto) in
     tx_bind (insert_message qr tenantId ticketId (am_type dto) (am_authorType dto) (am_authorId dto) safeBody (cc_of dto)) (\<lambda>message.
     tx_bind sql_now (\<lambda>now.
     tx_bind (if am_type dto = Reply \<and> am_authorType dto = By_Agent \<and> tk_first_response_at ticket = None
        then tx_bind (sql_update tickets tickets_update qr (by_id ticketId) (\<lambda>t. t\<lparr>tk_first_response_at := Some now\<rparr>)) (\<lambda>_. tx_return ())
        else tx_return ()) (\<lambda>_.
     tx_bind (gather_outbound qr ticket dto safeBody) (\<lambda>outbound.
     tx_bind (gather_agent_notify H qr ticket dto safeBody) (\<lambda>agentNotify.
     tx_bind (gather_watcher_notify H qr ticket dto safeBody) (\<lambda>watcherNotify.
     tx_return (message, outbound, agentNotify, watcherNotify))))))))))"

definition send_outbound :: "html_lib \<Rightarrow> uuid \<Rightarrow> outbound \<Rightarrow> ('s ticketing_scheme, unit) act" where
  "send_outbound H tenantId ob = logged (enqueue tenantId ''email'' (ob_recipient ob) ''ticket.reply''
     (JObj [(''ticketNumber'', JNum (of_nat (ob_ticketNumber ob))), (''subject'', JStr (ob_subject ob)),
            (''body'', JStr (htmlToPlainText H (ob_body ob))), (''bodyHtml'', JStr (ob_body ob)),
            (''agentName'', JStr (ob_agentName ob)), (''cc'', JArr (map JStr (ob_cc ob)))]))"

definition send_agent_notify :: "uuid \<Rightarrow> agent_notify \<Rightarrow> ('s ticketing_scheme, unit) act" where
  "send_agent_notify tenantId n =
     act_bind (resolveAgentEmail tenantId (an_agentId n)) (\<lambda>email. case usable_email email of
        None \<Rightarrow> act_return ()
      | Some e \<Rightarrow> logged (enqueue tenantId ''email'' e ''ticket.contact_reply''
          (JObj [(''ticketNumber'', JNum (of_nat (an_ticketNumber n))), (''subject'', JStr (an_subject n)),
                 (''contactName'', JStr (an_contactName n)), (''body'', JStr (an_body n))])))"

definition send_watcher_notify :: "uuid \<Rightarrow> watcher_notify \<Rightarrow> ('s ticketing_scheme, unit) act" where
  "send_watcher_notify tenantId n =
     act_fold (\<lambda>w _. logged (enqueue tenantId ''email'' (wa_email w) ''ticket.watcher_update''
       (JObj [(''ticketNumber'', JNum (of_nat (wn_ticketNumber n))), (''subject'', JStr (wn_subject n)), (''body'', JStr (wn_body n))])))
       (wn_watchers n) ()"

text \<open>\<open>if (x) await f(x)\<close>.\<close>

definition when_some :: "'x option \<Rightarrow> ('x \<Rightarrow> ('s, unit) act) \<Rightarrow> ('s, unit) act" where
  "when_some v f = (case v of None \<Rightarrow> act_return () | Some x \<Rightarrow> f x)"

definition tickets_addMessage ::
  "js_format \<Rightarrow> html_lib \<Rightarrow> uuid \<Rightarrow> uuid \<Rightarrow> AddTicketMessage \<Rightarrow> ('s ticketing_scheme, ticket_message) act" where
  "tickets_addMessage F H tenantId ticketId dto =
     act_bind (withTenantContext tenantId (message_body F H tenantId ticketId dto)) (\<lambda>(message, outbound, agentNotify, watcherNotify).
     act_bind (when_some outbound (send_outbound H tenantId)) (\<lambda>_.
     act_bind (when_some agentNotify (send_agent_notify tenantId)) (\<lambda>_.
     act_bind (when_some watcherNotify (send_watcher_notify tenantId)) (\<lambda>_.
     act_return message))))"

section \<open>Composing an outbound ticket\<close>

record ComposeOutbound =
  cmp_subject :: string
  cmp_contactId :: "uuid option"
  cmp_contact :: "InlineContact option"
  cmp_groupId :: "uuid option"
  cmp_agentId :: "uuid option"
  cmp_body :: string

definition composeOutbound ::
  "js_format \<Rightarrow> intl \<Rightarrow> html_lib \<Rightarrow> uuid \<Rightarrow> ComposeOutbound \<Rightarrow> ('s ticketing_scheme, ticket) act" where
  "composeOutbound F I H tenantId dto =
     (if cmp_contactId dto = None \<and> cmp_contact dto = None then act_throw contact_required
      else act_bind (tickets_create F I tenantId
          \<lparr>nt_subject = cmp_subject dto, nt_contactId = cmp_contactId dto, nt_contact = cmp_contact dto, nt_source = Agent_Outbound,
           nt_sourceDetail = None, nt_ticketTypeId = None, nt_groupId = cmp_groupId dto, nt_agentId = cmp_agentId dto,
           nt_requiredSkill = None, nt_resourceId = None, nt_priority = None, nt_platform = None, nt_tags = None, nt_customFields = None\<rparr>) (\<lambda>ticket.
        act_bind (tickets_addMessage F H tenantId (row_id ticket)
          \<lparr>am_type = Reply, am_authorType = By_Agent, am_authorId = None, am_body = cmp_body dto, am_cc = None\<rparr>) (\<lambda>_.
        tickets_get tenantId (row_id ticket))))"

section \<open>Tenant isolation\<close>

lemma helper_frames [frame_intros]:
  "tx_rel (ticketing_frame qr) (assertBelongsToTenant F tbl qr i l)"
  "tx_rel (ticketing_frame qr) (assert_optional F tbl qr j l)"
  "tx_rel (ticketing_frame qr) (upsertContactByEmail qr t c)"
  "tx_rel (ticketing_frame qr) (nextTicketNumber qr t)"
  "tx_rel (ticketing_frame qr) (fetchSlaPolicy qr p)"
  "tx_rel (ticketing_frame qr) (hours_for t pol)"
  unfolding assertBelongsToTenant_def assert_optional_def upsertContactByEmail_def nextTicketNumber_def fetchSlaPolicy_def
    hours_for_def fetchBusinessHours_def
  by (intro frame_intros)+

context frame
begin

lemma tx_lift_frame [frame_intros]: "tx_rel R (tx_lift v)"
  unfolding tx_lift_def by (intro frame_intros)

lemma checked_fields_frame [frame_intros]: "tx_rel R (checked_fields F defs v)"
  unfolding checked_fields_def
  by (cases "validateCustomFields F defs v") (simp_all only: sum.case frame_intros, auto split: error.splits intro: frame_intros)

lemma logged_frame [frame_intros]: "act_rel R m \<Longrightarrow> act_rel R (logged m)"
  unfolding logged_def by (intro frame_intros)

lemma when_some_frame [frame_intros]: "(\<And>x. act_rel R (f x)) \<Longrightarrow> act_rel R (when_some v f)"
  unfolding when_some_def by (intro frame_intros)

end

end
