(* ===== verification/Time_Automation.thy ===== *)
theory Time_Automation
  imports Automation
begin

text \<open>
  The service of the automation rules (the CRUD half of \<open>automation/automation-rules.service.ts\<close>) and
  the sweep that applies time-based rules (\<open>automation/time-automation-sweep.service.ts\<close>).
\<close>

section \<open>The rules of a tenant\<close>

record CreateAutomationRule =
  cr_name :: string
  cr_trigger :: automation_trigger
  cr_position :: "int option"
  cr_isActive :: "bool option"
  cr_conditions :: "automation_condition list"
  cr_actions :: "automation_action list"
  cr_timeTriggerMinutes :: "int option"

text \<open>\<open>!dto.timeTriggerMinutes\<close>: absent, \<open>null\<close> or 0.\<close>

definition falsy_minutes :: "int option \<Rightarrow> bool" where
  "falsy_minutes m \<longleftrightarrow> m = None \<or> m = Some 0"

definition automation_rules_create :: "uuid \<Rightarrow> CreateAutomationRule \<Rightarrow> ('s ticketing_scheme, automation_rule) act" where
  "automation_rules_create tenantId dto =
     (if cr_trigger dto = Time_Based \<and> falsy_minutes (cr_timeTriggerMinutes dto)
      then act_throw (BadRequest ''trigger time_based requires timeTriggerMinutes'')
      else withTenantContext tenantId (\<lambda>qr.
        tx_bind (assertActionTargetsBelongToTenant qr (cr_actions dto)) (\<lambda>_.
        tx_bind gen_random_uuid (\<lambda>i. tx_bind sql_now (\<lambda>now.
          sql_insert automation_rules_update qr
            \<lparr>row_id = i, tenant_id = tenantId, ar_name = cr_name dto, ar_trigger = cr_trigger dto,
             ar_position = (case cr_position dto of None \<Rightarrow> 0 | Some p \<Rightarrow> p),
             ar_is_active = (case cr_isActive dto of None \<Rightarrow> True | Some b \<Rightarrow> b),
             ar_conditions = cr_conditions dto, ar_actions = cr_actions dto,
             ar_time_trigger_minutes = cr_timeTriggerMinutes dto, ar_created_at = now, ar_updated_at = now\<rparr>)))))"

text \<open>\<open>ORDER BY trigger\<close> is the order of the enumeration's values.\<close>

fun trigger_rank :: "automation_trigger \<Rightarrow> nat" where
  "trigger_rank Ticket_Created = 0"
| "trigger_rank Ticket_Updated = 1"
| "trigger_rank Time_Based = 2"

definition automation_rules_list :: "uuid \<Rightarrow> ('s ticketing_scheme, automation_rule list) act" where
  "automation_rules_list tenantId = withTenantContext tenantId (\<lambda>qr.
     tx_bind (sql_select automation_rules qr (\<lambda>_. True)) (\<lambda>rows.
       tx_return (order_by (\<lambda>r. (trigger_rank (ar_trigger r), ar_position r, ar_created_at r)) rows)))"

record UpdateAutomationRule =
  ur_name :: "string option option"
  ur_trigger :: "automation_trigger option option"
  ur_position :: "int option option"
  ur_isActive :: "bool option option"
  ur_conditions :: "automation_condition list option option"
  ur_actions :: "automation_action list option option"
  ur_timeTriggerMinutes :: "int option option"

definition automation_rules_update_rule ::
  "uuid \<Rightarrow> uuid \<Rightarrow> UpdateAutomationRule \<Rightarrow> ('s ticketing_scheme, automation_rule) act" where
  "automation_rules_update_rule tenantId i dto = withTenantContext tenantId (\<lambda>qr.
     tx_bind (find_row ''Automation rule'' automation_rules qr i) (\<lambda>existing.
     tx_bind (case ur_actions dto of Some (Some as) \<Rightarrow> assertActionTargetsBelongToTenant qr as | _ \<Rightarrow> tx_return ()) (\<lambda>_.
     let sets = set_required (ur_name dto) (\<lambda>v r. r\<lparr>ar_name := v\<rparr>) @
                set_required (ur_trigger dto) (\<lambda>v r. r\<lparr>ar_trigger := v\<rparr>) @
                set_required (ur_position dto) (\<lambda>v r. r\<lparr>ar_position := v\<rparr>) @
                set_required (ur_isActive dto) (\<lambda>v r. r\<lparr>ar_is_active := v\<rparr>) @
                set_nullable (ur_timeTriggerMinutes dto) (\<lambda>v r. r\<lparr>ar_time_trigger_minutes := v\<rparr>) @
                set_required (ur_conditions dto) (\<lambda>v r. r\<lparr>ar_conditions := v\<rparr>) @
                set_required (ur_actions dto) (\<lambda>v r. r\<lparr>ar_actions := v\<rparr>)
     in if sets = [] then tx_return existing
        else tx_bind sql_now (\<lambda>now.
             tx_bind (sql_patch automation_rules automation_rules_update qr (by_id i) (sets @ [Some (\<lambda>r. r\<lparr>ar_updated_at := now\<rparr>)]))
               (first_row ''Automation rule'' i)))))"

definition automation_rules_remove :: "uuid \<Rightarrow> uuid \<Rightarrow> ('s ticketing_scheme, unit) act" where
  "automation_rules_remove tenantId i = withTenantContext tenantId (\<lambda>qr.
     remove_row ''Automation rule'' automation_rules automation_rules_update qr i)"

section \<open>The sweep\<close>

text \<open>The insertion with \<open>ON CONFLICT (automation_rule_id, ticket_id) DO NOTHING\<close>.\<close>

definition mark_applied :: "query_runner \<Rightarrow> uuid \<Rightarrow> uuid \<Rightarrow> uuid \<Rightarrow> ('s ticketing_scheme, unit) tx" where
  "mark_applied qr tenantId ruleId ticketId =
     tx_bind (tx_gets (\<lambda>s. (ruleId, ticketId) \<in> (\<lambda>a. (ra_rule_id a, ra_ticket_id a)) ` set (rule_applications s))) (\<lambda>conflict.
       if conflict then tx_return ()
       else tx_bind gen_random_uuid (\<lambda>i. tx_bind sql_now (\<lambda>now.
         tx_bind (sql_insert rule_applications_update qr
           \<lparr>row_id = i, tenant_id = tenantId, ra_rule_id = ruleId, ra_ticket_id = ticketId, ra_applied_at = now\<rparr>) (\<lambda>_. tx_return ()))))"

definition candidates :: "query_runner \<Rightarrow> automation_rule \<Rightarrow> ('s ticketing_scheme, ticket list) tx" where
  "candidates qr rule = (\<lambda>s.
     sql_select tickets qr (\<lambda>t. \<not> closing (tk_status t) \<and>
       tk_created_at t \<le> clock s - the (ar_time_trigger_minutes rule) * 60000 \<and>
       \<not> (\<exists>a \<in> set (visible qr (rule_applications s)). ra_rule_id a = row_id rule \<and> ra_ticket_id a = row_id t)) s)"

definition sweep_ticket ::
  "js_format \<Rightarrow> uuid \<Rightarrow> query_runner \<Rightarrow> automation_rule \<Rightarrow> ticket \<Rightarrow> nat \<Rightarrow> ('s ticketing_scheme, nat) tx" where
  "sweep_ticket F tenantId qr rule ticket appliedCount =
     (if list_all (conditionMatches F ticket) (ar_conditions rule)
      then tx_bind (apply_actions F tenantId qr (ar_actions rule) ticket) (\<lambda>_.
           tx_bind (mark_applied qr tenantId (row_id rule) (row_id ticket)) (\<lambda>_.
           tx_return (Suc appliedCount)))
      else tx_return appliedCount)"

definition sweepRule :: "js_format \<Rightarrow> uuid \<Rightarrow> automation_rule \<Rightarrow> query_runner \<Rightarrow> ('s ticketing_scheme, nat) tx" where
  "sweepRule F tenantId rule qr =
     tx_bind (candidates qr rule) (\<lambda>cs. tx_fold (sweep_ticket F tenantId qr rule) cs 0)"

text \<open>The bodies of the two loops that add up the counts.\<close>

definition add_rule :: "js_format \<Rightarrow> uuid \<Rightarrow> query_runner \<Rightarrow> automation_rule \<Rightarrow> nat \<Rightarrow> ('s ticketing_scheme, nat) tx" where
  "add_rule F tenantId qr rule n = tx_bind (sweepRule F tenantId rule qr) (\<lambda>k. tx_return (n + k))"

definition sweepTenant :: "js_format \<Rightarrow> uuid \<Rightarrow> ('s ticketing_scheme, nat) act" where
  "sweepTenant F tenantId = withTenantContext tenantId (\<lambda>qr.
     tx_bind (sql_select automation_rules qr (\<lambda>r. ar_trigger r = Time_Based \<and> ar_is_active r \<and> ar_time_trigger_minutes r \<noteq> None)) (\<lambda>rules.
       tx_fold (add_rule F tenantId qr) rules 0))"

definition add_tenant :: "js_format \<Rightarrow> tenant \<Rightarrow> nat \<Rightarrow> ('s ticketing_scheme, nat) act" where
  "add_tenant F t n = act_catch (act_bind (sweepTenant F (tn_id t)) (\<lambda>k. act_return (n + k))) (\<lambda>_. act_return n)"

text \<open>One tick: skipped while another sweep of the process is running; a failing tenant is logged.\<close>

definition runSweepOnce :: "js_format \<Rightarrow> bool \<Rightarrow> ('s ticketing_scheme, nat) act" where
  "runSweepOnce F running =
     (if running then act_return 0
      else act_bind (act_gets tenants) (\<lambda>ts.
        act_fold (add_tenant F) ts 0))"

section \<open>Frames\<close>

lemma mark_applied_frame [frame_intros]: "tx_rel (ticketing_frame qr) (mark_applied qr t r k)"
  unfolding mark_applied_def by (intro frame_intros)

lemma candidates_frame [frame_intros]: "tx_rel (ticketing_frame qr) (candidates qr rule)"
  unfolding candidates_def by (rule tx_relI) (auto simp: sql_select_def ticketing_frame.frame_refl)

lemma sweepTenant_frame: "act_rel (ticketing_frame t) (sweepTenant F t)"
  unfolding sweepTenant_def add_rule_def sweepRule_def sweep_ticket_def apply_actions_def by (intro frame_intros)

lemma automation_rules_service_frames [frame_intros]:
  "act_rel (ticketing_frame t) (automation_rules_create t c)"
  "act_rel (ticketing_frame t) (automation_rules_list t)"
  "act_rel (ticketing_frame t) (automation_rules_remove t i)"
  unfolding automation_rules_create_def automation_rules_list_def automation_rules_remove_def
  by (intro frame_intros)+

section \<open>Every rule fires at most once per ticket\<close>

definition marks :: "'s ticketing_scheme \<Rightarrow> (uuid \<times> uuid) list" where
  "marks s = map (\<lambda>a. (ra_rule_id a, ra_ticket_id a)) (rule_applications s)"

text \<open>What the sweep relies on: ticket ids are distinct, and a mark belongs to the tenant of its ticket.\<close>

definition sweep_inv :: "'s ticketing_scheme \<Rightarrow> bool" where
  "sweep_inv s \<longleftrightarrow> distinct (map row_id (tickets s)) \<and> distinct (marks s) \<and>
     (\<forall>a \<in> set (rule_applications s). \<forall>t \<in> set (tickets s). ra_ticket_id a = row_id t \<longrightarrow> tenant_id a = tenant_id t)"

definition ids_and_marks :: "'s ticketing_scheme \<Rightarrow> (uuid \<times> uuid) list \<times> rule_application list" where
  "ids_and_marks s = (map (\<lambda>t. (row_id t, tenant_id t)) (tickets s), rule_applications s)"

lemma ids_and_marks_ignored: "ignores_actions ids_and_marks"
  by (simp add: ignores_actions_def ids_and_marks_def map_update_rows ticket_key_def)

lemma sweep_inv_ids:
  "sweep_inv s \<longleftrightarrow> distinct (map fst (fst (ids_and_marks s))) \<and> distinct (map (\<lambda>a. (ra_rule_id a, ra_ticket_id a)) (snd (ids_and_marks s))) \<and>
     (\<forall>a \<in> set (snd (ids_and_marks s)). \<forall>p \<in> set (fst (ids_and_marks s)). ra_ticket_id a = fst p \<longrightarrow> tenant_id a = snd p)"
  by (auto simp: sweep_inv_def ids_and_marks_def marks_def comp_def)

lemma mark_applied_run:
  assumes "(r, k) \<notin> set (marks s)"
  shows "\<exists>a. mark_applied qr qr r k s = Inr ((), s\<lparr>next_uuid := Suc (next_uuid s), rule_applications := rule_applications s @ [a]\<rparr>) \<and>
    ra_rule_id a = r \<and> ra_ticket_id a = k \<and> tenant_id a = qr"
proof -
  have "(r, k) \<notin> (\<lambda>a. (ra_rule_id a, ra_ticket_id a)) ` set (rule_applications s)" using assms by (simp add: marks_def)
  then show ?thesis
    by (intro exI [of _ "\<lparr>row_id = next_uuid s, tenant_id = qr, ra_rule_id = r, ra_ticket_id = k, ra_applied_at = clock s\<rparr>"])
      (simp only: mark_applied_def tx_bind_gets if_False tx_bind_def gen_random_uuid_def sql_now_def tx_gets_app sql_insert_def
        tenant_isolation_def sum.case prod.case, simp)
qed

text \<open>Working through the candidates: the count is the number of new marks.\<close>

lemma sweep_fold:
  assumes "tx_fold (sweep_ticket F qr qr rule) cs n s = Inr (m, t)" and "sweep_inv s"
    and "distinct (map row_id cs)" and "\<forall>c \<in> set cs. (row_id rule, row_id c) \<notin> set (marks s)"
    and "\<forall>c \<in> set cs. (row_id c, qr) \<in> set (fst (ids_and_marks s))"
  shows "sweep_inv t \<and> length (marks t) + n = length (marks s) + m \<and> fst (ids_and_marks t) = fst (ids_and_marks s)"
  using assms
proof (induction cs arbitrary: n s)
  case Nil
  then show ?case by simp
next
  case (Cons c cs)
  show ?case
  proof (cases "list_all (conditionMatches F c) (ar_conditions rule)")
    case False
    with Cons show ?thesis by (simp add: sweep_ticket_def)
  next
    case True
    with Cons.prems(1) obtain x u where u: "apply_actions F qr qr (ar_actions rule) c s = Inr (x, u)"
      and run: "tx_bind (mark_applied qr qr (row_id rule) (row_id c)) (\<lambda>_. tx_fold (sweep_ticket F qr qr rule) cs (Suc n)) u = Inr (m, t)"
      by (auto simp: sweep_ticket_def [of F qr qr rule c n] tx_bind_eq_Inr)
    have iu: "ids_and_marks u = ids_and_marks s"
      using tx_relD [OF apply_actions_same [OF ids_and_marks_ignored] u] by (simp add: same_def)
    then have mu: "marks u = marks s" by (simp add: ids_and_marks_def marks_def)
    from mark_applied_run [of "row_id rule" "row_id c" u qr] Cons.prems(4) mu obtain a where
      a: "mark_applied qr qr (row_id rule) (row_id c) u
          = Inr ((), u\<lparr>next_uuid := Suc (next_uuid u), rule_applications := rule_applications u @ [a]\<rparr>)"
        "ra_rule_id a = row_id rule" "ra_ticket_id a = row_id c" "tenant_id a = qr" by auto
    define v where "v = u\<lparr>next_uuid := Suc (next_uuid u), rule_applications := rule_applications u @ [a]\<rparr>"
    have v: "ids_and_marks v = (fst (ids_and_marks s), rule_applications s @ [a])" "marks v = marks s @ [(row_id rule, row_id c)]"
      using iu mu a by (simp_all add: v_def ids_and_marks_def marks_def)
    have "sweep_inv v"
    proof -
      have "\<forall>p \<in> set (fst (ids_and_marks s)). ra_ticket_id a = fst p \<longrightarrow> tenant_id a = snd p"
      proof (intro ballI impI)
        fix p
        assume p: "p \<in> set (fst (ids_and_marks s))" "ra_ticket_id a = fst p"
        then have "(row_id c, snd p) \<in> set (fst (ids_and_marks s))" using a(3) by (metis prod.collapse)
        moreover have "(row_id c, qr) \<in> set (fst (ids_and_marks s))" "distinct (map fst (fst (ids_and_marks s)))"
          using Cons.prems(2,5) by (simp_all add: sweep_inv_ids)
        ultimately show "tenant_id a = snd p" using a(4) eq_key_imp_eq_value by metis
      qed
      then show ?thesis
        using Cons.prems(2,4) a(2,3) unfolding sweep_inv_ids v
        by (auto simp: ids_and_marks_def marks_def image_iff)
    qed
    moreover have "tx_fold (sweep_ticket F qr qr rule) cs (Suc n) v = Inr (m, t)"
      using run a(1) by (simp add: v_def)
    ultimately have "sweep_inv t \<and> length (marks t) + Suc n = length (marks v) + m \<and> fst (ids_and_marks t) = fst (ids_and_marks v)"
      using Cons.prems(3-5) v by (intro Cons.IH) (auto simp: image_iff)
    then show ?thesis by (simp add: v)
  qed
qed

lemma sweepRule_once:
  assumes "sweepRule F qr rule qr s = Inr (m, t)" and "sweep_inv s"
  shows "sweep_inv t \<and> length (marks t) = length (marks s) + m"
proof -
  obtain cs where cs: "candidates qr rule s = Inr (cs, s)" "tx_fold (sweep_ticket F qr qr rule) cs 0 s = Inr (m, t)"
    using assms(1) by (auto simp: sweepRule_def candidates_def sql_select_def tx_bind_def)
  define P where "P = (\<lambda>t :: ticket. \<not> closing (tk_status t) \<and>
       tk_created_at t \<le> clock s - the (ar_time_trigger_minutes rule) * 60000 \<and>
       \<not> (\<exists>a \<in> set (visible qr (rule_applications s)). ra_rule_id a = row_id rule \<and> ra_ticket_id a = row_id t))"
  have c: "cs = filter P (visible qr (tickets s))"
    using cs(1) by (simp add: candidates_def sql_select_def P_def)
  have "distinct (map row_id cs)"
    using assms(2) by (simp add: c sweep_inv_def distinct_map_filter distinct_visible)
  moreover have "\<forall>k \<in> set cs. (row_id rule, row_id k) \<notin> set (marks s)"
    using assms(2) by (fastforce simp: c P_def sweep_inv_def marks_def)
  moreover have "\<forall>k \<in> set cs. (row_id k, qr) \<in> set (fst (ids_and_marks s))"
    by (auto simp: c ids_and_marks_def)
  ultimately show ?thesis using sweep_fold [OF cs(2) assms(2)] by simp
qed

lemma sweep_rules_once:
  assumes "tx_fold (add_rule F qr qr) rules n s = Inr (m, t)" and "sweep_inv s"
  shows "sweep_inv t \<and> length (marks t) + n = length (marks s) + m"
  using assms
proof (induction rules arbitrary: n s)
  case Nil
  then show ?case by simp
next
  case (Cons r rs)
  from Cons.prems(1) obtain k u where u: "sweepRule F qr r qr s = Inr (k, u)"
    "tx_fold (add_rule F qr qr) rs (n + k) u = Inr (m, t)"
    by (auto simp: add_rule_def [of F qr qr r n] tx_bind_eq_Inr)
  from sweepRule_once [OF u(1) Cons.prems(2)] Cons.IH [OF u(2)] show ?case by simp
qed

lemma sweepTenant_once:
  assumes "sweepTenant F tenantId s = (res, t)" and "sweep_inv s"
  shows "sweep_inv t \<and> length (marks t) = length (marks s) + (case res of Inl _ \<Rightarrow> 0 | Inr m \<Rightarrow> m)"
proof (cases res)
  case (Inl e)
  with assms show ?thesis by (simp add: sweepTenant_def withTenantContext_Inl)
next
  case (Inr m)
  with assms(1) obtain rules where "tx_fold (add_rule F tenantId tenantId) rules 0 s = Inr (m, t)"
    by (auto simp: sweepTenant_def withTenantContext_Inr sql_select_def tx_bind_def)
  from sweep_rules_once [OF this assms(2)] Inr show ?thesis by simp
qed

lemma sweep_tenants_once:
  assumes "sweep_inv s"
  shows "\<exists>m t. act_fold (add_tenant F) ts n s = (Inr m, t) \<and>
    sweep_inv t \<and> length (marks t) + n = length (marks s) + m"
  using assms
proof (induction ts arbitrary: n s)
  case Nil
  then show ?case by simp
next
  case (Cons x xs)
  obtain res u where u: "sweepTenant F (tn_id x) s = (res, u)" by fastforce
  note once = sweepTenant_once [OF u Cons.prems]
  show ?case
  proof (cases res)
    case (Inl e)
    with u once Cons.IH [of u n] show ?thesis by (simp add: add_tenant_def [of F x] act_catch_def act_bind_def)
  next
    case (Inr k)
    with u once Cons.IH [of u "n + k"] show ?thesis by (auto simp: add_tenant_def [of F x] act_catch_def act_bind_def)
  qed
qed

text \<open>
  C19. Every time-based rule fires at most once per ticket: a tick of the sweep always returns, the
  pairs of rule and ticket in \<open>automation_rule_applications\<close> stay distinct, and the number of
  applications it reports is exactly the number of pairs it added, whatever rules and failing
  tenants there are.
\<close>

theorem time_automation_at_most_once:
  assumes "sweep_inv s"
  shows "\<exists>n t. runSweepOnce F running s = (Inr n, t) \<and> sweep_inv t \<and> length (marks t) = length (marks s) + n"
proof (cases running)
  case True
  with assms show ?thesis by (simp add: runSweepOnce_def)
next
  case False
  from sweep_tenants_once [OF assms, of F "tenants s" 0] False show ?thesis
    by (auto simp: runSweepOnce_def act_bind_def)
qed

theorem time_automation_at_most_once_witness:
  "\<exists>n t. runSweepOnce unary_format False one_ticket = (Inr n, t) \<and> distinct (marks t) \<and> length (marks t) = n"
proof -
  have "sweep_inv one_ticket" "marks one_ticket = []"
    by (simp_all add: sweep_inv_def marks_def one_ticket_def printer_ticket_def empty_platform_def platform.defs ticketing.defs)
  from time_automation_at_most_once [OF this(1), of unary_format False] this(2) show ?thesis
    by (auto simp: sweep_inv_def)
qed

end
