(* ===== verification/Ticket_Properties.thy ===== *)
theory Ticket_Properties
  imports Ticket_Updates Time_Automation
begin

text \<open>
  What the ticket service keeps and does: isolation of tenants, the life cycle of a ticket, ticket
  numbers, merging, first responses.
\<close>

section \<open>Results of a transaction\<close>

text \<open>Every value a body returns satisfies a predicate; what a later step may rely on.\<close>

definition tx_res :: "('a \<Rightarrow> bool) \<Rightarrow> ('s, 'a) tx \<Rightarrow> bool" where
  "tx_res P m \<longleftrightarrow> (\<forall>s x t. m s = Inr (x, t) \<longrightarrow> P x)"

named_theorems res_intros \<open>rules that prove tx_res facts of a body\<close>

lemma tx_res_return [res_intros]: "P x \<Longrightarrow> tx_res P (tx_return x)"
  by (simp add: tx_res_def)

lemma tx_res_throw [res_intros]: "tx_res P (tx_throw e)"
  by (simp add: tx_res_def)

lemma tx_res_bind [res_intros]: "(\<And>x. tx_res P (f x)) \<Longrightarrow> tx_res P (tx_bind m f)"
  unfolding tx_res_def by (simp add: tx_bind_eq_Inr) blast

lemma tx_res_option [res_intros]:
  "tx_res P m \<Longrightarrow> (\<And>x. tx_res P (f x)) \<Longrightarrow> tx_res P (case v of None \<Rightarrow> m | Some x \<Rightarrow> f x)"
  by (cases v) simp_all

lemma tx_res_if [res_intros]: "tx_res P m \<Longrightarrow> tx_res P m' \<Longrightarrow> tx_res P (if b then m else m')"
  by simp

lemma tx_res_Let [res_intros]: "(\<And>x. tx_res P (f x)) \<Longrightarrow> tx_res P (let x = v in f x)"
  by simp

context frame
begin

lemma tx_bind_res_frame:
  assumes "tx_rel R m" and "tx_res P m" and "\<And>x. P x \<Longrightarrow> tx_rel R (f x)"
  shows "tx_rel R (tx_bind m f)"
proof (rule tx_relI)
  fix s y t
  assume "tx_bind m f s = Inr (y, t)"
  then obtain x u where m: "m s = Inr (x, u)" and f: "f x u = Inr (y, t)" by (auto simp: tx_bind_eq_Inr)
  have "P x" using assms(2) m by (auto simp: tx_res_def)
  with assms(3) f have "R u t" by (auto dest: tx_relD)
  with tx_relD [OF assms(1) m] show "R s t" by (rule frame_trans)
qed

end

section \<open>Isolation\<close>

lemma create_body_frame [frame_intros]: "tx_rel (ticketing_frame qr) (create_body F I t dto qr)"
  unfolding create_body_def resolve_contact_def resolve_type_def by (intro frame_intros)

lemma assignment_frames [frame_intros]:
  "tx_rel (ticketing_frame qr) (tag_assignments dto)"
  "tx_rel (ticketing_frame qr) (field_assignments F qr k dto)"
  "tx_rel (ticketing_frame qr) (type_assignments I qr t k dto)"
  "tx_rel (ticketing_frame qr) (insert_changes qr t i a cs)"
  unfolding tag_assignments_def field_assignments_def type_assignments_def insert_changes_def by (intro frame_intros)+

lemma update_body_frame [frame_intros]: "tx_rel (ticketing_frame qr) (update_body F I t i dto a qr)"
  unfolding update_body_def write_update_def by (intro frame_intros)

lemma merge_source_frame [frame_intros]: "tx_rel (ticketing_frame qr) (merge_source t qr p i ns)"
  unfolding merge_source_def by (intro frame_intros)

lemma gather_frames [frame_intros]:
  "tx_rel (ticketing_frame qr) (gather_outbound qr k dto b)"
  "tx_rel (ticketing_frame qr) (gather_agent_notify H qr k dto b)"
  "tx_rel (ticketing_frame qr) (gather_watcher_notify H qr k dto b)"
  unfolding gather_outbound_def gather_agent_notify_def gather_watcher_notify_def by (intro frame_intros)+

lemma message_body_frame [frame_intros]: "tx_rel (ticketing_frame qr) (message_body F H t k dto qr)"
  unfolding message_body_def by (intro frame_intros)

lemma send_frames [frame_intros]:
  "act_rel (ticketing_frame t) (resolveAgentEmail t a)"
  "act_rel (ticketing_frame t) (send_outbound H t ob)"
  unfolding resolveAgentEmail_def send_outbound_def by (intro frame_intros)+

lemma send_notify_frames [frame_intros]:
  "act_rel (ticketing_frame t) (notifyAgentAssignment t a k)"
  "act_rel (ticketing_frame t) (send_agent_notify t n)"
  "act_rel (ticketing_frame t) (send_watcher_notify t w)"
  unfolding notifyAgentAssignment_def send_agent_notify_def send_watcher_notify_def by (intro frame_intros)+

lemma tickets_frames [frame_intros]:
  "act_rel (ticketing_frame t) (tickets_create F I t c)"
  "act_rel (ticketing_frame t) (tickets_update_ticket F I H t i u a)"
  "act_rel (ticketing_frame t) (tickets_merge t i ss)"
  "act_rel (ticketing_frame t) (tickets_addMessage F H t i m)"
  "act_rel (ticketing_frame t) (tickets_get t i)"
  unfolding tickets_create_def tickets_update_ticket_def tickets_merge_def tickets_addMessage_def tickets_get_def
  by (intro frame_intros)+

lemma composeOutbound_frame [frame_intros]: "act_rel (ticketing_frame t) (composeOutbound F I H t c)"
  unfolding composeOutbound_def by (intro frame_intros)

text \<open>
  C1. No operation of the ticket service touches another tenant: whatever the request contains,
  also when it fails half way, the rows of every other tenant in every table of the platform and
  of the ticketing module are unchanged after creating, updating, merging, replying, composing,
  watching, resolving into the knowledge base and running the time-based rules of the tenant.
\<close>

theorem tickets_tenant_isolation:
  "ticketing_frame tenantId s (snd (tickets_create F I tenantId c s)) \<and>
   ticketing_frame tenantId s (snd (tickets_update_ticket F I H tenantId i u actor s)) \<and>
   ticketing_frame tenantId s (snd (tickets_merge tenantId i sources s)) \<and>
   ticketing_frame tenantId s (snd (tickets_addMessage F H tenantId i m s)) \<and>
   ticketing_frame tenantId s (snd (composeOutbound F I H tenantId cmp s)) \<and>
   ticketing_frame tenantId s (snd (watch tenantId i a s)) \<and>
   ticketing_frame tenantId s (snd (unwatch tenantId i a s)) \<and>
   ticketing_frame tenantId s (snd (createFromResolvedTicket H tenantId i s)) \<and>
   ticketing_frame tenantId s (snd (sweepTenant F tenantId s))"
  using act_rel_snd [OF tickets_frames(1)] act_rel_snd [OF tickets_frames(2)] act_rel_snd [OF tickets_frames(3)]
    act_rel_snd [OF tickets_frames(4)] act_rel_snd [OF composeOutbound_frame] act_rel_snd [OF watch_frames(1)]
    act_rel_snd [OF watch_frames(2)] act_rel_snd [OF solutions_frames(6)] act_rel_snd [OF sweepTenant_frame]
  by (intro conjI) assumption+

section \<open>The life cycle of a ticket\<close>

text \<open>A predicate on the tables of the module only is kept by what the platform does.\<close>

definition module_pred :: "('s ticketing_scheme \<Rightarrow> bool) \<Rightarrow> bool" where
  "module_pred I \<longleftrightarrow> (\<forall>s t. platform.more s = platform.more t \<longrightarrow> I s = I t)"

lemma act_keepsD: "act_rel (keeps I) m \<Longrightarrow> I s \<Longrightarrow> I (snd (m s))"
  by (simp add: act_rel_def keeps_def)

lemma enqueue_keeps:
  fixes I :: "'a ticketing_scheme \<Rightarrow> bool"
  assumes "module_pred I"
  shows "act_rel (keeps I) (enqueue t c r n p)"
proof (rule act_rel_mono [OF enqueue_frame])
  fix s u :: "'a ticketing_scheme"
  assume "platform_frame t s u"
  then have "platform.more u = platform.more s" by (simp only: platform_frame_def)
  with assms have "I u = I s" unfolding module_pred_def by blast
  then show "keeps I s u" by (simp add: keeps_def)
qed

lemma tickets_ok_module: "module_pred tickets_ok"
proof -
  have "platform.more s = platform.more t \<Longrightarrow> tickets s = tickets t" for s t :: "'a ticketing_scheme"
    by (cases s; cases t) simp
  then show ?thesis unfolding module_pred_def rows_ok_def by metis
qed

lemma helpers_ok:
  "tx_rel (keeps tickets_ok) (assertBelongsToTenant F tbl qr i l)"
  "tx_rel (keeps tickets_ok) (assert_optional F tbl qr j l)"
  "tx_rel (keeps tickets_ok) (upsertContactByEmail qr t c)"
  "tx_rel (keeps tickets_ok) (nextTicketNumber qr t)"
  "tx_rel (keeps tickets_ok) (fetchSlaPolicy qr p)"
  "tx_rel (keeps tickets_ok) (hours_for t pol)"
  "tx_rel (keeps tickets_ok) (loadDefs qr)"
  "tx_rel (keeps tickets_ok) (pickAssignee qr t g sk)"
  unfolding assertBelongsToTenant_def assert_optional_def upsertContactByEmail_def nextTicketNumber_def fetchSlaPolicy_def
    hours_for_def fetchBusinessHours_def loadDefs_def pickAssignee_def assign_by_strategy_def loadGroupConfig_def
    activeGroupAgents_def openTicketCounts_def roundRobin_def
  by ((intro frame_intros row_intros); simp add: rows_ok_def)+

lemma create_ok: "act_rel (keeps tickets_ok) (tickets_create F I t dto)"
  unfolding tickets_create_def create_body_def resolve_contact_def resolve_type_def
  by (intro frame_intros row_intros helpers_ok runRules_ok tickets_tbl.sql_insert_rows)
    (simp_all add: rows_ok_def ticket_ok_def new_ticket_def closing_def)

text \<open>Assignments that leave the status, the resolution time and the identity of a ticket alone.\<close>

definition core_assignment :: "(ticket \<Rightarrow> ticket) option \<Rightarrow> bool" where
  "core_assignment f = (case f of None \<Rightarrow> True | Some g \<Rightarrow> (\<forall>t. tk_status (g t) = tk_status t \<and> tk_resolved_at (g t) = tk_resolved_at t \<and>
     row_id (g t) = row_id t \<and> tenant_id (g t) = tenant_id t \<and> tk_ticket_number (g t) = tk_ticket_number t))"

lemma apply_assignments_append: "apply_assignments (a @ b) t = apply_assignments b (apply_assignments a t)"
  by (simp add: apply_assignments_def)

lemma apply_assignments_core:
  assumes "list_all core_assignment sets"
  shows "tk_status (apply_assignments sets t) = tk_status t \<and> tk_resolved_at (apply_assignments sets t) = tk_resolved_at t \<and>
    row_id (apply_assignments sets t) = row_id t \<and> tenant_id (apply_assignments sets t) = tenant_id t \<and>
    tk_ticket_number (apply_assignments sets t) = tk_ticket_number t"
  using assms
  by (induction sets arbitrary: t) (auto simp: apply_assignments_def core_assignment_def split: option.splits)

lemma assignments_core:
  "tx_res (list_all core_assignment) (tag_assignments dto)"
  "tx_res (list_all core_assignment) (field_assignments F qr k dto)"
  "tx_res (list_all core_assignment) (type_assignments I qr t k dto)"
  unfolding tag_assignments_def field_assignments_def type_assignments_def Let_def
  by (intro res_intros; simp add: core_assignment_def)+

lemma plain_assignments_ok: "ticket_ok t \<Longrightarrow> ticket_ok (apply_assignments (plain_assignments dto now) t)"
  by (auto simp: apply_assignments_def plain_assignments_def set_required_def set_nullable_def ticket_ok_def split: option.splits)

lemma plain_assignments_ids:
  "row_id (apply_assignments (plain_assignments dto now) t) = row_id t \<and>
   tenant_id (apply_assignments (plain_assignments dto now) t) = tenant_id t \<and>
   tk_ticket_number (apply_assignments (plain_assignments dto now) t) = tk_ticket_number t"
  by (auto simp: apply_assignments_def plain_assignments_def set_required_def set_nullable_def split: option.splits)

lemma update_patch_ok:
  assumes "list_all core_assignment sets"
  shows "ticket_ok t \<Longrightarrow> ticket_ok (apply_assignments (plain_assignments dto now @ sets) t)"
  using apply_assignments_core [OF assms, of "apply_assignments (plain_assignments dto now) t"] plain_assignments_ok [of t dto now]
  by (simp add: apply_assignments_append ticket_ok_def)

lemma insert_changes_ok: "tx_rel (keeps tickets_ok) (insert_changes qr t i a cs)"
  unfolding insert_changes_def by (intro frame_intros insert_activity_ok)

lemma assignments_ok:
  "tx_rel (keeps tickets_ok) (tag_assignments dto)"
  "tx_rel (keeps tickets_ok) (field_assignments F qr k dto)"
  "tx_rel (keeps tickets_ok) (type_assignments I qr t k dto)"
  unfolding tag_assignments_def field_assignments_def type_assignments_def
  by (intro frame_intros helpers_ok)+

lemma write_update_ok:
  assumes "list_all core_assignment sets"
  shows "tx_rel (keeps tickets_ok) (write_update F t i k dto a qr now (plain_assignments dto now @ sets))"
proof -
  have "list_all core_assignment (sets @ [Some (\<lambda>t. t\<lparr>tk_updated_at := now\<rparr>)])" using assms by (simp add: core_assignment_def)
  from update_patch_ok [OF this]
  have "tx_rel (keeps tickets_ok) (sql_patch tickets tickets_update qr (by_id i)
      ((plain_assignments dto now @ sets) @ [Some (\<lambda>t. t\<lparr>tk_updated_at := now\<rparr>)]))"
    by (intro keeps_frame.sql_patch_frame tickets_tbl.sql_update_rows) simp
  then show ?thesis unfolding write_update_def by (intro keeps_frame.tx_bind_frame insert_changes_ok runRules_ok)
qed

lemma update_body_ok: "tx_rel (keeps tickets_ok) (update_body F I t i dto a qr)"
  unfolding update_body_def Let_def
  by (intro keeps_frame.tx_bind_res_frame [OF _ assignments_core(1)] keeps_frame.tx_bind_res_frame [OF _ assignments_core(2)]
      keeps_frame.tx_bind_res_frame [OF _ assignments_core(3)] keeps_frame.tx_bind_frame keeps_frame.find_row_frame
      helpers_ok sql_now_keeps tx_rel_if keeps_frame.tx_return_frame assignments_ok write_update_ok) simp_all

lemma merge_source_ok: "tx_rel (keeps tickets_ok) (merge_source t qr p i ns)"
  unfolding merge_source_def
  by (intro frame_intros row_intros insert_message_ok tickets_tbl.sql_update_rows)
    (simp_all add: rows_ok_def ticket_ok_def closing_def coalesce_def split: option.splits)

lemma merge_ok: "act_rel (keeps tickets_ok) (tickets_merge t i ss)"
  unfolding tickets_merge_def by (intro frame_intros merge_source_ok insert_message_ok)

lemma createFromResolvedTicket_ok: "act_rel (keeps tickets_ok) (createFromResolvedTicket H t i)"
  unfolding createFromResolvedTicket_def insert_solution_def latestAgentReply_def
  by (intro frame_intros row_intros) (simp_all add: rows_ok_def)

lemma enqueue_ok: "act_rel (keeps tickets_ok) (enqueue t c r n p)"
  by (rule enqueue_keeps [OF tickets_ok_module])

lemma resolveAgentEmail_ok: "act_rel (keeps tickets_ok) (resolveAgentEmail t a)"
  unfolding resolveAgentEmail_def select_agent_user_def by (intro frame_intros)

lemma send_ok:
  "act_rel (keeps tickets_ok) (notifyAgentAssignment t a k)"
  "act_rel (keeps tickets_ok) (send_outbound H t ob)"
  "act_rel (keeps tickets_ok) (send_agent_notify t n)"
  "act_rel (keeps tickets_ok) (send_watcher_notify t w)"
  unfolding notifyAgentAssignment_def send_outbound_def send_agent_notify_def send_watcher_notify_def
  by (intro frame_intros enqueue_ok resolveAgentEmail_ok)+

lemma update_ok: "act_rel (keeps tickets_ok) (tickets_update_ticket F I H t i u a)"
  unfolding tickets_update_ticket_def by (intro frame_intros update_body_ok send_ok createFromResolvedTicket_ok)

lemma gather_ok:
  "tx_rel (keeps tickets_ok) (gather_outbound qr k dto b)"
  "tx_rel (keeps tickets_ok) (gather_agent_notify H qr k dto b)"
  "tx_rel (keeps tickets_ok) (gather_watcher_notify H qr k dto b)"
  unfolding gather_outbound_def gather_agent_notify_def gather_watcher_notify_def select_agent_user_def watcherEmails_def
  by (intro frame_intros)+

lemma addMessage_ok: "act_rel (keeps tickets_ok) (tickets_addMessage F H t i m)"
  unfolding tickets_addMessage_def message_body_def
  by (intro frame_intros gather_ok send_ok helpers_ok insert_message_ok sql_now_keeps tickets_tbl.sql_update_rows)
    (simp_all add: ticket_ok_def)

lemma compose_ok: "act_rel (keeps tickets_ok) (composeOutbound F I H t c)"
  unfolding composeOutbound_def tickets_get_def by (intro frame_intros create_ok addMessage_ok)

text \<open>The time sweep writes tickets only through the actions.\<close>

lemma candidates_ok: "tx_rel (keeps I) (candidates qr rule)"
  unfolding candidates_def by (rule tx_relI) (simp add: sql_select_def keeps_def)

lemma sweepTenant_ok: "act_rel (keeps tickets_ok) (sweepTenant F t)"
  unfolding sweepTenant_def add_rule_def sweepRule_def sweep_ticket_def apply_actions_def mark_applied_def
  by (intro frame_intros row_intros applyAction_ok candidates_ok) (simp_all add: rows_ok_def)

text \<open>
  C2. The life cycle of a ticket: in every reachable state a ticket has a time of resolution exactly
  when its status is resolved or closed. Creating, updating, merging, replying, composing and the
  time-based automations keep it for every request, every automation rule of the tenant and also
  when they fail.
\<close>

theorem ticket_lifecycle_invariant:
  assumes "tickets_ok s"
  shows "tickets_ok (snd (tickets_create F I tenantId c s)) \<and>
   tickets_ok (snd (tickets_update_ticket F I H tenantId i u actor s)) \<and>
   tickets_ok (snd (tickets_merge tenantId i sources s)) \<and>
   tickets_ok (snd (tickets_addMessage F H tenantId i m s)) \<and>
   tickets_ok (snd (composeOutbound F I H tenantId cmp s)) \<and>
   tickets_ok (snd (sweepTenant F tenantId s))"
  by (intro conjI act_keepsD [OF create_ok] act_keepsD [OF update_ok] act_keepsD [OF merge_ok] act_keepsD [OF addMessage_ok]
    act_keepsD [OF compose_ok] act_keepsD [OF sweepTenant_ok] assms)

theorem ticket_lifecycle_invariant_witness:
  "tickets_ok one_ticket \<and> tickets_ok (snd (tickets_merge 1 20 [20, 21] one_ticket))"
proof -
  have "tickets_ok one_ticket" by (simp add: rows_ok_def ticket_ok_def closing_def)
  from ticket_lifecycle_invariant [OF this] this show ?thesis by blast
qed

section \<open>Ticket numbers\<close>

text \<open>The numbers given out so far and the counters they come from.\<close>

definition numbering :: "'s ticketing_scheme \<Rightarrow> (uuid \<times> nat) list \<times> number_counter list" where
  "numbering s = (map (\<lambda>k. (tenant_id k, tk_ticket_number k)) (tickets s), number_counters s)"

definition numbers_of :: "uuid \<Rightarrow> 's ticketing_scheme \<Rightarrow> nat list" where
  "numbers_of t s = map snd (filter (\<lambda>p. fst p = t) (fst (numbering s)))"

definition next_number :: "uuid \<Rightarrow> 's ticketing_scheme \<Rightarrow> nat" where
  "next_number t s = (case filter (\<lambda>c. tenant_id c = t) (snd (numbering s)) of [] \<Rightarrow> 1 | c # _ \<Rightarrow> nc_next_value c)"

text \<open>One counter per tenant, ahead of every number of the tenant; numbers are used once.\<close>

definition numbered :: "'s ticketing_scheme \<Rightarrow> bool" where
  "numbered s \<longleftrightarrow> distinct (map tenant_id (number_counters s)) \<and>
     (\<forall>t. distinct (numbers_of t s) \<and> (\<forall>n \<in> set (numbers_of t s). n < next_number t s))"

lemma numbered_cong: "numbering t = numbering s \<Longrightarrow> numbered t = numbered s"
  unfolding numbered_def numbers_of_def next_number_def by (simp add: numbering_def)

lemma numbering_ignored: "ignores_actions numbering"
  by (simp add: ignores_actions_def numbering_def map_update_rows ticket_key_def)

lemma numbering_frames:
  "tx_rel (same numbering) (assertBelongsToTenant F tbl qr i l)"
  "tx_rel (same numbering) (assert_optional F tbl qr j l)"
  "tx_rel (same numbering) (upsertContactByEmail qr t c)"
  "tx_rel (same numbering) (fetchSlaPolicy qr p)"
  "tx_rel (same numbering) (hours_for t pol)"
  "tx_rel (same numbering) (loadDefs qr)"
  "tx_rel (same numbering) (pickAssignee qr t g sk)"
  unfolding assertBelongsToTenant_def assert_optional_def upsertContactByEmail_def fetchSlaPolicy_def
    hours_for_def fetchBusinessHours_def loadDefs_def pickAssignee_def assign_by_strategy_def loadGroupConfig_def
    activeGroupAgents_def openTicketCounts_def roundRobin_def
  by ((intro frame_intros row_intros); simp add: numbering_def)+

text \<open>A body in which one step does what matters and the others leave the observed part alone.\<close>

lemma tx_rel_after_same:
  "tx_rel (same f) m \<Longrightarrow> (\<And>x. tx_rel (\<lambda>s t. Q (f s) (f t)) (g x)) \<Longrightarrow> tx_rel (\<lambda>s t. Q (f s) (f t)) (tx_bind m g)"
  unfolding tx_rel_def by (fastforce simp: tx_bind_eq_Inr same_def)

lemma tx_rel_before_same:
  "tx_rel (\<lambda>s t. Q (f s) (f t)) m \<Longrightarrow> (\<And>x. tx_rel (same f) (g x)) \<Longrightarrow> tx_rel (\<lambda>s t. Q (f s) (f t)) (tx_bind m g)"
  unfolding tx_rel_def by (fastforce simp: tx_bind_eq_Inr same_def)

definition counters_bump :: "uuid \<Rightarrow> number_counter list \<Rightarrow> number_counter list" where
  "counters_bump t cs = (if t \<in> tenant_id ` set cs
     then map (\<lambda>c. if tenant_id c = t then c\<lparr>nc_next_value := nc_next_value c + 1\<rparr> else c) cs
     else cs @ [\<lparr>row_id = t, tenant_id = t, nc_next_value = 2\<rparr>])"

lemma nextTicketNumber_run:
  assumes "nextTicketNumber qr qr s = Inr (n, t)"
  shows "n = next_number qr s \<and> numbering t = (fst (numbering s), counters_bump qr (snd (numbering s)))"
proof (cases "filter (\<lambda>c. tenant_id c = qr) (number_counters s)")
  case Nil
  then have "qr \<notin> tenant_id ` set (number_counters s)" by (auto simp: filter_empty_conv)
  with assms Nil show ?thesis
    by (auto simp: nextTicketNumber_def sql_first_def sql_insert_def tx_bind_def next_number_def numbering_def counters_bump_def
        visible_def tenant_isolation_def first_of_def)
next
  case (Cons c cs)
  then have "qr \<in> tenant_id ` set (number_counters s)" using filter_eq_ConsD by fastforce
  with assms Cons show ?thesis
    by (auto simp: nextTicketNumber_def sql_first_def sql_update_def tx_bind_def next_number_def numbering_def counters_bump_def
        visible_def tenant_isolation_def first_of_def update_rows_def Let_def split: if_splits)
qed

lemma create_rest_numbering:
  "tx_rel (\<lambda>s t. numbering t = (fst (numbering s) @ [(qr, n)], snd (numbering s)))
     (tx_bind (sql_insert tickets_update qr (new_ticket i qr dto n c g a sl dd now cf)) (\<lambda>k. runRules F qr Ticket_Created k qr))"
proof (rule tx_rel_before_same [where f = numbering and Q = "\<lambda>a b. b = (fst a @ [(qr, n)], snd a)"])
  show "tx_rel (\<lambda>s t. numbering t = (fst (numbering s) @ [(qr, n)], snd (numbering s)))
     (sql_insert tickets_update qr (new_ticket i qr dto n c g a sl dd now cf))"
    by (rule tx_relI) (auto simp: sql_insert_def numbering_def new_ticket_def split: if_splits)
qed (rule runRules_same [OF numbering_ignored])

lemma create_after_number:
  "tx_rel (\<lambda>s t. numbering t = (fst (numbering s) @ [(qr, n)], snd (numbering s)))
     (tx_bind sql_now (\<lambda>createdAt.
     tx_bind (tx_lift (calculateDueDates I createdAt sp bh)) (\<lambda>dueDates.
     tx_bind (loadDefs qr) (\<lambda>defs.
     tx_bind (checked_fields F defs (nt_customFields dto)) (\<lambda>customFields.
     tx_bind (case (nt_agentId dto, g) of
         (Some a, _) \<Rightarrow> tx_return (Some a)
       | (None, Some g) \<Rightarrow> pickAssignee qr qr g (nt_requiredSkill dto)
       | (None, None) \<Rightarrow> tx_return None) (\<lambda>agentId.
     tx_bind gen_random_uuid (\<lambda>i.
     tx_bind (sql_insert tickets_update qr (new_ticket i qr dto n c g agentId sl dueDates createdAt customFields)) (\<lambda>k.
     runRules F qr Ticket_Created k qr))))))))"
  by (intro tx_rel_after_same [where f = numbering and Q = "\<lambda>a b. b = (fst a @ [(qr, n)], snd a)"] create_rest_numbering
      frame_intros row_intros numbering_frames) (simp_all add: numbering_def)

lemma resolve_numbering:
  "tx_rel (same numbering) (resolve_contact F qr t dto)" "tx_rel (same numbering) (resolve_type F qr dto)"
  unfolding resolve_contact_def resolve_type_def by (intro frame_intros numbering_frames)+

lemma create_body_numbering:
  fixes s :: "'a ticketing_scheme"
  assumes "create_body F I qr dto qr s = Inr (k, t)"
  shows "numbering t = (fst (numbering s) @ [(qr, next_number qr s)], counters_bump qr (snd (numbering s)))"
proof -
  define Q where "Q = (\<lambda>a b :: (uuid \<times> nat) list \<times> number_counter list. b = (fst a @ [(qr, case filter (\<lambda>c. tenant_id c = qr) (snd a) of [] \<Rightarrow> 1 | c # _ \<Rightarrow> nc_next_value c)], counters_bump qr (snd a)))"
  have numbered_rest: "tx_rel (\<lambda>s t. Q (numbering s) (numbering t)) (tx_bind (nextTicketNumber qr qr) g)"
    if "\<And>n. tx_rel (\<lambda>s t. numbering t = (fst (numbering s) @ [(qr, n)], snd (numbering s))) (g n)" for g :: "nat \<Rightarrow> ('a ticketing_scheme, ticket) tx"
  proof (rule tx_relI)
    fix s y t
    assume "tx_bind (nextTicketNumber qr qr) g s = Inr (y, t)"
    then obtain n u where n: "nextTicketNumber qr qr s = Inr (n, u)" and g: "g n u = Inr (y, t)" by (auto simp: tx_bind_eq_Inr)
    from nextTicketNumber_run [OF n] tx_relD [OF that g] show "Q (numbering s) (numbering t)" by (simp add: Q_def next_number_def)
  qed
  have "tx_rel (\<lambda>(s :: 'a ticketing_scheme) t. Q (numbering s) (numbering t)) (create_body F I qr dto qr)"
    unfolding create_body_def
    by ((rule numbered_rest, rule create_after_number) | rule tx_rel_after_same [where f = numbering and Q = Q] |
        rule tx_rel_prod | rule numbering_frames resolve_numbering)+
  from tx_relD [OF this assms] show ?thesis by (simp add: Q_def next_number_def)
qed

lemma filter_counters_bump:
  "filter (\<lambda>c. tenant_id c = x) (counters_bump qr cs)
   = (if x \<noteq> qr then filter (\<lambda>c. tenant_id c = x) cs
      else if filter (\<lambda>c. tenant_id c = qr) cs = [] then [\<lparr>row_id = qr, tenant_id = qr, nc_next_value = 2\<rparr>]
      else map (\<lambda>c. c\<lparr>nc_next_value := nc_next_value c + 1\<rparr>) (filter (\<lambda>c. tenant_id c = qr) cs))"
proof -
  have "filter (\<lambda>c. tenant_id c = x) (map (\<lambda>c. if tenant_id c = qr then c\<lparr>nc_next_value := nc_next_value c + 1\<rparr> else c) cs)
    = (if x \<noteq> qr then filter (\<lambda>c. tenant_id c = x) cs
       else map (\<lambda>c. c\<lparr>nc_next_value := nc_next_value c + 1\<rparr>) (filter (\<lambda>c. tenant_id c = qr) cs))"
    by (induction cs) auto
  then show ?thesis by (auto simp: counters_bump_def filter_empty_conv)
qed

lemma next_number_bump:
  assumes "snd (numbering t) = counters_bump qr (snd (numbering s))"
  shows "next_number x t = (if x = qr then Suc (next_number qr s) else next_number x s)"
  unfolding next_number_def assms filter_counters_bump by (auto split: list.splits)

lemma counters_bump_distinct: "distinct (map tenant_id cs) \<Longrightarrow> distinct (map tenant_id (counters_bump qr cs))"
  by (auto simp: counters_bump_def comp_def if_distrib cong: if_cong)

text \<open>What is observable of the numbering stays when a ticket is updated, merged or answered.\<close>

lemma sql_update_numbering:
  "(\<And>k. tenant_id (g k) = tenant_id k \<and> tk_ticket_number (g k) = tk_ticket_number k) \<Longrightarrow>
    tx_rel (same numbering) (sql_update tickets tickets_update qr W g)"
  by (rule sql_update_same) (simp add: numbering_def map_update_rows)

lemma apply_assignments_numbering:
  "list_all core_assignment sets \<Longrightarrow>
    tenant_id (apply_assignments (plain_assignments dto now @ sets) k) = tenant_id k \<and>
    tk_ticket_number (apply_assignments (plain_assignments dto now @ sets) k) = tk_ticket_number k"
  by (simp add: apply_assignments_append apply_assignments_core plain_assignments_ids)

lemma insert_changes_same: "ignores_actions f \<Longrightarrow> tx_rel (same f) (insert_changes qr t i a cs)"
  unfolding insert_changes_def by (intro frame_intros insert_activity_same)

lemma write_update_numbering:
  assumes "list_all core_assignment sets"
  shows "tx_rel (same numbering) (write_update F t i k dto a qr now (plain_assignments dto now @ sets))"
proof -
  have "list_all core_assignment (sets @ [Some (\<lambda>t. t\<lparr>tk_updated_at := now\<rparr>)])" using assms by (simp add: core_assignment_def)
  from apply_assignments_numbering [OF this]
  have "tx_rel (same numbering) (sql_patch tickets tickets_update qr (by_id i)
      ((plain_assignments dto now @ sets) @ [Some (\<lambda>t. t\<lparr>tk_updated_at := now\<rparr>)]))"
    by (intro same_frame.sql_patch_frame sql_update_numbering) simp
  then show ?thesis unfolding write_update_def
    by (intro same_frame.tx_bind_frame insert_changes_same runRules_same numbering_ignored)
qed

lemma update_body_numbering: "tx_rel (same numbering) (update_body F I t i dto a qr)"
  unfolding update_body_def Let_def
  by (intro same_frame.tx_bind_res_frame [OF _ assignments_core(1)] same_frame.tx_bind_res_frame [OF _ assignments_core(2)]
      same_frame.tx_bind_res_frame [OF _ assignments_core(3)] same_frame.tx_bind_frame same_frame.find_row_frame
      numbering_frames sql_now_same tx_rel_if same_frame.tx_return_frame write_update_numbering)
    (simp_all, unfold tag_assignments_def field_assignments_def type_assignments_def, (intro frame_intros numbering_frames)+)

lemma merge_body_numbering: "tx_rel (same numbering) (merge_source t qr p i ns)"
  unfolding merge_source_def
  by (intro frame_intros sql_update_numbering sql_now_same insert_message_same numbering_ignored sql_update_same)
    (simp_all add: numbering_def)

lemma numbering_module: "module_pred (\<lambda>s. numbering s = v)"
proof -
  have "platform.more s = platform.more t \<Longrightarrow> numbering s = numbering t" for s t :: "'a ticketing_scheme"
    by (cases s; cases t) (simp add: numbering_def)
  then show ?thesis unfolding module_pred_def by metis
qed

lemma enqueue_numbering: "act_rel (same numbering) (enqueue t c r n p)"
  using enqueue_keeps [OF numbering_module] unfolding act_rel_def keeps_def same_def by blast

lemma send_numbering:
  "act_rel (same numbering) (notifyAgentAssignment t a k)"
  "act_rel (same numbering) (send_outbound H t ob)"
  "act_rel (same numbering) (send_agent_notify t n)"
  "act_rel (same numbering) (send_watcher_notify t w)"
  "act_rel (same numbering) (createFromResolvedTicket H t i)"
  unfolding notifyAgentAssignment_def send_outbound_def send_agent_notify_def send_watcher_notify_def createFromResolvedTicket_def
    resolveAgentEmail_def select_agent_user_def insert_solution_def latestAgentReply_def
  by ((intro frame_intros enqueue_numbering row_intros); simp add: numbering_def)+

lemma gather_same:
  "tx_rel (same f) (gather_outbound qr k dto b)"
  "tx_rel (same f) (gather_agent_notify H qr k dto b)"
  "tx_rel (same f) (gather_watcher_notify H qr k dto b)"
  unfolding gather_outbound_def gather_agent_notify_def gather_watcher_notify_def select_agent_user_def watcherEmails_def
  by (intro frame_intros)+

lemma operations_numbering:
  "act_rel (same numbering) (tickets_update_ticket F I H t i u a)"
  "act_rel (same numbering) (tickets_merge t i ss)"
  "act_rel (same numbering) (tickets_addMessage F H t i m)"
  unfolding tickets_update_ticket_def tickets_merge_def tickets_addMessage_def message_body_def
  by ((intro frame_intros update_body_numbering send_numbering merge_body_numbering insert_message_same numbering_ignored
      gather_same numbering_frames sql_now_same sql_update_numbering); simp)+

lemma candidates_same: "tx_rel (same f) (candidates qr rule)"
  unfolding candidates_def by (rule tx_relI) (simp add: sql_select_def same_def)

lemma other_operations_numbering:
  "act_rel (same numbering) (watch t i a)"
  "act_rel (same numbering) (unwatch t i a)"
  "act_rel (same numbering) (sweepTenant F t)"
  "act_rel (same numbering) (tickets_get t i)"
  unfolding watch_def unwatch_def watcherEmails_def sweepTenant_def add_rule_def sweepRule_def sweep_ticket_def apply_actions_def
    mark_applied_def tickets_get_def
  by ((intro frame_intros row_intros fk_check_same applyAction_same numbering_ignored candidates_same)+; simp add: numbering_def)+

lemmas operations_numbering_snd = operations_numbering [THEN act_rel_snd, unfolded same_def]
  other_operations_numbering [THEN act_rel_snd, unfolded same_def] send_numbering(5) [THEN act_rel_snd, unfolded same_def]

text \<open>One number was given out, the next one of the tenant.\<close>

definition gives_next_number :: "uuid \<Rightarrow> 's ticketing_scheme \<Rightarrow> 's ticketing_scheme \<Rightarrow> bool" where
  "gives_next_number tenantId s t \<longleftrightarrow>
     (\<forall>x. numbers_of x t = (if x = tenantId then numbers_of x s @ [next_number x s] else numbers_of x s) \<and>
          next_number x t = (if x = tenantId then Suc (next_number x s) else next_number x s))"

lemma gives_next_cong: "numbering u = numbering t \<Longrightarrow> gives_next_number tenantId s u = gives_next_number tenantId s t"
  unfolding gives_next_number_def numbers_of_def next_number_def by simp

lemma create_numbering:
  assumes "numbered s" and "tickets_create F I tenantId c s = (res, t)"
  shows "numbered t \<and> (if isl res then numbering t = numbering s else gives_next_number tenantId s t)"
proof (cases res)
  case (Inl e)
  with assms have "t = s" by (auto simp: tickets_create_def withTenantContext_Inl act_throw_def split: if_splits)
  with Inl assms(1) show ?thesis by simp
next
  case (Inr k)
  with assms(2) have "create_body F I tenantId c tenantId s = Inr (k, t)"
    by (auto simp: tickets_create_def withTenantContext_Inr act_throw_def split: if_splits)
  from create_body_numbering [OF this]
  have n: "fst (numbering t) = fst (numbering s) @ [(tenantId, next_number tenantId s)]"
    and c: "snd (numbering t) = counters_bump tenantId (snd (numbering s))" by simp_all
  have x: "numbers_of x t = (if x = tenantId then numbers_of x s @ [next_number x s] else numbers_of x s)" for x
    by (simp add: numbers_of_def n)
  have "distinct (map tenant_id (number_counters t))"
    using assms(1) c counters_bump_distinct unfolding numbered_def numbering_def by force
  then have "numbered t"
    using assms(1) unfolding numbered_def x next_number_bump [OF c] by (force intro: less_SucI)
  with Inr x next_number_bump [OF c] show ?thesis by (simp add: gives_next_number_def)
qed

text \<open>Composing creates the ticket, and what it does afterwards leaves the numbers alone, also when it fails there.\<close>

lemma compose_numbering:
  assumes "numbered s" and "composeOutbound F I H tenantId cmp s = (res, t)"
  shows "numbered t \<and> (gives_next_number tenantId s t \<or> isl res \<and> numbering t = numbering s)"
proof (cases "cmp_contactId cmp = None \<and> cmp_contact cmp = None")
  case True
  with assms show ?thesis by (auto simp: composeOutbound_def act_throw_def)
next
  case False
  let ?dto = "\<lparr>nt_subject = cmp_subject cmp, nt_contactId = cmp_contactId cmp, nt_contact = cmp_contact cmp, nt_source = Agent_Outbound,
     nt_sourceDetail = None, nt_ticketTypeId = None, nt_groupId = cmp_groupId cmp, nt_agentId = cmp_agentId cmp,
     nt_requiredSkill = None, nt_resourceId = None, nt_priority = None, nt_platform = None, nt_tags = None, nt_customFields = None\<rparr>"
  let ?rest = "\<lambda>k. act_bind (tickets_addMessage F H tenantId (row_id k)
       \<lparr>am_type = Reply, am_authorType = By_Agent, am_authorId = None, am_body = cmp_body cmp, am_cc = None\<rparr>) (\<lambda>_. tickets_get tenantId (row_id k))"
  obtain r u where create: "tickets_create F I tenantId ?dto s = (r, u)" by fastforce
  note created = create_numbering [OF assms(1) create]
  show ?thesis
  proof (cases r)
    case (Inl e)
    with create False assms(2) have "isl res" "t = u" by (auto simp: composeOutbound_def act_bind_def)
    with created Inl show ?thesis by simp
  next
    case (Inr k)
    with create False assms(2) have t: "t = snd (?rest k u)" by (auto simp: composeOutbound_def act_bind_def split: prod.splits sum.splits)
    have "act_rel (same numbering) (?rest k)" by (intro frame_intros operations_numbering other_operations_numbering)
    then have "same numbering u t" unfolding t by (rule act_rel_snd)
    then have "numbering t = numbering u" by (simp add: same_def)
    with created Inr show ?thesis using gives_next_cong numbered_cong by (metis sum.disc(2))
  qed
qed

text \<open>
  C8. Ticket numbers are consecutive and never reused: as long as every tenant has one counter ahead
  of its tickets, a successful creation gives the new ticket of that tenant the next number and
  moves the counter by one, a failed one uses up no number, and other tenants keep their numbers and
  counters. Composing an outbound mail gives out one number as well, also when the mail fails after
  the ticket was created, and none if the creation fails. Updating, merging and answering tickets,
  watching them, turning them into articles and the time-based automations change none of it. (The
  import from Freshdesk, which sets the counter, is not among these operations.)
\<close>

theorem ticket_numbers_sequential:
  assumes "numbered s" and "tickets_create F I tenantId c s = (res, t)" and "composeOutbound F I H tenantId cmp s = (res', t')"
  shows "numbered t \<and> (if isl res then numbering t = numbering s else gives_next_number tenantId s t) \<and>
    numbered t' \<and> (gives_next_number tenantId s t' \<or> isl res' \<and> numbering t' = numbering s) \<and>
    numbering (snd (tickets_update_ticket F I H tenantId i u a s)) = numbering s \<and>
    numbering (snd (tickets_merge tenantId i ss s)) = numbering s \<and>
    numbering (snd (tickets_addMessage F H tenantId i m s)) = numbering s \<and>
    numbering (snd (watch tenantId i w s)) = numbering s \<and>
    numbering (snd (unwatch tenantId i w s)) = numbering s \<and>
    numbering (snd (createFromResolvedTicket H tenantId i s)) = numbering s \<and>
    numbering (snd (sweepTenant F tenantId s)) = numbering s"
  using create_numbering [OF assms(1,2)] compose_numbering [OF assms(1,3)] by (simp add: operations_numbering_snd)

definition counted_ticket :: ticketing where
  "counted_ticket = one_ticket\<lparr>number_counters := [\<lparr>row_id = 1, tenant_id = 1, nc_next_value = 2\<rparr>]\<rparr>"

definition plain_request :: CreateTicket where
  "plain_request = \<lparr>nt_subject = ''Scanner'', nt_contactId = None, nt_contact = Some \<lparr>ic_name = ''Eve'', ic_email = ''eve@x.org''\<rparr>,
     nt_source = Src_Api, nt_sourceDetail = None, nt_ticketTypeId = None, nt_groupId = None, nt_agentId = None, nt_requiredSkill = None,
     nt_resourceId = None, nt_priority = None, nt_platform = None, nt_tags = None, nt_customFields = None\<rparr>"

lemma plain_request_created: "\<exists>k t. tickets_create unary_format utc_only 1 plain_request counted_ticket = (Inr k, t)"
  by (simp add: tickets_create_def withTenantContext_def create_body_def plain_request_def resolve_contact_def resolve_type_def
      upsertContactByEmail_def tx_bind_def Let_def sql_first_def counted_ticket_def sql_insert_def gen_random_uuid_def sql_now_def
      tenant_isolation_def assert_optional_def fetchSlaPolicy_def hours_for_def nextTicketNumber_def sql_update_def update_rows_def
      visible_def first_of_def tx_lift_def calculateDueDates_def loadDefs_def sql_select_def checked_fields_def runRules_def new_ticket_def
      validateCustomFields_def order_by_def del: One_nat_def)

theorem ticket_numbers_sequential_witness:
  "\<exists>k t. tickets_create unary_format utc_only 1 plain_request counted_ticket = (Inr k, t) \<and> numbered t \<and> numbers_of 1 t = [1, 2]"
proof -
  obtain k t where run: "tickets_create unary_format utc_only 1 plain_request counted_ticket = (Inr k, t)"
    using plain_request_created by blast
  have "numbered counted_ticket"
    by (auto simp: numbered_def numbers_of_def next_number_def numbering_def counted_ticket_def printer_ticket_def)
  from ticket_numbers_sequential [OF this run prod.collapse [symmetric]] have "numbered t" "numbers_of 1 t = numbers_of 1 counted_ticket @ [next_number 1 counted_ticket]"
    by (auto simp: gives_next_number_def)
  with run show ?thesis
    by (auto simp: numbers_of_def next_number_def numbering_def counted_ticket_def printer_ticket_def)
qed

end
