(* ===== verification/Ticket_Merging.thy ===== *)
theory Ticket_Merging
  imports Ticket_Properties
begin

text \<open>
  What merging tickets and answering them does: where the conversation ends up, what happens to the
  merged tickets, and when the first response is recorded.
\<close>

section \<open>Merging\<close>

text \<open>The ids that are really merged: other tickets of the tenant that are not merged yet.\<close>

definition mergeable :: "uuid \<Rightarrow> uuid \<Rightarrow> 's ticketing_scheme \<Rightarrow> uuid \<Rightarrow> bool" where
  "mergeable T p s i \<longleftrightarrow> i \<noteq> p \<and> (\<exists>k \<in> set (tickets s). tenant_id k = T \<and> row_id k = i \<and> tk_merged_into_id k = None)"

definition close_merged :: "uuid \<Rightarrow> uuid \<Rightarrow> msec \<Rightarrow> uuid set \<Rightarrow> ticket list \<Rightarrow> ticket list" where
  "close_merged T p now M = map (\<lambda>k. if tenant_id k = T \<and> row_id k \<in> M
     then k\<lparr>tk_status := Closed, tk_resolved_at := coalesce (tk_resolved_at k) (Some now), tk_merged_into_id := Some p, tk_updated_at := now\<rparr>
     else k)"

definition move_messages :: "uuid \<Rightarrow> uuid \<Rightarrow> uuid set \<Rightarrow> ticket_message list \<Rightarrow> ticket_message list" where
  "move_messages T p M = map (\<lambda>m. if tenant_id m = T \<and> ms_ticket_id m \<in> M then m\<lparr>ms_ticket_id := p\<rparr> else m)"

definition move_attachments :: "uuid \<Rightarrow> uuid \<Rightarrow> uuid set \<Rightarrow> attachment list \<Rightarrow> attachment list" where
  "move_attachments T p M = map (\<lambda>a. if tenant_id a = T \<and> at_ticket_id a \<in> M then a\<lparr>at_ticket_id := p\<rparr> else a)"

definition system_note :: "uuid \<Rightarrow> uuid set \<Rightarrow> ticket_message \<Rightarrow> bool" where
  "system_note T M m \<longleftrightarrow> tenant_id m = T \<and> ms_type m = Note \<and> ms_author_type m = By_System \<and> ms_ticket_id m \<in> M"

text \<open>What merging the set \<open>M\<close> into \<open>p\<close> makes of a state.\<close>

definition merged :: "uuid \<Rightarrow> uuid \<Rightarrow> uuid set \<Rightarrow> 's ticketing_scheme \<Rightarrow> 's ticketing_scheme \<Rightarrow> bool" where
  "merged T p M s t \<longleftrightarrow> clock t = clock s \<and> tickets t = close_merged T p (clock s) M (tickets s) \<and>
     ticket_attachments t = move_attachments T p M (ticket_attachments s) \<and>
     (\<exists>notes. ticket_messages t = move_messages T p M (ticket_messages s) @ notes \<and> list_all (system_note T M) notes)"

lemma merged_empty: "merged T p {} s s"
  by (simp add: merged_def close_merged_def move_messages_def move_attachments_def)

lemma close_merged_unmerged:
  "(\<exists>k \<in> set (close_merged T p now M ks). tenant_id k = T \<and> row_id k = i \<and> tk_merged_into_id k = None) \<longleftrightarrow>
   (\<exists>k \<in> set ks. tenant_id k = T \<and> row_id k = i \<and> tk_merged_into_id k = None) \<and> i \<notin> M"
  by (induction ks) (auto simp: close_merged_def)

lemma merged_mergeable: "merged T p M s t \<Longrightarrow> mergeable T p t i \<longleftrightarrow> mergeable T p s i \<and> i \<notin> M"
  by (simp add: merged_def mergeable_def close_merged_unmerged)

lemma close_merged_ids: "map (\<lambda>k. (row_id k, tenant_id k)) (close_merged T p now M ks) = map (\<lambda>k. (row_id k, tenant_id k)) ks"
  by (induction ks) (simp_all add: close_merged_def)

lemma merged_ids: "merged T p M s t \<Longrightarrow> map (\<lambda>k. (row_id k, tenant_id k)) (tickets t) = map (\<lambda>k. (row_id k, tenant_id k)) (tickets s)"
  by (simp add: merged_def close_merged_ids)

lemma ids_of_keys: "map (\<lambda>k. (row_id k, tenant_id k)) ks = map (\<lambda>k. (row_id k, tenant_id k)) ls \<Longrightarrow> map row_id ks = map row_id ls"
  by (drule arg_cong [of _ _ "map fst"]) (simp add: comp_def)

lemma close_merged_twice:
  assumes "M \<inter> M' = {}"
  shows "close_merged T p now M' (close_merged T p now M ks) = close_merged T p now (M \<union> M') ks"
proof -
  have "\<not> (row_id k \<in> M \<and> row_id k \<in> M')" for k :: ticket using assms by blast
  then show ?thesis unfolding close_merged_def map_map by (intro map_cong refl) (simp add: comp_def, blast)
qed

lemma merged_trans:
  assumes "merged T p M s t" and "merged T p M' t u" and "p \<notin> M'" and "M \<inter> M' = {}"
  shows "merged T p (M \<union> M') s u"
proof -
  obtain n n' where
    n: "ticket_messages t = move_messages T p M (ticket_messages s) @ n" "list_all (system_note T M) n" and
    n': "ticket_messages u = move_messages T p M' (ticket_messages t) @ n'" "list_all (system_note T M') n'"
    using assms(1,2) by (auto simp: merged_def)
  have "move_messages T p M' n = n" unfolding move_messages_def
    by (rule map_idI) (use n(2) assms(4) in \<open>auto simp: list_all_iff system_note_def\<close>)
  moreover have "move_messages T p M' (move_messages T p M ms) = move_messages T p (M \<union> M') ms" for ms
    using assms(3) by (auto simp: move_messages_def)
  ultimately have "ticket_messages u = move_messages T p (M \<union> M') (ticket_messages s) @ n @ n'"
    using n n' by (simp add: move_messages_def)
  moreover have "list_all (system_note T (M \<union> M')) (n @ n')"
    using n(2) n'(2) by (auto simp: list_all_iff system_note_def)
  moreover have "move_attachments T p M' (move_attachments T p M as) = move_attachments T p (M \<union> M') as" for as
    using assms(3) by (auto simp: move_attachments_def)
  ultimately show ?thesis using assms(1,2) close_merged_twice [OF assms(4)] unfolding merged_def by metis
qed

lemma merge_source_merged:
  assumes "merge_source T T primary i ns s = Inr (ns', t)" and "distinct (map row_id (tickets s))"
  shows "merged T (row_id primary) (if mergeable T (row_id primary) s i then {i} else {}) s t"
proof (cases "i = row_id primary")
  case True
  with assms(1) show ?thesis by (simp add: merge_source_def mergeable_def merged_empty)
next
  case False
  with assms(1) obtain k ks where k: "filter (by_id i) (visible T (tickets s)) = k # ks"
    by (cases "filter (by_id i) (visible T (tickets s))")
      (auto simp: merge_source_def find_row_def sql_first_def tx_bind_def)
  then have "k \<in> set (filter (by_id i) (visible T (tickets s)))" by simp
  then have kin: "k \<in> set (tickets s)" "tenant_id k = T" "row_id k = i" by (auto simp: by_id_def)
  then have m: "mergeable T (row_id primary) s i \<longleftrightarrow> tk_merged_into_id k = None"
    using False assms(2) by (auto simp: mergeable_def dest: row_id_inj)
  show ?thesis
  proof (cases "tk_merged_into_id k = None")
    case False
    with assms(1) k m show ?thesis
      by (auto simp: merge_source_def find_row_def sql_first_def tx_bind_def merged_empty split: if_splits)
  next
    case True
    with assms(1) k m \<open>i \<noteq> row_id primary\<close> show ?thesis
      by (auto simp: merge_source_def find_row_def sql_first_def tx_bind_def sql_update_def Let_def sql_now_def insert_message_def
          gen_random_uuid_def sql_insert_def merged_def update_rows_def tenant_isolation_def close_merged_def by_id_def
          move_messages_def move_attachments_def system_note_def split: if_splits)
  qed
qed

lemma merge_fold_merged:
  assumes "tx_fold (merge_source T T primary) is ns s = Inr (ns', t)" and "distinct (map row_id (tickets s))"
  shows "merged T (row_id primary) {i \<in> set is. mergeable T (row_id primary) s i} s t"
  using assms
proof (induction "is" arbitrary: ns s)
  case Nil
  then show ?case by (simp add: merged_empty)
next
  case (Cons i "is")
  from Cons.prems(1) obtain n u where u: "merge_source T T primary i ns s = Inr (n, u)"
    "tx_fold (merge_source T T primary) is n u = Inr (ns', t)" by (auto simp: tx_bind_eq_Inr)
  let ?M = "if mergeable T (row_id primary) s i then {i} else {}"
  note su = merge_source_merged [OF u(1) Cons.prems(2)]
  have "distinct (map row_id (tickets u))" using ids_of_keys [OF merged_ids [OF su]] Cons.prems(2) by simp
  moreover have "row_id primary \<notin> {j \<in> set is. mergeable T (row_id primary) u j}" by (simp add: mergeable_def)
  moreover have "?M \<inter> {j \<in> set is. mergeable T (row_id primary) u j} = {}" by (auto simp: merged_mergeable [OF su])
  ultimately have "merged T (row_id primary) (?M \<union> {j \<in> set is. mergeable T (row_id primary) u j}) s t"
    by (intro merged_trans [OF su] Cons.IH [OF u(2)])
  moreover have "?M \<union> {j \<in> set is. mergeable T (row_id primary) u j} = {j \<in> set (i # is). mergeable T (row_id primary) s j}"
    by (auto simp: merged_mergeable [OF su])
  ultimately show ?case by simp
qed

lemma tickets_merge_run:
  assumes "tickets_merge T p is s = (Inr k, t)"
  obtains primary ns u where "primary \<in> set (tickets s)" "row_id primary = p" "tenant_id primary = T"
    and "tx_fold (merge_source T T primary) is [] s = Inr (ns, u)"
    and "clock t = clock u" "tickets t = tickets u" "ticket_attachments t = ticket_attachments u"
    and "\<exists>notes. ticket_messages t = ticket_messages u @ notes \<and> list_all (system_note T {p}) notes"
proof -
  from assms obtain primary ns u where "find_row ''Ticket'' tickets T p s = Inr (primary, s)"
    and u: "tx_fold (merge_source T T primary) is [] s = Inr (ns, u)"
    and t: "tx_bind (if ns = [] then tx_return () else tx_bind (insert_message T T p Note By_System None
        (''Merged in ticket(s): '' @ js_join '', '' (map hash_number ns) @ ''.'') []) (\<lambda>_. tx_return ())) (\<lambda>_.
          find_row ''Ticket'' tickets T p) u = Inr (k, t)"
    by (auto simp: tickets_merge_def withTenantContext_Inr tx_bind_eq_Inr [of "find_row l tbl qr i" for l tbl qr i]
        tx_bind_eq_Inr [of "tx_fold f xs v" for f xs v] find_row_eq_Inr)
  then have "primary \<in> set (tickets s)" "row_id primary = p" "tenant_id primary = T"
    by (auto simp: find_row_eq_Inr by_id_def dest!: first_of_filter_SomeD)
  moreover have "clock t = clock u \<and> tickets t = tickets u \<and> ticket_attachments t = ticket_attachments u \<and>
      (\<exists>notes. ticket_messages t = ticket_messages u @ notes \<and> list_all (system_note T {p}) notes)"
    using t by (auto simp: tx_bind_eq_Inr find_row_eq_Inr insert_message_def gen_random_uuid_def sql_now_def sql_insert_def
        system_note_def split: if_splits)
  ultimately show ?thesis using that u by blast
qed

lemma tickets_merge_effect:
  assumes "tickets_merge tenantId primaryId sources s = (Inr k, t)" and "distinct (map row_id (tickets s))"
  defines "M \<equiv> {i \<in> set sources. mergeable tenantId primaryId s i}"
  shows "tickets t = close_merged tenantId primaryId (clock s) M (tickets s) \<and>
    ticket_attachments t = move_attachments tenantId primaryId M (ticket_attachments s) \<and>
    (\<exists>notes. ticket_messages t = move_messages tenantId primaryId M (ticket_messages s) @ notes \<and>
       list_all (system_note tenantId (insert primaryId M)) notes)"
proof -
  obtain primary ns u where p: "row_id primary = primaryId" and u: "tx_fold (merge_source tenantId tenantId primary) sources [] s = Inr (ns, u)"
    and t: "tickets t = tickets u" "ticket_attachments t = ticket_attachments u"
      "\<exists>notes. ticket_messages t = ticket_messages u @ notes \<and> list_all (system_note tenantId {primaryId}) notes"
    by (rule tickets_merge_run [OF assms(1)]) blast
  from merge_fold_merged [OF u assms(2)] p have m: "merged tenantId primaryId M s u" by (simp add: M_def)
  then obtain n where n: "ticket_messages u = move_messages tenantId primaryId M (ticket_messages s) @ n"
    "list_all (system_note tenantId M) n" by (auto simp: merged_def)
  from t(3) obtain n' where n': "ticket_messages t = ticket_messages u @ n'" "list_all (system_note tenantId {primaryId}) n'" by blast
  have "list_all (system_note tenantId (insert primaryId M)) (n @ n')"
    using n(2) n'(2) by (auto simp: list_all_iff system_note_def)
  with m t(1,2) n(1) n'(1) show ?thesis by (auto simp: merged_def)
qed

text \<open>
  C9. Merging loses nothing: of the given tickets exactly those of the tenant that are not the primary
  and not merged already are closed, keep an earlier time of resolution and point to the primary; all
  their messages and attachments move to the primary with author, text and order kept; every other
  ticket, message and attachment is untouched, and the only new messages are system notes on the
  tickets concerned.
\<close>

theorem merge_moves_conversation:
  assumes "tickets_merge tenantId primaryId sources s = (Inr k, t)" and "distinct (map row_id (tickets s))"
  defines "M \<equiv> {i \<in> set sources. mergeable tenantId primaryId s i}"
  shows "tickets t = close_merged tenantId primaryId (clock s) M (tickets s) \<and>
    ticket_attachments t = move_attachments tenantId primaryId M (ticket_attachments s) \<and>
    (\<exists>notes. ticket_messages t = move_messages tenantId primaryId M (ticket_messages s) @ notes \<and>
       list_all (system_note tenantId (insert primaryId M)) notes)"
  unfolding M_def by (rule tickets_merge_effect [OF assms(1,2)])

definition two_tickets :: ticketing where
  "two_tickets = one_ticket\<lparr>tickets := [printer_ticket, printer_ticket\<lparr>row_id := 21, tk_ticket_number := 2\<rparr>]\<rparr>"

lemma merge_source_succeeds:
  assumes "k \<in> set (tickets s)" and "row_id k = i" and "tenant_id k = T"
  shows "\<exists>ns' t. merge_source T T primary i ns s = Inr (ns', t)"
proof -
  obtain r where r: "find_row ''Ticket'' tickets T i s = Inr (r, s)"
    using find_row_found [of k tickets, OF assms] by blast
  show ?thesis
    by (simp add: merge_source_def tx_bind_def r sql_update_def Let_def sql_now_def insert_message_def gen_random_uuid_def sql_insert_def
        tenant_isolation_def list_all_iff visible_def)
qed

text \<open>Merging one ticket into another always succeeds.\<close>

lemma tickets_merge_succeeds:
  fixes s :: "'a ticketing_scheme"
  assumes "k \<in> set (tickets s)" "row_id k = p" "tenant_id k = T" and "j \<in> set (tickets s)" "row_id j = i" "tenant_id j = T"
    and "distinct (map row_id (tickets s))"
  shows "\<exists>r t. tickets_merge T p [i] s = (Inr r, t)"
proof -
  obtain primary where p: "find_row ''Ticket'' tickets T p s = Inr (primary, s)"
    using find_row_found [of k tickets, OF assms(1-3)] by blast
  obtain ns u where u: "merge_source T T primary i [] s = Inr (ns, u)" using merge_source_succeeds [OF assms(4-6)] by blast
  have "(p, T) \<in> set (map (\<lambda>k. (row_id k, tenant_id k)) (tickets s))" using assms(1-3) by force
  with merged_ids [OF merge_source_merged [OF u assms(7)]]
  have "(p, T) \<in> set (map (\<lambda>k. (row_id k, tenant_id k)) (tickets u))" by simp
  then obtain k' where k': "k' \<in> set (tickets u)" "row_id k' = p" "tenant_id k' = T" by auto
  then have f: "\<exists>r. find_row ''Ticket'' tickets T p v = Inr (r, v)" if "tickets v = tickets u" for v
    using that by (intro find_row_found) simp_all
  define add_note :: "('a ticketing_scheme, unit) tx" where "add_note = (if ns = [] then tx_return () else tx_bind (insert_message T T p Note By_System None
      (''Merged in ticket(s): '' @ js_join '', '' (map hash_number ns) @ ''.'') []) (\<lambda>_. tx_return ()))"
  obtain v where v: "add_note u = Inr ((), v)" "tickets v = tickets u"
    by (cases "ns = []") (simp_all add: add_note_def tx_bind_def insert_message_def gen_random_uuid_def sql_now_def sql_insert_def tenant_isolation_def)
  from f [OF v(2)] obtain r where "find_row ''Ticket'' tickets T p v = Inr (r, v)" by blast
  with v(1) show ?thesis
    by (simp add: tickets_merge_def withTenantContext_def tx_bind_def [of "find_row l tbl qr i" for l tbl qr i] p u
        tx_bind_def [of "merge_source T T q i n" for q n] add_note_def [symmetric] tx_bind_def [of add_note])
qed

theorem merge_moves_conversation_witness:
  "\<exists>k t. tickets_merge 1 20 [21, 20, 21] two_tickets = (Inr k, t) \<and>
     map tk_merged_into_id (tickets t) = [None, Some 20] \<and> map tk_status (tickets t) = [Open, Closed]"
proof -
  have run: "\<exists>k t. tickets_merge 1 20 [21, 20, 21] two_tickets = (Inr k, t)"
    by (simp add: tickets_merge_def withTenantContext_def merge_source_def tx_bind_def find_row_def sql_first_def two_tickets_def
        visible_def tenant_isolation_def by_id_def sql_update_def Let_def sql_now_def insert_message_def gen_random_uuid_def sql_insert_def
        update_rows_def printer_ticket_def del: One_nat_def)
  then obtain k t where run: "tickets_merge 1 20 [21, 20, 21] two_tickets = (Inr k, t)" by blast
  have "distinct (map row_id (tickets two_tickets))" by (simp add: two_tickets_def)
  from merge_moves_conversation [OF run this]
  have "map tk_merged_into_id (tickets t) = [None, Some 20]" "map tk_status (tickets t) = [Open, Closed]"
    by (simp_all add: close_merged_def mergeable_def two_tickets_def printer_ticket_def)
  with run show ?thesis by (intro exI conjI)
qed

section \<open>Merge chains\<close>

lemma close_merged_mem:
  "k \<in> set ks \<Longrightarrow> tenant_id k = T \<Longrightarrow>
    (if row_id k \<in> M then k\<lparr>tk_status := Closed, tk_resolved_at := coalesce (tk_resolved_at k) (Some now), tk_merged_into_id := Some p, tk_updated_at := now\<rparr>
     else k) \<in> set (close_merged T p now M ks)"
  by (force simp: close_merged_def)

text \<open>
  Merging can make a cycle: only the sources are checked for being merged already, not the primary.
  For any two unmerged tickets of a tenant, merging the second into the first and then the first
  into the second succeeds both times, and leaves two closed tickets that each point to the other.
\<close>

theorem merge_cycle:
  assumes "a \<in> set (tickets s)" "tenant_id a = T" "tk_merged_into_id a = None"
    and "b \<in> set (tickets s)" "tenant_id b = T" "tk_merged_into_id b = None"
    and "row_id a \<noteq> row_id b" and "distinct (map row_id (tickets s))"
  shows "\<exists>k t k' u. tickets_merge T (row_id a) [row_id b] s = (Inr k, t) \<and> tickets_merge T (row_id b) [row_id a] t = (Inr k', u) \<and>
    (\<exists>a' \<in> set (tickets u). row_id a' = row_id a \<and> tk_merged_into_id a' = Some (row_id b) \<and> tk_status a' = Closed) \<and>
    (\<exists>b' \<in> set (tickets u). row_id b' = row_id b \<and> tk_merged_into_id b' = Some (row_id a) \<and> tk_status b' = Closed)"
proof -
  obtain k t where t: "tickets_merge T (row_id a) [row_id b] s = (Inr k, t)"
    using tickets_merge_succeeds [of a s "row_id a" T b "row_id b"] assms by blast
  have M: "{i \<in> set [row_id b]. mergeable T (row_id a) s i} = {row_id b}" using assms by (auto simp: mergeable_def)
  note eff = tickets_merge_effect [OF t assms(8), unfolded M]
  define b' where "b' = b\<lparr>tk_status := Closed, tk_resolved_at := coalesce (tk_resolved_at b) (Some (clock s)),
     tk_merged_into_id := Some (row_id a), tk_updated_at := clock s\<rparr>"
  have at: "a \<in> set (tickets t)" using close_merged_mem [OF assms(1,2), of "{row_id b}" "clock s" "row_id a"] eff assms(7) by simp
  have bt: "b' \<in> set (tickets t)" using close_merged_mem [OF assms(4,5), of "{row_id b}" "clock s" "row_id a"] eff by (simp add: b'_def)
  have d: "distinct (map row_id (tickets t))"
    using eff assms(8) ids_of_keys [OF close_merged_ids] by simp
  obtain k' u where u: "tickets_merge T (row_id b) [row_id a] t = (Inr k', u)"
    using tickets_merge_succeeds [of b' t "row_id b" T a "row_id a"] at bt d assms(2,5) by (auto simp: b'_def)
  have M': "{i \<in> set [row_id a]. mergeable T (row_id b) t i} = {row_id a}" using at assms(2,3,7) by (auto simp: mergeable_def)
  note eff' = tickets_merge_effect [OF u d, unfolded M']
  define a' where "a' = a\<lparr>tk_status := Closed, tk_resolved_at := coalesce (tk_resolved_at a) (Some (clock t)),
     tk_merged_into_id := Some (row_id b), tk_updated_at := clock t\<rparr>"
  have "a' \<in> set (tickets u)"
    using close_merged_mem [OF at assms(2), of "{row_id a}" "clock t" "row_id b"] eff' by (simp add: a'_def)
  moreover have "b' \<in> set (tickets u)"
    using close_merged_mem [OF bt, of T "{row_id a}" "clock t" "row_id b"] eff' assms(5,7) by (simp add: b'_def)
  ultimately show ?thesis using t u
    by (intro exI conjI bexI [of _ a'] bexI [of _ b']) (simp_all add: a'_def b'_def)
qed

theorem merge_cycle_witness:
  "\<exists>k t k' u. tickets_merge 1 20 [21] two_tickets = (Inr k, t) \<and> tickets_merge 1 21 [20] t = (Inr k', u) \<and>
     (\<exists>a' \<in> set (tickets u). row_id a' = 20 \<and> tk_merged_into_id a' = Some 21)"
  using merge_cycle [of printer_ticket two_tickets 1 "printer_ticket\<lparr>row_id := 21, tk_ticket_number := 2\<rparr>"]
  by (simp add: two_tickets_def printer_ticket_def del: One_nat_def) blast

section \<open>Answering\<close>

text \<open>What happens after the transaction touches no table of the module.\<close>

lemma send_module:
  "act_rel (same platform.more) (send_outbound H t ob)"
  "act_rel (same platform.more) (send_agent_notify t n)"
  "act_rel (same platform.more) (send_watcher_notify t w)"
  unfolding send_outbound_def send_agent_notify_def send_watcher_notify_def resolveAgentEmail_def select_agent_user_def
  by (intro frame_intros enqueue_module)+

lemma check_reads: "tx_rel (same f) (if b then assert_optional F tbl qr j l else tx_return ())"
  unfolding assert_optional_def assertBelongsToTenant_def by (intro frame_intros)

lemma message_body_run:
  assumes "message_body F H T i dto T s = Inr ((m, rest), t)"
  shows "ticket_messages t = ticket_messages s @ [m] \<and> tenant_id m = T \<and> ms_ticket_id m = i \<and> ms_type m = am_type dto \<and>
    ms_author_type m = am_authorType dto \<and> ms_body m = sanitizeTicketBody H (am_body dto) \<and>
    (\<exists>k. first_of (filter (by_id i) (visible T (tickets s))) = Some k \<and>
       tickets t = (if am_type dto = Reply \<and> am_authorType dto = By_Agent \<and> tk_first_response_at k = None
         then update_rows T (by_id i) (\<lambda>k. k\<lparr>tk_first_response_at := Some (clock s)\<rparr>) (tickets s) else tickets s))"
  using assms unfolding message_body_def Let_def
proof (elim tx_bindE)
  let ?body = "sanitizeTicketBody H (am_body dto)"
  fix k u0 x1 u1 x2 u2 msg u3 now u4 x5 u5 ob u6 ag u7 wn u8
  assume k: "find_row ''Ticket'' tickets T i s = Inr (k, u0)"
    and checks: "(if am_authorType dto = By_Agent then assert_optional F agents T (am_authorId dto) ''agent'' else tx_return ()) u0 = Inr (x1, u1)"
      "(if am_authorType dto = By_Contact then assert_optional F contacts T (am_authorId dto) ''contact'' else tx_return ()) u1 = Inr (x2, u2)"
    and msg: "insert_message T T i (am_type dto) (am_authorType dto) (am_authorId dto) ?body (cc_of dto) u2 = Inr (msg, u3)"
    and now: "sql_now u3 = Inr (now, u4)"
    and upd: "(if am_type dto = Reply \<and> am_authorType dto = By_Agent \<and> tk_first_response_at k = None
        then tx_bind (sql_update tickets tickets_update T (by_id i) (\<lambda>t. t\<lparr>tk_first_response_at := Some now\<rparr>)) (\<lambda>_. tx_return ())
        else tx_return ()) u4 = Inr (x5, u5)"
    and gather: "gather_outbound T k dto ?body u5 = Inr (ob, u6)" "gather_agent_notify H T k dto ?body u6 = Inr (ag, u7)"
      "gather_watcher_notify H T k dto ?body u7 = Inr (wn, u8)"
    and ret: "tx_return (msg, ob, ag, wn) u8 = Inr ((m, rest), t)"
  have "u2 = s" using k reads_only [OF check_reads checks(1)] reads_only [OF check_reads checks(2)] by (simp add: find_row_eq_Inr)
  moreover have "t = u5" "msg = m"
    using ret reads_only [OF gather_same(1) gather(1)] reads_only [OF gather_same(2) gather(2)] reads_only [OF gather_same(3) gather(3)]
    by simp_all
  ultimately show ?thesis using k msg now upd
    by (auto simp: find_row_eq_Inr tx_bind_def insert_message_def gen_random_uuid_def sql_now_def sql_insert_def sql_update_def Let_def
        split: if_splits)
qed

text \<open>
  An answer is recorded once and the first response is recorded once: a successful
  \<open>addMessage\<close> appends exactly the returned message, with the sanitised body, and the only change
  to the tickets is that an agent's reply to a ticket without a first response records the time;
  a later reply never moves that time.
\<close>

theorem addMessage_records:
  assumes "tickets_addMessage F H tenantId i dto s = (Inr m, t)" and "distinct (map row_id (tickets s))"
  shows "ticket_messages t = ticket_messages s @ [m] \<and> tenant_id m = tenantId \<and> ms_ticket_id m = i \<and> ms_type m = am_type dto \<and>
    ms_author_type m = am_authorType dto \<and> ms_body m = sanitizeTicketBody H (am_body dto) \<and>
    tickets t = map (\<lambda>k. if tenant_id k = tenantId \<and> row_id k = i \<and> am_type dto = Reply \<and> am_authorType dto = By_Agent \<and>
        tk_first_response_at k = None then k\<lparr>tk_first_response_at := Some (clock s)\<rparr> else k) (tickets s)"
proof -
  from assms(1) obtain ob ag wn u v where body: "message_body F H tenantId i dto tenantId s = Inr ((m, ob, ag, wn), u)"
    and sends: "act_bind (when_some ob (send_outbound H tenantId)) (\<lambda>_.
     act_bind (when_some ag (send_agent_notify tenantId)) (\<lambda>_.
     act_bind (when_some wn (send_watcher_notify tenantId)) (\<lambda>_. act_return m))) u = (Inr m, t)"
    by (auto simp: tickets_addMessage_def act_bind_def withTenantContext_def split: sum.splits prod.splits)
  have "act_rel (same platform.more) (act_bind (when_some ob (send_outbound H tenantId)) (\<lambda>_.
     act_bind (when_some ag (send_agent_notify tenantId)) (\<lambda>_.
     act_bind (when_some wn (send_watcher_notify tenantId)) (\<lambda>_. act_return m))))"
    by (intro frame_intros send_module)
  from act_relD [OF this sends] have tables: "tickets t = tickets u" "ticket_messages t = ticket_messages u"
    using module_tables unfolding same_def by blast+
  from message_body_run [OF body] obtain k where k: "first_of (filter (by_id i) (visible tenantId (tickets s))) = Some k"
    and u: "tickets u = (if am_type dto = Reply \<and> am_authorType dto = By_Agent \<and> tk_first_response_at k = None
         then update_rows tenantId (by_id i) (\<lambda>k. k\<lparr>tk_first_response_at := Some (clock s)\<rparr>) (tickets s) else tickets s)" by blast
  from k have kin: "k \<in> set (tickets s)" "row_id k = i" "tenant_id k = tenantId" by (auto simp: by_id_def dest: first_of_filter_SomeD)
  with assms(2) have same_k: "\<And>x. x \<in> set (tickets s) \<Longrightarrow> row_id x = i \<Longrightarrow> x = k" by (auto dest: row_id_inj)
  have "tickets u = map (\<lambda>k. if tenant_id k = tenantId \<and> row_id k = i \<and> am_type dto = Reply \<and> am_authorType dto = By_Agent \<and>
        tk_first_response_at k = None then k\<lparr>tk_first_response_at := Some (clock s)\<rparr> else k) (tickets s)"
    unfolding u update_rows_def tenant_isolation_def by_id_def using same_k by (auto intro!: map_cong map_idI [symmetric])
  with tables message_body_run [OF body] show ?thesis by simp
qed

definition agent_reply :: AddTicketMessage where
  "agent_reply = \<lparr>am_type = Reply, am_authorType = By_Agent, am_authorId = None, am_body = ''On it'', am_cc = None\<rparr>"

theorem addMessage_records_witness:
  "\<exists>m t. tickets_addMessage unary_format toy_html 1 20 agent_reply one_ticket = (Inr m, t) \<and>
     ticket_messages t = [m] \<and> map tk_first_response_at (tickets t) = [Some 0]"
proof -
  have "\<exists>m t. tickets_addMessage unary_format toy_html 1 20 agent_reply one_ticket = (Inr m, t)"
    by (simp add: tickets_addMessage_def withTenantContext_def message_body_def agent_reply_def tx_bind_def find_row_def sql_first_def
        visible_def tenant_isolation_def by_id_def assert_optional_def insert_message_def gen_random_uuid_def sql_now_def sql_insert_def
        sql_update_def Let_def gather_outbound_def gather_agent_notify_def gather_watcher_notify_def watcherEmails_def sql_select_def
        usable_email_def when_some_def act_bind_def update_rows_def agent_users_def del: One_nat_def)
  then obtain m t where run: "tickets_addMessage unary_format toy_html 1 20 agent_reply one_ticket = (Inr m, t)" by blast
  have "distinct (map row_id (tickets one_ticket))" by simp
  from addMessage_records [OF run this] run show ?thesis
    by (auto simp: agent_reply_def printer_ticket_def)
qed

end
