(* ===== verification/Overdue_Sweep.thy ===== *)
theory Overdue_Sweep
  imports Ticket_Updates
begin

text \<open>
  The SLA sweep of \<open>sla/overdue-sweep.service.ts\<close>: the transaction that finds and marks the breaches
  of a tenant, what is sent for each of them after the commit, and one tick over all tenants. The
  lemmas show that every breach is found, marked and reported once, and what is lost when the bus is
  down between the two halves.
\<close>

section \<open>Breaches\<close>

datatype OverdueType = First_Response | Resolution

fun overdue_text :: "OverdueType \<Rightarrow> string" where
  "overdue_text First_Response = ''first_response''"
| "overdue_text Resolution = ''resolution''"

record OverdueBreach =
  br_ticket :: ticket
  br_overdueType :: OverdueType
  br_dueAt :: msec

text \<open>A target that is set, not met, in the past and not reported yet.\<close>

definition breached :: "msec \<Rightarrow> msec option \<Rightarrow> msec option \<Rightarrow> msec option \<Rightarrow> bool" where
  "breached now dueAt met notified \<longleftrightarrow> (case dueAt of None \<Rightarrow> False | Some d \<Rightarrow> met = None \<and> d < now \<and> notified = None)"

definition first_response_breached :: "msec \<Rightarrow> ticket \<Rightarrow> bool" where
  "first_response_breached now k =
     breached now (tk_first_response_due_at k) (tk_first_response_at k) (tk_first_response_overdue_notified_at k)"

definition resolution_breached :: "msec \<Rightarrow> ticket \<Rightarrow> bool" where
  "resolution_breached now k =
     breached now (tk_resolution_due_at k) (tk_resolved_at k) (tk_resolution_overdue_notified_at k)"

section \<open>The sweep\<close>

text \<open>The two halves of the loop body: the row is the one the query returned, not the updated one.\<close>

definition mark_first_response ::
  "query_runner \<Rightarrow> ticket \<Rightarrow> OverdueBreach list \<Rightarrow> ('s ticketing_scheme, OverdueBreach list) tx" where
  "mark_first_response qr k found = tx_bind sql_now (\<lambda>now.
     if first_response_breached now k
     then tx_bind (sql_update tickets tickets_update qr (by_id (row_id k)) (\<lambda>r. r\<lparr>tk_first_response_overdue_notified_at := Some now\<rparr>))
       (\<lambda>_. tx_return (found @ [\<lparr>br_ticket = k, br_overdueType = First_Response, br_dueAt = the (tk_first_response_due_at k)\<rparr>]))
     else tx_return found)"

definition mark_resolution ::
  "query_runner \<Rightarrow> ticket \<Rightarrow> OverdueBreach list \<Rightarrow> ('s ticketing_scheme, OverdueBreach list) tx" where
  "mark_resolution qr k found = tx_bind sql_now (\<lambda>now.
     if resolution_breached now k
     then tx_bind (sql_update tickets tickets_update qr (by_id (row_id k)) (\<lambda>r. r\<lparr>tk_resolution_overdue_notified_at := Some now\<rparr>))
       (\<lambda>_. tx_return (found @ [\<lparr>br_ticket = k, br_overdueType = Resolution, br_dueAt = the (tk_resolution_due_at k)\<rparr>]))
     else tx_return found)"

definition mark_breaches ::
  "query_runner \<Rightarrow> ticket \<Rightarrow> OverdueBreach list \<Rightarrow> ('s ticketing_scheme, OverdueBreach list) tx" where
  "mark_breaches qr k found = tx_bind (mark_first_response qr k found) (mark_resolution qr k)"

definition find_breaches :: "query_runner \<Rightarrow> ('s ticketing_scheme, OverdueBreach list) tx" where
  "find_breaches qr = tx_bind sql_now (\<lambda>now.
     tx_bind (sql_select tickets qr (\<lambda>k. \<not> closing (tk_status k) \<and> (first_response_breached now k \<or> resolution_breached now k))) (\<lambda>ks.
     tx_fold (mark_breaches qr) ks []))"

definition overdue_resolveAgentEmail :: "uuid \<Rightarrow> uuid \<Rightarrow> ('s ticketing_scheme, string option) act" where
  "overdue_resolveAgentEmail tenantId agentId = withTenantContext tenantId (\<lambda>qr.
     tx_bind (select_agent_user qr agentId) (\<lambda>row. tx_return (map_option us_email row)))"

definition breach_event :: "js_format \<Rightarrow> OverdueBreach \<Rightarrow> json" where
  "breach_event F b = JObj [(''ticketId'', JId (row_id (br_ticket b))), (''ticketNumber'', JNum (of_nat (tk_ticket_number (br_ticket b)))),
     (''overdueType'', JStr (overdue_text (br_overdueType b))), (''dueAt'', JStr (fmt_date F (br_dueAt b)))]"

definition dispatchBreach :: "js_format \<Rightarrow> uuid \<Rightarrow> OverdueBreach \<Rightarrow> ('s ticketing_scheme, unit) act" where
  "dispatchBreach F tenantId breach =
     (let ticket = br_ticket breach; dueAtIso = JStr (fmt_date F (br_dueAt breach));
          overdueType = JStr (overdue_text (br_overdueType breach)); num = JNum (of_nat (tk_ticket_number ticket)) in
      act_bind (publish tenantId ''ticket.overdue'' (breach_event F breach)) (\<lambda>_.
      case tk_agent_id ticket of
        None \<Rightarrow> act_return ()
      | Some a \<Rightarrow> act_bind (overdue_resolveAgentEmail tenantId a) (\<lambda>recipient.
          case usable_email recipient of
            None \<Rightarrow> act_return ()
          | Some e \<Rightarrow> act_bind (enqueue tenantId ''email'' e ''ticket.overdue''
              (JObj [(''ticketNumber'', num), (''subject'', JStr (tk_subject ticket)), (''overdueType'', overdueType), (''dueAt'', dueAtIso)]))
              (\<lambda>_. act_return ()))))"

definition overdue_sweepTenant :: "js_format \<Rightarrow> uuid \<Rightarrow> ('s ticketing_scheme, nat) act" where
  "overdue_sweepTenant F tenantId =
     act_bind (withTenantContext tenantId find_breaches) (\<lambda>breaches.
     act_bind (act_fold (\<lambda>b _. dispatchBreach F tenantId b) breaches ()) (\<lambda>_.
     act_return (length breaches)))"

definition overdue_add_tenant :: "js_format \<Rightarrow> tenant \<Rightarrow> nat \<Rightarrow> ('s ticketing_scheme, nat) act" where
  "overdue_add_tenant F t n = act_catch (act_bind (overdue_sweepTenant F (tn_id t)) (\<lambda>k. act_return (n + k))) (\<lambda>_. act_return n)"

definition overdue_runSweepOnce :: "js_format \<Rightarrow> bool \<Rightarrow> ('s ticketing_scheme, nat) act" where
  "overdue_runSweepOnce F running =
     (if running then act_return 0
      else act_bind (act_gets tenants) (\<lambda>ts. act_fold (overdue_add_tenant F) ts 0))"

section \<open>What the transaction finds and marks\<close>

text \<open>The breaches of a ticket at a time, and the ticket once they are marked.\<close>

definition breaches_of :: "msec \<Rightarrow> ticket \<Rightarrow> OverdueBreach list" where
  "breaches_of now k = (if closing (tk_status k) then [] else
     (if first_response_breached now k then [\<lparr>br_ticket = k, br_overdueType = First_Response, br_dueAt = the (tk_first_response_due_at k)\<rparr>] else []) @
     (if resolution_breached now k then [\<lparr>br_ticket = k, br_overdueType = Resolution, br_dueAt = the (tk_resolution_due_at k)\<rparr>] else []))"

definition marked :: "msec \<Rightarrow> ticket \<Rightarrow> ticket" where
  "marked now k = (if closing (tk_status k) then k else
     k\<lparr>tk_first_response_overdue_notified_at :=
          (if first_response_breached now k then Some now else tk_first_response_overdue_notified_at k),
       tk_resolution_overdue_notified_at :=
          (if resolution_breached now k then Some now else tk_resolution_overdue_notified_at k)\<rparr>)"

lemma marked_fields [simp]:
  "row_id (marked now k) = row_id k" "tenant_id (marked now k) = tenant_id k" "tk_status (marked now k) = tk_status k"
  by (simp_all add: marked_def)

lemma marked_not_breached: "breaches_of now (marked now k) = []"
  by (auto simp: breaches_of_def marked_def first_response_breached_def resolution_breached_def breached_def split: option.splits)

lemma breaches_of_marked:
  "b \<in> set (breaches_of later (marked now k)) \<Longrightarrow> br_overdueType b \<notin> br_overdueType ` set (breaches_of now k)"
  by (auto simp: breaches_of_def marked_def first_response_breached_def resolution_breached_def breached_def
      split: option.splits if_splits)

lemma mark_breaches_run:
  assumes "distinct (map row_id (tickets s))" and "k \<in> set (tickets s)" and "tenant_id k = qr" and "\<not> closing (tk_status k)"
  shows "mark_breaches qr k found s
    = Inr (found @ breaches_of (clock s) k, s\<lparr>tickets := map (\<lambda>r. if r = k then marked (clock s) k else r) (tickets s)\<rparr>)"
proof -
  have same: "update_rows qr (by_id (row_id k)) f (tickets s) = map (\<lambda>r. if r = k then f k else r) (tickets s)" for f
    using update_rows_one [OF assms(1-3)] .
  have ids: "row_id r = row_id k \<longleftrightarrow> r = k" if "r \<in> set (tickets s)" for r
    using that assms(1,2) by (auto dest: row_id_inj)
  show ?thesis
  proof (cases "first_response_breached (clock s) k \<or> resolution_breached (clock s) k")
    case False
    with assms(4) have m: "marked (clock s) k = k" by (simp add: marked_def)
    have "map (\<lambda>r. if r = k then marked (clock s) k else r) (tickets s) = tickets s" unfolding m by simp
    with False assms(4) show ?thesis
      by (simp add: mark_breaches_def mark_first_response_def mark_resolution_def tx_bind_def sql_now_def breaches_of_def)
  next
    case True
    then show ?thesis using assms ids
      by (auto simp: mark_breaches_def mark_first_response_def mark_resolution_def tx_bind_def sql_now_def sql_update_def Let_def
          breaches_of_def marked_def same update_rows_def tenant_isolation_def by_id_def list_all_iff intro!: ticketing.unfold_congs)
  qed
qed

lemma mark_breaches_fold:
  assumes "distinct (map row_id (tickets s))" and "distinct ks"
    and "\<forall>k \<in> set ks. k \<in> set (tickets s) \<and> tenant_id k = qr \<and> \<not> closing (tk_status k)"
  shows "tx_fold (mark_breaches qr) ks found s
    = Inr (found @ concat (map (breaches_of (clock s)) ks),
           s\<lparr>tickets := map (\<lambda>r. if r \<in> set ks then marked (clock s) r else r) (tickets s)\<rparr>)"
  using assms
proof (induction ks arbitrary: found s)
  case Nil
  then show ?case by simp
next
  case (Cons k ks)
  let ?u = "s\<lparr>tickets := map (\<lambda>r. if r = k then marked (clock s) k else r) (tickets s)\<rparr>"
  have k: "k \<in> set (tickets s)" "tenant_id k = qr" "\<not> closing (tk_status k)" using Cons.prems(3) by auto
  have "map row_id (tickets ?u) = map row_id (tickets s)" by auto
  then have "distinct (map row_id (tickets ?u))" using Cons.prems(1) by (simp only:)
  moreover have "\<forall>x \<in> set ks. x \<in> set (tickets ?u) \<and> tenant_id x = qr \<and> \<not> closing (tk_status x)"
    using Cons.prems(2,3) by (auto simp: image_iff)
  ultimately have IH: "tx_fold (mark_breaches qr) ks (found @ breaches_of (clock s) k) ?u
    = Inr ((found @ breaches_of (clock s) k) @ concat (map (breaches_of (clock s)) ks),
           ?u\<lparr>tickets := map (\<lambda>r. if r \<in> set ks then marked (clock s) r else r) (tickets ?u)\<rparr>)"
    using Cons.IH [of ?u] Cons.prems(2) by simp
  have "marked (clock s) k = k" if "marked (clock s) k \<in> set ks"
    using row_id_inj [OF Cons.prems(1), of "marked (clock s) k" k] Cons.prems(3) k(1) that by simp
  then have "map (\<lambda>r. if r \<in> set ks then marked (clock s) r else r) (tickets ?u)
    = map (\<lambda>r. if r \<in> set (k # ks) then marked (clock s) r else r) (tickets s)"
    using Cons.prems(2) by auto
  with IH mark_breaches_run [OF Cons.prems(1) k, of found] show ?case
    by (simp add: tx_bind_def)
qed

text \<open>The whole transaction.\<close>

lemma find_breaches_run:
  assumes "distinct (map row_id (tickets s))"
  shows "find_breaches qr s
    = Inr (concat (map (breaches_of (clock s)) (visible qr (tickets s))),
           s\<lparr>tickets := map (\<lambda>r. if tenant_id r = qr then marked (clock s) r else r) (tickets s)\<rparr>)"
proof -
  define P where "P = (\<lambda>k. \<not> closing (tk_status k) \<and> (first_response_breached (clock s) k \<or> resolution_breached (clock s) k))"
  define ks where "ks = filter P (visible qr (tickets s))"
  have "distinct ks" using assms by (auto simp: ks_def visible_def distinct_map)
  then have run: "find_breaches qr s = Inr (concat (map (breaches_of (clock s)) ks),
           s\<lparr>tickets := map (\<lambda>r. if r \<in> set ks then marked (clock s) r else r) (tickets s)\<rparr>)"
    using mark_breaches_fold [OF assms, of ks qr "[]"]
    by (simp only: find_breaches_def tx_bind_def sql_now_def sql_select_def tx_gets_app sum.case prod.case ks_def [symmetric] P_def [symmetric])
      (auto simp: ks_def P_def)
  have none: "breaches_of (clock s) k = [] \<and> marked (clock s) k = k" if "\<not> P k" for k
    using that by (auto simp: P_def breaches_of_def marked_def)
  have "concat (map (breaches_of (clock s)) (filter P xs)) = concat (map (breaches_of (clock s)) xs)" for xs
    using none by (induction xs) auto
  moreover have "map (\<lambda>r. if r \<in> set ks then marked (clock s) r else r) (tickets s)
    = map (\<lambda>r. if tenant_id r = qr then marked (clock s) r else r) (tickets s)"
    using none by (auto simp: ks_def)
  ultimately show ?thesis using run by (simp add: ks_def)
qed

lemma visible_map_if:
  "(\<And>r. tenant_id (f r) = tenant_id r) \<Longrightarrow> visible qr (map (\<lambda>r. if tenant_id r = qr then f r else r) rs) = map f (visible qr rs)"
  by (induction rs) (auto simp: visible_def tenant_isolation_def)

definition found_at :: "uuid \<Rightarrow> msec \<Rightarrow> ticket list \<Rightarrow> OverdueBreach list" where
  "found_at T now ks = concat (map (breaches_of now) (visible T ks))"

definition mark_all :: "uuid \<Rightarrow> msec \<Rightarrow> ticket list \<Rightarrow> ticket list" where
  "mark_all T now = map (\<lambda>r. if tenant_id r = T then marked now r else r)"

lemma mark_all_ids: "map row_id (mark_all T now ks) = map row_id ks"
  by (auto simp: mark_all_def)

lemma found_at_mark_all: "found_at T later (mark_all T now ks) = concat (map (\<lambda>k. breaches_of later (marked now k)) (visible T ks))"
  by (simp add: found_at_def mark_all_def visible_map_if comp_def)

lemma found_again: "found_at T now (mark_all T now ks) = []"
  by (simp add: found_at_mark_all marked_not_breached)

lemma found_later:
  assumes "distinct (map row_id ks)" and "b \<in> set (found_at T now ks)" and "b' \<in> set (found_at T later (mark_all T now ks))"
    and "row_id (br_ticket b') = row_id (br_ticket b)"
  shows "br_overdueType b' \<noteq> br_overdueType b"
proof -
  from assms(2) obtain k where k: "k \<in> set ks" "b \<in> set (breaches_of now k)" by (auto simp: found_at_def)
  from assms(3) obtain k' where k': "k' \<in> set ks" "b' \<in> set (breaches_of later (marked now k'))" by (auto simp: found_at_mark_all)
  have "row_id (br_ticket b) = row_id k" "row_id (br_ticket b') = row_id k'"
    using k(2) k'(2) by (auto simp: breaches_of_def split: if_splits)
  with assms(4) have "row_id k = row_id k'" by simp
  then have "k = k'" by (rule row_id_inj [OF assms(1) k(1) k'(1)])
  with breaches_of_marked [OF k'(2)] k(2) show ?thesis by force
qed

lemma find_breaches_eq:
  "distinct (map row_id (tickets s)) \<Longrightarrow>
    find_breaches qr s = Inr (found_at qr (clock s) (tickets s), s\<lparr>tickets := mark_all qr (clock s) (tickets s)\<rparr>)"
  using find_breaches_run by (simp add: found_at_def mark_all_def)

section \<open>What is sent\<close>

definition overdue_payloads :: "'s platform_scheme \<Rightarrow> json list" where
  "overdue_payloads s = map ev_payload (filter (\<lambda>e. ev_event_type e = ''ticket.overdue'') (events s))"

lemma overdue_email_reads: "act_rel (same f) (overdue_resolveAgentEmail t a)"
  unfolding overdue_resolveAgentEmail_def select_agent_user_def by (intro frame_intros)

lemma enqueue_payloads: "act_rel (same overdue_payloads) (enqueue t c r n p)"
  unfolding enqueue_def notification_requested_def
  by (rule act_relI)
    (auto simp: act_bind_def publish_run Let_def withTenantContext_def sql_insert_def tenant_isolation_def randomUUID_def
      same_def overdue_payloads_def split: if_splits)

text \<open>The steps after the event of a breach.\<close>

definition notify_breach :: "js_format \<Rightarrow> uuid \<Rightarrow> OverdueBreach \<Rightarrow> ('s ticketing_scheme, unit) act" where
  "notify_breach F tenantId b = (case tk_agent_id (br_ticket b) of
      None \<Rightarrow> act_return ()
    | Some a \<Rightarrow> act_bind (overdue_resolveAgentEmail tenantId a) (\<lambda>recipient.
        case usable_email recipient of
          None \<Rightarrow> act_return ()
        | Some e \<Rightarrow> act_bind (enqueue tenantId ''email'' e ''ticket.overdue''
            (JObj [(''ticketNumber'', JNum (of_nat (tk_ticket_number (br_ticket b)))), (''subject'', JStr (tk_subject (br_ticket b))),
                   (''overdueType'', JStr (overdue_text (br_overdueType b))), (''dueAt'', JStr (fmt_date F (br_dueAt b)))]))
            (\<lambda>_. act_return ())))"

lemma dispatchBreach_eq:
  "dispatchBreach F t b = act_bind (publish t ''ticket.overdue'' (breach_event F b)) (\<lambda>_. notify_breach F t b)"
  by (simp add: dispatchBreach_def notify_breach_def Let_def)

lemma notify_breach_frames:
  "act_rel (same overdue_payloads) (notify_breach F t b)" "act_rel (same platform.more) (notify_breach F t b)"
  unfolding notify_breach_def by (intro frame_intros overdue_email_reads enqueue_payloads enqueue_module)+

lemma dispatchBreach_module: "act_rel (same platform.more) (dispatchBreach F t b)"
  unfolding dispatchBreach_eq by (intro frame_intros publish_module notify_breach_frames)

lemma dispatchBreach_payload:
  assumes "dispatchBreach F T b s = (Inr (), t)"
  shows "overdue_payloads t = overdue_payloads s @ [breach_event F b]"
proof -
  obtain m u where p: "publish T ''ticket.overdue'' (breach_event F b) s = (Inr m, u)" and n: "notify_breach F T b u = (Inr (), t)"
    using assms by (auto simp: dispatchBreach_eq act_bind_def split: sum.splits prod.splits)
  have "overdue_payloads u = overdue_payloads s @ [breach_event F b]"
    using p by (auto simp: publish_run Let_def overdue_payloads_def split: if_splits)
  with act_relD [OF notify_breach_frames(1) n] show ?thesis by (simp add: same_def)
qed

lemma dispatch_fold_payloads:
  "act_fold (\<lambda>b _. dispatchBreach F T b) bs () s = (Inr (), t) \<Longrightarrow> overdue_payloads t = overdue_payloads s @ map (breach_event F) bs"
proof (induction bs arbitrary: s)
  case (Cons b bs)
  from Cons.prems obtain u where u: "dispatchBreach F T b s = (Inr (), u)" "act_fold (\<lambda>b _. dispatchBreach F T b) bs () u = (Inr (), t)"
    by (auto simp: act_bind_def split: sum.splits prod.splits)
  from dispatchBreach_payload [OF u(1)] Cons.IH [OF u(2)] show ?case by simp
qed simp

lemma sweepTenant_split:
  assumes "distinct (map row_id (tickets s))"
  shows "overdue_sweepTenant F T s
    = act_bind (act_fold (\<lambda>b _. dispatchBreach F T b) (found_at T (clock s) (tickets s)) ())
        (\<lambda>_. act_return (length (found_at T (clock s) (tickets s)))) (s\<lparr>tickets := mark_all T (clock s) (tickets s)\<rparr>)"
  by (simp add: overdue_sweepTenant_def act_bind_def [of "withTenantContext T find_breaches"] withTenantContext_def find_breaches_eq assms)

lemma sweepTenant_run:
  fixes s :: "'a ticketing_scheme"
  assumes "overdue_sweepTenant F T s = (res, t)" and "distinct (map row_id (tickets s))"
  shows "tickets t = mark_all T (clock s) (tickets s) \<and>
    (\<forall>n. res = Inr n \<longrightarrow> n = length (found_at T (clock s) (tickets s)) \<and>
       overdue_payloads t = overdue_payloads s @ map (breach_event F) (found_at T (clock s) (tickets s)))"
proof -
  let ?u = "s\<lparr>tickets := mark_all T (clock s) (tickets s)\<rparr>" and ?found = "found_at T (clock s) (tickets s)"
  let ?send = "act_fold (\<lambda>b _. dispatchBreach F T b) ?found () :: ('a ticketing_scheme, unit) act"
  have run: "act_bind ?send (\<lambda>_. act_return (length ?found)) ?u = (res, t)"
    using assms(1) sweepTenant_split [OF assms(2)] by simp
  have "act_rel (same platform.more) (act_bind ?send (\<lambda>_. act_return (length ?found)))"
    by (intro frame_intros dispatchBreach_module)
  from act_relD [OF this run] have "tickets t = tickets ?u"
    using module_tables(1) [of t ?u] by (simp add: same_def)
  moreover have "n = length ?found \<and> overdue_payloads t = overdue_payloads s @ map (breach_event F) ?found" if "res = Inr n" for n
  proof -
    from run that have "?send ?u = (Inr (), t)" "n = length ?found"
      by (auto simp: act_bind_def split: sum.splits prod.splits)
    with dispatch_fold_payloads [OF this(1)] show ?thesis by (simp add: overdue_payloads_def)
  qed
  ultimately show ?thesis by simp
qed

text \<open>
  C22. Every SLA breach is reported, and only once: a successful sweep of a tenant publishes, in table
  order, one event for each target of an open ticket that is past, unmet and not reported before,
  and returns their number; the tickets are marked so that no later sweep, whatever the time, finds
  the same target of the same ticket again.
\<close>

theorem overdue_reported_once:
  assumes "overdue_sweepTenant F T s = (Inr n, t)" and "distinct (map row_id (tickets s))"
  shows "n = length (found_at T (clock s) (tickets s)) \<and>
    overdue_payloads t = overdue_payloads s @ map (breach_event F) (found_at T (clock s) (tickets s)) \<and>
    (\<forall>later. \<forall>b \<in> set (found_at T (clock s) (tickets s)). \<forall>b' \<in> set (found_at T later (tickets t)).
       row_id (br_ticket b') = row_id (br_ticket b) \<longrightarrow> br_overdueType b' \<noteq> br_overdueType b)"
proof -
  note run = sweepTenant_run [OF assms]
  with found_later [OF assms(2)] show ?thesis by simp
qed

definition late_ticket :: ticketing where
  "late_ticket = one_ticket\<lparr>clock := 100, tickets := [printer_ticket\<lparr>tk_first_response_due_at := Some 50, tk_resolution_due_at := Some 90\<rparr>]\<rparr>"

lemma late_ticket_swept: "\<exists>t. overdue_sweepTenant unary_format 1 late_ticket = (Inr 2, t)"
  by (simp add: sweepTenant_split late_ticket_def found_at_def breaches_of_def first_response_breached_def resolution_breached_def
      breached_def printer_ticket_def closing_def visible_def tenant_isolation_def dispatchBreach_eq notify_breach_def publish_run
      Let_def act_bind_def del: One_nat_def)

theorem overdue_reported_once_witness:
  "\<exists>t. overdue_sweepTenant unary_format 1 late_ticket = (Inr 2, t) \<and> length (found_at 1 100 (tickets late_ticket)) = 2"
proof -
  obtain t where t: "overdue_sweepTenant unary_format 1 late_ticket = (Inr 2, t)" using late_ticket_swept by blast
  have "distinct (map row_id (tickets late_ticket))" "clock late_ticket = 100" by (simp_all add: late_ticket_def)
  with overdue_reported_once [OF t] t show ?thesis by simp
qed

text \<open>
  C39. A breach found while Redis is down is never reported: the marks are committed before the events
  are sent, so the sweep fails, keeps the marks, enqueues nothing, and the next sweep after Redis has
  come back finds nothing for this tenant.
\<close>

theorem overdue_lost_without_redis:
  assumes "\<not> redis_up s" and "found_at T (clock s) (tickets s) \<noteq> []" and "distinct (map row_id (tickets s))"
  shows "\<exists>t. overdue_sweepTenant F T s = (Inl redis_error, t) \<and> stream t = stream s \<and> notifications t = notifications s \<and>
    overdue_sweepTenant F T (t\<lparr>redis_up := True\<rparr>) = (Inr 0, t\<lparr>redis_up := True\<rparr>)"
proof -
  let ?u = "s\<lparr>tickets := mark_all T (clock s) (tickets s)\<rparr>"
  from assms(2) obtain b bs where b: "found_at T (clock s) (tickets s) = b # bs" by (cases "found_at T (clock s) (tickets s)") auto
  define t where "t = snd (publish T ''ticket.overdue'' (breach_event F b) ?u)"
  have p: "publish T ''ticket.overdue'' (breach_event F b) ?u = (Inl redis_error, t)"
    using assms(1) by (simp add: t_def publish_run Let_def)
  then have "overdue_sweepTenant F T s = (Inl redis_error, t)"
    by (simp add: sweepTenant_split [OF assms(3)] b act_bind_def dispatchBreach_eq)
  moreover have t: "stream t = stream s" "notifications t = notifications s" "tickets t = mark_all T (clock s) (tickets s)" "clock t = clock s"
    using assms(1) by (simp_all add: t_def publish_run Let_def)
  moreover have "overdue_sweepTenant F T (t\<lparr>redis_up := True\<rparr>) = (Inr 0, t\<lparr>redis_up := True\<rparr>)"
  proof -
    have "distinct (map row_id (tickets (t\<lparr>redis_up := True\<rparr>)))" using t(3) assms(3) by (simp add: mark_all_ids)
    moreover have "mark_all T (clock s) (mark_all T (clock s) (tickets s)) = mark_all T (clock s) (tickets s)"
      by (auto simp: mark_all_def marked_def first_response_breached_def resolution_breached_def breached_def split: option.splits)
    ultimately show ?thesis using t(3,4) by (simp add: sweepTenant_split found_again)
  qed
  ultimately show ?thesis by blast
qed

theorem overdue_lost_without_redis_witness:
  "\<exists>t. overdue_sweepTenant unary_format 1 (late_ticket\<lparr>redis_up := False\<rparr>) = (Inl redis_error, t) \<and>
     overdue_sweepTenant unary_format 1 (t\<lparr>redis_up := True\<rparr>) = (Inr 0, t\<lparr>redis_up := True\<rparr>)"
proof -
  let ?s = "late_ticket\<lparr>redis_up := False\<rparr>"
  have "found_at 1 (clock ?s) (tickets ?s) \<noteq> []" "distinct (map row_id (tickets ?s))"
    by (simp_all add: late_ticket_def found_at_def breaches_of_def first_response_breached_def resolution_breached_def breached_def
        printer_ticket_def closing_def visible_def tenant_isolation_def)
  with overdue_lost_without_redis [of ?s 1 unary_format] show ?thesis by auto
qed

end
