(* ===== verification/Email_Intake.thy ===== *)
theory Email_Intake
  imports Ticket_Properties
begin

text \<open>
  Inbound mail (\<open>email-intake/process-inbound-email.ts\<close>, \<open>email-intake.service.ts\<close>): a parsed mail
  becomes a ticket or a reply on the ticket its subject names, and a poll works through the unseen
  messages of a mailbox. \<open>mailparser\<close> is a parameter; the IMAP connection is the list of messages
  it returns. The lemmas show that a reply to an outbound mail of the help desk threads onto the
  ticket it came from.
\<close>

section \<open>The subject\<close>

text \<open>\<open>/\[Ticket #(\d+)\]/i\<close> at the beginning of a string: the digits.\<close>

definition match_reference :: "string \<Rightarrow> string option" where
  "match_reference s =
     (if js_lower (take 9 s) = ''[ticket #''
      then (let digits = takeWhile js_digit (drop 9 s); rest = dropWhile js_digit (drop 9 s) in
            if digits \<noteq> [] \<and> take 1 rest = '']'' then Some digits else None)
      else None)"

text \<open>\<open>exec\<close>: the first position at which it matches.\<close>

fun exec_reference :: "string \<Rightarrow> string option" where
  "exec_reference [] = match_reference []"
| "exec_reference (c # s) = (case match_reference (c # s) of Some d \<Rightarrow> Some d | None \<Rightarrow> exec_reference s)"

definition extractReferencedTicketNumber :: "string \<Rightarrow> nat option" where
  "extractReferencedTicketNumber subject = map_option digits_value (exec_reference subject)"

section \<open>The body\<close>

text \<open>\<open>.replace(/<style[\s\S]*?<\/style>/gi, '')\<close>.\<close>

fun after_style :: "string \<Rightarrow> string option" where
  "after_style [] = None"
| "after_style (c # s) = (if js_lower (take 8 (c # s)) = ''</style>'' then Some (drop 8 (c # s)) else after_style s)"

lemma after_style_shorter: "after_style s = Some r \<Longrightarrow> length r < length s"
  by (induction s) (auto split: if_splits)

function drop_styles :: "string \<Rightarrow> string" where
  "drop_styles [] = []"
| "drop_styles (c # s) = (if js_lower (take 6 (c # s)) = ''<style''
     then (case after_style (drop 6 (c # s)) of Some r \<Rightarrow> drop_styles r | None \<Rightarrow> c # drop_styles s)
     else c # drop_styles s)"
  by pat_completeness auto
termination
  by (relation "measure length") (auto dest: after_style_shorter)

text \<open>\<open>.replace(/<[^>]+>/g, ' ')\<close>.\<close>

definition tag_rest :: "string \<Rightarrow> string option" where
  "tag_rest s = (let inner = takeWhile (\<lambda>c. c \<noteq> CHR ''>'') s; rest = dropWhile (\<lambda>c. c \<noteq> CHR ''>'') s in
     if inner \<noteq> [] \<and> rest \<noteq> [] then Some (tl rest) else None)"

lemma tag_rest_shorter: "tag_rest s = Some r \<Longrightarrow> length r < length s"
proof -
  assume "tag_rest s = Some r"
  then have "dropWhile (\<lambda>c. c \<noteq> CHR ''>'') s \<noteq> []" "r = tl (dropWhile (\<lambda>c. c \<noteq> CHR ''>'') s)"
    by (auto simp: tag_rest_def Let_def split: if_splits)
  moreover have "length (dropWhile (\<lambda>c. c \<noteq> CHR ''>'') s) \<le> length s" by (rule length_dropWhile_le)
  ultimately show ?thesis by (cases "dropWhile (\<lambda>c. c \<noteq> CHR ''>'') s") auto
qed

function blank_tags :: "string \<Rightarrow> string" where
  "blank_tags [] = []"
| "blank_tags (c # s) = (if c = CHR ''<''
     then (case tag_rest s of Some r \<Rightarrow> CHR '' '' # blank_tags r | None \<Rightarrow> c # blank_tags s)
     else c # blank_tags s)"
  by pat_completeness auto
termination
  by (relation "measure length") (auto dest: tag_rest_shorter)

text \<open>\<open>.replace(/\s+/g, ' ')\<close>.\<close>

fun collapse_space :: "string \<Rightarrow> string" where
  "collapse_space [] = []"
| "collapse_space (c # s) = (if js_space c
     then (if s \<noteq> [] \<and> js_space (hd s) then collapse_space s else CHR '' '' # collapse_space s)
     else c # collapse_space s)"

definition stripHtml :: "string \<Rightarrow> string" where
  "stripHtml html = js_trim (collapse_space (blank_tags (drop_styles html)))"

text \<open>What \<open>simpleParser\<close> returns of a message.\<close>

record ParsedMail =
  pm_from :: "(string \<times> string) option"
  pm_subject :: "string option"
  pm_text :: "string option"
  pm_html :: "string option"

type_synonym mail_parser = "string \<Rightarrow> ParsedMail"

definition extractBody :: "ParsedMail \<Rightarrow> string" where
  "extractBody parsed = (case usable_email (pm_text parsed) of
      Some t \<Rightarrow> js_trim t
    | None \<Rightarrow> (case pm_html parsed of Some h \<Rightarrow> stripHtml h | None \<Rightarrow> ''(empty message body)''))"

section \<open>One message\<close>

record ProcessInboundEmailResult =
  pr_ticketId :: uuid
  pr_ticketNumber :: nat
  pr_created :: bool

definition thread_reply ::
  "js_format \<Rightarrow> html_lib \<Rightarrow> uuid \<Rightarrow> ticket \<Rightarrow> string \<Rightarrow> ('s ticketing_scheme, ProcessInboundEmailResult) act" where
  "thread_reply F H tenantId existing body =
     act_bind (tickets_addMessage F H tenantId (row_id existing)
       \<lparr>am_type = Reply, am_authorType = By_Contact, am_authorId = None, am_body = body, am_cc = None\<rparr>) (\<lambda>_.
     act_return \<lparr>pr_ticketId = row_id existing, pr_ticketNumber = tk_ticket_number existing, pr_created = False\<rparr>)"

definition open_ticket ::
  "js_format \<Rightarrow> intl \<Rightarrow> html_lib \<Rightarrow> uuid \<Rightarrow> string \<times> string \<Rightarrow> string \<Rightarrow> string \<Rightarrow>
     ('s ticketing_scheme, ProcessInboundEmailResult) act" where
  "open_ticket F I H tenantId sender subject body =
     act_bind (tickets_create F I tenantId
       \<lparr>nt_subject = subject, nt_contactId = None,
        nt_contact = Some \<lparr>ic_name = (if fst sender \<noteq> [] then fst sender else snd sender), ic_email = snd sender\<rparr>,
        nt_source = Src_Email, nt_sourceDetail = None, nt_ticketTypeId = None, nt_groupId = None, nt_agentId = None,
        nt_requiredSkill = None, nt_resourceId = None, nt_priority = None, nt_platform = None, nt_tags = None, nt_customFields = None\<rparr>) (\<lambda>ticket.
     act_bind (tickets_addMessage F H tenantId (row_id ticket)
       \<lparr>am_type = Reply, am_authorType = By_Contact, am_authorId = Some (tk_contact_id ticket), am_body = body, am_cc = None\<rparr>) (\<lambda>_.
     act_return \<lparr>pr_ticketId = row_id ticket, pr_ticketNumber = tk_ticket_number ticket, pr_created = True\<rparr>))"

definition processInboundEmail ::
  "js_format \<Rightarrow> intl \<Rightarrow> html_lib \<Rightarrow> mail_parser \<Rightarrow> uuid \<Rightarrow> string \<Rightarrow>
     ('s ticketing_scheme, ProcessInboundEmailResult) act" where
  "processInboundEmail F I H simpleParser tenantId rawEmail =
     (let parsed = simpleParser rawEmail in
      case pm_from parsed of
        None \<Rightarrow> act_throw (Failure ''Inbound email has no From address; cannot resolve a contact'')
      | Some sender \<Rightarrow>
          if snd sender = [] then act_throw (Failure ''Inbound email has no From address; cannot resolve a contact'')
          else
            (let subject = (case pm_subject parsed of None \<Rightarrow> ''(no subject)'' | Some x \<Rightarrow> x); body = extractBody parsed in
             case extractReferencedTicketNumber subject of
               None \<Rightarrow> open_ticket F I H tenantId sender subject body
             | Some n \<Rightarrow> act_bind (findByTicketNumber tenantId n) (\<lambda>existing. case existing of
                   Some k \<Rightarrow> thread_reply F H tenantId k body
                 | None \<Rightarrow> open_ticket F I H tenantId sender subject body)))"

section \<open>A poll\<close>

record imap_message =
  im_uid :: nat
  im_source :: "string option"

definition poll_message ::
  "js_format \<Rightarrow> intl \<Rightarrow> html_lib \<Rightarrow> mail_parser \<Rightarrow> uuid \<Rightarrow> imap_message \<Rightarrow> nat list \<Rightarrow> ('s ticketing_scheme, nat list) act" where
  "poll_message F I H P tenantId m seen = (case im_source m of
      None \<Rightarrow> act_return seen
    | Some raw \<Rightarrow> act_catch (act_bind (processInboundEmail F I H P tenantId raw) (\<lambda>_. act_return (seen @ [im_uid m])))
        (\<lambda>_. act_return seen))"

text \<open>The uids flagged \<open>\Seen\<close>, given the unseen messages of the mailbox.\<close>

definition pollOnce ::
  "js_format \<Rightarrow> intl \<Rightarrow> html_lib \<Rightarrow> mail_parser \<Rightarrow> bool \<Rightarrow> uuid option \<Rightarrow> imap_message list \<Rightarrow> ('s ticketing_scheme, nat list) act" where
  "pollOnce F I H P polling tenantId messages =
     (if polling then act_return []
      else case tenantId of
        None \<Rightarrow> act_return []
      | Some t \<Rightarrow> act_fold (poll_message F I H P t) messages [])"

section \<open>Threading\<close>

lemma js_lower_tag: "js_lower (take 9 (''[Ticket #'' @ s)) = ''[ticket #''"
proof -
  have "js_lower ''[Ticket #'' = ''[ticket #''" by code_simp
  then show ?thesis by simp
qed

lemma match_reference_tag: "match_reference (''[Ticket #'' @ nat_text n @ '']'' @ rest) = Some (nat_text n)"
proof -
  have d: "list_all js_digit (nat_text n)" by (rule nat_text_digits)
  have e: "drop 9 (''[Ticket #'' @ nat_text n @ '']'' @ rest) = nat_text n @ '']'' @ rest" by simp
  have nd: "\<not> js_digit (CHR '']'')" by (simp add: js_digit_def)
  have t: "takeWhile js_digit (nat_text n @ '']'' @ rest) = nat_text n" "dropWhile js_digit (nat_text n @ '']'' @ rest) = '']'' @ rest"
    using d nd by (simp_all add: takeWhile_append2 dropWhile_append2 list_all_iff)
  show ?thesis unfolding match_reference_def js_lower_tag e t Let_def by simp
qed

text \<open>A match starts with an opening bracket.\<close>

lemma js_lower_char_bracket: "js_lower_char c = CHR ''['' \<Longrightarrow> c = CHR ''[''"
proof -
  assume l: "js_lower_char c = CHR ''[''"
  have "\<not> (65 \<le> (of_char c :: nat) \<and> (of_char c :: nat) \<le> 90)"
  proof
    assume n: "65 \<le> (of_char c :: nat) \<and> (of_char c :: nat) \<le> 90"
    with l have "char_of ((of_char c :: nat) + 32) = CHR ''[''" by (simp add: js_lower_char_def)
    then have "(of_char (char_of ((of_char c :: nat) + 32) :: char) :: nat) = of_char (CHR ''['')" by simp
    with n show False by simp
  qed
  with l show ?thesis by (auto simp: js_lower_char_def)
qed

lemma match_reference_bracket:
  assumes "c \<noteq> CHR ''[''"
  shows "match_reference (c # s) = None"
proof -
  have "js_lower (take 9 (c # s)) = js_lower_char c # js_lower (take 8 s)" by (simp add: js_lower_def take_Cons')
  then have "js_lower (take 9 (c # s)) \<noteq> ''[ticket #''" using assms js_lower_char_bracket by force
  then show ?thesis by (simp add: match_reference_def)
qed

lemma exec_reference_skip:
  assumes "CHR ''['' \<notin> set pre" and "match_reference s = Some d"
  shows "exec_reference (pre @ s) = Some d"
  using assms
proof (induction pre)
  case Nil
  then show ?case by (cases s) simp_all
next
  case (Cons c pre)
  then show ?case by (auto simp: match_reference_bracket)
qed

lemma reference_roundtrip:
  assumes "CHR ''['' \<notin> set pre"
  shows "extractReferencedTicketNumber (pre @ ''[Ticket #'' @ nat_text n @ '']'' @ rest) = Some n"
  unfolding extractReferencedTicketNumber_def
  by (subst exec_reference_skip [OF assms match_reference_tag]) simp

text \<open>The subject of a reply the help desk sends names its ticket, whatever a mail program puts before it.\<close>

definition reply_payload :: "nat \<Rightarrow> string \<Rightarrow> (string \<times> json) list \<Rightarrow> json" where
  "reply_payload n subject rest = JObj ((''ticketNumber'', JNum (of_nat n)) # (''subject'', JStr subject) # rest)"

lemma js_interp_nat: "js_interp F (Some (JNum (of_nat n))) = nat_text n"
proof -
  have "\<lfloor>of_nat n :: rat\<rfloor> = int n" by (metis floor_of_int of_int_of_nat_eq)
  then show ?thesis by (simp add: js_interp_def js_number_text_def int_text_def)
qed

lemma template_reply_subject:
  "rm_subject (template_reply F (reply_payload n subject rest)) = ''[Ticket #'' @ nat_text n @ '']'' @ '' '' @ subject"
  by (simp add: template_reply_def Let_def reply_payload_def js_prop_def js_interp_nat) (simp add: js_interp_def)

lemma filter_by_key: "distinct (map f xs) \<Longrightarrow> k \<in> set xs \<Longrightarrow> filter (\<lambda>x. f x = f k) xs = [k]"
  by (induction xs) (auto simp: filter_empty_conv, metis image_eqI)

lemma find_by_number:
  assumes "k \<in> set (tickets s)" and "tenant_id k = T" and "numbered s" and "tk_ticket_number k \<le> max_int"
  shows "findByTicketNumber T (tk_ticket_number k) s = (Inr (Some k), s)"
proof -
  have "distinct (map tk_ticket_number (visible T (tickets s)))"
    using assms(3) by (auto simp: numbered_def numbers_of_def numbering_def filter_map comp_def visible_def tenant_isolation_def [abs_def])
  then have "filter (\<lambda>t. tk_ticket_number t = tk_ticket_number k) (visible T (tickets s)) = [k]"
    by (rule filter_by_key) (simp add: assms(1,2))
  with assms(4) show ?thesis by (simp add: findByTicketNumber_def withTenantContext_def sql_first_def)
qed

text \<open>Recording a contact's reply to an existing ticket cannot fail.\<close>

lemma gather_total:
  "\<exists>x. gather_outbound qr k dto b s = Inr (x, s)"
  "\<exists>x. gather_agent_notify H qr k dto b s = Inr (x, s)"
  "\<exists>x. gather_watcher_notify H qr k dto b s = Inr (x, s)"
  by (auto simp: gather_outbound_def gather_agent_notify_def gather_watcher_notify_def tx_bind_def sql_first_def Let_def
      select_agent_user_def watcherEmails_def sql_select_def split: option.splits)

lemma logged_total: "\<exists>t. logged m s = (Inr (), t)"
  by (auto simp: logged_def act_catch_def act_bind_def split: sum.splits prod.splits)

lemma logged_fold_total: "\<exists>t. act_fold (\<lambda>w _. logged (f w)) ws () s = (Inr (), t)"
proof (induction ws arbitrary: s)
  case (Cons w ws)
  from logged_total [of "f w" s] obtain u where "logged (f w) s = (Inr (), u)" by blast
  with Cons.IH [of u] show ?case by (simp add: act_bind_def)
qed simp

lemma send_total:
  "\<exists>t. when_some ob (send_outbound H T) s = (Inr (), t)"
  "\<exists>t. when_some ag (send_agent_notify T) s = (Inr (), t)"
  "\<exists>t. when_some wn (send_watcher_notify T) s = (Inr (), t)"
proof -
  show "\<exists>t. when_some ob (send_outbound H T) s = (Inr (), t)"
    by (simp add: when_some_def send_outbound_def logged_total split: option.split)
  show "\<exists>t. when_some ag (send_agent_notify T) s = (Inr (), t)"
    by (simp add: when_some_def send_agent_notify_def logged_total resolveAgentEmail_def withTenantContext_def select_agent_user_def
        tx_bind_def sql_first_def sql_select_def act_bind_def split: option.split)
  show "\<exists>t. when_some wn (send_watcher_notify T) s = (Inr (), t)"
    by (simp add: when_some_def send_watcher_notify_def logged_fold_total split: option.split)
qed

text \<open>The mails an answer causes are sent after the commit and leave the conversation alone.\<close>

lemma messages_module: "module_pred (\<lambda>s. ticket_messages s = v)"
proof -
  have "platform.more s = platform.more t \<Longrightarrow> ticket_messages s = ticket_messages t" for s t :: "'a ticketing_scheme"
    by (cases s; cases t) simp
  then show ?thesis unfolding module_pred_def by metis
qed

lemma enqueue_messages: "act_rel (same ticket_messages) (enqueue t c r n p)"
  using enqueue_keeps [OF messages_module] unfolding act_rel_def keeps_def same_def by blast

lemma send_messages:
  "act_rel (same ticket_messages) (when_some ob (send_outbound H t))"
  "act_rel (same ticket_messages) (when_some ag (send_agent_notify t))"
  "act_rel (same ticket_messages) (when_some wn (send_watcher_notify t))"
  unfolding when_some_def send_outbound_def send_agent_notify_def send_watcher_notify_def resolveAgentEmail_def select_agent_user_def
  by (intro frame_intros enqueue_messages)+

text \<open>The row a contact's answer adds to the conversation of a ticket.\<close>

definition contact_answer :: "html_lib \<Rightarrow> uuid \<Rightarrow> uuid \<Rightarrow> string \<Rightarrow> ticket_message \<Rightarrow> bool" where
  "contact_answer H T ticketId body m \<longleftrightarrow> tenant_id m = T \<and> ms_ticket_id m = ticketId \<and> ms_type m = Reply \<and>
     ms_author_type m = By_Contact \<and> ms_body m = sanitizeTicketBody H body"

lemma contact_reply_recorded:
  assumes "k \<in> set (tickets s)" and "tenant_id k = T"
    and dto: "am_type dto = Reply" "am_authorType dto = By_Contact" "am_authorId dto = None"
  shows "\<exists>m t. tickets_addMessage F H T (row_id k) dto s = (Inr m, t) \<and>
    contact_answer H T (row_id k) (am_body dto) m \<and> ticket_messages t = ticket_messages s @ [m]"
proof -
  obtain r where r: "find_row ''Ticket'' tickets T (row_id k) s = Inr (r, s)"
    using find_row_found [of k tickets s "row_id k" T] assms(1,2) by auto
  obtain m u where m: "insert_message T T (row_id k) Reply By_Contact None (sanitizeTicketBody H (am_body dto)) (cc_of dto) s = Inr (m, u)"
    and row: "contact_answer H T (row_id k) (am_body dto) m" "ticket_messages u = ticket_messages s @ [m]"
    by (simp add: insert_message_def tx_bind_def gen_random_uuid_def sql_now_def sql_insert_def tenant_isolation_def contact_answer_def)
  let ?b = "sanitizeTicketBody H (am_body dto)"
  obtain ob ag wn where g: "gather_outbound T r dto ?b u = Inr (ob, u)" "gather_agent_notify H T r dto ?b u = Inr (ag, u)"
    "gather_watcher_notify H T r dto ?b u = Inr (wn, u)"
    using gather_total(1) [of T r dto ?b u] gather_total(2) [of H T r dto ?b u] gather_total(3) [of H T r dto ?b u] by auto
  have body: "message_body F H T (row_id k) dto T s = Inr ((m, ob, ag, wn), u)"
    by (simp add: message_body_def tx_bind_def r dto m g assert_optional_def sql_now_def Let_def)
  obtain v where v: "when_some ob (send_outbound H T) u = (Inr (), v)" using send_total(1) by blast
  obtain w where w: "when_some ag (send_agent_notify T) v = (Inr (), w)" using send_total(2) by blast
  obtain x where x: "when_some wn (send_watcher_notify T) w = (Inr (), x)" using send_total(3) by blast
  have "ticket_messages x = ticket_messages u"
    using act_relD [OF send_messages(1) v] act_relD [OF send_messages(2) w] act_relD [OF send_messages(3) x] by (simp add: same_def)
  with row show ?thesis
    by (simp add: tickets_addMessage_def act_bind_def withTenantContext_def body v w x)
qed

text \<open>
  C24. A customer's answer to a mail of the help desk lands on the ticket it answers: if the subject of an
  inbound mail is the subject of an outbound reply, after any prefix without an opening bracket such
  as Re: or Fwd:, then processing it always succeeds, creates no ticket and reports the ticket whose
  number the outbound mail carried; the conversation has one more message, the sanitised body of the
  mail as a contact's reply on that ticket, and the messages there were before are unchanged.
\<close>

theorem inbound_reply_threads:
  assumes "k \<in> set (tickets s)" and "tenant_id k = T" and "numbered s" and "tk_ticket_number k \<le> max_int"
    and "pm_from (simpleParser raw) = Some (name, addr)" and "addr \<noteq> []" and "CHR ''['' \<notin> set pre"
    and "pm_subject (simpleParser raw) = Some (pre @ rm_subject (template_reply F (reply_payload (tk_ticket_number k) subject rest)))"
  shows "\<exists>t. processInboundEmail F I H simpleParser T raw s
      = (Inr \<lparr>pr_ticketId = row_id k, pr_ticketNumber = tk_ticket_number k, pr_created = False\<rparr>, t) \<and> numbering t = numbering s \<and>
    (\<exists>m. ticket_messages t = ticket_messages s @ [m] \<and> contact_answer H T (row_id k) (extractBody (simpleParser raw)) m)"
proof -
  define dto where "dto = \<lparr>am_type = Reply, am_authorType = By_Contact, am_authorId = None, am_body = extractBody (simpleParser raw), am_cc = None\<rparr>"
  obtain m t where t: "tickets_addMessage F H T (row_id k) dto s = (Inr m, t)"
    and m: "ticket_messages t = ticket_messages s @ [m]" "contact_answer H T (row_id k) (extractBody (simpleParser raw)) m"
    using contact_reply_recorded [OF assms(1,2), where dto = dto and F = F and H = H] unfolding dto_def by auto
  have ref: "extractReferencedTicketNumber (pre @ rm_subject (template_reply F (reply_payload (tk_ticket_number k) subject rest))) = Some (tk_ticket_number k)"
    using reference_roundtrip [OF assms(7)] by (simp only: template_reply_subject)
  have "processInboundEmail F I H simpleParser T raw s = thread_reply F H T k (extractBody (simpleParser raw)) s"
    unfolding processInboundEmail_def Let_def assms(5,8) option.case ref using find_by_number [OF assms(1-4)] assms(6)
    by (simp add: act_bind_def)
  with t have "processInboundEmail F I H simpleParser T raw s
      = (Inr \<lparr>pr_ticketId = row_id k, pr_ticketNumber = tk_ticket_number k, pr_created = False\<rparr>, t)"
    by (simp add: thread_reply_def act_bind_def dto_def)
  moreover have "numbering t = numbering s" using act_relD [OF operations_numbering(3) t] by (simp add: same_def)
  ultimately show ?thesis using m by blast
qed

definition echo_parser :: "string \<Rightarrow> ParsedMail" where
  "echo_parser raw = \<lparr>pm_from = Some (''Eve'', ''eve@x.org''), pm_subject = Some raw, pm_text = Some ''Thanks'', pm_html = None\<rparr>"

theorem inbound_reply_threads_witness:
  "\<exists>t. processInboundEmail unary_format utc_only toy_html echo_parser 1 ''Re: [Ticket #1] Printer'' counted_ticket
     = (Inr \<lparr>pr_ticketId = 20, pr_ticketNumber = 1, pr_created = False\<rparr>, t) \<and> numbering t = numbering counted_ticket \<and>
   length (ticket_messages t) = Suc (length (ticket_messages counted_ticket))"
proof -
  have n: "numbered counted_ticket"
    by (auto simp: numbered_def numbers_of_def next_number_def numbering_def counted_ticket_def printer_ticket_def)
  have one: "nat_text 1 = ''1''" by code_simp
  have s: "rm_subject (template_reply unary_format (reply_payload (tk_ticket_number printer_ticket) ''Printer'' [])) = ''[Ticket #1] Printer''"
    by (simp add: template_reply_subject printer_ticket_def one del: One_nat_def)
  have sub: "pm_subject (echo_parser ''Re: [Ticket #1] Printer'')
      = Some (''Re: '' @ rm_subject (template_reply unary_format (reply_payload (tk_ticket_number printer_ticket) ''Printer'' [])))"
    unfolding s by (simp add: echo_parser_def)
  have "printer_ticket \<in> set (tickets counted_ticket)" "tenant_id printer_ticket = 1" "tk_ticket_number printer_ticket \<le> max_int"
    "pm_from (echo_parser ''Re: [Ticket #1] Printer'') = Some (''Eve'', ''eve@x.org'')"
    by (simp_all add: counted_ticket_def printer_ticket_def max_int_def echo_parser_def)
  from inbound_reply_threads [where simpleParser = echo_parser, OF this(1,2) n this(3,4) _ _ sub, of utc_only toy_html] show ?thesis
    by (auto simp: printer_ticket_def simp del: One_nat_def)
qed

end
