(* ===== verification/Helpdesk_Schema.thy ===== *)
theory Helpdesk_Schema
  imports Tickets
begin

text \<open>
  The tables around the tickets: companies, canned responses, to-dos, links, saved views, scenarios,
  presence and ratings, as an extension of the ticketing state; what the foreign keys of the
  migrations do when a row they refer to is deleted; and the frame of a tenant over all of it.
\<close>

section \<open>Rows\<close>

record company = row +
  cy_name :: string
  cy_domain :: "string option"

record canned_response = row +
  cr_title :: string
  cr_body :: string
  cr_folder_id :: "uuid option"
  cr_created_at :: msec
  cr_updated_at :: msec

record canned_response_folder = row +
  fo_agent_id :: "uuid option"
  fo_name :: string
  fo_created_at :: msec

record ticket_todo = row +
  td_ticket_id :: uuid
  td_body :: string
  td_is_done :: bool
  td_done_at :: "msec option"
  td_created_at :: msec

datatype link_type = Related | Parent_Of

record ticket_link = row +
  lk_from_ticket_id :: uuid
  lk_to_ticket_id :: uuid
  lk_link_type :: link_type
  lk_created_at :: msec

record ticket_view = row +
  tv_agent_id :: "uuid option"
  tv_name :: string
  tv_filters :: json
  tv_created_at :: msec

text \<open>The \<open>jsonb\<close> column of actions; \<open>None\<close> is a JSON \<open>null\<close> in it.\<close>

record scenario = row +
  sc_agent_id :: "uuid option"
  sc_name :: string
  sc_actions :: "automation_action list option"
  sc_created_at :: msec
  sc_updated_at :: msec

text \<open>\<open>ticket_presence\<close> has no id of its own: its key is the pair of ticket and agent.\<close>

record presence = row +
  tp_ticket_id :: uuid
  tp_agent_id :: uuid
  tp_is_typing :: bool
  tp_last_seen_at :: msec

datatype satisfaction = Happy | Neutral | Unhappy

record rating = row +
  rt_ticket_id :: uuid
  rt_contact_id :: uuid
  rt_rating :: satisfaction
  rt_comment :: "string option"
  rt_rated_at :: msec

section \<open>The state\<close>

record helpdesk = ticketing +
  companies :: "company list"
  canned_responses :: "canned_response list"
  canned_response_folders :: "canned_response_folder list"
  ticket_todos :: "ticket_todo list"
  ticket_links :: "ticket_link list"
  ticket_views :: "ticket_view list"
  scenarios :: "scenario list"
  ticket_presence :: "presence list"
  satisfaction_ratings :: "rating list"

definition helpdesk_frame :: "query_runner \<Rightarrow> 's helpdesk_scheme \<Rightarrow> 's helpdesk_scheme \<Rightarrow> bool" where
  "helpdesk_frame qr s t \<longleftrightarrow>
     ticketing_frame qr (ticketing.truncate s) (ticketing.truncate t) \<and>
     others qr (companies t) = others qr (companies s) \<and>
     others qr (canned_responses t) = others qr (canned_responses s) \<and>
     others qr (canned_response_folders t) = others qr (canned_response_folders s) \<and>
     others qr (ticket_todos t) = others qr (ticket_todos s) \<and>
     others qr (ticket_links t) = others qr (ticket_links s) \<and>
     others qr (ticket_views t) = others qr (ticket_views s) \<and>
     others qr (scenarios t) = others qr (scenarios s) \<and>
     others qr (ticket_presence t) = others qr (ticket_presence s) \<and>
     others qr (satisfaction_ratings t) = others qr (satisfaction_ratings s) \<and>
     helpdesk.more t = helpdesk.more s"

interpretation helpdesk_frame: frame "helpdesk_frame qr" for qr
  by unfold_locales (auto simp: helpdesk_frame_def intro: ticketing_frame.frame_refl ticketing_frame.frame_trans)

text \<open>What a ticket operation keeps, it keeps of the larger state too.\<close>

lemma ticketing_helpdesk_frame:
  fixes s t :: "'s helpdesk_scheme"
  assumes "ticketing_frame qr s t"
  shows "helpdesk_frame qr s t"
proof -
  have m: "ticketing.more t = ticketing.more s" using assms by (simp add: ticketing_frame_def)
  have "companies t = companies s" "canned_responses t = canned_responses s" "canned_response_folders t = canned_response_folders s"
    "ticket_todos t = ticket_todos s" "ticket_links t = ticket_links s" "ticket_views t = ticket_views s" "scenarios t = scenarios s"
    "ticket_presence t = ticket_presence s" "satisfaction_ratings t = satisfaction_ratings s" "helpdesk.more t = helpdesk.more s"
    using m by (cases s; cases t; simp)+
  moreover have "ticketing_frame qr (ticketing.truncate s) (ticketing.truncate t)"
    using assms by (simp add: ticketing_frame_def ticketing.truncate_def ticketing.make_def)
  ultimately show ?thesis by (simp add: helpdesk_frame_def)
qed

lemmas helpdesk_frame_defs = helpdesk_frame_def ticketing_frame_def ticketing.truncate_def ticketing.make_def

interpretation companies_tbl: tenant_table companies companies_update helpdesk_frame
  by unfold_locales (simp_all add: helpdesk_frame_defs)
interpretation canned_responses_tbl: tenant_table canned_responses canned_responses_update helpdesk_frame
  by unfold_locales (simp_all add: helpdesk_frame_defs)
interpretation canned_response_folders_tbl: tenant_table canned_response_folders canned_response_folders_update helpdesk_frame
  by unfold_locales (simp_all add: helpdesk_frame_defs)
interpretation ticket_todos_tbl: tenant_table ticket_todos ticket_todos_update helpdesk_frame
  by unfold_locales (simp_all add: helpdesk_frame_defs)
interpretation ticket_links_tbl: tenant_table ticket_links ticket_links_update helpdesk_frame
  by unfold_locales (simp_all add: helpdesk_frame_defs)
interpretation ticket_views_tbl: tenant_table ticket_views ticket_views_update helpdesk_frame
  by unfold_locales (simp_all add: helpdesk_frame_defs)
interpretation scenarios_tbl: tenant_table scenarios scenarios_update helpdesk_frame
  by unfold_locales (simp_all add: helpdesk_frame_defs)
interpretation ticket_presence_tbl: tenant_table ticket_presence ticket_presence_update helpdesk_frame
  by unfold_locales (simp_all add: helpdesk_frame_defs)
interpretation satisfaction_ratings_tbl: tenant_table satisfaction_ratings satisfaction_ratings_update helpdesk_frame
  by unfold_locales (simp_all add: helpdesk_frame_defs)
interpretation hd_groups_tbl: tenant_table groups groups_update helpdesk_frame
  by unfold_locales (simp_all add: helpdesk_frame_defs)
interpretation hd_users_tbl: tenant_table users users_update helpdesk_frame
  by unfold_locales (simp_all add: helpdesk_frame_defs)
interpretation hd_agents_tbl: tenant_table agents agents_update helpdesk_frame
  by unfold_locales (simp_all add: helpdesk_frame_defs)
interpretation hd_contacts_tbl: tenant_table contacts contacts_update helpdesk_frame
  by unfold_locales (simp_all add: helpdesk_frame_defs)
interpretation hd_sla_policies_tbl: tenant_table sla_policies sla_policies_update helpdesk_frame
  by unfold_locales (simp_all add: helpdesk_frame_defs)
interpretation hd_ticket_types_tbl: tenant_table ticket_types ticket_types_update helpdesk_frame
  by unfold_locales (simp_all add: helpdesk_frame_defs)
interpretation hd_agent_skills_tbl: tenant_table agent_skills agent_skills_update helpdesk_frame
  by unfold_locales (simp_all add: helpdesk_frame_defs)
interpretation hd_time_logs_tbl: tenant_table ticket_time_logs ticket_time_logs_update helpdesk_frame
  by unfold_locales (simp_all add: helpdesk_frame_defs)
interpretation hd_attachments_tbl: tenant_table ticket_attachments ticket_attachments_update helpdesk_frame
  by unfold_locales (simp_all add: helpdesk_frame_defs)

lemma gen_random_uuid_helpdesk_frame [frame_intros]: "tx_rel (helpdesk_frame qr) gen_random_uuid"
  by (rule tx_rel_mono [OF gen_random_uuid_ticketing_frame ticketing_helpdesk_frame])

lemma sql_now_helpdesk_frame [frame_intros]: "tx_rel (helpdesk_frame qr) sql_now"
  unfolding sql_now_def by (rule frame_intros)

section \<open>Foreign keys when the row they refer to is deleted\<close>

text \<open>
  \<open>ON DELETE SET NULL\<close>, \<open>ON DELETE CASCADE\<close> and the default \<open>RESTRICT\<close>. The database acts on all
  rows that refer to the deleted one, whichever tenant they belong to.
\<close>

definition on_delete_set_null ::
  "(('r list \<Rightarrow> 'r list) \<Rightarrow> 's \<Rightarrow> 's) \<Rightarrow> ('r \<Rightarrow> uuid option) \<Rightarrow> ('r \<Rightarrow> 'r) \<Rightarrow> uuid \<Rightarrow> ('s, unit) tx" where
  "on_delete_set_null upd ref clear i = (\<lambda>s. Inr ((), upd (map (\<lambda>r. if ref r = Some i then clear r else r)) s))"

definition on_delete_cascade ::
  "(('r list \<Rightarrow> 'r list) \<Rightarrow> 's \<Rightarrow> 's) \<Rightarrow> ('r \<Rightarrow> uuid option) \<Rightarrow> uuid \<Rightarrow> ('s, unit) tx" where
  "on_delete_cascade upd ref i = (\<lambda>s. Inr ((), upd (filter (\<lambda>r. ref r \<noteq> Some i)) s))"

definition on_delete_restrict :: "('s \<Rightarrow> 'r list) \<Rightarrow> ('r \<Rightarrow> uuid option) \<Rightarrow> uuid \<Rightarrow> ('s, unit) tx" where
  "on_delete_restrict tbl ref i = (\<lambda>s. if Some i \<in> ref ` set (tbl s) then Inl foreign_key_violation else Inr ((), s))"

text \<open>\<open>DELETE \<dots> WHERE id = i RETURNING id\<close> with the actions of the keys that refer to the table.\<close>

definition remove_referenced ::
  "string \<Rightarrow> ('s \<Rightarrow> 'r row_scheme list) \<Rightarrow> (('r row_scheme list \<Rightarrow> 'r row_scheme list) \<Rightarrow> 's \<Rightarrow> 's) \<Rightarrow>
     query_runner \<Rightarrow> uuid \<Rightarrow> ('s, unit) tx \<Rightarrow> ('s, unit) tx" where
  "remove_referenced label tbl upd qr i keys =
     tx_bind (sql_delete tbl upd qr (by_id i)) (\<lambda>rows.
       if rows = [] then tx_throw (NotFound label i) else keys)"

text \<open>\<open>catch (err) { if (err.code === code) throw \<dots>; throw err; }\<close>.\<close>

definition tx_translate :: "error \<Rightarrow> error \<Rightarrow> ('s, 'a) tx \<Rightarrow> ('s, 'a) tx" where
  "tx_translate e e' m = (\<lambda>s. case m s of Inl x \<Rightarrow> Inl (if x = e then e' else x) | Inr r \<Rightarrow> Inr r)"

lemma tx_translate_frame [frame_intros]: "tx_rel R m \<Longrightarrow> tx_rel R (tx_translate e e' m)"
  by (auto simp: tx_rel_def tx_translate_def split: sum.splits)

text \<open>\<open>UPDATE\<close> with the assignments of a request; with no assignment the row is only read.\<close>

definition patch_row ::
  "string \<Rightarrow> ('s \<Rightarrow> 'r row_scheme list) \<Rightarrow> (('r row_scheme list \<Rightarrow> 'r row_scheme list) \<Rightarrow> 's \<Rightarrow> 's) \<Rightarrow>
     query_runner \<Rightarrow> uuid \<Rightarrow> 'r row_scheme assignments \<Rightarrow> 'r row_scheme assignments \<Rightarrow> ('s, 'r row_scheme) tx" where
  "patch_row label tbl upd qr i sets stamp =
     (if sets = [] then find_row label tbl qr i
      else tx_bind (sql_patch tbl upd qr (by_id i) (sets @ stamp)) (first_row label i))"

context frame
begin

lemma patch_row_frame [frame_intros]:
  "tx_rel R (sql_update tbl upd qr (by_id i) (apply_assignments (sets @ stamp))) \<Longrightarrow> tx_rel R (patch_row label tbl upd qr i sets stamp)"
  unfolding patch_row_def by (intro frame_intros)

lemma remove_referenced_frame [frame_intros]:
  "tx_rel R (sql_delete tbl upd qr (by_id i)) \<Longrightarrow> tx_rel R keys \<Longrightarrow> tx_rel R (remove_referenced label tbl upd qr i keys)"
  unfolding remove_referenced_def by (intro frame_intros)

lemma on_delete_restrict_frame [frame_intros]: "tx_rel R (on_delete_restrict tbl ref i)"
  by (auto simp: tx_rel_def on_delete_restrict_def frame_refl)

end

text \<open>The state of the examples: one tenant with one ticket.\<close>

definition one_desk :: helpdesk where
  "one_desk = ticketing.extend one_ticket (helpdesk.fields [] [] [] [] [] [] [] [] [])"

lemma one_desk_simps [simp]:
  "tickets one_desk = [printer_ticket]" "clock one_desk = 0" "next_uuid one_desk = 100"
  "ticket_activities one_desk = []" "contacts one_desk = []" "agents one_desk = []" "users one_desk = []"
  "ticket_types one_desk = []" "groups one_desk = []" "canned_responses one_desk = []" "canned_response_folders one_desk = []"
  "ticket_todos one_desk = []" "ticket_links one_desk = []" "ticket_presence one_desk = []" "satisfaction_ratings one_desk = []"
  "ticket_views one_desk = []" "scenarios one_desk = []"
  by (simp_all add: one_desk_def one_ticket_def printer_ticket_def empty_platform_def platform.defs ticketing.defs helpdesk.defs)

end
