(* ===== verification/Catalogue.thy ===== *)
theory Catalogue
  imports Helpdesk_Schema "HOL-Library.List_Lexorder" "HOL-Library.Char_ord"
begin

text \<open>
  The services of the help desk's catalogue: groups, agents and their skills, companies, contacts,
  canned responses and folders, SLA policies and ticket types (the \<open>*.service.ts\<close> files of
  \<open>modules/ticketing\<close>). The lemmas show that each stays within its tenant, what deleting a row does
  to the rows that refer to it, and the one reference that is not checked against the tenant.
  \<open>ORDER BY\<close> of a text column is the order of the code points.
\<close>

section \<open>Contact addresses\<close>

definition email_char :: "char \<Rightarrow> bool" where
  "email_char c \<longleftrightarrow> \<not> js_space c \<and> c \<noteq> CHR ''@''"

text \<open>\<open>/^[^\s@]+@[^\s@]+\.[^\s@]+$/\<close>: a local part, a domain with a dot inside.\<close>

definition EMAIL_PATTERN :: "string \<Rightarrow> bool" where
  "EMAIL_PATTERN e =
     (let l = takeWhile (\<lambda>c. c \<noteq> CHR ''@'') e; d = tl (dropWhile (\<lambda>c. c \<noteq> CHR ''@'') e) in
      l \<noteq> [] \<and> list_all email_char l \<and> list_all email_char d \<and> CHR ''.'' \<in> set (butlast (tl d)))"

definition isEmailValid :: "string option \<Rightarrow> bool" where
  "isEmailValid email = (case email of None \<Rightarrow> True | Some e \<Rightarrow> e = [] \<or> EMAIL_PATTERN e)"

section \<open>Groups\<close>

record CreateGroup =
  cg_name :: string
  cg_description :: "string option"
  cg_assignmentStrategy :: "assignment_strategy option"
  cg_maxOpenTicketsPerAgent :: "int option"

record UpdateGroup =
  ug_name :: "string option option"
  ug_description :: "string option option"
  ug_assignmentStrategy :: "assignment_strategy option option"
  ug_maxOpenTicketsPerAgent :: "int option option"

definition groupsService_list :: "uuid \<Rightarrow> ('s helpdesk_scheme, group list) act" where
  "groupsService_list tenantId = withTenantContext tenantId (\<lambda>qr.
     tx_bind (sql_select groups qr (\<lambda>_. True)) (\<lambda>rows. tx_return (order_by gr_name rows)))"

definition groupsService_create :: "uuid \<Rightarrow> CreateGroup \<Rightarrow> ('s helpdesk_scheme, group) act" where
  "groupsService_create tenantId dto = withTenantContext tenantId (\<lambda>qr.
     tx_bind gen_random_uuid (\<lambda>i. tx_bind sql_now (\<lambda>now.
       sql_insert groups_update qr \<lparr>row_id = i, tenant_id = tenantId, gr_name = cg_name dto, gr_description = cg_description dto,
         gr_created_at = now, gr_assignment_strategy = (case cg_assignmentStrategy dto of None \<Rightarrow> Manual | Some v \<Rightarrow> v),
         gr_max_open_tickets_per_agent = cg_maxOpenTicketsPerAgent dto\<rparr>)))"

definition groupsService_update :: "uuid \<Rightarrow> uuid \<Rightarrow> UpdateGroup \<Rightarrow> ('s helpdesk_scheme, group) act" where
  "groupsService_update tenantId i dto = withTenantContext tenantId (\<lambda>qr.
     tx_bind (find_row ''Group'' groups qr i) (\<lambda>_.
     patch_row ''Group'' groups groups_update qr i
       (set_required (ug_name dto) (\<lambda>v g. g\<lparr>gr_name := v\<rparr>) @
        set_nullable (ug_description dto) (\<lambda>v g. g\<lparr>gr_description := v\<rparr>) @
        set_required (ug_assignmentStrategy dto) (\<lambda>v g. g\<lparr>gr_assignment_strategy := v\<rparr>) @
        set_nullable (ug_maxOpenTicketsPerAgent dto) (\<lambda>v g. g\<lparr>gr_max_open_tickets_per_agent := v\<rparr>)) []))"

definition group_keys :: "uuid \<Rightarrow> ('s helpdesk_scheme, unit) tx" where
  "group_keys i =
     tx_bind (on_delete_restrict tickets tk_group_id i) (\<lambda>_.
     tx_bind (on_delete_set_null ticket_types_update tt_default_group_id (\<lambda>t. t\<lparr>tt_default_group_id := None\<rparr>) i) (\<lambda>_.
     on_delete_cascade assignment_cursors_update (\<lambda>c. Some (row_id c)) i))"

definition groupsService_remove :: "js_format \<Rightarrow> uuid \<Rightarrow> uuid \<Rightarrow> ('s helpdesk_scheme, unit) act" where
  "groupsService_remove F tenantId i = withTenantContext tenantId (\<lambda>qr.
     tx_translate foreign_key_violation (BadRequest (''Group '' @ fmt_uuid F i @
         '' is still referenced by existing tickets or ticket types and cannot be deleted''))
       (remove_referenced ''Group'' groups groups_update qr i (group_keys i)))"

section \<open>Agents\<close>

record CreateAgent =
  ca_name :: string
  ca_email :: string
  ca_groupIds :: "uuid list option"

record UpdateAgent =
  ua_name :: "string option option"
  ua_email :: "string option option"
  ua_isActive :: "bool option option"
  ua_groupIds :: "uuid list option option"

record agent_view =
  av_id :: uuid
  av_group_ids :: "uuid list"
  av_is_active :: bool
  av_name :: string
  av_email :: string

definition agent_join :: "query_runner \<Rightarrow> (agent \<Rightarrow> bool) \<Rightarrow> ('s helpdesk_scheme, agent_view list) tx" where
  "agent_join qr P = tx_gets (\<lambda>s. concat (map (\<lambda>a. map (\<lambda>u.
      \<lparr>av_id = row_id a, av_group_ids = ag_group_ids a, av_is_active = ag_is_active a, av_name = us_name u, av_email = us_email u\<rparr>)
      (filter (by_id (ag_user_id a)) (visible qr (users s)))) (filter P (visible qr (agents s)))))"

definition agentsService_list :: "uuid \<Rightarrow> ('s helpdesk_scheme, agent_view list) act" where
  "agentsService_list tenantId = withTenantContext tenantId (\<lambda>qr.
     tx_bind (agent_join qr (\<lambda>_. True)) (\<lambda>rows. tx_return (order_by av_name rows)))"

definition agentsService_findByUserId :: "uuid \<Rightarrow> uuid \<Rightarrow> ('s helpdesk_scheme, uuid option) act" where
  "agentsService_findByUserId tenantId userId = withTenantContext tenantId (\<lambda>qr.
     tx_bind (sql_first agents qr (\<lambda>a. ag_user_id a = userId)) (\<lambda>a. tx_return (map_option row_id a)))"

definition assertGroupsBelongToTenant :: "js_format \<Rightarrow> query_runner \<Rightarrow> uuid list \<Rightarrow> ('s helpdesk_scheme, unit) tx" where
  "assertGroupsBelongToTenant F qr groupIds = tx_fold (\<lambda>g _. assertBelongsToTenant F groups qr g ''Group'') groupIds ()"

text \<open>The unique key on tenant and address of \<open>users\<close>.\<close>

definition users_unique :: "uuid \<Rightarrow> string \<Rightarrow> (user \<Rightarrow> bool) \<Rightarrow> ('s helpdesk_scheme, unit) tx" where
  "users_unique tenantId email except =
     tx_bind (tx_gets (\<lambda>s. \<exists>u \<in> set (users s). tenant_id u = tenantId \<and> us_email u = email \<and> \<not> except u)) (\<lambda>clash.
       if clash then tx_throw unique_violation else tx_return ())"

definition email_taken :: "string \<Rightarrow> error" where
  "email_taken email = BadRequest (''A user with email '' @ email @ '' already exists for this tenant'')"

definition agentsService_create :: "js_format \<Rightarrow> uuid \<Rightarrow> CreateAgent \<Rightarrow> ('s helpdesk_scheme, agent_view) act" where
  "agentsService_create F tenantId dto = withTenantContext tenantId (\<lambda>qr.
     let groupIds = (case ca_groupIds dto of None \<Rightarrow> [] | Some gs \<Rightarrow> gs) in
     tx_bind (assertGroupsBelongToTenant F qr groupIds) (\<lambda>_.
     tx_bind (tx_translate unique_violation (email_taken (ca_email dto))
       (tx_bind (users_unique tenantId (ca_email dto) (\<lambda>_. False)) (\<lambda>_.
        tx_bind gen_random_uuid (\<lambda>u. tx_bind sql_now (\<lambda>now.
        sql_insert users_update qr \<lparr>row_id = u, tenant_id = tenantId, us_email = ca_email dto, us_name = ca_name dto,
          us_password_hash = ''x'', us_role = Role_Agent, us_created_at = now, us_updated_at = now,
          us_totp_secret = None, us_totp_enabled = False\<rparr>))))) (\<lambda>usr.
     tx_bind gen_random_uuid (\<lambda>i.
     tx_bind (sql_insert agents_update qr \<lparr>row_id = i, tenant_id = tenantId, ag_user_id = row_id usr, ag_group_ids = groupIds, ag_is_active = True\<rparr>) (\<lambda>a.
     tx_return \<lparr>av_id = row_id a, av_group_ids = ag_group_ids a, av_is_active = ag_is_active a, av_name = ca_name dto, av_email = ca_email dto\<rparr>)))))"

definition update_agent_user :: "query_runner \<Rightarrow> uuid \<Rightarrow> uuid \<Rightarrow> UpdateAgent \<Rightarrow> ('s helpdesk_scheme, unit) tx" where
  "update_agent_user qr tenantId userId dto =
     (if ua_name dto = None \<and> ua_email dto = None then tx_return ()
      else tx_translate unique_violation (email_taken (case ua_email dto of Some (Some e) \<Rightarrow> e | Some None \<Rightarrow> ''null'' | None \<Rightarrow> ''undefined''))
        (tx_bind (case ua_email dto of Some (Some e) \<Rightarrow> users_unique tenantId e (by_id userId) | _ \<Rightarrow> tx_return ()) (\<lambda>_.
         tx_bind (sql_patch users users_update qr (by_id userId)
           (set_required (ua_name dto) (\<lambda>v u. u\<lparr>us_name := v\<rparr>) @ set_required (ua_email dto) (\<lambda>v u. u\<lparr>us_email := v\<rparr>))) (\<lambda>_.
         tx_return ()))))"

definition agentsService_update :: "js_format \<Rightarrow> uuid \<Rightarrow> uuid \<Rightarrow> UpdateAgent \<Rightarrow> ('s helpdesk_scheme, agent_view option) act" where
  "agentsService_update F tenantId i dto = withTenantContext tenantId (\<lambda>qr.
     tx_bind (find_row ''Agent'' agents qr i) (\<lambda>existing.
     tx_bind (assertGroupsBelongToTenant F qr (case ua_groupIds dto of Some (Some gs) \<Rightarrow> gs | _ \<Rightarrow> [])) (\<lambda>_.
     tx_bind (update_agent_user qr tenantId (ag_user_id existing) dto) (\<lambda>_.
     tx_bind (patch_row ''Agent'' agents agents_update qr i
       (set_required (ua_isActive dto) (\<lambda>v a. a\<lparr>ag_is_active := v\<rparr>) @
        set_required (ua_groupIds dto) (\<lambda>v a. a\<lparr>ag_group_ids := v\<rparr>)) []) (\<lambda>_.
     tx_bind (agent_join qr (by_id i)) (\<lambda>rows. tx_return (first_of rows)))))))"

section \<open>Skills of agents\<close>

definition agentSkills_list :: "uuid \<Rightarrow> uuid option \<Rightarrow> ('s helpdesk_scheme, agent_skill list) act" where
  "agentSkills_list tenantId agentId = withTenantContext tenantId (\<lambda>qr. case agentId of
      Some a \<Rightarrow> tx_bind (sql_select agent_skills qr (\<lambda>k. sk_agent_id k = a)) (\<lambda>rows. tx_return (order_by sk_skill rows))
    | None \<Rightarrow> tx_bind (sql_select agent_skills qr (\<lambda>_. True)) (\<lambda>rows. tx_return (order_by (\<lambda>k. (sk_agent_id k, sk_skill k)) rows)))"

definition agentSkills_add :: "uuid \<Rightarrow> uuid \<Rightarrow> string \<Rightarrow> ('s helpdesk_scheme, agent_skill) act" where
  "agentSkills_add tenantId agentId skill = withTenantContext tenantId (\<lambda>qr.
     let skill = js_trim skill in
     tx_bind (sql_first agent_skills qr (\<lambda>k. tenant_id k = tenantId \<and> sk_agent_id k = agentId \<and> sk_skill k = skill)) (\<lambda>existing.
     case existing of
       Some k \<Rightarrow> tx_return k
     | None \<Rightarrow> tx_bind (fk_check agents agentId) (\<lambda>_. tx_bind gen_random_uuid (\<lambda>i. tx_bind sql_now (\<lambda>now.
         sql_insert agent_skills_update qr \<lparr>row_id = i, tenant_id = tenantId, sk_agent_id = agentId, sk_skill = skill, sk_created_at = now\<rparr>)))))"

definition agentSkills_remove :: "uuid \<Rightarrow> uuid \<Rightarrow> ('s helpdesk_scheme, unit) act" where
  "agentSkills_remove tenantId i = withTenantContext tenantId (\<lambda>qr. remove_row ''Agent skill'' agent_skills agent_skills_update qr i)"

section \<open>Companies\<close>

record UpdateCompany =
  uc_name :: "string option option"
  uc_domain :: "string option option"

text \<open>Each company with the number of its contacts.\<close>

definition companiesService_list :: "uuid \<Rightarrow> ('s helpdesk_scheme, (company \<times> nat) list) act" where
  "companiesService_list tenantId = withTenantContext tenantId (\<lambda>qr.
     tx_bind (sql_select companies qr (\<lambda>_. True)) (\<lambda>rows.
     tx_bind (sql_select contacts qr (\<lambda>c. ct_company_id c \<noteq> None)) (\<lambda>cs.
     tx_return (map (\<lambda>c. (c, length (filter (\<lambda>k. ct_company_id k = Some (row_id c)) cs))) (order_by cy_name rows)))))"

definition companiesService_get :: "uuid \<Rightarrow> uuid \<Rightarrow> ('s helpdesk_scheme, company) act" where
  "companiesService_get tenantId i = withTenantContext tenantId (\<lambda>qr. find_row ''Company'' companies qr i)"

definition companiesService_create :: "uuid \<Rightarrow> string \<Rightarrow> string option \<Rightarrow> ('s helpdesk_scheme, company) act" where
  "companiesService_create tenantId name domain = withTenantContext tenantId (\<lambda>qr.
     tx_bind gen_random_uuid (\<lambda>i.
       sql_insert companies_update qr \<lparr>row_id = i, tenant_id = tenantId, cy_name = name, cy_domain = domain\<rparr>))"

definition companiesService_update :: "uuid \<Rightarrow> uuid \<Rightarrow> UpdateCompany \<Rightarrow> ('s helpdesk_scheme, company) act" where
  "companiesService_update tenantId i dto = withTenantContext tenantId (\<lambda>qr.
     tx_bind (find_row ''Company'' companies qr i) (\<lambda>_.
     patch_row ''Company'' companies companies_update qr i
       (set_required (uc_name dto) (\<lambda>v c. c\<lparr>cy_name := v\<rparr>) @
        set_nullable (uc_domain dto) (\<lambda>v c. c\<lparr>cy_domain := v\<rparr>)) []))"

definition companiesService_remove :: "uuid \<Rightarrow> uuid \<Rightarrow> ('s helpdesk_scheme, unit) act" where
  "companiesService_remove tenantId i = withTenantContext tenantId (\<lambda>qr.
     remove_referenced ''Company'' companies companies_update qr i
       (on_delete_set_null contacts_update ct_company_id (\<lambda>c. c\<lparr>ct_company_id := None\<rparr>) i))"

section \<open>Contacts\<close>

record CreateContact =
  cc_name :: string
  cc_email :: "string option"
  cc_phone :: "string option"
  cc_companyId :: "uuid option"

record UpdateContact =
  uk_name :: "string option option"
  uk_email :: "string option option"
  uk_phone :: "string option option"
  uk_companyId :: "uuid option option"

definition contactsService_list :: "uuid \<Rightarrow> string option \<Rightarrow> bool \<Rightarrow> ('s helpdesk_scheme, contact list) act" where
  "contactsService_list tenantId search needsAction = withTenantContext tenantId (\<lambda>qr.
     tx_bind (sql_select contacts qr (\<lambda>c.
       (case search of None \<Rightarrow> True | Some t \<Rightarrow> t = [] \<or> sql_ilike (ct_name c) (''%'' @ t @ ''%'') \<or>
          (case ct_email c of None \<Rightarrow> False | Some e \<Rightarrow> sql_ilike e (''%'' @ t @ ''%''))) \<and>
       (needsAction \<longrightarrow> \<not> ct_email_valid c))) (\<lambda>rows.
     tx_return (take 50 (order_by ct_name rows))))"

definition contactsService_get :: "uuid \<Rightarrow> uuid \<Rightarrow> ('s helpdesk_scheme, contact) act" where
  "contactsService_get tenantId i = withTenantContext tenantId (\<lambda>qr. find_row ''Contact'' contacts qr i)"

definition contactsService_create :: "js_format \<Rightarrow> uuid \<Rightarrow> CreateContact \<Rightarrow> ('s helpdesk_scheme, contact) act" where
  "contactsService_create F tenantId dto = withTenantContext tenantId (\<lambda>qr.
     tx_bind (assert_optional F companies qr (cc_companyId dto) ''Company'') (\<lambda>_.
     tx_bind gen_random_uuid (\<lambda>i.
     sql_insert contacts_update qr \<lparr>row_id = i, tenant_id = tenantId, ct_company_id = cc_companyId dto, ct_name = cc_name dto,
       ct_email = cc_email dto, ct_phone = cc_phone dto, ct_social_handles = JObj [], ct_password_hash = None,
       ct_oauth_provider = None, ct_email_valid = isEmailValid (cc_email dto)\<rparr>)))"

definition contactsService_update :: "js_format \<Rightarrow> uuid \<Rightarrow> uuid \<Rightarrow> UpdateContact \<Rightarrow> ('s helpdesk_scheme, contact) act" where
  "contactsService_update F tenantId i dto = withTenantContext tenantId (\<lambda>qr.
     tx_bind (find_row ''Contact'' contacts qr i) (\<lambda>_.
     tx_bind (assert_optional F companies qr (Option.bind (uk_companyId dto) id) ''Company'') (\<lambda>_.
     patch_row ''Contact'' contacts contacts_update qr i
       (set_required (uk_name dto) (\<lambda>v c. c\<lparr>ct_name := v\<rparr>) @
        set_nullable (uk_email dto) (\<lambda>v c. c\<lparr>ct_email := v, ct_email_valid := isEmailValid v\<rparr>) @
        set_nullable (uk_phone dto) (\<lambda>v c. c\<lparr>ct_phone := v\<rparr>) @
        set_nullable (uk_companyId dto) (\<lambda>v c. c\<lparr>ct_company_id := v\<rparr>)) [])))"

section \<open>Canned responses and their folders\<close>

record UpdateFolder =
  uf_name :: "string option option"
  uf_agentId :: "uuid option option"

definition folders_list :: "uuid \<Rightarrow> ('s helpdesk_scheme, canned_response_folder list) act" where
  "folders_list tenantId = withTenantContext tenantId (\<lambda>qr.
     tx_bind (sql_select canned_response_folders qr (\<lambda>_. True)) (\<lambda>rows. tx_return (order_by fo_name rows)))"

definition folders_create :: "js_format \<Rightarrow> uuid \<Rightarrow> string \<Rightarrow> uuid option \<Rightarrow> ('s helpdesk_scheme, canned_response_folder) act" where
  "folders_create F tenantId name agentId = withTenantContext tenantId (\<lambda>qr.
     tx_bind (assert_optional F agents qr agentId ''Agent'') (\<lambda>_.
     tx_bind gen_random_uuid (\<lambda>i. tx_bind sql_now (\<lambda>now.
     sql_insert canned_response_folders_update qr
       \<lparr>row_id = i, tenant_id = tenantId, fo_agent_id = agentId, fo_name = name, fo_created_at = now\<rparr>))))"

definition folders_update :: "js_format \<Rightarrow> uuid \<Rightarrow> uuid \<Rightarrow> UpdateFolder \<Rightarrow> ('s helpdesk_scheme, canned_response_folder) act" where
  "folders_update F tenantId i dto = withTenantContext tenantId (\<lambda>qr.
     tx_bind (find_row ''Canned response folder'' canned_response_folders qr i) (\<lambda>_.
     tx_bind (assert_optional F agents qr (Option.bind (uf_agentId dto) id) ''Agent'') (\<lambda>_.
     patch_row ''Canned response folder'' canned_response_folders canned_response_folders_update qr i
       (set_required (uf_name dto) (\<lambda>v f. f\<lparr>fo_name := v\<rparr>) @
        set_nullable (uf_agentId dto) (\<lambda>v f. f\<lparr>fo_agent_id := v\<rparr>)) [])))"

definition folders_remove :: "uuid \<Rightarrow> uuid \<Rightarrow> ('s helpdesk_scheme, unit) act" where
  "folders_remove tenantId i = withTenantContext tenantId (\<lambda>qr.
     remove_referenced ''Canned response folder'' canned_response_folders canned_response_folders_update qr i
       (on_delete_set_null canned_responses_update cr_folder_id (\<lambda>r. r\<lparr>cr_folder_id := None\<rparr>) i))"

record UpdateCannedResponse =
  ur_title :: "string option option"
  ur_body :: "string option option"
  ur_folderId :: "uuid option option"

text \<open>The foreign key of \<open>folder_id\<close>: an absent or null reference is fine, any existing folder too.\<close>

definition folder_fk :: "uuid option \<Rightarrow> ('s helpdesk_scheme, unit) tx" where
  "folder_fk f = (case f of None \<Rightarrow> tx_return () | Some i \<Rightarrow> fk_check canned_response_folders i)"

definition cannedResponses_create :: "uuid \<Rightarrow> string \<Rightarrow> string \<Rightarrow> uuid option \<Rightarrow> ('s helpdesk_scheme, canned_response) act" where
  "cannedResponses_create tenantId title body folderId = withTenantContext tenantId (\<lambda>qr.
     tx_bind (folder_fk folderId) (\<lambda>_. tx_bind gen_random_uuid (\<lambda>i. tx_bind sql_now (\<lambda>now.
     sql_insert canned_responses_update qr \<lparr>row_id = i, tenant_id = tenantId, cr_title = title, cr_body = body, cr_folder_id = folderId,
       cr_created_at = now, cr_updated_at = now\<rparr>))))"

definition cannedResponses_list :: "uuid \<Rightarrow> ('s helpdesk_scheme, canned_response list) act" where
  "cannedResponses_list tenantId = withTenantContext tenantId (\<lambda>qr.
     tx_bind (sql_select canned_responses qr (\<lambda>_. True)) (\<lambda>rows. tx_return (order_by cr_title rows)))"

definition cannedResponses_update :: "uuid \<Rightarrow> uuid \<Rightarrow> UpdateCannedResponse \<Rightarrow> ('s helpdesk_scheme, canned_response) act" where
  "cannedResponses_update tenantId i dto = withTenantContext tenantId (\<lambda>qr.
     tx_bind (find_row ''Canned response'' canned_responses qr i) (\<lambda>_.
     tx_bind (folder_fk (Option.bind (ur_folderId dto) id)) (\<lambda>_.
     tx_bind sql_now (\<lambda>now.
     patch_row ''Canned response'' canned_responses canned_responses_update qr i
       (set_required (ur_title dto) (\<lambda>v r. r\<lparr>cr_title := v\<rparr>) @
        set_required (ur_body dto) (\<lambda>v r. r\<lparr>cr_body := v\<rparr>) @
        set_nullable (ur_folderId dto) (\<lambda>v r. r\<lparr>cr_folder_id := v\<rparr>))
       [Some (\<lambda>r. r\<lparr>cr_updated_at := now\<rparr>)]))))"

definition cannedResponses_remove :: "uuid \<Rightarrow> uuid \<Rightarrow> ('s helpdesk_scheme, unit) act" where
  "cannedResponses_remove tenantId i = withTenantContext tenantId (\<lambda>qr.
     remove_row ''Canned response'' canned_responses canned_responses_update qr i)"

section \<open>SLA policies\<close>

record CreateSlaPolicy =
  cs_name :: string
  cs_firstResponseTargetMinutes :: int
  cs_resolutionTargetMinutes :: int
  cs_businessHoursOnly :: "bool option"

record UpdateSlaPolicy =
  up_name :: "string option option"
  up_firstResponseTargetMinutes :: "int option option"
  up_resolutionTargetMinutes :: "int option option"
  up_businessHoursOnly :: "bool option option"

definition slaPolicies_list :: "uuid \<Rightarrow> ('s helpdesk_scheme, sla_policy list) act" where
  "slaPolicies_list tenantId = withTenantContext tenantId (\<lambda>qr.
     tx_bind (sql_select sla_policies qr (\<lambda>_. True)) (\<lambda>rows. tx_return (order_by sp_name rows)))"

definition slaPolicies_create :: "uuid \<Rightarrow> CreateSlaPolicy \<Rightarrow> ('s helpdesk_scheme, sla_policy) act" where
  "slaPolicies_create tenantId dto = withTenantContext tenantId (\<lambda>qr.
     tx_bind gen_random_uuid (\<lambda>i.
     sql_insert sla_policies_update qr \<lparr>row_id = i, tenant_id = tenantId, sp_name = cs_name dto,
       sp_first_response_target_minutes = cs_firstResponseTargetMinutes dto, sp_resolution_target_minutes = cs_resolutionTargetMinutes dto,
       sp_business_hours_only = (case cs_businessHoursOnly dto of None \<Rightarrow> False | Some b \<Rightarrow> b), sp_escalation_rules = JObj []\<rparr>))"

definition slaPolicies_update :: "uuid \<Rightarrow> uuid \<Rightarrow> UpdateSlaPolicy \<Rightarrow> ('s helpdesk_scheme, sla_policy) act" where
  "slaPolicies_update tenantId i dto = withTenantContext tenantId (\<lambda>qr.
     tx_bind (find_row ''SLA policy'' sla_policies qr i) (\<lambda>_.
     patch_row ''SLA policy'' sla_policies sla_policies_update qr i
       (set_required (up_name dto) (\<lambda>v p. p\<lparr>sp_name := v\<rparr>) @
        set_required (up_firstResponseTargetMinutes dto) (\<lambda>v p. p\<lparr>sp_first_response_target_minutes := v\<rparr>) @
        set_required (up_resolutionTargetMinutes dto) (\<lambda>v p. p\<lparr>sp_resolution_target_minutes := v\<rparr>) @
        set_required (up_businessHoursOnly dto) (\<lambda>v p. p\<lparr>sp_business_hours_only := v\<rparr>)) []))"

definition slaPolicies_remove :: "js_format \<Rightarrow> uuid \<Rightarrow> uuid \<Rightarrow> ('s helpdesk_scheme, unit) act" where
  "slaPolicies_remove F tenantId i = withTenantContext tenantId (\<lambda>qr.
     tx_translate foreign_key_violation (BadRequest (''SLA policy '' @ fmt_uuid F i @ '' is still referenced and cannot be deleted''))
       (remove_referenced ''SLA policy'' sla_policies sla_policies_update qr i
         (tx_bind (on_delete_set_null ticket_types_update tt_default_sla_policy_id (\<lambda>t. t\<lparr>tt_default_sla_policy_id := None\<rparr>) i) (\<lambda>_.
          on_delete_set_null tickets_update tk_sla_policy_id (\<lambda>k. k\<lparr>tk_sla_policy_id := None\<rparr>) i))))"

section \<open>Ticket types\<close>

record UpdateTicketType =
  uy_name :: "string option option"
  uy_defaultGroupId :: "uuid option option"
  uy_defaultSlaPolicyId :: "uuid option option"

definition ticketTypes_list :: "uuid \<Rightarrow> ('s helpdesk_scheme, ticket_type list) act" where
  "ticketTypes_list tenantId = withTenantContext tenantId (\<lambda>qr.
     tx_bind (sql_select ticket_types qr (\<lambda>_. True)) (\<lambda>rows. tx_return (order_by tt_name rows)))"

definition ticketTypes_create :: "js_format \<Rightarrow> uuid \<Rightarrow> string \<Rightarrow> uuid option \<Rightarrow> uuid option \<Rightarrow> ('s helpdesk_scheme, ticket_type) act" where
  "ticketTypes_create F tenantId name groupId policyId = withTenantContext tenantId (\<lambda>qr.
     tx_bind (assert_optional F groups qr groupId ''group'') (\<lambda>_.
     tx_bind (assert_optional F sla_policies qr policyId ''SLA policy'') (\<lambda>_.
     tx_bind gen_random_uuid (\<lambda>i.
     sql_insert ticket_types_update qr \<lparr>row_id = i, tenant_id = tenantId, tt_name = name,
       tt_default_group_id = groupId, tt_default_sla_policy_id = policyId\<rparr>))))"

definition ticketTypes_update :: "js_format \<Rightarrow> uuid \<Rightarrow> uuid \<Rightarrow> UpdateTicketType \<Rightarrow> ('s helpdesk_scheme, ticket_type) act" where
  "ticketTypes_update F tenantId i dto = withTenantContext tenantId (\<lambda>qr.
     tx_bind (find_row ''Ticket type'' ticket_types qr i) (\<lambda>_.
     tx_bind (assert_optional F groups qr (Option.bind (uy_defaultGroupId dto) id) ''group'') (\<lambda>_.
     tx_bind (assert_optional F sla_policies qr (Option.bind (uy_defaultSlaPolicyId dto) id) ''SLA policy'') (\<lambda>_.
     patch_row ''Ticket type'' ticket_types ticket_types_update qr i
       (set_required (uy_name dto) (\<lambda>v t. t\<lparr>tt_name := v\<rparr>) @
        set_nullable (uy_defaultGroupId dto) (\<lambda>v t. t\<lparr>tt_default_group_id := v\<rparr>) @
        set_nullable (uy_defaultSlaPolicyId dto) (\<lambda>v t. t\<lparr>tt_default_sla_policy_id := v\<rparr>)) []))))"

definition ticketTypes_remove :: "js_format \<Rightarrow> uuid \<Rightarrow> uuid \<Rightarrow> ('s helpdesk_scheme, unit) act" where
  "ticketTypes_remove F tenantId i = withTenantContext tenantId (\<lambda>qr.
     tx_translate foreign_key_violation (BadRequest (''Ticket type '' @ fmt_uuid F i @
         '' is still referenced by existing tickets and cannot be deleted''))
       (remove_referenced ''Ticket type'' ticket_types ticket_types_update qr i
         (on_delete_restrict tickets tk_ticket_type_id i)))"

section \<open>Tenant isolation\<close>

lemma assert_helpdesk_frames [frame_intros]:
  "tx_rel (helpdesk_frame qr) (assertBelongsToTenant F tbl qr i l)"
  "tx_rel (helpdesk_frame qr) (assert_optional F tbl qr j l)"
  "tx_rel (helpdesk_frame qr) (fk_check tbl i)"
  "tx_rel (helpdesk_frame qr) (folder_fk f)"
  "tx_rel (helpdesk_frame qr) (assertGroupsBelongToTenant F qr gs)"
  "tx_rel (helpdesk_frame qr) (users_unique t e P)"
  "tx_rel (helpdesk_frame qr) (agent_join qr Q)"
  unfolding assert_optional_def assertBelongsToTenant_def fk_check_def folder_fk_def assertGroupsBelongToTenant_def users_unique_def
    agent_join_def
  by (intro frame_intros)+

lemma update_agent_user_frame [frame_intros]: "tx_rel (helpdesk_frame qr) (update_agent_user qr t u dto)"
  unfolding update_agent_user_def by (intro frame_intros)

lemma catalogue_frames [frame_intros]:
  "act_rel (helpdesk_frame t) (groupsService_create t g)" "act_rel (helpdesk_frame t) (groupsService_update t i g')"
  "act_rel (helpdesk_frame t) (agentsService_create F t a)" "act_rel (helpdesk_frame t) (agentsService_update F t i a')"
  "act_rel (helpdesk_frame t) (agentSkills_add t ai sk)" "act_rel (helpdesk_frame t) (agentSkills_remove t i)"
  "act_rel (helpdesk_frame t) (companiesService_create t n d)" "act_rel (helpdesk_frame t) (companiesService_update t i c')"
  "act_rel (helpdesk_frame t) (contactsService_create F t k')" "act_rel (helpdesk_frame t) (contactsService_update F t i k'')"
  "act_rel (helpdesk_frame t) (folders_create F t n ag)" "act_rel (helpdesk_frame t) (folders_update F t i f')"
  "act_rel (helpdesk_frame t) (cannedResponses_create t n b fo)" "act_rel (helpdesk_frame t) (cannedResponses_update t i r')"
  "act_rel (helpdesk_frame t) (cannedResponses_remove t i)"
  "act_rel (helpdesk_frame t) (slaPolicies_create t p)" "act_rel (helpdesk_frame t) (slaPolicies_update t i p')"
  "act_rel (helpdesk_frame t) (ticketTypes_create F t n gi sp)" "act_rel (helpdesk_frame t) (ticketTypes_update F t i y')"
  "act_rel (helpdesk_frame t) (ticketTypes_remove F t i)"
  unfolding groupsService_create_def groupsService_update_def agentsService_create_def agentsService_update_def agentSkills_add_def
    agentSkills_remove_def companiesService_create_def companiesService_update_def contactsService_create_def contactsService_update_def
    folders_create_def folders_update_def cannedResponses_create_def cannedResponses_update_def cannedResponses_remove_def
    slaPolicies_create_def slaPolicies_update_def ticketTypes_create_def ticketTypes_update_def ticketTypes_remove_def
  by (intro frame_intros)+

text \<open>
  The catalogue services stay within their tenant: whatever the request contains, also when it
  fails, creating and changing groups, agents, skills, companies, contacts, canned responses, folders,
  SLA policies and ticket types leaves every row of every other tenant as it was.
\<close>

theorem catalogue_tenant_isolation:
  "helpdesk_frame t s (snd (groupsService_create t g s)) \<and> helpdesk_frame t s (snd (groupsService_update t i g' s)) \<and>
   helpdesk_frame t s (snd (agentsService_create F t a s)) \<and> helpdesk_frame t s (snd (agentsService_update F t i a' s)) \<and>
   helpdesk_frame t s (snd (agentSkills_add t ai sk s)) \<and> helpdesk_frame t s (snd (agentSkills_remove t i s)) \<and>
   helpdesk_frame t s (snd (companiesService_create t n d s)) \<and> helpdesk_frame t s (snd (companiesService_update t i c' s)) \<and>
   helpdesk_frame t s (snd (contactsService_create F t k s)) \<and> helpdesk_frame t s (snd (contactsService_update F t i k' s)) \<and>
   helpdesk_frame t s (snd (folders_create F t n ag s)) \<and> helpdesk_frame t s (snd (folders_update F t i f' s)) \<and>
   helpdesk_frame t s (snd (cannedResponses_create t n b fo s)) \<and> helpdesk_frame t s (snd (cannedResponses_update t i r' s)) \<and>
   helpdesk_frame t s (snd (cannedResponses_remove t i s)) \<and>
   helpdesk_frame t s (snd (slaPolicies_create t p s)) \<and> helpdesk_frame t s (snd (slaPolicies_update t i p' s)) \<and>
   helpdesk_frame t s (snd (ticketTypes_create F t n gi sp s)) \<and> helpdesk_frame t s (snd (ticketTypes_update F t i y' s)) \<and>
   helpdesk_frame t s (snd (ticketTypes_remove F t i s))"
  by (intro conjI catalogue_frames [THEN act_rel_snd])

section \<open>Addresses\<close>

lemma takeWhile_dropWhile_at:
  assumes "list_all email_char l"
  shows "takeWhile (\<lambda>c. c \<noteq> CHR ''@'') (l @ CHR ''@'' # d) = l" "dropWhile (\<lambda>c. c \<noteq> CHR ''@'') (l @ CHR ''@'' # d) = CHR ''@'' # d"
  using assms by (induction l) (auto simp: email_char_def)

lemma inner_dot_split: "CHR ''.'' \<in> set (butlast (tl d)) \<longleftrightarrow> (\<exists>a b. d = a @ CHR ''.'' # b \<and> a \<noteq> [] \<and> b \<noteq> [])"
proof
  assume dot: "CHR ''.'' \<in> set (butlast (tl d))"
  then obtain x y where xy: "butlast (tl d) = x @ CHR ''.'' # y" by (auto dest: split_list)
  then have ne: "tl d \<noteq> []" by auto
  then have "d = hd d # butlast (tl d) @ [last (tl d)]" by (cases d) auto
  with xy have "d = (hd d # x) @ CHR ''.'' # (y @ [last (tl d)])" by simp
  then show "\<exists>a b. d = a @ CHR ''.'' # b \<and> a \<noteq> [] \<and> b \<noteq> []" by blast
next
  assume "\<exists>a b. d = a @ CHR ''.'' # b \<and> a \<noteq> [] \<and> b \<noteq> []"
  then obtain a b where "d = a @ CHR ''.'' # b" "a \<noteq> []" "b \<noteq> []" by blast
  then show "CHR ''.'' \<in> set (butlast (tl d))" by (cases a) (simp_all add: butlast_append)
qed

text \<open>
  A contact's address counts as valid exactly when it is absent, empty, or of the language of the
  pattern: a local part, an at sign, and a domain with a dot that has characters on both sides, with no
  white space and no second at sign anywhere.
\<close>

theorem isEmailValid_language:
  "isEmailValid email \<longleftrightarrow> email = None \<or> email = Some [] \<or>
     (\<exists>l a b. email = Some (l @ ''@'' @ a @ ''.'' @ b) \<and> l \<noteq> [] \<and> a \<noteq> [] \<and> b \<noteq> [] \<and> list_all email_char (l @ a @ b))"
proof (cases email)
  case None
  then show ?thesis by (simp add: isEmailValid_def)
next
  case (Some e)
  define l d where "l = takeWhile (\<lambda>c. c \<noteq> CHR ''@'') e" and "d = tl (dropWhile (\<lambda>c. c \<noteq> CHR ''@'') e)"
  have dot: "email_char (CHR ''.'')" by code_simp
  have "EMAIL_PATTERN e \<longleftrightarrow> (\<exists>l a b. e = l @ ''@'' @ a @ ''.'' @ b \<and> l \<noteq> [] \<and> a \<noteq> [] \<and> b \<noteq> [] \<and> list_all email_char (l @ a @ b))"
  proof
    assume p: "EMAIL_PATTERN e"
    then have ok: "l \<noteq> []" "list_all email_char l" "list_all email_char d" "CHR ''.'' \<in> set (butlast (tl d))"
      by (simp_all add: EMAIL_PATTERN_def Let_def l_def d_def)
    then obtain a b where ab: "d = a @ CHR ''.'' # b" "a \<noteq> []" "b \<noteq> []" by (auto simp: inner_dot_split)
    then have "d \<noteq> []" by simp
    then have ne: "dropWhile (\<lambda>c. c \<noteq> CHR ''@'') e \<noteq> []" by (metis d_def list.sel(2))
    then have "dropWhile (\<lambda>c. c \<noteq> CHR ''@'') e = CHR ''@'' # d"
      using hd_dropWhile [OF ne] list.collapse [OF ne] by (simp only: d_def not_not)
    then have "e = l @ CHR ''@'' # d" by (metis l_def takeWhile_dropWhile_id)
    with ab ok show "\<exists>l a b. e = l @ ''@'' @ a @ ''.'' @ b \<and> l \<noteq> [] \<and> a \<noteq> [] \<and> b \<noteq> [] \<and> list_all email_char (l @ a @ b)"
      by (intro exI [of _ l] exI [of _ a] exI [of _ b]) simp
  next
    assume "\<exists>l a b. e = l @ ''@'' @ a @ ''.'' @ b \<and> l \<noteq> [] \<and> a \<noteq> [] \<and> b \<noteq> [] \<and> list_all email_char (l @ a @ b)"
    then obtain l a b where e: "e = l @ CHR ''@'' # (a @ CHR ''.'' # b)" and ne: "l \<noteq> []" "a \<noteq> []" "b \<noteq> []"
      and ok: "list_all email_char l" "list_all email_char a" "list_all email_char b" by auto
    have "CHR ''.'' \<in> set (butlast (tl (a @ CHR ''.'' # b)))" using ne unfolding inner_dot_split by blast
    with ne ok dot show "EMAIL_PATTERN e" by (simp add: EMAIL_PATTERN_def e takeWhile_dropWhile_at)
  qed
  with Some show ?thesis by (simp add: isEmailValid_def)
qed

section \<open>Deleting what other rows refer to\<close>

text \<open>
  Deleting a group: while some ticket is in the group the request is refused with its own message
  and nothing changes; otherwise the group and its assignment cursor go, ticket types that had it as
  their default have none any more, and nothing else is touched.
\<close>

theorem group_removal:
  assumes "g \<in> set (groups s)" and "row_id g = i" and "tenant_id g = tenantId"
  shows "groupsService_remove F tenantId i s =
    (if \<exists>k \<in> set (tickets s). tk_group_id k = Some i
     then (Inl (BadRequest (''Group '' @ fmt_uuid F i @ '' is still referenced by existing tickets or ticket types and cannot be deleted'')), s)
     else (Inr (), s\<lparr>groups := filter (\<lambda>h. \<not> (tenant_id h = tenantId \<and> row_id h = i)) (groups s),
       ticket_types := map (\<lambda>y. if tt_default_group_id y = Some i then y\<lparr>tt_default_group_id := None\<rparr> else y) (ticket_types s),
       assignment_cursors := filter (\<lambda>c. row_id c \<noteq> i) (assignment_cursors s)\<rparr>))"
proof -
  have "filter (by_id i) (visible tenantId (groups s)) \<noteq> []" using assms by (auto simp: filter_empty_conv by_id_def)
  then show ?thesis
    by (auto simp: groupsService_remove_def withTenantContext_def tx_translate_def remove_referenced_def sql_delete_def group_keys_def
        on_delete_restrict_def on_delete_set_null_def on_delete_cascade_def tx_bind_def delete_rows_def tenant_isolation_def by_id_def
        foreign_key_violation_def image_iff)
qed

definition support_group :: group where
  "support_group = \<lparr>row_id = 10, tenant_id = 1, gr_name = ''Support'', gr_description = None,
     gr_created_at = 0, gr_assignment_strategy = Manual, gr_max_open_tickets_per_agent = None\<rparr>"

theorem group_removal_witness:
  "groupsService_remove unary_format 1 10 (one_desk\<lparr>groups := [support_group]\<rparr>) =
     (Inr (), one_desk\<lparr>groups := [], ticket_types := [], assignment_cursors := filter (\<lambda>c. row_id c \<noteq> 10) (assignment_cursors one_desk)\<rparr>)"
  using group_removal [of support_group "one_desk\<lparr>groups := [support_group]\<rparr>" 10 1 unary_format]
  by (simp add: support_group_def printer_ticket_def del: One_nat_def)

text \<open>
  The folder of a canned response is not checked against the tenant: a tenant can file a response
  in a folder of another tenant, and when that tenant deletes its folder the database changes the
  first tenant's row.
\<close>

theorem canned_response_foreign_folder:
  assumes "f \<in> set (canned_response_folders s)" and "tenant_id f = b" and "a \<noteq> b"
    and "next_uuid s \<notin> row_id ` set (canned_responses s)"
  shows "\<exists>r t u. cannedResponses_create a title body (Some (row_id f)) s = (Inr r, t) \<and>
    folders_remove b (row_id f) t = (Inr (), u) \<and> tenant_id r = a \<and> cr_folder_id r = Some (row_id f) \<and>
    filter (by_id (row_id r)) (canned_responses t) = [r] \<and>
    filter (by_id (row_id r)) (canned_responses u) = [r\<lparr>cr_folder_id := None\<rparr>]"
proof -
  define r where "r = \<lparr>row_id = next_uuid s, tenant_id = a, cr_title = title, cr_body = body, cr_folder_id = Some (row_id f),
    cr_created_at = clock s, cr_updated_at = clock s\<rparr>"
  define t where "t = s\<lparr>next_uuid := Suc (next_uuid s), canned_responses := canned_responses s @ [r]\<rparr>"
  define un where "un = (\<lambda>x :: canned_response. if cr_folder_id x = Some (row_id f) then x\<lparr>cr_folder_id := None\<rparr> else x)"
  have create: "cannedResponses_create a title body (Some (row_id f)) s = (Inr r, t)"
    using assms(1) by (simp add: cannedResponses_create_def withTenantContext_def folder_fk_def fk_check_def tx_bind_def
        gen_random_uuid_def sql_now_def sql_insert_def tenant_isolation_def r_def t_def)
  have "filter (by_id (row_id f)) (visible b (canned_response_folders t)) \<noteq> []"
    using assms(1,2) by (auto simp: filter_empty_conv by_id_def t_def)
  then have remove: "\<exists>u. folders_remove b (row_id f) t = (Inr (), u) \<and> canned_responses u = map un (canned_responses t)"
    by (simp add: folders_remove_def withTenantContext_def remove_referenced_def sql_delete_def on_delete_set_null_def tx_bind_def un_def)
  have old: "filter (by_id (row_id r)) (canned_responses s) = []"
    using assms(4) by (force simp: filter_empty_conv by_id_def r_def)
  then have t: "filter (by_id (row_id r)) (canned_responses t) = [r]" by (simp add: t_def by_id_def)
  have "filter (by_id (row_id r)) (map un xs) = map un (filter (by_id (row_id r)) xs)" for xs
    by (induction xs) (auto simp: un_def by_id_def)
  then have "filter (by_id (row_id r)) (map un (canned_responses t)) = [r\<lparr>cr_folder_id := None\<rparr>]"
    by (simp add: t) (simp add: un_def r_def)
  with create remove t show ?thesis by (auto simp: r_def)
qed

theorem canned_response_foreign_folder_witness:
  "\<exists>r t u. cannedResponses_create 1 ''Hello'' ''Hi'' (Some 30)
      (one_desk\<lparr>canned_response_folders := [\<lparr>row_id = 30, tenant_id = 2, fo_agent_id = None, fo_name = ''Mine'', fo_created_at = 0\<rparr>]\<rparr>) = (Inr r, t) \<and>
     folders_remove 2 30 t = (Inr (), u) \<and> filter (by_id (row_id r)) (canned_responses u) = [r\<lparr>cr_folder_id := None\<rparr>]"
  using canned_response_foreign_folder [of "\<lparr>row_id = 30, tenant_id = 2, fo_agent_id = None, fo_name = ''Mine'', fo_created_at = 0\<rparr>"
      "one_desk\<lparr>canned_response_folders := [\<lparr>row_id = 30, tenant_id = 2, fo_agent_id = None, fo_name = ''Mine'', fo_created_at = 0\<rparr>]\<rparr>"
      2 1 "''Hello''" "''Hi''"]
  by simp blast

end
