(* ===== verification/Totp.thy ===== *)
theory Totp
  imports Notifications "HOL-Library.Word"
begin

text \<open>
  One-time passwords (\<open>platform/auth/totp.ts\<close>): the base32 form of a secret, the HOTP truncation of
  an HMAC digest on 32-bit words, the codes of a time step and their verification with a window of one
  step. SHA-1 is a parameter; what the code needs of it is that a digest has twenty bytes.

  The lemmas: a generated secret decodes to the bytes it was made of; a code is the truncated number of
  RFC 4226 with exactly six digits; a code is accepted during the step it belongs to and the two
  neighbouring ones, and only if it is the code of one of them.
\<close>

unbundle bit_operations_syntax

section \<open>Base32\<close>

definition BASE32_ALPHABET :: string where
  "BASE32_ALPHABET = ''ABCDEFGHIJKLMNOPQRSTUVWXYZ234567''"

definition STEP_SECONDS :: int where
  "STEP_SECONDS = 30"

definition DIGITS :: nat where
  "DIGITS = 6"

text \<open>\<open>n.toString(2).padStart(w, '0')\<close> for a number below \<open>2\<^sup>w\<close>, and \<open>parseInt(bits, 2)\<close>.\<close>

fun bits :: "nat \<Rightarrow> nat \<Rightarrow> bool list" where
  "bits 0 n = []"
| "bits (Suc w) n = bits w (n div 2) @ [odd n]"

definition parse_bits :: "bool list \<Rightarrow> nat" where
  "parse_bits = foldl (\<lambda>n b. 2 * n + of_bool b) 0"

text \<open>\<open>for (let i = 0; i + w <= bits.length; i += w) bits.slice(i, i + w)\<close>.\<close>

function chunks :: "nat \<Rightarrow> 'a list \<Rightarrow> 'a list list" where
  "chunks w xs = (if w = 0 \<or> length xs < w then [] else take w xs # chunks w (drop w xs))"
  by pat_completeness auto
termination
  by (relation "measure (\<lambda>(_, xs). length xs)") auto

declare chunks.simps [simp del]

text \<open>The twenty random bytes are the argument.\<close>

definition generateTotpSecret :: "8 word list \<Rightarrow> string" where
  "generateTotpSecret bytes =
     map (\<lambda>c. BASE32_ALPHABET ! parse_bits c) (chunks 5 (concat (map (\<lambda>b. bits 8 (unat b)) bytes)))"

definition base32_index :: "char \<Rightarrow> nat option" where
  "base32_index c = (let i = length (takeWhile (\<lambda>d. d \<noteq> c) BASE32_ALPHABET) in
     if i < length BASE32_ALPHABET then Some i else None)"

definition base32Decode :: "string \<Rightarrow> 8 word list" where
  "base32Decode input =
     (let clean = filter (\<lambda>c. \<not> js_space c) (map js_upper_char (rev (dropWhile (\<lambda>c. c = CHR ''='') (rev input)))) in
      map (\<lambda>c. word_of_nat (parse_bits c)) (chunks 8 (concat (map (bits 5) (List.map_filter base32_index clean)))))"

section \<open>Codes\<close>

text \<open>\<open>createHmac('sha1', key).update(message).digest()\<close>.\<close>

type_synonym hmac = "8 word list \<Rightarrow> 8 word list \<Rightarrow> 8 word list"

definition writeUInt32BE :: "32 word \<Rightarrow> 8 word list" where
  "writeUInt32BE w = [ucast (drop_bit 24 w), ucast (drop_bit 16 w), ucast (drop_bit 8 w), ucast w]"

text \<open>An index outside the buffer reads \<open>undefined\<close>, which the bit operations take for zero.\<close>

definition byte_at :: "8 word list \<Rightarrow> nat \<Rightarrow> 32 word" where
  "byte_at bs i = (if i < length bs then ucast (bs ! i) else 0)"

definition padStart :: "nat \<Rightarrow> char \<Rightarrow> string \<Rightarrow> string" where
  "padStart n c s = replicate (n - length s) c @ s"

definition truncate_digest :: "8 word list \<Rightarrow> 32 word" where
  "truncate_digest digest =
     (let offset = unat (byte_at digest (length digest - 1) AND 0x0f) in
      push_bit 24 (byte_at digest offset AND 0x7f) OR push_bit 16 (byte_at digest (offset + 1) AND 0xff) OR
      push_bit 8 (byte_at digest (offset + 2) AND 0xff) OR (byte_at digest (offset + 3) AND 0xff))"

text \<open>
  The high word of the counter must fit 32 bits, or \<open>writeUInt32BE\<close> raises; the truncated number has its
  sign bit clear, so that the remainder of the signed number is the one of the word.
\<close>

definition hotp :: "hmac \<Rightarrow> string \<Rightarrow> int \<Rightarrow> error + string" where
  "hotp H secret counter =
     (let high = counter div 2 ^ 32 in
      if high < 0 \<or> 2 ^ 32 \<le> high then Inl (Failure ''ERR_OUT_OF_RANGE'')
      else let buf = writeUInt32BE (word_of_int high) @ writeUInt32BE (word_of_int counter);
               binary = truncate_digest (H (base32Decode secret) buf) in
           Inr (padStart DIGITS (CHR ''0'') (nat_text (unat binary mod 10 ^ DIGITS))))"

definition totp_counter :: "msec \<Rightarrow> int" where
  "totp_counter now = now div (1000 * STEP_SECONDS)"

definition totpCodeAt :: "hmac \<Rightarrow> string \<Rightarrow> msec \<Rightarrow> error + string" where
  "totpCodeAt H secret now = hotp H secret (totp_counter now)"

text \<open>The loop over the window; \<open>timingSafeEqual\<close> compares buffers of equal length.\<close>

fun try_windows :: "hmac \<Rightarrow> string \<Rightarrow> int \<Rightarrow> string \<Rightarrow> int list \<Rightarrow> error + bool" where
  "try_windows H secret counter code [] = Inr False"
| "try_windows H secret counter code (w # ws) = (case hotp H secret (counter + w) of
     Inl e \<Rightarrow> Inl e
   | Inr expected \<Rightarrow> if length expected = length code \<and> expected = code then Inr True else try_windows H secret counter code ws)"

definition verifyTotp :: "hmac \<Rightarrow> string \<Rightarrow> string \<Rightarrow> msec \<Rightarrow> error + bool" where
  "verifyTotp H secret code now =
     (let trimmed = js_trim code in
      if \<not> (length trimmed = 6 \<and> list_all js_digit trimmed) then Inr False
      else try_windows H secret (totp_counter now) trimmed [-1, 0, 1])"

section \<open>The enrolment link\<close>

definition hex_digit :: "nat \<Rightarrow> char" where
  "hex_digit n = ''0123456789ABCDEF'' ! n"

definition percent_encode :: "char \<Rightarrow> string" where
  "percent_encode c = (let n = of_char c in [CHR ''%'', hex_digit (n div 16), hex_digit (n mod 16)])"

definition js_alnum :: "char \<Rightarrow> bool" where
  "js_alnum c \<longleftrightarrow> js_digit c \<or> (let n = (of_char c :: nat) in 65 \<le> n \<and> n \<le> 90 \<or> 97 \<le> n \<and> n \<le> 122)"

definition encodeURIComponent :: "string \<Rightarrow> string" where
  "encodeURIComponent s = concat (map (\<lambda>c. if js_alnum c \<or> c \<in> set ''-_.!~*'' \<or> c \<in> {CHR 0x27, CHR ''('', CHR '')''} then [c] else percent_encode c) s)"

definition form_encode :: "string \<Rightarrow> string" where
  "form_encode s = concat (map (\<lambda>c. if js_alnum c \<or> c \<in> set ''*-._'' then [c] else if c = CHR '' '' then ''+'' else percent_encode c) s)"

definition URLSearchParams :: "(string \<times> string) list \<Rightarrow> string" where
  "URLSearchParams ps = js_join ''&'' (map (\<lambda>(k, v). form_encode k @ ''='' @ form_encode v) ps)"

definition otpauthUri :: "string \<Rightarrow> string \<Rightarrow> string" where
  "otpauthUri secret accountName =
     (let issuer = ''Cloud Ops Tool'' in
      ''otpauth://totp/'' @ encodeURIComponent (issuer @ '':'' @ accountName) @ ''?'' @
      URLSearchParams [(''secret'', secret), (''issuer'', issuer), (''algorithm'', ''SHA1''), (''digits'', nat_text DIGITS),
        (''period'', int_text STEP_SECONDS)])"

section \<open>A secret decodes to its bytes\<close>

lemma length_bits [simp]: "length (bits w n) = w"
  by (induction w arbitrary: n) simp_all

lemma parse_bits_snoc [simp]: "parse_bits (bs @ [b]) = 2 * parse_bits bs + of_bool b"
  by (simp add: parse_bits_def)

lemma parse_bits_bound: "parse_bits bs < 2 ^ length bs"
  by (induction bs rule: rev_induct) (auto simp: parse_bits_def)

lemma parse_bits_bits: "parse_bits (bits w n) = n mod 2 ^ w"
proof (induction w arbitrary: n)
  case (Suc w)
  have "n mod 2 ^ Suc w = 2 * (n div 2 mod 2 ^ w) + n mod 2" by (simp add: mod_mult2_eq)
  with Suc show ?case by (simp add: mod_2_eq_odd)
qed (simp add: parse_bits_def)

lemma bits_parse_bits: "bits (length bs) (parse_bits bs) = bs"
  by (induction bs rule: rev_induct) auto

lemma chunks_append: "0 < w \<Longrightarrow> length c = w \<Longrightarrow> chunks w (c @ xs) = c # chunks w xs"
  by (subst chunks.simps) simp

lemma chunks_short: "length xs < w \<Longrightarrow> chunks w xs = []"
  by (subst chunks.simps) simp

lemma chunks_concat:
  assumes "0 < w" and "\<forall>c \<in> set cs. length c = w"
  shows "chunks w (concat cs) = cs"
  using assms(2) by (induction cs) (simp_all add: chunks_append chunks_short assms(1))

lemma chunks_exact:
  assumes "0 < w" and "w dvd length xs"
  shows "concat (chunks w xs) = xs \<and> (\<forall>c \<in> set (chunks w xs). length c = w)"
  using assms
proof (induction w xs rule: chunks.induct)
  case (1 w xs)
  note assms = 1(2)
  show ?case
  proof (cases "length xs < w")
    case True
    with 1(3) have "xs = []" by (auto dest: dvd_imp_le)
    with True show ?thesis by (simp add: chunks_short)
  next
    case False
    with 1(3) have "w dvd length (drop w xs)" by (simp add: dvd_diff_nat)
    moreover have "\<not> (w = 0 \<or> length xs < w)" using False assms by simp
    ultimately have "concat (chunks w (drop w xs)) = drop w xs \<and> (\<forall>c \<in> set (chunks w (drop w xs)). length c = w)"
      using 1(1) assms by blast
    note tail = this
    have "chunks w xs = take w xs # chunks w (drop w xs)" using False assms by (subst chunks.simps) simp
    moreover have "length (take w xs) = w" using False by simp
    ultimately show ?thesis using tail append_take_drop_id [of w xs] by (metis concat.simps(2) set_ConsD)
  qed
qed

lemma alphabet_facts:
  "length BASE32_ALPHABET = 32" "distinct BASE32_ALPHABET"
  "list_all (\<lambda>c. \<not> js_space c \<and> js_upper_char c = c \<and> c \<noteq> CHR ''='') BASE32_ALPHABET"
  by code_simp+

lemma takeWhile_nth_distinct:
  assumes "distinct xs" and "i < length xs"
  shows "length (takeWhile (\<lambda>d. d \<noteq> xs ! i) xs) = i"
  using assms
proof (induction xs arbitrary: i)
  case (Cons x xs)
  show ?case
  proof (cases i)
    case (Suc j)
    with Cons.prems have "x \<noteq> xs ! j" by auto
    with Suc Cons show ?thesis by simp
  qed simp
qed simp

lemma base32_index_nth: "i < 32 \<Longrightarrow> base32_index (BASE32_ALPHABET ! i) = Some i"
  using takeWhile_nth_distinct [OF alphabet_facts(2), of i] by (simp add: base32_index_def alphabet_facts(1))

lemma decode_clean:
  assumes "\<forall>i \<in> set ns. i < 32"
  shows "filter (\<lambda>c. \<not> js_space c) (map js_upper_char (rev (dropWhile (\<lambda>c. c = CHR ''='') (rev (map (\<lambda>i. BASE32_ALPHABET ! i) ns))))) = map (\<lambda>i. BASE32_ALPHABET ! i) ns"
proof -
  have ok: "\<not> js_space (BASE32_ALPHABET ! i) \<and> js_upper_char (BASE32_ALPHABET ! i) = BASE32_ALPHABET ! i \<and> BASE32_ALPHABET ! i \<noteq> CHR ''=''" if "i < 32" for i
    using alphabet_facts(1,3) that by (auto simp: list_all_length)
  have "dropWhile (\<lambda>c. c = CHR ''='') (rev (map (\<lambda>i. BASE32_ALPHABET ! i) ns)) = rev (map (\<lambda>i. BASE32_ALPHABET ! i) ns)"
    using assms ok by (cases ns rule: rev_cases) simp_all
  then show ?thesis using assms ok by (induction ns) simp_all
qed

text \<open>C28. A generated secret is its bytes in base32: for twenty random bytes, or any number of bytes that is a multiple of five,
  decoding the secret for the computation of a code gives the same bytes back.\<close>

theorem totp_secret_roundtrip:
  assumes "5 dvd length bytes"
  shows "base32Decode (generateTotpSecret bytes) = bytes"
proof -
  define raw where "raw = concat (map (\<lambda>b. bits 8 (unat b)) bytes)"
  have "length raw = 8 * length bytes" unfolding raw_def by (induction bytes) simp_all
  with assms have "5 dvd length raw" by simp
  then have five: "concat (chunks 5 raw) = raw" "\<forall>c \<in> set (chunks 5 raw). length c = 5" using chunks_exact [of 5 raw] by simp_all
  define ns where "ns = map parse_bits (chunks 5 raw)"
  have small: "\<forall>i \<in> set ns. i < 32"
  proof
    fix i
    assume "i \<in> set ns"
    then obtain c where "i = parse_bits c" "length c = 5" using five(2) by (auto simp: ns_def)
    then show "i < 32" using parse_bits_bound [of c] by simp
  qed
  have secret: "generateTotpSecret bytes = map (\<lambda>i. BASE32_ALPHABET ! i) ns" by (simp add: generateTotpSecret_def ns_def raw_def)
  have "List.map_filter base32_index (map (\<lambda>i. BASE32_ALPHABET ! i) ns) = ns"
    using small by (induction ns) (simp_all add: map_filter_simps base32_index_nth)
  moreover have "map (bits 5) ns = chunks 5 raw"
    unfolding ns_def map_map by (rule map_idI) (use five(2) bits_parse_bits in \<open>metis comp_apply\<close>)
  ultimately have "base32Decode (generateTotpSecret bytes) = map (\<lambda>c. word_of_nat (parse_bits c)) (chunks 8 raw)"
    unfolding secret by (simp add: base32Decode_def decode_clean [OF small] five(1))
  also have "chunks 8 raw = map (\<lambda>b. bits 8 (unat b)) bytes" unfolding raw_def by (rule chunks_concat) auto
  also have "map (\<lambda>c. word_of_nat (parse_bits c) :: 8 word) (map (\<lambda>b. bits 8 (unat b)) bytes) = bytes"
  proof -
    have "word_of_nat (unat b mod 256) = b" for b :: "8 word"
      using unsigned_less [of b, where ?'a = nat] by simp
    then show ?thesis by (simp add: comp_def parse_bits_bits)
  qed
  finally show ?thesis .
qed

theorem totp_secret_roundtrip_witness:
  "base32Decode (generateTotpSecret [1, 2, 3, 4, 255]) = [1, 2, 3, 4, 255]"
  by (rule totp_secret_roundtrip) code_simp

section \<open>The truncation\<close>

lemma low_bits_word: "unat (w AND 0x7f :: 32 word) = unat w mod 128" "unat (w AND 0xff :: 32 word) = unat w mod 256"
  "unat (w AND 0x0f :: 32 word) = unat w mod 16"
proof -
  have m: "(0x7f :: 32 word) = mask 7" "(0xff :: 32 word) = mask 8" "(0x0f :: 32 word) = mask 4" by (simp_all add: mask_eq_exp_minus_1)
  show "unat (w AND 0x7f :: 32 word) = unat w mod 128" "unat (w AND 0xff :: 32 word) = unat w mod 256"
    "unat (w AND 0x0f :: 32 word) = unat w mod 16"
    unfolding m take_bit_eq_mask [symmetric] unsigned_take_bit_eq by (simp_all add: take_bit_eq_mod)
qed

lemma unat_byte_at: "i < length bs \<Longrightarrow> unat (byte_at bs i) = unat (bs ! i)"
  using unsigned_less [of "bs ! i", where ?'a = nat]
  by (simp add: byte_at_def unsigned_ucast_eq take_bit_nat_eq_self)

lemma byte_less: "unat (b :: 8 word) < 256"
  using unsigned_less [of b, where ?'a = nat] by simp

lemma unat_push_byte:
  assumes "unat (w :: 32 word) < 256" and "n \<le> 24"
  shows "unat (push_bit n w) = unat w * 2 ^ n"
proof -
  have "unat w * 2 ^ n < 2 ^ 8 * 2 ^ n" using assms(1) by simp
  also have "\<dots> = 2 ^ (8 + n)" by (simp add: power_add)
  also have "\<dots> \<le> 2 ^ 32" using assms(2) by (intro power_increasing) simp_all
  finally have "take_bit 32 (push_bit n (unat w)) = unat w * 2 ^ n" by (simp add: push_bit_eq_mult take_bit_nat_eq_self)
  then show ?thesis unfolding unsigned_push_bit_eq by simp
qed

lemma or_disjoint_unat:
  assumes "unat (b :: 32 word) < 2 ^ n" and "2 ^ n dvd unat (a :: 32 word)"
  shows "unat (a OR b) = unat a + unat b"
proof -
  have "take_bit n (unat b) = unat b" using assms(1) by (simp add: take_bit_nat_eq_self)
  then have b: "\<not> bit (unat b) k" if "n \<le> k" for k using that by (metis bit_take_bit_iff not_le)
  obtain c where "unat a = 2 ^ n * c" using assms(2) by blast
  then have "unat a = push_bit n c" by (simp add: push_bit_eq_mult)
  then have a: "\<not> bit (unat a) k" if "k < n" for k using that by (simp add: bit_push_bit_iff)
  have "unat a + unat b = unat a OR unat b"
    by (rule disjunctive_add) (use a b in \<open>metis not_le\<close>)
  then show ?thesis by (simp add: unsigned_or_eq)
qed

lemma mod_high_part: "r < 2 ^ 24 \<Longrightarrow> (b * 2 ^ 24 + r) mod 2 ^ 31 = (b mod 128) * 2 ^ 24 + r" for b r :: nat
  using mod_mult2_eq [of "b * 2 ^ 24 + r" "2 ^ 24" 128] by simp

lemma truncate_digest_value:
  assumes "length d = 20" and "k = unat (last d) mod 16"
  shows "unat (truncate_digest d) =
    (unat (d ! k) * 2 ^ 24 + unat (d ! (k + 1)) * 2 ^ 16 + unat (d ! (k + 2)) * 2 ^ 8 + unat (d ! (k + 3))) mod 2 ^ 31"
proof -
  have "d ! 19 = last d" using assms(1) last_conv_nth [of d] by (cases "d = []") simp_all
  then have off: "unat (byte_at d (length d - 1) AND 0x0f) = k"
    using assms by (simp add: low_bits_word unat_byte_at)
  have len: "k + 3 < length d" using assms by simp
  define w0 where "w0 = byte_at d k AND 0x7f"
  define w1 where "w1 = byte_at d (k + 1) AND 0xff"
  define w2 where "w2 = byte_at d (k + 2) AND 0xff"
  define w3 where "w3 = byte_at d (k + 3) AND 0xff"
  have w: "unat w0 = unat (d ! k) mod 128" "unat w1 = unat (d ! (k + 1))" "unat w2 = unat (d ! (k + 2))" "unat w3 = unat (d ! (k + 3))"
    using len byte_less by (simp_all add: w0_def w1_def w2_def w3_def low_bits_word unat_byte_at)
  have less: "unat w0 < 128" "unat w1 < 256" "unat w2 < 256" "unat w3 < 256" using byte_less by (simp_all add: w)
  have p: "unat (push_bit 24 w0) = unat w0 * 2 ^ 24" "unat (push_bit 16 w1) = unat w1 * 2 ^ 16" "unat (push_bit 8 w2) = unat w2 * 2 ^ 8"
    using less by (simp_all add: unat_push_byte)
  have "unat (push_bit 8 w2 OR w3) = unat w2 * 2 ^ 8 + unat w3"
    using less by (subst or_disjoint_unat [where n = 8]) (simp_all add: p)
  then have "unat (push_bit 16 w1 OR push_bit 8 w2 OR w3) = unat w1 * 2 ^ 16 + (unat w2 * 2 ^ 8 + unat w3)"
    using less by (subst or_disjoint_unat [where n = 16]) (simp_all add: p)
  then have "unat (push_bit 24 w0 OR push_bit 16 w1 OR push_bit 8 w2 OR w3) = unat w0 * 2 ^ 24 + (unat w1 * 2 ^ 16 + (unat w2 * 2 ^ 8 + unat w3))"
    using less by (subst or_disjoint_unat [where n = 24]) (simp_all add: p)
  moreover have "truncate_digest d = push_bit 24 w0 OR push_bit 16 w1 OR push_bit 8 w2 OR w3"
    unfolding truncate_digest_def off Let_def w0_def w1_def w2_def w3_def ..
  ultimately have "unat (truncate_digest d) = (unat (d ! k) mod 128) * 2 ^ 24 + (unat w1 * 2 ^ 16 + unat w2 * 2 ^ 8 + unat w3)"
    by (simp add: w)
  moreover have "unat w1 * 2 ^ 16 + unat w2 * 2 ^ 8 + unat w3 < 2 ^ 24" using less by simp
  ultimately have "unat (truncate_digest d) = (unat (d ! k) * 2 ^ 24 + (unat w1 * 2 ^ 16 + unat w2 * 2 ^ 8 + unat w3)) mod 2 ^ 31"
    by (simp only: mod_high_part)
  then show ?thesis by (simp add: w add.assoc)
qed

lemma length_nat_text: "0 < n \<Longrightarrow> k < 10 ^ n \<Longrightarrow> length (nat_text k) \<le> n"
proof (induction n arbitrary: k)
  case (Suc n)
  show ?case
  proof (cases "k < 10")
    case True
    then show ?thesis by (subst nat_text.simps) simp
  next
    case False
    with Suc.prems have "k div 10 < 10 ^ n" "0 < n" by (cases n; simp; fail | simp add: less_mult_imp_div_less)+
    with Suc.IH [of "k div 10"] False show ?thesis by (subst nat_text.simps) simp
  qed
qed simp

lemma padStart_code:
  assumes "k < 10 ^ 6"
  shows "length (padStart 6 (CHR ''0'') (nat_text k)) = 6 \<and> list_all js_digit (padStart 6 (CHR ''0'') (nat_text k)) \<and>
    digits_value (padStart 6 (CHR ''0'') (nat_text k)) = k"
proof -
  have z: "js_digit (CHR ''0'')" "digit_value (CHR ''0'') = 0" by (simp_all add: js_digit_def digit_value_def)
  have "foldl (\<lambda>n c. 10 * n + digit_value c) 0 (replicate m (CHR ''0'') @ s) = foldl (\<lambda>n c. 10 * n + digit_value c) 0 s" for m s
    by (induction m) (simp_all add: z)
  then have "digits_value (padStart 6 (CHR ''0'') (nat_text k)) = digits_value (nat_text k)" by (simp add: digits_value_def padStart_def)
  moreover have "length (nat_text k) \<le> 6" using assms by (intro length_nat_text) simp_all
  ultimately show ?thesis using nat_text_digits [of k] by (auto simp: padStart_def list_all_iff z)
qed

text \<open>A code is the truncation of RFC 4226: whenever a code is computed for a counter, it has exactly six digits, and its number is
  the 31-bit number that the four bytes of the digest make, big end first, from the offset the low four bits of its last byte give, reduced to
  six decimal digits; the shifts and masks on 32-bit words neither overflow nor reach the sign bit.\<close>

theorem hotp_truncation:
  assumes "\<And>key msg. length (H key msg) = 20" and "hotp H secret counter = Inr code"
  shows "\<exists>msg. let d = H (base32Decode secret) msg; k = unat (last d) mod 16 in
    length msg = 8 \<and> length code = 6 \<and> list_all js_digit code \<and>
    digits_value code = (unat (d ! k) * 2 ^ 24 + unat (d ! (k + 1)) * 2 ^ 16 + unat (d ! (k + 2)) * 2 ^ 8 + unat (d ! (k + 3))) mod 2 ^ 31 mod 10 ^ 6"
proof -
  define msg where "msg = writeUInt32BE (word_of_int (counter div 2 ^ 32)) @ writeUInt32BE (word_of_int counter)"
  let ?d = "H (base32Decode secret) msg"
  have code: "code = padStart 6 (CHR ''0'') (nat_text (unat (truncate_digest ?d) mod 10 ^ 6))"
    using assms(2) by (simp add: hotp_def Let_def DIGITS_def msg_def split: if_splits)
  have "unat (truncate_digest ?d) mod 10 ^ 6 < 10 ^ 6" by simp
  from padStart_code [OF this] truncate_digest_value [OF assms(1) refl, of "base32Decode secret" msg]
  have "length code = 6 \<and> list_all js_digit code \<and> digits_value code =
    (unat (?d ! (unat (last ?d) mod 16)) * 2 ^ 24 + unat (?d ! (unat (last ?d) mod 16 + 1)) * 2 ^ 16 + unat (?d ! (unat (last ?d) mod 16 + 2)) * 2 ^ 8 +
      unat (?d ! (unat (last ?d) mod 16 + 3))) mod 2 ^ 31 mod 10 ^ 6"
    by (simp add: code)
  moreover have "length msg = 8" by (simp add: msg_def writeUInt32BE_def)
  ultimately show ?thesis unfolding Let_def by blast
qed

text \<open>A digest to evaluate codes with: the bytes from zero to nineteen.\<close>

definition counting_hmac :: hmac where
  "counting_hmac key msg = map word_of_nat [0..<20]"

theorem hotp_truncation_witness:
  "\<exists>code. hotp counting_hmac ''JBSWY3DP'' 1 = Inr code \<and> length code = 6 \<and> digits_value code = 595078"
proof -
  obtain code where code: "hotp counting_hmac ''JBSWY3DP'' 1 = Inr code" by (simp add: hotp_def Let_def)
  have len: "length (counting_hmac key msg) = 20" for key msg by (simp add: counting_hmac_def)
  have d: "counting_hmac key msg = [0, 1, 2, 3, 4, 5, 6, 7, 8, 9, 10, 11, 12, 13, 14, 15, 16, 17, 18, 19]" for key msg
    by (simp add: counting_hmac_def upt_conv_Cons)
  from hotp_truncation [of counting_hmac, OF len code] code show ?thesis by (auto simp: d Let_def)
qed

section \<open>The window\<close>

lemma hotp_digits: "hotp H secret counter = Inr code \<Longrightarrow> length code = 6 \<and> list_all js_digit code"
  using padStart_code [of "unat (truncate_digest (H (base32Decode secret) (writeUInt32BE (word_of_int (counter div 2 ^ 32)) @ writeUInt32BE (word_of_int counter)))) mod 10 ^ 6"]
  by (auto simp: hotp_def Let_def DIGITS_def split: if_splits)

lemma hotp_total: "0 \<le> counter \<Longrightarrow> counter < 2 ^ 64 \<Longrightarrow> \<exists>code. hotp H secret counter = Inr code"
  by (auto simp: hotp_def Let_def pos_imp_zdiv_neg_iff not_less div_less_iff_less_mult split: if_splits)

lemma try_windows_run:
  assumes "\<forall>w \<in> set ws. \<exists>code. hotp H secret (counter + w) = Inr code"
  shows "try_windows H secret counter code ws = Inr (\<exists>w \<in> set ws. hotp H secret (counter + w) = Inr code)"
  using assms by (induction ws) auto

text \<open>A code is accepted exactly when, trimmed, it is the code of the current step of thirty seconds or of the step before or
  after it: with a clock between the first step and the year 38 000 000 verification returns and answers just that. In particular a code is
  still accepted thirty seconds after it was computed.\<close>

theorem verifyTotp_window:
  assumes "30000 \<le> now" and "now < 2 ^ 60"
  shows "verifyTotp H secret code now = Inr (\<exists>t \<in> {now - 30000, now, now + 30000}. totpCodeAt H secret t = Inr (js_trim code))"
proof -
  have c: "totp_counter (now - 30000) = totp_counter now + -1" "totp_counter (now + 30000) = totp_counter now + 1"
    by (simp_all add: totp_counter_def STEP_SECONDS_def)
  have "1 \<le> totp_counter now" "totp_counter now < 2 ^ 63"
    using assms by (simp_all add: totp_counter_def STEP_SECONDS_def)
  then have total: "\<forall>w \<in> set [- 1, 0, 1]. \<exists>code. hotp H secret (totp_counter now + w) = Inr code"
    by (auto intro!: hotp_total)
  have three: "(\<exists>t \<in> {now - 30000, now, now + 30000}. totpCodeAt H secret t = Inr x) \<longleftrightarrow>
      (\<exists>w \<in> set [- 1, 0, 1]. hotp H secret (totp_counter now + w) = Inr x)" for x
    by (simp add: totpCodeAt_def c)
  show ?thesis
  proof (cases "length (js_trim code) = 6 \<and> list_all js_digit (js_trim code)")
    case True
    with try_windows_run [OF total] show ?thesis by (simp only: verifyTotp_def Let_def three)  simp
  next
    case False
    then have "\<not> (\<exists>w \<in> set [- 1, 0, 1]. hotp H secret (totp_counter now + w) = Inr (js_trim code))" using hotp_digits by blast
    with False show ?thesis by (simp only: verifyTotp_def Let_def three) simp
  qed
qed

theorem verifyTotp_window_witness:
  "verifyTotp counting_hmac ''JBSWY3DP'' '' 595078 '' 60000 = Inr True"
proof -
  have "hotp counting_hmac ''JBSWY3DP'' 2 = Inr ''595078''"
  proof -
    have d: "counting_hmac key msg = [0, 1, 2, 3, 4, 5, 6, 7, 8, 9, 10, 11, 12, 13, 14, 15, 16, 17, 18, 19]" for key msg
      by (simp add: counting_hmac_def upt_conv_Cons)
    have "unat (truncate_digest [0, 1, 2, 3, 4, 5, 6, 7, 8, 9, 10, 11, 12, 13, 14, 15, 16, 17, 18, 19]) = 50595078"
      by (subst truncate_digest_value [where k = 3]) simp_all
    moreover have "padStart 6 (CHR ''0'') (nat_text 595078) = ''595078''"
      by (simp add: padStart_def nat_text.simps digit_char_def) code_simp
    ultimately show ?thesis by (simp add: hotp_def Let_def d DIGITS_def)
  qed
  moreover have "js_trim '' 595078 '' = ''595078''" by code_simp
  ultimately show ?thesis
    using verifyTotp_window [of 60000 counting_hmac "''JBSWY3DP''" "'' 595078 ''"] by (simp add: totpCodeAt_def totp_counter_def STEP_SECONDS_def)
qed

end
