(* ===== verification/Auth.thy ===== *)
theory Auth
  imports Totp
begin

text \<open>
  Authentication (\<open>platform/auth\<close>) and the guards of the HTTP layer (\<open>platform/http\<close>): rate limiting and
  revocation in Redis (\<open>auth-security.ts\<close>), signed tokens (\<open>jwt.ts\<close>), login, password reset
  (\<open>auth.service.ts\<close>), two-factor enrolment (\<open>mfa.service.ts\<close>), OpenID Connect (\<open>sso.service.ts\<close>), the tenant
  and role guards and the audit log. Signing, password hashing, digests and the identity provider are parameters.

  The lemmas: a session needs the password and, where enrolled, a code of the window; after five failures
  in a window no password is looked at; a reset token works once and for an hour, and ends every session issued before;
  a role-gated route is reached only with a live token of an allowed role.
\<close>

section \<open>State\<close>

record reset_token = row +
  pr_user_id :: uuid
  pr_token_hash :: string
  pr_expires_at :: msec
  pr_used_at :: "msec option"
  pr_created_at :: msec

record sso_config = row +
  so_provider :: string
  so_issuer :: string
  so_client_id :: string
  so_client_secret :: string
  so_authorization_endpoint :: string
  so_token_endpoint :: string
  so_userinfo_endpoint :: string
  so_default_role :: user_role
  so_is_enabled :: bool
  so_created_at :: msec
  so_updated_at :: msec

record audit_row = row +
  au_actor_user_id :: "uuid option"
  au_actor_label :: "string option"
  au_action :: string
  au_entity_type :: string
  au_entity_id :: "string option"
  au_summary :: string
  au_details :: json
  au_created_at :: msec

text \<open>A Redis key holds a value and the instant at which it expires, if any.\<close>

type_synonym 'v redis_entry = "'v \<times> msec option"

record auth = platform +
  password_reset_tokens :: "reset_token list"
  tenant_sso_configs :: "sso_config list"
  admin_audit_log :: "audit_row list"
  throttles :: "string \<Rightarrow> nat redis_entry option"
  revocations :: "uuid \<Rightarrow> msec redis_entry option"

definition auth_frame :: "query_runner \<Rightarrow> 's auth_scheme \<Rightarrow> 's auth_scheme \<Rightarrow> bool" where
  "auth_frame qr s t \<longleftrightarrow> platform_frame qr (platform.truncate s) (platform.truncate t) \<and>
     others qr (password_reset_tokens t) = others qr (password_reset_tokens s) \<and>
     others qr (tenant_sso_configs t) = others qr (tenant_sso_configs s) \<and>
     others qr (admin_audit_log t) = others qr (admin_audit_log s) \<and> auth.more t = auth.more s"

interpretation auth_frame: frame "auth_frame qr" for qr
  by unfold_locales (auto simp: auth_frame_def intro: platform_frame.frame_refl platform_frame.frame_trans)

lemmas auth_frame_defs = auth_frame_def platform_frame_def platform.truncate_def platform.make_def

lemma platform_auth_frame:
  fixes s t :: "'s auth_scheme"
  shows "platform_frame qr s t \<Longrightarrow> auth_frame qr s t"
  by (cases s; cases t) (simp add: auth_frame_defs)

interpretation users_auth_tbl: tenant_table users users_update auth_frame
  by unfold_locales (simp_all add: auth_frame_defs)
interpretation password_reset_tokens_tbl: tenant_table password_reset_tokens password_reset_tokens_update auth_frame
  by unfold_locales (simp_all add: auth_frame_defs)
interpretation tenant_sso_configs_tbl: tenant_table tenant_sso_configs tenant_sso_configs_update auth_frame
  by unfold_locales (simp_all add: auth_frame_defs)
interpretation admin_audit_log_tbl: tenant_table admin_audit_log admin_audit_log_update auth_frame
  by unfold_locales (simp_all add: auth_frame_defs)

section \<open>Redis\<close>

definition redis_live :: "msec \<Rightarrow> 'v redis_entry option \<Rightarrow> 'v redis_entry option" where
  "redis_live now e = (case e of
     Some (v, Some expiry) \<Rightarrow> if expiry \<le> now then None else e
   | _ \<Rightarrow> e)"

definition MAX_LOGIN_ATTEMPTS :: nat where
  "MAX_LOGIN_ATTEMPTS = 5"

definition LOGIN_WINDOW_SECONDS :: int where
  "LOGIN_WINDOW_SECONDS = 15 * 60"

record ThrottleResult =
  tr_allowed :: bool
  tr_retryAfterSeconds :: int

text \<open>\<open>incr\<close>: a missing key starts at one without expiry, an existing one keeps its expiry. \<open>ttl\<close> rounds to the nearest second.\<close>

definition redis_incr :: "string \<Rightarrow> ('s auth_scheme, nat) act" where
  "redis_incr key = (\<lambda>s. if \<not> redis_up s then (Inl redis_error, s) else
     let e = (case redis_live (clock s) (throttles s key) of None \<Rightarrow> (1, None) | Some (n, x) \<Rightarrow> (Suc n, x)) in
     (Inr (fst e), s\<lparr>throttles := (throttles s)(key := Some e)\<rparr>))"

definition redis_expire :: "string \<Rightarrow> int \<Rightarrow> ('s auth_scheme, unit) act" where
  "redis_expire key seconds = (\<lambda>s. if \<not> redis_up s then (Inl redis_error, s) else
     (Inr (), s\<lparr>throttles := (throttles s)(key := map_option (\<lambda>(v, _). (v, Some (clock s + seconds * 1000))) (redis_live (clock s) (throttles s key)))\<rparr>))"

definition redis_ttl :: "string \<Rightarrow> ('s auth_scheme, int) act" where
  "redis_ttl key = (\<lambda>s. if \<not> redis_up s then (Inl redis_error, s) else
     (Inr (case redis_live (clock s) (throttles s key) of
        None \<Rightarrow> - 2 | Some (_, None) \<Rightarrow> - 1 | Some (_, Some x) \<Rightarrow> (x - clock s + 500) div 1000), s))"

definition registerLoginAttempt :: "string \<Rightarrow> ('s auth_scheme, ThrottleResult) act" where
  "registerLoginAttempt key =
     act_bind (redis_incr key) (\<lambda>n.
     act_bind (if n = 1 then redis_expire key LOGIN_WINDOW_SECONDS else act_return ()) (\<lambda>_.
     if MAX_LOGIN_ATTEMPTS < n
     then act_bind (redis_ttl key) (\<lambda>ttl. act_return \<lparr>tr_allowed = False, tr_retryAfterSeconds = (if 0 < ttl then ttl else LOGIN_WINDOW_SECONDS)\<rparr>)
     else act_return \<lparr>tr_allowed = True, tr_retryAfterSeconds = 0\<rparr>))"

definition clearLoginAttempts :: "string \<Rightarrow> ('s auth_scheme, unit) tx" where
  "clearLoginAttempts key = (\<lambda>s. if \<not> redis_up s then Inl redis_error else Inr ((), s\<lparr>throttles := (throttles s)(key := None)\<rparr>))"

definition REVOKE_TTL_SECONDS :: int where
  "REVOKE_TTL_SECONDS = 60 * 60 * 24 * 2"

definition revokeUserSessions :: "uuid \<Rightarrow> ('s auth_scheme, unit) act" where
  "revokeUserSessions userId = (\<lambda>s. if \<not> redis_up s then (Inl redis_error, s) else
     (Inr (), s\<lparr>revocations := (revocations s)(userId := Some (clock s, Some (clock s + REVOKE_TTL_SECONDS * 1000)))\<rparr>))"

definition isSessionRevoked :: "uuid \<Rightarrow> int option \<Rightarrow> ('s auth_scheme, bool) act" where
  "isSessionRevoked userId tokenIatSeconds = (\<lambda>s. case tokenIatSeconds of
     None \<Rightarrow> (Inr False, s)
   | Some iat \<Rightarrow> if iat = 0 then (Inr False, s)
       else if \<not> redis_up s then (Inl redis_error, s)
       else (Inr (case redis_live (clock s) (revocations s userId) of None \<Rightarrow> False | Some (r, _) \<Rightarrow> iat * 1000 < r), s))"

section \<open>Tokens\<close>

text \<open>
  The claims of the tokens the system signs; a claim that a kind does not carry is absent. The library
  signs with the secret of the environment, stamps the time of issue in seconds and checks signature and expiry.
\<close>

record AppJwtClaims =
  cl_sub :: "uuid option"
  cl_tenantId :: "uuid option"
  cl_email :: "string option"
  cl_role :: "string option"
  cl_kind :: "string option"
  cl_resourceId :: "uuid option"
  cl_purpose :: "string option"
  cl_nonce :: "uuid option"
  cl_iat :: "int option"

record jwt_lib =
  jwt_sign :: "AppJwtClaims \<Rightarrow> string \<Rightarrow> msec \<Rightarrow> string"
  jwt_verify :: "string \<Rightarrow> msec \<Rightarrow> AppJwtClaims option"

record auth_env =
  JWT_EXPIRES_IN :: string
  DEVICE_JWT_EXPIRES_IN :: string
  WEB_APP_URL :: string
  API_PUBLIC_URL :: string
  INTERNAL_API_KEY :: string
  RBAC_REQUIRE_AUTH :: string

definition no_claims :: AppJwtClaims where
  "no_claims = \<lparr>cl_sub = None, cl_tenantId = None, cl_email = None, cl_role = None, cl_kind = None, cl_resourceId = None,
     cl_purpose = None, cl_nonce = None, cl_iat = None\<rparr>"

definition signJwt :: "jwt_lib \<Rightarrow> auth_env \<Rightarrow> AppJwtClaims \<Rightarrow> msec \<Rightarrow> string" where
  "signJwt J E claims now = jwt_sign J claims (JWT_EXPIRES_IN E) now"

definition verifyJwt :: "jwt_lib \<Rightarrow> string \<Rightarrow> msec \<Rightarrow> AppJwtClaims option" where
  "verifyJwt J token now = jwt_verify J token now"

definition verify_kind :: "jwt_lib \<Rightarrow> string \<Rightarrow> string \<Rightarrow> msec \<Rightarrow> AppJwtClaims option" where
  "verify_kind J kind token now = (case jwt_verify J token now of
     None \<Rightarrow> None | Some claims \<Rightarrow> if cl_kind claims = Some kind then Some claims else None)"

definition signDeviceJwt :: "jwt_lib \<Rightarrow> auth_env \<Rightarrow> uuid \<Rightarrow> uuid \<Rightarrow> uuid \<Rightarrow> msec \<Rightarrow> string" where
  "signDeviceJwt J E sub tenantId resourceId now = jwt_sign J
     (no_claims\<lparr>cl_sub := Some sub, cl_tenantId := Some tenantId, cl_resourceId := Some resourceId, cl_kind := Some ''device''\<rparr>) (DEVICE_JWT_EXPIRES_IN E) now"

definition verifyDeviceJwt :: "jwt_lib \<Rightarrow> string \<Rightarrow> msec \<Rightarrow> AppJwtClaims option" where
  "verifyDeviceJwt J = verify_kind J ''device''"

definition sign_ingest :: "jwt_lib \<Rightarrow> auth_env \<Rightarrow> string \<Rightarrow> uuid \<Rightarrow> uuid \<Rightarrow> msec \<Rightarrow> string" where
  "sign_ingest J E kind sub tenantId now = jwt_sign J
     (no_claims\<lparr>cl_sub := Some sub, cl_tenantId := Some tenantId, cl_kind := Some kind\<rparr>) (DEVICE_JWT_EXPIRES_IN E) now"

definition signLogSourceJwt :: "jwt_lib \<Rightarrow> auth_env \<Rightarrow> uuid \<Rightarrow> uuid \<Rightarrow> msec \<Rightarrow> string" where
  "signLogSourceJwt J E = sign_ingest J E ''log_source''"

definition verifyLogSourceJwt :: "jwt_lib \<Rightarrow> string \<Rightarrow> msec \<Rightarrow> AppJwtClaims option" where
  "verifyLogSourceJwt J = verify_kind J ''log_source''"

definition signApmIngestJwt :: "jwt_lib \<Rightarrow> auth_env \<Rightarrow> uuid \<Rightarrow> uuid \<Rightarrow> msec \<Rightarrow> string" where
  "signApmIngestJwt J E = sign_ingest J E ''apm_ingest''"

definition verifyApmIngestJwt :: "jwt_lib \<Rightarrow> string \<Rightarrow> msec \<Rightarrow> AppJwtClaims option" where
  "verifyApmIngestJwt J = verify_kind J ''apm_ingest''"

definition signRumAppJwt :: "jwt_lib \<Rightarrow> auth_env \<Rightarrow> uuid \<Rightarrow> uuid \<Rightarrow> msec \<Rightarrow> string" where
  "signRumAppJwt J E = sign_ingest J E ''rum_app''"

definition verifyRumAppJwt :: "jwt_lib \<Rightarrow> string \<Rightarrow> msec \<Rightarrow> AppJwtClaims option" where
  "verifyRumAppJwt J = verify_kind J ''rum_app''"

section \<open>Login and password reset\<close>

text \<open>Password hashing, the digest of reset tokens and the HMAC of one-time codes.\<close>

record crypto_lib =
  bcrypt_compare :: "string \<Rightarrow> string \<Rightarrow> bool"
  bcrypt_hash :: "string \<Rightarrow> string"
  hashToken :: "string \<Rightarrow> string"
  hmac_sha1 :: hmac

definition role_text :: "user_role \<Rightarrow> string" where
  "role_text r = (case r of Role_Admin \<Rightarrow> ''admin'' | Role_Agent \<Rightarrow> ''agent'' | Role_Viewer \<Rightarrow> ''viewer'')"

record user_view =
  uv_id :: uuid
  uv_email :: string
  uv_name :: string
  uv_role :: user_role

definition view_user :: "user \<Rightarrow> user_view" where
  "view_user u = \<lparr>uv_id = row_id u, uv_email = us_email u, uv_name = us_name u, uv_role = us_role u\<rparr>"

datatype LoginResult = MfaRequired | Session string user_view

definition agent_claims :: "uuid \<Rightarrow> user_view \<Rightarrow> AppJwtClaims" where
  "agent_claims tenantId u = no_claims\<lparr>cl_sub := Some (uv_id u), cl_tenantId := Some tenantId, cl_email := Some (uv_email u),
     cl_role := Some (role_text (uv_role u)), cl_kind := Some ''agent''\<rparr>"

definition throttle_key :: "js_format \<Rightarrow> uuid \<Rightarrow> string \<Rightarrow> string" where
  "throttle_key F tenantId email = fmt_uuid F tenantId @ '':'' @ js_lower email"

text \<open>The second factor: a secret that is \<open>null\<close> makes \<open>base32Decode\<close> raise, once the code looks like one.\<close>

definition check_totp :: "crypto_lib \<Rightarrow> string option \<Rightarrow> string \<Rightarrow> ('s auth_scheme, unit) tx" where
  "check_totp C secret code = tx_bind sql_now (\<lambda>now.
     case (case secret of
        Some sec \<Rightarrow> verifyTotp (hmac_sha1 C) sec code now
      | None \<Rightarrow> if length (js_trim code) = 6 \<and> list_all js_digit (js_trim code) then Inl (Failure ''TypeError'') else Inr False) of
       Inl e \<Rightarrow> tx_throw e
     | Inr ok \<Rightarrow> if ok then tx_return () else tx_throw (Unauthorized ''Invalid authentication code''))"

definition login_body ::
  "jwt_lib \<Rightarrow> auth_env \<Rightarrow> crypto_lib \<Rightarrow> string \<Rightarrow> uuid \<Rightarrow> string \<Rightarrow> string \<Rightarrow> string option \<Rightarrow> query_runner \<Rightarrow> ('s auth_scheme, LoginResult) tx" where
  "login_body J E C throttleKey tenantId email password totpCode qr =
     tx_bind (sql_first users qr (\<lambda>u. us_email u = email)) (\<lambda>found.
     case found of
       None \<Rightarrow> tx_throw (Unauthorized ''Invalid email or password'')
     | Some u \<Rightarrow>
         if \<not> bcrypt_compare C password (us_password_hash u) then tx_throw (Unauthorized ''Invalid email or password'')
         else if us_totp_enabled u \<and> (totpCode = None \<or> totpCode = Some [])
         then tx_return MfaRequired
         else tx_bind (if us_totp_enabled u then check_totp C (us_totp_secret u) (the totpCode) else tx_return ()) (\<lambda>_.
              tx_bind (clearLoginAttempts throttleKey) (\<lambda>_.
              tx_bind sql_now (\<lambda>now.
              tx_return (Session (signJwt J E (agent_claims tenantId (view_user u)) now) (view_user u))))))"

definition login ::
  "js_format \<Rightarrow> jwt_lib \<Rightarrow> auth_env \<Rightarrow> crypto_lib \<Rightarrow> uuid \<Rightarrow> string \<Rightarrow> string \<Rightarrow> string option \<Rightarrow> ('s auth_scheme, LoginResult) act" where
  "login F J E C tenantId email password totpCode =
     (let throttleKey = throttle_key F tenantId email in
      act_bind (registerLoginAttempt throttleKey) (\<lambda>throttle.
      if \<not> tr_allowed throttle then act_throw (TooManyRequests ''Too many login attempts'' (tr_retryAfterSeconds throttle))
      else withTenantContext tenantId (login_body J E C throttleKey tenantId email password totpCode)))"

definition me :: "uuid \<Rightarrow> uuid \<Rightarrow> ('s auth_scheme, user_view) act" where
  "me tenantId userId = withTenantContext tenantId (\<lambda>qr.
     tx_bind (sql_first users qr (by_id userId)) (\<lambda>u. case u of
       None \<Rightarrow> tx_throw (Unauthorized ''User not found'') | Some u \<Rightarrow> tx_return (view_user u)))"

definition logout :: "uuid \<Rightarrow> ('s auth_scheme, unit) act" where
  "logout userId = revokeUserSessions userId"

text \<open>
  The random token is an argument. The mail is queued over another connection while the transaction is open;
  nothing after it can raise, so that queueing it after the commit is the same.
\<close>

definition insert_reset_token :: "crypto_lib \<Rightarrow> uuid \<Rightarrow> string \<Rightarrow> string \<Rightarrow> query_runner \<Rightarrow> ('s auth_scheme, user option) tx" where
  "insert_reset_token C tenantId email token qr =
     tx_bind (sql_first users qr (\<lambda>u. us_email u = email)) (\<lambda>found. case found of
       None \<Rightarrow> tx_return None
     | Some u \<Rightarrow> tx_bind gen_random_uuid (\<lambda>i. tx_bind sql_now (\<lambda>now.
         tx_bind (sql_insert password_reset_tokens_update qr \<lparr>row_id = i, tenant_id = tenantId, pr_user_id = row_id u,
           pr_token_hash = hashToken C token, pr_expires_at = now + 3600000, pr_used_at = None, pr_created_at = now\<rparr>) (\<lambda>_.
         tx_return (Some u)))))"

definition requestPasswordReset ::
  "auth_env \<Rightarrow> crypto_lib \<Rightarrow> uuid \<Rightarrow> string \<Rightarrow> string \<Rightarrow> ('s auth_scheme, string option) act" where
  "requestPasswordReset E C tenantId email token =
     act_bind (withTenantContext tenantId (insert_reset_token C tenantId email token)) (\<lambda>found. case found of
       None \<Rightarrow> act_return None
     | Some u \<Rightarrow>
         act_bind (act_catch (act_bind (enqueue tenantId ''email'' (us_email u) ''platform.password_reset''
             (JObj [(''name'', JStr (us_name u)), (''resetUrl'', JStr (WEB_APP_URL E @ ''/reset-password?token='' @ token))])) (\<lambda>_. act_return ()))
           (\<lambda>_. act_return ())) (\<lambda>_. act_return (Some token)))"

definition consume_reset_token :: "crypto_lib \<Rightarrow> string \<Rightarrow> string \<Rightarrow> query_runner \<Rightarrow> ('s auth_scheme, uuid) tx" where
  "consume_reset_token C token newPassword qr = tx_bind sql_now (\<lambda>now.
     tx_bind (sql_first password_reset_tokens qr (\<lambda>r. pr_token_hash r = hashToken C token \<and> pr_used_at r = None \<and> now < pr_expires_at r)) (\<lambda>found.
     case found of
       None \<Rightarrow> tx_throw (Unauthorized ''Invalid or expired reset token'')
     | Some r \<Rightarrow>
         tx_bind (sql_update users users_update qr (by_id (pr_user_id r)) (\<lambda>u. u\<lparr>us_password_hash := bcrypt_hash C newPassword\<rparr>)) (\<lambda>_.
         tx_bind (sql_update password_reset_tokens password_reset_tokens_update qr (by_id (row_id r)) (\<lambda>r. r\<lparr>pr_used_at := Some now\<rparr>)) (\<lambda>_.
         tx_return (pr_user_id r)))))"

definition resetPassword :: "crypto_lib \<Rightarrow> uuid \<Rightarrow> string \<Rightarrow> string \<Rightarrow> ('s auth_scheme, unit) act" where
  "resetPassword C tenantId token newPassword =
     act_bind (withTenantContext tenantId (consume_reset_token C token newPassword)) revokeUserSessions"

section \<open>Two-factor enrolment\<close>

definition find_user :: "query_runner \<Rightarrow> uuid \<Rightarrow> ('s auth_scheme, user) tx" where
  "find_user qr userId = tx_bind (sql_first users qr (by_id userId)) (\<lambda>u. case u of
     None \<Rightarrow> tx_throw (Unauthorized ''User not found'') | Some u \<Rightarrow> tx_return u)"

definition mfa_status :: "uuid \<Rightarrow> uuid \<Rightarrow> ('s auth_scheme, bool) act" where
  "mfa_status tenantId userId = withTenantContext tenantId (\<lambda>qr. tx_bind (find_user qr userId) (\<lambda>u. tx_return (us_totp_enabled u)))"

definition beginSetup :: "uuid \<Rightarrow> uuid \<Rightarrow> 8 word list \<Rightarrow> ('s auth_scheme, string \<times> string) act" where
  "beginSetup tenantId userId randomBytes =
     (let secret = generateTotpSecret randomBytes in withTenantContext tenantId (\<lambda>qr.
      tx_bind (find_user qr userId) (\<lambda>u.
      tx_bind (sql_update users users_update qr (by_id userId) (\<lambda>u. u\<lparr>us_totp_secret := Some secret, us_totp_enabled := False\<rparr>)) (\<lambda>_.
      tx_return (secret, otpauthUri secret (us_email u))))))"

definition mfa_enable :: "crypto_lib \<Rightarrow> uuid \<Rightarrow> uuid \<Rightarrow> string \<Rightarrow> ('s auth_scheme, unit) act" where
  "mfa_enable C tenantId userId code = withTenantContext tenantId (\<lambda>qr.
     tx_bind (sql_first users qr (\<lambda>u. row_id u = userId \<and> us_totp_secret u \<noteq> None)) (\<lambda>u. case u of
       None \<Rightarrow> tx_throw (BadRequest ''Start 2FA setup before enabling it'')
     | Some u \<Rightarrow> tx_bind (check_totp C (us_totp_secret u) code) (\<lambda>_.
         tx_bind (sql_update users users_update qr (by_id userId) (\<lambda>u. u\<lparr>us_totp_enabled := True\<rparr>)) (\<lambda>_. tx_return ()))))"

definition mfa_disable :: "crypto_lib \<Rightarrow> uuid \<Rightarrow> uuid \<Rightarrow> string \<Rightarrow> ('s auth_scheme, unit) act" where
  "mfa_disable C tenantId userId code = withTenantContext tenantId (\<lambda>qr.
     tx_bind (sql_first users qr (\<lambda>u. row_id u = userId \<and> us_totp_enabled u)) (\<lambda>u. case u of
       None \<Rightarrow> tx_throw (BadRequest ''2FA is not enabled for this account'')
     | Some u \<Rightarrow> tx_bind (check_totp C (us_totp_secret u) code) (\<lambda>_.
         tx_bind (sql_update users users_update qr (by_id userId) (\<lambda>u. u\<lparr>us_totp_enabled := False, us_totp_secret := None\<rparr>)) (\<lambda>_. tx_return ()))))"

section \<open>Guards\<close>

record http_request =
  h_authorization :: "string option"
  h_tenant_id :: "string option"
  h_internal_api_key :: "string option"

record request_context =
  rc_tenantId :: uuid
  rc_userId :: "uuid option"
  rc_userRole :: "string option"

definition hex_nibble :: "char \<Rightarrow> nat option" where
  "hex_nibble c = (let n = of_char c in
     if 48 \<le> n \<and> n \<le> 57 then Some (n - 48) else if 97 \<le> n \<and> n \<le> 102 then Some (n - 87)
     else if 65 \<le> n \<and> n \<le> 70 then Some (n - 55) else None)"

definition UUID_RE :: "string \<Rightarrow> bool" where
  "UUID_RE s \<longleftrightarrow> length s = 36 \<and> list_all (\<lambda>(i, c). if i \<in> {8, 13, 18, 23} then c = CHR ''-'' else hex_nibble c \<noteq> None) (List.enumerate 0 s)"

definition uuid_of_text :: "string \<Rightarrow> uuid" where
  "uuid_of_text s = foldl (\<lambda>n d. 16 * n + d) 0 (List.map_filter hex_nibble s)"

definition bearer_token :: "http_request \<Rightarrow> string option" where
  "bearer_token r = (case h_authorization r of
     None \<Rightarrow> None | Some h \<Rightarrow> if js_starts_with h ''Bearer '' then Some (drop 7 h) else None)"

definition header_tenant :: "http_request \<Rightarrow> ('s auth_scheme, request_context) act" where
  "header_tenant r = (case h_tenant_id r of
     Some t \<Rightarrow> if UUID_RE t then act_return \<lparr>rc_tenantId = uuid_of_text t, rc_userId = None, rc_userRole = None\<rparr>
       else act_throw (Unauthorized ''X-Tenant-Id'')
   | None \<Rightarrow> act_throw (Unauthorized ''X-Tenant-Id''))"

text \<open>A token without tenant or subject is not one the system signs; the code would go on with \<open>undefined\<close>, the model with the header.\<close>

definition tenantHeaderGuard :: "jwt_lib \<Rightarrow> http_request \<Rightarrow> ('s auth_scheme, request_context) act" where
  "tenantHeaderGuard J r = act_bind (act_gets clock) (\<lambda>now.
     case bearer_token r of
       None \<Rightarrow> header_tenant r
     | Some token \<Rightarrow> (case verifyJwt J token now of
         None \<Rightarrow> header_tenant r
       | Some claims \<Rightarrow> (case (cl_kind claims = Some ''agent'', cl_sub claims, cl_tenantId claims) of
           (True, Some sub, Some tenantId) \<Rightarrow>
             act_bind (isSessionRevoked sub (cl_iat claims)) (\<lambda>revoked.
               if revoked then header_tenant r
               else act_return \<lparr>rc_tenantId = tenantId, rc_userId = Some sub, rc_userRole = cl_role claims\<rparr>)
         | _ \<Rightarrow> header_tenant r)))"

definition rolesGuard :: "auth_env \<Rightarrow> string list \<Rightarrow> request_context \<Rightarrow> error + bool" where
  "rolesGuard E requiredRoles ctx =
     (if requiredRoles = [] then Inr True
      else case rc_userRole ctx of
        None \<Rightarrow> if RBAC_REQUIRE_AUTH E = ''true'' then Inl (Unauthorized ''This action requires a signed-in agent'') else Inr True
      | Some role \<Rightarrow> if role = [] then (if RBAC_REQUIRE_AUTH E = ''true'' then Inl (Unauthorized ''This action requires a signed-in agent'') else Inr True)
          else if role \<notin> set requiredRoles then Inl (Forbidden ''role'') else Inr True)"

definition internalApiKeyGuard :: "auth_env \<Rightarrow> http_request \<Rightarrow> error + bool" where
  "internalApiKeyGuard E r = (case h_internal_api_key r of
     None \<Rightarrow> Inl (Unauthorized ''X-Internal-Api-Key'')
   | Some k \<Rightarrow> if k = [] \<or> k \<noteq> INTERNAL_API_KEY E then Inl (Unauthorized ''X-Internal-Api-Key'') else Inr True)"

text \<open>A route with \<open>@UseGuards(TenantHeaderGuard, RolesGuard)\<close>.\<close>

definition guarded_route :: "jwt_lib \<Rightarrow> auth_env \<Rightarrow> string list \<Rightarrow> http_request \<Rightarrow> ('s auth_scheme, request_context) act" where
  "guarded_route J E roles r = act_bind (tenantHeaderGuard J r) (\<lambda>ctx. case rolesGuard E roles ctx of
     Inl e \<Rightarrow> act_throw e | Inr _ \<Rightarrow> act_return ctx)"

section \<open>Audit log\<close>

record AuditEntry =
  ae_actorUserId :: "uuid option"
  ae_action :: string
  ae_entityType :: string
  ae_entityId :: "string option"
  ae_summary :: string
  ae_details :: "json option"

definition audit_insert :: "uuid \<Rightarrow> AuditEntry \<Rightarrow> query_runner \<Rightarrow> ('s auth_scheme, unit) tx" where
  "audit_insert tenantId entry qr =
     tx_bind (case ae_actorUserId entry of
        None \<Rightarrow> tx_return None
      | Some u \<Rightarrow> tx_bind (sql_first users qr (by_id u)) (\<lambda>u. tx_return (map_option us_name u))) (\<lambda>actorLabel.
     tx_bind (tx_gets (\<lambda>s. case ae_actorUserId entry of None \<Rightarrow> True | Some u \<Rightarrow> u \<in> row_id ` set (users s))) (\<lambda>fk.
     if \<not> fk then tx_throw foreign_key_violation
     else tx_bind gen_random_uuid (\<lambda>i. tx_bind sql_now (\<lambda>now.
       tx_bind (sql_insert admin_audit_log_update qr \<lparr>row_id = i, tenant_id = tenantId, au_actor_user_id = ae_actorUserId entry,
         au_actor_label = actorLabel, au_action = ae_action entry, au_entity_type = ae_entityType entry, au_entity_id = ae_entityId entry,
         au_summary = ae_summary entry, au_details = (case ae_details entry of None \<Rightarrow> JObj [] | Some d \<Rightarrow> d), au_created_at = now\<rparr>) (\<lambda>_.
       tx_return ())))))"

definition audit_record :: "uuid \<Rightarrow> AuditEntry \<Rightarrow> ('s auth_scheme, unit) act" where
  "audit_record tenantId entry = act_catch (withTenantContext tenantId (audit_insert tenantId entry)) (\<lambda>_. act_return ())"

definition audit_list :: "uuid \<Rightarrow> int option \<Rightarrow> int option \<Rightarrow> ('s auth_scheme, audit_row list \<times> nat) act" where
  "audit_list tenantId limit offset =
     (let n = nat (min (max (case limit of None \<Rightarrow> 50 | Some l \<Rightarrow> l) 1) 200); k = nat (max (case offset of None \<Rightarrow> 0 | Some x \<Rightarrow> x) 0) in
      withTenantContext tenantId (\<lambda>qr. tx_bind (sql_select admin_audit_log qr (\<lambda>_. True)) (\<lambda>rows.
        tx_return (take n (drop k (order_by (\<lambda>r. - au_created_at r) rows)), length rows))))"

section \<open>What a login needs\<close>

lemma check_totp_run:
  "check_totp C secret code s = Inr (u, t) \<longleftrightarrow> t = s \<and> (\<exists>sec. secret = Some sec \<and> verifyTotp (hmac_sha1 C) sec code (clock s) = Inr True)"
  by (auto simp: check_totp_def sql_now_def split: option.splits sum.splits if_splits)

lemma first_user_found:
  "first_of (filter P (visible qr rows)) = Some r \<Longrightarrow> r \<in> set rows \<and> tenant_id r = qr \<and> P r"
  by (auto dest!: first_of_filter_SomeD)

lemma login_body_session:
  assumes "login_body J E C k T email password totp T s = Inr (Session token v, t)"
  shows "\<exists>u \<in> set (users s). tenant_id u = T \<and> us_email u = email \<and> bcrypt_compare C password (us_password_hash u) \<and> v = view_user u \<and>
    token = signJwt J E (agent_claims T v) (clock s) \<and> t = s\<lparr>throttles := (throttles s)(k := None)\<rparr> \<and>
    (us_totp_enabled u \<longrightarrow> (\<exists>code sec. totp = Some code \<and> us_totp_secret u = Some sec \<and> verifyTotp (hmac_sha1 C) sec code (clock s) = Inr True))"
proof -
  obtain u where u: "first_of (filter (\<lambda>u. us_email u = email) (visible T (users s))) = Some u"
    using assms by (auto simp: login_body_def sql_first_def split: option.splits)
  have ok: "bcrypt_compare C password (us_password_hash u)" "\<not> (us_totp_enabled u \<and> (totp = None \<or> totp = Some []))"
    using assms u by (auto simp: login_body_def sql_first_def split: if_splits)
  have rest: "tx_bind (if us_totp_enabled u then check_totp C (us_totp_secret u) (the totp) else tx_return ()) (\<lambda>_.
      tx_bind (clearLoginAttempts k) (\<lambda>_. tx_bind sql_now (\<lambda>now.
      tx_return (Session (signJwt J E (agent_claims T (view_user u)) now) (view_user u))))) s = Inr (Session token v, t)"
    using assms u ok by (simp add: login_body_def sql_first_def)
  obtain t' where t': "(if us_totp_enabled u then check_totp C (us_totp_secret u) (the totp) else tx_return ()) s = Inr ((), t')"
    and fin: "tx_bind (clearLoginAttempts k) (\<lambda>_. tx_bind sql_now (\<lambda>now.
      tx_return (Session (signJwt J E (agent_claims T (view_user u)) now) (view_user u)))) t' = Inr (Session token v, t)"
    using rest by (auto elim!: tx_bindE)
  have same: "t' = s" "us_totp_enabled u \<longrightarrow> (\<exists>code sec. totp = Some code \<and> us_totp_secret u = Some sec \<and> verifyTotp (hmac_sha1 C) sec code (clock s) = Inr True)"
    using t' ok(2) by (auto simp: check_totp_run split: if_splits)
  show ?thesis
    using first_user_found [OF u] fin same ok(1)
    by (intro bexI [of _ u]) (auto simp: clearLoginAttempts_def sql_now_def tx_bind_def split: if_splits)
qed

lemma registerLoginAttempt_run:
  assumes "registerLoginAttempt k s = (r, t)"
  shows "\<exists>x. t = s\<lparr>throttles := (throttles s)(k := x)\<rparr>"
proof -
  have same: "\<exists>x. u = u\<lparr>throttles := (throttles u)(k := x)\<rparr>" for u :: "'a auth_scheme"
    by (rule exI [of _ "throttles u k"]) simp
  from assms show ?thesis
    by (auto intro: same simp: registerLoginAttempt_def redis_incr_def redis_expire_def redis_ttl_def act_bind_def Let_def split: if_splits option.splits)
qed

text \<open>C5. A session is given only for the right credentials: when a login returns a token, there is a user of that tenant with
  the given address whose password hash accepts the password and, if two-factor authentication is on, the request carried a code that the
  stored secret accepts now; the token names that user, tenant and role and is issued now, and only the counter of the
  address changed.\<close>

theorem login_requires_credentials:
  assumes "login F J E C T email password totp s = (Inr (Session token v), t)"
  shows "\<exists>u \<in> set (users s). tenant_id u = T \<and> us_email u = email \<and> bcrypt_compare C password (us_password_hash u) \<and> v = view_user u \<and>
    token = signJwt J E (agent_claims T v) (clock s) \<and> t = s\<lparr>throttles := (throttles s)(throttle_key F T email := None)\<rparr> \<and>
    (us_totp_enabled u \<longrightarrow> (\<exists>code sec. totp = Some code \<and> us_totp_secret u = Some sec \<and> verifyTotp (hmac_sha1 C) sec code (clock s) = Inr True))"
proof -
  let ?k = "throttle_key F T email"
  obtain throttle u where reg: "registerLoginAttempt ?k s = (Inr throttle, u)" and "tr_allowed throttle"
    and body: "withTenantContext T (login_body J E C ?k T email password totp) u = (Inr (Session token v), t)"
    using assms by (auto simp: login_def Let_def act_bind_eq_Inr split: if_splits)
  obtain x where u: "u = s\<lparr>throttles := (throttles s)(?k := x)\<rparr>" using registerLoginAttempt_run [OF reg] by blast
  from login_body_session [OF body [unfolded withTenantContext_Inr]] show ?thesis unfolding u by simp
qed

section \<open>The limit on attempts\<close>

definition window_open :: "string \<Rightarrow> nat \<Rightarrow> msec option \<Rightarrow> 's auth_scheme \<Rightarrow> bool" where
  "window_open k n e s \<longleftrightarrow> redis_up s \<and> throttles s k = Some (n, e)"

definition before_end :: "msec \<Rightarrow> msec option \<Rightarrow> bool" where
  "before_end t e \<longleftrightarrow> (case e of None \<Rightarrow> True | Some x \<Rightarrow> t < x)"

text \<open>
  The window an attempt at \<open>now\<close> falls into: the one that is open, with the attempts it has counted and its
  end, or else a new one of fifteen minutes.
\<close>

definition login_window :: "msec \<Rightarrow> nat redis_entry option \<Rightarrow> nat \<times> msec option" where
  "login_window now c = (case redis_live now c of
     Some (Suc n, e) \<Rightarrow> (Suc n, e)
   | _ \<Rightarrow> (0, Some (now + 15 * 60 * 1000)))"

lemma live_before_end: "redis_live now (Some (n, e)) = Some (n', e') \<longleftrightarrow> n' = n \<and> e' = e \<and> before_end now e"
  by (auto simp: redis_live_def before_end_def split: option.splits)

lemma register_first:
  assumes "redis_up s" and "redis_live (clock s) (throttles s k) = None"
  shows "registerLoginAttempt k s = (Inr \<lparr>tr_allowed = True, tr_retryAfterSeconds = 0\<rparr>, s\<lparr>throttles := (throttles s)(k := Some (1, Some (clock s + 900000)))\<rparr>)"
  using assms
  by (simp add: registerLoginAttempt_def redis_incr_def redis_expire_def act_bind_def Let_def MAX_LOGIN_ATTEMPTS_def LOGIN_WINDOW_SECONDS_def redis_live_def)

lemma register_attempt:
  assumes "redis_up s" and "login_window (clock s) (throttles s k) = (n, e)"
  shows "\<exists>x. registerLoginAttempt k s = (Inr \<lparr>tr_allowed = (n < 5), tr_retryAfterSeconds = x\<rparr>, s\<lparr>throttles := (throttles s)(k := Some (Suc n, e))\<rparr>)"
proof (cases "redis_live (clock s) (throttles s k)")
  case None
  with assms show ?thesis using register_first [OF assms(1) None] by (auto simp: login_window_def)
next
  case (Some c)
  obtain m d where c: "c = (m, d)" by (cases c)
  show ?thesis
  proof (cases m)
    case 0
    with Some c assms show ?thesis
      by (auto simp: login_window_def registerLoginAttempt_def redis_incr_def redis_expire_def act_bind_def Let_def
          MAX_LOGIN_ATTEMPTS_def LOGIN_WINDOW_SECONDS_def redis_live_def split: option.splits if_splits)
  next
    case (Suc m')
    with Some c assms show ?thesis
      by (auto simp: login_window_def registerLoginAttempt_def redis_incr_def redis_ttl_def act_bind_def Let_def
          MAX_LOGIN_ATTEMPTS_def)
  qed
qed

lemma window_open_window: "window_open k (Suc n) e s \<Longrightarrow> before_end now e \<Longrightarrow> login_window now (throttles s k) = (Suc n, e)"
  by (simp add: window_open_def login_window_def live_before_end [of now "Suc n" e "Suc n" e, THEN iffD2])

text \<open>The refusal for too many attempts is not one the credentials can cause.\<close>

lemma hotp_errors: "hotp H secret counter = Inl x \<Longrightarrow> x = Failure ''ERR_OUT_OF_RANGE''"
  by (auto simp: hotp_def Let_def split: if_splits)

lemma check_totp_errors: "check_totp C secret code s = Inl x \<Longrightarrow> x \<noteq> TooManyRequests m y"
  by (auto simp: check_totp_def tx_bind_def sql_now_def tx_throw_def verifyTotp_def Let_def
      dest!: hotp_errors split: option.splits sum.splits if_splits)

lemma login_body_not_throttled:
  assumes "withTenantContext T (login_body J E C k T email password totp) s = (Inl x, t)"
  shows "x \<noteq> TooManyRequests m y"
  using assms
  by (auto simp: withTenantContext_Inl login_body_def sql_first_def clearLoginAttempts_def sql_now_def tx_bind_def tx_throw_def redis_error_def
      dest: check_totp_errors split: option.splits sum.splits if_splits)

lemma login_body_refused:
  assumes "\<And>token v. r \<noteq> Inr (Session token v)" and "withTenantContext T (login_body J E C k T email password totp) s = (r, t)"
  shows "t = s"
proof (cases r)
  case (Inl e)
  with assms(2) show ?thesis by (simp add: withTenantContext_Inl)
next
  case (Inr x)
  with assms(1) have "x = MfaRequired" by (cases x) auto
  with Inr assms(2) have run: "login_body J E C k T email password totp T s = Inr (MfaRequired, t)" by (simp add: withTenantContext_Inr)
  have no: "tx_bind m (\<lambda>_. tx_bind m' (\<lambda>_. tx_bind sql_now (\<lambda>now. tx_return (Session (f now) v)))) u \<noteq> Inr (MfaRequired, t)"
    for m m' f v and u :: "'a auth_scheme" by (auto elim!: tx_bindE)
  from run show ?thesis
    by (auto simp: login_body_def sql_first_def no split: option.splits if_splits)
qed

lemma login_attempt:
  assumes "redis_up s" and "login_window (clock s) (throttles s (throttle_key F T email)) = (n, e)"
    and "login F J E C T email password totp s = (r, t)" and "\<And>token v. r \<noteq> Inr (Session token v)"
  shows "window_open (throttle_key F T email) (Suc n) e t" and "(\<exists>m x. r = Inl (TooManyRequests m x)) \<longleftrightarrow> 5 \<le> n"
proof -
  let ?k = "throttle_key F T email"
  let ?u = "s\<lparr>throttles := (throttles s)(?k := Some (Suc n, e))\<rparr>"
  obtain x where reg: "registerLoginAttempt ?k s = (Inr \<lparr>tr_allowed = (n < 5), tr_retryAfterSeconds = x\<rparr>, ?u)"
    using register_attempt [OF assms(1,2)] by blast
  have "t = ?u \<and> ((\<exists>m x. r = Inl (TooManyRequests m x)) \<longleftrightarrow> 5 \<le> n)"
  proof (cases "n < 5")
    case True
    then have "withTenantContext T (login_body J E C ?k T email password totp) ?u = (r, t)"
      using assms(3) reg by (simp add: login_def Let_def)
    with login_body_refused [OF assms(4) this] login_body_not_throttled True show ?thesis by fastforce
  next
    case False
    then show ?thesis using assms(3) reg by (auto simp: login_def Let_def)
  qed
  with assms(1) show "window_open ?k (Suc n) e t" "(\<exists>m x. r = Inl (TooManyRequests m x)) \<longleftrightarrow> 5 \<le> n"
    by (simp_all add: window_open_def)
qed

text \<open>A sequence of attempts on one account, each with its time, password and code.\<close>

fun login_attempts ::
  "js_format \<Rightarrow> jwt_lib \<Rightarrow> auth_env \<Rightarrow> crypto_lib \<Rightarrow> uuid \<Rightarrow> string \<Rightarrow> (msec \<times> string \<times> string option) list \<Rightarrow> 's auth_scheme \<Rightarrow>
     (error + LoginResult) list" where
  "login_attempts F J E C T email [] s = []"
| "login_attempts F J E C T email ((now, password, totp) # as) s =
     (let (r, t) = login F J E C T email password totp (s\<lparr>clock := now\<rparr>) in r # login_attempts F J E C T email as t)"

lemma attempts_limited:
  assumes "window_open (throttle_key F T email) (Suc n) e s" and "\<forall>a \<in> set as. before_end (fst a) e"
    and "\<forall>r \<in> set (login_attempts F J E C T email as s). \<forall>token v. r \<noteq> Inr (Session token v)"
    and "i < length as"
  shows "(\<exists>m x. login_attempts F J E C T email as s ! i = Inl (TooManyRequests m x)) \<longleftrightarrow> 5 \<le> Suc n + i"
  using assms
proof (induction as arbitrary: s n i)
  case (Cons a as)
  obtain now password totp where a: "a = (now, password, totp)" by (cases a)
  obtain r t where run: "login F J E C T email password totp (s\<lparr>clock := now\<rparr>) = (r, t)" by fastforce
  have all: "login_attempts F J E C T email (a # as) s = r # login_attempts F J E C T email as t" by (simp add: a run)
  have "redis_up (s\<lparr>clock := now\<rparr>)" using Cons.prems(1) by (simp add: window_open_def)
  moreover have "login_window (clock (s\<lparr>clock := now\<rparr>)) (throttles (s\<lparr>clock := now\<rparr>) (throttle_key F T email)) = (Suc n, e)"
    using window_open_window [OF Cons.prems(1), of now] Cons.prems(2) by (simp add: a)
  moreover have "\<And>token v. r \<noteq> Inr (Session token v)" using Cons.prems(3) all by simp
  ultimately have step: "window_open (throttle_key F T email) (Suc (Suc n)) e t" "(\<exists>m x. r = Inl (TooManyRequests m x)) \<longleftrightarrow> 5 \<le> Suc n"
    using login_attempt [OF _ _ run] by blast+
  show ?case
  proof (cases i)
    case 0
    with step(2) all show ?thesis by simp
  next
    case (Suc j)
    with Cons.IH [OF step(1), of j] Cons.prems all show ?thesis by simp
  qed
qed simp

text \<open>C35. Within one window only five passwords are looked at. Let the first of a sequence of attempts on one account fall into a
  window that has already counted \<open>n\<close> attempts (0 if it opens a new window of fifteen minutes), let the others come before the end of this
  window, and let none give a session, while Redis answers. Then an attempt is refused with the rate-limit error, before a password is looked
  at, exactly if at least five attempts of the window precede it, whatever the passwords and codes are.\<close>

theorem login_rate_limited:
  assumes "redis_up s" and "login_window now (throttles s (throttle_key F T email)) = (n, e)"
    and "\<forall>a \<in> set as. before_end (fst a) e"
    and "\<forall>r \<in> set (login_attempts F J E C T email ((now, password, totp) # as) s). \<forall>token v. r \<noteq> Inr (Session token v)"
    and "i < Suc (length as)"
  shows "(\<exists>m x. login_attempts F J E C T email ((now, password, totp) # as) s ! i = Inl (TooManyRequests m x)) \<longleftrightarrow> 5 \<le> n + i"
proof -
  obtain r t where run: "login F J E C T email password totp (s\<lparr>clock := now\<rparr>) = (r, t)" by fastforce
  have "redis_up (s\<lparr>clock := now\<rparr>)" "login_window (clock (s\<lparr>clock := now\<rparr>)) (throttles (s\<lparr>clock := now\<rparr>) (throttle_key F T email)) = (n, e)"
    "\<And>token v. r \<noteq> Inr (Session token v)"
    using assms(1,2,4) run by simp_all
  then have step: "window_open (throttle_key F T email) (Suc n) e t" "(\<exists>m x. r = Inl (TooManyRequests m x)) \<longleftrightarrow> 5 \<le> n"
    using login_attempt [OF _ _ run] by blast+
  show ?thesis
  proof (cases i)
    case 0
    with step(2) run show ?thesis by simp
  next
    case (Suc j)
    with attempts_limited [OF step(1) assms(3), of J E C j] assms(4,5) run show ?thesis by simp
  qed
qed

section \<open>Password reset\<close>

abbreviation reset_refused :: "error" where
  "reset_refused \<equiv> Unauthorized ''Invalid or expired reset token''"

text \<open>A token that the request stored: the only row with its digest, for the user it was asked for.\<close>

definition token_row :: "crypto_lib \<Rightarrow> uuid \<Rightarrow> string \<Rightarrow> reset_token \<Rightarrow> 's auth_scheme \<Rightarrow> bool" where
  "token_row C T token r s \<longleftrightarrow> r \<in> set (password_reset_tokens s) \<and> tenant_id r = T \<and> pr_token_hash r = hashToken C token \<and>
     (\<forall>q \<in> set (password_reset_tokens s). pr_token_hash q = hashToken C token \<or> row_id q = row_id r \<longrightarrow> q = r)"

lemma token_row_first:
  assumes "token_row C T token r s"
  shows "first_of (filter (\<lambda>q. pr_token_hash q = hashToken C token \<and> pr_used_at q = None \<and> now < pr_expires_at q) (visible T (password_reset_tokens s))) =
    (if pr_used_at r = None \<and> now < pr_expires_at r then Some r else None)"
proof (cases "pr_used_at r = None \<and> now < pr_expires_at r")
  case True
  then have "r \<in> set (filter (\<lambda>q. pr_token_hash q = hashToken C token \<and> pr_used_at q = None \<and> now < pr_expires_at q) (visible T (password_reset_tokens s)))"
    using assms by (simp add: token_row_def)
  moreover have "\<forall>q \<in> set (filter (\<lambda>q. pr_token_hash q = hashToken C token \<and> pr_used_at q = None \<and> now < pr_expires_at q) (visible T (password_reset_tokens s))). q = r"
    using assms by (auto simp: token_row_def)
  ultimately show ?thesis using True
    by (cases "filter (\<lambda>q. pr_token_hash q = hashToken C token \<and> pr_used_at q = None \<and> now < pr_expires_at q) (visible T (password_reset_tokens s))") auto
next
  case False
  then have "filter (\<lambda>q. pr_token_hash q = hashToken C token \<and> pr_used_at q = None \<and> now < pr_expires_at q) (visible T (password_reset_tokens s)) = []"
  proof (intro filter_False ballI notI)
    fix q
    assume "q \<in> set (visible T (password_reset_tokens s))" and live: "pr_token_hash q = hashToken C token \<and> pr_used_at q = None \<and> now < pr_expires_at q"
    then have "q \<in> set (password_reset_tokens s)" by simp
    with live assms have "q = r" by (simp add: token_row_def)
    with live False show False by simp
  qed
  with False show ?thesis by (simp only: first_of_simps if_False)
qed

lemma reset_refusal:
  assumes "token_row C T token r s" and "pr_used_at r \<noteq> None \<or> pr_expires_at r \<le> clock s"
  shows "resetPassword C T token pw s = (Inl reset_refused, s)"
proof -
  have "\<not> (pr_used_at r = None \<and> clock s < pr_expires_at r)" using assms(2) by auto
  with token_row_first [OF assms(1), of "clock s"] have
    "first_of (filter (\<lambda>q. pr_token_hash q = hashToken C token \<and> pr_used_at q = None \<and> clock s < pr_expires_at q) (visible T (password_reset_tokens s))) = None"
    by simp
  then show ?thesis by (simp add: resetPassword_def consume_reset_token_def sql_first_def sql_now_def withTenantContext_def act_bind_def)
qed

lemma reset_success:
  assumes "token_row C T token r s" and "pr_used_at r = None" and "clock s < pr_expires_at r" and "redis_up s"
  shows "resetPassword C T token pw s = (Inr (), s\<lparr>users := update_rows T (by_id (pr_user_id r)) (\<lambda>u. u\<lparr>us_password_hash := bcrypt_hash C pw\<rparr>) (users s),
    password_reset_tokens := update_rows T (by_id (row_id r)) (\<lambda>r. r\<lparr>pr_used_at := Some (clock s)\<rparr>) (password_reset_tokens s),
    revocations := (revocations s)(pr_user_id r := Some (clock s, Some (clock s + 172800000)))\<rparr>)"
  using token_row_first [OF assms(1), of "clock s"] assms(2-4)
  by (simp add: resetPassword_def consume_reset_token_def sql_first_def sql_now_def withTenantContext_def act_bind_def tx_bind_def
      sql_update_def Let_def list_all_iff tenant_isolation_def revokeUserSessions_def REVOKE_TTL_SECONDS_def)

lemma token_row_used:
  assumes "token_row C T token r s"
    and "password_reset_tokens t = update_rows T (by_id (row_id r)) (\<lambda>r. r\<lparr>pr_used_at := Some now\<rparr>) (password_reset_tokens s)"
  shows "token_row C T token (r\<lparr>pr_used_at := Some now\<rparr>) t"
proof -
  let ?f = "\<lambda>q. if tenant_isolation T q \<and> by_id (row_id r) q then q\<lparr>pr_used_at := Some now\<rparr> else q"
  have rows: "set (password_reset_tokens t) = ?f ` set (password_reset_tokens s)" by (simp add: assms(2) update_rows_def)
  have r: "r \<in> set (password_reset_tokens s)" "tenant_id r = T" "pr_token_hash r = hashToken C token"
    and only: "\<And>q. q \<in> set (password_reset_tokens s) \<Longrightarrow> pr_token_hash q = hashToken C token \<or> row_id q = row_id r \<Longrightarrow> q = r"
    using assms(1) by (auto simp: token_row_def)
  have fr: "?f r = r\<lparr>pr_used_at := Some now\<rparr>" using r by (simp add: tenant_isolation_def by_id_def)
  have keys: "pr_token_hash (?f q) = pr_token_hash q" "row_id (?f q) = row_id q" for q by simp_all
  have "q' = r\<lparr>pr_used_at := Some now\<rparr>" if "q' \<in> set (password_reset_tokens t)" "pr_token_hash q' = hashToken C token \<or> row_id q' = row_id r" for q'
  proof -
    obtain q where q: "q \<in> set (password_reset_tokens s)" "q' = ?f q" using \<open>q' \<in> set (password_reset_tokens t)\<close> unfolding rows by (rule imageE)
    have "pr_token_hash q = hashToken C token \<or> row_id q = row_id r" using that(2) unfolding q(2) keys .
    then have qr: "q = r" by (rule only [OF q(1)])
    show ?thesis unfolding q(2) qr by (rule fr)
  qed
  then have all: "\<forall>q \<in> set (password_reset_tokens t). pr_token_hash q = hashToken C token \<or> row_id q = row_id (r\<lparr>pr_used_at := Some now\<rparr>) \<longrightarrow>
      q = r\<lparr>pr_used_at := Some now\<rparr>" by simp
  have mem: "?f r \<in> set (password_reset_tokens t)" unfolding rows by (rule imageI [OF r(1)])
  have "tenant_id (r\<lparr>pr_used_at := Some now\<rparr>) = T" "pr_token_hash (r\<lparr>pr_used_at := Some now\<rparr>) = hashToken C token" using r by simp_all
  then show ?thesis unfolding token_row_def using all mem [unfolded fr] by blast
qed

lemma requestPasswordReset_run:
  assumes "requestPasswordReset E C T email token s = (Inr (Some token'), t)"
  shows "token' = token \<and> users t = users s \<and> clock t = clock s \<and> redis_up t = redis_up s \<and> revocations t = revocations s \<and>
    (\<exists>u \<in> set (users s). tenant_id u = T \<and> us_email u = email \<and>
      password_reset_tokens t = password_reset_tokens s @ [\<lparr>row_id = next_uuid s, tenant_id = T, pr_user_id = row_id u,
        pr_token_hash = hashToken C token, pr_expires_at = clock s + 3600000, pr_used_at = None, pr_created_at = clock s\<rparr>])"
proof -
  obtain u where u: "first_of (filter (\<lambda>u. us_email u = email) (visible T (users s))) = Some u"
    using assms by (auto simp: requestPasswordReset_def insert_reset_token_def sql_first_def withTenantContext_def act_bind_def split: option.splits)
  then have "u \<in> set (users s) \<and> tenant_id u = T \<and> us_email u = email" by (rule first_user_found)
  with assms u show ?thesis
    by (auto simp: requestPasswordReset_def insert_reset_token_def sql_first_def withTenantContext_def act_bind_def gen_random_uuid_def sql_now_def
        tx_bind_def sql_insert_def tenant_isolation_def act_catch_def enqueue_def randomUUID_def publish_run Let_def split: if_splits)
qed

text \<open>C11. A reset token works once and for an hour: after a user asked for one whose digest and row are new, resetting the password
  with it within the hour replaces the password hash of the user it was asked for and of nobody else and marks the token, so that every further use is
  refused; once the hour is over it is refused from the start and nothing changes.\<close>

theorem reset_token_single_use:
  assumes "requestPasswordReset E C T email token s = (Inr (Some token), s1)" and "redis_up s"
    and "hashToken C token \<notin> pr_token_hash ` set (password_reset_tokens s)" and "next_uuid s \<notin> row_id ` set (password_reset_tokens s)"
  shows "\<exists>u \<in> set (users s). tenant_id u = T \<and> us_email u = email \<and>
    (if now < clock s + 3600000
     then \<exists>t. resetPassword C T token pw (s1\<lparr>clock := now\<rparr>) = (Inr (), t) \<and>
       users t = map (\<lambda>v. if tenant_id v = T \<and> row_id v = row_id u then v\<lparr>us_password_hash := bcrypt_hash C pw\<rparr> else v) (users s) \<and>
       (\<forall>later pw'. resetPassword C T token pw' (t\<lparr>clock := later\<rparr>) = (Inl reset_refused, t\<lparr>clock := later\<rparr>))
     else resetPassword C T token pw (s1\<lparr>clock := now\<rparr>) = (Inl reset_refused, s1\<lparr>clock := now\<rparr>))"
proof -
  note run = requestPasswordReset_run [OF assms(1)]
  then obtain u where u: "u \<in> set (users s)" "tenant_id u = T" "us_email u = email"
    and tokens: "password_reset_tokens s1 = password_reset_tokens s @ [\<lparr>row_id = next_uuid s, tenant_id = T, pr_user_id = row_id u,
        pr_token_hash = hashToken C token, pr_expires_at = clock s + 3600000, pr_used_at = None, pr_created_at = clock s\<rparr>]" by blast
  define r where "r = \<lparr>row_id = next_uuid s, tenant_id = T, pr_user_id = row_id u,
        pr_token_hash = hashToken C token, pr_expires_at = clock s + 3600000, pr_used_at = None, pr_created_at = clock s\<rparr>"
  have row: "token_row C T token r (s1\<lparr>clock := now\<rparr>)"
    using assms(3,4) tokens unfolding token_row_def r_def by (auto simp: image_iff)
  show ?thesis
  proof (intro bexI [OF _ u(1)] conjI u(2,3), cases "now < clock s + 3600000")
    case True
    define t where "t = snd (resetPassword C T token pw (s1\<lparr>clock := now\<rparr>))"
    have ok: "resetPassword C T token pw (s1\<lparr>clock := now\<rparr>) = (Inr (), t)"
      and users: "users t = update_rows T (by_id (row_id u)) (\<lambda>u. u\<lparr>us_password_hash := bcrypt_hash C pw\<rparr>) (users s)"
      and toks: "password_reset_tokens t = update_rows T (by_id (row_id r)) (\<lambda>r. r\<lparr>pr_used_at := Some now\<rparr>) (password_reset_tokens s1)"
      using reset_success [OF row, of pw] True assms(2) run by (simp_all add: t_def r_def)
    have "token_row C T token (r\<lparr>pr_used_at := Some now\<rparr>) (t\<lparr>clock := later\<rparr>)" for later
      by (rule token_row_used [OF row]) (simp add: toks)
    then have "resetPassword C T token pw' (t\<lparr>clock := later\<rparr>) = (Inl reset_refused, t\<lparr>clock := later\<rparr>)" for later pw'
      by (rule reset_refusal) simp
    moreover have "users t = map (\<lambda>v. if tenant_id v = T \<and> row_id v = row_id u then v\<lparr>us_password_hash := bcrypt_hash C pw\<rparr> else v) (users s)"
      by (simp add: users update_rows_def tenant_isolation_def by_id_def)
    ultimately show "if now < clock s + 3600000
     then \<exists>t. resetPassword C T token pw (s1\<lparr>clock := now\<rparr>) = (Inr (), t) \<and>
       users t = map (\<lambda>v. if tenant_id v = T \<and> row_id v = row_id u then v\<lparr>us_password_hash := bcrypt_hash C pw\<rparr> else v) (users s) \<and>
       (\<forall>later pw'. resetPassword C T token pw' (t\<lparr>clock := later\<rparr>) = (Inl reset_refused, t\<lparr>clock := later\<rparr>))
     else resetPassword C T token pw (s1\<lparr>clock := now\<rparr>) = (Inl reset_refused, s1\<lparr>clock := now\<rparr>)"
      using True ok by auto
  next
    case False
    with reset_refusal [OF row, of pw] show "if now < clock s + 3600000
     then \<exists>t. resetPassword C T token pw (s1\<lparr>clock := now\<rparr>) = (Inr (), t) \<and>
       users t = map (\<lambda>v. if tenant_id v = T \<and> row_id v = row_id u then v\<lparr>us_password_hash := bcrypt_hash C pw\<rparr> else v) (users s) \<and>
       (\<forall>later pw'. resetPassword C T token pw' (t\<lparr>clock := later\<rparr>) = (Inl reset_refused, t\<lparr>clock := later\<rparr>))
     else resetPassword C T token pw (s1\<lparr>clock := now\<rparr>) = (Inl reset_refused, s1\<lparr>clock := now\<rparr>)"
      by (simp add: r_def)
  qed
qed

section \<open>Sessions end\<close>

text \<open>A bearer token the library accepts, of an agent's session issued at a second.\<close>

definition session_token :: "jwt_lib \<Rightarrow> http_request \<Rightarrow> msec \<Rightarrow> uuid \<Rightarrow> int \<Rightarrow> bool" where
  "session_token J req now userId iat \<longleftrightarrow> (case bearer_token req of None \<Rightarrow> False | Some token \<Rightarrow> (case verifyJwt J token now of
     None \<Rightarrow> False | Some claims \<Rightarrow> cl_kind claims = Some ''agent'' \<and> cl_sub claims = Some userId \<and> cl_iat claims = Some iat))"

lemma guard_revoked:
  assumes "session_token J req (clock s) u iat" and "redis_up s" and "iat \<noteq> 0"
    and "revocations s u = Some (r, Some e)" and "clock s < e" and "iat * 1000 < r"
  shows "tenantHeaderGuard J req s = header_tenant req s"
  using assms
  by (auto simp: session_token_def tenantHeaderGuard_def isSessionRevoked_def redis_live_def act_bind_def header_tenant_def
      split: option.splits bool.splits)

definition token_tenant :: "jwt_lib \<Rightarrow> http_request \<Rightarrow> msec \<Rightarrow> uuid option" where
  "token_tenant J req now = (case bearer_token req of None \<Rightarrow> None | Some token \<Rightarrow> (case verifyJwt J token now of
     None \<Rightarrow> None | Some claims \<Rightarrow> cl_tenantId claims))"

lemma guard_lapsed:
  assumes "session_token J req (clock s) u iat" and "token_tenant J req (clock s) = Some x" and "redis_up s"
    and "revocations s u = Some (r, Some e)" and "e \<le> clock s"
  shows "\<exists>ctx. tenantHeaderGuard J req s = (Inr ctx, s) \<and> rc_userId ctx = Some u \<and> rc_tenantId ctx = x"
  using assms
  by (auto simp: session_token_def token_tenant_def tenantHeaderGuard_def isSessionRevoked_def redis_live_def act_bind_def
      split: option.splits bool.splits)

text \<open>C10. Resetting a password, and logging out, end the sessions the user has for the two days the marker in Redis lives: when the call
  succeeded, and until two days later, the tenant guard treats a request with any session token of that user issued in an earlier second as one
  without a token, so that it is either refused or served as the anonymous request its tenant header alone would make. Redis answers in the meantime and
  the marker is not overwritten. Once the two days are over the same token is accepted again if the library still verifies it, which it does
  when \<open>JWT_EXPIRES_IN\<close> is set to more than the default of twelve hours.\<close>

theorem sessions_end:
  assumes "resetPassword C T token pw s = (Inr (), t) \<and> u = pr_user_id r \<and> token_row C T token r s \<or> logout u s = (Inr (), t)"
    and "0 < iat" and "iat * 1000 < clock s" and "clock s \<le> now" and "now < clock s + 172800000" and "session_token J req now u iat"
  shows "tenantHeaderGuard J req (t\<lparr>clock := now\<rparr>) = header_tenant req (t\<lparr>clock := now\<rparr>) \<and>
    (\<forall>ctx v. tenantHeaderGuard J req (t\<lparr>clock := now\<rparr>) = (Inr ctx, v) \<longrightarrow> rc_userId ctx = None \<and> rc_userRole ctx = None) \<and>
    (\<forall>later x. clock s + 172800000 \<le> later \<and> session_token J req later u iat \<and> token_tenant J req later = Some x \<longrightarrow>
      (\<exists>ctx. tenantHeaderGuard J req (t\<lparr>clock := later\<rparr>) = (Inr ctx, t\<lparr>clock := later\<rparr>) \<and> rc_userId ctx = Some u \<and> rc_tenantId ctx = x))"
proof -
  have t: "redis_up t \<and> revocations t u = Some (clock s, Some (clock s + 172800000))"
  proof (cases "logout u s = (Inr (), t)")
    case True
    then show ?thesis by (auto simp: logout_def revokeUserSessions_def REVOKE_TTL_SECONDS_def split: if_splits)
  next
    case False
    with assms(1) have run: "resetPassword C T token pw s = (Inr (), t)" and row: "token_row C T token r s" and u: "u = pr_user_id r" by simp_all
    have "pr_used_at r = None" "clock s < pr_expires_at r" using reset_refusal [OF row, of pw] run by fastforce+
    moreover have "redis_up s"
    proof (rule ccontr)
      assume down: "\<not> redis_up s"
      from run obtain k v where "withTenantContext T (consume_reset_token C token pw) s = (Inr k, v)" and rev: "revokeUserSessions k v = (Inr (), t)"
        by (auto simp: resetPassword_def act_bind_eq_Inr)
      then have "redis_up v = redis_up s"
        by (auto simp: withTenantContext_Inr consume_reset_token_def sql_now_def sql_first_def tx_bind_def sql_update_def Let_def split: option.splits if_splits)
      with down rev show False by (simp add: revokeUserSessions_def)
    qed
    ultimately show ?thesis using reset_success [OF row, of pw] run u by simp
  qed
  have guard: "tenantHeaderGuard J req (t\<lparr>clock := now\<rparr>) = header_tenant req (t\<lparr>clock := now\<rparr>)"
    by (rule guard_revoked [where u = u and iat = iat and r = "clock s" and e = "clock s + 172800000"]) (use t assms in simp_all)
  moreover have "rc_userId ctx = None \<and> rc_userRole ctx = None" if "header_tenant req w = (Inr ctx, v)" for ctx v w
    using that by (auto simp: header_tenant_def split: option.splits if_splits)
  moreover have "\<exists>ctx. tenantHeaderGuard J req (t\<lparr>clock := later\<rparr>) = (Inr ctx, t\<lparr>clock := later\<rparr>) \<and> rc_userId ctx = Some u \<and> rc_tenantId ctx = x"
    if "clock s + 172800000 \<le> later" "session_token J req later u iat" "token_tenant J req later = Some x" for later x
    by (rule guard_lapsed [where iat = iat and r = "clock s" and e = "clock s + 172800000"]) (use t that in simp_all)
  ultimately show ?thesis by metis
qed

section \<open>Role-gated routes\<close>

text \<open>C30. A route that names roles is closed to every signed-in agent without one of them, and with \<open>RBAC_REQUIRE_AUTH\<close> set to \<open>true\<close> it is
  reached only by agents. When the guards let a request through, nothing has changed, and either it carries a bearer token that verifies, of
  kind agent, whose session is not revoked, whose role is one of the route's, and the tenant and user of the request are those of the token, whatever
  tenant header it also carries; or \<open>RBAC_REQUIRE_AUTH\<close> is not \<open>true\<close>, as by default, and the request has no role at all, because the tenant header
  alone identifies it or because the token names none.\<close>

theorem role_gate:
  assumes "guarded_route J E roles req s = (Inr ctx, t)" and "roles \<noteq> []"
  shows "t = s \<and>
    ((\<exists>token claims role. bearer_token req = Some token \<and> verifyJwt J token (clock s) = Some claims \<and> cl_kind claims = Some ''agent'' \<and>
        cl_sub claims = rc_userId ctx \<and> cl_tenantId claims = Some (rc_tenantId ctx) \<and> cl_role claims = Some role \<and> role \<in> set roles \<and>
        (\<exists>u. rc_userId ctx = Some u \<and> isSessionRevoked u (cl_iat claims) s = (Inr False, s))) \<or>
     RBAC_REQUIRE_AUTH E \<noteq> ''true'' \<and> rc_userRole ctx \<in> {None, Some []})"
proof -
  obtain u where guard: "tenantHeaderGuard J req s = (Inr ctx, u)" and ok: "rolesGuard E roles ctx = Inr True" and t: "t = u"
    using assms(1) by (auto simp: guarded_route_def act_bind_eq_Inr rolesGuard_def split: sum.splits if_splits option.splits)
  have rev: "isSessionRevoked v iat s = (x, w) \<Longrightarrow> w = s" for v iat x w
    by (auto simp: isSessionRevoked_def split: option.splits if_splits)
  have hd: "header_tenant req s = (Inr c, w) \<Longrightarrow> w = s" for c w
    by (auto simp: header_tenant_def split: option.splits if_splits)
  have s: "u = s"
    using guard by (auto simp: tenantHeaderGuard_def act_bind_eq_Inr split: option.splits bool.splits if_splits dest: rev hd)
  show ?thesis
  proof (cases "rc_userRole ctx \<in> {None, Some []}")
    case True
    with ok assms(2) s t show ?thesis by (auto simp: rolesGuard_def split: if_splits)
  next
    case False
    then obtain role where role: "rc_userRole ctx = Some role" "role \<in> set roles"
      using ok assms(2) by (auto simp: rolesGuard_def split: option.splits if_splits)
    have "header_tenant req s \<noteq> (Inr ctx, u)"
      using role(1) by (auto simp: header_tenant_def split: option.splits if_splits)
    with guard role t s show ?thesis
      by (auto simp: tenantHeaderGuard_def act_bind_eq_Inr split: option.splits bool.splits if_splits dest: rev)
  qed
qed

section \<open>An office with one user\<close>

definition ann :: user where
  "ann = \<lparr>row_id = 5, tenant_id = 1, us_email = ''ann@x.org'', us_name = ''Ann'', us_password_hash = ''secret'', us_role = Role_Admin,
     us_created_at = 0, us_updated_at = 0, us_totp_secret = None, us_totp_enabled = False\<rparr>"

definition office :: auth where
  "office = \<lparr>clock = 5000, next_uuid = 10, tenants = [], users = [ann], events = [], notifications = [], redis_up = True, stream = [],
     consumer_groups = Map.empty, outbox = [], password_reset_tokens = [], tenant_sso_configs = [], admin_audit_log = [],
     throttles = Map.empty, revocations = Map.empty\<rparr>"

definition toy_crypto :: crypto_lib where
  "toy_crypto = \<lparr>bcrypt_compare = (=), bcrypt_hash = id, hashToken = id, hmac_sha1 = counting_hmac\<rparr>"

definition toy_jwt :: jwt_lib where
  "toy_jwt = \<lparr>jwt_sign = (\<lambda>_ _ _. ''jwt''),
     jwt_verify = (\<lambda>t _. if t = ''jwt'' then Some ((agent_claims 1 (view_user ann))\<lparr>cl_iat := Some 1\<rparr>) else None)\<rparr>"

definition toy_env :: auth_env where
  "toy_env = \<lparr>JWT_EXPIRES_IN = ''12h'', DEVICE_JWT_EXPIRES_IN = ''3650d'', WEB_APP_URL = ''http://web'', API_PUBLIC_URL = ''http://api'',
     INTERNAL_API_KEY = ''k'', RBAC_REQUIRE_AUTH = ''true''\<rparr>"

definition ann_request :: http_request where
  "ann_request = \<lparr>h_authorization = Some ''Bearer jwt'', h_tenant_id = None, h_internal_api_key = None\<rparr>"

lemma ann_bearer: "bearer_token ann_request = Some ''jwt''"
  by (simp add: bearer_token_def ann_request_def js_starts_with_iff)

lemma login_office:
  "login plain_format toy_jwt toy_env toy_crypto 1 ''ann@x.org'' p None (office\<lparr>clock := now, throttles := f\<rparr>) =
     (case registerLoginAttempt (throttle_key plain_format 1 ''ann@x.org'') (office\<lparr>clock := now, throttles := f\<rparr>) of
        (Inl e, t) \<Rightarrow> (Inl e, t)
      | (Inr th, t) \<Rightarrow> if \<not> tr_allowed th then (Inl (TooManyRequests ''Too many login attempts'' (tr_retryAfterSeconds th)), t)
          else withTenantContext 1 (login_body toy_jwt toy_env toy_crypto (throttle_key plain_format 1 ''ann@x.org'') 1 ''ann@x.org'' p None) t)"
  by (auto simp: login_def Let_def act_bind_def split: sum.splits prod.splits)

theorem login_requires_credentials_witness:
  "\<exists>t. login plain_format toy_jwt toy_env toy_crypto 1 ''ann@x.org'' ''secret'' None office = (Inr (Session ''jwt'' (view_user ann)), t) \<and> users t = [ann]"
proof -
  have "registerLoginAttempt k office = (Inr \<lparr>tr_allowed = True, tr_retryAfterSeconds = 0\<rparr>, office\<lparr>throttles := (throttles office)(k := Some (1, Some (clock office + 900000)))\<rparr>)" for k
    by (rule register_first) (simp_all add: office_def redis_live_def)
  then obtain t where t: "login plain_format toy_jwt toy_env toy_crypto 1 ''ann@x.org'' ''secret'' None office = (Inr (Session ''jwt'' (view_user ann)), t)"
    by (simp add: login_def Let_def login_body_def withTenantContext_def sql_first_def office_def ann_def tenant_isolation_def toy_crypto_def
        clearLoginAttempts_def sql_now_def tx_bind_def signJwt_def toy_jwt_def)
  from login_requires_credentials [OF t] t show ?thesis by (auto simp: office_def)
qed

lemma wrong_password:
  assumes "p \<noteq> ''secret''"
  shows "withTenantContext 1 (login_body toy_jwt toy_env toy_crypto k 1 ''ann@x.org'' p None) (office\<lparr>clock := now, throttles := f\<rparr>) =
    (Inl (Unauthorized ''Invalid email or password''), office\<lparr>clock := now, throttles := f\<rparr>)"
  using assms by (simp add: login_body_def withTenantContext_def sql_first_def office_def ann_def tenant_isolation_def toy_crypto_def)

lemma wrong_attempts:
  "r \<in> set (login_attempts plain_format toy_jwt toy_env toy_crypto 1 ''ann@x.org'' (replicate n (now, ''guess'', None)) (office\<lparr>clock := c, throttles := f\<rparr>)) \<Longrightarrow>
    \<exists>e. r = Inl e"
proof (induction n arbitrary: c f)
  case (Suc n)
  let ?k = "throttle_key plain_format 1 ''ann@x.org''" and ?s = "office\<lparr>clock := now, throttles := f\<rparr>"
  obtain a t where reg: "registerLoginAttempt ?k ?s = (a, t)" by fastforce
  obtain x where t: "t = office\<lparr>clock := now, throttles := f(?k := x)\<rparr>" using registerLoginAttempt_run [OF reg] by auto
  have "\<exists>e. login plain_format toy_jwt toy_env toy_crypto 1 ''ann@x.org'' ''guess'' None ?s = (Inl e, t)"
    unfolding login_office reg t by (cases a) (auto simp: wrong_password simp del: One_nat_def)
  then obtain e where run: "login plain_format toy_jwt toy_env toy_crypto 1 ''ann@x.org'' ''guess'' None ?s = (Inl e, t)" by blast
  have s: "(office\<lparr>clock := c, throttles := f\<rparr>)\<lparr>clock := now\<rparr> = ?s" by simp
  have "r = Inl e \<or> r \<in> set (login_attempts plain_format toy_jwt toy_env toy_crypto 1 ''ann@x.org'' (replicate n (now, ''guess'', None)) t)"
    using Suc.prems unfolding replicate_Suc login_attempts.simps s run by simp
  with Suc.IH [where c = now and f = "f(?k := x)"] show ?case unfolding t by blast
qed simp

theorem login_rate_limited_witness:
  "\<exists>m x. login_attempts plain_format toy_jwt toy_env toy_crypto 1 ''ann@x.org'' (replicate 6 (7000, ''guess'', None)) office ! 5 = Inl (TooManyRequests m x)"
proof -
  have six: "replicate 6 (7000, ''guess'', None) = (7000, ''guess'', None) # replicate 5 (7000 :: msec, ''guess'', None :: string option)"
    by (simp add: numeral_eq_Suc)
  have s: "office = office\<lparr>clock := 5000, throttles := Map.empty\<rparr>" by (simp add: office_def)
  have "\<forall>r \<in> set (login_attempts plain_format toy_jwt toy_env toy_crypto 1 ''ann@x.org'' (replicate 6 (7000, ''guess'', None)) office). \<forall>token v. r \<noteq> Inr (Session token v)"
    using wrong_attempts [where n = 6 and now = 7000 and c = 5000 and f = Map.empty] unfolding s [symmetric] by fastforce
  from login_rate_limited [OF _ _ _ this [unfolded six], of 0 "Some 907000" 5] show ?thesis unfolding six
    by (simp add: office_def redis_live_def login_window_def before_end_def)
qed

theorem reset_token_single_use_witness:
  "\<exists>s1 t. requestPasswordReset toy_env toy_crypto 1 ''ann@x.org'' ''tok'' office = (Inr (Some ''tok''), s1) \<and>
     resetPassword toy_crypto 1 ''tok'' ''new'' (s1\<lparr>clock := 6000\<rparr>) = (Inr (), t) \<and> map us_password_hash (users t) = [''new''] \<and>
     fst (resetPassword toy_crypto 1 ''tok'' ''again'' (t\<lparr>clock := 7000\<rparr>)) = Inl reset_refused"
proof -
  have "\<exists>s1. requestPasswordReset toy_env toy_crypto 1 ''ann@x.org'' ''tok'' office = (Inr (Some ''tok''), s1)"
    by (simp add: requestPasswordReset_def insert_reset_token_def sql_first_def withTenantContext_def act_bind_def gen_random_uuid_def sql_now_def
        tx_bind_def sql_insert_def tenant_isolation_def act_catch_def enqueue_def randomUUID_def publish_run Let_def office_def ann_def)
  then obtain s1 where s1: "requestPasswordReset toy_env toy_crypto 1 ''ann@x.org'' ''tok'' office = (Inr (Some ''tok''), s1)" by blast
  from reset_token_single_use [OF s1, of 6000 "''new''"] s1 show ?thesis
    by (fastforce simp: office_def ann_def toy_crypto_def)
qed

theorem sessions_end_witness:
  "\<exists>t. logout 5 office = (Inr (), t) \<and> fst (tenantHeaderGuard toy_jwt ann_request (t\<lparr>clock := 6000\<rparr>)) = Inl (Unauthorized ''X-Tenant-Id'')"
proof -
  obtain t where t: "logout 5 office = (Inr (), t)" by (simp add: logout_def revokeUserSessions_def office_def)
  have "session_token toy_jwt ann_request 6000 5 1"
    by (simp add: session_token_def ann_bearer verifyJwt_def toy_jwt_def agent_claims_def no_claims_def view_user_def ann_def)
  with sessions_end [of toy_crypto 1 "[]" "[]" office t 5 undefined 1 6000 toy_jwt ann_request] t show ?thesis
    by (simp add: office_def) (simp add: header_tenant_def ann_request_def)
qed

theorem role_gate_witness:
  "\<exists>ctx. guarded_route toy_jwt toy_env [''admin''] ann_request office = (Inr ctx, office) \<and> rc_userId ctx = Some 5"
proof -
  have "\<exists>ctx t. guarded_route toy_jwt toy_env [''admin''] ann_request office = (Inr ctx, t)"
    by (simp add: guarded_route_def tenantHeaderGuard_def ann_bearer verifyJwt_def toy_jwt_def agent_claims_def no_claims_def view_user_def ann_def
        isSessionRevoked_def office_def redis_live_def act_bind_def rolesGuard_def role_text_def)
  then obtain ctx t where run: "guarded_route toy_jwt toy_env [''admin''] ann_request office = (Inr ctx, t)" by blast
  from role_gate [OF run] run show ?thesis
    by (auto simp: toy_env_def ann_bearer verifyJwt_def toy_jwt_def agent_claims_def no_claims_def view_user_def ann_def)
qed

end
