(* ===== verification/Sso.thy ===== *)
theory Sso
  imports Auth
begin

text \<open>
  OpenID Connect single sign-on (\<open>platform/auth/sso.service.ts\<close>): the tenant's provider, the two
  steps of the authorization-code flow and just-in-time provisioning. The provider is a parameter.

  The lemmas: a completed login belongs to the tenant of a signed state and to the user of the provider's address, who is created at
  most once; saving a configuration answers with the configuration from before the change.
\<close>

record OidcEndpoints =
  oe_tokenEndpoint :: string
  oe_userinfoEndpoint :: string
  oe_clientId :: string
  oe_clientSecret :: string

record OidcUserInfo =
  ou_sub :: string
  ou_email :: string
  ou_name :: "string option"

text \<open>The calls to the provider: code, redirect URI and access token in, an error or a value out.\<close>

record oidc_client =
  exchangeCode :: "OidcEndpoints \<Rightarrow> string \<Rightarrow> string \<Rightarrow> error + string"
  fetchUserInfo :: "OidcEndpoints \<Rightarrow> string \<Rightarrow> error + OidcUserInfo"

record UpsertSsoConfig =
  us_issuer :: string
  us_clientId :: string
  us_clientSecret :: "string option"
  us_authorizationEndpoint :: string
  us_tokenEndpoint :: string
  us_userinfoEndpoint :: string
  us_defaultRole :: "user_role option"
  us_isEnabled :: "bool option"

definition redirectUri :: "auth_env \<Rightarrow> string" where
  "redirectUri E = API_PUBLIC_URL E @ ''/auth/sso/callback''"

definition loadConfig :: "uuid \<Rightarrow> ('s auth_scheme, sso_config option) act" where
  "loadConfig tenantId = withTenantContext tenantId (\<lambda>qr. sql_first tenant_sso_configs qr (\<lambda>c. tenant_id c = tenantId))"

text \<open>The view without the client secret.\<close>

definition getConfig :: "uuid \<Rightarrow> ('s auth_scheme, sso_config option) act" where
  "getConfig tenantId = act_bind (loadConfig tenantId) (\<lambda>c. act_return (map_option (\<lambda>c. c\<lparr>so_client_secret := []\<rparr>) c))"

definition set_config :: "UpsertSsoConfig \<Rightarrow> msec \<Rightarrow> sso_config \<Rightarrow> sso_config" where
  "set_config dto now c = c\<lparr>so_issuer := us_issuer dto, so_client_id := us_clientId dto,
     so_authorization_endpoint := us_authorizationEndpoint dto, so_token_endpoint := us_tokenEndpoint dto,
     so_userinfo_endpoint := us_userinfoEndpoint dto,
     so_default_role := (case us_defaultRole dto of None \<Rightarrow> Role_Agent | Some r \<Rightarrow> r),
     so_is_enabled := (case us_isEnabled dto of None \<Rightarrow> True | Some b \<Rightarrow> b), so_updated_at := now\<rparr>"

definition upsert_body :: "uuid \<Rightarrow> UpsertSsoConfig \<Rightarrow> query_runner \<Rightarrow> ('s auth_scheme, unit) tx" where
  "upsert_body tenantId dto qr =
     tx_bind (sql_first tenant_sso_configs qr (\<lambda>c. tenant_id c = tenantId)) (\<lambda>existing.
     let secret = (case us_clientSecret dto of None \<Rightarrow> [] | Some x \<Rightarrow> js_trim x) in
     if existing = None \<and> secret = [] then tx_throw (BadRequest ''A client secret is required to configure SSO'')
     else tx_bind sql_now (\<lambda>now.
       if existing = None
       then tx_bind (sql_insert tenant_sso_configs_update qr (set_config dto now \<lparr>row_id = tenantId, tenant_id = tenantId, so_provider = ''oidc'',
              so_issuer = [], so_client_id = [], so_client_secret = secret, so_authorization_endpoint = [], so_token_endpoint = [],
              so_userinfo_endpoint = [], so_default_role = Role_Agent, so_is_enabled = True, so_created_at = now, so_updated_at = now\<rparr>)) (\<lambda>_. tx_return ())
       else if secret \<noteq> []
       then tx_bind (sql_update tenant_sso_configs tenant_sso_configs_update qr (\<lambda>c. tenant_id c = tenantId)
              (\<lambda>c. (set_config dto now c)\<lparr>so_client_secret := secret\<rparr>)) (\<lambda>_. tx_return ())
       else tx_bind (sql_update tenant_sso_configs tenant_sso_configs_update qr (\<lambda>c. tenant_id c = tenantId) (set_config dto now)) (\<lambda>_. tx_return ())))"

text \<open>
  The work of the transaction ends with \<open>return this.getConfig(tenantId)\<close>, which reads over a connection of its own before the
  transaction commits, so it sees the committed state from before.
\<close>

definition upsertConfig :: "uuid \<Rightarrow> UpsertSsoConfig \<Rightarrow> ('s auth_scheme, sso_config option) act" where
  "upsertConfig tenantId dto = (\<lambda>s. case withTenantContext tenantId (upsert_body tenantId dto) s of
     (Inl e, t) \<Rightarrow> (Inl e, t)
   | (Inr _, t) \<Rightarrow> (fst (getConfig tenantId s), t))"

definition sso_state :: "uuid \<Rightarrow> uuid \<Rightarrow> AppJwtClaims" where
  "sso_state tenantId nonce = no_claims\<lparr>cl_purpose := Some ''sso'', cl_tenantId := Some tenantId, cl_nonce := Some nonce\<rparr>"

definition beginLogin :: "jwt_lib \<Rightarrow> auth_env \<Rightarrow> uuid \<Rightarrow> ('s auth_scheme, string) act" where
  "beginLogin J E tenantId = act_bind (loadConfig tenantId) (\<lambda>config. case config of
     None \<Rightarrow> act_throw (NotFound ''SSO is not configured for this tenant'' tenantId)
   | Some c \<Rightarrow> if \<not> so_is_enabled c then act_throw (NotFound ''SSO is not configured for this tenant'' tenantId)
       else act_bind randomUUID (\<lambda>nonce. act_bind (act_gets clock) (\<lambda>now.
         act_return (so_authorization_endpoint c @ ''?'' @ URLSearchParams [(''response_type'', ''code''), (''client_id'', so_client_id c),
           (''redirect_uri'', redirectUri E), (''scope'', ''openid email profile''), (''state'', jwt_sign J (sso_state tenantId nonce) ''10m'' now)]))))"

definition provision_user :: "uuid \<Rightarrow> sso_config \<Rightarrow> OidcUserInfo \<Rightarrow> query_runner \<Rightarrow> ('s auth_scheme, user_view) tx" where
  "provision_user tenantId config profile qr =
     tx_bind (sql_first users qr (\<lambda>u. us_email u = ou_email profile)) (\<lambda>existing. case existing of
       Some u \<Rightarrow> tx_return (view_user u)
     | None \<Rightarrow> tx_bind gen_random_uuid (\<lambda>i. tx_bind sql_now (\<lambda>now.
         tx_bind (sql_insert users_update qr \<lparr>row_id = i, tenant_id = tenantId, us_email = ou_email profile,
           us_name = (case ou_name profile of None \<Rightarrow> ou_email profile | Some n \<Rightarrow> n), us_password_hash = [], us_role = so_default_role config,
           us_created_at = now, us_updated_at = now, us_totp_secret = None, us_totp_enabled = False\<rparr>) (\<lambda>u. tx_return (view_user u)))))"

definition completeLogin ::
  "jwt_lib \<Rightarrow> auth_env \<Rightarrow> oidc_client \<Rightarrow> string \<Rightarrow> string \<Rightarrow> ('s auth_scheme, string \<times> user_view) act" where
  "completeLogin J E Q code state = act_bind (act_gets clock) (\<lambda>now.
     case (case jwt_verify J state now of None \<Rightarrow> None | Some d \<Rightarrow> if cl_purpose d = Some ''sso'' then cl_tenantId d else None) of
       None \<Rightarrow> act_throw (Unauthorized ''Invalid or expired SSO state'')
     | Some tenantId \<Rightarrow> act_bind (loadConfig tenantId) (\<lambda>config. case config of
         None \<Rightarrow> act_throw (BadRequest ''SSO is not configured for this tenant'')
       | Some c \<Rightarrow>
           if \<not> so_is_enabled c then act_throw (BadRequest ''SSO is not configured for this tenant'')
           else let endpoints = \<lparr>oe_tokenEndpoint = so_token_endpoint c, oe_userinfoEndpoint = so_userinfo_endpoint c,
                  oe_clientId = so_client_id c, oe_clientSecret = so_client_secret c\<rparr> in
             (case exchangeCode Q endpoints code (redirectUri E) of
                Inl e \<Rightarrow> act_throw e
              | Inr accessToken \<Rightarrow> (case fetchUserInfo Q endpoints accessToken of
                  Inl e \<Rightarrow> act_throw e
                | Inr profile \<Rightarrow> act_bind (withTenantContext tenantId (provision_user tenantId c profile)) (\<lambda>u.
                    act_return (signJwt J E (agent_claims tenantId u) now, u))))))"

section \<open>What a login through the provider gives\<close>

lemma loadConfig_run:
  "loadConfig T s = (Inr c, t) \<longleftrightarrow> t = s \<and> c = first_of (filter (\<lambda>c. tenant_id c = T) (visible T (tenant_sso_configs s)))"
  by (auto simp: loadConfig_def withTenantContext_Inr sql_first_def)

lemma provision_user_run:
  assumes "withTenantContext T (provision_user T c profile) s = (Inr v, t)"
  shows "\<exists>u \<in> set (users t). tenant_id u = T \<and> us_email u = ou_email profile \<and> v = view_user u \<and>
    (t = s \<or> (\<forall>w \<in> set (users s). tenant_id w = T \<longrightarrow> us_email w \<noteq> ou_email profile) \<and> users t = users s @ [u] \<and>
      row_id u = next_uuid s \<and> us_role u = so_default_role c \<and> us_password_hash u = [])"
proof (cases "first_of (filter (\<lambda>u. us_email u = ou_email profile) (visible T (users s)))")
  case (Some u)
  with assms have "v = view_user u" "t = s" by (auto simp: withTenantContext_Inr provision_user_def sql_first_def)
  with first_user_found [OF Some] show ?thesis by blast
next
  case None
  then have none: "\<forall>w \<in> set (users s). tenant_id w = T \<longrightarrow> us_email w \<noteq> ou_email profile" by (auto simp: filter_empty_conv)
  from None assms have "users t = users s @ [\<lparr>row_id = next_uuid s, tenant_id = T, us_email = ou_email profile,
           us_name = (case ou_name profile of None \<Rightarrow> ou_email profile | Some n \<Rightarrow> n), us_password_hash = [], us_role = so_default_role c,
           us_created_at = clock s, us_updated_at = clock s, us_totp_secret = None, us_totp_enabled = False\<rparr>] \<and> v = view_user (last (users t))"
    by (auto simp: withTenantContext_Inr provision_user_def sql_first_def gen_random_uuid_def sql_now_def sql_insert_def tx_bind_def tenant_isolation_def
        split: if_splits)
  with none show ?thesis by auto
qed

theorem sso_login_provisions_once:
  assumes "completeLogin J E Q code state s = (Inr (token, v), t)"
  shows "\<exists>d T u. jwt_verify J state (clock s) = Some d \<and> cl_purpose d = Some ''sso'' \<and> cl_tenantId d = Some T \<and> u \<in> set (users t) \<and>
    tenant_id u = T \<and> v = view_user u \<and> token = signJwt J E (agent_claims T v) (clock s) \<and>
    (users t = users s \<or> (\<forall>w \<in> set (users s). tenant_id w = T \<longrightarrow> us_email w \<noteq> us_email u) \<and> users t = users s @ [u])"
proof -
  obtain T where T: "(case jwt_verify J state (clock s) of None \<Rightarrow> None | Some d \<Rightarrow> if cl_purpose d = Some ''sso'' then cl_tenantId d else None) = Some T"
    using assms by (auto simp: completeLogin_def act_bind_def split: option.splits)
  obtain c profile where run: "withTenantContext T (provision_user T c profile) s = (Inr v, t)" and tok: "token = signJwt J E (agent_claims T v) (clock s)"
    using assms T by (auto simp: completeLogin_def act_bind_eq_Inr loadConfig_run Let_def split: option.splits if_splits sum.splits)
  from T obtain d where "jwt_verify J state (clock s) = Some d" "cl_purpose d = Some ''sso''" "cl_tenantId d = Some T"
    by (auto split: option.splits if_splits)
  moreover obtain u where "u \<in> set (users t)" "tenant_id u = T" "v = view_user u" "us_email u = ou_email profile"
    "users t = users s \<or> (\<forall>w \<in> set (users s). tenant_id w = T \<longrightarrow> us_email w \<noteq> ou_email profile) \<and> users t = users s @ [u]"
    using provision_user_run [OF run] by blast
  ultimately show ?thesis using tok by (intro exI [of _ d] exI [of _ T] exI [of _ u]) simp
qed

section \<open>Saving the configuration\<close>

text \<open>Saving the single sign-on configuration stores it but answers with the one from before: the response of an update is what
  reading the configuration gave before the call, and the response to the first configuration of a tenant is empty, while reading it afterwards gives
  the stored one.\<close>

theorem upsertConfig_answers_stale:
  assumes "upsertConfig T dto s = (Inr answer, t)"
  shows "getConfig T s = (Inr answer, s) \<and>
    (\<exists>c. getConfig T t = (Inr (Some c), t) \<and> so_issuer c = us_issuer dto \<and> so_client_id c = us_clientId dto \<and> tenant_id c = T)"
proof -
  have body: "upsert_body T dto T s = Inr ((), t)" and answer: "fst (getConfig T s) = Inr answer"
    using assms by (auto simp: upsertConfig_def withTenantContext_def split: sum.splits prod.splits)
  have same: "snd (getConfig T s) = s"
    by (simp add: getConfig_def loadConfig_def withTenantContext_def sql_first_def act_bind_def)
  let ?old = "filter (\<lambda>c. tenant_id c = T) (visible T (tenant_sso_configs s))"
  have keep: "tenant_id (set_config dto now c) = tenant_id c" for now c by (simp add: set_config_def)
  have "\<exists>c. first_of (filter (\<lambda>c. tenant_id c = T) (visible T (tenant_sso_configs t))) = Some c \<and> so_issuer c = us_issuer dto \<and>
      so_client_id c = us_clientId dto \<and> tenant_id c = T"
  proof (cases ?old)
    case Nil
    with body show ?thesis
      by (auto simp: upsert_body_def sql_first_def sql_now_def sql_insert_def Let_def tx_bind_def set_config_def tenant_isolation_def split: if_splits)
  next
    case (Cons c cs)
    have "c \<in> set ?old" using Cons by (simp only: list.set_intros)
    then have c: "tenant_id c = T" by simp
    have old: "visible T (tenant_sso_configs s) = c # cs" using Cons filter_True [of "visible T (tenant_sso_configs s)" "\<lambda>c. tenant_id c = T"] by simp
    have f: "tenant_id (set_config dto now c) = tenant_id c \<and> so_issuer (set_config dto now c) = us_issuer dto \<and> so_client_id (set_config dto now c) = us_clientId dto"
      for now c by (simp add: set_config_def)
    obtain f where t: "tenant_sso_configs t = update_rows T (\<lambda>c. tenant_id c = T) f (tenant_sso_configs s)"
      and f: "\<And>c. tenant_id (f c) = tenant_id c \<and> so_issuer (f c) = us_issuer dto \<and> so_client_id (f c) = us_clientId dto"
    proof (cases "(case us_clientSecret dto of None \<Rightarrow> [] | Some x \<Rightarrow> js_trim x) = []")
      case True
      with body Cons have "tenant_sso_configs t = update_rows T (\<lambda>c. tenant_id c = T) (set_config dto (clock s)) (tenant_sso_configs s)"
        by (auto simp: upsert_body_def sql_first_def sql_now_def sql_update_def Let_def tx_bind_def split: if_splits)
      with f that show thesis by blast
    next
      case False
      with body Cons have "tenant_sso_configs t = update_rows T (\<lambda>c. tenant_id c = T) (\<lambda>c. (set_config dto (clock s) c)\<lparr>so_client_secret :=
          (case us_clientSecret dto of None \<Rightarrow> [] | Some x \<Rightarrow> js_trim x)\<rparr>) (tenant_sso_configs s)"
        by (auto simp: upsert_body_def sql_first_def sql_now_def sql_update_def Let_def tx_bind_def split: if_splits)
      with f that show thesis by fastforce
    qed
    have "visible T (tenant_sso_configs t) = map (\<lambda>r. if tenant_id r = T then f r else r) (c # cs)"
      using visible_update_rows [of f T "\<lambda>c. tenant_id c = T" "tenant_sso_configs s"] f t old by simp
    with c f show ?thesis by simp
  qed
  then show ?thesis using answer same by (cases "getConfig T s") (auto simp: getConfig_def loadConfig_def withTenantContext_def sql_first_def act_bind_def)
qed

definition okta :: UpsertSsoConfig where
  "okta = \<lparr>us_issuer = ''https://okta'', us_clientId = ''id'', us_clientSecret = Some ''s'', us_authorizationEndpoint = ''a'', us_tokenEndpoint = ''t'',
     us_userinfoEndpoint = ''u'', us_defaultRole = None, us_isEnabled = None\<rparr>"

theorem upsertConfig_answers_stale_witness:
  "\<exists>t c. upsertConfig 1 okta office = (Inr None, t) \<and> getConfig 1 t = (Inr (Some c), t) \<and> so_issuer c = ''https://okta''"
proof -
  have "\<exists>t. upsertConfig 1 okta office = (Inr None, t)"
    by (simp add: upsertConfig_def withTenantContext_def upsert_body_def sql_first_def office_def okta_def js_trim_def js_space_def Let_def sql_now_def
        sql_insert_def tx_bind_def set_config_def tenant_isolation_def getConfig_def loadConfig_def act_bind_def)
  then obtain t where t: "upsertConfig 1 okta office = (Inr None, t)" by blast
  from upsertConfig_answers_stale [OF t] t show ?thesis by (auto simp: okta_def)
qed

section \<open>Tenants stay apart\<close>

lemma auth_primitive_frames [frame_intros]:
  "tx_rel (auth_frame qr) gen_random_uuid" "tx_rel (auth_frame qr) sql_now" "tx_rel (auth_frame qr) (clearLoginAttempts k)"
  "act_rel (auth_frame qr) (registerLoginAttempt k)" "act_rel (auth_frame qr) (revokeUserSessions u)" "act_rel (auth_frame T) (enqueue T c r n p)"
proof -
  show "tx_rel (auth_frame qr) gen_random_uuid" by (rule tx_rel_mono [OF gen_random_uuid_platform_frame platform_auth_frame])
  show "tx_rel (auth_frame qr) sql_now" by (rule tx_rel_mono [OF sql_now_frame platform_auth_frame])
  show "tx_rel (auth_frame qr) (clearLoginAttempts k)"
    by (rule tx_relI) (auto simp: clearLoginAttempts_def auth_frame_defs split: if_splits)
  show "act_rel (auth_frame qr) (registerLoginAttempt k)"
    by (rule act_relI) (auto dest!: registerLoginAttempt_run simp: auth_frame_defs)
  show "act_rel (auth_frame qr) (revokeUserSessions u)"
    by (rule act_relI) (auto simp: revokeUserSessions_def auth_frame_defs split: if_splits)
  show "act_rel (auth_frame T) (enqueue T c r n p)" by (rule act_rel_mono [OF enqueue_frame platform_auth_frame])
qed

lemma check_totp_frame [frame_intros]: "tx_rel (auth_frame qr) (check_totp C secret code)"
  by (rule tx_relI) (auto simp: check_totp_run auth_frame.frame_refl)

text \<open>Authentication on behalf of a tenant leaves the users, tokens, configurations and audit rows of the others as they were.\<close>

theorem auth_tenant_isolation:
  "act_rel (auth_frame T) (login F J E C T email password totp)" "act_rel (auth_frame T) (requestPasswordReset E C T email token)"
  "act_rel (auth_frame T) (resetPassword C T token pw)" "act_rel (auth_frame T) (beginSetup T u bytes)" "act_rel (auth_frame T) (mfa_enable C T u code)"
  "act_rel (auth_frame T) (mfa_disable C T u code)" "act_rel (auth_frame T) (audit_record T entry)" "act_rel (auth_frame T) (upsertConfig T dto)"
proof -
  show "act_rel (auth_frame T) (login F J E C T email password totp)"
    unfolding login_def login_body_def Let_def by (intro frame_intros)
  show "act_rel (auth_frame T) (requestPasswordReset E C T email token)"
    unfolding requestPasswordReset_def insert_reset_token_def by (intro frame_intros password_reset_tokens_tbl.sql_insert_iso)
  show "act_rel (auth_frame T) (resetPassword C T token pw)"
    unfolding resetPassword_def consume_reset_token_def
    by (intro frame_intros users_auth_tbl.sql_update_iso password_reset_tokens_tbl.sql_update_iso)
  show "act_rel (auth_frame T) (beginSetup T u bytes)"
    unfolding beginSetup_def find_user_def Let_def by (intro frame_intros users_auth_tbl.sql_update_iso)
  show "act_rel (auth_frame T) (mfa_enable C T u code)"
    unfolding mfa_enable_def by (intro frame_intros users_auth_tbl.sql_update_iso)
  show "act_rel (auth_frame T) (mfa_disable C T u code)"
    unfolding mfa_disable_def by (intro frame_intros users_auth_tbl.sql_update_iso)
  show "act_rel (auth_frame T) (audit_record T entry)"
    unfolding audit_record_def audit_insert_def by (intro frame_intros admin_audit_log_tbl.sql_insert_iso)
  have "act_rel (auth_frame T) (withTenantContext T (upsert_body T dto))"
    unfolding upsert_body_def Let_def by (intro frame_intros tenant_sso_configs_tbl.sql_insert_iso tenant_sso_configs_tbl.sql_update_iso)
  note body = this
  show "act_rel (auth_frame T) (upsertConfig T dto)"
  proof (rule act_relI)
    fix s r t
    assume "upsertConfig T dto s = (r, t)"
    then have "snd (withTenantContext T (upsert_body T dto) s) = t"
      by (cases "withTenantContext T (upsert_body T dto) s") (auto simp: upsertConfig_def split: sum.splits)
    with act_rel_snd [OF body, of s] show "auth_frame T s t" by simp
  qed
qed

end
