(* ===== verification/Monitoring_Schema.thy ===== *)
theory Monitoring_Schema
  imports Helpdesk_Schema
begin

text \<open>
  The tables of the monitoring module (migrations \<open>1784070000000\<close>, \<open>1784080000000\<close>, \<open>1784090000000\<close>,
  \<open>1784110000000\<close>, \<open>1784370000000\<close> and \<open>1784420000000\<close>) as an extension of the state of the help desk,
  and the frame of a tenant over all of it. The numbers of metrics and thresholds (\<open>double precision\<close>)
  are exact rationals here. The table of resources is part of the ticketing state.
\<close>

section \<open>Checks\<close>

datatype MonitorType = Mt_Http | Mt_Ping | Mt_Port | Mt_Dns | Mt_Ssl | Mt_Server_Agent | Mt_Cloud_Metric | Mt_Synthetic

datatype CheckStatus = Up | Down | Critical | Trouble

definition check_status_text :: "CheckStatus \<Rightarrow> string" where
  "check_status_text st = (case st of Up \<Rightarrow> ''up'' | Down \<Rightarrow> ''down'' | Critical \<Rightarrow> ''critical'' | Trouble \<Rightarrow> ''trouble'')"

text \<open>The response time is \<open>null\<close> or a JavaScript number, which may be a fraction or \<open>NaN\<close> (\<open>None\<close>).\<close>

record CheckResult =
  cr_status :: CheckStatus
  cr_responseTimeMs :: "rat option option"
  cr_rawOutput :: json

section \<open>Rows\<close>

record monitor = row +
  mo_resource_id :: uuid
  mo_name :: string
  mo_monitor_type :: MonitorType
  mo_config :: json
  mo_interval_seconds :: int
  mo_consecutive_failures_to_alert :: nat
  mo_min_failing_locations :: nat
  mo_is_enabled :: bool
  mo_created_at :: msec
  mo_updated_at :: msec

record monitor_check = row +
  mc_monitor_id :: uuid
  mc_status :: CheckStatus
  mc_response_time_ms :: "int option"
  mc_raw_output :: json
  mc_location :: string
  mc_checked_at :: msec

datatype AlertRuleKind = Rk_Status | Rk_Threshold | Rk_Anomaly

datatype MetricComparator = Gt | Gte | Lt | Lte

datatype alert_severity = Sev_Info | Sev_Warning | Sev_Critical

text \<open>The condition is the value of \<open>condition?.statusIn\<close>.\<close>

record alert_rule = row +
  al_monitor_id :: uuid
  al_statusIn :: "string list option"
  al_severity :: alert_severity
  al_is_enabled :: bool
  al_escalation_policy_id :: "uuid option"
  al_rule_kind :: AlertRuleKind
  al_metric :: "string option"
  al_comparator :: "MetricComparator option"
  al_threshold :: "rat option"
  al_for_consecutive :: nat
  al_anomaly_sensitivity :: "rat option"
  al_created_at :: msec
  al_updated_at :: msec

datatype alert_status = Alert_Open | Alert_Acknowledged | Alert_Resolved

record alert = row +
  at_monitor_id :: uuid
  at_alert_rule_id :: "uuid option"
  at_severity :: alert_severity
  at_status :: alert_status
  at_reason_text :: string
  at_repeat_count :: nat
  at_linked_ticket :: "uuid option"
  at_opened_at :: msec
  at_last_seen_at :: msec
  at_acknowledged_at :: "msec option"
  at_resolved_at :: "msec option"
  at_last_escalated_step :: int

record notify_target =
  nt_channel :: string
  nt_recipient :: string

record EscalationStep =
  es_delayMinutes :: int
  es_notify :: "notify_target list"

record escalation_policy = row +
  ep_name :: string
  ep_steps :: "EscalationStep list option"
  ep_created_at :: msec
  ep_updated_at :: msec

record on_call_entry =
  oc_agentId :: uuid
  oc_startsAt :: msec
  oc_endsAt :: msec

record on_call_schedule = row +
  os_name :: string
  os_entries :: "on_call_entry list option"
  os_created_at :: msec
  os_updated_at :: msec

record notification_template = row +
  np_channel :: string
  np_event_type :: string
  np_subject :: "string option"
  np_body :: string
  np_is_default :: bool
  np_created_at :: msec
  np_updated_at :: msec

record downtime_event = row +
  de_resource_id :: uuid
  de_monitor_id :: "uuid option"
  de_reason :: string
  de_starts_at :: msec
  de_ends_at :: "msec option"
  de_is_manual :: bool
  de_created_by :: "uuid option"
  de_recorded_at :: msec

record agent_token = row +
  ak_resource_id :: uuid
  ak_label :: string
  ak_is_enabled :: bool
  ak_last_seen_at :: "msec option"
  ak_created_at :: msec

section \<open>The state\<close>

record monitoring = helpdesk +
  monitors :: "monitor list"
  monitor_checks :: "monitor_check list"
  alert_rules :: "alert_rule list"
  alerts :: "alert list"
  escalation_policies :: "escalation_policy list"
  on_call_schedules :: "on_call_schedule list"
  notification_templates :: "notification_template list"
  downtime_events :: "downtime_event list"
  agent_tokens :: "agent_token list"

definition monitoring_frame :: "query_runner \<Rightarrow> 's monitoring_scheme \<Rightarrow> 's monitoring_scheme \<Rightarrow> bool" where
  "monitoring_frame qr s t \<longleftrightarrow>
     helpdesk_frame qr (helpdesk.truncate s) (helpdesk.truncate t) \<and>
     others qr (monitors t) = others qr (monitors s) \<and>
     others qr (monitor_checks t) = others qr (monitor_checks s) \<and>
     others qr (alert_rules t) = others qr (alert_rules s) \<and>
     others qr (alerts t) = others qr (alerts s) \<and>
     others qr (escalation_policies t) = others qr (escalation_policies s) \<and>
     others qr (on_call_schedules t) = others qr (on_call_schedules s) \<and>
     others qr (notification_templates t) = others qr (notification_templates s) \<and>
     others qr (downtime_events t) = others qr (downtime_events s) \<and>
     others qr (agent_tokens t) = others qr (agent_tokens s) \<and>
     monitoring.more t = monitoring.more s"

interpretation monitoring_frame: frame "monitoring_frame qr" for qr
  by unfold_locales (auto simp: monitoring_frame_def intro: helpdesk_frame.frame_refl helpdesk_frame.frame_trans)

lemma helpdesk_monitoring_frame:
  fixes s t :: "'s monitoring_scheme"
  assumes "helpdesk_frame qr s t"
  shows "monitoring_frame qr s t"
proof -
  have m: "helpdesk.more t = helpdesk.more s" using assms by (simp add: helpdesk_frame_def)
  have "monitors t = monitors s" "monitor_checks t = monitor_checks s" "alert_rules t = alert_rules s" "alerts t = alerts s"
    "escalation_policies t = escalation_policies s" "on_call_schedules t = on_call_schedules s"
    "notification_templates t = notification_templates s" "downtime_events t = downtime_events s" "agent_tokens t = agent_tokens s"
    "monitoring.more t = monitoring.more s"
    using m by (cases s; cases t; simp)+
  moreover have "helpdesk_frame qr (helpdesk.truncate s) (helpdesk.truncate t)"
    using assms by (simp add: helpdesk_frame_defs helpdesk.truncate_def helpdesk.make_def)
  ultimately show ?thesis by (simp add: monitoring_frame_def)
qed

lemmas ticketing_monitoring_frame = helpdesk_monitoring_frame [OF ticketing_helpdesk_frame]

lemmas monitoring_frame_defs = monitoring_frame_def helpdesk_frame_defs helpdesk.truncate_def helpdesk.make_def

interpretation monitors_tbl: tenant_table monitors monitors_update monitoring_frame
  by unfold_locales (simp_all add: monitoring_frame_defs)
interpretation monitor_checks_tbl: tenant_table monitor_checks monitor_checks_update monitoring_frame
  by unfold_locales (simp_all add: monitoring_frame_defs)
interpretation alert_rules_tbl: tenant_table alert_rules alert_rules_update monitoring_frame
  by unfold_locales (simp_all add: monitoring_frame_defs)
interpretation alerts_tbl: tenant_table alerts alerts_update monitoring_frame
  by unfold_locales (simp_all add: monitoring_frame_defs)
interpretation escalation_policies_tbl: tenant_table escalation_policies escalation_policies_update monitoring_frame
  by unfold_locales (simp_all add: monitoring_frame_defs)
interpretation on_call_schedules_tbl: tenant_table on_call_schedules on_call_schedules_update monitoring_frame
  by unfold_locales (simp_all add: monitoring_frame_defs)
interpretation notification_templates_tbl: tenant_table notification_templates notification_templates_update monitoring_frame
  by unfold_locales (simp_all add: monitoring_frame_defs)
interpretation downtime_events_tbl: tenant_table downtime_events downtime_events_update monitoring_frame
  by unfold_locales (simp_all add: monitoring_frame_defs)
interpretation agent_tokens_tbl: tenant_table agent_tokens agent_tokens_update monitoring_frame
  by unfold_locales (simp_all add: monitoring_frame_defs)

lemma gen_random_uuid_monitoring_frame [frame_intros]: "tx_rel (monitoring_frame qr) gen_random_uuid"
  by (rule tx_rel_mono [OF gen_random_uuid_helpdesk_frame helpdesk_monitoring_frame])

lemma sql_now_monitoring_frame [frame_intros]: "tx_rel (monitoring_frame qr) sql_now"
  unfolding sql_now_def by (rule frame_intros)

lemma fk_check_monitoring_frame [frame_intros]: "tx_rel (monitoring_frame qr) (fk_check tbl i)"
  unfolding fk_check_def by (intro frame_intros)

text \<open>
  What the ticketing and notification services do leaves the tables of the monitoring module as they are.
\<close>

lemma helpdesk_more_tables:
  fixes s t :: "'s monitoring_scheme"
  assumes "helpdesk.more t = helpdesk.more s"
  shows "monitors t = monitors s" "monitor_checks t = monitor_checks s" "alert_rules t = alert_rules s" "alerts t = alerts s"
    "escalation_policies t = escalation_policies s" "notification_templates t = notification_templates s" "agent_tokens t = agent_tokens s"
  using assms by (cases s; cases t; simp)+

end
