(* ===== verification/Alert_Rules.thy ===== *)
theory Alert_Rules
  imports Monitoring_Schema
begin

text \<open>
  Metric rules (\<open>metric-alert-rule.ts\<close>), the sentences made of a check (\<open>reason-text.ts\<close>), the services
  of alert rules and alerts (\<open>alert-rules.service.ts\<close>, \<open>alerts.service.ts\<close>), and the checks that are
  computed without the network (\<open>checks/agent-report-check.ts\<close>, \<open>checks/agent-staleness-check.ts\<close>,
  \<open>checks/cloud-metric-check.ts\<close>). The lemmas: the test for anomalies against its square form, the state
  machine of an alert, and that a stored metric rule always has the fields its kind needs.
  How Postgres reads a text as \<open>double precision\<close> is the parameter \<open>pg_float\<close>.
\<close>

section \<open>Metrics\<close>

definition METRICS :: "string list" where
  "METRICS = [''response_time_ms'', ''cpu_percent'', ''mem_percent'', ''disk_percent'', ''cloud_metric_value'']"

text \<open>\<open>(mc.raw_output->>'k')::double precision\<close>.\<close>

definition raw_number :: "(string \<Rightarrow> rat option) \<Rightarrow> string \<Rightarrow> monitor_check \<Rightarrow> error + rat option" where
  "raw_number pg_float k mc = (case js_prop (mc_raw_output mc) k of
      None \<Rightarrow> Inr None
    | Some JNull \<Rightarrow> Inr None
    | Some (JNum q) \<Rightarrow> Inr (Some q)
    | Some (JStr s) \<Rightarrow> (case pg_float s of None \<Rightarrow> Inl invalid_text_representation | Some q \<Rightarrow> Inr (Some q))
    | Some _ \<Rightarrow> Inl invalid_text_representation)"

text \<open>The expression of a metric; \<open>None\<close> when the metric is not on the list.\<close>

definition metricValueSql :: "(string \<Rightarrow> rat option) \<Rightarrow> string \<Rightarrow> (monitor_check \<Rightarrow> error + rat option) option" where
  "metricValueSql pg_float metric =
     (if metric = ''response_time_ms'' then Some (\<lambda>mc. Inr (map_option of_int (mc_response_time_ms mc)))
      else if metric = ''cpu_percent'' then Some (raw_number pg_float ''cpuPercent'')
      else if metric = ''mem_percent'' then Some (raw_number pg_float ''memPercent'')
      else if metric = ''disk_percent'' then Some (raw_number pg_float ''diskPercent'')
      else if metric = ''cloud_metric_value'' then Some (raw_number pg_float ''value'')
      else None)"

definition compare_metric :: "rat \<Rightarrow> MetricComparator \<Rightarrow> rat \<Rightarrow> bool" where
  "compare_metric value comparator threshold = (case comparator of
      Gt \<Rightarrow> value > threshold | Gte \<Rightarrow> value \<ge> threshold | Lt \<Rightarrow> value < threshold | Lte \<Rightarrow> value \<le> threshold)"

text \<open>The result of the test; \<open>None\<close> is the infinite score.\<close>

record AnomalyResult =
  an_isAnomaly :: bool
  an_mean :: rat
  an_stddev :: real
  an_zScore :: "real option"

definition MIN_BASELINE_SAMPLES :: nat where
  "MIN_BASELINE_SAMPLES = 5"

definition mean_of :: "rat list \<Rightarrow> rat" where
  "mean_of xs = sum_list xs / of_nat (length xs)"

definition variance_of :: "rat list \<Rightarrow> rat" where
  "variance_of xs = sum_list (map (\<lambda>v. (v - mean_of xs)\<^sup>2) xs) / of_nat (length xs)"

definition detectMetricAnomaly :: "rat list \<Rightarrow> rat \<Rightarrow> rat \<Rightarrow> AnomalyResult" where
  "detectMetricAnomaly baseline latest sensitivity =
     (if length baseline < MIN_BASELINE_SAMPLES
      then \<lparr>an_isAnomaly = False, an_mean = 0, an_stddev = 0, an_zScore = Some 0\<rparr>
      else let mean = mean_of baseline; stddev = sqrt (of_rat (variance_of baseline)) in
        if stddev = 0
        then \<lparr>an_isAnomaly = (latest \<noteq> mean), an_mean = mean, an_stddev = stddev, an_zScore = (if latest = mean then Some 0 else None)\<rparr>
        else let zScore = of_rat (latest - mean) / stddev in
          \<lparr>an_isAnomaly = (\<bar>zScore\<bar> \<ge> of_rat sensitivity), an_mean = mean, an_stddev = stddev, an_zScore = Some zScore\<rparr>)"

section \<open>Sentences\<close>

definition string_prop :: "json \<Rightarrow> string \<Rightarrow> string \<Rightarrow> bool" where
  "string_prop j k v \<longleftrightarrow> js_prop j k = Some (JStr v)"

definition ends_with :: "string \<Rightarrow> string \<Rightarrow> bool" where
  "ends_with s suffix \<longleftrightarrow> js_starts_with (rev s) (rev suffix)"

text \<open>\<open>s.replace(p, '')\<close> with a string pattern: the first occurrence only.\<close>

fun remove_first :: "string \<Rightarrow> string \<Rightarrow> string" where
  "remove_first p [] = []"
| "remove_first p (c # cs) = (if js_starts_with (c # cs) p then drop (length p) (c # cs) else c # remove_first p cs)"

definition unit_text :: "js_format \<Rightarrow> json \<Rightarrow> string" where
  "unit_text F raw = (if string_prop raw ''unit'' ''Percent'' then ''%'' else '' '' @ js_interp F (js_prop raw ''unit''))"

text \<open>\<open>${Math.floor(Number(v))}\<close>.\<close>

definition floor_text :: "js_format \<Rightarrow> json option \<Rightarrow> string" where
  "floor_text F v = (case Option.bind v (js_number F) of None \<Rightarrow> ''NaN'' | Some q \<Rightarrow> int_text \<lfloor>q\<rfloor>)"

definition down_text :: "js_format \<Rightarrow> string \<Rightarrow> json \<Rightarrow> string" where
  "down_text F name raw =
     (if js_truthy (js_prop raw ''error'') then name @ '' is unreachable: '' @ js_interp F (js_prop raw ''error'') else name @ '' is down.'')"

definition reason_suffix :: "json \<Rightarrow> string \<Rightarrow> string option" where
  "reason_suffix raw suffix = (case js_prop raw ''reason'' of
      Some (JStr r) \<Rightarrow> if ends_with r suffix then Some (remove_first suffix r) else None
    | _ \<Rightarrow> None)"

definition critical_text :: "js_format \<Rightarrow> string \<Rightarrow> json \<Rightarrow> string" where
  "critical_text F name raw =
     (if string_prop raw ''reason'' ''expired'' then name @ '''s certificate expired on '' @ js_interp F (js_prop raw ''expiresAt'') @ ''.''
      else if string_prop raw ''reason'' ''value_mismatch''
        then name @ '' resolved to an unexpected value (expected to contain \"'' @ js_interp F (js_prop raw ''expectedValue'') @ ''\").''
      else if string_prop raw ''reason'' ''body_mismatch'' then name @ '' responded but its body did not contain the expected text.''
      else if js_prop raw ''httpStatus'' \<noteq> None
        then name @ '' responded with HTTP '' @ js_interp F (js_prop raw ''httpStatus'') @ '' (expected '' @ js_interp F (js_prop raw ''expectedStatus'') @ '').''
      else if string_prop raw ''reason'' ''metric_critical''
        then name @ '''s '' @ js_interp F (js_prop raw ''metricName'') @ '' is at a critical level ('' @ js_interp F (js_prop raw ''value'') @ unit_text F raw @ '').''
      else (case reason_suffix raw ''_critical'' of
          Some metric \<Rightarrow> name @ '''s '' @ metric @ '' usage is at a critical level ('' @ js_interp F (js_prop raw (metric @ ''Percent'')) @ ''%).''
        | None \<Rightarrow> name @ '' is reachable but reporting a critical condition.''))"

definition trouble_text :: "js_format \<Rightarrow> string \<Rightarrow> json \<Rightarrow> string" where
  "trouble_text F name raw =
     (if string_prop raw ''reason'' ''expiring_soon''
        then name @ '''s certificate expires in '' @ floor_text F (js_prop raw ''daysRemaining'') @ '' day(s).''
      else if string_prop raw ''reason'' ''slow_response'' then name @ '' is responding, but slower than expected.''
      else if string_prop raw ''reason'' ''metric_high''
        then name @ '''s '' @ js_interp F (js_prop raw ''metricName'') @ '' is elevated ('' @ js_interp F (js_prop raw ''value'') @ unit_text F raw @ '').''
      else (case reason_suffix raw ''_high'' of
          Some metric \<Rightarrow> name @ '''s '' @ metric @ '' usage is elevated ('' @ js_interp F (js_prop raw (metric @ ''Percent'')) @ ''%).''
        | None \<Rightarrow> name @ '' is degraded.''))"

definition generateReasonText :: "js_format \<Rightarrow> string \<Rightarrow> CheckStatus \<Rightarrow> json \<Rightarrow> string" where
  "generateReasonText F monitorName status rawOutput = (case status of
      Up \<Rightarrow> monitorName @ '' is up and responding normally.''
    | Down \<Rightarrow> down_text F monitorName rawOutput
    | Critical \<Rightarrow> critical_text F monitorName rawOutput
    | Trouble \<Rightarrow> trouble_text F monitorName rawOutput)"

definition generateRepeatNoteText :: "js_format \<Rightarrow> string \<Rightarrow> CheckStatus \<Rightarrow> json \<Rightarrow> nat \<Rightarrow> string" where
  "generateRepeatNoteText F monitorName status rawOutput repeatCount =
     ''Still failing (check #'' @ nat_text (repeatCount + 1) @ '' since this alert opened). '' @ generateReasonText F monitorName status rawOutput"

section \<open>Checks that need no network\<close>

text \<open>\<open>config.k ?? d\<close> for a threshold of the configuration, and \<open>value >= threshold\<close> on it.\<close>

definition threshold_of :: "js_format \<Rightarrow> json \<Rightarrow> string \<Rightarrow> rat \<Rightarrow> rat option" where
  "threshold_of F config k d = js_number F (js_or_else (js_prop config k) (JNum d))"

definition reaches :: "rat \<Rightarrow> rat option \<Rightarrow> bool" where
  "reaches v t = (case t of None \<Rightarrow> False | Some q \<Rightarrow> v \<ge> q)"

record AgentReport =
  ar_cpuPercent :: "rat option"
  ar_memPercent :: "rat option"
  ar_diskPercent :: "rat option"

definition report_metrics :: "AgentReport \<Rightarrow> (string \<times> rat) list" where
  "report_metrics r = concat (map (\<lambda>(n, v). case v of None \<Rightarrow> [] | Some q \<Rightarrow> [(n, q)])
     [(''cpu'', ar_cpuPercent r), (''mem'', ar_memPercent r), (''disk'', ar_diskPercent r)])"

definition DEFAULT_WARN :: "string \<Rightarrow> rat" where
  "DEFAULT_WARN n = (if n = ''cpu'' then 80 else 85)"

definition DEFAULT_CRITICAL :: "string \<Rightarrow> rat" where
  "DEFAULT_CRITICAL n = 95"

definition evaluateAgentReport :: "js_format \<Rightarrow> json \<Rightarrow> AgentReport \<Rightarrow> CheckResult" where
  "evaluateAgentReport F config report =
     (let metrics = report_metrics report;
          raw = map (\<lambda>(n, v). (n @ ''Percent'', JNum v)) metrics in
      case first_of (filter (\<lambda>(n, v). reaches v (threshold_of F config (n @ ''CriticalPercent'') (DEFAULT_CRITICAL n))) metrics) of
        Some (n, _) \<Rightarrow> \<lparr>cr_status = Critical, cr_responseTimeMs = None, cr_rawOutput = JObj (raw @ [(''reason'', JStr (n @ ''_critical''))])\<rparr>
      | None \<Rightarrow> (case first_of (filter (\<lambda>(n, v). reaches v (threshold_of F config (n @ ''WarnPercent'') (DEFAULT_WARN n))) metrics) of
          Some (n, _) \<Rightarrow> \<lparr>cr_status = Trouble, cr_responseTimeMs = None, cr_rawOutput = JObj (raw @ [(''reason'', JStr (n @ ''_high''))])\<rparr>
        | None \<Rightarrow> \<lparr>cr_status = Up, cr_responseTimeMs = None, cr_rawOutput = JObj raw\<rparr>))"

definition checkAgentStaleness :: "msec \<Rightarrow> msec option \<Rightarrow> int \<Rightarrow> CheckResult" where
  "checkAgentStaleness now lastSeenAt thresholdSeconds = (case lastSeenAt of
      None \<Rightarrow> \<lparr>cr_status = Down, cr_responseTimeMs = None,
        cr_rawOutput = JObj [(''error'', JStr ''no report or heartbeat has ever been received from this agent'')]\<rparr>
    | Some seen \<Rightarrow>
        if now - seen > thresholdSeconds * 1000
        then \<lparr>cr_status = Down, cr_responseTimeMs = None,
          cr_rawOutput = JObj [(''error'', JStr (''agent has not reported in '' @ int_text ((now - seen) div 1000) @ ''s (threshold '' @
            int_text thresholdSeconds @ ''s)'')), (''lastSeenAt'', JDate seen)]\<rparr>
        else \<lparr>cr_status = Up, cr_responseTimeMs = None, cr_rawOutput = JObj [(''lastSeenAt'', JDate seen)]\<rparr>)"

record CloudMetricSample =
  sm_metricName :: string
  sm_value :: rat
  sm_unit :: string

definition evaluateCloudMetrics :: "js_format \<Rightarrow> json \<Rightarrow> CloudMetricSample list \<Rightarrow> CheckResult" where
  "evaluateCloudMetrics F config samples = (case samples of
      [] \<Rightarrow> \<lparr>cr_status = Down, cr_responseTimeMs = None,
        cr_rawOutput = JObj [(''error'', JStr ''no metric data returned by the provider for this resource'')]\<rparr>
    | primary # _ \<Rightarrow>
        let raw = [(''metricName'', JStr (sm_metricName primary)), (''value'', JNum (sm_value primary)), (''unit'', JStr (sm_unit primary))] in
        if reaches (sm_value primary) (threshold_of F config ''criticalPercent'' 95)
        then \<lparr>cr_status = Critical, cr_responseTimeMs = None, cr_rawOutput = JObj (raw @ [(''reason'', JStr ''metric_critical'')])\<rparr>
        else if reaches (sm_value primary) (threshold_of F config ''warnPercent'' 80)
        then \<lparr>cr_status = Trouble, cr_responseTimeMs = None, cr_rawOutput = JObj (raw @ [(''reason'', JStr ''metric_high'')])\<rparr>
        else \<lparr>cr_status = Up, cr_responseTimeMs = None, cr_rawOutput = JObj raw\<rparr>)"

section \<open>Alert rules\<close>

record CreateAlertRule =
  ka_monitorId :: uuid
  ka_statusIn :: "string list option option"
  ka_severity :: "alert_severity option"
  ka_isEnabled :: "bool option"
  ka_escalationPolicyId :: "uuid option"
  ka_ruleKind :: "AlertRuleKind option"
  ka_metric :: "string option"
  ka_comparator :: "MetricComparator option"
  ka_threshold :: "rat option"
  ka_forConsecutive :: "nat option"
  ka_anomalySensitivity :: "rat option"

record UpdateAlertRule =
  ku_statusIn :: "string list option option"
  ku_severity :: "alert_severity option option"
  ku_isEnabled :: "bool option option"
  ku_escalationPolicyId :: "uuid option option"
  ku_ruleKind :: "AlertRuleKind option option"
  ku_metric :: "string option option"
  ku_comparator :: "MetricComparator option option"
  ku_threshold :: "rat option option"
  ku_forConsecutive :: "nat option option"
  ku_anomalySensitivity :: "rat option option"

definition assertRuleKindFieldsPresent ::
  "AlertRuleKind \<Rightarrow> string option \<Rightarrow> MetricComparator option \<Rightarrow> rat option \<Rightarrow> rat option \<Rightarrow> ('s, unit) tx" where
  "assertRuleKindFieldsPresent ruleKind metric comparator threshold sensitivity =
     (if ruleKind = Rk_Threshold \<and> (metric = None \<or> metric = Some [] \<or> comparator = None \<or> threshold = None)
      then tx_throw (BadRequest ''A threshold rule requires metric, comparator, and threshold'')
      else if ruleKind = Rk_Anomaly \<and> (metric = None \<or> metric = Some [] \<or> sensitivity = None)
      then tx_throw (BadRequest ''An anomaly rule requires metric and anomalySensitivity'')
      else tx_return ())"

definition alertRules_list :: "uuid \<Rightarrow> ('s monitoring_scheme, alert_rule list) act" where
  "alertRules_list tenantId = withTenantContext tenantId (\<lambda>qr.
     tx_bind (sql_select alert_rules qr (\<lambda>_. True)) (\<lambda>rows. tx_return (order_by al_created_at rows)))"

text \<open>The unique key on the monitor, and the foreign key of the escalation policy.\<close>

definition rule_keys :: "uuid \<Rightarrow> uuid option \<Rightarrow> ('s monitoring_scheme, unit) tx" where
  "rule_keys monitorId policyId =
     tx_bind (tx_gets (\<lambda>s. monitorId \<in> al_monitor_id ` set (alert_rules s))) (\<lambda>dup.
     if dup then tx_throw unique_violation
     else (case policyId of None \<Rightarrow> tx_return () | Some p \<Rightarrow> fk_check escalation_policies p))"

definition alertRules_create :: "js_format \<Rightarrow> uuid \<Rightarrow> CreateAlertRule \<Rightarrow> ('s monitoring_scheme, alert_rule) act" where
  "alertRules_create F tenantId dto = withTenantContext tenantId (\<lambda>qr.
     tx_bind (find_row ''Monitor'' monitors qr (ka_monitorId dto)) (\<lambda>_.
     let ruleKind = (case ka_ruleKind dto of None \<Rightarrow> Rk_Status | Some k \<Rightarrow> k) in
     tx_bind (assertRuleKindFieldsPresent ruleKind (ka_metric dto) (ka_comparator dto) (ka_threshold dto) (ka_anomalySensitivity dto)) (\<lambda>_.
     tx_translate unique_violation (BadRequest (''Monitor '' @ fmt_uuid F (ka_monitorId dto) @ '' already has an alert rule''))
       (tx_bind (rule_keys (ka_monitorId dto) (ka_escalationPolicyId dto)) (\<lambda>_.
        tx_bind gen_random_uuid (\<lambda>i. tx_bind sql_now (\<lambda>now.
        sql_insert alert_rules_update qr \<lparr>row_id = i, tenant_id = tenantId, al_monitor_id = ka_monitorId dto,
          al_statusIn = (case ka_statusIn dto of None \<Rightarrow> Some [''down'', ''critical''] | Some v \<Rightarrow> v),
          al_severity = (case ka_severity dto of None \<Rightarrow> Sev_Critical | Some v \<Rightarrow> v),
          al_is_enabled = (case ka_isEnabled dto of None \<Rightarrow> True | Some b \<Rightarrow> b),
          al_escalation_policy_id = ka_escalationPolicyId dto, al_rule_kind = ruleKind, al_metric = ka_metric dto,
          al_comparator = ka_comparator dto, al_threshold = ka_threshold dto,
          al_for_consecutive = (case ka_forConsecutive dto of None \<Rightarrow> 1 | Some n \<Rightarrow> n),
          al_anomaly_sensitivity = ka_anomalySensitivity dto, al_created_at = now, al_updated_at = now\<rparr>)))))))"

text \<open>\<open>dto.f !== undefined ? dto.f : existing.f\<close>.\<close>

definition merged_field :: "'a option option \<Rightarrow> 'a option \<Rightarrow> 'a option" where
  "merged_field v old = (case v of None \<Rightarrow> old | Some w \<Rightarrow> w)"

text \<open>\<open>dto.f ?? existing.f\<close>.\<close>

definition required_field :: "'a option option \<Rightarrow> 'a \<Rightarrow> 'a" where
  "required_field v old = (case v of Some (Some w) \<Rightarrow> w | _ \<Rightarrow> old)"

definition rule_assignments :: "UpdateAlertRule \<Rightarrow> alert_rule assignments" where
  "rule_assignments dto =
     set_nullable (ku_statusIn dto) (\<lambda>v r. r\<lparr>al_statusIn := v\<rparr>) @
     set_required (ku_severity dto) (\<lambda>v r. r\<lparr>al_severity := v\<rparr>) @
     set_required (ku_isEnabled dto) (\<lambda>v r. r\<lparr>al_is_enabled := v\<rparr>) @
     set_nullable (ku_escalationPolicyId dto) (\<lambda>v r. r\<lparr>al_escalation_policy_id := v\<rparr>) @
     set_required (ku_ruleKind dto) (\<lambda>v r. r\<lparr>al_rule_kind := v\<rparr>) @
     set_nullable (ku_metric dto) (\<lambda>v r. r\<lparr>al_metric := v\<rparr>) @
     set_nullable (ku_comparator dto) (\<lambda>v r. r\<lparr>al_comparator := v\<rparr>) @
     set_nullable (ku_threshold dto) (\<lambda>v r. r\<lparr>al_threshold := v\<rparr>) @
     set_required (ku_forConsecutive dto) (\<lambda>v r. r\<lparr>al_for_consecutive := v\<rparr>) @
     set_nullable (ku_anomalySensitivity dto) (\<lambda>v r. r\<lparr>al_anomaly_sensitivity := v\<rparr>)"

definition alertRules_update :: "uuid \<Rightarrow> uuid \<Rightarrow> UpdateAlertRule \<Rightarrow> ('s monitoring_scheme, alert_rule) act" where
  "alertRules_update tenantId i dto = withTenantContext tenantId (\<lambda>qr.
     tx_bind (find_row ''Alert rule'' alert_rules qr i) (\<lambda>existing.
     tx_bind (assertRuleKindFieldsPresent
       (required_field (ku_ruleKind dto) (al_rule_kind existing))
       (merged_field (ku_metric dto) (al_metric existing)) (merged_field (ku_comparator dto) (al_comparator existing))
       (merged_field (ku_threshold dto) (al_threshold existing)) (merged_field (ku_anomalySensitivity dto) (al_anomaly_sensitivity existing))) (\<lambda>_.
     tx_bind (case ku_escalationPolicyId dto of Some (Some p) \<Rightarrow> fk_check escalation_policies p | _ \<Rightarrow> tx_return ()) (\<lambda>_.
     tx_bind sql_now (\<lambda>now.
     patch_row ''Alert rule'' alert_rules alert_rules_update qr i (rule_assignments dto) [Some (\<lambda>r. r\<lparr>al_updated_at := now\<rparr>)])))))"

definition alertRules_remove :: "uuid \<Rightarrow> uuid \<Rightarrow> ('s monitoring_scheme, unit) act" where
  "alertRules_remove tenantId i = withTenantContext tenantId (\<lambda>qr.
     remove_referenced ''Alert rule'' alert_rules alert_rules_update qr i
       (on_delete_set_null alerts_update at_alert_rule_id (\<lambda>a. a\<lparr>at_alert_rule_id := None\<rparr>) i))"

section \<open>Alerts\<close>

definition alert_status_text :: "alert_status \<Rightarrow> string" where
  "alert_status_text st = (case st of Alert_Open \<Rightarrow> ''open'' | Alert_Acknowledged \<Rightarrow> ''acknowledged'' | Alert_Resolved \<Rightarrow> ''resolved'')"

definition ALERT_STATUSES :: "string list" where
  "ALERT_STATUSES = [''open'', ''acknowledged'', ''resolved'']"

definition alerts_list :: "uuid \<Rightarrow> string option \<Rightarrow> ('s monitoring_scheme, alert list) act" where
  "alerts_list tenantId status =
     (case status of
        Some (c # cs) \<Rightarrow>
          if c # cs \<notin> set ALERT_STATUSES then act_throw (BadRequest (''status must be one of '' @ js_join '', '' ALERT_STATUSES))
          else withTenantContext tenantId (\<lambda>qr.
            tx_bind (sql_select alerts qr (\<lambda>a. alert_status_text (at_status a) = c # cs)) (\<lambda>rows. tx_return (order_by (\<lambda>a. - at_opened_at a) rows)))
      | _ \<Rightarrow> withTenantContext tenantId (\<lambda>qr.
            tx_bind (sql_select alerts qr (\<lambda>_. True)) (\<lambda>rows. tx_return (order_by (\<lambda>a. - at_opened_at a) rows))))"

definition alerts_get :: "uuid \<Rightarrow> uuid \<Rightarrow> ('s monitoring_scheme, alert) act" where
  "alerts_get tenantId i = withTenantContext tenantId (\<lambda>qr. find_row ''Alert'' alerts qr i)"

definition alert_transition ::
  "js_format \<Rightarrow> uuid \<Rightarrow> uuid \<Rightarrow> alert_status \<Rightarrow> (msec \<Rightarrow> alert \<Rightarrow> alert) \<Rightarrow> alert_status list \<Rightarrow> ('s monitoring_scheme, alert) act" where
  "alert_transition F tenantId i status set_column allowedFrom = withTenantContext tenantId (\<lambda>qr.
     tx_bind (find_row ''Alert'' alerts qr i) (\<lambda>alert.
     if at_status alert \<notin> set allowedFrom
     then tx_throw (BadRequest (''Alert '' @ fmt_uuid F i @ '' cannot move to '' @ [CHR 0x27] @ alert_status_text status @ [CHR 0x27] @ '' from '' @
            [CHR 0x27] @ alert_status_text (at_status alert) @ [CHR 0x27]))
     else tx_bind sql_now (\<lambda>now.
       tx_bind (sql_update alerts alerts_update qr (by_id i) (\<lambda>a. set_column now (a\<lparr>at_status := status\<rparr>))) (first_row ''Alert'' i))))"

definition alerts_acknowledge :: "js_format \<Rightarrow> uuid \<Rightarrow> uuid \<Rightarrow> ('s monitoring_scheme, alert) act" where
  "alerts_acknowledge F tenantId i = alert_transition F tenantId i Alert_Acknowledged (\<lambda>now a. a\<lparr>at_acknowledged_at := Some now\<rparr>) [Alert_Open]"

definition alerts_resolve :: "js_format \<Rightarrow> uuid \<Rightarrow> uuid \<Rightarrow> ('s monitoring_scheme, alert) act" where
  "alerts_resolve F tenantId i = alert_transition F tenantId i Alert_Resolved (\<lambda>now a. a\<lparr>at_resolved_at := Some now\<rparr>) [Alert_Open, Alert_Acknowledged]"

definition alerts_linkTicket :: "js_format \<Rightarrow> uuid \<Rightarrow> uuid \<Rightarrow> uuid \<Rightarrow> ('s monitoring_scheme, alert) act" where
  "alerts_linkTicket F tenantId i ticketId = withTenantContext tenantId (\<lambda>qr.
     tx_bind (find_row ''Alert'' alerts qr i) (\<lambda>alert. case at_linked_ticket alert of
       Some k \<Rightarrow> tx_throw (BadRequest (''Alert '' @ fmt_uuid F i @ '' is already linked to ticket '' @ fmt_uuid F k))
     | None \<Rightarrow> tx_bind (find_row ''Ticket'' tickets qr ticketId) (\<lambda>_.
         tx_bind (sql_update alerts alerts_update qr (by_id i) (\<lambda>a. a\<lparr>at_linked_ticket := Some ticketId\<rparr>)) (first_row ''Alert'' i))))"

section \<open>The test for anomalies\<close>

lemma variance_nonneg: "0 \<le> variance_of xs"
proof -
  have "0 \<le> sum_list (map (\<lambda>v. (v - mean_of xs)\<^sup>2) xs)" by (rule sum_list_nonneg) auto
  then show ?thesis by (simp add: variance_of_def)
qed

lemma deviation_squares:
  fixes d s v :: rat
  assumes "0 < v"
  shows "real_of_rat s \<le> \<bar>real_of_rat d / sqrt (real_of_rat v)\<bar> \<longleftrightarrow> s \<le> 0 \<or> s\<^sup>2 * v \<le> d\<^sup>2"
proof (cases "s \<le> 0")
  case True
  then have "real_of_rat s \<le> 0" by simp
  then have "real_of_rat s \<le> \<bar>real_of_rat d / sqrt (real_of_rat v)\<bar>" by (rule order_trans) simp
  with True show ?thesis by simp
next
  case False
  have pos: "0 < sqrt (real_of_rat v)" using assms by simp
  have "real_of_rat s \<le> \<bar>real_of_rat d / sqrt (real_of_rat v)\<bar> \<longleftrightarrow> real_of_rat s * sqrt (real_of_rat v) \<le> \<bar>real_of_rat d\<bar>"
    using pos by (simp add: abs_divide pos_le_divide_eq)
  also have "\<dots> \<longleftrightarrow> (real_of_rat s * sqrt (real_of_rat v))\<^sup>2 \<le> (real_of_rat d)\<^sup>2"
    using False pos by (simp add: abs_le_square_iff [symmetric] abs_mult)
  also have "(real_of_rat s * sqrt (real_of_rat v))\<^sup>2 = real_of_rat (s\<^sup>2 * v)"
    using assms by (simp add: power_mult_distrib of_rat_mult of_rat_power)
  also have "real_of_rat (s\<^sup>2 * v) \<le> (real_of_rat d)\<^sup>2 \<longleftrightarrow> s\<^sup>2 * v \<le> d\<^sup>2"
    by (simp only: of_rat_power [symmetric] of_rat_less_eq)
  finally show ?thesis using False by simp
qed

text \<open>
  The anomaly test of a metric rule is the test without square roots: with at least five samples in
  the baseline, a value is anomalous when it differs from the mean of a baseline that does not vary, and
  otherwise when the square of its distance from the mean is at least the variance times the square of
  the sensitivity (always, for a sensitivity that is not positive). With fewer samples nothing is anomalous.
\<close>

theorem detectMetricAnomaly_squares:
  "an_isAnomaly (detectMetricAnomaly baseline latest sensitivity) \<longleftrightarrow> 5 \<le> length baseline \<and>
     (if variance_of baseline = 0 then latest \<noteq> mean_of baseline
      else sensitivity \<le> 0 \<or> sensitivity\<^sup>2 * variance_of baseline \<le> (latest - mean_of baseline)\<^sup>2)"
proof (cases "length baseline < 5")
  case True
  then show ?thesis by (simp add: detectMetricAnomaly_def MIN_BASELINE_SAMPLES_def)
next
  case False
  show ?thesis
  proof (cases "variance_of baseline = 0")
    case True
    with False show ?thesis by (simp add: detectMetricAnomaly_def MIN_BASELINE_SAMPLES_def Let_def)
  next
    case nz: False
    then have "0 < variance_of baseline" using variance_nonneg [of baseline] by simp
    from deviation_squares [OF this, of sensitivity "latest - mean_of baseline"] False nz show ?thesis
      by (simp add: detectMetricAnomaly_def MIN_BASELINE_SAMPLES_def Let_def)
  qed
qed

section \<open>Stored rules\<close>

definition rule_ok :: "alert_rule \<Rightarrow> bool" where
  "rule_ok r \<longleftrightarrow>
     (al_rule_kind r = Rk_Threshold \<longrightarrow> al_metric r \<notin> {None, Some []} \<and> al_comparator r \<noteq> None \<and> al_threshold r \<noteq> None) \<and>
     (al_rule_kind r = Rk_Anomaly \<longrightarrow> al_metric r \<notin> {None, Some []} \<and> al_anomaly_sensitivity r \<noteq> None)"

lemma assertRuleKindFieldsPresent_ok:
  "assertRuleKindFieldsPresent k m c th an s = Inr (x, t) \<longleftrightarrow>
     t = s \<and> (k = Rk_Threshold \<longrightarrow> m \<notin> {None, Some []} \<and> c \<noteq> None \<and> th \<noteq> None) \<and> (k = Rk_Anomaly \<longrightarrow> m \<notin> {None, Some []} \<and> an \<noteq> None)"
  by (auto simp: assertRuleKindFieldsPresent_def)

text \<open>The fields of the row after the assignments of an update.\<close>

lemma apply_append: "apply_assignments (xs @ ys) r = apply_assignments ys (apply_assignments xs r)"
  by (simp add: apply_assignments_def)

lemma column_untouched:
  "(\<And>w r. g (f w r) = g r) \<Longrightarrow> g (apply_assignments (set_nullable v f) r) = g r"
  "(\<And>w r. g (h w r) = g r) \<Longrightarrow> g (apply_assignments (set_required u h) r) = g r"
  by (simp_all add: apply_assignments_def set_nullable_def set_required_def split: option.splits)

lemma column_assigned:
  "(\<And>w r. g (f w r) = w) \<Longrightarrow> g (apply_assignments (set_nullable v f) r) = merged_field v (g r)"
  "(\<And>w r. k (h w r) = w) \<Longrightarrow> k (apply_assignments (set_required u h) r) = required_field u (k r)"
  by (auto simp: merged_field_def required_field_def apply_assignments_def set_nullable_def set_required_def split: option.splits)

lemma apply_stamp: "apply_assignments [Some f] r = f r"
  by (simp add: apply_assignments_def)

lemma rule_assignments_fields:
  "al_metric (apply_assignments (rule_assignments dto @ [Some (\<lambda>r. r\<lparr>al_updated_at := now\<rparr>)]) r) = merged_field (ku_metric dto) (al_metric r)"
  "al_comparator (apply_assignments (rule_assignments dto @ [Some (\<lambda>r. r\<lparr>al_updated_at := now\<rparr>)]) r) = merged_field (ku_comparator dto) (al_comparator r)"
  "al_threshold (apply_assignments (rule_assignments dto @ [Some (\<lambda>r. r\<lparr>al_updated_at := now\<rparr>)]) r) = merged_field (ku_threshold dto) (al_threshold r)"
  "al_anomaly_sensitivity (apply_assignments (rule_assignments dto @ [Some (\<lambda>r. r\<lparr>al_updated_at := now\<rparr>)]) r)
     = merged_field (ku_anomalySensitivity dto) (al_anomaly_sensitivity r)"
  "al_rule_kind (apply_assignments (rule_assignments dto @ [Some (\<lambda>r. r\<lparr>al_updated_at := now\<rparr>)]) r)
     = required_field (ku_ruleKind dto) (al_rule_kind r)"
  by (simp_all add: rule_assignments_def apply_append apply_stamp
      column_untouched [where g = al_metric] column_assigned(1) [where g = al_metric]
      column_untouched [where g = al_comparator] column_assigned(1) [where g = al_comparator]
      column_untouched [where g = al_threshold] column_assigned(1) [where g = al_threshold]
      column_untouched [where g = al_anomaly_sensitivity] column_assigned(1) [where g = al_anomaly_sensitivity]
      column_untouched [where g = al_rule_kind] column_assigned(2) [where k = al_rule_kind])

lemma find_row_same: "find_row l tbl qr i s = Inr (r, t) \<Longrightarrow> t = s"
  by (simp add: find_row_eq_Inr)

lemma tx_translate_eq_Inr [simp]: "tx_translate e e' m s = Inr r \<longleftrightarrow> m s = Inr r"
  by (simp add: tx_translate_def split: sum.splits)

lemma alertRules_create_ok:
  assumes "alertRules_create F T dto s = (Inr r, t)"
  shows "alert_rules t = alert_rules s @ [r] \<and> rule_ok r"
proof -
  define k where "k = (case ka_ruleKind dto of None \<Rightarrow> Rk_Status | Some k \<Rightarrow> k)"
  show ?thesis using assms unfolding alertRules_create_def withTenantContext_Inr Let_def k_def [symmetric]
  proof (elim tx_bindE, unfold tx_translate_eq_Inr, elim tx_bindE)
    fix x u x' u1 x2 u2 i u3 now u4
    assume a: "find_row ''Monitor'' monitors T (ka_monitorId dto) s = Inr (x, u)"
      "assertRuleKindFieldsPresent k (ka_metric dto) (ka_comparator dto) (ka_threshold dto) (ka_anomalySensitivity dto) u = Inr (x', u1)"
      "rule_keys (ka_monitorId dto) (ka_escalationPolicyId dto) u1 = Inr (x2, u2)" "gen_random_uuid u2 = Inr (i, u3)" "sql_now u3 = Inr (now, u4)"
    assume ins: "sql_insert alert_rules_update T \<lparr>row_id = i, tenant_id = T, al_monitor_id = ka_monitorId dto,
          al_statusIn = (case ka_statusIn dto of None \<Rightarrow> Some [''down'', ''critical''] | Some v \<Rightarrow> v),
          al_severity = (case ka_severity dto of None \<Rightarrow> Sev_Critical | Some v \<Rightarrow> v),
          al_is_enabled = (case ka_isEnabled dto of None \<Rightarrow> True | Some b \<Rightarrow> b),
          al_escalation_policy_id = ka_escalationPolicyId dto, al_rule_kind = k, al_metric = ka_metric dto,
          al_comparator = ka_comparator dto, al_threshold = ka_threshold dto,
          al_for_consecutive = (case ka_forConsecutive dto of None \<Rightarrow> 1 | Some n \<Rightarrow> n),
          al_anomaly_sensitivity = ka_anomalySensitivity dto, al_created_at = now, al_updated_at = now\<rparr> u4 = Inr (r, t)"
    from a(2) have f: "(k = Rk_Threshold \<longrightarrow> ka_metric dto \<notin> {None, Some []} \<and> ka_comparator dto \<noteq> None \<and> ka_threshold dto \<noteq> None) \<and>
        (k = Rk_Anomaly \<longrightarrow> ka_metric dto \<notin> {None, Some []} \<and> ka_anomalySensitivity dto \<noteq> None)" "u1 = u"
      unfolding assertRuleKindFieldsPresent_ok by blast+
    from a(3) have "alert_rules u2 = alert_rules u1"
      by (auto simp: rule_keys_def fk_check_def split: if_splits option.splits)
    with f(2) a(1,4,5) have "alert_rules u4 = alert_rules s"
      by (auto simp: gen_random_uuid_def sql_now_def dest: find_row_same)
    with ins f(1) show ?thesis by (auto simp: sql_insert_def rule_ok_def split: if_splits)
  qed
qed

lemma alertRules_update_ok:
  assumes "alertRules_update T i dto s = (Inr r, t)" and "list_all rule_ok (alert_rules s)" and "distinct (map row_id (alert_rules s))"
  shows "list_all rule_ok (alert_rules t)"
  using assms(1) unfolding alertRules_update_def withTenantContext_Inr
proof (elim tx_bindE)
  fix r0 u x u1 y u2 now u3
  assume a: "find_row ''Alert rule'' alert_rules T i s = Inr (r0, u)"
    and b: "assertRuleKindFieldsPresent (required_field (ku_ruleKind dto) (al_rule_kind r0)) (merged_field (ku_metric dto) (al_metric r0))
        (merged_field (ku_comparator dto) (al_comparator r0)) (merged_field (ku_threshold dto) (al_threshold r0))
        (merged_field (ku_anomalySensitivity dto) (al_anomaly_sensitivity r0)) u = Inr (x, u1)"
    and c: "(case ku_escalationPolicyId dto of Some (Some p) \<Rightarrow> fk_check escalation_policies p | _ \<Rightarrow> tx_return ()) u1 = Inr (y, u2)"
    and d: "sql_now u2 = Inr (now, u3)"
    and w: "patch_row ''Alert rule'' alert_rules alert_rules_update T i (rule_assignments dto) [Some (\<lambda>r. r\<lparr>al_updated_at := now\<rparr>)] u3 = Inr (r, t)"
  let ?f = "apply_assignments (rule_assignments dto @ [Some (\<lambda>r. r\<lparr>al_updated_at := now\<rparr>)])"
  from a have r0: "first_of (filter (by_id i) (visible T (alert_rules s))) = Some r0" "u = s" by (simp_all add: find_row_eq_Inr)
  note in_s = first_of_filter_SomeD [OF r0(1)]
  from b have "rule_ok (?f r0)" and u1: "u1 = u" unfolding assertRuleKindFieldsPresent_ok rule_ok_def rule_assignments_fields by blast+
  moreover have "x = r0" if "x \<in> set (alert_rules s)" "row_id x = i" for x
    using row_id_inj [OF assms(3), of x r0] that in_s by (simp add: by_id_def)
  moreover from c d r0(2) u1 have u3: "u3 = s" by (auto simp: fk_check_def sql_now_def split: option.splits if_splits)
  ultimately have "rule_ok y" if "y \<in> set (update_rows T (by_id i) ?f (alert_rules s))" for y
    using that assms(2) by (fastforce simp: list_all_iff by_id_def dest!: set_update_rowsD)
  with w assms(2) show ?thesis
    by (auto simp: u3 patch_row_def find_row_eq_Inr sql_patch_def sql_update_def Let_def tx_bind_eq_Inr first_row_def list_all_iff split: if_splits list.splits)
qed

text \<open>
  C40. A stored metric rule is complete: creating a rule or changing any of its fields leaves every stored
  threshold rule with a metric, a comparator and a threshold, and every anomaly rule with a metric and a
  sensitivity, whichever of them the request brings and whichever the row already had.
\<close>

theorem alert_rules_complete:
  assumes "list_all rule_ok (alert_rules s)" and "distinct (map row_id (alert_rules s))"
  shows "list_all rule_ok (alert_rules (snd (alertRules_create F T dto s))) \<and> list_all rule_ok (alert_rules (snd (alertRules_update T i dto' s)))"
proof -
  have "list_all rule_ok (alert_rules u)" if "alertRules_create F T dto s = (res, u)" for res u
  proof (cases res)
    case (Inl e)
    with that have "u = s" by (simp add: alertRules_create_def withTenantContext_Inl)
    with assms(1) show ?thesis by simp
  next
    case (Inr r)
    with that assms(1) alertRules_create_ok [of F T dto s r u] show ?thesis by simp
  qed
  moreover have "list_all rule_ok (alert_rules u)" if "alertRules_update T i dto' s = (res, u)" for res u
  proof (cases res)
    case (Inl e)
    with that have "u = s" by (simp add: alertRules_update_def withTenantContext_Inl)
    with assms(1) show ?thesis by simp
  next
    case (Inr r)
    with that assms alertRules_update_ok [of T i dto' s r u] show ?thesis by simp
  qed
  ultimately show ?thesis by (metis prod.collapse)
qed

text \<open>A tenant with one monitor and a status rule for it.\<close>

definition web_monitor :: monitor where
  "web_monitor = \<lparr>row_id = 50, tenant_id = 1, mo_resource_id = 60, mo_name = ''web'', mo_monitor_type = Mt_Http, mo_config = JObj [],
     mo_interval_seconds = 60, mo_consecutive_failures_to_alert = 1, mo_min_failing_locations = 1, mo_is_enabled = True,
     mo_created_at = 0, mo_updated_at = 0\<rparr>"

definition web_rule :: alert_rule where
  "web_rule = \<lparr>row_id = 51, tenant_id = 1, al_monitor_id = 50, al_statusIn = None, al_severity = Sev_Critical, al_is_enabled = True,
     al_escalation_policy_id = None, al_rule_kind = Rk_Status, al_metric = Some ''latency'', al_comparator = None, al_threshold = None,
     al_for_consecutive = 1, al_anomaly_sensitivity = None, al_created_at = 0, al_updated_at = 0\<rparr>"

definition watched :: monitoring where
  "watched = helpdesk.extend (one_desk\<lparr>resources := [\<lparr>row_id = 60, tenant_id = 1, re_name = ''web'', re_resource_type = Rt_Server, re_group_name = None,
     re_external_ref = JObj [], re_tags = JObj [], re_cloud_credential_id = None, re_created_at = 0, re_updated_at = 0\<rparr>]\<rparr>)
     (monitoring.fields [web_monitor] [] [web_rule] [] [] [] [] [] [])"

lemma watched_simps [simp]:
  "monitors watched = [web_monitor]" "monitor_checks watched = []" "alert_rules watched = [web_rule]" "alerts watched = []"
  "escalation_policies watched = []" "clock watched = 0" "next_uuid watched = 100" "agent_tokens watched = []"
  by (simp_all add: watched_def one_desk_def one_ticket_def printer_ticket_def empty_platform_def platform.defs ticketing.defs helpdesk.defs
      monitoring.defs)

theorem alert_rules_complete_witness:
  "list_all rule_ok (alert_rules (snd (alertRules_update 1 51 \<lparr>ku_statusIn = None, ku_severity = None, ku_isEnabled = None,
      ku_escalationPolicyId = None, ku_ruleKind = Some (Some Rk_Threshold), ku_metric = None, ku_comparator = Some (Some Gt),
      ku_threshold = Some (Some 3), ku_forConsecutive = None, ku_anomalySensitivity = None\<rparr> watched)))"
  using alert_rules_complete [of watched] by (simp add: web_rule_def rule_ok_def)

section \<open>The state machine of an alert\<close>

inductive alert_move :: "alert_status \<Rightarrow> alert_status \<Rightarrow> bool" where
  acknowledge: "alert_move Alert_Open Alert_Acknowledged"
| resolve_open: "alert_move Alert_Open Alert_Resolved"
| resolve_acknowledged: "alert_move Alert_Acknowledged Alert_Resolved"

inductive_cases alert_move_from_resolved: "alert_move Alert_Resolved st"
inductive_simps alert_move_simps: "alert_move st st'"

text \<open>Every alert of the state before is in the state after, moved along the machine.\<close>

definition moved :: "'s monitoring_scheme \<Rightarrow> 's monitoring_scheme \<Rightarrow> bool" where
  "moved s t \<longleftrightarrow> (\<forall>a \<in> set (alerts s). \<exists>b \<in> set (alerts t). row_id b = row_id a \<and> tenant_id b = tenant_id a \<and>
     at_monitor_id b = at_monitor_id a \<and> at_opened_at b = at_opened_at a \<and> at_reason_text b = at_reason_text a \<and>
     alert_move\<^sup>*\<^sup>* (at_status a) (at_status b))"

interpretation moved_frame: frame moved
proof
  show "moved s s" for s :: "'s monitoring_scheme" by (auto simp: moved_def)
next
  fix s t u :: "'s monitoring_scheme"
  assume st: "moved s t" and tu: "moved t u"
  show "moved s u" unfolding moved_def
  proof
    fix a assume "a \<in> set (alerts s)"
    with st obtain b where b: "b \<in> set (alerts t)" "row_id b = row_id a" "tenant_id b = tenant_id a" "at_monitor_id b = at_monitor_id a"
      "at_opened_at b = at_opened_at a" "at_reason_text b = at_reason_text a" "alert_move\<^sup>*\<^sup>* (at_status a) (at_status b)"
      unfolding moved_def by blast
    with tu obtain c where c: "c \<in> set (alerts u)" "row_id c = row_id b" "tenant_id c = tenant_id b" "at_monitor_id c = at_monitor_id b"
      "at_opened_at c = at_opened_at b" "at_reason_text c = at_reason_text b" "alert_move\<^sup>*\<^sup>* (at_status b) (at_status c)"
      unfolding moved_def by blast
    have "alert_move\<^sup>*\<^sup>* (at_status a) (at_status c)" using b(7) c(7) by (rule rtranclp_trans)
    with b c show "\<exists>b \<in> set (alerts u). row_id b = row_id a \<and> tenant_id b = tenant_id a \<and> at_monitor_id b = at_monitor_id a \<and>
      at_opened_at b = at_opened_at a \<and> at_reason_text b = at_reason_text a \<and> alert_move\<^sup>*\<^sup>* (at_status a) (at_status b)" by force
  qed
qed

lemma moved_same: "alerts t = alerts s \<Longrightarrow> moved s t"
  by (auto simp: moved_def)

lemma resolved_final: "alert_move\<^sup>*\<^sup>* Alert_Resolved st \<Longrightarrow> st = Alert_Resolved"
  by (erule converse_rtranclpE) (auto elim: alert_move_from_resolved)

text \<open>What an update of alerts may do to keep the machine: leave the keys, and move the status.\<close>

definition alert_keeps :: "(alert \<Rightarrow> alert) \<Rightarrow> alert \<Rightarrow> bool" where
  "alert_keeps f a \<longleftrightarrow> row_id (f a) = row_id a \<and> tenant_id (f a) = tenant_id a \<and> at_monitor_id (f a) = at_monitor_id a \<and>
     at_opened_at (f a) = at_opened_at a \<and> at_reason_text (f a) = at_reason_text a \<and> alert_move\<^sup>*\<^sup>* (at_status a) (at_status (f a))"

lemma update_moved:
  assumes "alerts t = update_rows qr P f (alerts s)" and "\<And>a. a \<in> set (alerts s) \<Longrightarrow> tenant_id a = qr \<Longrightarrow> P a \<Longrightarrow> alert_keeps f a"
  shows "moved s t"
  unfolding moved_def
proof
  fix a assume a: "a \<in> set (alerts s)"
  let ?b = "if tenant_isolation qr a \<and> P a then f a else a"
  have "?b \<in> set (alerts t)" using a by (auto simp: assms(1) update_rows_def)
  moreover have "alert_keeps f a" if "tenant_isolation qr a \<and> P a"
    using assms(2) [OF a] that by (simp add: tenant_isolation_def)
  ultimately show "\<exists>b \<in> set (alerts t). row_id b = row_id a \<and> tenant_id b = tenant_id a \<and> at_monitor_id b = at_monitor_id a \<and>
      at_opened_at b = at_opened_at a \<and> at_reason_text b = at_reason_text a \<and> alert_move\<^sup>*\<^sup>* (at_status a) (at_status b)"
    by (intro bexI [of _ ?b]) (auto simp: alert_keeps_def)
qed

end
