(* ===== verification/Observability_Schema.thy ===== *)
theory Observability_Schema
  imports Monitoring_Schema
begin

text \<open>
  The tables of the services built on the monitoring module: steps of synthetic runs (\<open>1784470000000\<close>), disk
  forecasts (\<open>1784230000000\<close>), status pages (\<open>1784410000000\<close>), logs (\<open>1784480000000\<close>), traces and real user
  monitoring (\<open>1784490000000\<close>), network devices (\<open>1784500000000\<close>) and cloud credentials (\<open>1784100000000\<close>), as an
  extension of the state of the monitoring module, with the frame of a tenant over all of it. A column that is
  encrypted in the database holds its plain text here; no service returns it.
\<close>

section \<open>Rows\<close>

record synthetic_run_step = row +
  sy_monitor_check_id :: uuid
  sy_step_index :: int
  sy_action :: string
  sy_status :: string
  sy_duration_ms :: int
  sy_error :: "string option"
  sy_created_at :: msec

datatype forecast_status = Df_Open | Df_Dismissed

record disk_forecast = row +
  df_monitor_id :: uuid
  df_resource_id :: "uuid option"
  df_current_pct :: rat
  df_rate_per_day :: rat
  df_days_to_full :: rat
  df_reason_text :: string
  df_status :: forecast_status
  df_created_at :: msec
  df_updated_at :: msec

record status_page = row +
  sp_slug :: string
  sp_title :: string
  sp_description :: "string option"
  sp_is_public :: bool
  sp_created_at :: msec

record status_page_monitor = row +
  sm_status_page_id :: uuid
  sm_monitor_id :: uuid
  sm_display_name :: "string option"
  sm_sort_order :: int

record log_source = row +
  ls_name :: string
  ls_is_active :: bool
  ls_created_at :: msec
  ls_updated_at :: msec

record log_entry = row +
  le_log_source_id :: uuid
  le_ts :: msec
  le_level :: string
  le_message :: string
  le_attributes :: json
  le_created_at :: msec

record log_alert_rule = row +
  lr_log_source_id :: uuid
  lr_name :: string
  lr_match_query :: "string option"
  lr_level_at_least :: string
  lr_window_seconds :: int
  lr_threshold :: int
  lr_escalation_policy_id :: "uuid option"
  lr_is_enabled :: bool
  lr_last_fired_at :: "msec option"
  lr_created_at :: msec
  lr_updated_at :: msec

record apm_ingest_key = row +
  ai_service :: string
  ai_is_active :: bool
  ai_created_at :: msec

record apm_trace = row +
  ax_service :: string
  ax_transaction :: string
  ax_ts :: msec
  ax_duration_ms :: int
  ax_status :: string

record apm_span = row +
  as_trace_id :: uuid
  as_parent_span_id :: "uuid option"
  as_name :: string
  as_kind :: string
  as_duration_ms :: int
  as_attributes :: json

record rum_app_key = row +
  rk_app_name :: string
  rk_is_active :: bool
  rk_created_at :: msec

record rum_event = row +
  ru_rum_app_key_id :: uuid
  ru_ts :: msec
  ru_page :: string
  ru_metric :: string
  ru_value :: rat
  ru_user_agent :: "string option"
  ru_attributes :: json

record network_device = row +
  nd_name :: string
  nd_host :: string
  nd_snmp_version :: string
  nd_community :: string
  nd_port :: int
  nd_is_active :: bool
  nd_last_polled_at :: "msec option"
  nd_created_at :: msec
  nd_updated_at :: msec

record network_interface_sample = row +
  ns_network_device_id :: uuid
  ns_if_index :: int
  ns_if_name :: "string option"
  ns_oper_status :: string
  ns_in_octets :: int
  ns_out_octets :: int
  ns_ts :: msec

record cloud_credential = row +
  cc_provider :: string
  cc_label :: string
  cc_config :: json
  cc_is_enabled :: bool
  cc_last_polled_at :: "msec option"
  cc_created_at :: msec

section \<open>The state\<close>

text \<open>The counters of the ingestion rate limiter are keys of Redis with an optional time of expiry.\<close>

record observability = monitoring +
  synthetic_run_steps :: "synthetic_run_step list"
  disk_forecasts :: "disk_forecast list"
  status_pages :: "status_page list"
  status_page_monitors :: "status_page_monitor list"
  log_sources :: "log_source list"
  log_entries :: "log_entry list"
  log_alert_rules :: "log_alert_rule list"
  apm_ingest_keys :: "apm_ingest_key list"
  apm_traces :: "apm_trace list"
  apm_spans :: "apm_span list"
  rum_app_keys :: "rum_app_key list"
  rum_events :: "rum_event list"
  network_devices :: "network_device list"
  network_interface_samples :: "network_interface_sample list"
  cloud_credentials :: "cloud_credential list"
  ingest_counters :: "string \<Rightarrow> (nat \<times> msec option) option"

definition observability_frame :: "query_runner \<Rightarrow> 's observability_scheme \<Rightarrow> 's observability_scheme \<Rightarrow> bool" where
  "observability_frame qr s t \<longleftrightarrow>
     monitoring_frame qr (monitoring.truncate s) (monitoring.truncate t) \<and>
     others qr (synthetic_run_steps t) = others qr (synthetic_run_steps s) \<and>
     others qr (disk_forecasts t) = others qr (disk_forecasts s) \<and>
     others qr (status_pages t) = others qr (status_pages s) \<and>
     others qr (status_page_monitors t) = others qr (status_page_monitors s) \<and>
     others qr (log_sources t) = others qr (log_sources s) \<and>
     others qr (log_entries t) = others qr (log_entries s) \<and>
     others qr (log_alert_rules t) = others qr (log_alert_rules s) \<and>
     others qr (apm_ingest_keys t) = others qr (apm_ingest_keys s) \<and>
     others qr (apm_traces t) = others qr (apm_traces s) \<and>
     others qr (apm_spans t) = others qr (apm_spans s) \<and>
     others qr (rum_app_keys t) = others qr (rum_app_keys s) \<and>
     others qr (rum_events t) = others qr (rum_events s) \<and>
     others qr (network_devices t) = others qr (network_devices s) \<and>
     others qr (network_interface_samples t) = others qr (network_interface_samples s) \<and>
     others qr (cloud_credentials t) = others qr (cloud_credentials s) \<and>
     observability.more t = observability.more s"

interpretation observability_frame: frame "observability_frame qr" for qr
  by unfold_locales (auto simp: observability_frame_def intro: monitoring_frame.frame_refl monitoring_frame.frame_trans)

lemma monitoring_observability_frame:
  fixes s t :: "'s observability_scheme"
  assumes "monitoring_frame qr s t"
  shows "observability_frame qr s t"
proof -
  have m: "monitoring.more t = monitoring.more s" using assms by (simp add: monitoring_frame_def)
  have "synthetic_run_steps t = synthetic_run_steps s"
    "disk_forecasts t = disk_forecasts s"
    "status_pages t = status_pages s"
    "status_page_monitors t = status_page_monitors s"
    "log_sources t = log_sources s"
    "log_entries t = log_entries s"
    "log_alert_rules t = log_alert_rules s"
    "apm_ingest_keys t = apm_ingest_keys s"
    "apm_traces t = apm_traces s"
    "apm_spans t = apm_spans s"
    "rum_app_keys t = rum_app_keys s"
    "rum_events t = rum_events s"
    "network_devices t = network_devices s"
    "network_interface_samples t = network_interface_samples s"
    "cloud_credentials t = cloud_credentials s"
    "observability.more t = observability.more s"
    using m by (cases s; cases t; simp)+
  moreover have "monitoring_frame qr (monitoring.truncate s) (monitoring.truncate t)"
    using assms by (simp add: monitoring_frame_defs monitoring.truncate_def monitoring.make_def)
  ultimately show ?thesis by (simp add: observability_frame_def)
qed

lemmas helpdesk_observability_frame = monitoring_observability_frame [OF helpdesk_monitoring_frame]
lemmas ticketing_observability_frame = monitoring_observability_frame [OF ticketing_monitoring_frame]

lemmas observability_frame_defs = observability_frame_def monitoring_frame_defs monitoring.truncate_def monitoring.make_def

interpretation synthetic_run_steps_tbl: tenant_table synthetic_run_steps synthetic_run_steps_update observability_frame
  by unfold_locales (simp_all add: observability_frame_defs)
interpretation disk_forecasts_tbl: tenant_table disk_forecasts disk_forecasts_update observability_frame
  by unfold_locales (simp_all add: observability_frame_defs)
interpretation status_pages_tbl: tenant_table status_pages status_pages_update observability_frame
  by unfold_locales (simp_all add: observability_frame_defs)
interpretation status_page_monitors_tbl: tenant_table status_page_monitors status_page_monitors_update observability_frame
  by unfold_locales (simp_all add: observability_frame_defs)
interpretation log_sources_tbl: tenant_table log_sources log_sources_update observability_frame
  by unfold_locales (simp_all add: observability_frame_defs)
interpretation log_entries_tbl: tenant_table log_entries log_entries_update observability_frame
  by unfold_locales (simp_all add: observability_frame_defs)
interpretation log_alert_rules_tbl: tenant_table log_alert_rules log_alert_rules_update observability_frame
  by unfold_locales (simp_all add: observability_frame_defs)
interpretation apm_ingest_keys_tbl: tenant_table apm_ingest_keys apm_ingest_keys_update observability_frame
  by unfold_locales (simp_all add: observability_frame_defs)
interpretation apm_traces_tbl: tenant_table apm_traces apm_traces_update observability_frame
  by unfold_locales (simp_all add: observability_frame_defs)
interpretation apm_spans_tbl: tenant_table apm_spans apm_spans_update observability_frame
  by unfold_locales (simp_all add: observability_frame_defs)
interpretation rum_app_keys_tbl: tenant_table rum_app_keys rum_app_keys_update observability_frame
  by unfold_locales (simp_all add: observability_frame_defs)
interpretation rum_events_tbl: tenant_table rum_events rum_events_update observability_frame
  by unfold_locales (simp_all add: observability_frame_defs)
interpretation network_devices_tbl: tenant_table network_devices network_devices_update observability_frame
  by unfold_locales (simp_all add: observability_frame_defs)
interpretation network_interface_samples_tbl: tenant_table network_interface_samples network_interface_samples_update observability_frame
  by unfold_locales (simp_all add: observability_frame_defs)
interpretation cloud_credentials_tbl: tenant_table cloud_credentials cloud_credentials_update observability_frame
  by unfold_locales (simp_all add: observability_frame_defs)

lemma gen_random_uuid_observability_frame [frame_intros]: "tx_rel (observability_frame qr) gen_random_uuid"
  by (rule tx_rel_mono [OF gen_random_uuid_monitoring_frame monitoring_observability_frame])

lemma sql_now_observability_frame [frame_intros]: "tx_rel (observability_frame qr) sql_now"
  unfolding sql_now_def by (rule frame_intros)

lemma fk_check_observability_frame [frame_intros]: "tx_rel (observability_frame qr) (fk_check tbl i)"
  unfolding fk_check_def by (intro frame_intros)

end
