(* ===== verification/Alert_Evaluation.thy ===== *)
theory Alert_Evaluation
  imports Alert_Rules Ticket_Properties
begin

text \<open>
  The alert engine (\<open>alert-evaluation.service.ts\<close>) with the internal endpoints of the ticketing module it
  calls (\<open>ticketing/internal/internal-tickets.controller.ts\<close>). One call of \<open>evaluate\<close> is one transaction
  on the database followed by the event and the calls for the ticket. The lemmas: at most one active alert
  per monitor, what must have been observed before an alert opens, and that an alert gets its ticket in
  the call that opens it or never.

  Whether the internal endpoint answers is the parameter \<open>reachable\<close>. The narrative a language model
  writes afterwards is not part of the model. The text of a metric that is not on the list but names a
  property every JavaScript object has makes the query fail instead of the lookup; both raise.
\<close>

section \<open>Numbers with two decimals\<close>

definition js_toFixed2 :: "js_format \<Rightarrow> rat \<Rightarrow> string" where
  "js_toFixed2 F x =
     (if \<bar>x\<bar> \<ge> 10 ^ 21 then js_number_text F x
      else let n = nat \<lfloor>\<bar>x\<bar> * 100 + 1 / 2\<rfloor> in
        (if x < 0 then ''-'' else []) @ nat_text (n div 100) @ ''.'' @ [digit_char (n div 10 mod 10), digit_char (n mod 10)])"

section \<open>The internal endpoints of the ticketing module\<close>

definition ALERT_CONTACT :: InlineContact where
  "ALERT_CONTACT = \<lparr>ic_name = ''System Monitoring'', ic_email = ''alerts@system.internal''\<rparr>"

record CreateTicketFromAlert =
  fa_subject :: string
  fa_description :: string
  fa_resourceId :: "uuid option"
  fa_priority :: "ticket_priority option"

definition addNote :: "js_format \<Rightarrow> html_lib \<Rightarrow> uuid \<Rightarrow> uuid \<Rightarrow> string \<Rightarrow> ('s ticketing_scheme, ticket_message) act" where
  "addNote F H tenantId ticketId body =
     tickets_addMessage F H tenantId ticketId \<lparr>am_type = Note, am_authorType = By_System, am_authorId = None, am_body = body, am_cc = None\<rparr>"

definition fromAlert :: "js_format \<Rightarrow> intl \<Rightarrow> html_lib \<Rightarrow> uuid \<Rightarrow> CreateTicketFromAlert \<Rightarrow> ('s ticketing_scheme, ticket) act" where
  "fromAlert F I H tenantId dto =
     act_bind (tickets_create F I tenantId
       \<lparr>nt_subject = fa_subject dto, nt_contactId = None, nt_contact = Some ALERT_CONTACT, nt_source = Src_Alert, nt_sourceDetail = None,
        nt_ticketTypeId = None, nt_groupId = None, nt_agentId = None, nt_requiredSkill = None, nt_resourceId = fa_resourceId dto,
        nt_priority = fa_priority dto, nt_platform = None, nt_tags = None, nt_customFields = None\<rparr>) (\<lambda>ticket.
     act_bind (addNote F H tenantId (row_id ticket) (fa_description dto)) (\<lambda>_. act_return ticket))"

text \<open>A response that is not ok, or none at all, is \<open>null\<close>; what the endpoint committed before it failed stays.\<close>

definition callInternalApi :: "bool \<Rightarrow> ('s, 'a) act \<Rightarrow> ('s, 'a option) act" where
  "callInternalApi reachable endpoint =
     (if reachable then act_catch (act_bind endpoint (\<lambda>x. act_return (Some x))) (\<lambda>_. act_return None) else act_return None)"

section \<open>Metric rules\<close>

definition ANOMALY_BASELINE_WINDOW :: nat where
  "ANOMALY_BASELINE_WINDOW = 30"

record MetricEvaluation =
  me_isBad :: bool
  me_thresholdReached :: bool
  me_latestValue :: "rat option"

text \<open>\<open>SELECT \<dots> FROM monitor_checks WHERE monitor_id = i ORDER BY checked_at DESC LIMIT n\<close>.\<close>

definition recent_checks :: "query_runner \<Rightarrow> uuid \<Rightarrow> nat \<Rightarrow> 's monitoring_scheme \<Rightarrow> monitor_check list" where
  "recent_checks qr monitorId n s =
     take n (order_by (\<lambda>c. - mc_checked_at c) (filter (\<lambda>c. mc_monitor_id c = monitorId) (visible qr (monitor_checks s))))"

fun collect_values :: "(monitor_check \<Rightarrow> error + rat option) \<Rightarrow> monitor_check list \<Rightarrow> error + rat option list" where
  "collect_values f [] = Inr []"
| "collect_values f (c # cs) = (case f c of Inl e \<Rightarrow> Inl e | Inr v \<Rightarrow> (case collect_values f cs of Inl e \<Rightarrow> Inl e | Inr vs \<Rightarrow> Inr (v # vs)))"

definition metric_values ::
  "(string \<Rightarrow> rat option) \<Rightarrow> query_runner \<Rightarrow> uuid \<Rightarrow> string option \<Rightarrow> nat \<Rightarrow> ('s monitoring_scheme, rat option list) tx" where
  "metric_values pg_float qr monitorId metric n = (case Option.bind metric (metricValueSql pg_float) of
      None \<Rightarrow> tx_throw (Failure (''Unknown alert rule metric \"'' @ (case metric of None \<Rightarrow> ''null'' | Some m \<Rightarrow> m) @ ''\"''))
    | Some f \<Rightarrow> (\<lambda>s. case collect_values f (recent_checks qr monitorId n s) of Inl e \<Rightarrow> Inl e | Inr vs \<Rightarrow> Inr (vs, s)))"

text \<open>A missing comparator compares to \<open>undefined\<close>, a missing number is \<open>null\<close> and compares as zero.\<close>

definition violates :: "alert_rule \<Rightarrow> rat option \<Rightarrow> bool" where
  "violates rule v = (case (v, al_comparator rule) of
      (Some x, Some c) \<Rightarrow> compare_metric x c (case al_threshold rule of None \<Rightarrow> 0 | Some t \<Rightarrow> t)
    | _ \<Rightarrow> False)"

definition threshold_evaluation :: "alert_rule \<Rightarrow> rat option list \<Rightarrow> MetricEvaluation" where
  "threshold_evaluation rule rows =
     (let latestValue = Option.bind (first_of rows) id in
      \<lparr>me_isBad = violates rule latestValue,
       me_thresholdReached = (length rows = al_for_consecutive rule \<and> list_all (violates rule) rows),
       me_latestValue = latestValue\<rparr>)"

definition anomaly_evaluation :: "alert_rule \<Rightarrow> rat option list \<Rightarrow> MetricEvaluation" where
  "anomaly_evaluation rule rows =
     (let newest = List.map_filter id (take (al_for_consecutive rule) rows);
          baseline = List.map_filter id (drop (al_for_consecutive rule) rows);
          sensitivity = (case al_anomaly_sensitivity rule of None \<Rightarrow> 0 | Some q \<Rightarrow> q);
          anomalous = (\<lambda>v. an_isAnomaly (detectMetricAnomaly baseline v sensitivity)) in
      \<lparr>me_isBad = (case newest of [] \<Rightarrow> False | v # _ \<Rightarrow> anomalous v),
       me_thresholdReached = (length newest = al_for_consecutive rule \<and> list_all anomalous newest),
       me_latestValue = first_of newest\<rparr>)"

definition evaluateMetricRule ::
  "(string \<Rightarrow> rat option) \<Rightarrow> query_runner \<Rightarrow> uuid \<Rightarrow> alert_rule \<Rightarrow> ('s monitoring_scheme, MetricEvaluation) tx" where
  "evaluateMetricRule pg_float qr monitorId rule =
     (if al_rule_kind rule = Rk_Threshold
      then tx_bind (metric_values pg_float qr monitorId (al_metric rule) (al_for_consecutive rule)) (\<lambda>rows.
        tx_return (threshold_evaluation rule rows))
      else tx_bind (metric_values pg_float qr monitorId (al_metric rule) (al_for_consecutive rule + ANOMALY_BASELINE_WINDOW)) (\<lambda>rows.
        tx_return (anomaly_evaluation rule rows)))"

definition comparator_text :: "MetricComparator option \<Rightarrow> string" where
  "comparator_text c = (case c of None \<Rightarrow> ''null'' | Some Gt \<Rightarrow> ''gt'' | Some Gte \<Rightarrow> ''gte'' | Some Lt \<Rightarrow> ''lt'' | Some Lte \<Rightarrow> ''lte'')"

definition metricReasonText :: "js_format \<Rightarrow> string \<Rightarrow> alert_rule \<Rightarrow> rat option \<Rightarrow> string" where
  "metricReasonText F monitorName rule latestValue =
     (let valueText = (case latestValue of Some v \<Rightarrow> js_toFixed2 F v | None \<Rightarrow> ''unknown'');
          metric = (case al_metric rule of None \<Rightarrow> ''null'' | Some m \<Rightarrow> m) in
      if al_rule_kind rule = Rk_Threshold
      then monitorName @ '': '' @ metric @ '' is '' @ valueText @ '' (threshold: '' @ comparator_text (al_comparator rule) @ '' '' @
        (case al_threshold rule of None \<Rightarrow> ''null'' | Some q \<Rightarrow> js_number_text F q) @ '').''
      else monitorName @ '': '' @ metric @ '' is '' @ valueText @ '', an anomaly against its recent baseline.'')"

section \<open>The transaction\<close>

record EvaluatedMonitor =
  em_id :: uuid
  em_name :: string
  em_resourceId :: uuid
  em_consecutiveFailuresToAlert :: nat
  em_minFailingLocations :: "nat option"

datatype EvaluationOutcome =
    No_Rule
  | Not_Bad
  | Not_Yet_Due
  | Lost_Race
  | Awaiting_Location_Quorum
  | Repeat "uuid option" "string option"
  | Recovered "uuid option"
  | Created uuid string

definition active :: "alert \<Rightarrow> bool" where
  "active a \<longleftrightarrow> at_status a = Alert_Open \<or> at_status a = Alert_Acknowledged"

definition REPEAT_NOTE_EVERY :: nat where
  "REPEAT_NOTE_EVERY = 5"

definition statusIn :: "alert_rule \<Rightarrow> string list" where
  "statusIn rule = (case al_statusIn rule of None \<Rightarrow> [''down'', ''critical''] | Some v \<Rightarrow> v)"

definition failing :: "alert_rule \<Rightarrow> CheckStatus \<Rightarrow> bool" where
  "failing rule st \<longleftrightarrow> check_status_text st \<in> set (statusIn rule)"

definition status_threshold_reached :: "query_runner \<Rightarrow> EvaluatedMonitor \<Rightarrow> alert_rule \<Rightarrow> 's monitoring_scheme \<Rightarrow> bool" where
  "status_threshold_reached qr m rule s =
     (let recentChecks = recent_checks qr (em_id m) (em_consecutiveFailuresToAlert m) s in
      length recentChecks = em_consecutiveFailuresToAlert m \<and> list_all (\<lambda>c. failing rule (mc_status c)) recentChecks)"

text \<open>\<open>SELECT DISTINCT ON (location) \<dots> ORDER BY location, checked_at DESC\<close>: the newest check of each location.\<close>

definition latest_at :: "query_runner \<Rightarrow> uuid \<Rightarrow> 's monitoring_scheme \<Rightarrow> string \<Rightarrow> monitor_check option" where
  "latest_at qr monitorId s location =
     first_of (order_by (\<lambda>c. - mc_checked_at c) (filter (\<lambda>c. mc_monitor_id c = monitorId \<and> mc_location c = location) (visible qr (monitor_checks s))))"

definition failing_locations :: "query_runner \<Rightarrow> uuid \<Rightarrow> alert_rule \<Rightarrow> 's monitoring_scheme \<Rightarrow> string list" where
  "failing_locations qr monitorId rule s =
     filter (\<lambda>loc. case latest_at qr monitorId s loc of None \<Rightarrow> False | Some c \<Rightarrow> failing rule (mc_status c))
       (js_unique (map mc_location (filter (\<lambda>c. mc_monitor_id c = monitorId) (visible qr (monitor_checks s)))))"

definition quorum :: "query_runner \<Rightarrow> EvaluatedMonitor \<Rightarrow> alert_rule \<Rightarrow> 's monitoring_scheme \<Rightarrow> bool" where
  "quorum qr m rule s =
     (let minLocations = (case em_minFailingLocations m of None \<Rightarrow> 1 | Some n \<Rightarrow> n) in
      minLocations > 1 \<longrightarrow> \<not> length (failing_locations qr (em_id m) rule s) < minLocations)"

text \<open>
  \<open>INSERT INTO alerts\<close>: the partial unique index on active alerts and the foreign key of the monitor look at
  all tenants. A violation of the unique index is caught; the transaction then commits nothing.
\<close>

definition insert_alert :: "query_runner \<Rightarrow> uuid \<Rightarrow> EvaluatedMonitor \<Rightarrow> alert_rule \<Rightarrow> string \<Rightarrow> ('s monitoring_scheme, EvaluationOutcome) tx" where
  "insert_alert qr tenantId m rule reasonText =
     tx_bind (tx_gets (\<lambda>s. \<exists>a \<in> set (alerts s). active a \<and> at_monitor_id a = em_id m)) (\<lambda>dup.
     if dup then tx_return Lost_Race
     else tx_bind (fk_check monitors (em_id m)) (\<lambda>_. tx_bind gen_random_uuid (\<lambda>i. tx_bind sql_now (\<lambda>now.
       tx_bind (sql_insert alerts_update qr \<lparr>row_id = i, tenant_id = tenantId, at_monitor_id = em_id m, at_alert_rule_id = Some (row_id rule),
         at_severity = al_severity rule, at_status = Alert_Open, at_reason_text = reasonText, at_repeat_count = 0, at_linked_ticket = None,
         at_opened_at = now, at_last_seen_at = now, at_acknowledged_at = None, at_resolved_at = None, at_last_escalated_step = -1\<rparr>) (\<lambda>alert.
       tx_return (Created (row_id alert) reasonText))))))"

definition handle_not_bad :: "query_runner \<Rightarrow> alert_rule \<Rightarrow> CheckResult \<Rightarrow> alert option \<Rightarrow> ('s monitoring_scheme, EvaluationOutcome) tx" where
  "handle_not_bad qr rule result openAlert = (case openAlert of
      Some a \<Rightarrow>
        if al_rule_kind rule = Rk_Status \<longrightarrow> cr_status result = Up
        then tx_bind sql_now (\<lambda>now.
          tx_bind (sql_update alerts alerts_update qr (by_id (row_id a)) (\<lambda>a. a\<lparr>at_status := Alert_Resolved, at_resolved_at := Some now\<rparr>)) (\<lambda>_.
          tx_return (Recovered (at_linked_ticket a))))
        else tx_return Not_Bad
    | None \<Rightarrow> tx_return Not_Bad)"

definition handle_repeat ::
  "js_format \<Rightarrow> query_runner \<Rightarrow> EvaluatedMonitor \<Rightarrow> CheckResult \<Rightarrow> alert \<Rightarrow> ('s monitoring_scheme, EvaluationOutcome) tx" where
  "handle_repeat F qr m result a =
     (let newRepeatCount = at_repeat_count a + 1 in
      tx_bind sql_now (\<lambda>now.
      tx_bind (sql_update alerts alerts_update qr (by_id (row_id a)) (\<lambda>a. a\<lparr>at_repeat_count := newRepeatCount, at_last_seen_at := now\<rparr>)) (\<lambda>_.
      tx_return (Repeat (at_linked_ticket a)
        (if at_linked_ticket a \<noteq> None \<and> newRepeatCount mod REPEAT_NOTE_EVERY = 0
         then Some (generateRepeatNoteText F (em_name m) (cr_status result) (cr_rawOutput result) newRepeatCount) else None)))))"

text \<open>What follows once the enabled rule is read, with the evaluation of a metric rule if it is one.\<close>

definition decide ::
  "js_format \<Rightarrow> uuid \<Rightarrow> EvaluatedMonitor \<Rightarrow> CheckResult \<Rightarrow> query_runner \<Rightarrow> alert_rule \<Rightarrow> MetricEvaluation option \<Rightarrow>
     ('s monitoring_scheme, EvaluationOutcome) tx" where
  "decide F tenantId m result qr rule metricEval =
     (let isBad = (case metricEval of None \<Rightarrow> failing rule (cr_status result) | Some e \<Rightarrow> me_isBad e) in
      tx_bind (sql_first alerts qr (\<lambda>a. at_monitor_id a = em_id m \<and> active a)) (\<lambda>openAlert.
      if \<not> isBad then handle_not_bad qr rule result openAlert
      else (case openAlert of
          Some a \<Rightarrow> handle_repeat F qr m result a
        | None \<Rightarrow>
            tx_bind (tx_gets (\<lambda>s. case metricEval of None \<Rightarrow> status_threshold_reached qr m rule s | Some e \<Rightarrow> me_thresholdReached e)) (\<lambda>thresholdReached.
            if \<not> thresholdReached then tx_return Not_Yet_Due
            else tx_bind (tx_gets (\<lambda>s. metricEval = None \<longrightarrow> quorum qr m rule s)) (\<lambda>enough.
            if \<not> enough then tx_return Awaiting_Location_Quorum
            else insert_alert qr tenantId m rule
              (case metricEval of None \<Rightarrow> generateReasonText F (em_name m) (cr_status result) (cr_rawOutput result)
                 | Some e \<Rightarrow> metricReasonText F (em_name m) rule (me_latestValue e)))))))"

definition applyToDatabase ::
  "js_format \<Rightarrow> (string \<Rightarrow> rat option) \<Rightarrow> uuid \<Rightarrow> EvaluatedMonitor \<Rightarrow> CheckResult \<Rightarrow> query_runner \<Rightarrow> ('s monitoring_scheme, EvaluationOutcome) tx" where
  "applyToDatabase F pg_float tenantId m result qr =
     tx_bind (sql_first alert_rules qr (\<lambda>r. al_monitor_id r = em_id m \<and> al_is_enabled r)) (\<lambda>found. case found of
       None \<Rightarrow> tx_return No_Rule
     | Some rule \<Rightarrow>
         if al_rule_kind rule = Rk_Status then decide F tenantId m result qr rule None
         else tx_bind (evaluateMetricRule pg_float qr (em_id m) rule) (\<lambda>e. decide F tenantId m result qr rule (Some e)))"

section \<open>After the transaction\<close>

definition linkTicket ::
  "js_format \<Rightarrow> intl \<Rightarrow> html_lib \<Rightarrow> bool \<Rightarrow> uuid \<Rightarrow> EvaluatedMonitor \<Rightarrow> uuid \<Rightarrow> string \<Rightarrow> ('s monitoring_scheme, unit) act" where
  "linkTicket F I H reachable tenantId m alertId reasonText =
     act_bind (callInternalApi reachable (fromAlert F I H tenantId
       \<lparr>fa_subject = ''[Monitoring] '' @ em_name m @ '' is failing'', fa_description = reasonText, fa_resourceId = Some (em_resourceId m),
        fa_priority = Some High\<rparr>)) (\<lambda>ticket. case ticket of
       None \<Rightarrow> act_return ()
     | Some ticket \<Rightarrow> withTenantContext tenantId (\<lambda>qr.
         tx_bind (sql_update alerts alerts_update qr (\<lambda>a. by_id alertId a \<and> at_linked_ticket a = None)
           (\<lambda>a. a\<lparr>at_linked_ticket := Some (row_id ticket)\<rparr>)) (\<lambda>_. tx_return ())))"

definition postNote :: "js_format \<Rightarrow> html_lib \<Rightarrow> bool \<Rightarrow> uuid \<Rightarrow> uuid \<Rightarrow> string \<Rightarrow> ('s monitoring_scheme, unit) act" where
  "postNote F H reachable tenantId ticketId body =
     act_bind (callInternalApi reachable (addNote F H tenantId ticketId body)) (\<lambda>_. act_return ())"

definition evaluate ::
  "js_format \<Rightarrow> intl \<Rightarrow> html_lib \<Rightarrow> (string \<Rightarrow> rat option) \<Rightarrow> bool \<Rightarrow> uuid \<Rightarrow> EvaluatedMonitor \<Rightarrow> CheckResult \<Rightarrow> ('s monitoring_scheme, unit) act" where
  "evaluate F I H pg_float reachable tenantId m result =
     act_bind (withTenantContext tenantId (applyToDatabase F pg_float tenantId m result)) (\<lambda>outcome. case outcome of
       Created alertId reasonText \<Rightarrow>
         act_bind (publish tenantId ''alert.created'' (JObj [(''alertId'', JId alertId), (''monitorId'', JId (em_id m))])) (\<lambda>_.
         linkTicket F I H reachable tenantId m alertId reasonText)
     | Repeat (Some ticketId) (Some noteBody) \<Rightarrow> postNote F H reachable tenantId ticketId noteBody
     | Recovered (Some ticketId) \<Rightarrow> postNote F H reachable tenantId ticketId (generateReasonText F (em_name m) Up (JObj []))
     | _ \<Rightarrow> act_return ())"

section \<open>What the calls for the ticket leave alone\<close>

context frame
begin

lemma callInternalApi_frame [frame_intros]: "act_rel R m \<Longrightarrow> act_rel R (callInternalApi b m)"
  unfolding callInternalApi_def by (intro frame_intros)

end

lemma endpoint_frames [frame_intros]:
  "act_rel (ticketing_frame t) (addNote F H t k body)" "act_rel (ticketing_frame t) (fromAlert F I H t dto)"
  unfolding addNote_def fromAlert_def by (intro frame_intros)+

lemma ticketing_frame_alerts:
  fixes s t :: "'s monitoring_scheme"
  assumes "ticketing_frame qr s t"
  shows "alerts t = alerts s" "monitor_checks t = monitor_checks s" "alert_rules t = alert_rules s" "monitors t = monitors s"
proof -
  from assms have "ticketing.more t = ticketing.more s" by (simp add: ticketing_frame_def)
  then have "helpdesk.more t = helpdesk.more s" by (cases s; cases t) simp
  from helpdesk_more_tables [OF this]
  show "alerts t = alerts s" "monitor_checks t = monitor_checks s" "alert_rules t = alert_rules s" "monitors t = monitors s" by blast+
qed

lemma publish_ticketing_frame: "act_rel (ticketing_frame t) (publish t ty p)"
  by (rule act_rel_mono [OF publish_frame platform_ticketing_frame])

lemma postNote_frame: "act_rel (ticketing_frame t) (postNote F H b t k body)"
  unfolding postNote_def by (intro frame_intros)

section \<open>Runs of the transaction\<close>

lemma handle_not_bad_run:
  assumes "handle_not_bad qr rule result openAlert s = Inr (outcome, t)"
  shows "(outcome = Not_Bad \<and> t = s) \<or>
    (\<exists>a. openAlert = Some a \<and> outcome = Recovered (at_linked_ticket a) \<and>
       t = s\<lparr>alerts := update_rows qr (by_id (row_id a)) (\<lambda>a. a\<lparr>at_status := Alert_Resolved, at_resolved_at := Some (clock s)\<rparr>) (alerts s)\<rparr>)"
  using assms by (auto simp: handle_not_bad_def sql_now_def sql_update_def Let_def tx_bind_eq_Inr split: option.splits if_splits)

lemma handle_repeat_run:
  assumes "handle_repeat F qr m result a s = Inr (outcome, t)"
  shows "(\<exists>nb. outcome = Repeat (at_linked_ticket a) nb) \<and>
    t = s\<lparr>alerts := update_rows qr (by_id (row_id a)) (\<lambda>b. b\<lparr>at_repeat_count := at_repeat_count a + 1, at_last_seen_at := clock s\<rparr>) (alerts s)\<rparr>"
  using assms by (auto simp: handle_repeat_def sql_now_def sql_update_def Let_def tx_bind_eq_Inr split: if_splits)

definition new_alert :: "uuid \<Rightarrow> EvaluatedMonitor \<Rightarrow> alert_rule \<Rightarrow> string \<Rightarrow> 's monitoring_scheme \<Rightarrow> alert" where
  "new_alert tenantId m rule reasonText s = \<lparr>row_id = next_uuid s, tenant_id = tenantId, at_monitor_id = em_id m, at_alert_rule_id = Some (row_id rule),
     at_severity = al_severity rule, at_status = Alert_Open, at_reason_text = reasonText, at_repeat_count = 0, at_linked_ticket = None,
     at_opened_at = clock s, at_last_seen_at = clock s, at_acknowledged_at = None, at_resolved_at = None, at_last_escalated_step = -1\<rparr>"

lemma insert_alert_run:
  assumes "insert_alert qr T m rule reasonText s = Inr (outcome, t)"
  shows "(outcome = Lost_Race \<and> t = s) \<or>
    (outcome = Created (next_uuid s) reasonText \<and> (\<forall>a \<in> set (alerts s). active a \<longrightarrow> at_monitor_id a \<noteq> em_id m) \<and>
       t = s\<lparr>next_uuid := Suc (next_uuid s), alerts := alerts s @ [new_alert T m rule reasonText s]\<rparr>)"
  using assms
  by (auto simp: insert_alert_def fk_check_def gen_random_uuid_def sql_now_def sql_insert_def tx_bind_eq_Inr new_alert_def split: if_splits)

lemma evaluateMetricRule_reads: "evaluateMetricRule P qr i rule s = Inr (e, t) \<Longrightarrow> t = s"
  by (auto simp: evaluateMetricRule_def metric_values_def tx_bind_eq_Inr split: if_splits option.splits sum.splits)

text \<open>What was observed when an alert opens.\<close>

definition observed_failing ::
  "(string \<Rightarrow> rat option) \<Rightarrow> query_runner \<Rightarrow> EvaluatedMonitor \<Rightarrow> CheckResult \<Rightarrow> alert_rule \<Rightarrow> 's monitoring_scheme \<Rightarrow> bool" where
  "observed_failing P qr m result rule s \<longleftrightarrow>
     (if al_rule_kind rule = Rk_Status
      then failing rule (cr_status result) \<and> status_threshold_reached qr m rule s \<and> quorum qr m rule s
      else \<exists>e. evaluateMetricRule P qr (em_id m) rule s = Inr (e, s) \<and> me_isBad e \<and> me_thresholdReached e)"

lemma applyToDatabase_run:
  assumes "applyToDatabase F P T m result qr s = Inr (outcome, t)"
  obtains
    (unchanged) "t = s" "outcome \<in> {No_Rule, Not_Bad, Not_Yet_Due, Lost_Race, Awaiting_Location_Quorum}"
  | (recovered) a where "a \<in> set (alerts s)" "tenant_id a = qr" "active a" "at_monitor_id a = em_id m" "outcome = Recovered (at_linked_ticket a)"
      "t = s\<lparr>alerts := update_rows qr (by_id (row_id a)) (\<lambda>a. a\<lparr>at_status := Alert_Resolved, at_resolved_at := Some (clock s)\<rparr>) (alerts s)\<rparr>"
  | (repeat) a nb where "a \<in> set (alerts s)" "tenant_id a = qr" "active a" "at_monitor_id a = em_id m" "outcome = Repeat (at_linked_ticket a) nb"
      "t = s\<lparr>alerts := update_rows qr (by_id (row_id a)) (\<lambda>b. b\<lparr>at_repeat_count := at_repeat_count a + 1, at_last_seen_at := clock s\<rparr>) (alerts s)\<rparr>"
  | (created) rule reasonText where "rule \<in> set (alert_rules s)" "tenant_id rule = qr" "al_monitor_id rule = em_id m" "al_is_enabled rule"
      "observed_failing P qr m result rule s" "\<forall>a \<in> set (alerts s). active a \<longrightarrow> at_monitor_id a \<noteq> em_id m"
      "outcome = Created (next_uuid s) reasonText"
      "t = s\<lparr>next_uuid := Suc (next_uuid s), alerts := alerts s @ [new_alert T m rule reasonText s]\<rparr>"
proof (cases "first_of (filter (\<lambda>r. al_monitor_id r = em_id m \<and> al_is_enabled r) (visible qr (alert_rules s)))")
  case None
  with assms have "t = s" "outcome = No_Rule" by (auto simp: applyToDatabase_def sql_first_def tx_bind_eq_Inr)
  with unchanged show thesis by blast
next
  case (Some rule)
  note rule = first_of_filter_SomeD [OF Some]
  from assms Some obtain ev where rest: "decide F T m result qr rule ev s = Inr (outcome, t)"
    and ev: "ev = None \<and> al_rule_kind rule = Rk_Status \<or>
      (\<exists>e. ev = Some e \<and> al_rule_kind rule \<noteq> Rk_Status \<and> evaluateMetricRule P qr (em_id m) rule s = Inr (e, s))"
  proof (cases "al_rule_kind rule = Rk_Status")
    case False
    with assms Some obtain e u where e: "evaluateMetricRule P qr (em_id m) rule s = Inr (e, u)" "decide F T m result qr rule (Some e) u = Inr (outcome, t)"
      by (auto simp: applyToDatabase_def sql_first_def tx_bind_eq_Inr)
    moreover from evaluateMetricRule_reads [OF e(1)] have "u = s" .
    ultimately show ?thesis using False that [of "Some e"] by simp
  qed (auto simp: applyToDatabase_def sql_first_def tx_bind_eq_Inr)
  note rest = rest [unfolded decide_def Let_def]
  let ?bad = "case ev of None \<Rightarrow> failing rule (cr_status result) | Some e \<Rightarrow> me_isBad e"
  show thesis
  proof (cases "first_of (filter (\<lambda>a. at_monitor_id a = em_id m \<and> active a) (visible qr (alerts s)))")
    case None
    show thesis
    proof (cases ?bad)
      case False
      with rest None have "handle_not_bad qr rule result None s = Inr (outcome, t)" by (simp add: sql_first_def tx_bind_def)
      from handle_not_bad_run [OF this] unchanged show thesis by blast
    next
      case True
      with rest None consider (due) "t = s" "outcome = Not_Yet_Due" | (wait) "t = s" "outcome = Awaiting_Location_Quorum"
        | (insert) msg where "(case ev of None \<Rightarrow> status_threshold_reached qr m rule s | Some e \<Rightarrow> me_thresholdReached e)"
            "ev = None \<longrightarrow> quorum qr m rule s" "insert_alert qr T m rule msg s = Inr (outcome, t)"
        by (auto simp: sql_first_def tx_bind_def split: if_splits)
      then show thesis
      proof cases
        case insert
        with True ev have seen: "observed_failing P qr m result rule s" by (auto simp: observed_failing_def)
        from insert_alert_run [OF insert(3)] show thesis
        proof
          assume "outcome = Lost_Race \<and> t = s"
          with unchanged show thesis by simp
        next
          assume new: "outcome = Created (next_uuid s) msg \<and> (\<forall>a \<in> set (alerts s). active a \<longrightarrow> at_monitor_id a \<noteq> em_id m) \<and>
            t = s\<lparr>next_uuid := Suc (next_uuid s), alerts := alerts s @ [new_alert T m rule msg s]\<rparr>"
          from rule have "rule \<in> set (alert_rules s)" "tenant_id rule = qr" "al_monitor_id rule = em_id m" "al_is_enabled rule" by simp_all
          from created [OF this seen] new show thesis by blast
        qed
      qed (use unchanged in auto)
    qed
  next
    case (Some a)
    from first_of_filter_SomeD [OF Some] have a: "a \<in> set (alerts s)" "tenant_id a = qr" "active a" "at_monitor_id a = em_id m" by simp_all
    show thesis
    proof (cases ?bad)
      case False
      with rest Some have "handle_not_bad qr rule result (Some a) s = Inr (outcome, t)" by (simp add: sql_first_def tx_bind_def)
      from handle_not_bad_run [OF this] show thesis
      proof (elim disjE exE conjE)
        assume "outcome = Not_Bad" "t = s"
        with unchanged show thesis by simp
      qed (use recovered [OF a] in simp)
    next
      case True
      with rest Some have "handle_repeat F qr m result a s = Inr (outcome, t)" by (simp add: sql_first_def tx_bind_def)
      from handle_repeat_run [OF this] repeat [OF a] show thesis by blast
    qed
  qed
qed

section \<open>At most one active alert per monitor\<close>

definition alert_ok :: "alert \<Rightarrow> bool" where
  "alert_ok a \<longleftrightarrow> (at_resolved_at a \<noteq> None \<longleftrightarrow> at_status a = Alert_Resolved) \<and> (at_status a = Alert_Acknowledged \<longrightarrow> at_acknowledged_at a \<noteq> None)"

definition alerts_ok :: "'s monitoring_scheme \<Rightarrow> bool" where
  "alerts_ok s \<longleftrightarrow> distinct (map at_monitor_id (filter active (alerts s))) \<and> list_all alert_ok (alerts s)"

lemma active_update_subset:
  assumes "\<And>a. a \<in> set xs \<Longrightarrow> tenant_id a = qr \<Longrightarrow> P a \<Longrightarrow> at_monitor_id (f a) = at_monitor_id a \<and> (active (f a) \<longrightarrow> active a)"
  shows "set (map at_monitor_id (filter active (update_rows qr P f xs))) \<subseteq> set (map at_monitor_id (filter active xs))"
  using assms by (fastforce simp: update_rows_def tenant_isolation_def)

lemma active_update_distinct:
  assumes "\<And>a. a \<in> set xs \<Longrightarrow> tenant_id a = qr \<Longrightarrow> P a \<Longrightarrow> at_monitor_id (f a) = at_monitor_id a \<and> (active (f a) \<longrightarrow> active a)"
    and "distinct (map at_monitor_id (filter active xs))"
  shows "distinct (map at_monitor_id (filter active (update_rows qr P f xs)))"
  using assms
proof (induction xs)
  case Nil
  then show ?case by (simp add: update_rows_def)
next
  case (Cons a xs)
  have tail: "distinct (map at_monitor_id (filter active (update_rows qr P f xs)))"
    using Cons.prems by (intro Cons.IH) (auto split: if_splits)
  have sub: "set (map at_monitor_id (filter active (update_rows qr P f xs))) \<subseteq> set (map at_monitor_id (filter active xs))"
    by (rule active_update_subset) (use Cons.prems in auto)
  let ?b = "if tenant_isolation qr a \<and> P a then f a else a"
  have b: "at_monitor_id ?b = at_monitor_id a \<and> (active ?b \<longrightarrow> active a)"
    using Cons.prems(1) [of a] by (simp add: tenant_isolation_def)
  have "update_rows qr P f (a # xs) = ?b # update_rows qr P f xs" by (simp add: update_rows_def)
  with tail sub b Cons.prems(2) show ?case by (auto split: if_splits)
qed

lemma alerts_ok_update:
  assumes "alerts_ok s" and "alerts t = update_rows qr P f (alerts s)"
    and "\<And>a. a \<in> set (alerts s) \<Longrightarrow> tenant_id a = qr \<Longrightarrow> P a \<Longrightarrow> alert_ok a \<Longrightarrow>
      at_monitor_id (f a) = at_monitor_id a \<and> (active (f a) \<longrightarrow> active a) \<and> alert_ok (f a)"
  shows "alerts_ok t"
proof -
  have ok: "\<And>a. a \<in> set (alerts s) \<Longrightarrow> alert_ok a" using assms(1) by (simp add: alerts_ok_def list_all_iff)
  have "distinct (map at_monitor_id (filter active (update_rows qr P f (alerts s))))"
    by (rule active_update_distinct) (use assms(1,3) ok in \<open>auto simp: alerts_ok_def\<close>)
  moreover have "list_all alert_ok (update_rows qr P f (alerts s))"
    using assms(3) ok by (auto simp: list_all_iff dest!: set_update_rowsD)
  ultimately show ?thesis by (simp add: alerts_ok_def assms(2))
qed

lemma alerts_ok_cong: "alerts t = alerts s \<Longrightarrow> alerts_ok t = alerts_ok s"
  by (simp add: alerts_ok_def)

lemma active_resolves: "active a \<Longrightarrow> alert_move\<^sup>*\<^sup>* (at_status a) Alert_Resolved"
  by (auto simp: active_def intro!: r_into_rtranclp alert_move.intros)

lemma applyToDatabase_keeps:
  assumes "applyToDatabase F P T m result T s = Inr (outcome, t)"
  shows "alerts_ok s \<Longrightarrow> alerts_ok t" and "distinct (map row_id (alerts s)) \<Longrightarrow> moved s t"
proof -
  show "alerts_ok t" if "alerts_ok s"
    using assms
  proof (cases rule: applyToDatabase_run)
    case unchanged
    with that show ?thesis by simp
  next
    case (recovered a)
    have "alerts t = update_rows T (by_id (row_id a)) (\<lambda>a. a\<lparr>at_status := Alert_Resolved, at_resolved_at := Some (clock s)\<rparr>) (alerts s)"
      by (simp add: recovered)
    then show ?thesis by (rule alerts_ok_update [OF that]) (auto simp: active_def alert_ok_def)
  next
    case (repeat a nb)
    have "alerts t = update_rows T (by_id (row_id a)) (\<lambda>b. b\<lparr>at_repeat_count := at_repeat_count a + 1, at_last_seen_at := clock s\<rparr>) (alerts s)"
      by (simp add: repeat)
    then show ?thesis by (rule alerts_ok_update [OF that]) (auto simp: active_def alert_ok_def)
  next
    case (created rule reasonText)
    with that show ?thesis by (auto simp: alerts_ok_def new_alert_def active_def alert_ok_def)
  qed
  show "moved s t" if "distinct (map row_id (alerts s))"
    using assms
  proof (cases rule: applyToDatabase_run)
    case unchanged
    then show ?thesis by (simp add: moved_frame.frame_refl)
  next
    case (recovered a)
    have "alert_keeps (\<lambda>a. a\<lparr>at_status := Alert_Resolved, at_resolved_at := Some (clock s)\<rparr>) b"
      if "b \<in> set (alerts s)" "by_id (row_id a) b" for b
    proof -
      have "b = a" by (rule row_id_inj [OF \<open>distinct _\<close> that(1) recovered(1)]) (use that(2) in \<open>simp add: by_id_def\<close>)
      with recovered(3) show ?thesis by (simp add: alert_keeps_def active_resolves)
    qed
    moreover have "alerts t = update_rows T (by_id (row_id a)) (\<lambda>a. a\<lparr>at_status := Alert_Resolved, at_resolved_at := Some (clock s)\<rparr>) (alerts s)"
      by (simp add: recovered)
    ultimately show ?thesis by (intro update_moved)
  next
    case (repeat a nb)
    have "alerts t = update_rows T (by_id (row_id a)) (\<lambda>b. b\<lparr>at_repeat_count := at_repeat_count a + 1, at_last_seen_at := clock s\<rparr>) (alerts s)"
      by (simp add: repeat)
    then show ?thesis by (rule update_moved) (auto simp: alert_keeps_def)
  next
    case (created rule reasonText)
    then show ?thesis by (force simp: moved_def)
  qed
qed

lemma linkTicket_keeps:
  fixes s :: "'s monitoring_scheme"
  assumes "linkTicket F I H b T m i msg s = (r, t)"
  shows "alerts t = alerts s \<or>
    (\<exists>k. alerts t = update_rows T (\<lambda>a. by_id i a \<and> at_linked_ticket a = None) (\<lambda>a. a\<lparr>at_linked_ticket := Some k\<rparr>) (alerts s))"
proof -
  let ?dto = "\<lparr>fa_subject = ''[Monitoring] '' @ em_name m @ '' is failing'', fa_description = msg, fa_resourceId = Some (em_resourceId m),
    fa_priority = Some High\<rparr>"
  obtain q u where call: "callInternalApi b (fromAlert F I H T ?dto) s = (q, u)" by (cases "callInternalApi b (fromAlert F I H T ?dto) s")
  have "act_rel (ticketing_frame T) (callInternalApi b (fromAlert F I H T ?dto))" by (intro frame_intros)
  from act_relD [OF this call] have u: "alerts u = alerts s" by (rule ticketing_frame_alerts)
  from assms call have "t = u \<or> (\<exists>k. t = alerts_update (update_rows T (\<lambda>a. by_id i a \<and> at_linked_ticket a = None)
      (\<lambda>a. a\<lparr>at_linked_ticket := Some (row_id (k :: ticket))\<rparr>)) u)"
    by (auto simp: linkTicket_def act_bind_def withTenantContext_def sql_update_def Let_def tx_bind_def split: sum.splits option.splits if_splits)
  then show ?thesis
  proof (elim disjE exE)
    fix k :: ticket
    assume "t = alerts_update (update_rows T (\<lambda>a. by_id i a \<and> at_linked_ticket a = None) (\<lambda>a. a\<lparr>at_linked_ticket := Some (row_id k)\<rparr>)) u"
    then have "alerts t = update_rows T (\<lambda>a. by_id i a \<and> at_linked_ticket a = None) (\<lambda>a. a\<lparr>at_linked_ticket := Some (row_id k)\<rparr>) (alerts s)"
      by (simp add: u)
    then show ?thesis by blast
  qed (simp add: u)
qed

lemma evaluate_run:
  fixes s :: "'s monitoring_scheme"
  assumes "evaluate F I H P b T m result s = (r, t)"
  obtains (failed) e where "t = s" "r = Inl e"
  | (ran) outcome u where "applyToDatabase F P T m result T s = Inr (outcome, u)"
      "alerts t = alerts u \<or> (\<exists>i msg k. outcome = Created i msg \<and>
         alerts t = update_rows T (\<lambda>a. by_id i a \<and> at_linked_ticket a = None) (\<lambda>a. a\<lparr>at_linked_ticket := Some k\<rparr>) (alerts u))"
proof (cases "applyToDatabase F P T m result T s")
  case (Inl e)
  with assms have "t = s" "r = Inl e" by (simp_all add: evaluate_def withTenantContext_def act_bind_def)
  with failed show thesis by blast
next
  case (Inr p)
  obtain outcome u where p: "p = (outcome, u)" by (cases p)
  have note_same: "alerts t = alerts u" if "postNote F H b T k body u = (r, t)" for k body
    using act_relD [OF postNote_frame that] by (rule ticketing_frame_alerts)
  from assms Inr p have rest: "(case outcome of
       Created alertId reasonText \<Rightarrow>
         act_bind (publish T ''alert.created'' (JObj [(''alertId'', JId alertId), (''monitorId'', JId (em_id m))])) (\<lambda>_.
         linkTicket F I H b T m alertId reasonText)
     | Repeat (Some ticketId) (Some noteBody) \<Rightarrow> postNote F H b T ticketId noteBody
     | Recovered (Some ticketId) \<Rightarrow> postNote F H b T ticketId (generateReasonText F (em_name m) Up (JObj []))
     | _ \<Rightarrow> act_return ()) u = (r, t)"
    by (simp add: evaluate_def withTenantContext_def act_bind_def)
  have "alerts t = alerts u \<or> (\<exists>i msg k. outcome = Created i msg \<and>
         alerts t = update_rows T (\<lambda>a. by_id i a \<and> at_linked_ticket a = None) (\<lambda>a. a\<lparr>at_linked_ticket := Some k\<rparr>) (alerts u))"
  proof (cases outcome)
    case (Created i msg)
    obtain q v where pub: "publish T ''alert.created'' (JObj [(''alertId'', JId i), (''monitorId'', JId (em_id m))]) u = (q, v)"
      by (cases "publish T ''alert.created'' (JObj [(''alertId'', JId i), (''monitorId'', JId (em_id m))]) u")
    have v: "alerts v = alerts u" using act_relD [OF publish_ticketing_frame pub] by (rule ticketing_frame_alerts)
    show ?thesis
    proof (cases q)
      case (Inl e)
      with rest Created pub v show ?thesis by simp
    next
      case (Inr x)
      with rest Created pub have "linkTicket F I H b T m i msg v = (r, t)" by simp
      from linkTicket_keeps [OF this] v Created show ?thesis by auto
    qed
  qed (use rest note_same in \<open>auto split: option.splits\<close>)
  with Inr p ran show thesis by blast
qed

text \<open>Acknowledging, resolving and linking by hand.\<close>

lemma alert_transition_run:
  assumes "alert_transition F T i st f allowed s = (r, t)"
  shows "t = s \<or> (\<exists>a \<in> set (alerts s). row_id a = i \<and> tenant_id a = T \<and> at_status a \<in> set allowed \<and>
    alerts t = update_rows T (by_id i) (\<lambda>a. f (clock s) (a\<lparr>at_status := st\<rparr>)) (alerts s))"
proof (cases "first_of (filter (by_id i) (visible T (alerts s)))")
  case None
  with assms show ?thesis by (simp add: alert_transition_def withTenantContext_def find_row_def sql_first_def tx_bind_def)
next
  case (Some a)
  have a: "a \<in> set (alerts s)" "row_id a = i" "tenant_id a = T" using first_of_filter_SomeD [OF Some] by (simp_all add: by_id_def)
  have "find_row ''Alert'' alerts T i s = Inr (a, s)" using Some by (simp add: find_row_eq_Inr)
  with assms have "t = s \<or> (at_status a \<in> set allowed \<and> alerts t = update_rows T (by_id i) (\<lambda>a. f (clock s) (a\<lparr>at_status := st\<rparr>)) (alerts s))"
    by (auto simp: alert_transition_def withTenantContext_def tx_bind_def sql_now_def sql_update_def Let_def first_row_def
        split: sum.splits if_splits list.splits)
  with a show ?thesis by blast
qed

lemma alerts_linkTicket_run:
  assumes "alerts_linkTicket F T i k s = (r, t)"
  shows "t = s \<or> alerts t = update_rows T (by_id i) (\<lambda>a. a\<lparr>at_linked_ticket := Some k\<rparr>) (alerts s)"
proof (cases "first_of (filter (by_id i) (visible T (alerts s)))")
  case None
  with assms show ?thesis by (simp add: alerts_linkTicket_def withTenantContext_def find_row_def sql_first_def tx_bind_def)
next
  case (Some a)
  then have "find_row ''Alert'' alerts T i s = Inr (a, s)" by (simp add: find_row_eq_Inr)
  with assms show ?thesis
    by (auto simp: alerts_linkTicket_def withTenantContext_def tx_bind_def sql_update_def Let_def first_row_def find_row_def sql_first_def
        split: sum.splits if_splits list.splits option.splits)
qed

lemma transition_effect:
  assumes "distinct (map row_id (alerts s))" and "\<And>now a. alert_keeps (\<lambda>a. f now (a\<lparr>at_status := st\<rparr>)) a \<longleftrightarrow> alert_move\<^sup>*\<^sup>* (at_status a) st"
    and "\<And>st'. st' \<in> set allowed \<Longrightarrow> alert_move st' st"
    and "\<And>now a. alert_ok a \<Longrightarrow> at_status a \<in> set allowed \<Longrightarrow> alert_ok (f now (a\<lparr>at_status := st\<rparr>)) \<and>
      at_monitor_id (f now (a\<lparr>at_status := st\<rparr>)) = at_monitor_id a" and "\<And>st'. st' \<in> set allowed \<Longrightarrow> st' \<noteq> Alert_Resolved"
    and run: "alert_transition F T i st f allowed s = (r, t)"
  shows "moved s t \<and> (alerts_ok s \<longrightarrow> alerts_ok t)"
  using alert_transition_run [OF run]
proof
  assume "t = s"
  then show ?thesis by (simp add: moved_frame.frame_refl)
next
  assume "\<exists>a \<in> set (alerts s). row_id a = i \<and> tenant_id a = T \<and> at_status a \<in> set allowed \<and>
    alerts t = update_rows T (by_id i) (\<lambda>a. f (clock s) (a\<lparr>at_status := st\<rparr>)) (alerts s)"
  then obtain a where a: "a \<in> set (alerts s)" "row_id a = i" "at_status a \<in> set allowed"
    and t: "alerts t = update_rows T (by_id i) (\<lambda>a. f (clock s) (a\<lparr>at_status := st\<rparr>)) (alerts s)" by blast
  have only: "b = a" if "b \<in> set (alerts s)" "by_id i b" for b
    using row_id_inj [OF assms(1) that(1) a(1)] that(2) a(2) by (simp add: by_id_def)
  have "moved s t"
    by (rule update_moved [OF t]) (use only a(3) assms(2,3) in \<open>auto intro: r_into_rtranclp\<close>)
  moreover have "active a" using assms(5) [OF a(3)] by (cases "at_status a") (simp_all add: active_def)
  then have "alerts_ok t" if "alerts_ok s"
    by (intro alerts_ok_update [OF that t]) (use only a(3) assms(4) in auto)
  ultimately show ?thesis by blast
qed

lemma by_hand_effect:
  assumes "distinct (map row_id (alerts s))"
  shows "moved s (snd (alerts_acknowledge F T i s)) \<and> (alerts_ok s \<longrightarrow> alerts_ok (snd (alerts_acknowledge F T i s)))"
    and "moved s (snd (alerts_resolve F T i s)) \<and> (alerts_ok s \<longrightarrow> alerts_ok (snd (alerts_resolve F T i s)))"
    and "moved s (snd (alerts_linkTicket F T i k s)) \<and> (alerts_ok s \<longrightarrow> alerts_ok (snd (alerts_linkTicket F T i k s)))"
proof -
  show "moved s (snd (alerts_acknowledge F T i s)) \<and> (alerts_ok s \<longrightarrow> alerts_ok (snd (alerts_acknowledge F T i s)))"
    unfolding alerts_acknowledge_def
    by (rule transition_effect [OF assms, where r = "fst (alert_transition F T i Alert_Acknowledged (\<lambda>now a. a\<lparr>at_acknowledged_at := Some now\<rparr>) [Alert_Open] s)"])
      (auto simp: alert_keeps_def alert_ok_def intro: alert_move.intros)
  show "moved s (snd (alerts_resolve F T i s)) \<and> (alerts_ok s \<longrightarrow> alerts_ok (snd (alerts_resolve F T i s)))"
    unfolding alerts_resolve_def
    by (rule transition_effect [OF assms, where r = "fst (alert_transition F T i Alert_Resolved (\<lambda>now a. a\<lparr>at_resolved_at := Some now\<rparr>) [Alert_Open, Alert_Acknowledged] s)"])
      (auto simp: alert_keeps_def alert_ok_def intro: alert_move.intros)
  obtain r t where run: "alerts_linkTicket F T i k s = (r, t)" by (cases "alerts_linkTicket F T i k s")
  show "moved s (snd (alerts_linkTicket F T i k s)) \<and> (alerts_ok s \<longrightarrow> alerts_ok (snd (alerts_linkTicket F T i k s)))"
    using alerts_linkTicket_run [OF run]
  proof
    assume "t = s"
    then show ?thesis by (simp add: run moved_frame.frame_refl)
  next
    assume t: "alerts t = update_rows T (by_id i) (\<lambda>a. a\<lparr>at_linked_ticket := Some k\<rparr>) (alerts s)"
    have "moved s t" by (rule update_moved [OF t]) (auto simp: alert_keeps_def)
    moreover have "alerts_ok t" if "alerts_ok s" by (rule alerts_ok_update [OF that t]) (auto simp: active_def alert_ok_def)
    ultimately show ?thesis by (simp add: run)
  qed
qed

lemma evaluate_effect:
  fixes s :: "'s monitoring_scheme"
  assumes "evaluate F I H P b T m result s = (r, t)" and "distinct (map row_id (alerts s))"
  shows "moved s t \<and> (alerts_ok s \<longrightarrow> alerts_ok t)"
  using assms(1)
proof (cases rule: evaluate_run)
  case (failed e)
  then show ?thesis by (simp add: moved_frame.frame_refl)
next
  case (ran outcome u)
  have su: "moved s u" "alerts_ok s \<Longrightarrow> alerts_ok u" using applyToDatabase_keeps [OF ran(1)] assms(2) by blast+
  have "moved u t \<and> (alerts_ok u \<longrightarrow> alerts_ok t)"
    using ran(2)
  proof (elim disjE exE conjE)
    assume "alerts t = alerts u"
    then show ?thesis by (simp add: moved_same alerts_ok_def)
  next
    fix i k
    assume t: "alerts t = update_rows T (\<lambda>a. by_id i a \<and> at_linked_ticket a = None) (\<lambda>a. a\<lparr>at_linked_ticket := Some k\<rparr>) (alerts u)"
    have "moved u t" by (rule update_moved [OF t]) (auto simp: alert_keeps_def)
    moreover have "alerts_ok t" if "alerts_ok u" by (rule alerts_ok_update [OF that t]) (auto simp: active_def alert_ok_def)
    ultimately show ?thesis by blast
  qed
  with su show ?thesis using moved_frame.frame_trans by blast
qed

text \<open>
  C6. At most one alert of a monitor is active, and the times of an alert agree with its status:
  evaluating a check, acknowledging, resolving and linking keep that no two open or acknowledged alerts
  are of the same monitor, that an alert has a time of resolution exactly when it is resolved, and that
  an acknowledged one has a time of acknowledgement; also when the ticket calls or the event fail.
\<close>

theorem one_active_alert_per_monitor:
  assumes "alerts_ok s" and "distinct (map row_id (alerts s))"
  shows "alerts_ok (snd (evaluate F I H P b T m result s)) \<and> alerts_ok (snd (alerts_acknowledge F T i s)) \<and>
    alerts_ok (snd (alerts_resolve F T i s)) \<and> alerts_ok (snd (alerts_linkTicket F T i k s))"
  using evaluate_effect [OF prod.collapse [symmetric] assms(2)] by_hand_effect [OF assms(2)] assms(1) by blast

theorem one_active_alert_per_monitor_witness:
  "alerts_ok (snd (evaluate unary_format utc_only toy_html (\<lambda>_. None) True 1
     \<lparr>em_id = 50, em_name = ''web'', em_resourceId = 60, em_consecutiveFailuresToAlert = 1, em_minFailingLocations = None\<rparr>
     \<lparr>cr_status = Down, cr_responseTimeMs = None, cr_rawOutput = JObj []\<rparr> watched))"
  using one_active_alert_per_monitor [of watched] by (simp add: alerts_ok_def)

text \<open>
  C7. Alerts refine their state machine: whatever the engine and the operators do, every alert stays, keeps
  its monitor, its text and its time of opening, and its status moves along the machine from open to
  acknowledged to resolved; in particular a resolved alert is never opened again.
\<close>

theorem alerts_follow_machine:
  assumes "distinct (map row_id (alerts s))"
    and "t \<in> {snd (evaluate F I H P b T m result s), snd (alerts_acknowledge F T i s), snd (alerts_resolve F T i s), snd (alerts_linkTicket F T i k s)}"
    and "a \<in> set (alerts s)"
  shows "\<exists>c \<in> set (alerts t). row_id c = row_id a \<and> at_monitor_id c = at_monitor_id a \<and> at_opened_at c = at_opened_at a \<and>
    at_reason_text c = at_reason_text a \<and> alert_move\<^sup>*\<^sup>* (at_status a) (at_status c) \<and>
    (at_status a = Alert_Resolved \<longrightarrow> at_status c = Alert_Resolved)"
proof -
  have "moved s t"
    using assms(2) evaluate_effect [OF prod.collapse [symmetric] assms(1)] by_hand_effect [OF assms(1)] by blast
  with assms(3) obtain c where "c \<in> set (alerts t)" "row_id c = row_id a" "at_monitor_id c = at_monitor_id a" "at_opened_at c = at_opened_at a"
    "at_reason_text c = at_reason_text a" "alert_move\<^sup>*\<^sup>* (at_status a) (at_status c)" unfolding moved_def by blast
  with resolved_final show ?thesis by metis
qed

definition open_alert :: alert where
  "open_alert = \<lparr>row_id = 70, tenant_id = 1, at_monitor_id = 50, at_alert_rule_id = Some 51, at_severity = Sev_Critical, at_status = Alert_Open,
     at_reason_text = ''web is down.'', at_repeat_count = 0, at_linked_ticket = None, at_opened_at = 0, at_last_seen_at = 0,
     at_acknowledged_at = None, at_resolved_at = None, at_last_escalated_step = -1\<rparr>"

theorem alerts_follow_machine_witness:
  "\<exists>c \<in> set (alerts (snd (alerts_acknowledge unary_format 1 70 (watched\<lparr>alerts := [open_alert]\<rparr>)))). row_id c = 70 \<and>
     alert_move\<^sup>*\<^sup>* Alert_Open (at_status c)"
  using alerts_follow_machine [of "watched\<lparr>alerts := [open_alert]\<rparr>" "snd (alerts_acknowledge unary_format 1 70 (watched\<lparr>alerts := [open_alert]\<rparr>))"
      unary_format utc_only toy_html "\<lambda>_. None" True 1 undefined undefined 70 0 open_alert]
  by (auto simp: open_alert_def)

section \<open>When an alert opens\<close>

text \<open>Linking touches the new alert only.\<close>

lemma link_new_alert:
  assumes "next_uuid s \<notin> row_id ` set (alerts s)"
  shows "update_rows T (\<lambda>a. by_id (next_uuid s) a \<and> at_linked_ticket a = None) (\<lambda>a. a\<lparr>at_linked_ticket := Some k\<rparr>)
      (alerts s @ [new_alert T m rule msg1 s]) = alerts s @ [(new_alert T m rule msg1 s)\<lparr>at_linked_ticket := Some k\<rparr>]"
proof -
  have "map (\<lambda>a. if tenant_isolation T a \<and> by_id (next_uuid s) a \<and> at_linked_ticket a = None then a\<lparr>at_linked_ticket := Some k\<rparr> else a) (alerts s) = alerts s"
    by (rule map_idI) (use assms in \<open>force simp: by_id_def\<close>)
  then show ?thesis by (simp add: update_rows_def new_alert_def tenant_isolation_def by_id_def)
qed

lemma created_alerts:
  assumes "alerts t = alerts u \<or> (\<exists>i msg k. Created (next_uuid s) msg0 = Created i msg \<and>
         alerts t = update_rows T (\<lambda>a. by_id i a \<and> at_linked_ticket a = None) (\<lambda>a. a\<lparr>at_linked_ticket := Some k\<rparr>) (alerts u))"
    and "u = s\<lparr>next_uuid := Suc (next_uuid s), alerts := alerts s @ [new_alert T m rule msg1 s]\<rparr>" and "next_uuid s \<notin> row_id ` set (alerts s)"
  shows "\<exists>k. alerts t = alerts s @ [(new_alert T m rule msg1 s)\<lparr>at_linked_ticket := k\<rparr>]"
  using assms(1)
proof (elim disjE exE conjE)
  assume "alerts t = alerts u"
  then have "alerts t = alerts s @ [(new_alert T m rule msg1 s)\<lparr>at_linked_ticket := None\<rparr>]" by (simp add: assms(2) new_alert_def)
  then show ?thesis by blast
next
  fix i msg k
  assume "Created (next_uuid s) msg0 = Created i msg"
    "alerts t = update_rows T (\<lambda>a. by_id i a \<and> at_linked_ticket a = None) (\<lambda>a. a\<lparr>at_linked_ticket := Some k\<rparr>) (alerts u)"
  with link_new_alert [OF assms(3)] assms(2) have "alerts t = alerts s @ [(new_alert T m rule msg1 s)\<lparr>at_linked_ticket := Some k\<rparr>]" by simp
  then show ?thesis by blast
qed

text \<open>
  An alert opens only on evidence: when a call of the engine adds an alert, the monitor has an enabled
  rule of the tenant and had no active alert, the new alert is its only change to the alerts and carries
  the severity of the rule, and the rule was met: for a status rule the check and the whole configured
  number of newest checks are failing and, where a quorum is configured, so many locations have a failing
  newest check; for a metric rule the newest value and all of the configured number of newest values
  violate it.
\<close>

theorem alert_opens_on_evidence:
  assumes "evaluate F I H P b T m result s = (r, t)" and "length (alerts t) \<noteq> length (alerts s)" and "next_uuid s \<notin> row_id ` set (alerts s)"
  shows "\<exists>rule \<in> set (alert_rules s). tenant_id rule = T \<and> al_monitor_id rule = em_id m \<and> al_is_enabled rule \<and>
    (\<forall>a \<in> set (alerts s). active a \<longrightarrow> at_monitor_id a \<noteq> em_id m) \<and>
    (\<exists>a. alerts t = alerts s @ [a] \<and> at_monitor_id a = em_id m \<and> tenant_id a = T \<and> at_severity a = al_severity rule \<and> at_status a = Alert_Open) \<and>
    (if al_rule_kind rule = Rk_Status
     then failing rule (cr_status result) \<and> length (recent_checks T (em_id m) (em_consecutiveFailuresToAlert m) s) = em_consecutiveFailuresToAlert m \<and>
       (\<forall>c \<in> set (recent_checks T (em_id m) (em_consecutiveFailuresToAlert m) s). failing rule (mc_status c)) \<and>
       (case em_minFailingLocations m of None \<Rightarrow> True | Some n \<Rightarrow> n \<le> 1 \<or> n \<le> length (failing_locations T (em_id m) rule s))
     else \<exists>e. evaluateMetricRule P T (em_id m) rule s = Inr (e, s) \<and> me_isBad e \<and> me_thresholdReached e)"
  using assms(1)
proof (cases rule: evaluate_run)
  case (failed e)
  with assms(2) show ?thesis by simp
next
  case (ran outcome u)
  from ran(1) show ?thesis
  proof (cases rule: applyToDatabase_run)
    case unchanged
    with ran(2) assms(2) show ?thesis by auto
  next
    case (recovered a)
    with ran(2) assms(2) show ?thesis by auto
  next
    case (repeat a nb)
    with ran(2) assms(2) show ?thesis by auto
  next
    case (created rule reasonText)
    from created_alerts [OF ran(2) [unfolded created(7)] created(8) assms(3)] obtain k where
      "alerts t = alerts s @ [(new_alert T m rule reasonText s)\<lparr>at_linked_ticket := k\<rparr>]" ..
    then have "\<exists>a. alerts t = alerts s @ [a] \<and> at_monitor_id a = em_id m \<and> tenant_id a = T \<and> at_severity a = al_severity rule \<and> at_status a = Alert_Open"
      by (simp add: new_alert_def)
    with created show ?thesis
      by (intro bexI [of _ rule]) (auto simp: observed_failing_def status_threshold_reached_def quorum_def Let_def list_all_iff not_less split: option.splits if_splits)
  qed
qed


lemma evaluate_keeps_links:
  assumes "evaluate F I H P b T m result s = (r, t)" and "next_uuid s \<notin> row_id ` set (alerts s)" and "a \<in> set (alerts s)"
  shows "\<exists>c \<in> set (alerts t). row_id c = row_id a \<and> at_monitor_id c = at_monitor_id a \<and> at_linked_ticket c = at_linked_ticket a"
  using assms(1)
proof (cases rule: evaluate_run)
  case (failed e)
  with assms(3) show ?thesis by auto
next
  case (ran outcome u)
  have upd: "\<exists>c \<in> set (update_rows T W f (alerts s)). row_id c = row_id a \<and> at_monitor_id c = at_monitor_id a \<and> at_linked_ticket c = at_linked_ticket a"
    if "\<And>x. row_id (f x) = row_id x \<and> at_monitor_id (f x) = at_monitor_id x \<and> at_linked_ticket (f x) = at_linked_ticket x" for W f
    by (rule bexI [of _ "if tenant_isolation T a \<and> W a then f a else a"]) (use that assms(3) in \<open>auto simp: update_rows_def\<close>)
  from ran(1) show ?thesis
  proof (cases rule: applyToDatabase_run)
    case unchanged
    with ran(2) assms(3) show ?thesis by auto
  next
    case (recovered a)
    with ran(2) have "alerts t = alerts u" by auto
    with upd show ?thesis by (simp add: recovered)
  next
    case (repeat a nb)
    with ran(2) have "alerts t = alerts u" by auto
    with upd show ?thesis by (simp add: repeat)
  next
    case (created rule reasonText)
    from created_alerts [OF ran(2) [unfolded created(7)] created(8) assms(2)] assms(3) show ?thesis by auto
  qed
qed

text \<open>
  An alert gets its ticket in the call that opens it or never: the engine never changes the ticket of
  an alert that exists. So an alert opened while Redis is down stays without a ticket: the event cannot be
  published, the call raises before the ticket is requested, and no later evaluation of the monitor, with
  Redis up again and the internal endpoint answering, links one.
\<close>

theorem alert_without_redis_never_ticketed:
  assumes "evaluate F I H P b T m result s = (r, t)" and "\<not> redis_up s" and "length (alerts t) \<noteq> length (alerts s)"
    and "next_uuid s \<notin> row_id ` set (alerts s)"
    and "evaluate F' I' H' P' b' T m' result' (t\<lparr>redis_up := True, clock := later\<rparr>) = (r', u)" and "next_uuid t \<notin> row_id ` set (alerts t)"
  shows "r = Inl redis_error \<and> tickets t = tickets s \<and>
    (\<exists>c \<in> set (alerts u). row_id c = next_uuid s \<and> at_monitor_id c = em_id m \<and> at_linked_ticket c = None)"
proof -
  obtain outcome v where v: "applyToDatabase F P T m result T s = Inr (outcome, v)"
    and n: "alerts t = alerts v \<or> (\<exists>i msg k. outcome = Created i msg \<and>
         alerts t = update_rows T (\<lambda>a. by_id i a \<and> at_linked_ticket a = None) (\<lambda>a. a\<lparr>at_linked_ticket := Some k\<rparr>) (alerts v))"
    using assms(1,3) by (cases rule: evaluate_run) auto
  from v show ?thesis
  proof (cases rule: applyToDatabase_run)
    case (created rule reasonText)
    have "\<exists>w. publish T ''alert.created'' (JObj [(''alertId'', JId (next_uuid s)), (''monitorId'', JId (em_id m))]) v = (Inl redis_error, w) \<and>
        alerts w = alerts v \<and> tickets w = tickets v"
      using assms(2) by (simp add: publish_run Let_def created)
    then obtain w where pub: "publish T ''alert.created'' (JObj [(''alertId'', JId (next_uuid s)), (''monitorId'', JId (em_id m))]) v = (Inl redis_error, w)"
      and w: "alerts w = alerts v" "tickets w = tickets v" by blast
    have "evaluate F I H P b T m result s = (Inl redis_error, w)"
      using v pub by (simp add: evaluate_def withTenantContext_def act_bind_def created)
    with assms(1) have t: "r = Inl redis_error" "t = w" by simp_all
    let ?new = "new_alert T m rule reasonText s"
    have "?new \<in> set (alerts (t\<lparr>redis_up := True, clock := later\<rparr>))" by (simp add: t w created)
    from evaluate_keeps_links [OF assms(5) _ this] assms(6)
    have "\<exists>c \<in> set (alerts u). row_id c = next_uuid s \<and> at_monitor_id c = em_id m \<and> at_linked_ticket c = None"
      by (simp add: new_alert_def)
    with t w show ?thesis by (simp add: created)
  qed (use n assms(3) in auto)
qed

text \<open>The tenant of the examples, with a check that failed.\<close>

definition web_down :: EvaluatedMonitor where
  "web_down = \<lparr>em_id = 50, em_name = ''web'', em_resourceId = 60, em_consecutiveFailuresToAlert = 1, em_minFailingLocations = None\<rparr>"

definition timeout :: CheckResult where
  "timeout = \<lparr>cr_status = Down, cr_responseTimeMs = None, cr_rawOutput = JObj []\<rparr>"

definition failing_web :: monitoring where
  "failing_web = watched\<lparr>redis_up := False, monitor_checks := [\<lparr>row_id = 80, tenant_id = 1, mc_monitor_id = 50, mc_status = Down,
     mc_response_time_ms = None, mc_raw_output = JObj [], mc_location = ''default'', mc_checked_at = 0\<rparr>]\<rparr>"

lemma failing_web_opens:
  "\<exists>t. evaluate unary_format utc_only toy_html (\<lambda>_. None) True 1 web_down timeout failing_web = (Inl redis_error, t) \<and>
     length (alerts t) = 1 \<and> row_id ` set (alerts t) = {100} \<and> next_uuid t = 102"
  by (simp add: evaluate_def withTenantContext_def applyToDatabase_def decide_def sql_first_def tx_bind_def failing_web_def web_rule_def
      web_down_def timeout_def tenant_isolation_def failing_def statusIn_def check_status_text_def status_threshold_reached_def recent_checks_def
      order_by_def Let_def quorum_def insert_alert_def fk_check_def web_monitor_def gen_random_uuid_def sql_now_def sql_insert_def act_bind_def
      publish_run del: One_nat_def)

theorem alert_opens_on_evidence_witness:
  "\<exists>rule \<in> set (alert_rules failing_web). failing rule Down \<and> length (recent_checks 1 50 1 failing_web) = 1"
proof -
  obtain t where t: "evaluate unary_format utc_only toy_html (\<lambda>_. None) True 1 web_down timeout failing_web = (Inl redis_error, t)"
    and "length (alerts t) = 1" using failing_web_opens by blast
  then have "length (alerts t) \<noteq> length (alerts failing_web)" "next_uuid failing_web \<notin> row_id ` set (alerts failing_web)"
    by (simp_all add: failing_web_def)
  from alert_opens_on_evidence [OF t this] show ?thesis by (auto simp: failing_web_def web_rule_def web_down_def timeout_def del: One_nat_def)
qed

theorem alert_without_redis_never_ticketed_witness:
  "\<exists>t r u. evaluate unary_format utc_only toy_html (\<lambda>_. None) True 1 web_down timeout failing_web = (Inl redis_error, t) \<and>
     evaluate unary_format utc_only toy_html (\<lambda>_. None) True 1 web_down timeout (t\<lparr>redis_up := True, clock := 60000\<rparr>) = (r, u) \<and>
     (\<exists>c \<in> set (alerts u). at_linked_ticket c = None)"
proof -
  obtain t where t: "evaluate unary_format utc_only toy_html (\<lambda>_. None) True 1 web_down timeout failing_web = (Inl redis_error, t)"
    and n: "length (alerts t) = 1" "row_id ` set (alerts t) = {100}" "next_uuid t = 102" using failing_web_opens by blast
  then have h: "\<not> redis_up failing_web" "length (alerts t) \<noteq> length (alerts failing_web)" "next_uuid failing_web \<notin> row_id ` set (alerts failing_web)"
    "next_uuid t \<notin> row_id ` set (alerts t)"
    by (simp_all add: failing_web_def)
  obtain r u where u: "evaluate unary_format utc_only toy_html (\<lambda>_. None) True 1 web_down timeout (t\<lparr>redis_up := True, clock := 60000\<rparr>) = (r, u)"
    by fastforce
  from alert_without_redis_never_ticketed [OF t h(1,2,3) u h(4)] t u show ?thesis by blast
qed

end
