(* ===== verification/Escalation.thy ===== *)
theory Escalation
  imports Alert_Evaluation "HOL-Library.List_Lexorder" "HOL-Library.Char_ord"
begin

text \<open>
  Escalation of alerts: the services of policies, on-call schedules, notification templates and downtime
  events (\<open>escalation-policies.service.ts\<close>, \<open>on-call-schedules.service.ts\<close>,
  \<open>notification-templates.service.ts\<close>, \<open>downtime-events.service.ts\<close>), the rendering of templates
  (\<open>notification-template-render.ts\<close>) and the sweep that walks the steps of a policy
  (\<open>escalation-sweep.service.ts\<close>). The lemmas: rendering replaces exactly the known variables, and a sweep
  fires each step once, in order and not before its delay.
\<close>

section \<open>Templates\<close>

definition name_start :: "char \<Rightarrow> bool" where
  "name_start c \<longleftrightarrow> (let n = (of_char c :: nat) in 65 \<le> n \<and> n \<le> 90) \<or> c = CHR ''_''"

definition name_char :: "char \<Rightarrow> bool" where
  "name_char c \<longleftrightarrow> name_start c \<or> js_digit c"

text \<open>\<open>/\$([A-Z_][A-Z0-9_]*)/g\<close>: the names are matched greedily, from left to right.\<close>

function renderNotificationTemplate :: "string \<Rightarrow> (string \<times> string) list \<Rightarrow> string" where
  "renderNotificationTemplate [] vars = []"
| "renderNotificationTemplate (c # cs) vars =
     (if c = CHR ''$'' \<and> cs \<noteq> [] \<and> name_start (hd cs)
      then (let name = takeWhile name_char cs in
        (case map_of vars name of Some v \<Rightarrow> v | None \<Rightarrow> c # name) @ renderNotificationTemplate (drop (length name) cs) vars)
      else c # renderNotificationTemplate cs vars)"
  by pat_completeness auto
termination
  by (relation "measure (\<lambda>(s, _). length s)") (auto simp: Let_def)

record UpdateNotificationTemplate =
  un_subject :: "string option option"
  un_body :: "string option option"
  un_isDefault :: "bool option option"

definition templates_list :: "uuid \<Rightarrow> ('s monitoring_scheme, notification_template list) act" where
  "templates_list tenantId = withTenantContext tenantId (\<lambda>qr.
     tx_bind (sql_select notification_templates qr (\<lambda>_. True)) (\<lambda>rows. tx_return (order_by (\<lambda>p. (np_channel p, np_event_type p)) rows)))"

text \<open>The partial unique index: one default per tenant, channel and event type.\<close>

definition default_clash :: "notification_template \<Rightarrow> notification_template list \<Rightarrow> bool" where
  "default_clash p rows \<longleftrightarrow> np_is_default p \<and> (\<exists>q \<in> set rows. row_id q \<noteq> row_id p \<and> np_is_default q \<and> tenant_id q = tenant_id p \<and>
     np_channel q = np_channel p \<and> np_event_type q = np_event_type p)"

definition templates_create ::
  "uuid \<Rightarrow> string \<Rightarrow> string \<Rightarrow> string option \<Rightarrow> string \<Rightarrow> bool option \<Rightarrow> ('s monitoring_scheme, notification_template) act" where
  "templates_create tenantId channel eventType subject body isDefault = withTenantContext tenantId (\<lambda>qr.
     tx_translate unique_violation (BadRequest (''A default template already exists for '' @ channel @ ''/'' @ eventType))
       (tx_bind gen_random_uuid (\<lambda>i. tx_bind sql_now (\<lambda>now.
        let row = \<lparr>row_id = i, tenant_id = tenantId, np_channel = channel, np_event_type = eventType, np_subject = subject, np_body = body,
          np_is_default = (case isDefault of None \<Rightarrow> False | Some b \<Rightarrow> b), np_created_at = now, np_updated_at = now\<rparr> in
        tx_bind (tx_gets (\<lambda>s. default_clash row (notification_templates s))) (\<lambda>dup.
        if dup then tx_throw unique_violation else sql_insert notification_templates_update qr row)))))"

definition templates_update_row :: "uuid \<Rightarrow> uuid \<Rightarrow> UpdateNotificationTemplate \<Rightarrow> ('s monitoring_scheme, notification_template) act" where
  "templates_update_row tenantId i dto = withTenantContext tenantId (\<lambda>qr.
     tx_bind (find_row ''Notification template'' notification_templates qr i) (\<lambda>existing.
     tx_bind sql_now (\<lambda>now.
     let sets = set_nullable (un_subject dto) (\<lambda>v p. p\<lparr>np_subject := v\<rparr>) @ set_required (un_body dto) (\<lambda>v p. p\<lparr>np_body := v\<rparr>) @
       set_required (un_isDefault dto) (\<lambda>v p. p\<lparr>np_is_default := v\<rparr>); stamp = [Some (\<lambda>p. p\<lparr>np_updated_at := now\<rparr>)] in
     tx_translate unique_violation (BadRequest ''A default template already exists for this channel/event_type'')
       (tx_bind (tx_gets (\<lambda>s. sets \<noteq> [] \<and> None \<notin> set sets \<and> default_clash (apply_assignments (sets @ stamp) existing) (notification_templates s))) (\<lambda>dup.
        if dup then tx_throw unique_violation
        else patch_row ''Notification template'' notification_templates notification_templates_update qr i sets stamp)))))"

definition templates_remove :: "uuid \<Rightarrow> uuid \<Rightarrow> ('s monitoring_scheme, unit) act" where
  "templates_remove tenantId i = withTenantContext tenantId (\<lambda>qr.
     remove_row ''Notification template'' notification_templates notification_templates_update qr i)"

section \<open>Policies\<close>

record UpdateEscalationPolicy =
  ue_name :: "string option option"
  ue_steps :: "EscalationStep list option option"

definition policies_list :: "uuid \<Rightarrow> ('s monitoring_scheme, escalation_policy list) act" where
  "policies_list tenantId = withTenantContext tenantId (\<lambda>qr.
     tx_bind (sql_select escalation_policies qr (\<lambda>_. True)) (\<lambda>rows. tx_return (order_by ep_name rows)))"

definition policies_create :: "uuid \<Rightarrow> string \<Rightarrow> EscalationStep list \<Rightarrow> ('s monitoring_scheme, escalation_policy) act" where
  "policies_create tenantId name steps = withTenantContext tenantId (\<lambda>qr.
     tx_bind gen_random_uuid (\<lambda>i. tx_bind sql_now (\<lambda>now.
     sql_insert escalation_policies_update qr
       \<lparr>row_id = i, tenant_id = tenantId, ep_name = name, ep_steps = Some steps, ep_created_at = now, ep_updated_at = now\<rparr>)))"

definition policies_update_row :: "uuid \<Rightarrow> uuid \<Rightarrow> UpdateEscalationPolicy \<Rightarrow> ('s monitoring_scheme, escalation_policy) act" where
  "policies_update_row tenantId i dto = withTenantContext tenantId (\<lambda>qr.
     tx_bind (find_row ''Escalation policy'' escalation_policies qr i) (\<lambda>_.
     tx_bind sql_now (\<lambda>now.
     patch_row ''Escalation policy'' escalation_policies escalation_policies_update qr i
       (set_required (ue_name dto) (\<lambda>v p. p\<lparr>ep_name := v\<rparr>) @ set_nullable (ue_steps dto) (\<lambda>v p. p\<lparr>ep_steps := v\<rparr>))
       [Some (\<lambda>p. p\<lparr>ep_updated_at := now\<rparr>)])))"

definition policies_remove :: "uuid \<Rightarrow> uuid \<Rightarrow> ('s monitoring_scheme, unit) act" where
  "policies_remove tenantId i = withTenantContext tenantId (\<lambda>qr.
     remove_referenced ''Escalation policy'' escalation_policies escalation_policies_update qr i
       (on_delete_set_null alert_rules_update al_escalation_policy_id (\<lambda>r. r\<lparr>al_escalation_policy_id := None\<rparr>) i))"

section \<open>On-call schedules\<close>

record UpdateOnCallSchedule =
  uo_scheduleName :: "string option option"
  uo_entries :: "on_call_entry list option option"

definition onCall_list :: "uuid \<Rightarrow> ('s monitoring_scheme, on_call_schedule list) act" where
  "onCall_list tenantId = withTenantContext tenantId (\<lambda>qr.
     tx_bind (sql_select on_call_schedules qr (\<lambda>_. True)) (\<lambda>rows. tx_return (order_by os_name rows)))"

definition currentOnCall :: "uuid \<Rightarrow> uuid \<Rightarrow> ('s monitoring_scheme, uuid option) act" where
  "currentOnCall tenantId i = withTenantContext tenantId (\<lambda>qr.
     tx_bind (find_row ''On-call schedule'' on_call_schedules qr i) (\<lambda>schedule.
     tx_bind sql_now (\<lambda>now. case os_entries schedule of
       None \<Rightarrow> tx_throw (Failure ''Cannot read properties of null'')
     | Some entries \<Rightarrow> tx_return (map_option oc_agentId (first_of (filter (\<lambda>e. oc_startsAt e \<le> now \<and> now < oc_endsAt e) entries))))))"

definition onCall_create :: "uuid \<Rightarrow> string \<Rightarrow> on_call_entry list \<Rightarrow> ('s monitoring_scheme, on_call_schedule) act" where
  "onCall_create tenantId name entries = withTenantContext tenantId (\<lambda>qr.
     tx_bind gen_random_uuid (\<lambda>i. tx_bind sql_now (\<lambda>now.
     sql_insert on_call_schedules_update qr
       \<lparr>row_id = i, tenant_id = tenantId, os_name = name, os_entries = Some entries, os_created_at = now, os_updated_at = now\<rparr>)))"

definition onCall_update_row :: "uuid \<Rightarrow> uuid \<Rightarrow> UpdateOnCallSchedule \<Rightarrow> ('s monitoring_scheme, on_call_schedule) act" where
  "onCall_update_row tenantId i dto = withTenantContext tenantId (\<lambda>qr.
     tx_bind (find_row ''On-call schedule'' on_call_schedules qr i) (\<lambda>_.
     tx_bind sql_now (\<lambda>now.
     patch_row ''On-call schedule'' on_call_schedules on_call_schedules_update qr i
       (set_required (uo_scheduleName dto) (\<lambda>v p. p\<lparr>os_name := v\<rparr>) @ set_nullable (uo_entries dto) (\<lambda>v p. p\<lparr>os_entries := v\<rparr>))
       [Some (\<lambda>p. p\<lparr>os_updated_at := now\<rparr>)])))"

definition onCall_remove :: "uuid \<Rightarrow> uuid \<Rightarrow> ('s monitoring_scheme, unit) act" where
  "onCall_remove tenantId i = withTenantContext tenantId (\<lambda>qr. remove_row ''On-call schedule'' on_call_schedules on_call_schedules_update qr i)"

section \<open>Downtime\<close>

definition downtime_list :: "uuid \<Rightarrow> ('s monitoring_scheme, downtime_event list) act" where
  "downtime_list tenantId = withTenantContext tenantId (\<lambda>qr.
     tx_bind (sql_select downtime_events qr (\<lambda>_. True)) (\<lambda>rows. tx_return (order_by (\<lambda>d. - de_starts_at d) rows)))"

definition downtime_create :: "uuid \<Rightarrow> uuid \<Rightarrow> uuid option \<Rightarrow> string \<Rightarrow> uuid option \<Rightarrow> ('s monitoring_scheme, downtime_event) act" where
  "downtime_create tenantId resourceId monitorId reason createdBy = withTenantContext tenantId (\<lambda>qr.
     tx_bind (find_row ''Resource'' resources qr resourceId) (\<lambda>_.
     tx_bind (case monitorId of None \<Rightarrow> tx_return () | Some m \<Rightarrow> fk_check monitors m) (\<lambda>_.
     tx_bind gen_random_uuid (\<lambda>i. tx_bind sql_now (\<lambda>now.
     sql_insert downtime_events_update qr \<lparr>row_id = i, tenant_id = tenantId, de_resource_id = resourceId, de_monitor_id = monitorId,
       de_reason = reason, de_starts_at = now, de_ends_at = None, de_is_manual = True, de_created_by = createdBy, de_recorded_at = now\<rparr>)))))"

definition downtime_end :: "js_format \<Rightarrow> uuid \<Rightarrow> uuid \<Rightarrow> ('s monitoring_scheme, downtime_event) act" where
  "downtime_end F tenantId i = withTenantContext tenantId (\<lambda>qr.
     tx_bind (find_row ''Downtime event'' downtime_events qr i) (\<lambda>existing.
     if de_ends_at existing \<noteq> None then tx_throw (BadRequest (''Downtime event '' @ fmt_uuid F i @ '' has already ended''))
     else tx_bind sql_now (\<lambda>now.
       tx_bind (sql_update downtime_events downtime_events_update qr (by_id i) (\<lambda>d. d\<lparr>de_ends_at := Some now\<rparr>)) (first_row ''Downtime event'' i))))"

section \<open>The sweep\<close>

record PendingEscalation =
  pe_alertId :: uuid
  pe_monitorName :: string
  pe_severity :: string
  pe_reasonText :: string
  pe_step :: EscalationStep
  pe_stepNumber :: nat

definition severity_text :: "alert_severity \<Rightarrow> string" where
  "severity_text v = (case v of Sev_Info \<Rightarrow> ''info'' | Sev_Warning \<Rightarrow> ''warning'' | Sev_Critical \<Rightarrow> ''critical'')"

definition EVENT_TYPE :: string where
  "EVENT_TYPE = ''alert.escalated''"

definition DEFAULT_BODY :: string where
  "DEFAULT_BODY = ''Alert escalation, step $STEP_NUMBER: $MONITOR_NAME is $SEVERITY. $REASON''"

text \<open>Active alerts joined with their rule, its policy and their monitor.\<close>

definition due_alerts :: "query_runner \<Rightarrow> 's monitoring_scheme \<Rightarrow> (alert \<times> string \<times> EscalationStep list) list" where
  "due_alerts qr s = concat (map (\<lambda>a. concat (map (\<lambda>r. concat (map (\<lambda>p. map (\<lambda>m.
       (a, mo_name m, case ep_steps p of None \<Rightarrow> [] | Some steps \<Rightarrow> steps))
       (filter (by_id (at_monitor_id a)) (visible qr (monitors s))))
     (filter (\<lambda>p. al_escalation_policy_id r = Some (row_id p)) (visible qr (escalation_policies s)))))
     (filter (\<lambda>r. at_alert_rule_id a = Some (row_id r)) (visible qr (alert_rules s)))))
     (filter active (visible qr (alerts s))))"

text \<open>The next step of an alert, if there is one and its delay has passed.\<close>

definition next_step :: "msec \<Rightarrow> alert \<times> string \<times> EscalationStep list \<Rightarrow> PendingEscalation option" where
  "next_step now d = (case d of (a, monitorName, steps) \<Rightarrow>
     let nextIndex = nat (at_last_escalated_step a + 1) in
     if nextIndex \<ge> length steps then None
     else if now < at_opened_at a + es_delayMinutes (steps ! nextIndex) * 60000 then None
     else Some \<lparr>pe_alertId = row_id a, pe_monitorName = monitorName, pe_severity = severity_text (at_severity a),
       pe_reasonText = at_reason_text a, pe_step = steps ! nextIndex, pe_stepNumber = nextIndex\<rparr>)"

definition escalate_one ::
  "query_runner \<Rightarrow> alert \<times> string \<times> EscalationStep list \<Rightarrow> PendingEscalation list \<Rightarrow> ('s monitoring_scheme, PendingEscalation list) tx" where
  "escalate_one qr d actions =
     (if at_last_escalated_step (fst d) + 1 < 0 then tx_throw (Failure ''Cannot read properties of undefined'')
      else tx_bind sql_now (\<lambda>now. case next_step now d of
        None \<Rightarrow> tx_return actions
      | Some p \<Rightarrow> tx_bind (sql_update alerts alerts_update qr (by_id (pe_alertId p)) (\<lambda>a. a\<lparr>at_last_escalated_step := int (pe_stepNumber p)\<rparr>)) (\<lambda>_.
          tx_return (actions @ [p]))))"

definition collect_pending :: "query_runner \<Rightarrow> ('s monitoring_scheme, PendingEscalation list) tx" where
  "collect_pending qr = tx_bind (tx_gets (due_alerts qr)) (\<lambda>dueAlerts. tx_fold (escalate_one qr) dueAlerts [])"

definition renderBody :: "uuid \<Rightarrow> string \<Rightarrow> PendingEscalation \<Rightarrow> ('s monitoring_scheme, string) act" where
  "renderBody tenantId channel action = withTenantContext tenantId (\<lambda>qr.
     tx_bind (sql_first notification_templates qr (\<lambda>p. np_channel p = channel \<and> np_event_type p = EVENT_TYPE \<and> np_is_default p)) (\<lambda>template.
     tx_return (renderNotificationTemplate (case template of None \<Rightarrow> DEFAULT_BODY | Some p \<Rightarrow> np_body p)
       [(''MONITOR_NAME'', pe_monitorName action), (''SEVERITY'', pe_severity action), (''REASON'', pe_reasonText action),
        (''STEP_NUMBER'', nat_text (pe_stepNumber action + 1))])))"

definition notify_one :: "uuid \<Rightarrow> PendingEscalation \<Rightarrow> notify_target \<Rightarrow> ('s monitoring_scheme, unit) act" where
  "notify_one tenantId action target =
     act_bind (renderBody tenantId (nt_channel target) action) (\<lambda>body.
     act_bind (enqueue tenantId (nt_channel target) (nt_recipient target) ''monitoring.escalation''
       (JObj [(''subject'', JStr (''Alert escalation: '' @ pe_monitorName action)), (''body'', JStr body)])) (\<lambda>_. act_return ()))"

definition escalation_sweepTenant :: "uuid \<Rightarrow> ('s monitoring_scheme, nat) act" where
  "escalation_sweepTenant tenantId =
     act_bind (withTenantContext tenantId collect_pending) (\<lambda>pending.
     act_bind (act_fold (\<lambda>action _. act_fold (\<lambda>target _. notify_one tenantId action target) (es_notify (pe_step action)) ()) pending ()) (\<lambda>_.
     act_return (length pending)))"

definition escalation_add_tenant :: "tenant \<Rightarrow> nat \<Rightarrow> ('s monitoring_scheme, nat) act" where
  "escalation_add_tenant t n = act_catch (act_bind (escalation_sweepTenant (tn_id t)) (\<lambda>k. act_return (n + k))) (\<lambda>_. act_return n)"

definition escalation_runSweepOnce :: "bool \<Rightarrow> ('s monitoring_scheme, nat) act" where
  "escalation_runSweepOnce running =
     (if running then act_return 0 else act_bind (act_gets tenants) (\<lambda>ts. act_fold escalation_add_tenant ts 0))"

section \<open>What a sweep does\<close>

lemma escalate_one_run:
  assumes "escalate_one qr d acts s = Inr (acts', t)"
  shows "- 1 \<le> at_last_escalated_step (fst d) \<and> (case next_step (clock s) d of
     None \<Rightarrow> acts' = acts \<and> t = s
   | Some p \<Rightarrow> acts' = acts @ [p] \<and> t = s\<lparr>alerts := update_rows qr (by_id (pe_alertId p))
       (\<lambda>a. a\<lparr>at_last_escalated_step := int (pe_stepNumber p)\<rparr>) (alerts s)\<rparr>)"
  using assms
  by (auto simp: escalate_one_def sql_now_def sql_update_def Let_def tx_bind_def split: if_splits option.splits)

definition mark_step :: "query_runner \<Rightarrow> PendingEscalation \<Rightarrow> alert list \<Rightarrow> alert list" where
  "mark_step qr p = update_rows qr (by_id (pe_alertId p)) (\<lambda>a. a\<lparr>at_last_escalated_step := int (pe_stepNumber p)\<rparr>)"

definition pending_steps :: "query_runner \<Rightarrow> 's monitoring_scheme \<Rightarrow> PendingEscalation list" where
  "pending_steps qr s = List.map_filter (next_step (clock s)) (due_alerts qr s)"

lemma escalate_all_run:
  assumes "tx_fold (escalate_one qr) ds acts s = Inr (out, t)"
  shows "out = acts @ List.map_filter (next_step (clock s)) ds \<and>
    t = s\<lparr>alerts := fold (mark_step qr) (List.map_filter (next_step (clock s)) ds) (alerts s)\<rparr> \<and>
    (\<forall>d \<in> set ds. - 1 \<le> at_last_escalated_step (fst d))"
  using assms
proof (induction ds arbitrary: acts s)
  case Nil
  then show ?case by (simp add: map_filter_simps)
next
  case (Cons d ds)
  then obtain acts' u where one: "escalate_one qr d acts s = Inr (acts', u)" and rest: "tx_fold (escalate_one qr) ds acts' u = Inr (out, t)"
    by (auto elim: tx_bindE)
  note run = escalate_one_run [OF one]
  note tail = Cons.IH [OF rest]
  show ?case
  proof (cases "next_step (clock s) d")
    case None
    with run have "acts' = acts" "u = s" "- 1 \<le> at_last_escalated_step (fst d)" by simp_all
    with tail None show ?thesis by (simp add: map_filter_simps)
  next
    case (Some p)
    with run have "acts' = acts @ [p]" "u = s\<lparr>alerts := mark_step qr p (alerts s)\<rparr>" "- 1 \<le> at_last_escalated_step (fst d)"
      by (simp_all add: mark_step_def)
    with tail Some show ?thesis by (simp add: map_filter_simps)
  qed
qed

lemma collect_pending_run:
  assumes "withTenantContext T collect_pending s = (Inr pending, t)"
  shows "pending = pending_steps T s" and "t = s\<lparr>alerts := fold (mark_step T) (pending_steps T s) (alerts s)\<rparr>"
    and "\<forall>d \<in> set (due_alerts T s). - 1 \<le> at_last_escalated_step (fst d)"
  using escalate_all_run [of T "due_alerts T s" "[]" s pending t] assms
  by (simp_all add: withTenantContext_Inr collect_pending_def pending_steps_def)

lemma pending_stepsE:
  assumes "p \<in> set (pending_steps qr s)"
  obtains a name steps where "(a, name, steps) \<in> set (due_alerts qr s)" and "row_id a = pe_alertId p"
    and "pe_stepNumber p = nat (at_last_escalated_step a + 1)" and "pe_stepNumber p < length steps"
    and "pe_step p = steps ! pe_stepNumber p" and "at_opened_at a + es_delayMinutes (pe_step p) * 60000 \<le> clock s"
  using assms
  by (auto simp: pending_steps_def List.map_filter_def next_step_def Let_def split: if_splits)

lemma due_alertsD:
  "(a, name, steps) \<in> set (due_alerts qr s) \<Longrightarrow> a \<in> set (alerts s) \<and> tenant_id a = qr \<and> active a"
  by (auto simp: due_alerts_def)

text \<open>The join yields an alert at most once, since the keys of the joined tables are unique.\<close>

lemma filter_key_unique: "distinct (map f rs) \<Longrightarrow> length (filter (\<lambda>r. f r = k) rs) \<le> 1"
proof (induction rs)
  case (Cons r rs)
  have "filter (\<lambda>r. f r = k) rs = []" if "f r = k" using Cons.prems that by (auto simp: filter_empty_conv image_iff)
  with Cons show ?case by auto
qed simp

lemma filter_id_unique: "distinct (map row_id rs) \<Longrightarrow> length (filter (by_id k) rs) \<le> 1"
  unfolding by_id_def by (rule filter_key_unique)

lemma filter_ref_unique: "distinct (map row_id rs) \<Longrightarrow> length (filter (\<lambda>r. k = Some (row_id r)) rs) \<le> 1"
  using filter_key_unique [of row_id rs "the k"] by (cases k) (simp_all add: eq_commute)

lemma concat_unique:
  "length xs \<le> 1 \<Longrightarrow> (\<And>x. length (g x) \<le> 1) \<Longrightarrow> length (concat (map g xs)) \<le> 1"
  by (cases xs) auto

definition unique_keys :: "'s monitoring_scheme \<Rightarrow> bool" where
  "unique_keys s \<longleftrightarrow> distinct (map row_id (alerts s)) \<and> distinct (map row_id (alert_rules s)) \<and>
     distinct (map row_id (escalation_policies s)) \<and> distinct (map row_id (monitors s))"

text \<open>Marking is one step forward for the alerts that are pending, and nothing for the others.\<close>

lemma mark_all:
  assumes "\<And>p. p \<in> set ps \<Longrightarrow> tenant_id a = qr \<Longrightarrow> pe_alertId p = row_id a \<Longrightarrow> int (pe_stepNumber p) = k"
  shows "fold (\<lambda>p b. if tenant_isolation qr b \<and> by_id (pe_alertId p) b then b\<lparr>at_last_escalated_step := int (pe_stepNumber p)\<rparr> else b) ps a =
    (if tenant_id a = qr \<and> row_id a \<in> pe_alertId ` set ps then a\<lparr>at_last_escalated_step := k\<rparr> else a)"
  using assms
proof (induction ps arbitrary: a)
  case (Cons p ps)
  let ?b = "if tenant_isolation qr a \<and> by_id (pe_alertId p) a then a\<lparr>at_last_escalated_step := int (pe_stepNumber p)\<rparr> else a"
  have b: "tenant_id ?b = tenant_id a" "row_id ?b = row_id a" by simp_all
  have "q \<in> set ps \<Longrightarrow> tenant_id ?b = qr \<Longrightarrow> pe_alertId q = row_id ?b \<Longrightarrow> int (pe_stepNumber q) = k" for q
    unfolding b using Cons.prems [of q] by simp
  note step = Cons.IH [OF this, unfolded b]
  show ?case
  proof (cases "tenant_id a = qr \<and> pe_alertId p = row_id a")
    case True
    then have "int (pe_stepNumber p) = k" using Cons.prems by simp
    with step True show ?thesis by (simp add: tenant_isolation_def by_id_def)
  next
    case False
    then have skip: "\<not> (tenant_isolation qr a \<and> by_id (pe_alertId p) a)" by (auto simp: tenant_isolation_def by_id_def)
    have "(tenant_id a = qr \<and> row_id a \<in> pe_alertId ` set ps) = (tenant_id a = qr \<and> row_id a \<in> pe_alertId ` set (p # ps))"
      using False by auto
    with step show ?thesis by (simp only: skip if_False fold_simps)
  qed
qed simp

lemma fold_mark_step:
  "fold (mark_step qr) ps rows = map (fold (\<lambda>p b. if tenant_isolation qr b \<and> by_id (pe_alertId p) b
     then b\<lparr>at_last_escalated_step := int (pe_stepNumber p)\<rparr> else b) ps) rows"
  by (induction ps arbitrary: rows) (simp_all add: mark_step_def update_rows_def comp_def)

lemma marked_alerts:
  assumes "unique_keys s" and "\<forall>d \<in> set (due_alerts qr s). - 1 \<le> at_last_escalated_step (fst d)"
  shows "fold (mark_step qr) (pending_steps qr s) (alerts s) =
    map (\<lambda>a. if tenant_id a = qr \<and> row_id a \<in> pe_alertId ` set (pending_steps qr s)
      then a\<lparr>at_last_escalated_step := at_last_escalated_step a + 1\<rparr> else a) (alerts s)"
  unfolding fold_mark_step
proof (rule map_cong [OF refl], rule mark_all)
  fix a p
  assume a: "a \<in> set (alerts s)" and p: "p \<in> set (pending_steps qr s)" and i: "pe_alertId p = row_id a"
  from p obtain b name steps where due: "(b, name, steps) \<in> set (due_alerts qr s)" and b: "row_id b = pe_alertId p"
    and n: "pe_stepNumber p = nat (at_last_escalated_step b + 1)" by (rule pending_stepsE)
  have "b = a" using due_alertsD [OF due] b i a assms(1) by (auto simp: unique_keys_def dest: row_id_inj)
  with n assms(2) due show "int (pe_stepNumber p) = at_last_escalated_step a + 1" by force
qed

text \<open>The notifications of the second phase.\<close>

definition addressees :: "'s platform_scheme \<Rightarrow> (string \<times> string) list" where
  "addressees s = map (\<lambda>n. (nf_channel n, nf_recipient n)) (notifications s)"

definition step_targets :: "PendingEscalation \<Rightarrow> (string \<times> string) list" where
  "step_targets p = map (\<lambda>g. (nt_channel g, nt_recipient g)) (es_notify (pe_step p))"

lemma notify_one_run:
  assumes "notify_one T p g s = (Inr u, t)"
  shows "addressees t = addressees s @ [(nt_channel g, nt_recipient g)] \<and> alerts t = alerts s"
  using assms
  by (auto simp: notify_one_def renderBody_def enqueue_def withTenantContext_def sql_first_def sql_insert_def publish_run
      randomUUID_def Let_def addressees_def act_bind_def tx_bind_def split: if_splits)

lemma notify_step_run:
  assumes "act_fold (\<lambda>g _. notify_one T p g) gs u s = (Inr v, t)"
  shows "addressees t = addressees s @ map (\<lambda>g. (nt_channel g, nt_recipient g)) gs \<and> alerts t = alerts s"
  using assms by (induction gs arbitrary: u s) (auto simp: act_bind_eq_Inr dest!: notify_one_run)

lemma notify_all_run:
  assumes "act_fold (\<lambda>p _. act_fold (\<lambda>g _. notify_one T p g) (es_notify (pe_step p)) ()) ps u s = (Inr v, t)"
  shows "addressees t = addressees s @ concat (map step_targets ps) \<and> alerts t = alerts s"
  using assms by (induction ps arbitrary: u s) (auto simp: act_bind_eq_Inr step_targets_def dest!: notify_step_run)

lemma escalation_sweepTenant_run:
  assumes "unique_keys s" and "escalation_sweepTenant T s = (Inr n, t)"
  shows "n = length (pending_steps T s)" and "addressees t = addressees s @ concat (map step_targets (pending_steps T s))"
    and "alerts t = map (\<lambda>a. if tenant_id a = T \<and> row_id a \<in> pe_alertId ` set (pending_steps T s)
      then a\<lparr>at_last_escalated_step := at_last_escalated_step a + 1\<rparr> else a) (alerts s)"
    and "\<forall>d \<in> set (due_alerts T s). - 1 \<le> at_last_escalated_step (fst d)"
proof -
  obtain pending u where collect: "withTenantContext T collect_pending s = (Inr pending, u)"
    and notified: "act_fold (\<lambda>p _. act_fold (\<lambda>g _. notify_one T p g) (es_notify (pe_step p)) ()) pending () u = (Inr (), t)"
    and n: "n = length pending"
    using assms(2) by (auto simp: escalation_sweepTenant_def act_bind_eq_Inr)
  note run = collect_pending_run [OF collect]
  note told = notify_all_run [OF notified]
  show "n = length (pending_steps T s)" using n run(1) by simp
  show "addressees t = addressees s @ concat (map step_targets (pending_steps T s))"
    using told run(1,2) by (simp add: addressees_def)
  show "\<forall>d \<in> set (due_alerts T s). - 1 \<le> at_last_escalated_step (fst d)" by (rule run(3))
  show "alerts t = map (\<lambda>a. if tenant_id a = T \<and> row_id a \<in> pe_alertId ` set (pending_steps T s)
      then a\<lparr>at_last_escalated_step := at_last_escalated_step a + 1\<rparr> else a) (alerts s)"
    using told run(2) marked_alerts [OF assms(1) run(3)] by simp
qed

section \<open>Which steps fire\<close>

text \<open>
  The step an alert of the tenant is due for, read off the tables: the alert is open or acknowledged,
  its rule names a policy of the tenant, that policy has a step with the number after the last one that
  fired, and the step's delay since the opening of the alert has passed.
\<close>

definition due_step :: "uuid \<Rightarrow> 's monitoring_scheme \<Rightarrow> alert \<Rightarrow> EscalationStep \<Rightarrow> bool" where
  "due_step T s a st \<longleftrightarrow> a \<in> set (alerts s) \<and> tenant_id a = T \<and> at_status a \<in> {Alert_Open, Alert_Acknowledged} \<and>
     (\<exists>m \<in> set (monitors s). tenant_id m = T \<and> row_id m = at_monitor_id a) \<and>
     (\<exists>r \<in> set (alert_rules s). \<exists>p \<in> set (escalation_policies s). \<exists>steps.
        tenant_id r = T \<and> at_alert_rule_id a = Some (row_id r) \<and>
        tenant_id p = T \<and> al_escalation_policy_id r = Some (row_id p) \<and> ep_steps p = Some steps \<and>
        at_last_escalated_step a + 1 < int (length steps) \<and> st = steps ! nat (at_last_escalated_step a + 1) \<and>
        at_opened_at a + es_delayMinutes st * 60000 \<le> clock s)"

text \<open>What the query joins to one alert.\<close>

definition joined :: "query_runner \<Rightarrow> 's monitoring_scheme \<Rightarrow> alert \<Rightarrow> (alert \<times> string \<times> EscalationStep list) list" where
  "joined qr s a = concat (map (\<lambda>r. concat (map (\<lambda>p. map (\<lambda>m.
       (a, mo_name m, case ep_steps p of None \<Rightarrow> [] | Some steps \<Rightarrow> steps))
       (filter (by_id (at_monitor_id a)) (visible qr (monitors s))))
     (filter (\<lambda>p. al_escalation_policy_id r = Some (row_id p)) (visible qr (escalation_policies s)))))
     (filter (\<lambda>r. at_alert_rule_id a = Some (row_id r)) (visible qr (alert_rules s))))"

lemma due_alerts_joined: "due_alerts qr s = concat (map (joined qr s) (filter active (visible qr (alerts s))))"
  by (simp add: due_alerts_def joined_def [abs_def])

lemma joined_once: "unique_keys s \<Longrightarrow> length (joined qr s a) \<le> 1"
  unfolding joined_def
  by (auto simp: unique_keys_def distinct_visible distinct_map_filter
      intro!: concat_unique filter_ref_unique filter_id_unique simp del: One_nat_def)

definition fired_step :: "query_runner \<Rightarrow> 's monitoring_scheme \<Rightarrow> alert \<Rightarrow> PendingEscalation option" where
  "fired_step qr s a = (case joined qr s a of [] \<Rightarrow> None | d # _ \<Rightarrow> next_step (clock s) d)"

lemma map_filter_concat:
  assumes "\<And>x. x \<in> set xs \<Longrightarrow> length (g x) \<le> 1"
  shows "List.map_filter f (concat (map g xs)) = List.map_filter (\<lambda>x. case g x of [] \<Rightarrow> None | d # _ \<Rightarrow> f d) xs"
  using assms
proof (induction xs)
  case (Cons x xs)
  have "g x = [] \<or> (\<exists>d. g x = [d])" using Cons.prems [of x] by (cases "g x") auto
  with Cons show ?case by (auto simp: map_filter_simps split: option.splits)
qed (simp add: map_filter_simps)

lemma pending_steps_fired:
  assumes "unique_keys s"
  shows "pending_steps T s = List.map_filter (fired_step T s) (filter active (visible T (alerts s)))"
  unfolding pending_steps_def due_alerts_joined using joined_once [OF assms]
  by (subst map_filter_concat) (simp_all add: fired_step_def [abs_def])

lemma joined_mem:
  "(b, name, steps) \<in> set (joined T s a) \<longleftrightarrow> b = a \<and>
     (\<exists>m \<in> set (monitors s). tenant_id m = T \<and> row_id m = at_monitor_id a \<and> name = mo_name m) \<and>
     (\<exists>r \<in> set (alert_rules s). \<exists>p \<in> set (escalation_policies s).
        tenant_id r = T \<and> at_alert_rule_id a = Some (row_id r) \<and> tenant_id p = T \<and> al_escalation_policy_id r = Some (row_id p) \<and>
        steps = (case ep_steps p of None \<Rightarrow> [] | Some steps \<Rightarrow> steps))"
  unfolding joined_def by (auto simp: by_id_def)

lemma due_step_joined:
  assumes "- 1 \<le> at_last_escalated_step a"
  shows "due_step T s a st \<longleftrightarrow> a \<in> set (alerts s) \<and> tenant_id a = T \<and> active a \<and>
    (\<exists>b name steps. (b, name, steps) \<in> set (joined T s a) \<and> at_last_escalated_step a + 1 < int (length steps) \<and>
      st = steps ! nat (at_last_escalated_step a + 1) \<and> at_opened_at a + es_delayMinutes st * 60000 \<le> clock s)"
proof -
  have steps: "at_last_escalated_step a + 1 < int (length (case ep_steps p of None \<Rightarrow> [] | Some steps \<Rightarrow> steps)) \<longleftrightarrow>
      (\<exists>steps. ep_steps p = Some steps \<and> at_last_escalated_step a + 1 < int (length steps))" for p
    using assms by (cases "ep_steps p") auto
  show ?thesis unfolding due_step_def joined_mem active_def using steps by fastforce
qed

lemma fired_step_due:
  assumes "unique_keys s" and "a \<in> set (alerts s)" and "tenant_id a = T" and "active a"
    and "joined T s a \<noteq> [] \<Longrightarrow> - 1 \<le> at_last_escalated_step a"
  shows "(\<exists>p. fired_step T s a = Some p \<and> pe_step p = st) \<longleftrightarrow> due_step T s a st"
proof (cases "joined T s a")
  case Nil
  then have "\<not> due_step T s a st"
    using joined_mem [of a _ _ T s a] unfolding due_step_def by (auto; metis)
  with Nil show ?thesis by (simp add: fired_step_def)
next
  case (Cons d ds)
  then have "ds = []" using joined_once [OF assms(1), of T a] by simp
  obtain b name steps where d: "d = (b, name, steps)" by (cases d)
  have b: "b = a" using joined_mem [of b name steps T s a] Cons d by simp
  have low: "- 1 \<le> at_last_escalated_step a" using assms(5) Cons by simp
  show ?thesis unfolding due_step_joined [OF low]
    using Cons d b low assms(2-4) \<open>ds = []\<close> by (auto simp: fired_step_def next_step_def Let_def)
qed

lemma fired_step_id:
  assumes "fired_step T s a = Some p"
  shows "pe_alertId p = row_id a"
proof -
  obtain b name steps ds where j: "joined T s a = (b, name, steps) # ds" and n: "next_step (clock s) (b, name, steps) = Some p"
    using assms by (auto simp: fired_step_def split: list.splits)
  have "b = a" using joined_mem [of b name steps T s a] j by simp
  with n show ?thesis by (auto simp: next_step_def Let_def split: if_splits)
qed

lemma map_filter_keyed:
  "map fst (List.map_filter (\<lambda>x. map_option (\<lambda>y. (x, f y)) (h x)) xs) = filter (\<lambda>x. h x \<noteq> None) xs"
  "map (g \<circ> snd) (List.map_filter (\<lambda>x. map_option (\<lambda>y. (x, f y)) (h x)) xs) = map (g \<circ> f) (List.map_filter h xs)"
  by (induction xs) (auto simp: map_filter_simps split: option.splits)

text \<open>The alerts a sweep marks are the ones that are due, whether read off the pending steps or off the tables.\<close>

lemma pending_iff_due:
  assumes "unique_keys s" and "\<forall>d \<in> set (due_alerts T s). - 1 \<le> at_last_escalated_step (fst d)" and "a \<in> set (alerts s)"
  shows "(tenant_id a = T \<and> row_id a \<in> pe_alertId ` set (pending_steps T s)) \<longleftrightarrow> (\<exists>st. due_step T s a st)"
    and "tenant_id a = T \<Longrightarrow> active a \<Longrightarrow> (\<exists>p. fired_step T s a = Some p \<and> pe_step p = st) \<longleftrightarrow> due_step T s a st"
proof -
  have due: "(\<exists>p. fired_step T s b = Some p \<and> pe_step p = st) \<longleftrightarrow> due_step T s b st"
    if b: "b \<in> set (alerts s)" "tenant_id b = T" "active b" for b st
  proof (rule fired_step_due [OF assms(1) b])
    assume "joined T s b \<noteq> []"
    then obtain d where d: "d \<in> set (joined T s b)" by (cases "joined T s b") auto
    then have "fst d = b" by (auto simp: joined_def)
    moreover have "d \<in> set (due_alerts T s)" using d b by (auto simp: due_alerts_joined)
    ultimately show "- 1 \<le> at_last_escalated_step b" using assms(2) by auto
  qed
  then show "tenant_id a = T \<Longrightarrow> active a \<Longrightarrow> (\<exists>p. fired_step T s a = Some p \<and> pe_step p = st) \<longleftrightarrow> due_step T s a st"
    using assms(3) by blast
  have pending: "p \<in> set (pending_steps T s) \<longleftrightarrow> (\<exists>b \<in> set (alerts s). tenant_id b = T \<and> active b \<and> fired_step T s b = Some p)" for p
    by (auto simp: pending_steps_fired [OF assms(1)] List.map_filter_def) force
  show "(tenant_id a = T \<and> row_id a \<in> pe_alertId ` set (pending_steps T s)) \<longleftrightarrow> (\<exists>st. due_step T s a st)"
  proof
    assume "tenant_id a = T \<and> row_id a \<in> pe_alertId ` set (pending_steps T s)"
    then obtain p b where b: "b \<in> set (alerts s)" "tenant_id b = T" "active b" "fired_step T s b = Some p" and p: "row_id a = pe_alertId p"
      using pending by auto
    have "b = a" using fired_step_id [OF b(4)] p b(1) assms(1,3) by (auto simp: unique_keys_def dest: row_id_inj)
    with due [OF b(1-3)] b(4) show "\<exists>st. due_step T s a st" by blast
  next
    assume "\<exists>st. due_step T s a st"
    then obtain st where st: "due_step T s a st" ..
    then have a: "tenant_id a = T" "active a" by (auto simp: due_step_def active_def)
    with due [OF assms(3) this] st obtain p where "fired_step T s a = Some p" by blast
    with pending a assms(3) fired_step_id [of T s a p] show "tenant_id a = T \<and> row_id a \<in> pe_alertId ` set (pending_steps T s)"
      by (metis imageI)
  qed
qed

text \<open>C21. A completed escalation sweep of a tenant fires, for exactly the alerts that are due (the open or acknowledged alerts of the tenant
  whose policy has a step after the last that fired, with its delay since opening passed), that step and no other: the steps are fired in the
  order of the alerts, one per alert; the sweep reports their number, advances the mark of these alerts by one and leaves every other alert as it is;
  it queues one notification per target of each step, in order; and in any later sweep the step an alert is due for is the following
  one, so that no step fires twice. The keys of the tables are unique.\<close>

theorem escalation_fires_in_order:
  assumes "unique_keys s" and "escalation_sweepTenant T s = (Inr n, t)"
  shows "\<exists>fired. map fst fired = filter (\<lambda>a. \<exists>st. due_step T s a st) (alerts s) \<and> (\<forall>(a, st) \<in> set fired. due_step T s a st) \<and>
    n = length fired \<and>
    addressees t = addressees s @ concat (map (\<lambda>(a, st). map (\<lambda>g. (nt_channel g, nt_recipient g)) (es_notify st)) fired) \<and>
    alerts t = map (\<lambda>a. if \<exists>st. due_step T s a st then a\<lparr>at_last_escalated_step := at_last_escalated_step a + 1\<rparr> else a) (alerts s) \<and>
    (\<forall>now a st a' st'. due_step T s a st \<and> due_step T (t\<lparr>clock := now\<rparr>) a' st' \<and> row_id a' = row_id a \<longrightarrow>
       at_last_escalated_step a' = at_last_escalated_step a + 1)"
proof -
  note run = escalation_sweepTenant_run [OF assms]
  note due = pending_iff_due [OF assms(1) run(4)]
  let ?F = "List.map_filter (\<lambda>a. map_option (\<lambda>p. (a, pe_step p)) (fired_step T s a)) (filter active (visible T (alerts s)))"
  have alerts: "alerts t = map (\<lambda>a. if \<exists>st. due_step T s a st then a\<lparr>at_last_escalated_step := at_last_escalated_step a + 1\<rparr> else a) (alerts s)"
    unfolding run(3) by (rule map_cong [OF refl]) (simp add: due(1))
  have "(fired_step T s a \<noteq> None \<and> active a \<and> tenant_isolation T a) = (\<exists>st. due_step T s a st)" if "a \<in> set (alerts s)" for a
  proof -
    have "tenant_id a = T" "active a" if "due_step T s a st" for st using that by (auto simp: due_step_def active_def)
    with due(2) [OF that] show ?thesis unfolding tenant_isolation_def by (metis not_None_eq)
  qed
  then have keys: "map fst ?F = filter (\<lambda>a. \<exists>st. due_step T s a st) (alerts s)"
    unfolding map_filter_keyed visible_def filter_filter by (intro filter_cong [OF refl]) blast
  have fired: "\<forall>(a, st) \<in> set ?F. due_step T s a st"
    using due(2) by (fastforce simp: List.map_filter_def tenant_isolation_def)
  have len: "n = length ?F" unfolding run(1) pending_steps_fired [OF assms(1)]
    using arg_cong [OF map_filter_keyed(2) [of "\<lambda>x. x" pe_step "fired_step T s" "filter active (visible T (alerts s))"], of length] by simp
  have "map step_targets (pending_steps T s) = map ((\<lambda>st. map (\<lambda>g. (nt_channel g, nt_recipient g)) (es_notify st)) \<circ> snd) ?F"
    unfolding map_filter_keyed pending_steps_fired [OF assms(1)] by (simp add: step_targets_def comp_def)
  then have told: "addressees t = addressees s @ concat (map (\<lambda>(a, st). map (\<lambda>g. (nt_channel g, nt_recipient g)) (es_notify st)) ?F)"
    unfolding run(2) by (simp add: comp_def case_prod_unfold)
  have "at_last_escalated_step a' = at_last_escalated_step a + 1"
    if a: "due_step T s a st" and a': "due_step T (t\<lparr>clock := now\<rparr>) a' st'" and same: "row_id a' = row_id a" for now a st a' st'
  proof -
    have "a' \<in> set (alerts t)" using a' by (simp add: due_step_def)
    then obtain c where c: "c \<in> set (alerts s)" "a' = (if \<exists>st. due_step T s c st then c\<lparr>at_last_escalated_step := at_last_escalated_step c + 1\<rparr> else c)"
      unfolding alerts set_map by (rule imageE)
    then have "row_id c = row_id a" using same by (simp split: if_splits)
    moreover have "a \<in> set (alerts s)" using a by (simp add: due_step_def)
    ultimately have "c = a" using c(1) assms(1) by (auto simp: unique_keys_def dest: row_id_inj)
    with c(2) a show ?thesis by auto
  qed
  with keys fired len told alerts show ?thesis by blast
qed

text \<open>A sweep completes when Redis is up and the marks are at least the initial one.\<close>

lemma notify_one_ok: "redis_up s \<Longrightarrow> \<exists>t. notify_one T p g s = (Inr (), t) \<and> redis_up t"
  by (simp add: notify_one_def renderBody_def enqueue_def withTenantContext_def sql_first_def sql_insert_def publish_run
      randomUUID_def Let_def act_bind_def tenant_isolation_def)

lemma act_fold_ok:
  assumes "\<And>x s. I s \<Longrightarrow> \<exists>t. f x () s = (Inr (), t) \<and> I t" and "I s"
  shows "\<exists>t. act_fold f xs () s = (Inr (), t) \<and> I t"
  using assms(2)
proof (induction xs arbitrary: s)
  case (Cons x xs)
  obtain u where "f x () s = (Inr (), u)" "I u" using assms(1) [OF Cons.prems, of x] by blast
  with Cons.IH [of u] show ?case by simp
qed simp

lemma escalate_one_ok:
  "- 1 \<le> at_last_escalated_step (fst d) \<Longrightarrow> \<exists>acts' t. escalate_one qr d acts s = Inr (acts', t) \<and> redis_up t = redis_up s"
  by (auto simp: escalate_one_def sql_now_def sql_update_def Let_def tx_bind_def list_all_iff tenant_isolation_def split: option.splits)

lemma escalate_all_ok:
  "\<forall>d \<in> set ds. - 1 \<le> at_last_escalated_step (fst d) \<Longrightarrow>
    \<exists>acts' t. tx_fold (escalate_one qr) ds acts s = Inr (acts', t) \<and> redis_up t = redis_up s"
proof (induction ds arbitrary: acts s)
  case (Cons d ds)
  obtain acts' u where one: "escalate_one qr d acts s = Inr (acts', u)" "redis_up u = redis_up s"
    using escalate_one_ok [of d qr acts s] Cons.prems by auto
  moreover obtain acts'' t where "tx_fold (escalate_one qr) ds acts' u = Inr (acts'', t)" "redis_up t = redis_up u"
    using Cons.IH [of acts' u] Cons.prems by auto
  ultimately show ?case by simp
qed simp

lemma escalation_sweepTenant_ok:
  assumes "redis_up s" and "\<forall>d \<in> set (due_alerts T s). - 1 \<le> at_last_escalated_step (fst d)"
  shows "\<exists>n t. escalation_sweepTenant T s = (Inr n, t)"
proof -
  obtain pending u where "tx_fold (escalate_one T) (due_alerts T s) [] s = Inr (pending, u)" and "redis_up u = redis_up s"
    using escalate_all_ok [OF assms(2)] by blast
  moreover from this assms(1) obtain t where
    "act_fold (\<lambda>p _. act_fold (\<lambda>g _. notify_one T p g) (es_notify (pe_step p)) ()) pending () u = (Inr (), t)"
    using act_fold_ok [of redis_up "\<lambda>p _. act_fold (\<lambda>g _. notify_one T p g) (es_notify (pe_step p)) ()" u pending]
      act_fold_ok [of redis_up "\<lambda>g _. notify_one T p g" for p] notify_one_ok by blast
  ultimately show ?thesis
    by (simp add: escalation_sweepTenant_def collect_pending_def withTenantContext_def)
qed

definition escalating :: monitoring where
  "escalating = watched\<lparr>clock := 600000, redis_up := True, alert_rules := [web_rule\<lparr>al_escalation_policy_id := Some 70\<rparr>],
     escalation_policies := [\<lparr>row_id = 70, tenant_id = 1, ep_name = ''p'',
       ep_steps = Some [\<lparr>es_delayMinutes = 5, es_notify = [\<lparr>nt_channel = ''email'', nt_recipient = ''a@b.c''\<rparr>]\<rparr>], ep_created_at = 0, ep_updated_at = 0\<rparr>],
     alerts := [\<lparr>row_id = 71, tenant_id = 1, at_monitor_id = 50, at_alert_rule_id = Some 51, at_severity = Sev_Critical, at_status = Alert_Open,
       at_reason_text = ''down'', at_repeat_count = 0, at_linked_ticket = None, at_opened_at = 0, at_last_seen_at = 0, at_acknowledged_at = None,
       at_resolved_at = None, at_last_escalated_step = - 1\<rparr>]\<rparr>"

lemma escalating_due: "due_step 1 escalating a st \<longleftrightarrow> a \<in> set (alerts escalating) \<and>
    st = \<lparr>es_delayMinutes = 5, es_notify = [\<lparr>nt_channel = ''email'', nt_recipient = ''a@b.c''\<rparr>]\<rparr>"
  by (auto simp: due_step_def escalating_def web_rule_def web_monitor_def)

theorem escalation_fires_in_order_witness:
  "\<exists>t. escalation_sweepTenant 1 escalating = (Inr 1, t) \<and> addressees t = addressees escalating @ [(''email'', ''a@b.c'')] \<and>
     map at_last_escalated_step (alerts t) = [0]"
proof -
  have "\<exists>n t. escalation_sweepTenant 1 escalating = (Inr n, t)"
    by (rule escalation_sweepTenant_ok) (simp_all add: escalating_def due_alerts_def web_rule_def web_monitor_def tenant_isolation_def by_id_def active_def)
  then obtain n t where run: "escalation_sweepTenant 1 escalating = (Inr n, t)" by blast
  have keys: "unique_keys escalating" by (simp add: unique_keys_def escalating_def)
  from escalation_fires_in_order [OF keys run] obtain fired where f:
    "map fst fired = filter (\<lambda>a. \<exists>st. due_step 1 escalating a st) (alerts escalating)" "\<forall>(a, st) \<in> set fired. due_step 1 escalating a st"
    "n = length fired" "addressees t = addressees escalating @ concat (map (\<lambda>(a, st). map (\<lambda>g. (nt_channel g, nt_recipient g)) (es_notify st)) fired)"
    "alerts t = map (\<lambda>a. if \<exists>st. due_step 1 escalating a st then a\<lparr>at_last_escalated_step := at_last_escalated_step a + 1\<rparr> else a) (alerts escalating)"
    by blast
  have due: "(\<exists>st. due_step 1 escalating a st) \<longleftrightarrow> a \<in> set (alerts escalating)" for a using escalating_due by blast
  have one: "length (alerts escalating) = 1" by (simp add: escalating_def)
  have "map fst fired = alerts escalating" unfolding f(1) due by simp
  with one obtain a st where fired: "fired = [(a, st)]" by (cases fired; cases "tl fired") (auto dest: arg_cong [of _ _ length])
  with f(2) have "st = \<lparr>es_delayMinutes = 5, es_notify = [\<lparr>nt_channel = ''email'', nt_recipient = ''a@b.c''\<rparr>]\<rparr>" by (simp add: escalating_due del: One_nat_def)
  with f(3,4) fired run have out: "escalation_sweepTenant 1 escalating = (Inr 1, t)" "addressees t = addressees escalating @ [(''email'', ''a@b.c'')]" by simp_all
  have "alerts t = map (\<lambda>a. a\<lparr>at_last_escalated_step := at_last_escalated_step a + 1\<rparr>) (alerts escalating)"
    unfolding f(5) by (rule map_cong [OF refl]) (simp add: due del: One_nat_def)
  then have "map at_last_escalated_step (alerts t) = [0]" by (simp add: escalating_def)
  with out show ?thesis by (intro exI [of _ t] conjI)
qed

end
