(* ===== verification/Ticket_Extras.thy ===== *)
theory Ticket_Extras
  imports Helpdesk_Schema "HOL-Library.List_Lexorder" "HOL-Library.Char_ord"
begin

text \<open>
  What hangs on a ticket: to-dos, time logs, links, saved views, scenarios, presence, the satisfaction
  rating and the checklist of the administration page (\<open>ticket-todos.service.ts\<close>,
  \<open>ticket-time-logs.service.ts\<close>, \<open>ticket-links/ticket-links.service.ts\<close>, \<open>ticket-views.service.ts\<close>,
  \<open>scenarios.service.ts\<close>, \<open>ticket-presence.service.ts\<close>, \<open>ticket-satisfaction.service.ts\<close>,
  \<open>admin/admin.service.ts\<close>). The lemmas: a link is seen from both of its tickets and what the unique key
  on directed edges does not prevent; a ticket has at most one rating, given by its contact after the
  resolution; a to-do has a time of completion exactly when it is done; presence ends after its time to live.
\<close>

definition assertTicketExists :: "query_runner \<Rightarrow> uuid \<Rightarrow> ('s helpdesk_scheme, unit) tx" where
  "assertTicketExists qr ticketId = tx_bind (find_row ''Ticket'' tickets qr ticketId) (\<lambda>_. tx_return ())"

section \<open>To-dos\<close>

record UpdateTicketTodo =
  ut_isDone :: "bool option option"
  ut_body :: "string option option"

definition todos_create :: "uuid \<Rightarrow> uuid \<Rightarrow> string \<Rightarrow> ('s helpdesk_scheme, ticket_todo) act" where
  "todos_create tenantId ticketId body = withTenantContext tenantId (\<lambda>qr.
     tx_bind (assertTicketExists qr ticketId) (\<lambda>_.
     tx_bind gen_random_uuid (\<lambda>i. tx_bind sql_now (\<lambda>now.
     sql_insert ticket_todos_update qr \<lparr>row_id = i, tenant_id = tenantId, td_ticket_id = ticketId, td_body = body,
       td_is_done = False, td_done_at = None, td_created_at = now\<rparr>))))"

definition todos_list :: "uuid \<Rightarrow> uuid \<Rightarrow> ('s helpdesk_scheme, ticket_todo list) act" where
  "todos_list tenantId ticketId = withTenantContext tenantId (\<lambda>qr.
     tx_bind (assertTicketExists qr ticketId) (\<lambda>_.
     tx_bind (sql_select ticket_todos qr (\<lambda>d. td_ticket_id d = ticketId)) (\<lambda>rows. tx_return (order_by td_created_at rows))))"

text \<open>\<open>WHERE id = i AND ticket_id = k\<close>, and the exception when there is no such row.\<close>

definition find_on_ticket ::
  "string \<Rightarrow> ('s \<Rightarrow> 'r row_scheme list) \<Rightarrow> ('r row_scheme \<Rightarrow> uuid) \<Rightarrow> query_runner \<Rightarrow> uuid \<Rightarrow> uuid \<Rightarrow> ('s, 'r row_scheme) tx" where
  "find_on_ticket label tbl ticket_of qr ticketId i =
     tx_bind (sql_first tbl qr (\<lambda>r. by_id i r \<and> ticket_of r = ticketId)) (\<lambda>r.
       case r of None \<Rightarrow> tx_throw (NotFound label i) | Some r \<Rightarrow> tx_return r)"

definition remove_on_ticket ::
  "string \<Rightarrow> ('s \<Rightarrow> 'r row_scheme list) \<Rightarrow> (('r row_scheme list \<Rightarrow> 'r row_scheme list) \<Rightarrow> 's \<Rightarrow> 's) \<Rightarrow> ('r row_scheme \<Rightarrow> uuid) \<Rightarrow>
     query_runner \<Rightarrow> uuid \<Rightarrow> uuid \<Rightarrow> ('s, unit) tx" where
  "remove_on_ticket label tbl upd ticket_of qr ticketId i =
     tx_bind (sql_delete tbl upd qr (\<lambda>r. by_id i r \<and> ticket_of r = ticketId)) (\<lambda>rows.
       if rows = [] then tx_throw (NotFound label i) else tx_return ())"

definition todos_update :: "uuid \<Rightarrow> uuid \<Rightarrow> uuid \<Rightarrow> UpdateTicketTodo \<Rightarrow> ('s helpdesk_scheme, ticket_todo) act" where
  "todos_update tenantId ticketId todoId dto = withTenantContext tenantId (\<lambda>qr.
     tx_bind (find_on_ticket ''To-do'' ticket_todos td_ticket_id qr ticketId todoId) (\<lambda>_.
     tx_bind sql_now (\<lambda>now.
     patch_row ''To-do'' ticket_todos ticket_todos_update qr todoId
       (set_required (ut_body dto) (\<lambda>v d. d\<lparr>td_body := v\<rparr>) @
        set_required (ut_isDone dto) (\<lambda>v d. d\<lparr>td_is_done := v, td_done_at := (if v then Some now else None)\<rparr>)) [])))"

definition todos_remove :: "uuid \<Rightarrow> uuid \<Rightarrow> uuid \<Rightarrow> ('s helpdesk_scheme, unit) act" where
  "todos_remove tenantId ticketId todoId = withTenantContext tenantId (\<lambda>qr.
     remove_on_ticket ''To-do'' ticket_todos ticket_todos_update td_ticket_id qr ticketId todoId)"

section \<open>Time logs\<close>

record CreateTicketTimeLog =
  cl_minutes :: int
  cl_note :: "string option"
  cl_agentId :: "uuid option"

text \<open>A value of an \<open>integer\<close> column or of a cast to it.\<close>

definition int4 :: "int \<Rightarrow> ('s, int) tx" where
  "int4 n = (if - int max_int - 1 \<le> n \<and> n \<le> int max_int then tx_return n else tx_throw numeric_value_out_of_range)"

definition timeLogs_create :: "js_format \<Rightarrow> uuid \<Rightarrow> uuid \<Rightarrow> CreateTicketTimeLog \<Rightarrow> ('s helpdesk_scheme, ticket_time_log) act" where
  "timeLogs_create F tenantId ticketId dto = withTenantContext tenantId (\<lambda>qr.
     tx_bind (assertTicketExists qr ticketId) (\<lambda>_.
     tx_bind (assert_optional F agents qr (cl_agentId dto) ''agent'') (\<lambda>_.
     tx_bind (int4 (cl_minutes dto)) (\<lambda>minutes.
     tx_bind gen_random_uuid (\<lambda>i. tx_bind sql_now (\<lambda>now.
     sql_insert ticket_time_logs_update qr \<lparr>row_id = i, tenant_id = tenantId, tl_ticket_id = ticketId, tl_agent_id = cl_agentId dto,
       tl_minutes = minutes, tl_note = cl_note dto, tl_logged_at = now, tl_created_at = now\<rparr>))))))"

definition timeLogs_list :: "uuid \<Rightarrow> uuid \<Rightarrow> ('s helpdesk_scheme, ticket_time_log list \<times> int) act" where
  "timeLogs_list tenantId ticketId = withTenantContext tenantId (\<lambda>qr.
     tx_bind (assertTicketExists qr ticketId) (\<lambda>_.
     tx_bind (sql_select ticket_time_logs qr (\<lambda>l. tl_ticket_id l = ticketId)) (\<lambda>items.
     tx_bind (int4 (sum_list (map tl_minutes items))) (\<lambda>total.
     tx_return (order_by tl_logged_at items, total)))))"

definition timeLogs_remove :: "uuid \<Rightarrow> uuid \<Rightarrow> uuid \<Rightarrow> ('s helpdesk_scheme, unit) act" where
  "timeLogs_remove tenantId ticketId logId = withTenantContext tenantId (\<lambda>qr.
     remove_on_ticket ''Time log'' ticket_time_logs ticket_time_logs_update tl_ticket_id qr ticketId logId)"

section \<open>Links\<close>

datatype requested_link = Link_Related | Link_Parent_Of | Link_Child_Of

datatype link_relation = Rel_Related | Rel_Parent | Rel_Child

record LinkedTicket =
  li_linkId :: uuid
  li_relation :: link_relation
  li_ticketId :: uuid
  li_ticketNumber :: nat
  li_subject :: string
  li_status :: ticket_status

text \<open>The edge that is stored: \<open>child_of\<close> becomes a \<open>parent_of\<close> edge the other way.\<close>

definition canonical_edge :: "requested_link \<Rightarrow> uuid \<Rightarrow> uuid \<Rightarrow> uuid \<times> uuid \<times> link_type" where
  "canonical_edge linkType ticketId otherId = (case linkType of
      Link_Related \<Rightarrow> (ticketId, otherId, Related)
    | Link_Parent_Of \<Rightarrow> (ticketId, otherId, Parent_Of)
    | Link_Child_Of \<Rightarrow> (otherId, ticketId, Parent_Of))"

text \<open>\<open>INSERT \<dots> ON CONFLICT DO NOTHING\<close>: the unique key and the foreign keys look at the whole tables.\<close>

definition insert_link :: "query_runner \<Rightarrow> uuid \<Rightarrow> uuid \<times> uuid \<times> link_type \<Rightarrow> ('s helpdesk_scheme, ticket_link option) tx" where
  "insert_link qr tenantId edge = (case edge of (fromId, toId, type) \<Rightarrow>
     tx_bind (tx_gets (\<lambda>s. (fromId, toId, type) \<in> (\<lambda>l. (lk_from_ticket_id l, lk_to_ticket_id l, lk_link_type l)) ` set (ticket_links s))) (\<lambda>dup.
     if dup then tx_return None
     else tx_bind (fk_check tickets fromId) (\<lambda>_. tx_bind (fk_check tickets toId) (\<lambda>_.
       tx_bind gen_random_uuid (\<lambda>i. tx_bind sql_now (\<lambda>now.
       tx_bind (sql_insert ticket_links_update qr \<lparr>row_id = i, tenant_id = tenantId, lk_from_ticket_id = fromId, lk_to_ticket_id = toId,
         lk_link_type = type, lk_created_at = now\<rparr>) (\<lambda>l. tx_return (Some l))))))))"

definition ticketLinks_create :: "uuid \<Rightarrow> uuid \<Rightarrow> nat \<Rightarrow> requested_link \<Rightarrow> ('s helpdesk_scheme, ticket_link) act" where
  "ticketLinks_create tenantId ticketId toTicketNumber linkType = withTenantContext tenantId (\<lambda>qr.
     if toTicketNumber > max_int then tx_throw numeric_value_out_of_range
     else tx_bind (sql_first tickets qr (\<lambda>t. tk_ticket_number t = toTicketNumber)) (\<lambda>other. case other of
       None \<Rightarrow> tx_throw (NotFound ''Ticket #'' toTicketNumber)
     | Some other \<Rightarrow>
         if row_id other = ticketId then tx_throw (BadRequest ''A ticket cannot be linked to itself'')
         else tx_bind (insert_link qr tenantId (canonical_edge linkType ticketId (row_id other))) (\<lambda>row. case row of
             None \<Rightarrow> tx_throw (BadRequest ''That link already exists'')
           | Some l \<Rightarrow> tx_return l)))"

definition other_side :: "uuid \<Rightarrow> ticket_link \<Rightarrow> uuid" where
  "other_side ticketId l = (if lk_from_ticket_id l = ticketId then lk_to_ticket_id l else lk_from_ticket_id l)"

definition linked_ticket :: "uuid \<Rightarrow> ticket_link \<Rightarrow> ticket \<Rightarrow> LinkedTicket" where
  "linked_ticket ticketId l t = \<lparr>li_linkId = row_id l,
     li_relation = (if lk_link_type l = Parent_Of then (if lk_from_ticket_id l = ticketId then Rel_Child else Rel_Parent) else Rel_Related),
     li_ticketId = row_id t, li_ticketNumber = tk_ticket_number t, li_subject = tk_subject t, li_status = tk_status t\<rparr>"

definition ticketLinks_list :: "uuid \<Rightarrow> uuid \<Rightarrow> ('s helpdesk_scheme, LinkedTicket list) act" where
  "ticketLinks_list tenantId ticketId = withTenantContext tenantId (\<lambda>qr.
     tx_bind (sql_select ticket_links qr (\<lambda>l. lk_from_ticket_id l = ticketId \<or> lk_to_ticket_id l = ticketId)) (\<lambda>links.
     tx_bind (sql_select tickets qr (\<lambda>_. True)) (\<lambda>ts.
     tx_return (concat (map (\<lambda>l. map (linked_ticket ticketId l) (filter (by_id (other_side ticketId l)) ts))
       (order_by lk_created_at links))))))"

definition ticketLinks_remove :: "uuid \<Rightarrow> uuid \<Rightarrow> ('s helpdesk_scheme, unit) act" where
  "ticketLinks_remove tenantId linkId = withTenantContext tenantId (\<lambda>qr.
     remove_row ''Ticket link'' ticket_links ticket_links_update qr linkId)"

section \<open>Saved views\<close>

text \<open>\<open>JSON.stringify\<close> of the filters; a \<open>null\<close> is stored as the JSON value.\<close>

record UpdateTicketView =
  uv_name :: "string option option"
  uv_filters :: "json option"

definition ticketViews_create :: "uuid \<Rightarrow> uuid option \<Rightarrow> string \<Rightarrow> json \<Rightarrow> ('s helpdesk_scheme, ticket_view) act" where
  "ticketViews_create tenantId agentId name filters = withTenantContext tenantId (\<lambda>qr.
     tx_bind (case agentId of None \<Rightarrow> tx_return () | Some a \<Rightarrow> fk_check agents a) (\<lambda>_.
     tx_bind gen_random_uuid (\<lambda>i. tx_bind sql_now (\<lambda>now.
     sql_insert ticket_views_update qr \<lparr>row_id = i, tenant_id = tenantId, tv_agent_id = agentId, tv_name = name, tv_filters = filters,
       tv_created_at = now\<rparr>))))"

definition ticketViews_list :: "uuid \<Rightarrow> uuid option \<Rightarrow> ('s helpdesk_scheme, ticket_view list) act" where
  "ticketViews_list tenantId agentId = withTenantContext tenantId (\<lambda>qr.
     tx_bind (sql_select ticket_views qr (\<lambda>v. tv_agent_id v = None \<or> (agentId \<noteq> None \<and> tv_agent_id v = agentId))) (\<lambda>rows.
     tx_return (order_by tv_created_at rows)))"

definition ticketViews_update_view :: "uuid \<Rightarrow> uuid \<Rightarrow> UpdateTicketView \<Rightarrow> ('s helpdesk_scheme, ticket_view) act" where
  "ticketViews_update_view tenantId i dto = withTenantContext tenantId (\<lambda>qr.
     tx_bind (find_row ''Ticket view'' ticket_views qr i) (\<lambda>_.
     patch_row ''Ticket view'' ticket_views ticket_views_update qr i
       (set_required (uv_name dto) (\<lambda>v w. w\<lparr>tv_name := v\<rparr>) @
        set_nullable (uv_filters dto) (\<lambda>v w. w\<lparr>tv_filters := v\<rparr>)) []))"

definition ticketViews_remove :: "uuid \<Rightarrow> uuid \<Rightarrow> ('s helpdesk_scheme, unit) act" where
  "ticketViews_remove tenantId i = withTenantContext tenantId (\<lambda>qr. remove_row ''Ticket view'' ticket_views ticket_views_update qr i)"

section \<open>Scenarios\<close>

record UpdateScenario =
  uo_name :: "string option option"
  uo_agentId :: "uuid option option"
  uo_actions :: "automation_action list option option"

definition scenarios_list :: "uuid \<Rightarrow> ('s helpdesk_scheme, scenario list) act" where
  "scenarios_list tenantId = withTenantContext tenantId (\<lambda>qr.
     tx_bind (sql_select scenarios qr (\<lambda>_. True)) (\<lambda>rows. tx_return (order_by sc_name rows)))"

definition scenarios_create :: "js_format \<Rightarrow> uuid \<Rightarrow> string \<Rightarrow> uuid option \<Rightarrow> automation_action list \<Rightarrow> ('s helpdesk_scheme, scenario) act" where
  "scenarios_create F tenantId name agentId actions = withTenantContext tenantId (\<lambda>qr.
     tx_bind (assert_optional F agents qr agentId ''Agent'') (\<lambda>_.
     tx_bind (assertActionTargetsBelongToTenant qr actions) (\<lambda>_.
     tx_bind gen_random_uuid (\<lambda>i. tx_bind sql_now (\<lambda>now.
     sql_insert scenarios_update qr \<lparr>row_id = i, tenant_id = tenantId, sc_agent_id = agentId, sc_name = name, sc_actions = Some actions,
       sc_created_at = now, sc_updated_at = now\<rparr>)))))"

definition scenarios_update_row :: "js_format \<Rightarrow> uuid \<Rightarrow> uuid \<Rightarrow> UpdateScenario \<Rightarrow> ('s helpdesk_scheme, scenario) act" where
  "scenarios_update_row F tenantId i dto = withTenantContext tenantId (\<lambda>qr.
     tx_bind (find_row ''Scenario'' scenarios qr i) (\<lambda>_.
     tx_bind (assert_optional F agents qr (Option.bind (uo_agentId dto) id) ''Agent'') (\<lambda>_.
     tx_bind (case uo_actions dto of Some (Some as) \<Rightarrow> assertActionTargetsBelongToTenant qr as | _ \<Rightarrow> tx_return ()) (\<lambda>_.
     tx_bind sql_now (\<lambda>now.
     patch_row ''Scenario'' scenarios scenarios_update qr i
       (set_required (uo_name dto) (\<lambda>v c. c\<lparr>sc_name := v\<rparr>) @
        set_nullable (uo_agentId dto) (\<lambda>v c. c\<lparr>sc_agent_id := v\<rparr>) @
        set_nullable (uo_actions dto) (\<lambda>v c. c\<lparr>sc_actions := v\<rparr>))
       [Some (\<lambda>c. c\<lparr>sc_updated_at := now\<rparr>)])))))"

definition scenarios_remove :: "uuid \<Rightarrow> uuid \<Rightarrow> ('s helpdesk_scheme, unit) act" where
  "scenarios_remove tenantId i = withTenantContext tenantId (\<lambda>qr. remove_row ''Scenario'' scenarios scenarios_update qr i)"

definition scenarios_apply :: "js_format \<Rightarrow> uuid \<Rightarrow> uuid \<Rightarrow> uuid \<Rightarrow> ('s helpdesk_scheme, ticket) act" where
  "scenarios_apply F tenantId scenarioId ticketId = withTenantContext tenantId (\<lambda>qr.
     tx_bind (find_row ''Scenario'' scenarios qr scenarioId) (\<lambda>scenario.
     tx_bind (find_row ''Ticket'' tickets qr ticketId) (\<lambda>ticket.
     case sc_actions scenario of
       None \<Rightarrow> tx_throw (Failure ''scenario.actions is not iterable'')
     | Some actions \<Rightarrow> tx_fold (\<lambda>action current. applyAction F tenantId current action qr) actions ticket)))"

section \<open>Presence\<close>

definition PRESENCE_TTL_SECONDS :: int where
  "PRESENCE_TTL_SECONDS = 20"

record presence_view =
  pv_agent_id :: uuid
  pv_is_typing :: bool
  pv_last_seen_at :: msec
  pv_agent_name :: string

text \<open>
  \<open>INSERT \<dots> ON CONFLICT (ticket_id, agent_id) DO UPDATE\<close>. A conflicting row the policy hides is an
  error of the database.
\<close>

definition heartbeat :: "uuid \<Rightarrow> uuid \<Rightarrow> uuid \<Rightarrow> bool \<Rightarrow> ('s helpdesk_scheme, unit) act" where
  "heartbeat tenantId ticketId agentId isTyping = withTenantContext tenantId (\<lambda>qr.
     tx_bind sql_now (\<lambda>now.
     let key = (\<lambda>p. tp_ticket_id p = ticketId \<and> tp_agent_id p = agentId) in
     tx_bind (tx_gets (\<lambda>s. first_of (filter key (ticket_presence s)))) (\<lambda>conflict. case conflict of
       Some p \<Rightarrow>
         if \<not> tenant_isolation qr p then tx_throw insufficient_privilege
         else tx_bind (sql_update ticket_presence ticket_presence_update qr key (\<lambda>p. p\<lparr>tp_is_typing := isTyping, tp_last_seen_at := now\<rparr>)) (\<lambda>_. tx_return ())
     | None \<Rightarrow>
         tx_bind (fk_check tickets ticketId) (\<lambda>_. tx_bind (fk_check agents agentId) (\<lambda>_.
         tx_bind (sql_insert ticket_presence_update qr \<lparr>row_id = 0, tenant_id = tenantId, tp_ticket_id = ticketId, tp_agent_id = agentId,
           tp_is_typing = isTyping, tp_last_seen_at = now\<rparr>) (\<lambda>_. tx_return ()))))))"

definition presence_list :: "uuid \<Rightarrow> uuid \<Rightarrow> uuid option \<Rightarrow> ('s helpdesk_scheme, presence_view list) act" where
  "presence_list tenantId ticketId excludeAgentId = withTenantContext tenantId (\<lambda>qr.
     tx_bind sql_now (\<lambda>now.
     tx_bind (sql_select ticket_presence qr (\<lambda>p. tp_ticket_id p = ticketId \<and> tp_last_seen_at p > now - PRESENCE_TTL_SECONDS * 1000 \<and>
       (excludeAgentId = None \<or> Some (tp_agent_id p) \<noteq> excludeAgentId))) (\<lambda>rows.
     tx_gets (\<lambda>s. concat (map (\<lambda>p. concat (map (\<lambda>a. map (\<lambda>u.
         \<lparr>pv_agent_id = tp_agent_id p, pv_is_typing = tp_is_typing p, pv_last_seen_at = tp_last_seen_at p, pv_agent_name = us_name u\<rparr>)
         (filter (by_id (ag_user_id a)) (visible qr (users s)))) (filter (by_id (tp_agent_id p)) (visible qr (agents s)))))
       (order_by (\<lambda>p. - tp_last_seen_at p) rows))))))"

section \<open>Satisfaction\<close>

record RateTicket =
  rd_rating :: satisfaction
  rd_comment :: "string option"

definition rate :: "uuid \<Rightarrow> uuid \<Rightarrow> uuid \<Rightarrow> RateTicket \<Rightarrow> ('s helpdesk_scheme, rating) act" where
  "rate tenantId contactId ticketId dto = withTenantContext tenantId (\<lambda>qr.
     tx_bind (sql_first tickets qr (\<lambda>t. row_id t = ticketId \<and> tk_contact_id t = contactId)) (\<lambda>ticket. case ticket of
       None \<Rightarrow> tx_throw (NotFound ''Ticket'' ticketId)
     | Some ticket \<Rightarrow>
         if \<not> closing (tk_status ticket) then tx_throw (BadRequest ''This ticket can only be rated once it is resolved'')
         else tx_bind (sql_first satisfaction_ratings qr (\<lambda>r. rt_ticket_id r = ticketId)) (\<lambda>existing.
           if existing \<noteq> None then tx_throw (Conflict ''This ticket has already been rated'')
           else tx_bind (tx_gets (\<lambda>s. ticketId \<in> rt_ticket_id ` set (satisfaction_ratings s))) (\<lambda>dup.
             if dup then tx_throw unique_violation
             else tx_bind (fk_check contacts contactId) (\<lambda>_. tx_bind gen_random_uuid (\<lambda>i. tx_bind sql_now (\<lambda>now.
               sql_insert satisfaction_ratings_update qr \<lparr>row_id = i, tenant_id = tenantId, rt_ticket_id = ticketId, rt_contact_id = contactId,
                 rt_rating = rd_rating dto, rt_comment = rd_comment dto, rt_rated_at = now\<rparr>)))))))"

definition getForTicket :: "uuid \<Rightarrow> uuid \<Rightarrow> ('s helpdesk_scheme, rating option) act" where
  "getForTicket tenantId ticketId = withTenantContext tenantId (\<lambda>qr. sql_first satisfaction_ratings qr (\<lambda>r. rt_ticket_id r = ticketId))"

record csat_summary =
  cs_total :: nat
  cs_happy :: nat
  cs_neutral :: nat
  cs_unhappy :: nat
  cs_happyPct :: "rat option"

definition satisfaction_summary :: "uuid \<Rightarrow> int \<Rightarrow> ('s helpdesk_scheme, csat_summary) act" where
  "satisfaction_summary tenantId window = withTenantContext tenantId (\<lambda>qr.
     tx_bind sql_now (\<lambda>now.
     tx_bind (sql_select satisfaction_ratings qr (\<lambda>r. rt_rated_at r \<ge> now - window * 86400000)) (\<lambda>rows.
     let total = length rows; happy = length (filter (\<lambda>r. rt_rating r = Happy) rows) in
     tx_return \<lparr>cs_total = total, cs_happy = happy,
       cs_neutral = length (filter (\<lambda>r. rt_rating r = Neutral) rows),
       cs_unhappy = length (filter (\<lambda>r. rt_rating r = Unhappy) rows),
       cs_happyPct = (if total > 0 then Some (of_nat happy / of_nat total * 100) else None)\<rparr>)))"

section \<open>The checklist of the administration page\<close>

record SetupItem =
  si_key :: string
  si_label :: string
  si_count :: nat
  si_complete :: bool

record setup_status =
  ss_items :: "SetupItem list"
  ss_complete :: bool
  ss_completedCount :: nat
  ss_totalCount :: nat

definition setup_item :: "string \<Rightarrow> string \<Rightarrow> nat \<Rightarrow> SetupItem" where
  "setup_item key label n = \<lparr>si_key = key, si_label = label, si_count = n, si_complete = n > 0\<rparr>"

definition setupStatus :: "uuid \<Rightarrow> ('s helpdesk_scheme, setup_status) act" where
  "setupStatus tenantId = withTenantContext tenantId (\<lambda>qr. tx_gets (\<lambda>s.
     let items = [setup_item ''groups'' ''At least one group'' (length (visible qr (groups s))),
       setup_item ''agents'' ''At least one agent'' (length (visible qr (agents s))),
       setup_item ''ticketTypes'' ''At least one ticket type'' (length (visible qr (ticket_types s))),
       setup_item ''slaPolicies'' ''At least one SLA policy'' (length (visible qr (sla_policies s))),
       setup_item ''automationRules'' ''At least one automation rule'' (length (visible qr (automation_rules s))),
       setup_item ''cannedResponses'' ''At least one canned response'' (length (visible qr (canned_responses s)))] in
     \<lparr>ss_items = items, ss_complete = list_all si_complete items, ss_completedCount = length (filter si_complete items),
      ss_totalCount = length items\<rparr>))"

section \<open>Tenant isolation\<close>

context frame
begin

lemma find_on_ticket_frame [frame_intros]: "tx_rel R (find_on_ticket l tbl f qr k i)"
  unfolding find_on_ticket_def by (intro frame_intros)

lemma remove_on_ticket_frame [frame_intros]:
  "tx_rel R (sql_delete tbl upd qr (\<lambda>r. by_id i r \<and> f r = k)) \<Longrightarrow> tx_rel R (remove_on_ticket l tbl upd f qr k i)"
  unfolding remove_on_ticket_def by (intro frame_intros)

lemma int4_frame [frame_intros]: "tx_rel R (int4 n)"
  unfolding int4_def by (intro frame_intros)

lemma fk_check_any_frame: "tx_rel R (fk_check tbl i)"
  unfolding fk_check_def by (intro frame_intros)

lemma assert_optional_any_frame: "tx_rel R (assert_optional F tbl qr j l)"
  unfolding assert_optional_def assertBelongsToTenant_def by (intro frame_intros)

end

lemmas desk_reads [frame_intros] = helpdesk_frame.fk_check_any_frame helpdesk_frame.assert_optional_any_frame

lemma assertTicketExists_frame [frame_intros]: "tx_rel (helpdesk_frame qr) (assertTicketExists qr i)"
  unfolding assertTicketExists_def by (intro frame_intros)

lemma assertActionTargets_desk_frame [frame_intros]: "tx_rel (helpdesk_frame qr) (assertActionTargetsBelongToTenant qr as)"
  by (rule tx_rel_mono [OF assertActionTargets_frame ticketing_helpdesk_frame])

lemma applyAction_desk_frame [frame_intros]: "tx_rel (helpdesk_frame qr) (applyAction F t k a qr)"
  by (rule tx_rel_mono [OF applyAction_frame ticketing_helpdesk_frame])

lemma insert_link_frame [frame_intros]: "tx_rel (helpdesk_frame qr) (insert_link qr t e)"
  unfolding insert_link_def by (intro frame_intros)

lemma extras_frames:
  "act_rel (helpdesk_frame t) (todos_create t k b)" "act_rel (helpdesk_frame t) (todos_update t k i d)"
  "act_rel (helpdesk_frame t) (todos_remove t k i)" "act_rel (helpdesk_frame t) (timeLogs_create F t k dl)"
  "act_rel (helpdesk_frame t) (timeLogs_remove t k i)" "act_rel (helpdesk_frame t) (ticketLinks_create t k n lt)"
  "act_rel (helpdesk_frame t) (ticketLinks_remove t i)" "act_rel (helpdesk_frame t) (ticketViews_create t ag nm j)"
  "act_rel (helpdesk_frame t) (ticketViews_update_view t i v)" "act_rel (helpdesk_frame t) (ticketViews_remove t i)"
  "act_rel (helpdesk_frame t) (scenarios_create F t nm ag as)" "act_rel (helpdesk_frame t) (scenarios_update_row F t i sc)"
  "act_rel (helpdesk_frame t) (scenarios_remove t i)" "act_rel (helpdesk_frame t) (scenarios_apply F t i k)"
  "act_rel (helpdesk_frame t) (heartbeat t k a ty)" "act_rel (helpdesk_frame t) (rate t c k r)"
  unfolding todos_create_def todos_update_def todos_remove_def timeLogs_create_def timeLogs_remove_def ticketLinks_create_def
    ticketLinks_remove_def ticketViews_create_def ticketViews_update_view_def ticketViews_remove_def scenarios_create_def
    scenarios_update_row_def scenarios_remove_def scenarios_apply_def heartbeat_def rate_def
  by (intro frame_intros)+

section \<open>Links\<close>

lemma insert_link_run:
  assumes "insert_link qr T (f, to, ty) s = Inr (Some l, t)"
  shows "l = \<lparr>row_id = next_uuid s, tenant_id = T, lk_from_ticket_id = f, lk_to_ticket_id = to, lk_link_type = ty, lk_created_at = clock s\<rparr>"
    and "t = s\<lparr>next_uuid := Suc (next_uuid s), ticket_links := ticket_links s @ [l]\<rparr>" and "qr = T"
    and "(f, to, ty) \<notin> (\<lambda>l. (lk_from_ticket_id l, lk_to_ticket_id l, lk_link_type l)) ` set (ticket_links s)"
  using assms
  by (auto simp: insert_link_def fk_check_def tx_bind_def gen_random_uuid_def sql_now_def sql_insert_def tenant_isolation_def split: if_splits)

lemma insert_link_fresh:
  assumes "(f, to, ty) \<notin> (\<lambda>l. (lk_from_ticket_id l, lk_to_ticket_id l, lk_link_type l)) ` set (ticket_links s)"
    and "f \<in> row_id ` set (tickets s)" and "to \<in> row_id ` set (tickets s)"
  shows "\<exists>l. insert_link T T (f, to, ty) s = Inr (Some l, s\<lparr>next_uuid := Suc (next_uuid s), ticket_links := ticket_links s @ [l]\<rparr>) \<and>
    l = \<lparr>row_id = next_uuid s, tenant_id = T, lk_from_ticket_id = f, lk_to_ticket_id = to, lk_link_type = ty, lk_created_at = clock s\<rparr>"
  using assms
  by (simp add: insert_link_def fk_check_def tx_bind_def gen_random_uuid_def sql_now_def sql_insert_def tenant_isolation_def)

lemma ticketLinks_create_run:
  assumes "ticketLinks_create T a n kind s = (Inr l, t)"
  obtains k where "k \<in> set (tickets s)" and "tenant_id k = T" and "tk_ticket_number k = n" and "row_id k \<noteq> a"
    and "insert_link T T (canonical_edge kind a (row_id k)) s = Inr (Some l, t)"
proof -
  from assms obtain k where k: "first_of (filter (\<lambda>t. tk_ticket_number t = n) (visible T (tickets s))) = Some k" "row_id k \<noteq> a"
    and i: "insert_link T T (canonical_edge kind a (row_id k)) s = Inr (Some l, t)"
    by (auto simp: ticketLinks_create_def withTenantContext_Inr sql_first_def tx_bind_eq_Inr split: if_splits option.splits)
  with first_of_filter_SomeD [OF k(1)] k(2) i that show thesis by auto
qed

lemma ticketLinks_create_found:
  assumes "filter (\<lambda>t. tk_ticket_number t = n) (visible T (tickets s)) = [k]" and "row_id k \<noteq> a" and "n \<le> max_int"
    and "insert_link T T (canonical_edge kind a (row_id k)) s = Inr (Some l, t)"
  shows "ticketLinks_create T a n kind s = (Inr l, t)"
  using assms by (simp add: ticketLinks_create_def withTenantContext_def sql_first_def tx_bind_def)

lemma ticketLinks_list_run:
  "\<exists>xs. ticketLinks_list T a s = (Inr xs, s) \<and>
     set xs = {linked_ticket a l k |l k. l \<in> set (ticket_links s) \<and> tenant_id l = T \<and> (lk_from_ticket_id l = a \<or> lk_to_ticket_id l = a) \<and>
       k \<in> set (tickets s) \<and> tenant_id k = T \<and> row_id k = other_side a l}"
  by (simp add: ticketLinks_list_def withTenantContext_def sql_select_def tx_bind_def order_by_def by_id_def) blast

text \<open>How the other ticket is shown, from the side that asked for the link and from the other side.\<close>

definition relation_here :: "requested_link \<Rightarrow> link_relation" where
  "relation_here kind = (case kind of Link_Related \<Rightarrow> Rel_Related | Link_Parent_Of \<Rightarrow> Rel_Child | Link_Child_Of \<Rightarrow> Rel_Parent)"

definition relation_there :: "requested_link \<Rightarrow> link_relation" where
  "relation_there kind = (case kind of Link_Related \<Rightarrow> Rel_Related | Link_Parent_Of \<Rightarrow> Rel_Parent | Link_Child_Of \<Rightarrow> Rel_Child)"

text \<open>
  A link is seen from both of its tickets, with converse relations: after linking a ticket to the
  one with the given number, the list of the first shows the second as related, child or parent as
  asked, and the list of the second shows the first as related, parent or child.
\<close>

theorem link_seen_from_both_sides:
  assumes "ticketLinks_create T (row_id a) n kind s = (Inr l, t)" and "a \<in> set (tickets s)" and "tenant_id a = T"
  shows "\<exists>b xs ys. b \<in> set (tickets s) \<and> tenant_id b = T \<and> tk_ticket_number b = n \<and> row_id b \<noteq> row_id a \<and>
    ticketLinks_list T (row_id a) t = (Inr xs, t) \<and> ticketLinks_list T (row_id b) t = (Inr ys, t) \<and>
    \<lparr>li_linkId = row_id l, li_relation = relation_here kind, li_ticketId = row_id b, li_ticketNumber = n,
      li_subject = tk_subject b, li_status = tk_status b\<rparr> \<in> set xs \<and>
    \<lparr>li_linkId = row_id l, li_relation = relation_there kind, li_ticketId = row_id a, li_ticketNumber = tk_ticket_number a,
      li_subject = tk_subject a, li_status = tk_status a\<rparr> \<in> set ys"
proof -
  obtain b where b: "b \<in> set (tickets s)" "tenant_id b = T" "tk_ticket_number b = n" "row_id b \<noteq> row_id a"
    and i: "insert_link T T (canonical_edge kind (row_id a) (row_id b)) s = Inr (Some l, t)"
    using ticketLinks_create_run [OF assms(1)] .
  obtain f to ty where e: "canonical_edge kind (row_id a) (row_id b) = (f, to, ty)" by (metis prod_cases3)
  note run = insert_link_run [OF i [unfolded e]]
  have t: "tickets t = tickets s" "l \<in> set (ticket_links t)" "tenant_id l = T" by (simp_all add: run(2)) (simp add: run(1))
  have sides: "lk_from_ticket_id l = row_id a \<or> lk_to_ticket_id l = row_id a" "lk_from_ticket_id l = row_id b \<or> lk_to_ticket_id l = row_id b"
    "other_side (row_id a) l = row_id b" "other_side (row_id b) l = row_id a"
    using e b(4) by (auto simp: run(1) other_side_def canonical_edge_def split: requested_link.splits)
  have shown: "linked_ticket (row_id a) l b = \<lparr>li_linkId = row_id l, li_relation = relation_here kind, li_ticketId = row_id b, li_ticketNumber = n,
      li_subject = tk_subject b, li_status = tk_status b\<rparr>"
    "linked_ticket (row_id b) l a = \<lparr>li_linkId = row_id l, li_relation = relation_there kind, li_ticketId = row_id a,
      li_ticketNumber = tk_ticket_number a, li_subject = tk_subject a, li_status = tk_status a\<rparr>"
    using e b(3,4)
    by (auto simp: run(1) linked_ticket_def relation_here_def relation_there_def canonical_edge_def split: requested_link.splits)
  obtain xs ys where xs: "ticketLinks_list T (row_id a) t = (Inr xs, t)" "linked_ticket (row_id a) l b \<in> set xs"
    and ys: "ticketLinks_list T (row_id b) t = (Inr ys, t)" "linked_ticket (row_id b) l a \<in> set ys"
    using ticketLinks_list_run [of T "row_id a" t] ticketLinks_list_run [of T "row_id b" t] sides t b(1,2) assms(2,3) by fastforce
  with b shown show ?thesis by metis
qed

definition linked_desk :: helpdesk where
  "linked_desk = one_desk\<lparr>tickets := [printer_ticket, printer_ticket\<lparr>row_id := 21, tk_ticket_number := 2\<rparr>]\<rparr>"

lemma linked_desk_create:
  "\<exists>l t. ticketLinks_create 1 (row_id printer_ticket) 2 Link_Child_Of linked_desk = (Inr l, t)"
proof -
  let ?k = "printer_ticket\<lparr>row_id := 21, tk_ticket_number := 2\<rparr>"
  have found: "filter (\<lambda>t. tk_ticket_number t = 2) (visible 1 (tickets linked_desk)) = [?k]"
    by (simp add: linked_desk_def tenant_isolation_def printer_ticket_def del: One_nat_def)
  have "\<exists>l t. insert_link 1 1 (canonical_edge Link_Child_Of (row_id printer_ticket) (row_id ?k)) linked_desk = Inr (Some l, t)"
    using insert_link_fresh [of 21 20 Parent_Of linked_desk 1]
    by (auto simp: canonical_edge_def linked_desk_def)
  with ticketLinks_create_found [OF found] show ?thesis by (fastforce simp: max_int_def)
qed

theorem link_seen_from_both_sides_witness:
  "\<exists>l t xs ys. ticketLinks_create 1 20 2 Link_Child_Of linked_desk = (Inr l, t) \<and>
     ticketLinks_list 1 20 t = (Inr xs, t) \<and> ticketLinks_list 1 21 t = (Inr ys, t) \<and>
     Rel_Parent \<in> li_relation ` set xs \<and> Rel_Child \<in> li_relation ` set ys"
proof -
  obtain l t where t: "ticketLinks_create 1 (row_id printer_ticket) 2 Link_Child_Of linked_desk = (Inr l, t)" using linked_desk_create by blast
  have "printer_ticket \<in> set (tickets linked_desk)" "tenant_id printer_ticket = 1" by (simp_all add: linked_desk_def)
  from link_seen_from_both_sides [OF t this] obtain b xs ys where b: "b \<in> set (tickets linked_desk)" "row_id b \<noteq> row_id printer_ticket"
    and l: "ticketLinks_list 1 (row_id printer_ticket) t = (Inr xs, t)" "ticketLinks_list 1 (row_id b) t = (Inr ys, t)"
    and m: "Rel_Parent \<in> li_relation ` set xs" "Rel_Child \<in> li_relation ` set ys"
    by (force simp: relation_here_def relation_there_def)
  from b have "row_id b = 21" by (auto simp: linked_desk_def)
  with t l m show ?thesis by simp
qed

text \<open>
  The unique key is on directed edges, so a symmetric link can be stored twice, once from each side;
  the list of either ticket then shows the other one twice.
\<close>

theorem related_link_stored_twice:
  assumes a: "a \<in> set (tickets s)" "tenant_id a = T" "filter (\<lambda>t. tk_ticket_number t = tk_ticket_number a) (visible T (tickets s)) = [a]"
    and b: "b \<in> set (tickets s)" "tenant_id b = T" "filter (\<lambda>t. tk_ticket_number t = tk_ticket_number b) (visible T (tickets s)) = [b]"
    and "row_id a \<noteq> row_id b" and "tk_ticket_number a \<le> max_int" and "tk_ticket_number b \<le> max_int" and "ticket_links s = []"
  shows "\<exists>l t l' u. ticketLinks_create T (row_id a) (tk_ticket_number b) Link_Related s = (Inr l, t) \<and>
    ticketLinks_create T (row_id b) (tk_ticket_number a) Link_Related t = (Inr l', u) \<and> ticket_links u = [l, l'] \<and>
    lk_link_type l = Related \<and> lk_link_type l' = Related \<and>
    other_side (row_id a) l = row_id b \<and> other_side (row_id a) l' = row_id b"
proof -
  have ids: "row_id a \<in> row_id ` set (tickets s)" "row_id b \<in> row_id ` set (tickets s)" using a(1) b(1) by simp_all
  from insert_link_fresh [of "row_id a" "row_id b" Related s T] ids assms(10) obtain l where
    i: "insert_link T T (row_id a, row_id b, Related) s = Inr (Some l, s\<lparr>next_uuid := Suc (next_uuid s), ticket_links := [l]\<rparr>)"
    and l: "lk_from_ticket_id l = row_id a" "lk_to_ticket_id l = row_id b" "lk_link_type l = Related" by auto
  define t where "t = s\<lparr>next_uuid := Suc (next_uuid s), ticket_links := [l]\<rparr>"
  have c: "ticketLinks_create T (row_id a) (tk_ticket_number b) Link_Related s = (Inr l, t)"
    by (rule ticketLinks_create_found [OF b(3)]) (use assms(7,9) i in \<open>simp_all add: canonical_edge_def t_def\<close>)
  from insert_link_fresh [of "row_id b" "row_id a" Related t T] ids assms(7) l obtain l' where
    i': "insert_link T T (row_id b, row_id a, Related) t = Inr (Some l', t\<lparr>next_uuid := Suc (next_uuid t), ticket_links := [l, l']\<rparr>)"
    and l': "lk_from_ticket_id l' = row_id b" "lk_to_ticket_id l' = row_id a" "lk_link_type l' = Related" by (auto simp: t_def)
  have a3: "filter (\<lambda>k. tk_ticket_number k = tk_ticket_number a) (visible T (tickets t)) = [a]" using a(3) by (simp add: t_def)
  have "ticketLinks_create T (row_id b) (tk_ticket_number a) Link_Related t = (Inr l', t\<lparr>next_uuid := Suc (next_uuid t), ticket_links := [l, l']\<rparr>)"
    by (rule ticketLinks_create_found [OF a3]) (use assms(7,8) i' in \<open>simp_all add: canonical_edge_def\<close>)
  with c l l' assms(7) show ?thesis by (auto simp: other_side_def)
qed

text \<open>
  The ticket of the path is not checked against the tenant: a tenant can store a link that has
  another tenant's ticket on its other side.
\<close>

theorem link_to_foreign_ticket:
  assumes "x \<in> set (tickets s)" and "tenant_id x \<noteq> T" and "b \<in> set (tickets s)" and "tk_ticket_number b = n" and "n \<le> max_int"
    and "filter (\<lambda>t. tk_ticket_number t = n) (visible T (tickets s)) = [b]" and "row_id x \<noteq> row_id b" and "ticket_links s = []"
  shows "\<exists>l t. ticketLinks_create T (row_id x) n Link_Related s = (Inr l, t) \<and> tenant_id l = T \<and> lk_from_ticket_id l = row_id x"
proof -
  from insert_link_fresh [of "row_id x" "row_id b" Related s T] assms obtain l t where
    "insert_link T T (canonical_edge Link_Related (row_id x) (row_id b)) s = Inr (Some l, t)" and "tenant_id l = T" "lk_from_ticket_id l = row_id x"
    by (auto simp: canonical_edge_def)
  with ticketLinks_create_found [OF assms(6) _ assms(5)] assms(7) show ?thesis by metis
qed

section \<open>One rating per ticket\<close>

definition ratings_ok :: "'s helpdesk_scheme \<Rightarrow> bool" where
  "ratings_ok s \<longleftrightarrow> distinct (map rt_ticket_id (satisfaction_ratings s)) \<and>
     (\<forall>r \<in> set (satisfaction_ratings s). \<forall>k \<in> set (tickets s). row_id k = rt_ticket_id r \<longrightarrow> tk_contact_id k = rt_contact_id r)"

text \<open>
  A ticket is rated at most once, by its own contact and after its resolution: a successful rating
  is the only new row and reads back, it is of a resolved or closed ticket of that contact, the ratings
  stay one per ticket and by the contact of the ticket, and rating the same ticket again is refused
  with a conflict.
\<close>

theorem rated_once:
  assumes "rate T c k dto s = (Inr r, t)" and "ratings_ok s" and "distinct (map row_id (tickets s))"
  shows "satisfaction_ratings t = satisfaction_ratings s @ [r] \<and> tickets t = tickets s \<and> ratings_ok t \<and>
    fst (getForTicket T k t) = Inr (Some r) \<and> rt_rating r = rd_rating dto \<and>
    (\<exists>x \<in> set (tickets s). row_id x = k \<and> tenant_id x = T \<and> tk_contact_id x = c \<and> closing (tk_status x)) \<and>
    rate T c k dto' t = (Inl (Conflict ''This ticket has already been rated''), t)"
proof -
  from assms(1) obtain x where x: "first_of (filter (\<lambda>t. row_id t = k \<and> tk_contact_id t = c) (visible T (tickets s))) = Some x"
    and cl: "closing (tk_status x)" and new: "k \<notin> rt_ticket_id ` set (satisfaction_ratings s)"
    and r: "r = \<lparr>row_id = next_uuid s, tenant_id = T, rt_ticket_id = k, rt_contact_id = c, rt_rating = rd_rating dto,
      rt_comment = rd_comment dto, rt_rated_at = clock s\<rparr>"
    and t: "t = s\<lparr>next_uuid := Suc (next_uuid s), satisfaction_ratings := satisfaction_ratings s @ [r]\<rparr>"
    by (auto simp: rate_def withTenantContext_Inr sql_first_def tx_bind_eq_Inr fk_check_def gen_random_uuid_def sql_now_def sql_insert_def
        split: if_splits option.splits)
  note x' = first_of_filter_SomeD [OF x]
  have only: "tk_contact_id y = c" if "y \<in> set (tickets s)" "row_id y = k" for y
    using row_id_inj [OF assms(3), of y x] that x' by auto
  have none: "filter (\<lambda>r. rt_ticket_id r = k) (visible T (satisfaction_ratings s)) = []"
    using new by (auto simp: filter_empty_conv)
  have "ratings_ok t" using assms(2) new only by (auto simp: ratings_ok_def t r)
  moreover have "fst (getForTicket T k t) = Inr (Some r)"
    using none by (simp add: getForTicket_def withTenantContext_def sql_first_def t r tenant_isolation_def)
  moreover have "rate T c k dto' t = (Inl (Conflict ''This ticket has already been rated''), t)"
    using none x cl by (simp add: rate_def withTenantContext_def sql_first_def tx_bind_def t r tenant_isolation_def)
  ultimately show ?thesis using x' cl by (auto simp: t r)
qed

theorem rated_once_witness:
  "\<exists>r t. rate 1 (tk_contact_id printer_ticket) 20 \<lparr>rd_rating = Happy, rd_comment = None\<rparr>
      (one_desk\<lparr>tickets := [printer_ticket\<lparr>tk_status := Resolved\<rparr>],
        contacts := [\<lparr>row_id = tk_contact_id printer_ticket, tenant_id = 1, ct_company_id = None, ct_name = ''Ann'', ct_email = None, ct_phone = None,
          ct_social_handles = JObj [], ct_password_hash = None, ct_oauth_provider = None, ct_email_valid = True\<rparr>]\<rparr>) = (Inr r, t) \<and>
     satisfaction_ratings t = [r] \<and> rt_rating r = Happy"
    (is "\<exists>r t. rate 1 ?c 20 ?dto ?s = (Inr r, t) \<and> _")
proof -
  have "\<exists>r t. rate 1 ?c 20 ?dto ?s = (Inr r, t)"
    by (simp add: rate_def withTenantContext_def sql_first_def tx_bind_def fk_check_def gen_random_uuid_def sql_now_def sql_insert_def
        tenant_isolation_def closing_def del: One_nat_def)
  then obtain r t where run: "rate 1 ?c 20 ?dto ?s = (Inr r, t)" by blast
  have "ratings_ok ?s" "distinct (map row_id (tickets ?s))" by (simp_all add: ratings_ok_def)
  from rated_once [OF run this, of ?dto] run show ?thesis by auto
qed

section \<open>To-dos\<close>

definition todo_ok :: "ticket_todo \<Rightarrow> bool" where
  "todo_ok d \<longleftrightarrow> (td_done_at d \<noteq> None \<longleftrightarrow> td_is_done d)"

lemma apply_assignments_keep:
  assumes "P r" and "\<And>f r. Some f \<in> set sets \<Longrightarrow> P r \<Longrightarrow> P (f r)"
  shows "P (apply_assignments sets r)"
  using assms by (induction sets arbitrary: r) (auto simp: apply_assignments_def split: option.splits)

lemma set_required_mem [simp]: "Some f \<in> set (set_required v g) \<longleftrightarrow> (\<exists>w. v = Some (Some w) \<and> f = g w)"
  by (auto simp: set_required_def eq_commute [of "Some f"] split: option.splits)

lemma todos_update_keeps: "tx_rel (keeps (rows_ok ticket_todos todo_ok))
    (patch_row l ticket_todos ticket_todos_update qr i
      (set_required (ut_body dto) (\<lambda>v d. d\<lparr>td_body := v\<rparr>) @
       set_required (ut_isDone dto) (\<lambda>v d. d\<lparr>td_is_done := v, td_done_at := (if v then Some now else None)\<rparr>)) [])"
proof (intro frame_intros ticket_todos_tbl.sql_update_rows)
  fix d :: ticket_todo
  assume "todo_ok d"
  then show "todo_ok (apply_assignments ((set_required (ut_body dto) (\<lambda>v d. d\<lparr>td_body := v\<rparr>) @
       set_required (ut_isDone dto) (\<lambda>v d. d\<lparr>td_is_done := v, td_done_at := (if v then Some now else None)\<rparr>)) @ []) d)"
    by (rule apply_assignments_keep) (auto simp: todo_ok_def, metis option.distinct(1))
qed

lemma todos_ok:
  "act_rel (keeps (rows_ok ticket_todos todo_ok)) (todos_create T k b)"
  "act_rel (keeps (rows_ok ticket_todos todo_ok)) (todos_update T k i dto)"
  "act_rel (keeps (rows_ok ticket_todos todo_ok)) (todos_remove T k i)"
  unfolding todos_create_def todos_update_def todos_remove_def assertTicketExists_def
  by (intro frame_intros row_intros todos_update_keeps ticket_todos_tbl.sql_insert_rows ticket_todos_tbl.sql_delete_rows;
      simp add: rows_ok_def todo_ok_def)+

text \<open>
  A to-do has a time of completion exactly when it is done: creating, changing and deleting to-dos
  keeps this, and marking one as done or as open writes the time of the change or clears it.
\<close>

theorem todo_done_at_iff_done:
  assumes "list_all todo_ok (ticket_todos s)"
  shows "list_all todo_ok (ticket_todos (snd (todos_create T k b s))) \<and>
    list_all todo_ok (ticket_todos (snd (todos_update T k i dto s))) \<and>
    list_all todo_ok (ticket_todos (snd (todos_remove T k i s))) \<and>
    (todos_update T k i \<lparr>ut_isDone = Some (Some v), ut_body = None\<rparr> s = (Inr d, t) \<longrightarrow>
       td_is_done d = v \<and> td_done_at d = (if v then Some (clock s) else None) \<and> d \<in> set (ticket_todos t))"
proof -
  have "td_is_done d = v \<and> td_done_at d = (if v then Some (clock s) else None) \<and> d \<in> set (ticket_todos t)"
    if run: "todos_update T k i \<lparr>ut_isDone = Some (Some v), ut_body = None\<rparr> s = (Inr d, t)"
  proof -
    let ?f = "\<lambda>d. d\<lparr>td_is_done := v, td_done_at := (if v then Some (clock s) else None)\<rparr>"
    from run obtain rows where rows: "map ?f (filter (by_id i) (visible T (ticket_todos s))) = d # rows"
      and t: "t = s\<lparr>ticket_todos := update_rows T (by_id i) ?f (ticket_todos s)\<rparr>"
      by (auto simp: todos_update_def withTenantContext_Inr find_on_ticket_def sql_first_def tx_bind_eq_Inr sql_now_def patch_row_def
          set_required_def sql_patch_def sql_update_def apply_assignments_def Let_def first_row_def split: if_splits option.splits list.splits)
    have "d \<in> set (map ?f (filter (by_id i) (visible T (ticket_todos s))))" unfolding rows by simp
    then obtain d0 where d0: "d0 \<in> set (ticket_todos s)" "tenant_id d0 = T" "by_id i d0" "d = ?f d0" by auto
    then have "d \<in> set (ticket_todos t)" by (force simp: t update_rows_def tenant_isolation_def)
    with d0(4) show ?thesis by simp
  qed
  with assms todos_ok [THEN act_rel_snd, unfolded keeps_def rows_ok_def] show ?thesis by blast
qed

definition fix_paper :: ticket_todo where
  "fix_paper = \<lparr>row_id = 40, tenant_id = 1, td_ticket_id = 20, td_body = ''Paper'', td_is_done = False, td_done_at = None, td_created_at = 0\<rparr>"

theorem todo_done_at_iff_done_witness:
  "\<exists>d t. todos_update 1 20 40 \<lparr>ut_isDone = Some (Some True), ut_body = None\<rparr> (one_desk\<lparr>ticket_todos := [fix_paper]\<rparr>) = (Inr d, t) \<and>
     td_done_at d = Some 0"
proof -
  let ?s = "one_desk\<lparr>ticket_todos := [fix_paper]\<rparr>" and ?dto = "\<lparr>ut_isDone = Some (Some True), ut_body = None\<rparr>"
  have ok: "list_all todo_ok (ticket_todos ?s)" by (simp add: todo_ok_def fix_paper_def)
  have "\<exists>d t. todos_update 1 20 40 ?dto ?s = (Inr d, t)"
    by (simp add: todos_update_def withTenantContext_def find_on_ticket_def sql_first_def tx_bind_def sql_now_def patch_row_def set_required_def
        sql_patch_def sql_update_def apply_assignments_def first_row_def tenant_isolation_def by_id_def fix_paper_def del: One_nat_def)
  then obtain d t where "todos_update 1 20 40 ?dto ?s = (Inr d, t)" by blast
  with todo_done_at_iff_done [OF ok, of 1 20 "[]" 40 ?dto True d t] show ?thesis by simp
qed

section \<open>Presence\<close>

lemma heartbeat_run:
  assumes "heartbeat T k i typing s = (Inr (), t)"
    and "\<forall>p \<in> set (ticket_presence s). tp_ticket_id p = k \<and> tp_agent_id p = i \<longrightarrow> tenant_id p = T"
  shows "agents t = agents s \<and> users t = users s \<and>
    (\<exists>p \<in> set (ticket_presence t). (tp_ticket_id p = k \<and> tp_agent_id p = i) \<and> tenant_id p = T \<and> tp_last_seen_at p = clock s) \<and>
    (\<forall>p \<in> set (ticket_presence t). tp_ticket_id p = k \<and> tp_agent_id p = i \<longrightarrow> tp_last_seen_at p = clock s)"
proof -
  let ?key = "\<lambda>p. tp_ticket_id p = k \<and> tp_agent_id p = i"
  from assms(1) consider
    (new) "filter ?key (ticket_presence s) = []" "t = s\<lparr>ticket_presence := ticket_presence s @ [\<lparr>row_id = 0, tenant_id = T, tp_ticket_id = k,
        tp_agent_id = i, tp_is_typing = typing, tp_last_seen_at = clock s\<rparr>]\<rparr>"
  | (old) p where "p \<in> set (filter ?key (ticket_presence s))"
      "t = s\<lparr>ticket_presence := update_rows T ?key (\<lambda>p. p\<lparr>tp_is_typing := typing, tp_last_seen_at := clock s\<rparr>) (ticket_presence s)\<rparr>"
    by (auto simp: heartbeat_def withTenantContext_Inr tx_bind_eq_Inr Let_def sql_now_def fk_check_def sql_insert_def sql_update_def
        split: if_splits option.splits dest: first_of_filter_SomeD)
  then show ?thesis
  proof cases
    case new
    then show ?thesis by (auto simp: filter_empty_conv)
  next
    case old
    let ?f = "\<lambda>p. p\<lparr>tp_is_typing := typing, tp_last_seen_at := clock s\<rparr>"
    from old(1) assms(2) have p: "p \<in> set (ticket_presence s)" "?key p" "tenant_id p = T" by auto
    then have "?f p \<in> set (ticket_presence t)" by (force simp: old(2) update_rows_def tenant_isolation_def)
    moreover have "tp_last_seen_at q = clock s" if "q \<in> set (ticket_presence t)" "?key q" for q
    proof -
      from that(1) obtain q0 where q0: "q0 \<in> set (ticket_presence s)" "q = (if tenant_isolation T q0 \<and> ?key q0 then ?f q0 else q0)"
        by (auto simp: old(2) update_rows_def)
      with that(2) have "?key q0" by (simp split: if_splits)
      with assms(2) q0 show ?thesis by (simp add: tenant_isolation_def)
    qed
    ultimately show ?thesis using p(2,3) by (intro conjI bexI [of _ "?f p"] ballI impI) (simp_all add: old(2))
  qed
qed

text \<open>
  A heartbeat is seen by the others for twenty seconds and not longer: whatever the clock is later, the
  list of the ticket shows the agent exactly while fewer than twenty seconds have passed, unless it is
  the agent who asks.
\<close>

theorem presence_time_to_live:
  assumes "heartbeat T k (row_id a) typing s = (Inr (), t)" and "a \<in> set (agents s)" and "tenant_id a = T"
    and "u \<in> set (users s)" and "tenant_id u = T" and "row_id u = ag_user_id a"
    and "\<forall>p \<in> set (ticket_presence s). tp_ticket_id p = k \<and> tp_agent_id p = row_id a \<longrightarrow> tenant_id p = T"
    and "presence_list T k except (t\<lparr>clock := later\<rparr>) = (Inr views, t')"
  shows "row_id a \<in> pv_agent_id ` set views \<longleftrightarrow> later < clock s + 20000 \<and> except \<noteq> Some (row_id a)"
proof -
  note run = heartbeat_run [OF assms(1,7)]
  then have t: "agents t = agents s" "users t = users s" by blast+
  let ?shown = "\<lambda>p. tp_ticket_id p = k \<and> tp_last_seen_at p > later - 20000 \<and> (except = None \<or> Some (tp_agent_id p) \<noteq> except)"
  have "views = concat (map (\<lambda>p. concat (map (\<lambda>a. map (\<lambda>u.
      \<lparr>pv_agent_id = tp_agent_id p, pv_is_typing = tp_is_typing p, pv_last_seen_at = tp_last_seen_at p, pv_agent_name = us_name u\<rparr>)
      (filter (by_id (ag_user_id a)) (visible T (users t)))) (filter (by_id (tp_agent_id p)) (visible T (agents t)))))
    (order_by (\<lambda>p. - tp_last_seen_at p) (filter ?shown (visible T (ticket_presence t)))))"
    using assms(8) by (simp add: presence_list_def withTenantContext_def sql_now_def sql_select_def tx_bind_def PRESENCE_TTL_SECONDS_def)
  then have agents: "pv_agent_id ` set views = {i. \<exists>p \<in> set (ticket_presence t). i = tp_agent_id p \<and> tenant_id p = T \<and> ?shown p \<and>
      (\<exists>b \<in> set (agents s). tenant_id b = T \<and> row_id b = i \<and> (\<exists>v \<in> set (users s). tenant_id v = T \<and> row_id v = ag_user_id b))}"
    by (auto simp: t order_by_def by_id_def image_UN image_iff) blast+
  show ?thesis
  proof
    assume "row_id a \<in> pv_agent_id ` set views"
    with run show "later < clock s + 20000 \<and> except \<noteq> Some (row_id a)" unfolding agents by auto
  next
    assume r: "later < clock s + 20000 \<and> except \<noteq> Some (row_id a)"
    from run obtain p where "p \<in> set (ticket_presence t)" "tp_ticket_id p = k" "tp_agent_id p = row_id a" "tenant_id p = T" "tp_last_seen_at p = clock s" by blast
    with r assms(2-6) show "row_id a \<in> pv_agent_id ` set views"
      unfolding agents by (intro CollectI bexI [of _ p] conjI bexI [of _ a] bexI [of _ u]) auto
  qed
qed

section \<open>The satisfaction score\<close>

lemma satisfaction_partition: "length (filter (\<lambda>r. rt_rating r = Happy) rs) + length (filter (\<lambda>r. rt_rating r = Neutral) rs)
    + length (filter (\<lambda>r. rt_rating r = Unhappy) rs) = length rs"
proof (induction rs)
  case (Cons r rs)
  then show ?case by (cases "rt_rating r") simp_all
qed simp

theorem satisfaction_summary_bounds:
  "\<exists>c. satisfaction_summary T window s = (Inr c, s) \<and> cs_happy c + cs_neutral c + cs_unhappy c = cs_total c \<and>
     (cs_happyPct c = None \<longleftrightarrow> cs_total c = 0) \<and> (case cs_happyPct c of None \<Rightarrow> True | Some p \<Rightarrow> 0 \<le> p \<and> p \<le> 100)"
proof -
  have "of_nat (length (filter P rs)) / of_nat (length rs) * 100 \<le> (100 :: rat)" if "rs \<noteq> []" for P and rs :: "rating list"
  proof -
    have "of_nat (length (filter P rs)) \<le> (of_nat (length rs) :: rat)" by simp
    with that show ?thesis by (simp add: divide_le_eq)
  qed
  then show ?thesis
    by (simp add: satisfaction_summary_def withTenantContext_def sql_now_def sql_select_def tx_bind_def Let_def satisfaction_partition del: filter_filter)
qed

end
