(* ===== verification/Monitor_Scheduler.thy ===== *)
theory Monitor_Scheduler
  imports Probes Observability_Schema Escalation Ticket_Extras Auth
begin

text \<open>
  Monitors and the services that feed the alert engine: the CRUD service of monitors (\<open>monitors.service.ts\<close>)
  with the validation of synthetic scripts (\<open>synthetic/synthetic-script.ts\<close>), the scheduler
  (\<open>monitor-scheduler.service.ts\<close>), the scheduler of synthetic monitors
  (\<open>synthetic/synthetic-scheduler.service.ts\<close>), and the agents that push their reports
  (\<open>agent-tokens.service.ts\<close>, \<open>agent-token.guard.ts\<close>, \<open>agent-ingestion.service.ts\<close>). The runner of synthetic scripts
  (a browser) is a parameter.
\<close>

section \<open>Synthetic scripts\<close>

definition SYNTHETIC_ACTIONS :: "string list" where
  "SYNTHETIC_ACTIONS = [''goto'', ''click'', ''fill'', ''expectText'']"

record SyntheticStep =
  ss_action :: string
  ss_selector :: "string option"
  ss_url :: "string option"
  ss_value :: "string option"

record SyntheticScript =
  sc_steps :: "SyntheticStep list"
  sc_maxStepMs :: rat

definition DEFAULT_MAX_STEP_MS :: rat where
  "DEFAULT_MAX_STEP_MS = 15000"

definition MIN_MAX_STEP_MS :: rat where
  "MIN_MAX_STEP_MS = 1000"

definition MAX_MAX_STEP_MS :: rat where
  "MAX_MAX_STEP_MS = 120000"

definition string_value :: "json option \<Rightarrow> string option" where
  "string_value v = (case v of Some (JStr s) \<Rightarrow> Some s | _ \<Rightarrow> None)"

definition step_error :: "nat \<Rightarrow> string \<Rightarrow> error" where
  "step_error index msg = BadRequest (''Synthetic step '' @ nat_text index @ msg)"

definition is_object :: "json \<Rightarrow> bool" where
  "is_object j = (case j of JObj _ \<Rightarrow> True | JArr _ \<Rightarrow> True | _ \<Rightarrow> False)"

definition nonempty_string :: "json option \<Rightarrow> string option" where
  "nonempty_string v = (case string_value v of Some s \<Rightarrow> if s = [] then None else Some s | None \<Rightarrow> None)"

definition validateStep :: "js_format \<Rightarrow> json \<Rightarrow> nat \<Rightarrow> error + SyntheticStep" where
  "validateStep F step index =
     (if \<not> is_object step then Inl (step_error index '' must be an object'')
      else (case string_value (js_prop step ''action'') of
        None \<Rightarrow> Inl (step_error index ('' has an unknown action '' @ js_interp F (js_prop step ''action'')))
      | Some action \<Rightarrow>
          if action \<notin> set SYNTHETIC_ACTIONS then Inl (step_error index ('' has an unknown action '' @ action))
          else if action = ''goto'' then (case nonempty_string (js_prop step ''url'') of
              None \<Rightarrow> Inl (step_error index '' (goto) requires a url'')
            | Some url \<Rightarrow> Inr \<lparr>ss_action = action, ss_selector = None, ss_url = Some url, ss_value = None\<rparr>)
          else (case nonempty_string (js_prop step ''selector'') of
              None \<Rightarrow> Inl (step_error index ('' ('' @ action @ '') requires a selector''))
            | Some selector \<Rightarrow>
                if (action = ''fill'' \<or> action = ''expectText'') \<and> string_value (js_prop step ''value'') = None
                then Inl (step_error index ('' ('' @ action @ '') requires a value''))
                else Inr \<lparr>ss_action = action, ss_selector = Some selector, ss_url = None, ss_value = string_value (js_prop step ''value'')\<rparr>)))"

fun validate_steps :: "js_format \<Rightarrow> nat \<Rightarrow> json list \<Rightarrow> error + SyntheticStep list" where
  "validate_steps F i [] = Inr []"
| "validate_steps F i (j # js) = (case validateStep F j i of Inl e \<Rightarrow> Inl e
     | Inr st \<Rightarrow> (case validate_steps F (Suc i) js of Inl e \<Rightarrow> Inl e | Inr sts \<Rightarrow> Inr (st # sts)))"

definition validateSyntheticScript :: "js_format \<Rightarrow> json \<Rightarrow> error + SyntheticScript" where
  "validateSyntheticScript F config =
     (if config = JNull then Inl (Failure ''Cannot read properties of null'')
      else (case js_prop config ''steps'' of
        Some (JArr (j # js)) \<Rightarrow> (case validate_steps F 0 (j # js) of
            Inl e \<Rightarrow> Inl e
          | Inr steps \<Rightarrow> (case js_prop config ''maxStepMs'' of
                None \<Rightarrow> Inr \<lparr>sc_steps = steps, sc_maxStepMs = DEFAULT_MAX_STEP_MS\<rparr>
              | Some (JNum q) \<Rightarrow> if q < MIN_MAX_STEP_MS \<or> q > MAX_MAX_STEP_MS then Inl (BadRequest ''maxStepMs'')
                  else Inr \<lparr>sc_steps = steps, sc_maxStepMs = q\<rparr>
              | Some _ \<Rightarrow> Inl (BadRequest ''maxStepMs'')))
      | _ \<Rightarrow> Inl (BadRequest ''A synthetic monitor needs a non-empty steps array'')))"

section \<open>Monitors\<close>

record CreateMonitor =
  km_resourceId :: uuid
  km_name :: string
  km_monitorType :: MonitorType
  km_config :: "json option"
  km_intervalSeconds :: "int option"
  km_consecutiveFailuresToAlert :: "nat option"
  km_minFailingLocations :: "nat option"
  km_isEnabled :: "bool option"

record UpdateMonitor =
  um_name :: "string option option"
  um_config :: "json option"
  um_intervalSeconds :: "int option option"
  um_consecutiveFailuresToAlert :: "nat option option"
  um_isEnabled :: "bool option option"

definition or_default :: "'a option \<Rightarrow> 'a \<Rightarrow> 'a" where
  "or_default v d = (case v of None \<Rightarrow> d | Some x \<Rightarrow> x)"

definition check_script :: "js_format \<Rightarrow> json \<Rightarrow> ('s, unit) tx" where
  "check_script F config = (case validateSyntheticScript F config of Inl e \<Rightarrow> tx_throw e | Inr _ \<Rightarrow> tx_return ())"

definition latest_check :: "query_runner \<Rightarrow> uuid \<Rightarrow> 's monitoring_scheme \<Rightarrow> monitor_check option" where
  "latest_check qr monitorId s = first_of (recent_checks qr monitorId 1 s)"

definition monitors_list :: "uuid \<Rightarrow> ('s monitoring_scheme, (monitor \<times> (CheckStatus \<times> msec) option) list) act" where
  "monitors_list tenantId = withTenantContext tenantId (\<lambda>qr.
     tx_bind (sql_select monitors qr (\<lambda>_. True)) (\<lambda>rows. tx_gets (\<lambda>s.
       map (\<lambda>m. (m, map_option (\<lambda>c. (mc_status c, mc_checked_at c)) (latest_check qr (row_id m) s))) (order_by mo_name rows))))"

definition monitors_get :: "uuid \<Rightarrow> uuid \<Rightarrow> ('s monitoring_scheme, monitor) act" where
  "monitors_get tenantId i = withTenantContext tenantId (\<lambda>qr. find_row ''Monitor'' monitors qr i)"

text \<open>The script is validated before the transaction begins.\<close>

definition monitors_create :: "js_format \<Rightarrow> uuid \<Rightarrow> CreateMonitor \<Rightarrow> ('s monitoring_scheme, monitor) act" where
  "monitors_create F tenantId dto =
     (let config = js_or_else (km_config dto) (JObj []) in
      case (if km_monitorType dto = Mt_Synthetic then validateSyntheticScript F config
            else Inr \<lparr>sc_steps = [], sc_maxStepMs = 0\<rparr>) of
        Inl e \<Rightarrow> act_throw e
      | Inr _ \<Rightarrow> withTenantContext tenantId (\<lambda>qr.
          tx_bind (find_row ''Resource'' resources qr (km_resourceId dto)) (\<lambda>_.
          tx_bind (int4 (or_default (km_intervalSeconds dto) 60)) (\<lambda>interval.
          tx_bind (int4 (int (or_default (km_consecutiveFailuresToAlert dto) 2))) (\<lambda>_.
          tx_bind (int4 (int (or_default (km_minFailingLocations dto) 1))) (\<lambda>_.
          tx_bind gen_random_uuid (\<lambda>i. tx_bind sql_now (\<lambda>now.
          sql_insert monitors_update qr \<lparr>row_id = i, tenant_id = tenantId, mo_resource_id = km_resourceId dto, mo_name = km_name dto,
            mo_monitor_type = km_monitorType dto, mo_config = config, mo_interval_seconds = interval,
            mo_consecutive_failures_to_alert = or_default (km_consecutiveFailuresToAlert dto) 2,
            mo_min_failing_locations = or_default (km_minFailingLocations dto) 1,
            mo_is_enabled = or_default (km_isEnabled dto) True, mo_created_at = now, mo_updated_at = now\<rparr>))))))))"

text \<open>A number that does not fit the column makes the statement fail, like a \<open>null\<close> does.\<close>

definition update_fits :: "int option option \<Rightarrow> ('s, unit) tx" where
  "update_fits v = (case v of Some (Some n) \<Rightarrow> tx_bind (int4 n) (\<lambda>_. tx_return ()) | _ \<Rightarrow> tx_return ())"

definition monitors_update_row :: "js_format \<Rightarrow> uuid \<Rightarrow> uuid \<Rightarrow> UpdateMonitor \<Rightarrow> ('s monitoring_scheme, monitor) act" where
  "monitors_update_row F tenantId i dto = withTenantContext tenantId (\<lambda>qr.
     tx_bind (find_row ''Monitor'' monitors qr i) (\<lambda>existing.
     tx_bind (case um_config dto of Some config \<Rightarrow> if mo_monitor_type existing = Mt_Synthetic then check_script F config else tx_return ()
       | None \<Rightarrow> tx_return ()) (\<lambda>_.
     tx_bind (update_fits (um_intervalSeconds dto)) (\<lambda>_.
     tx_bind (update_fits (map_option (map_option int) (um_consecutiveFailuresToAlert dto))) (\<lambda>_.
     tx_bind sql_now (\<lambda>now.
     patch_row ''Monitor'' monitors monitors_update qr i
       (set_required (um_name dto) (\<lambda>v m. m\<lparr>mo_name := v\<rparr>) @ set_nullable (um_config dto) (\<lambda>v m. m\<lparr>mo_config := v\<rparr>) @
        set_required (um_intervalSeconds dto) (\<lambda>v m. m\<lparr>mo_interval_seconds := v\<rparr>) @
        set_required (um_consecutiveFailuresToAlert dto) (\<lambda>v m. m\<lparr>mo_consecutive_failures_to_alert := v\<rparr>) @
        set_required (um_isEnabled dto) (\<lambda>v m. m\<lparr>mo_is_enabled := v\<rparr>))
       [Some (\<lambda>m. m\<lparr>mo_updated_at := now\<rparr>)]))))))"

definition monitors_checks :: "uuid \<Rightarrow> uuid \<Rightarrow> nat \<Rightarrow> ('s monitoring_scheme, monitor_check list) act" where
  "monitors_checks tenantId monitorId limit = withTenantContext tenantId (\<lambda>qr.
     tx_bind (find_row ''Monitor'' monitors qr monitorId) (\<lambda>_. tx_gets (\<lambda>s. rev (recent_checks qr monitorId limit s))))"

text \<open>The rows that refer to a monitor go with it; the steps of its synthetic runs go with the checks.\<close>

definition cascade_monitor :: "uuid \<Rightarrow> ('s observability_scheme, unit) tx" where
  "cascade_monitor i =
     tx_bind (tx_gets (\<lambda>s. map row_id (filter (\<lambda>c. mc_monitor_id c = i) (monitor_checks s)))) (\<lambda>checks.
     tx_bind (tx_fold (\<lambda>c _. on_delete_cascade synthetic_run_steps_update (\<lambda>r. Some (sy_monitor_check_id r)) c) checks ()) (\<lambda>_.
     tx_bind (on_delete_cascade monitor_checks_update (\<lambda>r. Some (mc_monitor_id r)) i) (\<lambda>_.
     tx_bind (on_delete_cascade alert_rules_update (\<lambda>r. Some (al_monitor_id r)) i) (\<lambda>_.
     tx_bind (on_delete_cascade alerts_update (\<lambda>r. Some (at_monitor_id r)) i) (\<lambda>_.
     tx_bind (on_delete_set_null downtime_events_update de_monitor_id (\<lambda>r. r\<lparr>de_monitor_id := None\<rparr>) i) (\<lambda>_.
     tx_bind (on_delete_cascade disk_forecasts_update (\<lambda>r. Some (df_monitor_id r)) i) (\<lambda>_.
     on_delete_cascade status_page_monitors_update (\<lambda>r. Some (sm_monitor_id r)) i)))))))"

definition monitors_remove :: "uuid \<Rightarrow> uuid \<Rightarrow> ('s observability_scheme, unit) act" where
  "monitors_remove tenantId i = withTenantContext tenantId (\<lambda>qr.
     remove_referenced ''Monitor'' monitors monitors_update qr i (cascade_monitor i))"

section \<open>The scheduler\<close>

definition ACTIVELY_POLLED_TYPES :: "MonitorType list" where
  "ACTIVELY_POLLED_TYPES = [Mt_Http, Mt_Ping, Mt_Port, Mt_Dns, Mt_Ssl]"

definition STALENESS_MULTIPLIER :: int where
  "STALENESS_MULTIPLIER = 3"

text \<open>What the engine runs with: how values print, the libraries, whether the internal endpoints answer, and the location of the worker.\<close>

record engine =
  en_format :: js_format
  en_intl :: intl
  en_html :: html_lib
  en_float :: "string \<Rightarrow> rat option"
  en_reachable :: bool
  en_net :: net_lib
  en_location :: string

definition engine_evaluate :: "engine \<Rightarrow> uuid \<Rightarrow> EvaluatedMonitor \<Rightarrow> CheckResult \<Rightarrow> ('s monitoring_scheme, unit) act" where
  "engine_evaluate E = evaluate (en_format E) (en_intl E) (en_html E) (en_float E) (en_reachable E)"

record CheckedEntry =
  ce_monitor :: EvaluatedMonitor
  ce_result :: CheckResult

definition evaluated :: "nat option \<Rightarrow> monitor \<Rightarrow> EvaluatedMonitor" where
  "evaluated minLocations m = \<lparr>em_id = row_id m, em_name = mo_name m, em_resourceId = mo_resource_id m,
     em_consecutiveFailuresToAlert = mo_consecutive_failures_to_alert m, em_minFailingLocations = minLocations\<rparr>"

text \<open>No check yet, or the newest one is older than the interval.\<close>

definition is_due :: "query_runner \<Rightarrow> 's monitoring_scheme \<Rightarrow> monitor \<Rightarrow> bool" where
  "is_due qr s m = (case latest_check qr (row_id m) s of
     None \<Rightarrow> True | Some c \<Rightarrow> mc_checked_at c < clock s - mo_interval_seconds m * 1000)"

definition due_monitors :: "(MonitorType \<Rightarrow> bool) \<Rightarrow> query_runner \<Rightarrow> 's monitoring_scheme \<Rightarrow> monitor list" where
  "due_monitors types qr s = filter (\<lambda>m. mo_is_enabled m \<and> types (mo_monitor_type m) \<and> is_due qr s m) (visible qr (monitors s))"

text \<open>
  A number of JavaScript as the value of an \<open>int\<close> column. The driver sends the text of the number, and the text of
  a fraction, of \<open>NaN\<close> or of a number with an exponent is not an integer.
\<close>

definition pg_int :: "rat option option \<Rightarrow> ('s, int option) tx" where
  "pg_int v = (case v of
      None \<Rightarrow> tx_return None
    | Some None \<Rightarrow> tx_throw invalid_text_representation
    | Some (Some q) \<Rightarrow> if of_int \<lfloor>q\<rfloor> = q \<and> \<bar>q\<bar> < 10 ^ 21 then tx_bind (int4 \<lfloor>q\<rfloor>) (\<lambda>n. tx_return (Some n))
        else tx_throw invalid_text_representation)"

definition insert_check :: "query_runner \<Rightarrow> uuid \<Rightarrow> string \<Rightarrow> uuid \<Rightarrow> CheckResult \<Rightarrow> ('s monitoring_scheme, monitor_check) tx" where
  "insert_check qr tenantId location monitorId result =
     tx_bind (pg_int (cr_responseTimeMs result)) (\<lambda>ms.
     tx_bind (fk_check monitors monitorId) (\<lambda>_.
     tx_bind gen_random_uuid (\<lambda>i. tx_bind sql_now (\<lambda>now.
     sql_insert monitor_checks_update qr \<lparr>row_id = i, tenant_id = tenantId, mc_monitor_id = monitorId, mc_status = cr_status result,
       mc_response_time_ms = ms, mc_raw_output = cr_rawOutput result, mc_location = location, mc_checked_at = now\<rparr>))))"

definition ms_json :: "rat option option \<Rightarrow> json" where
  "ms_json v = (case v of Some (Some q) \<Rightarrow> JNum q | _ \<Rightarrow> JNull)"

definition publishCheckRecorded :: "uuid \<Rightarrow> uuid \<Rightarrow> CheckResult \<Rightarrow> ('s monitoring_scheme, unit) act" where
  "publishCheckRecorded tenantId monitorId result =
     act_bind (publish tenantId ''monitor.checked'' (JObj [(''monitorId'', JId monitorId),
       (''status'', JStr (check_status_text (cr_status result))), (''responseTimeMs'', ms_json (cr_responseTimeMs result))])) (\<lambda>_. act_return ())"

definition record_checks :: "engine \<Rightarrow> uuid \<Rightarrow> CheckedEntry list \<Rightarrow> query_runner \<Rightarrow> ('s monitoring_scheme, unit) tx" where
  "record_checks E tenantId entries qr =
     tx_fold (\<lambda>entry _. tx_bind (insert_check qr tenantId (en_location E) (em_id (ce_monitor entry)) (ce_result entry)) (\<lambda>_. tx_return ())) entries ()"

definition evaluate_entry :: "engine \<Rightarrow> uuid \<Rightarrow> CheckedEntry \<Rightarrow> ('s monitoring_scheme, unit) act" where
  "evaluate_entry E tenantId entry =
     act_bind (publishCheckRecorded tenantId (em_id (ce_monitor entry)) (ce_result entry)) (\<lambda>_.
     act_catch (engine_evaluate E tenantId (ce_monitor entry) (ce_result entry)) (\<lambda>_. act_return ()))"

definition recordAndEvaluate :: "engine \<Rightarrow> uuid \<Rightarrow> CheckedEntry list \<Rightarrow> ('s monitoring_scheme, unit) act" where
  "recordAndEvaluate E tenantId entries =
     (if entries = [] then act_return ()
      else act_bind (withTenantContext tenantId (record_checks E tenantId entries)) (\<lambda>_.
        act_fold (\<lambda>entry _. evaluate_entry E tenantId entry) entries ()))"

text \<open>A probe that raises is logged and leaves no entry.\<close>

definition probe :: "engine \<Rightarrow> msec \<Rightarrow> monitor \<Rightarrow> CheckedEntry option" where
  "probe E start m = (case runCheck (en_format E) (en_net E) start (mo_monitor_type m) (mo_config m) of
     Inl _ \<Rightarrow> None | Inr result \<Rightarrow> Some \<lparr>ce_monitor = evaluated (Some (mo_min_failing_locations m)) m, ce_result = result\<rparr>)"

definition sweepActivelyPolled :: "engine \<Rightarrow> uuid \<Rightarrow> ('s monitoring_scheme, nat) act" where
  "sweepActivelyPolled E tenantId =
     act_bind (withTenantContext tenantId (\<lambda>qr. tx_gets (due_monitors (\<lambda>ty. ty \<in> set ACTIVELY_POLLED_TYPES) qr))) (\<lambda>dueMonitors.
     if dueMonitors = [] then act_return 0
     else act_bind (act_gets clock) (\<lambda>now.
       let entries = List.map_filter (probe E now) dueMonitors in
       act_bind (recordAndEvaluate E tenantId entries) (\<lambda>_. act_return (length entries))))"

text \<open>The \<open>LEFT JOIN\<close> with the enabled tokens of the resource: one row per token, or one row without.\<close>

definition due_agents :: "query_runner \<Rightarrow> 's monitoring_scheme \<Rightarrow> (monitor \<times> msec option) list" where
  "due_agents qr s = concat (map (\<lambda>m. case filter (\<lambda>k. ak_resource_id k = mo_resource_id m \<and> ak_is_enabled k) (visible qr (agent_tokens s)) of
      [] \<Rightarrow> [(m, None)]
    | ks \<Rightarrow> map (\<lambda>k. (m, ak_last_seen_at k)) ks)
    (due_monitors (\<lambda>ty. ty = Mt_Server_Agent) qr s))"

definition sweepStaleAgents :: "engine \<Rightarrow> uuid \<Rightarrow> ('s monitoring_scheme, nat) act" where
  "sweepStaleAgents E tenantId =
     act_bind (withTenantContext tenantId (\<lambda>qr. tx_gets (due_agents qr))) (\<lambda>dueMonitors.
     if dueMonitors = [] then act_return 0
     else act_bind (act_gets clock) (\<lambda>now.
       let entries = map (\<lambda>(m, lastSeen). \<lparr>ce_monitor = evaluated (Some 1) m,
             ce_result = checkAgentStaleness now lastSeen (mo_interval_seconds m * STALENESS_MULTIPLIER)\<rparr>) dueMonitors in
       act_bind (recordAndEvaluate E tenantId entries) (\<lambda>_. act_return (length entries))))"

definition scheduler_add_tenant :: "engine \<Rightarrow> tenant \<Rightarrow> nat \<Rightarrow> ('s monitoring_scheme, nat) act" where
  "scheduler_add_tenant E t checkedCount =
     act_bind (act_catch (act_bind (sweepActivelyPolled E (tn_id t)) (\<lambda>k. act_return (Some k))) (\<lambda>_. act_return None)) (\<lambda>polled.
     case polled of
       None \<Rightarrow> act_return checkedCount
     | Some k \<Rightarrow> act_catch (act_bind (sweepStaleAgents E (tn_id t)) (\<lambda>k'. act_return (checkedCount + k + k'))) (\<lambda>_. act_return (checkedCount + k)))"

definition scheduler_runSweepOnce :: "engine \<Rightarrow> bool \<Rightarrow> ('s monitoring_scheme, nat) act" where
  "scheduler_runSweepOnce E running =
     (if running then act_return 0 else act_bind (act_gets tenants) (\<lambda>ts. act_fold (scheduler_add_tenant E) ts 0))"

section \<open>Synthetic monitors\<close>

record SyntheticStepResult =
  sr_index :: int
  sr_action :: string
  sr_ok :: bool
  sr_durationMs :: int
  sr_error :: "string option"

record SyntheticRunResult =
  sx_ok :: bool
  sx_totalMs :: int
  sx_steps :: "SyntheticStepResult list"
  sx_failingStepIndex :: "nat option"

type_synonym synthetic_runner = "SyntheticStep list \<Rightarrow> rat \<Rightarrow> error + SyntheticRunResult"

definition step_status :: "SyntheticStepResult \<Rightarrow> string" where
  "step_status r = (if sr_ok r then ''ok'' else ''failed'')"

definition step_json :: "SyntheticStepResult \<Rightarrow> json" where
  "step_json r = JObj ([(''index'', JNum (of_int (sr_index r))), (''action'', JStr (sr_action r)), (''status'', JStr (step_status r)),
     (''durationMs'', JNum (of_int (sr_durationMs r)))] @ (case sr_error r of None \<Rightarrow> [] | Some e \<Rightarrow> [(''error'', JStr e)]))"

definition index_json :: "nat option \<Rightarrow> json" where
  "index_json v = (case v of None \<Rightarrow> JNull | Some n \<Rightarrow> JNum (of_nat n))"

definition insert_run_step :: "query_runner \<Rightarrow> uuid \<Rightarrow> uuid \<Rightarrow> SyntheticStepResult \<Rightarrow> ('s observability_scheme, unit) tx" where
  "insert_run_step qr tenantId checkId r =
     tx_bind (int4 (sr_index r)) (\<lambda>_. tx_bind (int4 (sr_durationMs r)) (\<lambda>_.
     tx_bind gen_random_uuid (\<lambda>i. tx_bind sql_now (\<lambda>now.
     tx_bind (sql_insert synthetic_run_steps_update qr \<lparr>row_id = i, tenant_id = tenantId, sy_monitor_check_id = checkId, sy_step_index = sr_index r,
       sy_action = sr_action r, sy_status = step_status r, sy_duration_ms = sr_durationMs r, sy_error = sr_error r, sy_created_at = now\<rparr>) (\<lambda>_.
     tx_return ())))))"

definition record_run :: "engine \<Rightarrow> uuid \<Rightarrow> uuid \<Rightarrow> SyntheticRunResult \<Rightarrow> query_runner \<Rightarrow> ('s observability_scheme, unit) tx" where
  "record_run E tenantId monitorId result qr =
     tx_bind (insert_check qr tenantId (en_location E) monitorId
       \<lparr>cr_status = (if sx_ok result then Up else Down), cr_responseTimeMs = Some (Some (of_int (sx_totalMs result))),
        cr_rawOutput = JObj [(''steps'', JArr (map step_json (sx_steps result))), (''failingStepIndex'', index_json (sx_failingStepIndex result))]\<rparr>) (\<lambda>check.
     tx_fold (\<lambda>r _. insert_run_step qr tenantId (row_id check) r) (sx_steps result) ())"

text \<open>What the alert engine is told: the error of the failing step, if the run names one.\<close>

definition run_result :: "SyntheticRunResult \<Rightarrow> CheckResult" where
  "run_result result =
     (let failingStep = Option.bind (sx_failingStepIndex result) (\<lambda>i. if i < length (sx_steps result) then Some (sx_steps result ! i) else None) in
      \<lparr>cr_status = (if sx_ok result then Up else Down), cr_responseTimeMs = Some (Some (of_int (sx_totalMs result))),
       cr_rawOutput = JObj ((''failingStepIndex'', index_json (sx_failingStepIndex result)) #
         (case Option.bind failingStep sr_error of None \<Rightarrow> [] | Some e \<Rightarrow> [(''error'', JStr e)]))\<rparr>)"

definition runAndRecord :: "engine \<Rightarrow> synthetic_runner \<Rightarrow> uuid \<Rightarrow> monitor \<Rightarrow> ('s observability_scheme, unit) act" where
  "runAndRecord E runner tenantId m = (case validateSyntheticScript (en_format E) (mo_config m) of
      Inl e \<Rightarrow> act_throw e
    | Inr script \<Rightarrow> (case runner (sc_steps script) (sc_maxStepMs script) of
        Inl e \<Rightarrow> act_throw e
      | Inr result \<Rightarrow>
          act_bind (withTenantContext tenantId (record_run E tenantId (row_id m) result)) (\<lambda>_.
          act_catch (engine_evaluate E tenantId (evaluated (Some (mo_min_failing_locations m)) m) (run_result result)) (\<lambda>_. act_return ()))))"

definition synthetic_sweepTenant :: "engine \<Rightarrow> synthetic_runner \<Rightarrow> uuid \<Rightarrow> ('s observability_scheme, nat) act" where
  "synthetic_sweepTenant E runner tenantId =
     act_bind (withTenantContext tenantId (\<lambda>qr. tx_gets (due_monitors (\<lambda>ty. ty = Mt_Synthetic) qr))) (\<lambda>dueMonitors.
     act_bind (act_fold (\<lambda>m _. act_catch (runAndRecord E runner tenantId m) (\<lambda>_. act_return ())) dueMonitors ()) (\<lambda>_.
     act_return (length dueMonitors)))"

definition synthetic_runSweepOnce :: "engine \<Rightarrow> synthetic_runner \<Rightarrow> bool \<Rightarrow> ('s observability_scheme, nat) act" where
  "synthetic_runSweepOnce E runner running =
     (if running then act_return 0 else act_bind (act_gets tenants) (\<lambda>ts.
       act_fold (\<lambda>t n. act_catch (act_bind (synthetic_sweepTenant E runner (tn_id t)) (\<lambda>k. act_return (n + k))) (\<lambda>_. act_return n)) ts 0))"

section \<open>Agents\<close>

record UpdateAgentToken =
  ut_label :: "string option option"
  ut_isEnabled :: "bool option option"

definition agentTokens_list :: "uuid \<Rightarrow> ('s monitoring_scheme, agent_token list) act" where
  "agentTokens_list tenantId = withTenantContext tenantId (\<lambda>qr.
     tx_bind (sql_select agent_tokens qr (\<lambda>_. True)) (\<lambda>rows. tx_return (order_by ak_created_at rows)))"

definition agentTokens_create :: "jwt_lib \<Rightarrow> auth_env \<Rightarrow> uuid \<Rightarrow> uuid \<Rightarrow> string \<Rightarrow> ('s monitoring_scheme, agent_token \<times> string) act" where
  "agentTokens_create J V tenantId resourceId label = withTenantContext tenantId (\<lambda>qr.
     tx_bind (find_row ''Resource'' resources qr resourceId) (\<lambda>_.
     tx_bind gen_random_uuid (\<lambda>i. tx_bind sql_now (\<lambda>now.
     tx_bind (sql_insert agent_tokens_update qr \<lparr>row_id = i, tenant_id = tenantId, ak_resource_id = resourceId, ak_label = label,
       ak_is_enabled = True, ak_last_seen_at = None, ak_created_at = now\<rparr>) (\<lambda>row.
     tx_return (row, signDeviceJwt J V (row_id row) tenantId resourceId now))))))"

definition agentTokens_update_row :: "uuid \<Rightarrow> uuid \<Rightarrow> UpdateAgentToken \<Rightarrow> ('s monitoring_scheme, agent_token) act" where
  "agentTokens_update_row tenantId i dto = withTenantContext tenantId (\<lambda>qr.
     tx_bind (find_row ''Agent token'' agent_tokens qr i) (\<lambda>_.
     patch_row ''Agent token'' agent_tokens agent_tokens_update qr i
       (set_required (ut_label dto) (\<lambda>v k. k\<lparr>ak_label := v\<rparr>) @ set_required (ut_isEnabled dto) (\<lambda>v k. k\<lparr>ak_is_enabled := v\<rparr>)) []))"

definition agentTokens_remove :: "uuid \<Rightarrow> uuid \<Rightarrow> ('s monitoring_scheme, unit) act" where
  "agentTokens_remove tenantId i = withTenantContext tenantId (\<lambda>qr. remove_row ''Agent token'' agent_tokens agent_tokens_update qr i)"

record AgentScopedRequest =
  ag_tenantId :: uuid
  ag_resourceId :: uuid
  ag_agentTokenId :: uuid

text \<open>A token without a claim the query needs finds no row.\<close>

definition agentTokenGuard :: "jwt_lib \<Rightarrow> http_request \<Rightarrow> ('s monitoring_scheme, AgentScopedRequest) act" where
  "agentTokenGuard J r = (case bearer_token r of
      None \<Rightarrow> act_throw (Unauthorized ''Authorization: Bearer <device token> is required'')
    | Some token \<Rightarrow> act_bind (act_gets clock) (\<lambda>now. case verifyDeviceJwt J token now of
        None \<Rightarrow> act_throw (Unauthorized ''Invalid or expired device token'')
      | Some claims \<Rightarrow> (case (cl_tenantId claims, cl_sub claims, cl_resourceId claims) of
          (Some tenantId, Some sub, Some resourceId) \<Rightarrow>
            act_bind (withTenantContext tenantId (\<lambda>qr. sql_first agent_tokens qr (\<lambda>k. by_id sub k \<and> ak_resource_id k = resourceId))) (\<lambda>row.
            if (case row of None \<Rightarrow> False | Some k \<Rightarrow> ak_is_enabled k)
            then act_return \<lparr>ag_tenantId = tenantId, ag_resourceId = resourceId, ag_agentTokenId = sub\<rparr>
            else act_throw (Unauthorized ''Device token has been revoked or no longer exists''))
        | _ \<Rightarrow> act_throw (Unauthorized ''Device token has been revoked or no longer exists''))))"

definition heartbeat :: "uuid \<Rightarrow> uuid \<Rightarrow> ('s monitoring_scheme, unit) act" where
  "heartbeat tenantId agentTokenId = withTenantContext tenantId (\<lambda>qr. tx_bind sql_now (\<lambda>now.
     tx_bind (sql_update agent_tokens agent_tokens_update qr (by_id agentTokenId) (\<lambda>k. k\<lparr>ak_last_seen_at := Some now\<rparr>)) (\<lambda>_. tx_return ())))"

definition report :: "engine \<Rightarrow> uuid \<Rightarrow> uuid \<Rightarrow> uuid \<Rightarrow> AgentReport \<Rightarrow> ('s monitoring_scheme, unit) act" where
  "report E tenantId agentTokenId resourceId dto =
     act_bind (heartbeat tenantId agentTokenId) (\<lambda>_.
     act_bind (withTenantContext tenantId (\<lambda>qr. sql_first monitors qr (\<lambda>m. mo_resource_id m = resourceId \<and> mo_monitor_type m = Mt_Server_Agent \<and> mo_is_enabled m))) (\<lambda>found.
     case found of
       None \<Rightarrow> act_return ()
     | Some m \<Rightarrow>
         let result = evaluateAgentReport (en_format E) (js_or_else (Some (mo_config m)) (JObj [])) dto in
         act_bind (withTenantContext tenantId (\<lambda>qr. insert_check qr tenantId ''default'' (row_id m) result)) (\<lambda>_.
         engine_evaluate E tenantId (evaluated None m) result)))"

text \<open>The endpoints of the agent behind their guard.\<close>

definition agent_report_endpoint :: "engine \<Rightarrow> jwt_lib \<Rightarrow> http_request \<Rightarrow> AgentReport \<Rightarrow> ('s monitoring_scheme, unit) act" where
  "agent_report_endpoint E J r dto =
     act_bind (agentTokenGuard J r) (\<lambda>req. report E (ag_tenantId req) (ag_agentTokenId req) (ag_resourceId req) dto)"

definition agent_heartbeat_endpoint :: "jwt_lib \<Rightarrow> http_request \<Rightarrow> ('s monitoring_scheme, unit) act" where
  "agent_heartbeat_endpoint J r = act_bind (agentTokenGuard J r) (\<lambda>req. heartbeat (ag_tenantId req) (ag_agentTokenId req))"

section \<open>What an evaluation leaves alone\<close>

definition schedule_view :: "'s monitoring_scheme \<Rightarrow> msec \<times> monitor list \<times> monitor_check list \<times> agent_token list" where
  "schedule_view s = (clock s, monitors s, monitor_checks s, agent_tokens s)"

lemma ticketing_schedule_view:
  fixes s t :: "'s monitoring_scheme"
  assumes "ticketing_frame qr s t"
  shows "same schedule_view s t"
proof -
  from assms have "ticketing.more t = ticketing.more s" by (simp add: ticketing_frame_def)
  then have "helpdesk.more t = helpdesk.more s" by (cases s; cases t) simp
  from helpdesk_more_tables [OF this] assms show ?thesis by (simp add: same_def schedule_view_def ticketing_frame_def)
qed

lemma applyToDatabase_view: "tx_rel (same schedule_view) (applyToDatabase F P T m result qr)"
  by (rule tx_relI, erule applyToDatabase_run) (simp_all add: same_def schedule_view_def)

lemma linkTicket_view: "act_rel (same schedule_view) (linkTicket F I H b T m i msg)"
  unfolding linkTicket_def
  by (intro frame_intros row_intros act_rel_mono [OF endpoint_frames(2) ticketing_schedule_view]) (simp_all add: schedule_view_def)

lemma engine_evaluate_view: "act_rel (same schedule_view) (engine_evaluate E T m result)"
proof -
  note publish = act_rel_mono [OF publish_ticketing_frame ticketing_schedule_view]
  note note_post = act_rel_mono [OF postNote_frame ticketing_schedule_view]
  show ?thesis
    unfolding engine_evaluate_def evaluate_def
    by (rule same_frame.act_bind_frame [OF same_frame.withTenantContext_frame [OF applyToDatabase_view]])
      (auto split: EvaluationOutcome.split option.split intro!: same_frame.act_return_frame same_frame.act_bind_frame publish note_post linkTicket_view)
qed

lemma evaluate_entry_view: "act_rel (same schedule_view) (evaluate_entry E T entry)"
  unfolding evaluate_entry_def publishCheckRecorded_def
  by (intro frame_intros engine_evaluate_view act_rel_mono [OF publish_ticketing_frame ticketing_schedule_view])

section \<open>Recording\<close>

text \<open>The rows of a batch, apart from their keys: everything the probe reported, with the response time as the number it gave.\<close>

definition check_facts :: "monitor_check \<Rightarrow> uuid \<times> uuid \<times> CheckStatus \<times> rat option \<times> json \<times> string \<times> msec" where
  "check_facts c = (tenant_id c, mc_monitor_id c, mc_status c, map_option rat_of_int (mc_response_time_ms c), mc_raw_output c, mc_location c,
     mc_checked_at c)"

definition entry_facts :: "engine \<Rightarrow> uuid \<Rightarrow> msec \<Rightarrow> CheckedEntry \<Rightarrow> uuid \<times> uuid \<times> CheckStatus \<times> rat option \<times> json \<times> string \<times> msec" where
  "entry_facts E T now e = (T, em_id (ce_monitor e), cr_status (ce_result e), Option.bind (cr_responseTimeMs (ce_result e)) (\<lambda>v. v),
     cr_rawOutput (ce_result e), en_location E, now)"

lemma pg_int_reads: "pg_int v s = Inr (n, t) \<Longrightarrow> t = s \<and> map_option rat_of_int n = Option.bind v (\<lambda>v. v)"
  by (auto simp: pg_int_def int4_def tx_bind_eq_Inr split: option.splits if_splits)

lemma insert_check_run:
  assumes "insert_check qr T loc m r s = Inr (c, t)"
  shows "t = s\<lparr>next_uuid := Suc (next_uuid s), monitor_checks := monitor_checks s @ [c]\<rparr> \<and>
    check_facts c = (T, m, cr_status r, Option.bind (cr_responseTimeMs r) (\<lambda>v. v), cr_rawOutput r, loc, clock s)"
  using assms
  by (auto simp: insert_check_def fk_check_def gen_random_uuid_def sql_now_def sql_insert_def check_facts_def tx_bind_eq_Inr
      split: if_splits dest!: pg_int_reads)

lemma record_checks_run:
  assumes "record_checks E T entries qr s = Inr (u, t)"
  shows "\<exists>cs k. t = s\<lparr>next_uuid := k, monitor_checks := monitor_checks s @ cs\<rparr> \<and> map check_facts cs = map (entry_facts E T (clock s)) entries"
  using assms
proof (induction entries arbitrary: s)
  case Nil
  then have "t = s\<lparr>next_uuid := next_uuid s, monitor_checks := monitor_checks s @ []\<rparr>" by (simp add: record_checks_def)
  then show ?case by fastforce
next
  case (Cons e es)
  then obtain c w where c: "insert_check qr T (en_location E) (em_id (ce_monitor e)) (ce_result e) s = Inr (c, w)"
    and rest: "record_checks E T es qr w = Inr (u, t)"
    by (auto simp: record_checks_def tx_bind_eq_Inr)
  from insert_check_run [OF c] have w: "w = s\<lparr>next_uuid := Suc (next_uuid s), monitor_checks := monitor_checks s @ [c]\<rparr>"
    and facts: "check_facts c = entry_facts E T (clock s) e" by (simp_all add: entry_facts_def)
  from Cons.IH [OF rest] obtain cs k where "t = w\<lparr>next_uuid := k, monitor_checks := monitor_checks w @ cs\<rparr>"
    "map check_facts cs = map (entry_facts E T (clock w)) es" by blast
  with w facts have "t = s\<lparr>next_uuid := k, monitor_checks := monitor_checks s @ (c # cs)\<rparr> \<and>
    map check_facts (c # cs) = map (entry_facts E T (clock s)) (e # es)" by simp
  then show ?case by blast
qed

lemma recordAndEvaluate_checks:
  assumes "recordAndEvaluate E T entries s = (Inr u, t)"
  shows "\<exists>cs. schedule_view t = (clock s, monitors s, monitor_checks s @ cs, agent_tokens s) \<and> map check_facts cs = map (entry_facts E T (clock s)) entries"
proof (cases "entries = []")
  case True
  with assms show ?thesis by (simp add: recordAndEvaluate_def schedule_view_def)
next
  case False
  with assms obtain v w where rec: "withTenantContext T (record_checks E T entries) s = (Inr v, w)"
    and evals: "act_fold (\<lambda>e _. evaluate_entry E T e) entries () w = (Inr u, t)"
    by (auto simp: recordAndEvaluate_def act_bind_eq_Inr)
  from rec have "record_checks E T entries T s = Inr (v, w)" by (simp add: withTenantContext_Inr)
  from record_checks_run [OF this] obtain cs k where w: "w = s\<lparr>next_uuid := k, monitor_checks := monitor_checks s @ cs\<rparr>"
    and cs: "map check_facts cs = map (entry_facts E T (clock s)) entries" by blast
  have "same schedule_view w t"
    by (rule act_relD [where m = "act_fold (\<lambda>e _. evaluate_entry E T e) entries ()"]) (rule same_frame.act_fold_frame evaluate_entry_view evals)+
  then have "schedule_view t = schedule_view w" by (simp add: same_def)
  then have "schedule_view t = (clock s, monitors s, monitor_checks s @ cs, agent_tokens s)" by (simp add: w schedule_view_def)
  with cs show ?thesis by blast
qed

section \<open>A sweep\<close>

lemma latest_check_newest:
  assumes "c \<in> set (monitor_checks s)" and "tenant_id c = qr" and "mc_monitor_id c = i"
  shows "\<exists>c'. latest_check qr i s = Some c' \<and> mc_checked_at c \<le> mc_checked_at c'"
proof -
  define xs where "xs = order_by (\<lambda>c. - mc_checked_at c) (filter (\<lambda>c. mc_monitor_id c = i) (visible qr (monitor_checks s)))"
  from assms have "c \<in> set xs" by (simp add: xs_def order_by_def)
  moreover have "sorted (map (\<lambda>c. - mc_checked_at c) xs)" by (simp add: xs_def order_by_def)
  ultimately show ?thesis
    by (cases xs) (auto simp: latest_check_def recent_checks_def simp flip: xs_def)
qed

lemma probe_SomeD: "probe E now m = Some e \<Longrightarrow> em_id (ce_monitor e) = row_id m"
  by (auto simp: probe_def evaluated_def split: sum.splits)

lemma facts_mem:
  assumes "map check_facts cs = map (entry_facts E T now) es" and "e \<in> set es"
  obtains c where "c \<in> set cs" and "tenant_id c = T" and "mc_monitor_id c = em_id (ce_monitor e)" and "mc_checked_at c = now"
proof -
  from assms have "entry_facts E T now e \<in> check_facts ` set cs" by (metis image_eqI set_map)
  with that show thesis by (auto simp: check_facts_def entry_facts_def)
qed

definition polled :: "MonitorType \<Rightarrow> bool" where
  "polled ty \<longleftrightarrow> ty \<in> set ACTIVELY_POLLED_TYPES"

text \<open>
  The monitors a sweep has to check, read off the tables: the enabled ones of the tenant, of a type the scheduler
  polls, with no check in the interval before now.
\<close>

definition check_due :: "uuid \<Rightarrow> 's monitoring_scheme \<Rightarrow> monitor \<Rightarrow> bool" where
  "check_due T s m \<longleftrightarrow> tenant_id m = T \<and> mo_is_enabled m \<and> mo_monitor_type m \<in> set ACTIVELY_POLLED_TYPES \<and>
     (\<forall>c \<in> set (monitor_checks s). tenant_id c = T \<and> mc_monitor_id c = row_id m \<longrightarrow>
        mc_checked_at c + mo_interval_seconds m * 1000 < clock s)"

lemma latest_check_mem: "latest_check qr i s = Some c \<Longrightarrow> c \<in> set (monitor_checks s) \<and> tenant_id c = qr \<and> mc_monitor_id c = i"
proof -
  assume "latest_check qr i s = Some c"
  then have "c \<in> set (recent_checks qr i 1 s)" unfolding latest_check_def by (cases "recent_checks qr i 1 s") simp_all
  then show ?thesis by (auto simp: recent_checks_def order_by_def dest: in_set_takeD)
qed

lemma is_due_iff:
  "is_due T s m \<longleftrightarrow> (\<forall>c \<in> set (monitor_checks s). tenant_id c = T \<and> mc_monitor_id c = row_id m \<longrightarrow>
     mc_checked_at c + mo_interval_seconds m * 1000 < clock s)"
proof (cases "latest_check T (row_id m) s")
  case None
  then have "\<not> (tenant_id c = T \<and> mc_monitor_id c = row_id m)" if "c \<in> set (monitor_checks s)" for c
    using latest_check_newest [OF that, of T "row_id m"] by auto
  with None show ?thesis by (auto simp: is_due_def)
next
  case (Some c)
  note newest = latest_check_newest [of _ s T "row_id m"]
  show ?thesis
  proof
    assume "is_due T s m"
    then have "mc_checked_at c < clock s - mo_interval_seconds m * 1000" using Some by (simp add: is_due_def)
    with newest Some show "\<forall>c \<in> set (monitor_checks s). tenant_id c = T \<and> mc_monitor_id c = row_id m \<longrightarrow>
        mc_checked_at c + mo_interval_seconds m * 1000 < clock s" by fastforce
  qed (use latest_check_mem [OF Some] Some in \<open>auto simp: is_due_def\<close>)
qed

lemma due_monitors_iff: "due_monitors polled T s = filter (check_due T s) (monitors s)"
  unfolding due_monitors_def visible_def filter_filter
  by (rule filter_cong) (auto simp: check_due_def is_due_iff polled_def tenant_isolation_def)

definition sweep_entries :: "engine \<Rightarrow> uuid \<Rightarrow> 's monitoring_scheme \<Rightarrow> CheckedEntry list" where
  "sweep_entries E T s = List.map_filter (probe E (clock s)) (filter (check_due T s) (monitors s))"

lemma sweepActivelyPolled_run:
  "sweepActivelyPolled E T s =
     act_bind (recordAndEvaluate E T (sweep_entries E T s)) (\<lambda>_. act_return (length (sweep_entries E T s))) s"
proof -
  have "due_monitors (\<lambda>ty. ty \<in> set ACTIVELY_POLLED_TYPES) T s = filter (check_due T s) (monitors s)"
    using due_monitors_iff [of T s] by (simp add: polled_def [abs_def])
  then show ?thesis
    by (simp add: sweepActivelyPolled_def withTenantContext_def sweep_entries_def act_bind_def Let_def recordAndEvaluate_def map_filter_simps)
qed

text \<open>
  C12. A sweep of the scheduler that succeeds appends exactly one check for every due monitor whose probe
  returned, in order, with the status, the response time and the raw output of the probe, the location of the worker and the
  time of the sweep, and nothing else; it counts them; and none of these monitors is due again before its interval
  has passed. Due are the enabled monitors of the tenant, of a polled type, without a check in the interval before now. A
  monitor whose probe raised gets no check, and so stays due.
\<close>

theorem sweep_records_each_due_monitor:
  assumes "sweepActivelyPolled E T s = (Inr n, t)"
  shows "n = length (sweep_entries E T s) \<and> monitors t = monitors s \<and> clock t = clock s \<and>
    (\<exists>cs. monitor_checks t = monitor_checks s @ cs \<and> map check_facts cs = map (entry_facts E T (clock s)) (sweep_entries E T s)) \<and>
    (\<forall>m \<in> set (monitors s). \<forall>now. check_due T s m \<and> probe E (clock s) m \<noteq> None \<and> now \<le> clock s + mo_interval_seconds m * 1000 \<longrightarrow>
       \<not> check_due T (t\<lparr>clock := now\<rparr>) m)"
proof -
  from assms obtain u where run: "recordAndEvaluate E T (sweep_entries E T s) s = (Inr u, t)" and n: "n = length (sweep_entries E T s)"
    by (auto simp: sweepActivelyPolled_run act_bind_eq_Inr)
  from recordAndEvaluate_checks [OF run] obtain cs where t: "clock t = clock s" "monitors t = monitors s" "monitor_checks t = monitor_checks s @ cs"
    and cs: "map check_facts cs = map (entry_facts E T (clock s)) (sweep_entries E T s)"
    by (auto simp: schedule_view_def)
  have "\<not> check_due T (t\<lparr>clock := now\<rparr>) m"
    if m: "m \<in> set (monitors s)" "check_due T s m" "probe E (clock s) m \<noteq> None" and now: "now \<le> clock s + mo_interval_seconds m * 1000" for m now
  proof -
    from m(3) obtain e where e: "probe E (clock s) m = Some e" by blast
    with m(1,2) have "e \<in> set (sweep_entries E T s)" by (force simp: sweep_entries_def List.map_filter_def)
    from facts_mem [OF cs this] obtain c where c: "c \<in> set cs" "tenant_id c = T" "mc_monitor_id c = row_id m" "mc_checked_at c = clock s"
      using probe_SomeD [OF e] by metis
    with now t show ?thesis by (force simp: check_due_def)
  qed
  with n t cs show ?thesis by blast
qed

section \<open>A response time that is not an integer\<close>

lemma insert_check_fraction:
  assumes "cr_responseTimeMs r = Some (Some q)" and "of_int \<lfloor>q\<rfloor> \<noteq> q"
  shows "insert_check qr T loc m r s = Inl invalid_text_representation"
  using assms by (simp add: insert_check_def pg_int_def tx_bind_def)

lemma record_checks_fraction:
  assumes "e \<in> set entries" and "cr_responseTimeMs (ce_result e) = Some (Some q)" and "of_int \<lfloor>q\<rfloor> \<noteq> q"
  shows "\<exists>err. record_checks E T entries qr s = Inl err"
  using assms(1)
proof (induction entries arbitrary: s)
  case (Cons x xs)
  show ?case
  proof (cases "insert_check qr T (en_location E) (em_id (ce_monitor x)) (ce_result x) s")
    case (Inl err)
    then show ?thesis by (simp add: record_checks_def)
  next
    case (Inr r)
    obtain c w where r: "r = (c, w)" by (cases r)
    have "x \<noteq> e" using Inr by (auto simp: insert_check_fraction [OF assms(2,3)])
    with Cons.prems have "e \<in> set xs" by auto
    from Cons.IH [OF this, of w] Inr r show ?thesis by (simp add: record_checks_def tx_bind_assoc)
  qed
qed simp

text \<open>
  C38. If the probe of one due monitor reports a response time that is not an integer (as a ping does, whose
  round-trip time is printed with decimals), then no check of the tenant is recorded in this sweep: the database
  refuses the value for its integer column, the transaction with the checks of all monitors is rolled back, no
  rule is evaluated, and the agents of the tenant are not looked at either. The state is as it was, so the same
  happens in every later sweep.
\<close>

theorem fraction_blocks_tenant:
  assumes "m \<in> set (due_monitors polled (tn_id tenant) s)" and "probe E (clock s) m = Some e"
    and "cr_responseTimeMs (ce_result e) = Some (Some q)" and "of_int \<lfloor>q\<rfloor> \<noteq> q"
  shows "scheduler_add_tenant E tenant n s = (Inr n, s)"
proof -
  have e: "e \<in> set (sweep_entries E (tn_id tenant) s)"
    using assms(1,2) unfolding due_monitors_iff by (force simp: sweep_entries_def List.map_filter_def)
  from record_checks_fraction [OF this assms(3,4)] obtain err
    where "record_checks E (tn_id tenant) (sweep_entries E (tn_id tenant) s) (tn_id tenant) s = Inl err" by blast
  then have "recordAndEvaluate E (tn_id tenant) (sweep_entries E (tn_id tenant) s) s = (Inl err, s)"
    using e by (auto simp: recordAndEvaluate_def withTenantContext_def act_bind_def)
  then show ?thesis by (simp add: scheduler_add_tenant_def sweepActivelyPolled_run act_catch_def act_bind_def)
qed

section \<open>The tenant of the examples\<close>

definition toy_engine :: engine where
  "toy_engine = \<lparr>en_format = unary_format, en_intl = utc_only, en_html = toy_html, en_float = (\<lambda>_. None), en_reachable = True,
     en_net = toy_net, en_location = ''default''\<rparr>"

definition ping_monitor :: monitor where
  "ping_monitor = web_monitor\<lparr>row_id := 52, mo_monitor_type := Mt_Ping\<rparr>"

lemma toy_ping: "cr_responseTimeMs (pingCheck unary_format toy_net (JObj [])) = Some (Some (1 / 2))"
proof -
  have "rtt_match ''time=0.5 ms'' = Some ''0.5''" by code_simp
  moreover have "parseFloat ''0.5'' = Some (1 / 2)" by code_simp
  ultimately show ?thesis by (simp add: pingCheck_def toy_net_def Let_def)
qed

lemma web_due: "due_monitors polled 1 watched = [web_monitor]"
  by (simp add: due_monitors_def polled_def ACTIVELY_POLLED_TYPES_def is_due_def latest_check_def recent_checks_def order_by_def
      tenant_isolation_def web_monitor_def)

definition web_entry :: CheckedEntry where
  "web_entry = \<lparr>ce_monitor = evaluated (Some 1) web_monitor, ce_result = timed_result Up 5 [(''httpStatus'', JNum 200)]\<rparr>"

lemma web_entries: "sweep_entries toy_engine 1 watched = [web_entry]"
  unfolding sweep_entries_def web_due [unfolded due_monitors_iff]
  by (simp add: map_filter_simps probe_def runCheck_def web_monitor_def toy_engine_def toy_http web_entry_def
      del: One_nat_def)

lemma watched_redis [simp]: "redis_up watched"
  by (simp add: watched_def one_desk_def one_ticket_def empty_platform_def platform.defs ticketing.defs helpdesk.defs monitoring.defs)

lemma web_sweep: "\<exists>t. sweepActivelyPolled toy_engine 1 watched = (Inr 1, t)"
  by (simp add: sweepActivelyPolled_run web_entries recordAndEvaluate_def record_checks_def withTenantContext_def
      insert_check_def pg_int_def int4_def max_int_def timed_result_def web_entry_def fk_check_def evaluated_def web_monitor_def gen_random_uuid_def sql_now_def
      sql_insert_def tenant_isolation_def tx_bind_def act_bind_def evaluate_entry_def publishCheckRecorded_def publish_run Let_def
      engine_evaluate_def evaluate_def applyToDatabase_def decide_def handle_not_bad_def sql_first_def web_rule_def failing_def statusIn_def
      check_status_text_def act_catch_def
      del: One_nat_def)

theorem sweep_records_each_due_monitor_witness:
  "length (monitor_checks (snd (sweepActivelyPolled toy_engine 1 watched))) = 1 \<and>
   map mc_response_time_ms (monitor_checks (snd (sweepActivelyPolled toy_engine 1 watched))) = [Some 5] \<and>
   \<not> check_due 1 ((snd (sweepActivelyPolled toy_engine 1 watched))\<lparr>clock := 60000\<rparr>) web_monitor"
proof -
  obtain t where t: "sweepActivelyPolled toy_engine 1 watched = (Inr 1, t)" using web_sweep by blast
  note sweep = sweep_records_each_due_monitor [OF this]
  have "web_monitor \<in> set (filter (check_due 1 watched) (monitors watched))" unfolding due_monitors_iff [symmetric] web_due by simp
  then have "web_monitor \<in> set (monitors watched)" "check_due 1 watched web_monitor" unfolding set_filter by blast+
  moreover have "probe toy_engine (clock watched) web_monitor \<noteq> None" "60000 \<le> clock watched + mo_interval_seconds web_monitor * 1000"
    by (simp_all add: probe_def runCheck_def) (simp_all add: web_monitor_def)
  ultimately have "\<not> check_due 1 (t\<lparr>clock := 60000\<rparr>) web_monitor" using sweep by blast
  moreover from sweep have "length (monitor_checks t) = 1" "map mc_response_time_ms (monitor_checks t) = [Some 5]"
    by (auto simp: web_entries map_eq_Cons_conv check_facts_def entry_facts_def web_entry_def timed_result_def simp del: One_nat_def)
  ultimately show ?thesis by (simp add: t del: One_nat_def)
qed

theorem fraction_blocks_tenant_witness:
  "scheduler_add_tenant toy_engine acme 0 (watched\<lparr>monitors := [web_monitor, ping_monitor]\<rparr>) = (Inr 0, watched\<lparr>monitors := [web_monitor, ping_monitor]\<rparr>)"
proof -
  let ?s = "watched\<lparr>monitors := [web_monitor, ping_monitor]\<rparr>"
  have "tn_id acme = 1" by (simp add: acme_def)
  moreover have "ping_monitor \<in> set (due_monitors polled 1 ?s)"
    by (simp add: due_monitors_def polled_def ACTIVELY_POLLED_TYPES_def is_due_def latest_check_def recent_checks_def order_by_def
        tenant_isolation_def ping_monitor_def web_monitor_def del: One_nat_def)
  moreover have "probe toy_engine (clock ?s) ping_monitor =
      Some \<lparr>ce_monitor = evaluated (Some 1) ping_monitor, ce_result = pingCheck unary_format toy_net (JObj [])\<rparr>"
    by (simp add: probe_def runCheck_def ping_monitor_def web_monitor_def toy_engine_def)
  moreover have "\<lfloor>1 / 2 :: rat\<rfloor> = 0" by (simp add: floor_eq_iff)
  then have "of_int \<lfloor>1 / 2 :: rat\<rfloor> \<noteq> (1 / 2 :: rat)" by simp
  ultimately show ?thesis using toy_ping fraction_blocks_tenant [of ping_monitor acme ?s toy_engine _ "1 / 2" 0] by simp
qed

section \<open>Device tokens\<close>

lemma agentTokenGuard_run:
  assumes "agentTokenGuard J r s = (Inr req, t)"
  obtains token claims k where "t = s" and "bearer_token r = Some token" and "verifyDeviceJwt J token (clock s) = Some claims"
    and "cl_tenantId claims = Some (ag_tenantId req)" and "cl_sub claims = Some (ag_agentTokenId req)" and "cl_resourceId claims = Some (ag_resourceId req)"
    and "k \<in> set (agent_tokens s)" and "tenant_id k = ag_tenantId req" and "row_id k = ag_agentTokenId req"
    and "ak_resource_id k = ag_resourceId req" and "ak_is_enabled k"
  using assms
  by (auto simp: agentTokenGuard_def withTenantContext_def sql_first_def tx_bind_def act_bind_eq_Inr by_id_def
      split: option.splits if_splits dest!: first_of_filter_SomeD)

lemma agentTokenGuard_refuses: "agentTokenGuard J r s = (res, t) \<Longrightarrow> t = s \<and> (\<forall>err. res = Inl err \<longrightarrow> (\<exists>e. err = Unauthorized e))"
  by (auto simp: agentTokenGuard_def withTenantContext_def sql_first_def act_bind_def split: option.splits if_splits)

lemma disable_run:
  assumes "agentTokens_update_row T i \<lparr>ut_label = None, ut_isEnabled = Some (Some False)\<rparr> s = (Inr k, t)"
  shows "t = s\<lparr>agent_tokens := update_rows T (by_id i) (\<lambda>k. k\<lparr>ak_is_enabled := False\<rparr>) (agent_tokens s)\<rparr>"
  using assms
  by (auto simp: agentTokens_update_row_def withTenantContext_Inr find_row_eq_Inr tx_bind_eq_Inr patch_row_def set_required_def sql_patch_def
      sql_update_def apply_assignments_def first_row_def Let_def split: if_splits option.splits list.splits)

text \<open>
  A report or heartbeat of an agent is accepted only with a bearer token that verifies as a device token and
  whose row is there, enabled, and belongs to the tenant and the resource of the claims; and once an
  administrator has disabled the token, every request with it is refused and changes nothing.
\<close>

theorem device_token_revocable:
  assumes "agentTokens_update_row T i \<lparr>ut_label = None, ut_isEnabled = Some (Some False)\<rparr> s = (Inr k, t)"
    and "bearer_token r = Some token" and "verifyDeviceJwt J token (clock t) = Some claims"
    and "cl_sub claims = Some i" and "cl_tenantId claims = Some T"
  shows "(\<exists>e. agent_report_endpoint E J r dto t = (Inl (Unauthorized e), t)) \<and> (\<exists>e. agent_heartbeat_endpoint J r t = (Inl (Unauthorized e), t)) \<and>
    (\<forall>req u. agentTokenGuard J r s = (Inr req, u) \<longrightarrow> (\<exists>k \<in> set (agent_tokens s). ak_is_enabled k \<and> row_id k = i \<and> tenant_id k = T \<and>
       cl_resourceId claims = Some (ak_resource_id k)))"
proof -
  have t: "t = s\<lparr>agent_tokens := update_rows T (by_id i) (\<lambda>k. k\<lparr>ak_is_enabled := False\<rparr>) (agent_tokens s)\<rparr>" by (rule disable_run [OF assms(1)])
  have none: "\<not> (k \<in> set (agent_tokens t) \<and> tenant_id k = T \<and> row_id k = i \<and> ak_is_enabled k)" for k
  proof
    assume k: "k \<in> set (agent_tokens t) \<and> tenant_id k = T \<and> row_id k = i \<and> ak_is_enabled k"
    then have "k \<in> set (update_rows T (by_id i) (\<lambda>k. k\<lparr>ak_is_enabled := False\<rparr>) (agent_tokens s))" by (simp add: t)
    then obtain k0 where k0: "k = (if tenant_isolation T k0 \<and> by_id i k0 then k0\<lparr>ak_is_enabled := False\<rparr> else k0)"
      unfolding update_rows_def set_map by (rule imageE)
    show False
    proof (cases "tenant_isolation T k0 \<and> by_id i k0")
      case True
      with k0 have "\<not> ak_is_enabled k" by simp
      with k show False by simp
    next
      case False
      with k0 have "k = k0" by simp
      with False k show False by (simp add: tenant_isolation_def by_id_def)
    qed
  qed
  have "\<exists>e. agentTokenGuard J r t = (Inl (Unauthorized e), t)"
  proof (cases "agentTokenGuard J r t")
    case (Pair res u)
    have "res \<noteq> Inr req" for req
    proof
      assume "res = Inr req"
      with Pair have "agentTokenGuard J r t = (Inr req, u)" by simp
      then show False by (rule agentTokenGuard_run) (use assms(2-5) none in auto)
    qed
    with agentTokenGuard_refuses [OF Pair] Pair show ?thesis by (cases res) auto
  qed
  then have "(\<exists>e. agent_report_endpoint E J r dto t = (Inl (Unauthorized e), t)) \<and> (\<exists>e. agent_heartbeat_endpoint J r t = (Inl (Unauthorized e), t))"
    by (auto simp: agent_report_endpoint_def agent_heartbeat_endpoint_def)
  moreover have "\<exists>k \<in> set (agent_tokens s). ak_is_enabled k \<and> row_id k = i \<and> tenant_id k = T \<and> cl_resourceId claims = Some (ak_resource_id k)"
    if "agentTokenGuard J r s = (Inr req, u)" for req u
  proof (rule agentTokenGuard_run [OF that])
    fix token' claims' k'
    assume *: "bearer_token r = Some token'" "verifyDeviceJwt J token' (clock s) = Some claims'" "cl_tenantId claims' = Some (ag_tenantId req)"
      "cl_sub claims' = Some (ag_agentTokenId req)" "cl_resourceId claims' = Some (ag_resourceId req)" "k' \<in> set (agent_tokens s)"
      "tenant_id k' = ag_tenantId req" "row_id k' = ag_agentTokenId req" "ak_resource_id k' = ag_resourceId req" "ak_is_enabled k'"
    moreover from * assms(2,3) have "claims' = claims" by (simp add: t)
    ultimately show ?thesis using assms(4,5) by auto
  qed
  ultimately show ?thesis by blast
qed

definition device_jwt :: jwt_lib where
  "device_jwt = \<lparr>jwt_sign = (\<lambda>_ _ _. ''dev''), jwt_verify = (\<lambda>t _. if t = ''dev'' then
     Some (no_claims\<lparr>cl_sub := Some 70, cl_tenantId := Some 1, cl_resourceId := Some 60, cl_kind := Some ''device''\<rparr>) else None)\<rparr>"

definition device_request :: http_request where
  "device_request = \<lparr>h_authorization = Some ''Bearer dev'', h_tenant_id = None, h_internal_api_key = None\<rparr>"

definition web_agent :: agent_token where
  "web_agent = \<lparr>row_id = 70, tenant_id = 1, ak_resource_id = 60, ak_label = ''web'', ak_is_enabled = True, ak_last_seen_at = Some 0, ak_created_at = 0\<rparr>"

theorem device_token_revocable_witness:
  "agentTokenGuard device_jwt device_request (watched\<lparr>agent_tokens := [web_agent]\<rparr>) =
     (Inr \<lparr>ag_tenantId = 1, ag_resourceId = 60, ag_agentTokenId = 70\<rparr>, watched\<lparr>agent_tokens := [web_agent]\<rparr>) \<and>
   (\<exists>e t. agent_heartbeat_endpoint device_jwt device_request
      (snd (agentTokens_update_row 1 70 \<lparr>ut_label = None, ut_isEnabled = Some (Some False)\<rparr> (watched\<lparr>agent_tokens := [web_agent]\<rparr>))) = (Inl (Unauthorized e), t))"
proof -
  let ?s = "watched\<lparr>agent_tokens := [web_agent]\<rparr>" and ?dto = "\<lparr>ut_label = None, ut_isEnabled = Some (Some False)\<rparr>"
  have bearer: "bearer_token device_request = Some ''dev''" by (simp add: bearer_token_def device_request_def js_starts_with_iff)
  have guard: "agentTokenGuard device_jwt device_request ?s = (Inr \<lparr>ag_tenantId = 1, ag_resourceId = 60, ag_agentTokenId = 70\<rparr>, ?s)"
    by (simp add: agentTokenGuard_def bearer verifyDeviceJwt_def verify_kind_def device_jwt_def no_claims_def withTenantContext_def sql_first_def
        web_agent_def by_id_def tenant_isolation_def act_bind_def)
  have "\<exists>k t. agentTokens_update_row 1 70 ?dto ?s = (Inr k, t)"
    by (simp add: agentTokens_update_row_def withTenantContext_def find_row_def sql_first_def tx_bind_def patch_row_def set_required_def sql_patch_def
        sql_update_def apply_assignments_def first_row_def Let_def web_agent_def by_id_def tenant_isolation_def update_rows_def)
  then obtain k t where k: "agentTokens_update_row 1 70 ?dto ?s = (Inr k, t)" by blast
  obtain claims where "verifyDeviceJwt device_jwt ''dev'' (clock t) = Some claims" "cl_sub claims = Some 70" "cl_tenantId claims = Some 1"
    by (simp add: verifyDeviceJwt_def verify_kind_def device_jwt_def no_claims_def)
  from device_token_revocable [OF k bearer this, of toy_engine undefined] guard show ?thesis by (auto simp: k simp del: One_nat_def)
qed

section \<open>Two tokens on a resource\<close>

text \<open>
  A resource with two enabled tokens of which one was never used: the join gives the agent's monitor twice, and
  one sweep records it up and down at the same time.
\<close>

definition agent_monitor :: monitor where
  "agent_monitor = web_monitor\<lparr>mo_monitor_type := Mt_Server_Agent\<rparr>"

lemma two_tokens_two_checks:
  "due_agents 1 (watched\<lparr>monitors := [agent_monitor], agent_tokens := [web_agent, web_agent\<lparr>row_id := 71, ak_last_seen_at := None\<rparr>]\<rparr>) =
     [(agent_monitor, Some 0), (agent_monitor, None)] \<and>
   cr_status (checkAgentStaleness 0 (Some 0) (mo_interval_seconds agent_monitor * STALENESS_MULTIPLIER)) = Up \<and>
   cr_status (checkAgentStaleness 0 None (mo_interval_seconds agent_monitor * STALENESS_MULTIPLIER)) = Down"
  by (simp add: due_agents_def due_monitors_def is_due_def latest_check_def recent_checks_def order_by_def tenant_isolation_def agent_monitor_def
      web_monitor_def web_agent_def checkAgentStaleness_def STALENESS_MULTIPLIER_def del: One_nat_def)

section \<open>Synthetic monitors can run\<close>

text \<open>What a validated step has.\<close>

definition step_ok :: "SyntheticStep \<Rightarrow> bool" where
  "step_ok st \<longleftrightarrow> ss_action st \<in> set SYNTHETIC_ACTIONS \<and>
     (if ss_action st = ''goto'' then \<exists>u. ss_url st = Some u \<and> u \<noteq> [] else \<exists>u. ss_selector st = Some u \<and> u \<noteq> []) \<and>
     (ss_action st \<in> {''fill'', ''expectText''} \<longrightarrow> ss_value st \<noteq> None)"

definition runnable :: "js_format \<Rightarrow> monitor \<Rightarrow> bool" where
  "runnable F m \<longleftrightarrow> (mo_monitor_type m = Mt_Synthetic \<longrightarrow> (\<exists>script. validateSyntheticScript F (mo_config m) = Inr script \<and>
     sc_steps script \<noteq> [] \<and> list_all step_ok (sc_steps script) \<and> MIN_MAX_STEP_MS \<le> sc_maxStepMs script \<and> sc_maxStepMs script \<le> MAX_MAX_STEP_MS))"

lemma nonempty_stringD: "nonempty_string v = Some u \<Longrightarrow> u \<noteq> []"
  by (auto simp: nonempty_string_def split: option.splits if_splits)

lemma validateStep_ok: "validateStep F j i = Inr st \<Longrightarrow> step_ok st"
  by (auto simp: validateStep_def step_ok_def split: if_splits option.splits dest: nonempty_stringD)

lemma validate_steps_ok: "validate_steps F i js = Inr sts \<Longrightarrow> list_all step_ok sts \<and> length sts = length js"
  by (induction F i js arbitrary: sts rule: validate_steps.induct) (auto split: sum.splits dest: validateStep_ok)

lemma validateSyntheticScript_ok:
  assumes "validateSyntheticScript F config = Inr script"
  shows "sc_steps script \<noteq> [] \<and> list_all step_ok (sc_steps script) \<and> MIN_MAX_STEP_MS \<le> sc_maxStepMs script \<and> sc_maxStepMs script \<le> MAX_MAX_STEP_MS"
  using assms
  by (auto simp: validateSyntheticScript_def DEFAULT_MAX_STEP_MS_def MIN_MAX_STEP_MS_def MAX_MAX_STEP_MS_def simp del: validate_steps.simps
      split: if_splits option.splits json.splits list.splits sum.splits dest!: validate_steps_ok)

lemma runnable_iff: "runnable F m \<longleftrightarrow> (mo_monitor_type m = Mt_Synthetic \<longrightarrow> (\<exists>script. validateSyntheticScript F (mo_config m) = Inr script))"
  using validateSyntheticScript_ok by (auto simp: runnable_def)

definition monitor_sets :: "UpdateMonitor \<Rightarrow> monitor assignments" where
  "monitor_sets dto = set_required (um_name dto) (\<lambda>v m. m\<lparr>mo_name := v\<rparr>) @ set_nullable (um_config dto) (\<lambda>v m. m\<lparr>mo_config := v\<rparr>) @
     set_required (um_intervalSeconds dto) (\<lambda>v m. m\<lparr>mo_interval_seconds := v\<rparr>) @
     set_required (um_consecutiveFailuresToAlert dto) (\<lambda>v m. m\<lparr>mo_consecutive_failures_to_alert := v\<rparr>) @
     set_required (um_isEnabled dto) (\<lambda>v m. m\<lparr>mo_is_enabled := v\<rparr>)"

lemma runnable_patch:
  assumes "runnable F m"
    and "\<And>config. mo_monitor_type m = Mt_Synthetic \<Longrightarrow> um_config dto = Some config \<Longrightarrow> \<exists>script. validateSyntheticScript F config = Inr script"
  shows "runnable F (apply_assignments (monitor_sets dto @ [Some (\<lambda>m. m\<lparr>mo_updated_at := now\<rparr>)]) m)"
  using assms
  by (auto simp: runnable_iff monitor_sets_def apply_assignments_def set_required_def set_nullable_def split: option.splits)

lemma check_script_run: "check_script F config s = Inr (u, t) \<Longrightarrow> t = s \<and> (\<exists>script. validateSyntheticScript F config = Inr script)"
  by (auto simp: check_script_def split: sum.splits)

lemma update_fits_reads: "update_fits v s = Inr (u, t) \<Longrightarrow> t = s"
  by (auto simp: update_fits_def int4_def tx_bind_eq_Inr split: option.splits if_splits)

lemma monitors_update_run:
  assumes "monitors_update_row F T i dto s = (Inr m', t)"
  obtains m where "first_of (filter (by_id i) (visible T (monitors s))) = Some m"
    and "\<forall>config. mo_monitor_type m = Mt_Synthetic \<longrightarrow> um_config dto = Some config \<longrightarrow> (\<exists>script. validateSyntheticScript F config = Inr script)"
    and "monitors t = monitors s \<or>
      monitors t = update_rows T (by_id i) (apply_assignments (monitor_sets dto @ [Some (\<lambda>m. m\<lparr>mo_updated_at := clock s\<rparr>)])) (monitors s)"
proof -
  from assms obtain m u where m: "first_of (filter (by_id i) (visible T (monitors s))) = Some m"
    and script: "(case um_config dto of Some config \<Rightarrow> if mo_monitor_type m = Mt_Synthetic then check_script F config else tx_return ()
       | None \<Rightarrow> tx_return ()) s = Inr ((), u)"
    and rest: "tx_bind (update_fits (um_intervalSeconds dto)) (\<lambda>_. tx_bind (update_fits (map_option (map_option int) (um_consecutiveFailuresToAlert dto))) (\<lambda>_.
        tx_bind sql_now (\<lambda>now. patch_row ''Monitor'' monitors monitors_update T i (monitor_sets dto) [Some (\<lambda>m. m\<lparr>mo_updated_at := now\<rparr>)]))) u = Inr (m', t)"
    by (auto simp: monitors_update_row_def withTenantContext_Inr find_row_eq_Inr tx_bind_eq_Inr simp flip: monitor_sets_def)
  from script have u: "u = s" "\<forall>config. mo_monitor_type m = Mt_Synthetic \<longrightarrow> um_config dto = Some config \<longrightarrow> (\<exists>script. validateSyntheticScript F config = Inr script)"
    by (auto split: option.splits if_splits dest: check_script_run)
  from rest u(1) have "patch_row ''Monitor'' monitors monitors_update T i (monitor_sets dto) [Some (\<lambda>m. m\<lparr>mo_updated_at := clock s\<rparr>)] s = Inr (m', t)"
    by (auto simp: tx_bind_eq_Inr sql_now_def dest!: update_fits_reads)
  then have "monitors t = monitors s \<or>
      monitors t = update_rows T (by_id i) (apply_assignments (monitor_sets dto @ [Some (\<lambda>m. m\<lparr>mo_updated_at := clock s\<rparr>)])) (monitors s)"
    by (auto simp: patch_row_def find_row_eq_Inr tx_bind_eq_Inr sql_patch_def sql_update_def first_row_def Let_def split: if_splits list.splits)
  with m u(2) that show thesis by blast
qed

lemma monitors_create_run:
  assumes "monitors_create F T dto s = (Inr m, t)"
  shows "monitors t = monitors s @ [m] \<and> runnable F m"
  using assms
  by (auto simp: monitors_create_def Let_def withTenantContext_Inr find_row_eq_Inr tx_bind_eq_Inr int4_def gen_random_uuid_def sql_now_def sql_insert_def
      runnable_iff split: sum.splits if_splits)

lemma monitors_create_refused: "monitors_create F T dto s = (Inl e, t) \<Longrightarrow> t = s"
  by (auto simp: monitors_create_def Let_def withTenantContext_Inl split: sum.splits)

lemma cascade_monitor_monitors: "tx_rel (same monitors) (cascade_monitor i)"
  unfolding cascade_monitor_def
  by (intro frame_intros) (auto simp: tx_rel_def same_def on_delete_cascade_def on_delete_set_null_def)

lemma monitors_remove_frame: "act_rel (\<lambda>s t. set (monitors t) \<subseteq> set (monitors s)) (monitors_remove T i)"
  by (rule act_relI)
    (auto simp: monitors_remove_def withTenantContext_def remove_referenced_def tx_bind_def sql_delete_def delete_rows_def same_def
      split: sum.splits if_splits dest!: tx_relD [OF cascade_monitor_monitors])

text \<open>
  Every stored synthetic monitor has a script that the scheduler can run: its configuration validates, with at
  least one step, each with a known action and the fields the action needs, and a time limit within the bounds.
  Creating, changing and deleting monitors keeps this, whether the request succeeds or is refused.
\<close>

theorem synthetic_monitors_runnable:
  assumes "list_all (runnable F) (monitors s)" and "distinct (map row_id (monitors s))"
  shows "list_all (runnable F) (monitors (snd (monitors_create F T dto s))) \<and>
    list_all (runnable F) (monitors (snd (monitors_update_row F T i upd s))) \<and>
    list_all (runnable F) (monitors (snd (monitors_remove T i s)))"
proof (intro conjI)
  show "list_all (runnable F) (monitors (snd (monitors_create F T dto s)))"
  proof (cases "monitors_create F T dto s")
    case (Pair res t)
    with assms(1) show ?thesis by (cases res) (auto dest: monitors_create_run monitors_create_refused)
  qed
  show "list_all (runnable F) (monitors (snd (monitors_update_row F T i upd s)))"
  proof (cases "monitors_update_row F T i upd s")
    case (Pair res t)
    show ?thesis
    proof (cases res)
      case (Inl e)
      with Pair assms(1) show ?thesis by (auto simp: monitors_update_row_def withTenantContext_def split: sum.splits)
    next
      case (Inr m')
      with Pair have "monitors_update_row F T i upd s = (Inr m', t)" by simp
      then show ?thesis
      proof (rule monitors_update_run)
        fix m
        assume m: "first_of (filter (by_id i) (visible T (monitors s))) = Some m"
          and ok: "\<forall>config. mo_monitor_type m = Mt_Synthetic \<longrightarrow> um_config upd = Some config \<longrightarrow> (\<exists>script. validateSyntheticScript F config = Inr script)"
          and t: "monitors t = monitors s \<or>
            monitors t = update_rows T (by_id i) (apply_assignments (monitor_sets upd @ [Some (\<lambda>m. m\<lparr>mo_updated_at := clock s\<rparr>)])) (monitors s)"
        have "r = m" if "r \<in> set (monitors s)" "by_id i r" for r
          using first_of_filter_SomeD [OF m] row_id_inj [OF assms(2), of r m] that by (simp add: by_id_def)
        then have "\<forall>r \<in> set (monitors s). runnable F (if tenant_isolation T r \<and> by_id i r
            then apply_assignments (monitor_sets upd @ [Some (\<lambda>m. m\<lparr>mo_updated_at := clock s\<rparr>)]) r else r)"
          using assms(1) ok by (auto simp: list_all_iff intro!: runnable_patch)
        with t assms(1) Pair show ?thesis by (elim disjE) (simp_all only: update_rows_def list_all_iff set_map ball_simps snd_conv)
      qed
    qed
  qed
  show "list_all (runnable F) (monitors (snd (monitors_remove T i s)))"
    using assms(1) act_rel_snd [OF monitors_remove_frame [of T i], of s] by (auto simp: list_all_iff)
qed

definition login_script :: json where
  "login_script = JObj [(''steps'', JArr [JObj [(''action'', JStr ''goto''), (''url'', JStr ''https://shop'')],
     JObj [(''action'', JStr ''expectText''), (''selector'', JStr ''h1''), (''value'', JStr ''Shop'')]]), (''maxStepMs'', JNum 2000)]"

definition login_monitor :: CreateMonitor where
  "login_monitor = \<lparr>km_resourceId = 60, km_name = ''login'', km_monitorType = Mt_Synthetic, km_config = Some login_script, km_intervalSeconds = None,
     km_consecutiveFailuresToAlert = None, km_minFailingLocations = None, km_isEnabled = None\<rparr>"

definition observed :: observability where
  "observed = monitoring.extend watched (observability.fields [] [] [] [] [] [] [] [] [] [] [] [] [] [] [] Map.empty)"

lemma observed_simps [simp]: "monitors observed = [web_monitor]" "clock observed = 0" "next_uuid observed = 100"
  "resources observed = resources watched"
  by (simp_all add: observed_def watched_def one_desk_def one_ticket_def empty_platform_def platform.defs ticketing.defs helpdesk.defs
      monitoring.defs observability.defs)

theorem synthetic_monitors_runnable_witness:
  "list_all (runnable unary_format) (monitors (snd (monitors_create unary_format 1 login_monitor observed))) \<and>
   length (monitors (snd (monitors_create unary_format 1 login_monitor observed))) = 2"
proof -
  have "list_all (runnable unary_format) (monitors observed)" "distinct (map row_id (monitors observed))"
    by (simp_all add: runnable_def web_monitor_def)
  from synthetic_monitors_runnable [OF this, of 1 login_monitor]
  have ok: "list_all (runnable unary_format) (monitors (snd (monitors_create unary_format 1 login_monitor observed)))" by blast
  have "\<not> isl (validateSyntheticScript unary_format login_script)" by code_simp
  then obtain script where "validateSyntheticScript unary_format login_script = Inr script" by (cases "validateSyntheticScript unary_format login_script") auto
  moreover have "js_or_else (Some login_script) (JObj []) = login_script" by (simp add: js_or_else_def login_script_def)
  ultimately have "length (monitors (snd (monitors_create unary_format 1 login_monitor observed))) = 2"
    by (simp add: monitors_create_def login_monitor_def withTenantContext_def find_row_def sql_first_def tx_bind_def int4_def max_int_def or_default_def
        gen_random_uuid_def sql_now_def sql_insert_def tenant_isolation_def by_id_def watched_def one_desk_def one_ticket_def platform.defs
        ticketing.defs helpdesk.defs monitoring.defs empty_platform_def)
  with ok show ?thesis by blast
qed

end
