(* ===== verification/Logs.thy ===== *)
theory Logs
  imports Monitor_Scheduler
begin

text \<open>
  Log management (\<open>monitoring/logs\<close>) and the limit on ingestion (\<open>ingest-rate-limit.ts\<close>): sources with their
  tokens, ingestion behind its guard, search, alert rules and the sweep that opens a ticket when a rule
  crosses its threshold. Whether a message matches a full-text query is the parameter \<open>fts\<close>.
\<close>

section \<open>The limit on ingestion\<close>

text \<open>Requests per window and the length of the window in seconds, from the environment.\<close>

record ingest_limit =
  maxPerWindow :: nat
  windowSeconds :: int

definition ingest_count :: "ingest_limit \<Rightarrow> string \<Rightarrow> 's observability_scheme \<Rightarrow> nat \<times> msec option" where
  "ingest_count L redisKey s = (case redis_live (clock s) (ingest_counters s redisKey) of
      None \<Rightarrow> (1, Some (clock s + windowSeconds L * 1000))
    | Some (n, x) \<Rightarrow> (Suc n, x))"

definition retry_after :: "ingest_limit \<Rightarrow> msec \<Rightarrow> msec option \<Rightarrow> int" where
  "retry_after L now expiry = (case expiry of
      None \<Rightarrow> windowSeconds L
    | Some x \<Rightarrow> let t = (x - now + 500) div 1000 in if 0 < t then t else windowSeconds L)"

definition enforceIngestRate :: "ingest_limit \<Rightarrow> string \<Rightarrow> ('s observability_scheme, unit) act" where
  "enforceIngestRate L key = (\<lambda>s.
     if \<not> redis_up s then (Inr (), s)
     else (let redisKey = ''ingest:rate:'' @ key; e = ingest_count L redisKey s;
               t = s\<lparr>ingest_counters := (ingest_counters s)(redisKey := Some e)\<rparr> in
           if maxPerWindow L < fst e
           then (Inl (TooManyRequests ''Ingestion rate limit exceeded'' (retry_after L (clock s) (snd e))), t)
           else (Inr (), t)))"

section \<open>Levels\<close>

definition LOG_LEVELS :: "string list" where
  "LOG_LEVELS = [''debug'', ''info'', ''warn'', ''error'', ''critical'']"

definition RANK :: "string \<Rightarrow> nat option" where
  "RANK l = (if l = ''debug'' then Some 0 else if l = ''info'' then Some 1 else if l = ''warn'' then Some 2
     else if l = ''error'' then Some 3 else if l = ''critical'' then Some 4 else None)"

text \<open>\<open>value in RANK\<close> is also true for the names every object inherits.\<close>

definition inherited_names :: "string list" where
  "inherited_names = [''constructor'', ''__defineGetter__'', ''__defineSetter__'', ''hasOwnProperty'', ''__lookupGetter__'', ''__lookupSetter__'',
     ''isPrototypeOf'', ''propertyIsEnumerable'', ''toString'', ''valueOf'', ''__proto__'', ''toLocaleString'']"

definition isLogLevel :: "string \<Rightarrow> bool" where
  "isLogLevel v \<longleftrightarrow> RANK v \<noteq> None \<or> v \<in> set inherited_names"

definition levelAtLeast :: "string \<Rightarrow> string \<Rightarrow> bool" where
  "levelAtLeast level minimum = (case (RANK level, RANK minimum) of (Some a, Some b) \<Rightarrow> a \<ge> b | _ \<Rightarrow> False)"

section \<open>Sources\<close>

definition check_violation :: error where
  "check_violation = DbError ''23514''"

definition logs_listSources :: "uuid \<Rightarrow> ('s observability_scheme, log_source list) act" where
  "logs_listSources tenantId = withTenantContext tenantId (\<lambda>qr.
     tx_bind (sql_select log_sources qr (\<lambda>_. True)) (\<lambda>rows. tx_return (order_by (\<lambda>r. - ls_created_at r) rows)))"

definition logs_createSource :: "jwt_lib \<Rightarrow> auth_env \<Rightarrow> uuid \<Rightarrow> string \<Rightarrow> ('s observability_scheme, log_source \<times> string) act" where
  "logs_createSource J V tenantId name = withTenantContext tenantId (\<lambda>qr.
     tx_bind gen_random_uuid (\<lambda>i. tx_bind sql_now (\<lambda>now.
     tx_bind (sql_insert log_sources_update qr \<lparr>row_id = i, tenant_id = tenantId, ls_name = name, ls_is_active = True, ls_created_at = now, ls_updated_at = now\<rparr>) (\<lambda>row.
     tx_return (row, signLogSourceJwt J V (row_id row) tenantId now)))))"

record UpdateLogSource =
  ul_name :: "string option option"
  ul_isActive :: "bool option option"

definition logs_updateSource :: "uuid \<Rightarrow> uuid \<Rightarrow> UpdateLogSource \<Rightarrow> ('s observability_scheme, log_source) act" where
  "logs_updateSource tenantId i dto = withTenantContext tenantId (\<lambda>qr.
     tx_bind (find_row ''Log source'' log_sources qr i) (\<lambda>_. tx_bind sql_now (\<lambda>now.
     patch_row ''Log source'' log_sources log_sources_update qr i
       (set_required (ul_name dto) (\<lambda>v r. r\<lparr>ls_name := v\<rparr>) @ set_required (ul_isActive dto) (\<lambda>v r. r\<lparr>ls_is_active := v\<rparr>))
       [Some (\<lambda>r. r\<lparr>ls_updated_at := now\<rparr>)])))"

definition logs_removeSource :: "uuid \<Rightarrow> uuid \<Rightarrow> ('s observability_scheme, unit) act" where
  "logs_removeSource tenantId i = withTenantContext tenantId (\<lambda>qr.
     remove_referenced ''Log source'' log_sources log_sources_update qr i
       (tx_bind (on_delete_cascade log_entries_update (\<lambda>r. Some (le_log_source_id r)) i) (\<lambda>_.
        on_delete_cascade log_alert_rules_update (\<lambda>r. Some (lr_log_source_id r)) i)))"

section \<open>Ingestion\<close>

record LogSourceScopedRequest =
  lg_tenantId :: uuid
  lg_logSourceId :: uuid

definition logSourceTokenGuard :: "jwt_lib \<Rightarrow> http_request \<Rightarrow> ('s observability_scheme, LogSourceScopedRequest) act" where
  "logSourceTokenGuard J r = (case bearer_token r of
      None \<Rightarrow> act_throw (Unauthorized ''Authorization: Bearer <log source token> is required'')
    | Some token \<Rightarrow> act_bind (act_gets clock) (\<lambda>now. case verifyLogSourceJwt J token now of
        None \<Rightarrow> act_throw (Unauthorized ''Invalid or expired log source token'')
      | Some claims \<Rightarrow> (case (cl_tenantId claims, cl_sub claims) of
          (Some tenantId, Some sub) \<Rightarrow>
            act_bind (withTenantContext tenantId (\<lambda>qr. sql_first log_sources qr (by_id sub))) (\<lambda>row.
            if (case row of None \<Rightarrow> False | Some k \<Rightarrow> ls_is_active k)
            then act_return \<lparr>lg_tenantId = tenantId, lg_logSourceId = sub\<rparr>
            else act_throw (Unauthorized ''Log source token has been revoked or no longer exists''))
        | _ \<Rightarrow> act_throw (Unauthorized ''Log source token has been revoked or no longer exists''))))"

record IngestLogEntry =
  ie_ts :: "msec option"
  ie_level :: "string option"
  ie_message :: string
  ie_attributes :: "json option"

definition insert_log_entry :: "query_runner \<Rightarrow> uuid \<Rightarrow> uuid \<Rightarrow> IngestLogEntry \<Rightarrow> ('s observability_scheme, unit) tx" where
  "insert_log_entry qr tenantId logSourceId entry =
     (let level = or_default (ie_level entry) ''info'' in
      if level \<notin> set LOG_LEVELS then tx_throw check_violation
      else tx_bind (fk_check log_sources logSourceId) (\<lambda>_.
        tx_bind gen_random_uuid (\<lambda>i. tx_bind sql_now (\<lambda>now.
        tx_bind (sql_insert log_entries_update qr \<lparr>row_id = i, tenant_id = tenantId, le_log_source_id = logSourceId, le_ts = or_default (ie_ts entry) now,
          le_level = level, le_message = ie_message entry, le_attributes = js_or_else (ie_attributes entry) (JObj []), le_created_at = now\<rparr>) (\<lambda>_.
        tx_return ())))))"

definition logs_ingest :: "uuid \<Rightarrow> uuid \<Rightarrow> IngestLogEntry list \<Rightarrow> ('s observability_scheme, unit) act" where
  "logs_ingest tenantId logSourceId entries =
     (if entries = [] then act_return ()
      else withTenantContext tenantId (\<lambda>qr. tx_fold (\<lambda>e _. insert_log_entry qr tenantId logSourceId e) entries ()))"

definition logs_ingest_endpoint :: "ingest_limit \<Rightarrow> js_format \<Rightarrow> jwt_lib \<Rightarrow> http_request \<Rightarrow> IngestLogEntry list \<Rightarrow> ('s observability_scheme, unit) act" where
  "logs_ingest_endpoint L F J r entries =
     act_bind (logSourceTokenGuard J r) (\<lambda>req.
     act_bind (enforceIngestRate L (''log:'' @ fmt_uuid F (lg_logSourceId req))) (\<lambda>_.
     logs_ingest (lg_tenantId req) (lg_logSourceId req) entries))"

section \<open>Search\<close>

record SearchLogsQuery =
  sl_sourceId :: "uuid option"
  sl_level :: "string option"
  sl_q :: "string option"
  sl_from :: "msec option"
  sl_to :: "msec option"
  sl_limit :: "int option"

definition opt_all :: "'a option \<Rightarrow> ('a \<Rightarrow> bool) \<Rightarrow> bool" where
  "opt_all v P = (case v of None \<Rightarrow> True | Some x \<Rightarrow> P x)"

definition truthy_text :: "string option \<Rightarrow> string option" where
  "truthy_text v = (case v of Some s \<Rightarrow> if s = [] then None else Some s | None \<Rightarrow> None)"

definition logs_search :: "(string \<Rightarrow> string \<Rightarrow> bool) \<Rightarrow> uuid \<Rightarrow> SearchLogsQuery \<Rightarrow> ('s observability_scheme, log_entry list) act" where
  "logs_search fts tenantId query = withTenantContext tenantId (\<lambda>qr.
     tx_bind (sql_select log_entries qr (\<lambda>e. opt_all (sl_sourceId query) (\<lambda>i. le_log_source_id e = i) \<and>
       opt_all (truthy_text (sl_level query)) (\<lambda>l. le_level e = l) \<and> opt_all (sl_from query) (\<lambda>d. le_ts e \<ge> d) \<and>
       opt_all (sl_to query) (\<lambda>d. le_ts e \<le> d) \<and> opt_all (truthy_text (sl_q query)) (fts (le_message e)))) (\<lambda>rows.
     tx_return (take (nat (min (max (or_default (sl_limit query) 100) 1) 500)) (order_by (\<lambda>e. - le_ts e) rows))))"

section \<open>Alert rules\<close>

record CreateLogAlertRule =
  kl_logSourceId :: uuid
  kl_name :: string
  kl_matchQuery :: "string option"
  kl_levelAtLeast :: "string option"
  kl_windowSeconds :: "int option"
  kl_threshold :: "int option"
  kl_escalationPolicyId :: "uuid option"
  kl_isEnabled :: "bool option"

record UpdateLogAlertRule =
  vl_name :: "string option option"
  vl_matchQuery :: "string option option"
  vl_levelAtLeast :: "string option option"
  vl_windowSeconds :: "int option option"
  vl_threshold :: "int option option"
  vl_isEnabled :: "bool option option"

definition logs_listAlertRules :: "uuid \<Rightarrow> ('s observability_scheme, log_alert_rule list) act" where
  "logs_listAlertRules tenantId = withTenantContext tenantId (\<lambda>qr.
     tx_bind (sql_select log_alert_rules qr (\<lambda>_. True)) (\<lambda>rows. tx_return (order_by (\<lambda>r. - lr_created_at r) rows)))"

definition logs_createAlertRule :: "uuid \<Rightarrow> CreateLogAlertRule \<Rightarrow> ('s observability_scheme, log_alert_rule) act" where
  "logs_createAlertRule tenantId dto = withTenantContext tenantId (\<lambda>qr.
     tx_bind (find_row ''Log source'' log_sources qr (kl_logSourceId dto)) (\<lambda>_.
     if or_default (kl_levelAtLeast dto) ''error'' \<notin> set LOG_LEVELS then tx_throw check_violation
     else tx_bind (int4 (or_default (kl_windowSeconds dto) 300)) (\<lambda>window.
       tx_bind (int4 (or_default (kl_threshold dto) 1)) (\<lambda>threshold.
       tx_bind (case kl_escalationPolicyId dto of None \<Rightarrow> tx_return () | Some p \<Rightarrow> fk_check escalation_policies p) (\<lambda>_.
       tx_bind gen_random_uuid (\<lambda>i. tx_bind sql_now (\<lambda>now.
       sql_insert log_alert_rules_update qr \<lparr>row_id = i, tenant_id = tenantId, lr_log_source_id = kl_logSourceId dto, lr_name = kl_name dto,
         lr_match_query = kl_matchQuery dto, lr_level_at_least = or_default (kl_levelAtLeast dto) ''error'', lr_window_seconds = window,
         lr_threshold = threshold, lr_escalation_policy_id = kl_escalationPolicyId dto, lr_is_enabled = or_default (kl_isEnabled dto) True,
         lr_last_fired_at = None, lr_created_at = now, lr_updated_at = now\<rparr>)))))))"

definition logs_updateAlertRule :: "uuid \<Rightarrow> uuid \<Rightarrow> UpdateLogAlertRule \<Rightarrow> ('s observability_scheme, log_alert_rule) act" where
  "logs_updateAlertRule tenantId i dto = withTenantContext tenantId (\<lambda>qr.
     tx_bind (find_row ''Log alert rule'' log_alert_rules qr i) (\<lambda>_.
     tx_bind (case vl_levelAtLeast dto of Some (Some l) \<Rightarrow> if l \<in> set LOG_LEVELS then tx_return () else tx_throw check_violation | _ \<Rightarrow> tx_return ()) (\<lambda>_.
     tx_bind (update_fits (vl_windowSeconds dto)) (\<lambda>_. tx_bind (update_fits (vl_threshold dto)) (\<lambda>_.
     tx_bind sql_now (\<lambda>now.
     patch_row ''Log alert rule'' log_alert_rules log_alert_rules_update qr i
       (set_required (vl_name dto) (\<lambda>v r. r\<lparr>lr_name := v\<rparr>) @ set_nullable (vl_matchQuery dto) (\<lambda>v r. r\<lparr>lr_match_query := v\<rparr>) @
        set_required (vl_levelAtLeast dto) (\<lambda>v r. r\<lparr>lr_level_at_least := v\<rparr>) @ set_required (vl_windowSeconds dto) (\<lambda>v r. r\<lparr>lr_window_seconds := v\<rparr>) @
        set_required (vl_threshold dto) (\<lambda>v r. r\<lparr>lr_threshold := v\<rparr>) @ set_required (vl_isEnabled dto) (\<lambda>v r. r\<lparr>lr_is_enabled := v\<rparr>))
       [Some (\<lambda>r. r\<lparr>lr_updated_at := now\<rparr>)]))))))"

definition logs_removeAlertRule :: "uuid \<Rightarrow> uuid \<Rightarrow> ('s observability_scheme, unit) act" where
  "logs_removeAlertRule tenantId i = withTenantContext tenantId (\<lambda>qr. remove_row ''Log alert rule'' log_alert_rules log_alert_rules_update qr i)"

section \<open>The sweep\<close>

definition TICKET_PRIORITY_BY_LEVEL :: "string \<Rightarrow> ticket_priority" where
  "TICKET_PRIORITY_BY_LEVEL l = (if l = ''critical'' then Urgent else if l = ''error'' then High else if l = ''warn'' then Medium
     else if l = ''info'' \<or> l = ''debug'' then Low else Medium)"

definition due_rules :: "query_runner \<Rightarrow> 's observability_scheme \<Rightarrow> log_alert_rule list" where
  "due_rules qr s = filter (\<lambda>r. lr_is_enabled r \<and> (case lr_last_fired_at r of None \<Rightarrow> True | Some d \<Rightarrow> d < clock s - lr_window_seconds r * 1000))
     (visible qr (log_alert_rules s))"

definition min_level :: "log_alert_rule \<Rightarrow> string" where
  "min_level rule = (if isLogLevel (lr_level_at_least rule) then lr_level_at_least rule else ''error'')"

definition matching_entries :: "(string \<Rightarrow> string \<Rightarrow> bool) \<Rightarrow> log_alert_rule \<Rightarrow> query_runner \<Rightarrow> 's observability_scheme \<Rightarrow> log_entry list" where
  "matching_entries fts rule qr s =
     (let levelsAtOrAbove = filter (\<lambda>l. levelAtLeast l (min_level rule)) LOG_LEVELS in
      filter (\<lambda>e. le_log_source_id e = lr_log_source_id rule \<and> le_ts e \<ge> clock s - lr_window_seconds rule * 1000 \<and> le_level e \<in> set levelsAtOrAbove \<and>
        opt_all (truthy_text (lr_match_query rule)) (fts (le_message e))) (visible qr (log_entries s)))"

definition log_alert_ticket :: "log_alert_rule \<Rightarrow> nat \<Rightarrow> CreateTicketFromAlert" where
  "log_alert_ticket rule n =
     \<lparr>fa_subject = ''[Logs] '' @ lr_name rule @ '': '' @ nat_text n @ '' matching entries in the last '' @ int_text (lr_window_seconds rule) @ ''s'',
      fa_description = ''Log alert rule \"'' @ lr_name rule @ ''\" crossed its threshold: '' @ nat_text n @ '' entries at level >= '' @ min_level rule @
        (case truthy_text (lr_match_query rule) of None \<Rightarrow> [] | Some q \<Rightarrow> '' matching \"'' @ q @ ''\"'') @ '' in the trailing '' @
        int_text (lr_window_seconds rule) @ ''s (threshold '' @ int_text (lr_threshold rule) @ '').'',
      fa_resourceId = None, fa_priority = Some (TICKET_PRIORITY_BY_LEVEL (min_level rule))\<rparr>"

definition evaluateRule :: "engine \<Rightarrow> (string \<Rightarrow> string \<Rightarrow> bool) \<Rightarrow> uuid \<Rightarrow> log_alert_rule \<Rightarrow> ('s observability_scheme, bool) act" where
  "evaluateRule E fts tenantId rule =
     act_bind (withTenantContext tenantId (\<lambda>qr. tx_gets (\<lambda>s. length (matching_entries fts rule qr s)))) (\<lambda>n.
     if int n < lr_threshold rule then act_return False
     else act_bind (withTenantContext tenantId (\<lambda>qr. tx_bind sql_now (\<lambda>now.
         tx_bind (sql_update log_alert_rules log_alert_rules_update qr (by_id (row_id rule)) (\<lambda>r. r\<lparr>lr_last_fired_at := Some now\<rparr>)) (\<lambda>_. tx_return ())))) (\<lambda>_.
       act_bind (callInternalApi (en_reachable E) (fromAlert (en_format E) (en_intl E) (en_html E) tenantId (log_alert_ticket rule n))) (\<lambda>_.
       act_return True)))"

definition logs_sweepTenant :: "engine \<Rightarrow> (string \<Rightarrow> string \<Rightarrow> bool) \<Rightarrow> uuid \<Rightarrow> ('s observability_scheme, nat) act" where
  "logs_sweepTenant E fts tenantId =
     act_bind (withTenantContext tenantId (\<lambda>qr. tx_gets (due_rules qr))) (\<lambda>dueRules.
     act_fold (\<lambda>rule n. act_bind (evaluateRule E fts tenantId rule) (\<lambda>fired. act_return (if fired then Suc n else n))) dueRules 0)"

definition logs_runSweepOnce :: "engine \<Rightarrow> (string \<Rightarrow> string \<Rightarrow> bool) \<Rightarrow> bool \<Rightarrow> ('s observability_scheme, nat) act" where
  "logs_runSweepOnce E fts running =
     (if running then act_return 0 else act_bind (act_gets tenants) (\<lambda>ts.
       act_fold (\<lambda>t n. act_catch (act_bind (logs_sweepTenant E fts (tn_id t)) (\<lambda>k. act_return (n + k))) (\<lambda>_. act_return n)) ts 0))"

section \<open>What a sweep does\<close>

definition log_view :: "'s observability_scheme \<Rightarrow> msec \<times> log_entry list \<times> log_alert_rule list" where
  "log_view s = (clock s, log_entries s, log_alert_rules s)"

lemma ticketing_log_view:
  fixes s t :: "'s observability_scheme"
  assumes "ticketing_frame qr s t"
  shows "same log_view s t"
proof -
  from assms have "ticketing.more t = ticketing.more s" "clock t = clock s" by (simp_all add: ticketing_frame_def)
  then show ?thesis by (cases s; cases t) (simp add: same_def log_view_def)
qed

definition fires :: "(string \<Rightarrow> string \<Rightarrow> bool) \<Rightarrow> uuid \<Rightarrow> 's observability_scheme \<Rightarrow> log_alert_rule \<Rightarrow> bool" where
  "fires fts T s rule \<longleftrightarrow> lr_threshold rule \<le> int (length (matching_entries fts rule T s))"

definition stamp :: "uuid \<Rightarrow> msec \<Rightarrow> log_alert_rule \<Rightarrow> log_alert_rule list \<Rightarrow> log_alert_rule list" where
  "stamp T now rule = update_rows T (by_id (row_id rule)) (\<lambda>r. r\<lparr>lr_last_fired_at := Some now\<rparr>)"

lemma fires_view: "same log_view s t \<Longrightarrow> fires fts T t = fires fts T s"
  by (rule ext) (simp add: same_def log_view_def fires_def matching_entries_def)

lemma withTenantContext_gets: "withTenantContext T (\<lambda>qr. tx_gets (f qr)) s = (Inr (f T s), s)"
  by (simp add: withTenantContext_def)

lemma mark_fired_run:
  "withTenantContext T (\<lambda>qr. tx_bind sql_now (\<lambda>now.
     tx_bind (sql_update log_alert_rules log_alert_rules_update qr (by_id (row_id rule)) (\<lambda>r. r\<lparr>lr_last_fired_at := Some now\<rparr>)) (\<lambda>_. tx_return ()))) s =
   (Inr (), s\<lparr>log_alert_rules := stamp T (clock s) rule (log_alert_rules s)\<rparr>)"
  by (simp add: withTenantContext_def sql_now_def sql_update_def stamp_def tx_bind_def Let_def list_all_iff tenant_isolation_def)

lemma callInternalApi_returns: "\<exists>v t. callInternalApi b m s = (Inr v, t)"
  by (auto simp: callInternalApi_def act_catch_def act_bind_def split: prod.splits sum.splits)

lemma evaluateRule_run:
  "\<exists>t. evaluateRule E fts T rule s = (Inr (fires fts T s rule), t) \<and> clock t = clock s \<and> log_entries t = log_entries s \<and>
     log_alert_rules t = (if fires fts T s rule then stamp T (clock s) rule (log_alert_rules s) else log_alert_rules s) \<and>
     (\<not> en_reachable E \<longrightarrow> tickets t = tickets s)"
proof (cases "fires fts T s rule")
  case False
  then show ?thesis by (simp add: evaluateRule_def withTenantContext_def fires_def act_bind_def)
next
  case True
  let ?api = "callInternalApi (en_reachable E) (fromAlert (en_format E) (en_intl E) (en_html E) T (log_alert_ticket rule (length (matching_entries fts rule T s))))"
  let ?u = "s\<lparr>log_alert_rules := stamp T (clock s) rule (log_alert_rules s)\<rparr>"
  obtain v t where api: "?api ?u = (Inr v, t)" using callInternalApi_returns [of "en_reachable E" _ ?u] by metis
  have "act_rel (ticketing_frame T) ?api" by (intro frame_intros endpoint_frames)
  from ticketing_log_view [OF act_relD [OF this api]] have "log_view t = log_view ?u" by (simp add: same_def)
  moreover have "\<not> en_reachable E \<Longrightarrow> t = ?u" using api by (simp add: callInternalApi_def)
  moreover have "evaluateRule E fts T rule s = (Inr True, t)"
    using True api
    by (simp add: evaluateRule_def fires_def act_bind_Inr [OF withTenantContext_gets] act_bind_Inr [OF mark_fired_run])
  ultimately show ?thesis using True by (auto simp: log_view_def)
qed

lemma stamp_all:
  "fold (stamp T now) rs rows = map (\<lambda>x. if tenant_isolation T x \<and> row_id x \<in> row_id ` set rs then x\<lparr>lr_last_fired_at := Some now\<rparr> else x) rows"
proof (induction rs arbitrary: rows)
  case (Cons r rs)
  show ?case by (simp add: Cons.IH) (auto simp: stamp_def update_rows_def by_id_def tenant_isolation_def)
qed simp

lemma evaluate_rules_run:
  "\<exists>t. act_fold (\<lambda>rule n. act_bind (evaluateRule E fts T rule) (\<lambda>fired. act_return (if fired then Suc n else n))) rs n s =
     (Inr (n + length (filter (fires fts T s) rs)), t) \<and> clock t = clock s \<and> log_entries t = log_entries s \<and>
     log_alert_rules t = fold (stamp T (clock s)) (filter (fires fts T s) rs) (log_alert_rules s) \<and>
     (\<not> en_reachable E \<longrightarrow> tickets t = tickets s)"
proof (induction rs arbitrary: n s)
  case (Cons r rs)
  obtain u where u: "evaluateRule E fts T r s = (Inr (fires fts T s r), u)" "clock u = clock s" "log_entries u = log_entries s"
      "log_alert_rules u = (if fires fts T s r then stamp T (clock s) r (log_alert_rules s) else log_alert_rules s)"
      "\<not> en_reachable E \<longrightarrow> tickets u = tickets s"
    using evaluateRule_run by blast
  then have "fires fts T u = fires fts T s" by (auto simp: fires_def matching_entries_def)
  with Cons.IH [of "if fires fts T s r then Suc n else n" u] u show ?case by (auto simp: act_bind_def)
qed simp

text \<open>
  C32. A sweep over the log alert rules of a tenant always completes. It fires exactly the enabled rules that are due
  and for which the number of matching entries within the window reaches the threshold, counts them, and stamps
  exactly these rules with the time of the sweep; a stamped rule is not due again before its window has passed. If
  the ticket module cannot be reached, the rules are stamped all the same and no ticket is opened: the alert is
  lost until the window has passed and the entries still match.
\<close>

theorem log_rules_fire_once_per_window:
  assumes "distinct (map row_id (log_alert_rules s))"
  shows "\<exists>t. let fired = filter (fires fts T s) (due_rules T s) in
    logs_sweepTenant E fts T s = (Inr (length fired), t) \<and>
    log_alert_rules t = map (\<lambda>r. if r \<in> set fired then r\<lparr>lr_last_fired_at := Some (clock s)\<rparr> else r) (log_alert_rules s) \<and>
    (\<forall>r \<in> set fired. \<forall>now \<le> clock s + lr_window_seconds r * 1000. row_id r \<notin> row_id ` set (due_rules T (t\<lparr>clock := now\<rparr>))) \<and>
    (\<not> en_reachable E \<longrightarrow> tickets t = tickets s)"
proof -
  define fired where "fired = filter (fires fts T s) (due_rules T s)"
  obtain t where run: "logs_sweepTenant E fts T s = (Inr (length fired), t)" and rows: "log_alert_rules t = fold (stamp T (clock s)) fired (log_alert_rules s)"
    and tk: "\<not> en_reachable E \<longrightarrow> tickets t = tickets s"
    using evaluate_rules_run [of E fts T "due_rules T s" 0 s] by (auto simp: logs_sweepTenant_def withTenantContext_def act_bind_def fired_def)
  have mem: "tenant_isolation T x \<and> row_id x \<in> row_id ` set fired \<longleftrightarrow> x \<in> set fired" if "x \<in> set (log_alert_rules s)" for x
    using that row_id_inj [OF assms that] by (auto simp: fired_def due_rules_def tenant_isolation_def)
  have stamped: "log_alert_rules t = map (\<lambda>r. if r \<in> set fired then r\<lparr>lr_last_fired_at := Some (clock s)\<rparr> else r) (log_alert_rules s)"
    unfolding rows stamp_all by (rule map_cong) (simp_all add: mem)
  have "row_id r \<notin> row_id ` set (due_rules T (t\<lparr>clock := now\<rparr>))" if r: "r \<in> set fired" and now: "now \<le> clock s + lr_window_seconds r * 1000" for r now
  proof
    assume "row_id r \<in> row_id ` set (due_rules T (t\<lparr>clock := now\<rparr>))"
    then obtain x where x: "x \<in> set (due_rules T (t\<lparr>clock := now\<rparr>))" "row_id x = row_id r" by auto
    then have "x \<in> set (log_alert_rules t)" by (auto simp: due_rules_def)
    then obtain y where y: "y \<in> set (log_alert_rules s)" "x = (if y \<in> set fired then y\<lparr>lr_last_fired_at := Some (clock s)\<rparr> else y)"
      unfolding stamped by auto
    then have "row_id y = row_id r" using x(2) by (cases "y \<in> set fired") auto
    then have "y = r" using row_id_inj [OF assms y(1), of r] r by (auto simp: fired_def due_rules_def)
    with y(2) r have "x = r\<lparr>lr_last_fired_at := Some (clock s)\<rparr>" by simp
    with x(1) now show False by (simp add: due_rules_def)
  qed
  with run stamped tk show ?thesis unfolding fired_def [symmetric] Let_def by blast
qed

definition noisy_rule :: log_alert_rule where
  "noisy_rule = \<lparr>row_id = 92, tenant_id = 1, lr_log_source_id = 90, lr_name = ''errors'', lr_match_query = None, lr_level_at_least = ''error'',
     lr_window_seconds = 300, lr_threshold = 1, lr_escalation_policy_id = None, lr_is_enabled = True, lr_last_fired_at = None,
     lr_created_at = 0, lr_updated_at = 0\<rparr>"

definition noisy :: observability where
  "noisy = observed\<lparr>log_alert_rules := [noisy_rule], log_entries := [\<lparr>row_id = 91, tenant_id = 1, le_log_source_id = 90, le_ts = 0, le_level = ''critical'',
     le_message = ''disk failed'', le_attributes = JObj [], le_created_at = 0\<rparr>]\<rparr>"

theorem log_rules_fire_once_per_window_witness:
  "\<exists>t. logs_sweepTenant (toy_engine\<lparr>en_reachable := False\<rparr>) (\<lambda>_ _. True) 1 noisy = (Inr 1, t) \<and> tickets t = tickets noisy \<and>
     due_rules 1 (t\<lparr>clock := 300000\<rparr>) = []"
proof -
  have fired: "filter (fires (\<lambda>_ _. True) 1 noisy) (due_rules 1 noisy) = [noisy_rule]"
    by (simp add: due_rules_def noisy_def noisy_rule_def fires_def matching_entries_def min_level_def isLogLevel_def RANK_def LOG_LEVELS_def
        levelAtLeast_def opt_all_def truthy_text_def tenant_isolation_def del: One_nat_def)
  have "distinct (map row_id (log_alert_rules noisy))" by (simp add: noisy_def)
  from log_rules_fire_once_per_window [OF this, of "\<lambda>_ _. True" 1 "toy_engine\<lparr>en_reachable := False\<rparr>"]
  obtain t where t: "logs_sweepTenant (toy_engine\<lparr>en_reachable := False\<rparr>) (\<lambda>_ _. True) 1 noisy = (Inr 1, t)" "tickets t = tickets noisy"
      "log_alert_rules t = [noisy_rule\<lparr>lr_last_fired_at := Some 0\<rparr>]" "\<forall>now \<le> 300000. 92 \<notin> row_id ` set (due_rules 1 (t\<lparr>clock := now\<rparr>))"
    unfolding fired Let_def by (auto simp: noisy_def noisy_rule_def simp del: One_nat_def)
  then have "due_rules 1 (t\<lparr>clock := 300000\<rparr>) = []" by (simp add: due_rules_def noisy_rule_def del: One_nat_def)
  with t show ?thesis by blast
qed

end
