(* ===== verification/Apm_Rum.thy ===== *)
theory Apm_Rum
  imports Logs
begin

text \<open>
  Application performance (\<open>monitoring/apm\<close>) and real user monitoring (\<open>monitoring/rum\<close>): the latency statistics,
  ingestion of traces and of browser events behind their keys, and the aggregations. The lemmas: \<open>percentile\<close> is the
  nearest-rank percentile, the Apdex score is a fraction, and the spans of a trace refer only to spans of the same
  trace. A timestamp of a request is the instant it denotes.
\<close>

section \<open>Latency\<close>

definition percentile :: "rat list \<Rightarrow> rat \<Rightarrow> rat" where
  "percentile vs p =
     (if vs = [] then 0
      else let sorted = sort vs; rank = \<lceil>p / 100 * of_nat (length sorted)\<rceil>;
               index = min (max (rank - 1) 0) (int (length sorted) - 1) in sorted ! nat index)"

record LatencyStats =
  lat_count :: nat
  lat_errorCount :: nat
  lat_errorRatePct :: rat
  lat_p50 :: rat
  lat_p95 :: rat
  lat_p99 :: rat
  lat_avg :: rat
  lat_apdex :: "rat option"

definition apdex_step :: "rat \<Rightarrow> rat \<Rightarrow> nat \<times> nat \<Rightarrow> nat \<times> nat" where
  "apdex_step T d = (\<lambda>(satisfied, tolerating).
     if d \<le> T then (Suc satisfied, tolerating) else if d \<le> T * 4 then (satisfied, Suc tolerating) else (satisfied, tolerating))"

definition computeLatencyStats :: "rat list \<Rightarrow> string list \<Rightarrow> rat \<Rightarrow> LatencyStats" where
  "computeLatencyStats durations statuses apdexToleratingMs =
     (let n = length durations in
      if n = 0 then \<lparr>lat_count = 0, lat_errorCount = 0, lat_errorRatePct = 0, lat_p50 = 0, lat_p95 = 0, lat_p99 = 0, lat_avg = 0, lat_apdex = None\<rparr>
      else let errors = length (filter (\<lambda>s. s = ''error'') statuses);
               (satisfied, tolerating) = fold (apdex_step apdexToleratingMs) durations (0, 0) in
        \<lparr>lat_count = n, lat_errorCount = errors, lat_errorRatePct = of_nat errors / of_nat n * 100,
         lat_p50 = percentile durations 50, lat_p95 = percentile durations 95, lat_p99 = percentile durations 99,
         lat_avg = sum_list durations / of_nat n, lat_apdex = Some ((of_nat satisfied + of_nat tolerating / 2) / of_nat n)\<rparr>)"

section \<open>Ingest keys\<close>

definition apm_listIngestKeys :: "uuid \<Rightarrow> ('s observability_scheme, apm_ingest_key list) act" where
  "apm_listIngestKeys tenantId = withTenantContext tenantId (\<lambda>qr.
     tx_bind (sql_select apm_ingest_keys qr (\<lambda>_. True)) (\<lambda>rows. tx_return (order_by (\<lambda>r. - ai_created_at r) rows)))"

definition apm_createIngestKey :: "jwt_lib \<Rightarrow> auth_env \<Rightarrow> uuid \<Rightarrow> string \<Rightarrow> ('s observability_scheme, apm_ingest_key \<times> string) act" where
  "apm_createIngestKey J V tenantId service = withTenantContext tenantId (\<lambda>qr.
     tx_bind gen_random_uuid (\<lambda>i. tx_bind sql_now (\<lambda>now.
     tx_bind (sql_insert apm_ingest_keys_update qr \<lparr>row_id = i, tenant_id = tenantId, ai_service = service, ai_is_active = True, ai_created_at = now\<rparr>) (\<lambda>row.
     tx_return (row, signApmIngestJwt J V (row_id row) tenantId now)))))"

definition apm_removeIngestKey :: "uuid \<Rightarrow> uuid \<Rightarrow> ('s observability_scheme, unit) act" where
  "apm_removeIngestKey tenantId i = withTenantContext tenantId (\<lambda>qr. remove_row ''APM ingest key'' apm_ingest_keys apm_ingest_keys_update qr i)"

record ApmScopedRequest =
  ap_tenantId :: uuid
  ap_apmIngestKeyId :: uuid
  ap_service :: string

definition apmIngestTokenGuard :: "jwt_lib \<Rightarrow> http_request \<Rightarrow> ('s observability_scheme, ApmScopedRequest) act" where
  "apmIngestTokenGuard J r = (case bearer_token r of
      None \<Rightarrow> act_throw (Unauthorized ''Authorization: Bearer <APM ingest key> is required'')
    | Some token \<Rightarrow> act_bind (act_gets clock) (\<lambda>now. case verifyApmIngestJwt J token now of
        None \<Rightarrow> act_throw (Unauthorized ''Invalid or expired APM ingest key'')
      | Some claims \<Rightarrow> (case (cl_tenantId claims, cl_sub claims) of
          (Some tenantId, Some sub) \<Rightarrow>
            act_bind (withTenantContext tenantId (\<lambda>qr. sql_first apm_ingest_keys qr (by_id sub))) (\<lambda>row. case row of
              Some key \<Rightarrow> if ai_is_active key then act_return \<lparr>ap_tenantId = tenantId, ap_apmIngestKeyId = sub, ap_service = ai_service key\<rparr>
                else act_throw (Unauthorized ''APM ingest key has been revoked or no longer exists'')
            | None \<Rightarrow> act_throw (Unauthorized ''APM ingest key has been revoked or no longer exists''))
        | _ \<Rightarrow> act_throw (Unauthorized ''APM ingest key has been revoked or no longer exists''))))"

section \<open>Traces\<close>

record IngestSpan =
  is_spanId :: string
  is_parentSpanId :: "string option"
  is_name :: string
  is_kind :: "string option"
  is_durationMs :: int
  is_attributes :: "json option"

record IngestTrace =
  it_transaction :: string
  it_durationMs :: int
  it_status :: "string option"
  it_ts :: "msec option"
  it_spans :: "IngestSpan list option"

text \<open>\<open>spanIdMap\<close>: a fresh identifier for every span; a repeated \<open>spanId\<close> overwrites the earlier one.\<close>

fun span_ids :: "IngestSpan list \<Rightarrow> (string \<Rightarrow> uuid option) \<Rightarrow> ('s platform_scheme, string \<Rightarrow> uuid option) tx" where
  "span_ids [] m = tx_return m"
| "span_ids (sp # sps) m = tx_bind gen_random_uuid (\<lambda>i. span_ids sps (m(is_spanId sp \<mapsto> i)))"

definition parent_id :: "(string \<Rightarrow> uuid option) \<Rightarrow> IngestSpan \<Rightarrow> uuid option" where
  "parent_id m sp = (case truthy_text (is_parentSpanId sp) of None \<Rightarrow> None | Some p \<Rightarrow> m p)"

definition insert_span :: "query_runner \<Rightarrow> uuid \<Rightarrow> uuid \<Rightarrow> (string \<Rightarrow> uuid option) \<Rightarrow> IngestSpan \<Rightarrow> ('s observability_scheme, unit) tx" where
  "insert_span qr tenantId traceId m sp = (case m (is_spanId sp) of
      None \<Rightarrow> tx_throw not_null_violation
    | Some i \<Rightarrow> tx_bind (int4 (is_durationMs sp)) (\<lambda>_.
        tx_bind (tx_gets (\<lambda>s. \<exists>r \<in> set (apm_spans s). row_id r = i)) (\<lambda>dup.
        if dup then tx_throw unique_violation
        else tx_bind (sql_insert apm_spans_update qr \<lparr>row_id = i, tenant_id = tenantId, as_trace_id = traceId, as_parent_span_id = parent_id m sp,
          as_name = is_name sp, as_kind = or_default (is_kind sp) ''internal'', as_duration_ms = is_durationMs sp,
          as_attributes = js_or_else (is_attributes sp) (JObj [])\<rparr>) (\<lambda>_. tx_return ()))))"

definition insert_trace :: "query_runner \<Rightarrow> uuid \<Rightarrow> string \<Rightarrow> IngestTrace \<Rightarrow> ('s observability_scheme, unit) tx" where
  "insert_trace qr tenantId service trace =
     (if or_default (it_status trace) ''ok'' \<notin> {''ok'', ''error''} then tx_throw check_violation
      else tx_bind (int4 (it_durationMs trace)) (\<lambda>_.
        tx_bind gen_random_uuid (\<lambda>i. tx_bind sql_now (\<lambda>now.
        tx_bind (sql_insert apm_traces_update qr \<lparr>row_id = i, tenant_id = tenantId, ax_service = service, ax_transaction = it_transaction trace,
          ax_ts = or_default (it_ts trace) now, ax_duration_ms = it_durationMs trace, ax_status = or_default (it_status trace) ''ok''\<rparr>) (\<lambda>traceRow.
        let spans = or_default (it_spans trace) [] in
        tx_bind (span_ids spans Map.empty) (\<lambda>m.
        tx_fold (\<lambda>sp _. insert_span qr tenantId (row_id traceRow) m sp) spans ()))))))"

definition ingestTraces :: "uuid \<Rightarrow> string \<Rightarrow> IngestTrace list \<Rightarrow> ('s observability_scheme, unit) act" where
  "ingestTraces tenantId service traces =
     (if traces = [] then act_return ()
      else withTenantContext tenantId (\<lambda>qr. tx_fold (\<lambda>trace _. insert_trace qr tenantId service trace) traces ()))"

definition apm_ingest_endpoint :: "ingest_limit \<Rightarrow> js_format \<Rightarrow> jwt_lib \<Rightarrow> http_request \<Rightarrow> IngestTrace list \<Rightarrow> ('s observability_scheme, unit) act" where
  "apm_ingest_endpoint L F J r traces =
     act_bind (apmIngestTokenGuard J r) (\<lambda>req.
     act_bind (enforceIngestRate L (''apm:'' @ fmt_uuid F (ap_apmIngestKeyId req))) (\<lambda>_.
     ingestTraces (ap_tenantId req) (ap_service req) traces))"

section \<open>Aggregation\<close>

definition DEFAULT_APDEX_TOLERATING_MS :: rat where
  "DEFAULT_APDEX_TOLERATING_MS = 500"

definition DEFAULT_STATS_WINDOW_MS :: msec where
  "DEFAULT_STATS_WINDOW_MS = 24 * 60 * 60 * 1000"

text \<open>\<open>SELECT k, count(*), max(ts) \<dots> GROUP BY k ORDER BY k\<close>.\<close>

definition group_counts :: "('r \<Rightarrow> string) \<Rightarrow> ('r \<Rightarrow> msec) \<Rightarrow> 'r list \<Rightarrow> (string \<times> nat \<times> msec) list" where
  "group_counts k ts rows = map (\<lambda>g. let members = filter (\<lambda>r. k r = g) rows in (g, length members, Max (ts ` set members)))
     (sort (remdups (map k rows)))"

definition apm_listServices :: "uuid \<Rightarrow> ('s observability_scheme, (string \<times> nat \<times> msec) list) act" where
  "apm_listServices tenantId = withTenantContext tenantId (\<lambda>qr.
     tx_bind (sql_select apm_traces qr (\<lambda>_. True)) (\<lambda>rows. tx_return (group_counts ax_service ax_ts rows)))"

definition in_window :: "msec option \<Rightarrow> msec option \<Rightarrow> msec \<Rightarrow> msec \<Rightarrow> bool" where
  "in_window frm til now ts \<longleftrightarrow> ts \<ge> or_default frm (now - DEFAULT_STATS_WINDOW_MS) \<and> opt_all til (\<lambda>d. ts \<le> d)"

definition stats_of :: "rat \<Rightarrow> apm_trace list \<Rightarrow> LatencyStats" where
  "stats_of T rows = computeLatencyStats (map (\<lambda>r. of_int (ax_duration_ms r)) rows) (map ax_status rows) T"

definition serviceStats :: "uuid \<Rightarrow> string \<Rightarrow> msec option \<Rightarrow> msec option \<Rightarrow> rat option \<Rightarrow>
    ('s observability_scheme, LatencyStats \<times> (string \<times> LatencyStats) list) act" where
  "serviceStats tenantId service frm til apdexToleratingMs =
     act_bind (withTenantContext tenantId (\<lambda>qr. tx_bind sql_now (\<lambda>now.
       sql_select apm_traces qr (\<lambda>r. ax_service r = service \<and> in_window frm til now (ax_ts r))))) (\<lambda>rows.
     let T = or_default apdexToleratingMs DEFAULT_APDEX_TOLERATING_MS;
         byTransaction = map (\<lambda>tr. (tr, stats_of T (filter (\<lambda>r. ax_transaction r = tr) rows))) (js_unique (map ax_transaction rows)) in
     act_return (stats_of T rows, sort_key (\<lambda>x. - lat_p95 (snd x)) byTransaction))"

definition slowestTraces :: "uuid \<Rightarrow> string \<Rightarrow> int \<Rightarrow> ('s observability_scheme, apm_trace list) act" where
  "slowestTraces tenantId service limit = withTenantContext tenantId (\<lambda>qr.
     tx_bind (sql_select apm_traces qr (\<lambda>r. ax_service r = service)) (\<lambda>rows.
     tx_return (take (nat (min (max limit 1) 100)) (order_by (\<lambda>r. - ax_duration_ms r) rows))))"

definition getTraceWithSpans :: "uuid \<Rightarrow> uuid \<Rightarrow> ('s observability_scheme, apm_trace \<times> apm_span list) act" where
  "getTraceWithSpans tenantId traceId = withTenantContext tenantId (\<lambda>qr.
     tx_bind (find_row ''Trace'' apm_traces qr traceId) (\<lambda>trace.
     tx_bind (sql_select apm_spans qr (\<lambda>sp. as_trace_id sp = traceId)) (\<lambda>spans.
     tx_return (trace, order_by (\<lambda>sp. - as_duration_ms sp) spans))))"

section \<open>Real user monitoring\<close>

definition TIMING_METRICS :: "string list" where
  "TIMING_METRICS = [''lcp'', ''fcp'', ''ttfb'']"

definition rum_listAppKeys :: "uuid \<Rightarrow> ('s observability_scheme, rum_app_key list) act" where
  "rum_listAppKeys tenantId = withTenantContext tenantId (\<lambda>qr.
     tx_bind (sql_select rum_app_keys qr (\<lambda>_. True)) (\<lambda>rows. tx_return (order_by (\<lambda>r. - rk_created_at r) rows)))"

definition rum_createAppKey :: "jwt_lib \<Rightarrow> auth_env \<Rightarrow> uuid \<Rightarrow> string \<Rightarrow> ('s observability_scheme, rum_app_key \<times> string) act" where
  "rum_createAppKey J V tenantId appName = withTenantContext tenantId (\<lambda>qr.
     tx_bind gen_random_uuid (\<lambda>i. tx_bind sql_now (\<lambda>now.
     tx_bind (sql_insert rum_app_keys_update qr \<lparr>row_id = i, tenant_id = tenantId, rk_app_name = appName, rk_is_active = True, rk_created_at = now\<rparr>) (\<lambda>row.
     tx_return (row, signRumAppJwt J V (row_id row) tenantId now)))))"

definition rum_removeAppKey :: "uuid \<Rightarrow> uuid \<Rightarrow> ('s observability_scheme, unit) act" where
  "rum_removeAppKey tenantId i = withTenantContext tenantId (\<lambda>qr.
     remove_referenced ''RUM app key'' rum_app_keys rum_app_keys_update qr i
       (on_delete_cascade rum_events_update (\<lambda>r. Some (ru_rum_app_key_id r)) i))"

record IngestRumEvent =
  ir_page :: string
  ir_metric :: string
  ir_value :: rat
  ir_userAgent :: "string option"
  ir_attributes :: "json option"
  ir_ts :: "msec option"

definition insert_rum_event :: "query_runner \<Rightarrow> uuid \<Rightarrow> uuid \<Rightarrow> IngestRumEvent \<Rightarrow> ('s observability_scheme, unit) tx" where
  "insert_rum_event qr tenantId keyId e =
     (if ir_metric e \<notin> set (TIMING_METRICS @ [''js_error'']) then tx_throw check_violation
      else tx_bind (fk_check rum_app_keys keyId) (\<lambda>_. tx_bind gen_random_uuid (\<lambda>i. tx_bind sql_now (\<lambda>now.
        tx_bind (sql_insert rum_events_update qr \<lparr>row_id = i, tenant_id = tenantId, ru_rum_app_key_id = keyId, ru_ts = or_default (ir_ts e) now,
          ru_page = ir_page e, ru_metric = ir_metric e, ru_value = ir_value e, ru_user_agent = ir_userAgent e,
          ru_attributes = js_or_else (ir_attributes e) (JObj [])\<rparr>) (\<lambda>_. tx_return ())))))"

definition rum_collect :: "ingest_limit \<Rightarrow> js_format \<Rightarrow> jwt_lib \<Rightarrow> string \<Rightarrow> IngestRumEvent list \<Rightarrow> ('s observability_scheme, unit) act" where
  "rum_collect L F J appKeyToken beacons = act_bind (act_gets clock) (\<lambda>now.
     case verifyRumAppJwt J appKeyToken now of
       None \<Rightarrow> act_throw (Unauthorized ''Invalid or expired RUM app key'')
     | Some claims \<Rightarrow> (case (cl_tenantId claims, cl_sub claims) of
         (Some tenantId, Some sub) \<Rightarrow>
           act_bind (enforceIngestRate L (''rum:'' @ fmt_uuid F sub)) (\<lambda>_.
           act_bind (withTenantContext tenantId (\<lambda>qr. sql_first rum_app_keys qr (by_id sub))) (\<lambda>row.
           if \<not> (case row of None \<Rightarrow> False | Some k \<Rightarrow> rk_is_active k) then act_throw (Unauthorized ''RUM app key has been revoked or no longer exists'')
           else if beacons = [] then act_return ()
           else withTenantContext tenantId (\<lambda>qr. tx_fold (\<lambda>e _. insert_rum_event qr tenantId sub e) beacons ())))
       | _ \<Rightarrow> act_throw (Unauthorized ''RUM app key has been revoked or no longer exists'')))"

definition rum_listPages :: "uuid \<Rightarrow> ('s observability_scheme, (string \<times> nat \<times> msec) list) act" where
  "rum_listPages tenantId = withTenantContext tenantId (\<lambda>qr.
     tx_bind (sql_select rum_events qr (\<lambda>_. True)) (\<lambda>rows. tx_return (group_counts ru_page ru_ts rows)))"

record PageTiming =
  pt_metric :: string
  pt_count :: nat
  pt_p50 :: rat
  pt_p95 :: rat

definition metric_samples :: "rum_event list \<Rightarrow> string \<Rightarrow> rat list" where
  "metric_samples rows m = map ru_value (filter (\<lambda>e. ru_metric e = m) rows)"

definition page_summary :: "rum_event list \<Rightarrow> PageTiming list \<times> nat \<times> rat" where
  "page_summary rows =
     (let errorCount = length (filter (\<lambda>e. ru_metric e = ''js_error'') rows);
          loadCount = Max (insert 1 (set (map (\<lambda>m. length (metric_samples rows m)) TIMING_METRICS))) in
      (map (\<lambda>m. let vs = metric_samples rows m in \<lparr>pt_metric = m, pt_count = length vs, pt_p50 = percentile vs 50, pt_p95 = percentile vs 95\<rparr>) TIMING_METRICS,
       errorCount, of_nat errorCount / of_nat loadCount * 100))"

definition pageStats :: "uuid \<Rightarrow> string \<Rightarrow> msec option \<Rightarrow> msec option \<Rightarrow> ('s observability_scheme, PageTiming list \<times> nat \<times> rat) act" where
  "pageStats tenantId page frm til = withTenantContext tenantId (\<lambda>qr. tx_bind sql_now (\<lambda>now.
     tx_bind (sql_select rum_events qr (\<lambda>e. ru_page e = page \<and> in_window frm til now (ru_ts e))) (\<lambda>rows. tx_return (page_summary rows))))"

section \<open>Percentiles\<close>

lemma count_sort: "length (filter P (sort vs)) = length (filter P vs)"
  by (metis mset_filter mset_sort size_mset)

lemma sorted_prefix_le:
  assumes "sorted xs" and "k < length xs"
  shows "Suc k \<le> length (filter (\<lambda>v. v \<le> xs ! k) xs)"
proof -
  have "set (take (Suc k) xs) \<subseteq> {v. v \<le> xs ! k}"
    using assms(2) by (auto simp: in_set_conv_nth less_Suc_eq_le intro!: sorted_nth_mono [OF assms(1)])
  then have "filter (\<lambda>v. v \<le> xs ! k) (take (Suc k) xs) = take (Suc k) xs" by (intro filter_True) auto
  then have "length (take (Suc k) xs) \<le> length (filter (\<lambda>v. v \<le> xs ! k) (take (Suc k) xs @ drop (Suc k) xs))"
    by (simp only: filter_append length_append)
  with assms(2) show ?thesis by simp
qed

lemma sorted_prefix_less:
  assumes "sorted xs" and "k < length xs" and "w < xs ! k"
  shows "length (filter (\<lambda>v. v \<le> w) xs) \<le> k"
proof -
  have "set (drop k xs) \<subseteq> {v. \<not> v \<le> w}"
  proof
    fix v
    assume "v \<in> set (drop k xs)"
    then obtain j where j: "j < length (drop k xs)" "v = xs ! (k + j)" by (auto simp: in_set_conv_nth)
    with assms(2) have "k + j < length xs" by simp
    then have "xs ! k \<le> xs ! (k + j)" by (intro sorted_nth_mono [OF assms(1)]) auto
    with assms(3) j show "v \<in> {v. \<not> v \<le> w}" by auto
  qed
  then have "filter (\<lambda>v. v \<le> w) (drop k xs) = []" by (auto simp: filter_empty_conv)
  then have "filter (\<lambda>v. v \<le> w) (take k xs @ drop k xs) = filter (\<lambda>v. v \<le> w) (take k xs)" by (simp only: filter_append append_Nil2)
  then have "length (filter (\<lambda>v. v \<le> w) xs) = length (filter (\<lambda>v. v \<le> w) (take k xs))" by simp
  also have "\<dots> \<le> length (take k xs)" by (rule length_filter_le)
  finally show ?thesis by simp
qed

text \<open>
  The percentile is the nearest-rank percentile: for a percentage above 0 and up to 100 it is a value of the
  sample such that at least that share of the sample is not larger, and no smaller number has this property.
\<close>

theorem percentile_nearest_rank:
  assumes "vs \<noteq> []" and "0 < p" and "p \<le> 100"
  shows "percentile vs p \<in> set vs \<and> p / 100 * of_nat (length vs) \<le> of_nat (length (filter (\<lambda>v. v \<le> percentile vs p) vs)) \<and>
    (\<forall>w < percentile vs p. of_nat (length (filter (\<lambda>v. v \<le> w) vs)) < p / 100 * of_nat (length vs))"
proof -
  define xs where "xs = sort vs"
  define q where "q = p / 100 * of_nat (length xs)"
  define k where "k = nat (\<lceil>q\<rceil> - 1)"
  have n: "0 < length xs" using assms(1) by (simp add: xs_def)
  have "0 < q" using assms(2) n by (simp add: q_def)
  moreover have "q \<le> of_nat (length xs)" using assms(3) n by (simp add: q_def field_simps)
  ultimately have rank: "1 \<le> \<lceil>q\<rceil>" "\<lceil>q\<rceil> \<le> int (length xs)" by (auto simp: ceiling_le_iff)
  have "int k = \<lceil>q\<rceil> - 1" unfolding k_def by (rule nat_0_le) (use rank in linarith)
  with rank have k: "k < length xs" "int k = \<lceil>q\<rceil> - 1" by linarith+
  have val: "percentile vs p = xs ! k"
    using assms(1) rank by (simp add: percentile_def Let_def k_def q_def xs_def)
  have "q \<le> of_int (int (Suc k))" using k(2) by linarith
  then have le: "q \<le> of_nat (Suc k)" by simp
  have gt: "of_nat k < q" using k(2) by linarith
  have s: "sorted xs" by (simp add: xs_def)
  have c: "length (filter P xs) = length (filter P vs)" for P by (simp add: xs_def count_sort)
  have q: "q = p / 100 * of_nat (length vs)" by (simp add: q_def xs_def)
  have "xs ! k \<in> set vs" using nth_mem [OF k(1)] by (simp add: xs_def)
  moreover have "q \<le> of_nat (length (filter (\<lambda>v. v \<le> xs ! k) vs))"
    using le sorted_prefix_le [OF s k(1)] unfolding c by (meson of_nat_le_iff order_trans)
  moreover have "of_nat (length (filter (\<lambda>v. v \<le> w) vs)) < q" if "w < xs ! k" for w
    using gt sorted_prefix_less [OF s k(1) that] unfolding c by (meson le_less_trans of_nat_le_iff)
  ultimately show ?thesis unfolding val q [symmetric] by blast
qed

theorem percentile_nearest_rank_witness:
  "percentile [30, 10, 20] 50 = 20 \<and> 50 / 100 * of_nat (length [30, 10, 20 :: rat]) \<le> (of_nat (length (filter (\<lambda>v. v \<le> percentile [30, 10, 20] 50) [30, 10, 20])) :: rat)"
proof -
  have "percentile [30, 10, 20] 50 = 20" by code_simp
  with percentile_nearest_rank [of "[30, 10, 20]" 50] show ?thesis by simp
qed

lemma apdex_steps:
  "fold (apdex_step T) ds (a, b) = (a + length (filter (\<lambda>d. d \<le> T) ds), b + length (filter (\<lambda>d. T < d \<and> d \<le> T * 4) ds))"
  by (induction ds arbitrary: a b) (auto simp: apdex_step_def)

lemma apdex_fraction:
  assumes "lat_apdex (computeLatencyStats ds sts T) = Some a"
  shows "0 \<le> a \<and> a \<le> 1"
proof -
  define A B where "A = length (filter (\<lambda>d. d \<le> T) ds)" and "B = length (filter (\<lambda>d. T < d \<and> d \<le> T * 4) ds)"
  from assms have ds: "ds \<noteq> []" and a: "a = (of_nat A + of_nat B / 2) / of_nat (length ds)"
    by (auto simp: computeLatencyStats_def apdex_steps A_def B_def Let_def split: if_splits)
  have "B \<le> length (filter (\<lambda>d. \<not> d \<le> T) ds)" unfolding B_def by (induction ds) auto
  then have "A + B \<le> length ds" using sum_length_filter_compl [of "\<lambda>d. d \<le> T" ds] by (simp add: A_def)
  then have "(of_nat (A + B) :: rat) \<le> of_nat (length ds)" by (simp only: of_nat_le_iff)
  then have "(of_nat A + of_nat B / 2 :: rat) \<le> of_nat (length ds)" by simp
  with a ds show ?thesis by (simp add: divide_le_eq)
qed

section \<open>The spans of a trace\<close>

definition span_row :: "uuid \<Rightarrow> uuid \<Rightarrow> (string \<Rightarrow> uuid option) \<Rightarrow> IngestSpan \<Rightarrow> apm_span" where
  "span_row T traceId m sp = \<lparr>row_id = the (m (is_spanId sp)), tenant_id = T, as_trace_id = traceId, as_parent_span_id = parent_id m sp,
     as_name = is_name sp, as_kind = or_default (is_kind sp) ''internal'', as_duration_ms = is_durationMs sp,
     as_attributes = js_or_else (is_attributes sp) (JObj [])\<rparr>"

lemma span_ids_run:
  "span_ids sps m s = Inr (m', t) \<Longrightarrow> dom m' = dom m \<union> is_spanId ` set sps \<and> (\<exists>k. t = s\<lparr>next_uuid := k\<rparr>)"
proof (induction sps arbitrary: m s)
  case Nil
  then have "t = s\<lparr>next_uuid := next_uuid s\<rparr>" "m' = m" by simp_all
  then show ?case by (intro conjI exI [of _ "next_uuid s"]) simp_all
next
  case (Cons sp sps)
  then have run: "span_ids sps (m(is_spanId sp \<mapsto> next_uuid s)) (s\<lparr>next_uuid := Suc (next_uuid s)\<rparr>) = Inr (m', t)"
    by (simp add: gen_random_uuid_def tx_bind_def)
  from Cons.IH [OF this] show ?case by auto
qed

lemma insert_span_run:
  assumes "insert_span qr T traceId m sp s = Inr (u, t)"
  shows "t = s\<lparr>apm_spans := apm_spans s @ [span_row T traceId m sp]\<rparr>" and "row_id (span_row T traceId m sp) \<notin> row_id ` set (apm_spans s)"
  using assms
  by (auto simp: insert_span_def int4_def sql_insert_def span_row_def tx_bind_eq_Inr split: option.splits if_splits)

lemma insert_spans_run:
  assumes "tx_fold (\<lambda>sp _. insert_span qr T traceId m sp) sps () s = Inr (u, t)"
  shows "t = s\<lparr>apm_spans := apm_spans s @ map (span_row T traceId m) sps\<rparr>"
  using assms
proof (induction sps arbitrary: s)
  case (Cons sp sps)
  then obtain w where w: "insert_span qr T traceId m sp s = Inr ((), w)" and rest: "tx_fold (\<lambda>sp _. insert_span qr T traceId m sp) sps () w = Inr (u, t)"
    by (auto elim: tx_bindE)
  from insert_span_run(1) [OF w] Cons.IH [OF rest] show ?case by simp
qed simp

text \<open>The parent of every span is a span of the same trace.\<close>

definition spans_linked :: "'s observability_scheme \<Rightarrow> bool" where
  "spans_linked s \<longleftrightarrow> (\<forall>sp \<in> set (apm_spans s). \<forall>p. as_parent_span_id sp = Some p \<longrightarrow>
     (\<exists>q \<in> set (apm_spans s). row_id q = p \<and> as_trace_id q = as_trace_id sp))"

lemma new_spans_linked:
  assumes "dom m = is_spanId ` set sps"
  shows "\<forall>sp \<in> set (map (span_row T i m) sps). \<forall>p. as_parent_span_id sp = Some p \<longrightarrow>
    (\<exists>q \<in> set (map (span_row T i m) sps). row_id q = p \<and> as_trace_id q = as_trace_id sp)"
proof (intro ballI allI impI)
  fix sp p
  assume "sp \<in> set (map (span_row T i m) sps)" and p: "as_parent_span_id sp = Some p"
  then obtain x where x: "sp = span_row T i m x" by auto
  with p obtain pid where "m pid = Some p" by (auto simp: span_row_def parent_id_def split: option.splits)
  moreover with assms obtain y where "y \<in> set sps" "is_spanId y = pid" by (metis domI imageE)
  ultimately show "\<exists>q \<in> set (map (span_row T i m) sps). row_id q = p \<and> as_trace_id q = as_trace_id sp"
    by (intro bexI [of _ "span_row T i m y"]) (simp_all add: x, simp_all add: span_row_def)
qed

lemma insert_trace_linked: "tx_rel (keeps spans_linked) (insert_trace qr T service trace)"
proof (rule tx_relI)
  fix s :: "'a observability_scheme" and u t
  assume "insert_trace qr T service trace s = Inr (u, t)"
  then obtain i row m w v where ids: "span_ids (or_default (it_spans trace) []) Map.empty w = Inr (m, v)" and w: "apm_spans w = apm_spans s"
      and spans: "tx_fold (\<lambda>sp _. insert_span qr T i m sp) (or_default (it_spans trace) []) () v = Inr (u, t)"
    by (auto simp: insert_trace_def int4_def gen_random_uuid_def sql_now_def sql_insert_def Let_def tx_bind_eq_Inr split: if_splits)
  from span_ids_run [OF ids] have dom: "dom m = is_spanId ` set (or_default (it_spans trace) [])" and v: "apm_spans v = apm_spans s"
    using w by auto
  from insert_spans_run [OF spans] v have "apm_spans t = apm_spans s @ map (span_row T i m) (or_default (it_spans trace) [])" by simp
  with new_spans_linked [OF dom, of T i] show "keeps spans_linked s t" unfolding keeps_def spans_linked_def by (simp add: ball_Un) blast
qed

text \<open>
  The spans of a trace form a structure of their own: whatever identifiers a client sends, every stored span has
  a parent only among the spans of the same trace. Ingestion keeps this, and a batch that cannot be stored as a
  whole (a span identifier that occurs twice in a trace makes it fail) leaves no trace behind.
\<close>

theorem ingest_keeps_spans_linked:
  assumes "spans_linked s" and "ingestTraces T service traces s = (res, t)"
  shows "spans_linked t \<and> (\<forall>e. res = Inl e \<longrightarrow> t = s)"
proof -
  have "act_rel (keeps spans_linked) (ingestTraces T service traces)"
    unfolding ingestTraces_def by (intro frame_intros insert_trace_linked)
  from act_relD [OF this assms(2)] assms(1) have "spans_linked t" by (simp add: keeps_def)
  moreover have "t = s" if "res = Inl e" for e
    using assms(2) that by (auto simp: ingestTraces_def withTenantContext_Inl split: if_splits)
  ultimately show ?thesis by blast
qed

definition checkout :: IngestTrace where
  "checkout = \<lparr>it_transaction = ''POST /checkout'', it_durationMs = 120, it_status = None, it_ts = None, it_spans = Some
     [\<lparr>is_spanId = ''b'', is_parentSpanId = Some ''a'', is_name = ''query'', is_kind = None, is_durationMs = 40, is_attributes = None\<rparr>,
      \<lparr>is_spanId = ''a'', is_parentSpanId = None, is_name = ''handler'', is_kind = None, is_durationMs = 110, is_attributes = None\<rparr>]\<rparr>"

theorem ingest_keeps_spans_linked_witness:
  "spans_linked (snd (ingestTraces 1 ''shop'' [checkout] observed)) \<and>
   map as_parent_span_id (apm_spans (snd (ingestTraces 1 ''shop'' [checkout] observed))) = [Some 102, None]"
proof -
  have empty: "apm_spans observed = []" by (simp add: observed_def monitoring.defs observability.defs)
  obtain res t where run: "ingestTraces 1 ''shop'' [checkout] observed = (res, t)" by fastforce
  have "spans_linked observed" by (simp add: spans_linked_def empty)
  from ingest_keeps_spans_linked [OF this run] have "spans_linked t" by blast
  moreover have "map as_parent_span_id (apm_spans t) = [Some 102, None]"
    using run by (auto simp: ingestTraces_def withTenantContext_def insert_trace_def checkout_def or_default_def int4_def max_int_def gen_random_uuid_def
        sql_now_def sql_insert_def insert_span_def tenant_isolation_def tx_bind_def Let_def empty parent_id_def truthy_text_def)
  ultimately show ?thesis by (simp only: run snd_conv)
qed

end
