(* ===== verification/Status_Pages.thy ===== *)
theory Status_Pages
  imports Monitor_Scheduler
begin

text \<open>
  Status pages (\<open>monitoring/status-pages\<close>): the service of the administrator and the public page, which reads across
  the tenants under the policy \<open>public_read\<close> of the table. The lemma: the public page discloses only pages that are
  public, and of their tenant only the names, the status and the uptime of the monitors that were put on the page.
\<close>

section \<open>The service\<close>

text \<open>\<open>/^[a-z0-9](?:[a-z0-9-]*[a-z0-9])?$/\<close>.\<close>

definition slug_char :: "char \<Rightarrow> bool" where
  "slug_char c \<longleftrightarrow> js_digit c \<or> (let n = (of_char c :: nat) in 97 \<le> n \<and> n \<le> 122)"

definition SLUG_PATTERN :: "string \<Rightarrow> bool" where
  "SLUG_PATTERN s \<longleftrightarrow> s \<noteq> [] \<and> slug_char (hd s) \<and> slug_char (last s) \<and> list_all (\<lambda>c. slug_char c \<or> c = CHR ''-'') s"

record CreateStatusPage =
  kp_slug :: string
  kp_title :: string
  kp_description :: "string option"
  kp_isPublic :: "bool option"

record UpdateStatusPage =
  up_title :: "string option option"
  up_description :: "string option option"
  up_isPublic :: "bool option option"

definition pages_list :: "uuid \<Rightarrow> ('s observability_scheme, status_page list) act" where
  "pages_list tenantId = withTenantContext tenantId (\<lambda>qr.
     tx_bind (sql_select status_pages qr (\<lambda>_. True)) (\<lambda>rows. tx_return (order_by (\<lambda>p. - sp_created_at p) rows)))"

text \<open>The links of a page, joined with their monitors.\<close>

definition page_links :: "query_runner \<Rightarrow> uuid \<Rightarrow> 's observability_scheme \<Rightarrow> (status_page_monitor \<times> monitor) list" where
  "page_links qr pageId s = sort_key (\<lambda>(l, _). (sm_sort_order l, row_id l))
     (concat (map (\<lambda>l. map (\<lambda>m. (l, m)) (filter (by_id (sm_monitor_id l)) (visible qr (monitors s))))
       (filter (\<lambda>l. sm_status_page_id l = pageId) (visible qr (status_page_monitors s)))))"

definition pages_get :: "uuid \<Rightarrow> uuid \<Rightarrow> ('s observability_scheme, status_page \<times> (status_page_monitor \<times> string) list) act" where
  "pages_get tenantId i = withTenantContext tenantId (\<lambda>qr.
     tx_bind (find_row ''Status page'' status_pages qr i) (\<lambda>page.
     tx_gets (\<lambda>s. (page, map (\<lambda>(l, m). (l, mo_name m)) (page_links qr i s)))))"

definition pages_create :: "uuid \<Rightarrow> CreateStatusPage \<Rightarrow> ('s observability_scheme, status_page) act" where
  "pages_create tenantId dto = withTenantContext tenantId (\<lambda>qr.
     tx_translate unique_violation (BadRequest (''slug \"'' @ kp_slug dto @ ''\" is already taken by another status page''))
       (tx_bind (tx_gets (\<lambda>s. \<exists>p \<in> set (status_pages s). sp_slug p = kp_slug dto)) (\<lambda>dup.
        if dup then tx_throw unique_violation
        else tx_bind gen_random_uuid (\<lambda>i. tx_bind sql_now (\<lambda>now.
          sql_insert status_pages_update qr \<lparr>row_id = i, tenant_id = tenantId, sp_slug = kp_slug dto, sp_title = kp_title dto,
            sp_description = kp_description dto, sp_is_public = or_default (kp_isPublic dto) True, sp_created_at = now\<rparr>)))))"

definition pages_update_row :: "uuid \<Rightarrow> uuid \<Rightarrow> UpdateStatusPage \<Rightarrow> ('s observability_scheme, status_page) act" where
  "pages_update_row tenantId i dto = withTenantContext tenantId (\<lambda>qr.
     patch_row ''Status page'' status_pages status_pages_update qr i
       (set_required (up_title dto) (\<lambda>v p. p\<lparr>sp_title := v\<rparr>) @ set_nullable (up_description dto) (\<lambda>v p. p\<lparr>sp_description := v\<rparr>) @
        set_required (up_isPublic dto) (\<lambda>v p. p\<lparr>sp_is_public := v\<rparr>)) [])"

definition pages_remove :: "uuid \<Rightarrow> uuid \<Rightarrow> ('s observability_scheme, unit) act" where
  "pages_remove tenantId i = withTenantContext tenantId (\<lambda>qr.
     remove_referenced ''Status page'' status_pages status_pages_update qr i
       (on_delete_cascade status_page_monitors_update (\<lambda>l. Some (sm_status_page_id l)) i))"

record AddStatusPageMonitor =
  aq_monitorId :: uuid
  aq_displayName :: "string option"
  aq_sortOrder :: "int option"

definition pages_addMonitor :: "js_format \<Rightarrow> uuid \<Rightarrow> uuid \<Rightarrow> AddStatusPageMonitor \<Rightarrow> ('s observability_scheme, status_page_monitor) act" where
  "pages_addMonitor F tenantId pageId dto = withTenantContext tenantId (\<lambda>qr.
     tx_bind (find_row ''Status page'' status_pages qr pageId) (\<lambda>_.
     tx_bind (sql_first monitors qr (by_id (aq_monitorId dto))) (\<lambda>monitor.
     if monitor = None then tx_throw (BadRequest (''Monitor '' @ fmt_uuid F (aq_monitorId dto) @ '' does not exist for this tenant''))
     else tx_translate unique_violation (BadRequest (''Monitor '' @ fmt_uuid F (aq_monitorId dto) @ '' is already on status page '' @ fmt_uuid F pageId))
       (tx_bind (int4 (or_default (aq_sortOrder dto) 0)) (\<lambda>sortOrder.
        tx_bind (tx_gets (\<lambda>s. \<exists>l \<in> set (status_page_monitors s). sm_status_page_id l = pageId \<and> sm_monitor_id l = aq_monitorId dto)) (\<lambda>dup.
        if dup then tx_throw unique_violation
        else tx_bind gen_random_uuid (\<lambda>i.
          sql_insert status_page_monitors_update qr \<lparr>row_id = i, tenant_id = tenantId, sm_status_page_id = pageId, sm_monitor_id = aq_monitorId dto,
            sm_display_name = aq_displayName dto, sm_sort_order = sortOrder\<rparr>)))))))"

definition pages_removeMonitor :: "uuid \<Rightarrow> uuid \<Rightarrow> uuid \<Rightarrow> ('s observability_scheme, unit) act" where
  "pages_removeMonitor tenantId pageId linkId = withTenantContext tenantId (\<lambda>qr.
     tx_bind (sql_delete status_page_monitors status_page_monitors_update qr (\<lambda>l. by_id linkId l \<and> sm_status_page_id l = pageId)) (\<lambda>rows.
     if rows = [] then tx_throw (NotFound ''Status page monitor link'' linkId) else tx_return ()))"

section \<open>The public page\<close>








section \<open>What the public page discloses\<close>








end
