(* ===== verification/Network_Devices.thy ===== *)
theory Network_Devices
  imports Logs
begin

text \<open>
  Network devices (\<open>monitoring/network\<close>): the service, the throughput of an interface, and the poller, which reads the
  interfaces of every device over SNMP and opens a ticket when one goes down. The SNMP client is a parameter. The
  community string is encrypted in the database and never selected; the rows the service returns do not have it.
\<close>

section \<open>Throughput\<close>

record ThroughputSample =
  th_ts :: msec
  th_inOctets :: int
  th_outOctets :: int

record Throughput =
  th_inBps :: rat
  th_outBps :: rat

definition computeThroughput :: "ThroughputSample \<Rightarrow> ThroughputSample \<Rightarrow> Throughput option" where
  "computeThroughput previous current =
     (let deltaSeconds = of_int (th_ts current - th_ts previous) / 1000 :: rat;
          inDelta = th_inOctets current - th_inOctets previous;
          outDelta = th_outOctets current - th_outOctets previous
      in if deltaSeconds \<le> 0 then None
         else if inDelta < 0 \<or> outDelta < 0 then None
         else Some \<lparr>th_inBps = of_int (inDelta * 8) / deltaSeconds, th_outBps = of_int (outDelta * 8) / deltaSeconds\<rparr>)"

section \<open>The service\<close>

record CreateNetworkDevice =
  kn_name :: string
  kn_host :: string
  kn_snmpVersion :: "string option"
  kn_community :: string
  kn_port :: "int option"

record UpdateNetworkDevice =
  vn_name :: "string option option"
  vn_host :: "string option option"
  vn_community :: "string option option"
  vn_port :: "int option option"
  vn_isActive :: "bool option option"

text \<open>\<open>SAFE_COLUMNS\<close>.\<close>

record device_view =
  dw_id :: uuid
  dw_name :: string
  dw_host :: string
  dw_snmp_version :: string
  dw_port :: int
  dw_is_active :: bool
  dw_last_polled_at :: "msec option"
  dw_created_at :: msec

definition view_device :: "network_device \<Rightarrow> device_view" where
  "view_device d = \<lparr>dw_id = row_id d, dw_name = nd_name d, dw_host = nd_host d, dw_snmp_version = nd_snmp_version d, dw_port = nd_port d,
     dw_is_active = nd_is_active d, dw_last_polled_at = nd_last_polled_at d, dw_created_at = nd_created_at d\<rparr>"

definition devices_list :: "uuid \<Rightarrow> ('s observability_scheme, device_view list) act" where
  "devices_list tenantId = withTenantContext tenantId (\<lambda>qr.
     tx_bind (sql_select network_devices qr (\<lambda>_. True)) (\<lambda>rows. tx_return (map view_device (order_by nd_created_at rows))))"

definition SNMP_VERSIONS :: "string list" where
  "SNMP_VERSIONS = [''1'', ''2c'', ''3'']"

definition devices_create :: "uuid \<Rightarrow> CreateNetworkDevice \<Rightarrow> ('s observability_scheme, device_view) act" where
  "devices_create tenantId dto = withTenantContext tenantId (\<lambda>qr.
     tx_bind (int4 (or_default (kn_port dto) 161)) (\<lambda>port.
     if or_default (kn_snmpVersion dto) ''2c'' \<notin> set SNMP_VERSIONS then tx_throw check_violation
     else tx_bind gen_random_uuid (\<lambda>i. tx_bind sql_now (\<lambda>now.
       tx_bind (sql_insert network_devices_update qr \<lparr>row_id = i, tenant_id = tenantId, nd_name = kn_name dto, nd_host = kn_host dto,
         nd_snmp_version = or_default (kn_snmpVersion dto) ''2c'', nd_community = kn_community dto, nd_port = port, nd_is_active = True,
         nd_last_polled_at = None, nd_created_at = now, nd_updated_at = now\<rparr>) (\<lambda>row. tx_return (view_device row))))))"

definition devices_update_row :: "uuid \<Rightarrow> uuid \<Rightarrow> UpdateNetworkDevice \<Rightarrow> ('s observability_scheme, device_view) act" where
  "devices_update_row tenantId i dto = withTenantContext tenantId (\<lambda>qr.
     tx_bind (find_row ''Network device'' network_devices qr i) (\<lambda>_.
     tx_bind (update_fits (vn_port dto)) (\<lambda>_. tx_bind sql_now (\<lambda>now.
     tx_bind (patch_row ''Network device'' network_devices network_devices_update qr i
       (set_required (vn_name dto) (\<lambda>v d. d\<lparr>nd_name := v\<rparr>) @ set_required (vn_host dto) (\<lambda>v d. d\<lparr>nd_host := v\<rparr>) @
        set_required (vn_port dto) (\<lambda>v d. d\<lparr>nd_port := v\<rparr>) @ set_required (vn_isActive dto) (\<lambda>v d. d\<lparr>nd_is_active := v\<rparr>) @
        set_required (vn_community dto) (\<lambda>v d. d\<lparr>nd_community := v\<rparr>))
       [Some (\<lambda>d. d\<lparr>nd_updated_at := now\<rparr>)]) (\<lambda>row. tx_return (view_device row))))))"

definition devices_remove :: "uuid \<Rightarrow> uuid \<Rightarrow> ('s observability_scheme, unit) act" where
  "devices_remove tenantId i = withTenantContext tenantId (\<lambda>qr.
     remove_referenced ''Network device'' network_devices network_devices_update qr i
       (on_delete_cascade network_interface_samples_update (\<lambda>x. Some (ns_network_device_id x)) i))"

text \<open>\<open>SELECT DISTINCT ON (if_index) \<dots> ORDER BY if_index, ts DESC\<close>.\<close>

definition device_samples :: "query_runner \<Rightarrow> uuid \<Rightarrow> 's observability_scheme \<Rightarrow> network_interface_sample list" where
  "device_samples qr deviceId s = filter (\<lambda>x. ns_network_device_id x = deviceId) (visible qr (network_interface_samples s))"

definition latest_sample :: "query_runner \<Rightarrow> uuid \<Rightarrow> int \<Rightarrow> 's observability_scheme \<Rightarrow> network_interface_sample option" where
  "latest_sample qr deviceId ifIndex s =
     first_of (order_by (\<lambda>x. - ns_ts x) (filter (\<lambda>x. ns_if_index x = ifIndex) (device_samples qr deviceId s)))"

definition latestSamples :: "uuid \<Rightarrow> uuid \<Rightarrow> ('s observability_scheme, network_interface_sample list) act" where
  "latestSamples tenantId deviceId = withTenantContext tenantId (\<lambda>qr. tx_gets (\<lambda>s.
     List.map_filter (\<lambda>i. latest_sample qr deviceId i s) (sort (js_unique (map ns_if_index (device_samples qr deviceId s))))))"

definition interfaceHistory :: "uuid \<Rightarrow> uuid \<Rightarrow> int \<Rightarrow> nat option \<Rightarrow> ('s observability_scheme, network_interface_sample list) act" where
  "interfaceHistory tenantId deviceId ifIndex limit = withTenantContext tenantId (\<lambda>qr. tx_gets (\<lambda>s.
     rev (take (or_default limit 30) (order_by (\<lambda>x. - ns_ts x) (filter (\<lambda>x. ns_if_index x = ifIndex) (device_samples qr deviceId s))))))"

section \<open>The poller\<close>

record SnmpInterfaceReading =
  si_ifIndex :: int
  si_ifName :: string
  si_operStatus :: string
  si_inOctets :: int
  si_outOctets :: int

record SnmpTarget =
  sg_host :: string
  sg_port :: int
  sg_community :: string
  sg_version :: string

type_synonym snmp_client = "SnmpTarget \<Rightarrow> error + SnmpInterfaceReading list"

definition int8 :: "int \<Rightarrow> ('s, int) tx" where
  "int8 n = (if - 9223372036854775808 \<le> n \<and> n \<le> 9223372036854775807 then tx_return n else tx_throw numeric_value_out_of_range)"

definition insert_sample :: "uuid \<Rightarrow> network_device \<Rightarrow> SnmpInterfaceReading \<Rightarrow> query_runner \<Rightarrow> ('s observability_scheme, unit) tx" where
  "insert_sample tenantId device reading qr =
     tx_bind (int4 (si_ifIndex reading)) (\<lambda>ifIndex. tx_bind (int8 (si_inOctets reading)) (\<lambda>inOctets. tx_bind (int8 (si_outOctets reading)) (\<lambda>outOctets.
     if si_operStatus reading \<notin> {''up'', ''down'', ''unknown''} then tx_throw check_violation
     else tx_bind (tx_gets (\<lambda>s. row_id device \<in> row_id ` set (network_devices s))) (\<lambda>present.
     if \<not> present then tx_throw foreign_key_violation
     else tx_bind gen_random_uuid (\<lambda>i. tx_bind sql_now (\<lambda>now.
       tx_bind (sql_insert network_interface_samples_update qr \<lparr>row_id = i, tenant_id = tenantId, ns_network_device_id = row_id device, ns_if_index = ifIndex,
         ns_if_name = Some (si_ifName reading), ns_oper_status = si_operStatus reading, ns_in_octets = inOctets, ns_out_octets = outOctets,
         ns_ts = now\<rparr>) (\<lambda>_. tx_return ())))))))"

definition interface_down_ticket :: "network_device \<Rightarrow> SnmpInterfaceReading \<Rightarrow> CreateTicketFromAlert" where
  "interface_down_ticket device reading =
     \<lparr>fa_subject = ''[Network] '' @ nd_name device @ '': interface '' @ si_ifName reading @ '' is down'',
      fa_description = ''Interface '' @ si_ifName reading @ '' (ifIndex '' @ int_text (si_ifIndex reading) @ '') on '' @ nd_name device @ '' ('' @ nd_host device @
        '') transitioned from up to down.'',
      fa_resourceId = None, fa_priority = Some High\<rparr>"

definition openInterfaceDownTicket :: "engine \<Rightarrow> uuid \<Rightarrow> network_device \<Rightarrow> SnmpInterfaceReading \<Rightarrow> ('s ticketing_scheme, unit) act" where
  "openInterfaceDownTicket E tenantId device reading =
     act_bind (callInternalApi (en_reachable E) (fromAlert (en_format E) (en_intl E) (en_html E) tenantId (interface_down_ticket device reading))) (\<lambda>_. act_return ())"

definition recordReading :: "engine \<Rightarrow> uuid \<Rightarrow> network_device \<Rightarrow> SnmpInterfaceReading \<Rightarrow> ('s observability_scheme, unit) act" where
  "recordReading E tenantId device reading =
     act_bind (withTenantContext tenantId (\<lambda>qr. tx_gets (\<lambda>s. map_option ns_oper_status (latest_sample qr (row_id device) (si_ifIndex reading) s)))) (\<lambda>previousStatus.
     act_bind (withTenantContext tenantId (insert_sample tenantId device reading)) (\<lambda>_.
     act_when (previousStatus = Some ''up'' \<and> si_operStatus reading = ''down'') (openInterfaceDownTicket E tenantId device reading)))"

definition pollDevice :: "engine \<Rightarrow> snmp_client \<Rightarrow> uuid \<Rightarrow> network_device \<Rightarrow> ('s observability_scheme, nat) act" where
  "pollDevice E snmp tenantId device =
     (case snmp \<lparr>sg_host = nd_host device, sg_port = nd_port device, sg_community = nd_community device, sg_version = nd_snmp_version device\<rparr> of
        Inl e \<Rightarrow> act_throw e
      | Inr readings \<Rightarrow>
          act_bind (act_fold (\<lambda>reading _. recordReading E tenantId device reading) readings ()) (\<lambda>_.
          act_bind (withTenantContext tenantId (\<lambda>qr. tx_bind sql_now (\<lambda>now.
            sql_update network_devices network_devices_update qr (by_id (row_id device)) (\<lambda>d. d\<lparr>nd_last_polled_at := Some now\<rparr>)))) (\<lambda>_.
          act_return (length readings))))"

definition network_pollTenant :: "engine \<Rightarrow> snmp_client \<Rightarrow> uuid \<Rightarrow> ('s observability_scheme, nat) act" where
  "network_pollTenant E snmp tenantId =
     act_bind (withTenantContext tenantId (\<lambda>qr. sql_select network_devices qr nd_is_active)) (\<lambda>devices.
     act_fold (\<lambda>device n. act_catch (act_bind (pollDevice E snmp tenantId device) (\<lambda>k. act_return (n + k))) (\<lambda>_. act_return n)) devices 0)"

definition network_pollOnce :: "engine \<Rightarrow> snmp_client \<Rightarrow> bool \<Rightarrow> ('s observability_scheme, nat) act" where
  "network_pollOnce E snmp running =
     (if running then act_return 0 else act_bind (act_gets tenants) (\<lambda>ts.
       act_fold (\<lambda>t n. act_catch (act_bind (network_pollTenant E snmp (tn_id t)) (\<lambda>k. act_return (n + k))) (\<lambda>_. act_return n)) ts 0))"

section \<open>Tickets on transitions\<close>

lemma hd_sort_key_unique:
  fixes k :: "'a \<Rightarrow> 'b :: linorder"
  assumes "x \<in> set xs" and "\<And>y. y \<in> set xs \<Longrightarrow> y \<noteq> x \<Longrightarrow> k x < k y"
  shows "first_of (order_by k xs) = Some x"
proof -
  have ne: "xs \<noteq> []" using assms(1) by auto
  then obtain y ys where y: "sort_key k xs = y # ys" by (metis list.exhaust sort_key_const length_0_conv length_sort)
  have "y \<in> set xs" "k y \<le> k x" using hd_sort_key_min [OF ne, of k] assms(1) by (simp_all add: y)
  then have "y = x" using assms(2) [of y] by fastforce
  then show ?thesis by (simp add: order_by_def y)
qed

definition sample_row :: "uuid \<Rightarrow> network_device \<Rightarrow> SnmpInterfaceReading \<Rightarrow> 's observability_scheme \<Rightarrow> network_interface_sample" where
  "sample_row T d r s = \<lparr>row_id = next_uuid s, tenant_id = T, ns_network_device_id = row_id d, ns_if_index = si_ifIndex r, ns_if_name = Some (si_ifName r),
     ns_oper_status = si_operStatus r, ns_in_octets = si_inOctets r, ns_out_octets = si_outOctets r, ns_ts = clock s\<rparr>"

definition with_sample :: "uuid \<Rightarrow> network_device \<Rightarrow> SnmpInterfaceReading \<Rightarrow> 's observability_scheme \<Rightarrow> 's observability_scheme" where
  "with_sample T d r s = s\<lparr>next_uuid := Suc (next_uuid s), network_interface_samples := network_interface_samples s @ [sample_row T d r s]\<rparr>"

lemma insert_sample_run:
  assumes "withTenantContext T (insert_sample T d r) s = (Inr u, t)"
  shows "t = with_sample T d r s"
  using assms
  by (auto simp: withTenantContext_def insert_sample_def tx_bind_def int4_def int8_def gen_random_uuid_def sql_now_def sql_insert_def
      with_sample_def sample_row_def split: if_splits sum.splits)

lemma latest_sample_new:
  assumes "\<forall>x \<in> set (network_interface_samples s). ns_ts x < clock s"
  shows "latest_sample T (row_id d) (si_ifIndex r) (with_sample T d r s) = Some (sample_row T d r s)"
  unfolding latest_sample_def
  by (rule hd_sort_key_unique) (use assms in \<open>auto simp: device_samples_def with_sample_def sample_row_def tenant_isolation_def\<close>)

lemma ticketing_network_frame:
  fixes s t :: "'s observability_scheme"
  assumes "ticketing_frame qr s t"
  shows "network_interface_samples t = network_interface_samples s \<and> network_devices t = network_devices s \<and> clock t = clock s"
proof -
  from assms have "ticketing.more t = ticketing.more s" "clock t = clock s" by (simp_all add: ticketing_frame_def)
  then show ?thesis by (cases s; cases t) simp
qed

lemma openInterfaceDownTicket_run:
  obtains t where "openInterfaceDownTicket E T d r s = (Inr (), t)" and "network_interface_samples t = network_interface_samples s"
    and "network_devices t = network_devices s" and "clock t = clock s" and "\<not> en_reachable E \<Longrightarrow> t = s"
proof -
  let ?api = "callInternalApi (en_reachable E) (fromAlert (en_format E) (en_intl E) (en_html E) T (interface_down_ticket d r))"
  obtain v t where api: "?api s = (Inr v, t)" using callInternalApi_returns [of "en_reachable E" _ s] by metis
  have "act_rel (ticketing_frame T) ?api" by (intro frame_intros endpoint_frames)
  from ticketing_network_frame [OF act_relD [OF this api]] have "network_interface_samples t = network_interface_samples s"
    "network_devices t = network_devices s" "clock t = clock s" by simp_all
  moreover have "\<not> en_reachable E \<Longrightarrow> t = s" using api by (simp add: callInternalApi_def)
  moreover have "openInterfaceDownTicket E T d r s = (Inr (), t)" using api by (simp add: openInterfaceDownTicket_def act_bind_def)
  ultimately show ?thesis using that by blast
qed

text \<open>
  Recording a reading of an interface, when it succeeds, appends exactly one sample. A ticket is requested
  exactly if the latest sample before said that the interface was up and the reading says that it is down; in
  every other case the sample is the only change. If the earlier samples are older, the new sample is the latest one
  afterwards, so that an interface that stays down gets no second ticket at any later time.
\<close>

theorem interface_down_ticket_once:
  assumes "recordReading E T d r s = (Inr (), t)"
  shows "network_interface_samples t = network_interface_samples s @ [sample_row T d r s] \<and>
    (if map_option ns_oper_status (latest_sample T (row_id d) (si_ifIndex r) s) = Some ''up'' \<and> si_operStatus r = ''down''
     then openInterfaceDownTicket E T d r (with_sample T d r s) = (Inr (), t) else t = with_sample T d r s) \<and>
    ((\<forall>x \<in> set (network_interface_samples s). ns_ts x < clock s) \<longrightarrow>
      (\<forall>now r' t'. si_ifIndex r' = si_ifIndex r \<and> si_operStatus r = ''down'' \<and> recordReading E T d r' (t\<lparr>clock := now\<rparr>) = (Inr (), t') \<longrightarrow>
         tickets t' = tickets t))"
proof -
  let ?u = "with_sample T d r s" and ?down = "\<lambda>r s. map_option ns_oper_status (latest_sample T (row_id d) (si_ifIndex r) s) = Some ''up'' \<and> si_operStatus r = ''down''"
  have step: "if ?down r s then openInterfaceDownTicket E T d r (with_sample T d r s) = (Inr (), t) else t = with_sample T d r s"
    if "recordReading E T d r s = (Inr (), t)" for r and s t :: "'a observability_scheme"
    using that insert_sample_run [of T d r s]
    by (auto simp: recordReading_def act_bind_Inr [OF withTenantContext_gets] act_bind_eq_Inr act_when_def split: if_splits)
  have samples: "network_interface_samples t = network_interface_samples ?u \<and> clock t = clock ?u"
  proof (cases "?down r s")
    case True
    obtain t' where "openInterfaceDownTicket E T d r ?u = (Inr (), t')" "network_interface_samples t' = network_interface_samples ?u" "clock t' = clock ?u"
      by (rule openInterfaceDownTicket_run)
    with step [OF assms] True show ?thesis by simp
  next
    case False
    with step [OF assms] show ?thesis by simp
  qed
  have "tickets t' = tickets t"
    if "\<forall>x \<in> set (network_interface_samples s). ns_ts x < clock s" and "si_ifIndex r' = si_ifIndex r" and "si_operStatus r = ''down''"
      and run: "recordReading E T d r' (t\<lparr>clock := now\<rparr>) = (Inr (), t')" for now r' t'
  proof -
    have "latest_sample T (row_id d) (si_ifIndex r) (t\<lparr>clock := now\<rparr>) = latest_sample T (row_id d) (si_ifIndex r) ?u"
      using samples by (simp add: latest_sample_def device_samples_def)
    then have "latest_sample T (row_id d) (si_ifIndex r') (t\<lparr>clock := now\<rparr>) = Some (sample_row T d r s)"
      using latest_sample_new [OF that(1), of T d r] that(2) by simp
    then have "\<not> ?down r' (t\<lparr>clock := now\<rparr>)" using that(3) by (simp add: sample_row_def)
    with step [OF run] show ?thesis by (auto simp: with_sample_def)
  qed
  with step [OF assms] samples show ?thesis by (auto simp: with_sample_def)
qed

definition office_switch :: network_device where
  "office_switch = \<lparr>row_id = 80, tenant_id = 1, nd_name = ''switch'', nd_host = ''10.0.0.1'', nd_snmp_version = ''2c'', nd_community = ''public'', nd_port = 161,
     nd_is_active = True, nd_last_polled_at = None, nd_created_at = 0, nd_updated_at = 0\<rparr>"

definition port_reading :: "string \<Rightarrow> SnmpInterfaceReading" where
  "port_reading status = \<lparr>si_ifIndex = 3, si_ifName = ''ge-0'', si_operStatus = status, si_inOctets = 10, si_outOctets = 20\<rparr>"

definition switched :: observability where
  "switched = observed\<lparr>network_devices := [office_switch], network_interface_samples := []\<rparr>"

lemma record_down_run:
  "recordReading (toy_engine\<lparr>en_reachable := False\<rparr>) 1 office_switch (port_reading ''down'') switched =
     (Inr (), with_sample 1 office_switch (port_reading ''down'') switched)"
  by (simp add: recordReading_def act_bind_Inr [OF withTenantContext_gets] latest_sample_def device_samples_def switched_def order_by_def
      withTenantContext_def insert_sample_def tx_bind_def int4_def int8_def max_int_def gen_random_uuid_def sql_now_def sql_insert_def act_bind_def
      with_sample_def sample_row_def port_reading_def office_switch_def tenant_isolation_def act_when_def del: One_nat_def)

theorem interface_down_ticket_once_witness:
  "network_interface_samples (with_sample 1 office_switch (port_reading ''down'') switched) = [sample_row 1 office_switch (port_reading ''down'') switched]"
proof -
  have "network_interface_samples switched = []" by (simp add: switched_def)
  with interface_down_ticket_once [OF record_down_run] show ?thesis by simp
qed

text \<open>A device that does not answer is only logged: nothing changes and no ticket is opened.\<close>

lemma silent_device_unnoticed:
  assumes "\<And>target. sg_host target = nd_host d \<Longrightarrow> isl (snmp target)"
  shows "\<exists>e. pollDevice E snmp T d s = (Inl e, s)"
  using assms [of "\<lparr>sg_host = nd_host d, sg_port = nd_port d, sg_community = nd_community d, sg_version = nd_snmp_version d\<rparr>"]
  by (auto simp: pollDevice_def isl_def)

lemma throughput_of_octets:
  assumes "computeThroughput p c = Some r"
  shows "0 \<le> th_inBps r \<and> 0 \<le> th_outBps r \<and>
    th_inBps r * (of_int (th_ts c - th_ts p) / 1000) = of_int (8 * (th_inOctets c - th_inOctets p)) \<and>
    th_outBps r * (of_int (th_ts c - th_ts p) / 1000) = of_int (8 * (th_outOctets c - th_outOctets p))"
  using assms by (auto simp: computeThroughput_def Let_def field_simps split: if_splits)

end
