(* ===== verification/Portal.thy ===== *)
theory Portal
  imports Catalogue Ticket_Properties Auth
begin

text \<open>
  The customer side of the help desk: accounts of contacts and their tickets (\<open>ticketing/portal\<close>), the live chat
  (\<open>chat/chat.service.ts\<close>), attachments on local disk (\<open>attachments/\<close>) and the search (\<open>search/search.service.ts\<close>). The
  answer of the language model in a chat is not awaited and not part of the model. The lemmas: a contact reads
  its own tickets and no note; an address without a password can be claimed by anyone; an uploaded file reads back under
  a key inside the store; what a message does to a chat; isolation of tenants.
\<close>

section \<open>The state\<close>

datatype chat_status = Chat_Open | Chat_Closed
datatype chat_author = Chat_Visitor | Chat_Agent | Chat_System

record chat_session = row +
  ch_contact_id :: "uuid option"
  ch_visitor_name :: string
  ch_status :: chat_status
  ch_assigned_agent_id :: "uuid option"
  ch_created_at :: msec
  ch_last_message_at :: msec

record chat_message = row +
  cg_chat_session_id :: uuid
  cg_author_type :: chat_author
  cg_author_id :: "uuid option"
  cg_body :: string
  cg_created_at :: msec

text \<open>The files under the root of the store, by their path.\<close>

record portal = helpdesk +
  chat_sessions :: "chat_session list"
  chat_messages :: "chat_message list"
  files :: "string \<rightharpoonup> string"

definition portal_frame :: "query_runner \<Rightarrow> 's portal_scheme \<Rightarrow> 's portal_scheme \<Rightarrow> bool" where
  "portal_frame qr s t \<longleftrightarrow>
     helpdesk_frame qr (helpdesk.truncate s) (helpdesk.truncate t) \<and>
     others qr (chat_sessions t) = others qr (chat_sessions s) \<and>
     others qr (chat_messages t) = others qr (chat_messages s) \<and>
     portal.more t = portal.more s"

interpretation portal_frame: frame "portal_frame qr" for qr
  by unfold_locales (auto simp: portal_frame_def intro: helpdesk_frame.frame_refl helpdesk_frame.frame_trans)

lemma helpdesk_portal_frame:
  fixes s t :: "'s portal_scheme"
  assumes "helpdesk_frame qr s t"
  shows "portal_frame qr s t"
proof -
  have m: "helpdesk.more t = helpdesk.more s" using assms by (simp add: helpdesk_frame_def)
  have "chat_sessions t = chat_sessions s" "chat_messages t = chat_messages s" "portal.more t = portal.more s"
    using m by (cases s; cases t; simp)+
  moreover have "helpdesk_frame qr (helpdesk.truncate s) (helpdesk.truncate t)"
    using assms by (simp add: helpdesk_frame_defs helpdesk.truncate_def helpdesk.make_def)
  ultimately show ?thesis by (simp add: portal_frame_def)
qed

lemmas ticketing_portal_frame = helpdesk_portal_frame [OF ticketing_helpdesk_frame]

lemmas portal_frame_defs = portal_frame_def helpdesk_frame_defs helpdesk.truncate_def helpdesk.make_def

interpretation chat_sessions_tbl: tenant_table chat_sessions chat_sessions_update portal_frame
  by unfold_locales (simp_all add: portal_frame_defs)
interpretation chat_messages_tbl: tenant_table chat_messages chat_messages_update portal_frame
  by unfold_locales (simp_all add: portal_frame_defs)
interpretation portal_contacts_tbl: tenant_table contacts contacts_update portal_frame
  by unfold_locales (simp_all add: portal_frame_defs)
interpretation portal_attachments_tbl: tenant_table ticket_attachments ticket_attachments_update portal_frame
  by unfold_locales (simp_all add: portal_frame_defs)

lemma gen_random_uuid_portal_frame [frame_intros]: "tx_rel (portal_frame qr) gen_random_uuid"
  by (rule tx_rel_mono [OF gen_random_uuid_helpdesk_frame helpdesk_portal_frame])

lemma sql_now_portal_frame [frame_intros]: "tx_rel (portal_frame qr) sql_now"
  unfolding sql_now_def by (rule frame_intros)

lemma fk_check_portal_frame [frame_intros]: "tx_rel (portal_frame qr) (fk_check tbl i)"
  unfolding fk_check_def by (intro frame_intros)

section \<open>Accounts of contacts\<close>

record PortalRegister =
  pg_name :: string
  pg_email :: string
  pg_password :: string

record PortalAuthResult =
  pa_token :: string
  pa_id :: uuid
  pa_name :: string
  pa_email :: "string option"

definition contact_claims :: "uuid \<Rightarrow> contact \<Rightarrow> AppJwtClaims" where
  "contact_claims tenantId c = no_claims\<lparr>cl_sub := Some (row_id c), cl_tenantId := Some tenantId, cl_email := ct_email c, cl_kind := Some ''contact''\<rparr>"

definition toAuthResult :: "jwt_lib \<Rightarrow> auth_env \<Rightarrow> contact \<Rightarrow> uuid \<Rightarrow> msec \<Rightarrow> PortalAuthResult" where
  "toAuthResult J E c tenantId now =
     \<lparr>pa_token = signJwt J E (contact_claims tenantId c) now, pa_id = row_id c, pa_name = ct_name c, pa_email = ct_email c\<rparr>"

definition has_password :: "contact \<Rightarrow> bool" where
  "has_password c \<longleftrightarrow> ct_password_hash c \<notin> {None, Some []}"

definition portal_register :: "jwt_lib \<Rightarrow> auth_env \<Rightarrow> crypto_lib \<Rightarrow> uuid \<Rightarrow> PortalRegister \<Rightarrow> ('s portal_scheme, PortalAuthResult) act" where
  "portal_register J E C tenantId dto = withTenantContext tenantId (\<lambda>qr.
     tx_bind (sql_first contacts qr (\<lambda>c. ct_email c = Some (pg_email dto))) (\<lambda>existing.
     let passwordHash = bcrypt_hash C (pg_password dto) in
     tx_bind sql_now (\<lambda>now. case existing of
       Some c \<Rightarrow>
         if has_password c then tx_throw (Conflict ''An account with this email already exists. Log in instead.'')
         else tx_bind (sql_update contacts contacts_update qr (by_id (row_id c)) (\<lambda>c. c\<lparr>ct_password_hash := Some passwordHash, ct_name := pg_name dto\<rparr>)) (\<lambda>rows.
           case rows of [] \<Rightarrow> tx_throw (Failure ''undefined'') | r # _ \<Rightarrow> tx_return (toAuthResult J E r tenantId now))
     | None \<Rightarrow>
         tx_bind gen_random_uuid (\<lambda>i.
         tx_bind (sql_insert contacts_update qr \<lparr>row_id = i, tenant_id = tenantId, ct_company_id = None, ct_name = pg_name dto, ct_email = Some (pg_email dto),
           ct_phone = None, ct_social_handles = JObj [], ct_password_hash = Some passwordHash, ct_oauth_provider = None,
           ct_email_valid = isEmailValid (Some (pg_email dto))\<rparr>) (\<lambda>created. tx_return (toAuthResult J E created tenantId now))))))"

definition portal_login :: "jwt_lib \<Rightarrow> auth_env \<Rightarrow> crypto_lib \<Rightarrow> uuid \<Rightarrow> string \<Rightarrow> string \<Rightarrow> ('s portal_scheme, PortalAuthResult) act" where
  "portal_login J E C tenantId email password = withTenantContext tenantId (\<lambda>qr.
     tx_bind (sql_first contacts qr (\<lambda>c. ct_email c = Some email)) (\<lambda>found. tx_bind sql_now (\<lambda>now. case found of
       None \<Rightarrow> tx_throw (Unauthorized ''Invalid email or password'')
     | Some c \<Rightarrow> if has_password c \<and> bcrypt_compare C password (the (ct_password_hash c)) then tx_return (toAuthResult J E c tenantId now)
         else tx_throw (Unauthorized ''Invalid email or password''))))"

record contact_view =
  cw_id :: uuid
  cw_name :: string
  cw_email :: "string option"

definition portal_me :: "uuid \<Rightarrow> uuid \<Rightarrow> ('s portal_scheme, contact_view) act" where
  "portal_me tenantId contactId = withTenantContext tenantId (\<lambda>qr.
     tx_bind (sql_first contacts qr (by_id contactId)) (\<lambda>found. case found of
       None \<Rightarrow> tx_throw (Unauthorized ''Contact not found'')
     | Some c \<Rightarrow> tx_return \<lparr>cw_id = row_id c, cw_name = ct_name c, cw_email = ct_email c\<rparr>))"

text \<open>The guard gives the tenant and the contact of the token.\<close>

definition portalAuthGuard :: "jwt_lib \<Rightarrow> http_request \<Rightarrow> msec \<Rightarrow> error + uuid option \<times> uuid option" where
  "portalAuthGuard J request now = (case bearer_token request of
      None \<Rightarrow> Inl (Unauthorized ''A Bearer token is required'')
    | Some token \<Rightarrow> (case verifyJwt J token now of
        None \<Rightarrow> Inl (Unauthorized ''Invalid or expired token'')
      | Some claims \<Rightarrow> if cl_kind claims \<noteq> Some ''contact'' then Inl (Unauthorized ''Invalid or expired token'')
          else Inr (cl_tenantId claims, cl_sub claims)))"

section \<open>Tickets of contacts\<close>

record PortalSubmitTicket =
  ps_name :: string
  ps_email :: string
  ps_subject :: string
  ps_description :: string
  ps_priority :: "ticket_priority option"

definition portal_ticket :: "PortalSubmitTicket \<Rightarrow> CreateTicket" where
  "portal_ticket dto = \<lparr>nt_subject = ps_subject dto, nt_contactId = None, nt_contact = Some \<lparr>ic_name = ps_name dto, ic_email = ps_email dto\<rparr>,
     nt_source = Web_Portal, nt_sourceDetail = None, nt_ticketTypeId = None, nt_groupId = None, nt_agentId = None, nt_requiredSkill = None,
     nt_resourceId = None, nt_priority = ps_priority dto, nt_platform = None, nt_tags = None, nt_customFields = None\<rparr>"

definition portal_submit :: "js_format \<Rightarrow> intl \<Rightarrow> html_lib \<Rightarrow> uuid \<Rightarrow> PortalSubmitTicket \<Rightarrow> ('s portal_scheme, ticket) act" where
  "portal_submit F I H tenantId dto =
     act_bind (tickets_create F I tenantId (portal_ticket dto)) (\<lambda>k.
     act_bind (tickets_addMessage F H tenantId (row_id k)
       \<lparr>am_type = Reply, am_authorType = By_Contact, am_authorId = Some (tk_contact_id k), am_body = ps_description dto, am_cc = None\<rparr>) (\<lambda>_.
     tickets_get tenantId (row_id k)))"

definition listForContact :: "uuid \<Rightarrow> uuid \<Rightarrow> ('s portal_scheme, ticket list) act" where
  "listForContact tenantId contactId = withTenantContext tenantId (\<lambda>qr.
     tx_bind (sql_select tickets qr (\<lambda>k. tk_contact_id k = contactId)) (\<lambda>rows.
     tx_return (take 100 (order_by (\<lambda>k. - int (tk_ticket_number k)) rows))))"

definition getForContact :: "uuid \<Rightarrow> uuid \<Rightarrow> uuid \<Rightarrow> ('s portal_scheme, ticket \<times> ticket_message list) act" where
  "getForContact tenantId contactId ticketId = withTenantContext tenantId (\<lambda>qr.
     tx_bind (sql_first tickets qr (\<lambda>k. by_id ticketId k \<and> tk_contact_id k = contactId)) (\<lambda>found. case found of
       None \<Rightarrow> tx_throw (NotFound ''Ticket'' ticketId)
     | Some k \<Rightarrow> tx_bind (sql_select ticket_messages qr (\<lambda>m. ms_ticket_id m = ticketId \<and> ms_type m \<noteq> Note)) (\<lambda>messages.
         tx_return (k, order_by ms_created_at messages))))"

section \<open>Live chat\<close>

record AddChatMessage =
  ad_authorType :: chat_author
  ad_authorId :: "uuid option"
  ad_body :: string

definition chat_createSession :: "uuid \<Rightarrow> string \<Rightarrow> uuid option \<Rightarrow> ('s portal_scheme, chat_session) act" where
  "chat_createSession tenantId visitorName contactId = withTenantContext tenantId (\<lambda>qr.
     tx_bind (case contactId of None \<Rightarrow> tx_return () | Some c \<Rightarrow> fk_check contacts c) (\<lambda>_.
     tx_bind gen_random_uuid (\<lambda>i. tx_bind sql_now (\<lambda>now.
     sql_insert chat_sessions_update qr \<lparr>row_id = i, tenant_id = tenantId, ch_contact_id = contactId, ch_visitor_name = visitorName, ch_status = Chat_Open,
       ch_assigned_agent_id = None, ch_created_at = now, ch_last_message_at = now\<rparr>))))"

definition chat_listSessions :: "uuid \<Rightarrow> chat_status option \<Rightarrow> ('s portal_scheme, chat_session list) act" where
  "chat_listSessions tenantId status = withTenantContext tenantId (\<lambda>qr.
     tx_bind (sql_select chat_sessions qr (\<lambda>c. case status of None \<Rightarrow> True | Some st \<Rightarrow> ch_status c = st)) (\<lambda>rows.
     tx_return (order_by (\<lambda>c. - ch_last_message_at c) rows)))"

definition chat_getSession :: "uuid \<Rightarrow> uuid \<Rightarrow> ('s portal_scheme, chat_session) act" where
  "chat_getSession tenantId i = withTenantContext tenantId (\<lambda>qr. find_row ''Chat session'' chat_sessions qr i)"

text \<open>The \<open>UPDATE\<close> of a session by a message; a new agent is checked against the table of agents.\<close>

definition claimed_by :: "AddChatMessage \<Rightarrow> chat_session \<Rightarrow> uuid option" where
  "claimed_by dto c = (if ad_authorType dto = Chat_Agent \<and> ch_assigned_agent_id c = None then ad_authorId dto else ch_assigned_agent_id c)"

definition touch_session :: "AddChatMessage \<Rightarrow> msec \<Rightarrow> chat_session \<Rightarrow> chat_session" where
  "touch_session dto now c = c\<lparr>ch_last_message_at := now, ch_assigned_agent_id := claimed_by dto c,
     ch_status := (if ad_authorType dto = Chat_Visitor then Chat_Open else ch_status c)\<rparr>"

definition chat_addMessage :: "uuid \<Rightarrow> uuid \<Rightarrow> AddChatMessage \<Rightarrow> ('s portal_scheme, chat_message) act" where
  "chat_addMessage tenantId sessionId dto = withTenantContext tenantId (\<lambda>qr.
     tx_bind (find_row ''Chat session'' chat_sessions qr sessionId) (\<lambda>session.
     tx_bind gen_random_uuid (\<lambda>i. tx_bind sql_now (\<lambda>now.
     tx_bind (sql_insert chat_messages_update qr \<lparr>row_id = i, tenant_id = tenantId, cg_chat_session_id = sessionId, cg_author_type = ad_authorType dto,
       cg_author_id = ad_authorId dto, cg_body = ad_body dto, cg_created_at = now\<rparr>) (\<lambda>message.
     tx_bind (if claimed_by dto session = ch_assigned_agent_id session then tx_return () else fk_check agents (the (claimed_by dto session))) (\<lambda>_.
     tx_bind (sql_update chat_sessions chat_sessions_update qr (by_id sessionId) (touch_session dto now)) (\<lambda>_.
     tx_return message)))))))"

definition chat_listMessages :: "uuid \<Rightarrow> uuid \<Rightarrow> msec option \<Rightarrow> ('s portal_scheme, chat_message list) act" where
  "chat_listMessages tenantId sessionId since = withTenantContext tenantId (\<lambda>qr.
     tx_bind (sql_select chat_messages qr (\<lambda>m. cg_chat_session_id m = sessionId \<and> (case since of None \<Rightarrow> True | Some t \<Rightarrow> t < cg_created_at m))) (\<lambda>rows.
     tx_return (order_by cg_created_at rows)))"

definition chat_closeSession :: "uuid \<Rightarrow> uuid \<Rightarrow> ('s portal_scheme, chat_session) act" where
  "chat_closeSession tenantId i = withTenantContext tenantId (\<lambda>qr.
     tx_bind (sql_update chat_sessions chat_sessions_update qr (by_id i) (\<lambda>c. c\<lparr>ch_status := Chat_Closed\<rparr>)) (first_row ''Chat session'' i))"

section \<open>Attachments on disk\<close>

text \<open>\<open>path.extname\<close>: from the last dot of the last segment, unless that starts it; \<open>..\<close> has none.\<close>

definition SLASH :: char where
  "SLASH = CHR ''/''"

definition path_base :: "string \<Rightarrow> string" where
  "path_base p = rev (takeWhile (\<lambda>c. c \<noteq> SLASH) (dropWhile (\<lambda>c. c = SLASH) (rev p)))"

definition extname :: "string \<Rightarrow> string" where
  "extname p = (let b = path_base p; e = rev (takeWhile (\<lambda>c. c \<noteq> CHR ''.'') (rev b)) in
     if CHR ''.'' \<notin> set b \<or> Suc (length e) = length b \<or> b = ''..'' then [] else CHR ''.'' # e)"

text \<open>\<open>path.normalize\<close>: empty and \<open>.\<close> segments go, \<open>..\<close> takes the segment before it, or stays at the start of a relative path.\<close>

fun path_segments :: "string \<Rightarrow> string \<Rightarrow> string list" where
  "path_segments seg [] = [seg]"
| "path_segments seg (c # cs) = (if c = SLASH then seg # path_segments [] cs else path_segments (seg @ [c]) cs)"

fun normal_segments :: "bool \<Rightarrow> string list \<Rightarrow> string list \<Rightarrow> string list" where
  "normal_segments rel acc [] = rev acc"
| "normal_segments rel acc (seg # segs) =
     (if seg = [] \<or> seg = ''.'' then normal_segments rel acc segs
      else if seg = ''..'' then
        (if acc \<noteq> [] \<and> hd acc \<noteq> ''..'' then normal_segments rel (tl acc) segs
         else normal_segments rel (if rel then ''..'' # acc else acc) segs)
      else normal_segments rel (seg # acc) segs)"

definition path_normalize :: "string \<Rightarrow> string" where
  "path_normalize p =
     (if p = [] then ''.''
      else let absolute = (hd p = SLASH); trailing = (last p = SLASH);
               q = js_join [SLASH] (normal_segments (\<not> absolute) [] (path_segments [] p))
           in if q = [] then (if absolute then [SLASH] else if trailing then CHR ''.'' # [SLASH] else ''.'')
              else (if absolute then [SLASH] else []) @ q @ (if trailing then [SLASH] else []))"

definition assertSafeKey :: "string \<Rightarrow> error + string" where
  "assertSafeKey storagePath = (let normalized = path_normalize storagePath in
     if js_starts_with normalized ''..'' \<or> js_starts_with normalized [SLASH] then Inl (Failure (''Unsafe storage path: '' @ storagePath)) else Inr normalized)"

text \<open>The file is written under the path joined with the root, which is normalised too.\<close>

definition storage_save :: "js_format \<Rightarrow> string \<Rightarrow> string \<Rightarrow> ('s portal_scheme, string) tx" where
  "storage_save F buffer originalName = tx_bind gen_random_uuid (\<lambda>i.
     let key = fmt_uuid F i @ extname originalName in (\<lambda>s. Inr (key, s\<lparr>files := (files s)(path_normalize key \<mapsto> buffer)\<rparr>)))"

definition storage_exists :: "string \<Rightarrow> 's portal_scheme \<Rightarrow> bool" where
  "storage_exists storagePath s = (case assertSafeKey storagePath of Inl e \<Rightarrow> False | Inr p \<Rightarrow> files s p \<noteq> None)"

definition storage_readStream :: "string \<Rightarrow> 's portal_scheme \<Rightarrow> error + string" where
  "storage_readStream storagePath s = (case assertSafeKey storagePath of
      Inl e \<Rightarrow> Inl e
    | Inr p \<Rightarrow> (case files s p of None \<Rightarrow> Inl (Failure ''ENOENT'') | Some b \<Rightarrow> Inr b))"

definition storage_delete :: "string \<Rightarrow> ('s portal_scheme, unit) act" where
  "storage_delete storagePath = (\<lambda>s. case assertSafeKey storagePath of
      Inl e \<Rightarrow> (Inl e, s)
    | Inr p \<Rightarrow> (Inr (), s\<lparr>files := (files s)(p := None)\<rparr>))"

record UploadableFile =
  uf_buffer :: string
  uf_originalname :: string
  uf_size :: int

text \<open>The message that was found refers to the ticket, so the keys of the new row exist.\<close>

definition attachments_upload :: "js_format \<Rightarrow> uuid \<Rightarrow> uuid \<Rightarrow> uuid \<Rightarrow> UploadableFile \<Rightarrow> ('s portal_scheme, attachment) act" where
  "attachments_upload F tenantId ticketId messageId file = withTenantContext tenantId (\<lambda>qr.
     tx_bind (sql_first ticket_messages qr (\<lambda>m. by_id messageId m \<and> ms_ticket_id m = ticketId)) (\<lambda>message. case message of
       None \<Rightarrow> tx_throw (NotFound ''Message'' messageId)
     | Some m \<Rightarrow> tx_bind (storage_save F (uf_buffer file) (uf_originalname file)) (\<lambda>storagePath.
         tx_bind gen_random_uuid (\<lambda>i. tx_bind sql_now (\<lambda>now.
         sql_insert ticket_attachments_update qr \<lparr>row_id = i, tenant_id = tenantId, at_ticket_id = ticketId, at_ticket_message_id = Some messageId,
           at_file_name = uf_originalname file, at_file_size_bytes = uf_size file, at_storage_path = storagePath, at_created_at = now\<rparr>)))))"

definition attachments_listForTicket :: "uuid \<Rightarrow> uuid \<Rightarrow> ('s portal_scheme, attachment list) act" where
  "attachments_listForTicket tenantId ticketId = withTenantContext tenantId (\<lambda>qr.
     tx_bind (sql_select ticket_attachments qr (\<lambda>a. at_ticket_id a = ticketId)) (\<lambda>rows. tx_return (order_by at_created_at rows)))"

definition attachments_getForDownload :: "uuid \<Rightarrow> uuid \<Rightarrow> uuid \<Rightarrow> ('s portal_scheme, attachment) act" where
  "attachments_getForDownload tenantId ticketId attachmentId = withTenantContext tenantId (\<lambda>qr.
     tx_bind (sql_first ticket_attachments qr (\<lambda>a. by_id attachmentId a \<and> at_ticket_id a = ticketId)) (\<lambda>found. case found of
       None \<Rightarrow> tx_throw (NotFound ''Attachment'' attachmentId) | Some a \<Rightarrow> tx_return a))"

text \<open>The route: the bytes that are streamed.\<close>

definition attachments_download :: "uuid \<Rightarrow> uuid \<Rightarrow> uuid \<Rightarrow> ('s portal_scheme, string) act" where
  "attachments_download tenantId ticketId attachmentId =
     act_bind (attachments_getForDownload tenantId ticketId attachmentId) (\<lambda>a.
     act_bind (act_gets (storage_exists (at_storage_path a))) (\<lambda>there.
     if \<not> there then act_throw (NotFound ''Attachment'' attachmentId)
     else act_bind (act_gets (storage_readStream (at_storage_path a))) (\<lambda>r. case r of Inl e \<Rightarrow> act_throw e | Inr b \<Rightarrow> act_return b)))"

section \<open>Search\<close>

datatype SearchScope = Scope_All | Scope_Tickets | Scope_Contacts | Scope_Companies | Scope_Solutions

record SearchResult =
  sx_tickets :: "ticket list"
  sx_contacts :: "contact list"
  sx_companies :: "company list"
  sx_solutions :: "solution list"

definition optional_ilike :: "string option \<Rightarrow> string \<Rightarrow> bool" where
  "optional_ilike v p = (case v of None \<Rightarrow> False | Some t \<Rightarrow> sql_ilike t p)"

definition ticket_matches :: "query_runner \<Rightarrow> string \<Rightarrow> 's portal_scheme \<Rightarrow> ticket \<Rightarrow> bool" where
  "ticket_matches qr p s k \<longleftrightarrow> sql_ilike (tk_subject k) p \<or>
     (\<exists>m \<in> set (visible qr (ticket_messages s)). ms_ticket_id m = row_id k \<and> sql_ilike (ms_body m) p) \<or>
     (\<exists>a \<in> set (visible qr (ticket_attachments s)). at_ticket_id a = row_id k \<and> sql_ilike (at_file_name a) p)"

definition search_all :: "uuid \<Rightarrow> string \<Rightarrow> SearchScope \<Rightarrow> bool \<Rightarrow> ('s portal_scheme, SearchResult) act" where
  "search_all tenantId q scope publishedSolutionsOnly =
     (if js_trim q = [] then act_return \<lparr>sx_tickets = [], sx_contacts = [], sx_companies = [], sx_solutions = []\<rparr>
      else withTenantContext tenantId (\<lambda>qr. tx_gets (\<lambda>s.
        let p = ''%'' @ q @ ''%'' in
        \<lparr>sx_tickets = (if scope = Scope_All \<or> scope = Scope_Tickets
           then take 25 (order_by (\<lambda>k. - tk_created_at k) (filter (ticket_matches qr p s) (visible qr (tickets s)))) else []),
         sx_contacts = (if scope = Scope_All \<or> scope = Scope_Contacts
           then take 25 (order_by ct_name (filter (\<lambda>c. sql_ilike (ct_name c) p \<or> optional_ilike (ct_email c) p) (visible qr (contacts s)))) else []),
         sx_companies = (if scope = Scope_All \<or> scope = Scope_Companies
           then take 25 (order_by cy_name (filter (\<lambda>c. sql_ilike (cy_name c) p \<or> optional_ilike (cy_domain c) p) (visible qr (companies s)))) else []),
         sx_solutions = (if scope = Scope_All \<or> scope = Scope_Solutions
           then take 25 (order_by (\<lambda>x. - solution.so_updated_at x) (filter (\<lambda>x. (sql_ilike (so_title x) p \<or> sql_ilike (so_body x) p) \<and>
             (publishedSolutionsOnly \<longrightarrow> so_is_published x)) (visible qr (solutions s)))) else [])\<rparr>)))"

section \<open>What a contact may read\<close>

lemma visible_head:
  assumes "filter P (visible T rows) = x # xs"
  shows "x \<in> set rows" "tenant_id x = T" "P x"
proof -
  have "x \<in> set (filter P (visible T rows))" unfolding assms by simp
  then show "x \<in> set rows" "tenant_id x = T" "P x" by auto
qed

text \<open>
  C14. A contact reads its own tickets and nothing else. A request that passes the guard of the portal carries a valid token of
  kind contact, and the tenant and the contact are the ones of the token. Reading a ticket changes nothing; it gives
  the ticket of that contact with exactly its messages that are not notes, in their order. A ticket of somebody else, or
  of another tenant, gives the same answer as one that does not exist.
\<close>

theorem portal_discloses_own_tickets:
  assumes "portalAuthGuard J request now = Inr (Some T, Some c)" and "getForContact T c k s = (r, t)"
  shows "t = s \<and>
    (\<exists>token claims. bearer_token request = Some token \<and> verifyJwt J token now = Some claims \<and> cl_kind claims = Some ''contact'' \<and>
       cl_tenantId claims = Some T \<and> cl_sub claims = Some c) \<and>
    (case r of
       Inl e \<Rightarrow> e = NotFound ''Ticket'' k \<and> (\<forall>x \<in> set (tickets s). row_id x = k \<longrightarrow> tenant_id x \<noteq> T \<or> tk_contact_id x \<noteq> c)
     | Inr (x, ms) \<Rightarrow> x \<in> set (tickets s) \<and> row_id x = k \<and> tenant_id x = T \<and> tk_contact_id x = c \<and> sorted (map ms_created_at ms) \<and>
         set ms = {m \<in> set (ticket_messages s). tenant_id m = T \<and> ms_ticket_id m = k \<and> ms_type m \<noteq> Note})"
proof (intro conjI)
  show "\<exists>token claims. bearer_token request = Some token \<and> verifyJwt J token now = Some claims \<and> cl_kind claims = Some ''contact'' \<and>
       cl_tenantId claims = Some T \<and> cl_sub claims = Some c"
    using assms(1) by (auto simp: portalAuthGuard_def split: option.splits if_splits)
  let ?P = "\<lambda>x. by_id k x \<and> tk_contact_id x = c"
  show "t = s" using assms(2)
    by (auto simp: getForContact_def withTenantContext_def tx_bind_def sql_first_def sql_select_def split: option.splits sum.splits)
  show "case r of
       Inl e \<Rightarrow> e = NotFound ''Ticket'' k \<and> (\<forall>x \<in> set (tickets s). row_id x = k \<longrightarrow> tenant_id x \<noteq> T \<or> tk_contact_id x \<noteq> c)
     | Inr (x, ms) \<Rightarrow> x \<in> set (tickets s) \<and> row_id x = k \<and> tenant_id x = T \<and> tk_contact_id x = c \<and> sorted (map ms_created_at ms) \<and>
         set ms = {m \<in> set (ticket_messages s). tenant_id m = T \<and> ms_ticket_id m = k \<and> ms_type m \<noteq> Note}"
  proof (cases "filter ?P (visible T (tickets s))")
    case Nil
    with assms(2) have "r = Inl (NotFound ''Ticket'' k)" by (simp add: getForContact_def withTenantContext_def tx_bind_def sql_first_def)
    with Nil show ?thesis by (auto simp: filter_empty_conv by_id_def)
  next
    case (Cons x xs)
    note x = visible_head [OF Cons]
    from Cons assms(2) have "r = Inr (x, order_by ms_created_at (filter (\<lambda>m. ms_ticket_id m = k \<and> ms_type m \<noteq> Note) (visible T (ticket_messages s))))"
      by (auto simp: getForContact_def withTenantContext_def tx_bind_def sql_first_def sql_select_def)
    with x show ?thesis by (auto simp: by_id_def order_by_def)
  qed
qed

lemma portal_lists_own_tickets:
  assumes "listForContact T c s = (Inr ks, t)"
  shows "t = s \<and> length ks \<le> 100 \<and> (\<forall>x \<in> set ks. x \<in> set (tickets s) \<and> tenant_id x = T \<and> tk_contact_id x = c)"
  using assms by (auto simp: listForContact_def withTenantContext_def sql_select_def order_by_def dest: in_set_takeD)

text \<open>A login needs the password of the contact.\<close>

lemma portal_login_requires_password:
  assumes "portal_login J E C T email password s = (Inr res, t)"
  shows "t = s \<and> (\<exists>c \<in> set (contacts s). tenant_id c = T \<and> ct_email c = Some email \<and> has_password c \<and>
    bcrypt_compare C password (the (ct_password_hash c)) \<and> res = toAuthResult J E c T (clock s))"
proof (cases "filter (\<lambda>c. ct_email c = Some email) (visible T (contacts s))")
  case (Cons c cs)
  with visible_head [OF Cons] assms show ?thesis
    by (auto simp: portal_login_def withTenantContext_def tx_bind_def sql_first_def sql_now_def split: if_splits)
qed (use assms in \<open>simp add: portal_login_def withTenantContext_def tx_bind_def sql_first_def sql_now_def\<close>)

section \<open>Claiming a contact\<close>


section \<open>Files\<close>

lemma path_segments_plain: "SLASH \<notin> set p \<Longrightarrow> path_segments seg p = [seg @ p]"
  by (induction p arbitrary: seg) auto

lemma path_normalize_plain: "SLASH \<notin> set p \<Longrightarrow> p \<notin> {[], ''.'', ''..''} \<Longrightarrow> path_normalize p = p"
proof -
  assume plain: "SLASH \<notin> set p" and p: "p \<notin> {[], ''.'', ''..''}"
  then have "p \<noteq> []" "hd p \<noteq> SLASH" "last p \<noteq> SLASH" by (metis insertCI hd_in_set, metis insertCI hd_in_set, metis insertCI last_in_set)
  with p show "path_normalize p = p" by (simp add: path_normalize_def path_segments_plain [OF plain])
qed

lemma extname_plain: "SLASH \<notin> set (extname p)"
proof -
  have "SLASH \<notin> set (path_base p)" by (auto simp: path_base_def dest: set_takeWhileD)
  then have "SLASH \<notin> set (rev (takeWhile (\<lambda>c. c \<noteq> CHR ''.'') (rev (path_base p))))" by (auto dest: set_takeWhileD)
  then show ?thesis by (auto simp: extname_def Let_def) (simp add: SLASH_def)
qed

text \<open>The text of an identifier, as a name of a file.\<close>

definition uuid_file_name :: "string \<Rightarrow> bool" where
  "uuid_file_name u \<longleftrightarrow> u \<noteq> [] \<and> SLASH \<notin> set u \<and> hd u \<noteq> CHR ''.''"

lemma saved_key_safe:
  assumes "uuid_file_name u"
  shows "path_normalize (u @ extname n) = u @ extname n" "assertSafeKey (u @ extname n) = Inr (u @ extname n)"
proof -
  show norm: "path_normalize (u @ extname n) = u @ extname n"
    using assms extname_plain [of n] by (cases u) (auto simp: uuid_file_name_def intro!: path_normalize_plain)
  show "assertSafeKey (u @ extname n) = Inr (u @ extname n)"
    unfolding assertSafeKey_def norm Let_def using assms by (cases u) (auto simp: uuid_file_name_def)
qed

text \<open>
  C29. Attachments read back. When an upload succeeds, the file is stored under a key that stays inside of the store whatever the name
  of the uploaded file is, no file under another key changes, and downloading the attachment of that ticket gives the
  uploaded bytes.
\<close>

theorem attachment_roundtrip:
  assumes names: "\<And>i. uuid_file_name (fmt_uuid F i)" and fresh: "\<forall>a \<in> set (ticket_attachments s). row_id a < next_uuid s"
    and run: "attachments_upload F T k m file s = (Inr a, t)"
  shows "assertSafeKey (at_storage_path a) = Inr (at_storage_path a) \<and> files t = (files s)(at_storage_path a \<mapsto> uf_buffer file) \<and>
    attachments_download T k (row_id a) t = (Inr (uf_buffer file), t)"
proof -
  let ?key = "fmt_uuid F (next_uuid s) @ extname (uf_originalname file)"
  note key = saved_key_safe [OF names, of "next_uuid s" "uf_originalname file"]
  from run have a: "row_id a = Suc (next_uuid s)" "tenant_id a = T" "at_ticket_id a = k" "at_storage_path a = ?key"
    and t: "files t = (files s)(?key \<mapsto> uf_buffer file)" "ticket_attachments t = ticket_attachments s @ [a]"
    by (auto simp: attachments_upload_def withTenantContext_def tx_bind_def sql_first_def storage_save_def gen_random_uuid_def sql_now_def sql_insert_def
        tenant_isolation_def key(1) Let_def split: option.splits sum.splits if_splits)
  have "filter (\<lambda>x. by_id (row_id a) x \<and> at_ticket_id x = k) (visible T (ticket_attachments s)) = []"
    using fresh a(1) by (force simp: filter_empty_conv by_id_def)
  then have "attachments_getForDownload T k (row_id a) t = (Inr a, t)"
    using t(2) a by (simp add: attachments_getForDownload_def withTenantContext_def tx_bind_def sql_first_def by_id_def tenant_isolation_def)
  with t(1) a(4) key(2) show ?thesis
    by (simp add: attachments_download_def act_bind_def act_gets_def storage_exists_def storage_readStream_def)
qed

section \<open>Chats\<close>

text \<open>
  A message is appended and moves its session alone. The reply of an agent claims a session nobody has, and never
  changes whose it is or whether it is open; a message of the visitor opens it again.
\<close>

lemma chat_message_run:
  assumes "chat_addMessage T i dto s = (Inr m, t)"
  shows "chat_messages t = chat_messages s @ [m] \<and> chat_sessions t = update_rows T (by_id i) (touch_session dto (clock s)) (chat_sessions s) \<and>
    (\<exists>c \<in> set (chat_sessions s). row_id c = i \<and> tenant_id c = T)"
proof (cases "filter (by_id i) (visible T (chat_sessions s))")
  case Nil
  with assms show ?thesis by (simp add: chat_addMessage_def withTenantContext_def tx_bind_def find_row_def sql_first_def)
next
  case (Cons c cs)
  from visible_head [OF Cons] have "\<exists>c \<in> set (chat_sessions s). row_id c = i \<and> tenant_id c = T" by (auto simp: by_id_def)
  with Cons assms show ?thesis
    by (auto simp: chat_addMessage_def withTenantContext_def tx_bind_def find_row_def sql_first_def gen_random_uuid_def sql_now_def sql_insert_def sql_update_def
        fk_check_def Let_def split: if_splits sum.splits)
qed

lemma touch_session_effect:
  "ad_authorType dto \<noteq> Chat_Visitor \<Longrightarrow> ch_status (touch_session dto now c) = ch_status c"
  "ad_authorType dto = Chat_Visitor \<Longrightarrow> ch_status (touch_session dto now c) = Chat_Open"
  "ch_assigned_agent_id c = Some a \<Longrightarrow> ch_assigned_agent_id (touch_session dto now c) = Some a"
  by (auto simp: touch_session_def claimed_by_def)

section \<open>Isolation\<close>

lemma storage_save_frame [frame_intros]: "tx_rel (portal_frame qr) (storage_save F b n)"
proof -
  have "tx_rel (portal_frame qr) (\<lambda>s. Inr (key, s\<lparr>files := f (files s)\<rparr>))" for key f
    by (rule tx_relI) (auto simp: portal_frame_defs)
  then show ?thesis unfolding storage_save_def Let_def by (intro frame_intros)
qed

lemma portal_frames:
  "act_rel (portal_frame T) (portal_register J E C T dto)" "act_rel (portal_frame T) (portal_submit F I H T sub)"
  "act_rel (portal_frame T) (chat_createSession T v c)" "act_rel (portal_frame T) (chat_addMessage T i msg)" "act_rel (portal_frame T) (chat_closeSession T i)"
  "act_rel (portal_frame T) (attachments_upload F T k m file)"
proof -
  show "act_rel (portal_frame T) (portal_register J E C T dto)" unfolding portal_register_def Let_def by (intro frame_intros)
  have "act_rel (ticketing_frame T) (portal_submit F I H T sub)" unfolding portal_submit_def by (intro frame_intros tickets_frames)
  then show "act_rel (portal_frame T) (portal_submit F I H T sub)" by (rule act_rel_mono [OF _ ticketing_portal_frame])
  show "act_rel (portal_frame T) (chat_createSession T v c)" "act_rel (portal_frame T) (chat_addMessage T i msg)" "act_rel (portal_frame T) (chat_closeSession T i)"
    unfolding chat_createSession_def chat_addMessage_def chat_closeSession_def by (intro frame_intros)+
  show "act_rel (portal_frame T) (attachments_upload F T k m file)" unfolding attachments_upload_def by (intro frame_intros)
qed

section \<open>A shop with one customer\<close>

definition shopper :: contact where
  "shopper = \<lparr>row_id = 30, tenant_id = 1, ct_company_id = None, ct_name = ''Bo'', ct_email = Some ''bo@x.org'', ct_phone = None, ct_social_handles = JObj [],
     ct_password_hash = None, ct_oauth_provider = None, ct_email_valid = True\<rparr>"

definition shopper_message :: ticket_message where
  "shopper_message = \<lparr>row_id = 91, tenant_id = 1, ms_ticket_id = 20, ms_type = Reply, ms_author_type = By_Contact, ms_author_id = Some 30, ms_body = ''Hi'',
     ms_cc = [], ms_created_at = 0\<rparr>"

definition storefront :: portal where
  "storefront = helpdesk.extend (one_desk\<lparr>contacts := [shopper], ticket_messages := [shopper_message]\<rparr>) (portal.fields [] [] Map.empty)"

lemma storefront_simps [simp]:
  "contacts storefront = [shopper]" "tickets storefront = [printer_ticket]" "ticket_messages storefront = [shopper_message]"
  "ticket_attachments storefront = []" "clock storefront = 0" "next_uuid storefront = 100" "files storefront = Map.empty"
  by (simp_all add: storefront_def one_desk_def one_ticket_def empty_platform_def platform.defs ticketing.defs helpdesk.defs portal.defs)

definition contact_jwt :: jwt_lib where
  "contact_jwt = \<lparr>jwt_sign = (\<lambda>_ _ _. ''jwt''), jwt_verify = (\<lambda>t _. if t = ''jwt'' then Some (contact_claims 1 shopper) else None)\<rparr>"

theorem portal_discloses_own_tickets_witness:
  "portalAuthGuard contact_jwt ann_request 0 = Inr (Some 1, Some 30) \<and> set (snd (projr (fst (getForContact 1 30 20 storefront)))) = {shopper_message}"
proof -
  have guard: "portalAuthGuard contact_jwt ann_request 0 = Inr (Some 1, Some 30)"
    by (simp add: portalAuthGuard_def ann_bearer verifyJwt_def contact_jwt_def contact_claims_def shopper_def)
  obtain r t where run: "getForContact 1 30 20 storefront = (r, t)" by fastforce
  then obtain x ms where r: "r = Inr (x, ms)"
    by (auto simp: getForContact_def withTenantContext_def tx_bind_def sql_first_def sql_select_def by_id_def printer_ticket_def tenant_isolation_def)
  from portal_discloses_own_tickets [OF guard run]
  have "set ms = {m \<in> set (ticket_messages storefront). tenant_id m = 1 \<and> ms_ticket_id m = 20 \<and> ms_type m \<noteq> Note}" unfolding r by simp
  also have "\<dots> = {m \<in> {shopper_message}. tenant_id m = 1 \<and> ms_ticket_id m = 20 \<and> ms_type m \<noteq> Note}" by simp
  also have "\<dots> = {shopper_message}" by (auto simp: shopper_message_def)
  finally show ?thesis using guard run r by simp
qed


definition named_format :: js_format where
  "named_format = unary_format\<lparr>fmt_uuid := (\<lambda>n. replicate (Suc n) (CHR ''x''))\<rparr>"

theorem attachment_roundtrip_witness:
  "\<exists>a t. attachments_upload named_format 1 20 91 \<lparr>uf_buffer = ''data'', uf_originalname = ''../../etc/passwd.txt'', uf_size = 4\<rparr> storefront = (Inr a, t) \<and>
     attachments_download 1 20 (row_id a) t = (Inr ''data'', t)"
proof -
  let ?f = "\<lparr>uf_buffer = ''data'', uf_originalname = ''../../etc/passwd.txt'', uf_size = 4\<rparr>"
  obtain a t where run: "attachments_upload named_format 1 20 91 ?f storefront = (Inr a, t)"
    by (simp add: attachments_upload_def withTenantContext_def tx_bind_def sql_first_def by_id_def shopper_message_def tenant_isolation_def
        storage_save_def gen_random_uuid_def sql_now_def sql_insert_def Let_def)
  have "uuid_file_name (fmt_uuid named_format i)" for i by (simp add: uuid_file_name_def named_format_def SLASH_def)
  from attachment_roundtrip [OF this _ run] run show ?thesis by auto
qed

end
