(* ===== verification/Disk_Forecasts.thy ===== *)
theory Disk_Forecasts
  imports Monitor_Scheduler
begin

text \<open>
  Forecasts of full disks: the regression of \<open>monitoring/disk-forecast.ts\<close>, the sweep of
  \<open>disk-forecast-sweep.service.ts\<close> and the service of \<open>disk-forecasts.service.ts\<close>. Usage values are rational numbers.
  The lemmas: the line that is fitted has the least sum of squared errors of all lines; after a sweep the
  open forecasts of a tenant are exactly the ones the samples of the last week give.
\<close>

section \<open>The regression\<close>

record DiskSample =
  ds_t :: msec
  ds_value :: rat

record DiskForecast =
  dq_daysToFull :: rat
  dq_ratePerDay :: rat
  dq_currentPct :: rat

definition MS_PER_DAY :: int where
  "MS_PER_DAY = 24 * 60 * 60 * 1000"

text \<open>The sums of the loop, and the slope and intercept; \<open>None\<close> when all times are the same.\<close>

definition cov_step :: "rat \<Rightarrow> rat \<Rightarrow> rat \<times> rat \<Rightarrow> rat \<times> rat \<Rightarrow> rat \<times> rat" where
  "cov_step meanX meanY = (\<lambda>(x, y) (cov, varX). (cov + (x - meanX) * (y - meanY), varX + (x - meanX) ^ 2))"

definition fit_line :: "rat list \<Rightarrow> rat list \<Rightarrow> (rat \<times> rat) option" where
  "fit_line xs ys =
     (let n = of_nat (length xs);
          meanX = sum_list xs / n;
          meanY = sum_list ys / n;
          (cov, varX) = fold (cov_step meanX meanY) (zip xs ys) (0, 0)
      in if varX = 0 then None else (let slope = cov / varX in Some (slope, meanY - slope * meanX)))"

definition day_of :: "msec \<Rightarrow> msec \<Rightarrow> rat" where
  "day_of t0 t = of_int (t - t0) / of_int MS_PER_DAY"

definition forecastDaysToFull :: "DiskSample list \<Rightarrow> DiskForecast option" where
  "forecastDaysToFull samples =
     (if length samples < 3 then None
      else let sorted = sort_key ds_t samples;
               t0 = ds_t (hd sorted);
               xs = map (\<lambda>s. day_of t0 (ds_t s)) sorted;
               ys = map ds_value sorted
           in if last xs - hd xs \<le> 0 then None
              else (case fit_line xs ys of
                  None \<Rightarrow> None
                | Some (slope, intercept) \<Rightarrow>
                    (let currentPct = intercept + slope * last xs
                     in if slope \<le> 1 / 100 then None
                        else Some \<lparr>dq_daysToFull = max 0 (js_round ((100 - currentPct) / slope * 10) / 10),
                                   dq_ratePerDay = js_round (slope * 100) / 100,
                                   dq_currentPct = js_round (currentPct * 10) / 10\<rparr>)))"

section \<open>The sweep\<close>

definition HORIZON_DAYS :: rat where
  "HORIZON_DAYS = 14"

definition LOOKBACK_DAYS :: int where
  "LOOKBACK_DAYS = 7"

text \<open>The rows of the query, and the samples: the cast of a value that is not a number is an error of the statement.\<close>

definition disk_rows :: "query_runner \<Rightarrow> uuid \<Rightarrow> 's monitoring_scheme \<Rightarrow> monitor_check list" where
  "disk_rows qr monitorId s = order_by mc_checked_at (filter (\<lambda>c. mc_monitor_id c = monitorId \<and> js_prop (mc_raw_output c) ''diskPercent'' \<noteq> None \<and>
     mc_checked_at c \<ge> clock s - LOOKBACK_DAYS * MS_PER_DAY) (visible qr (monitor_checks s)))"

fun disk_samples :: "(string \<Rightarrow> rat option) \<Rightarrow> monitor_check list \<Rightarrow> error + DiskSample list" where
  "disk_samples pg_float [] = Inr []"
| "disk_samples pg_float (c # cs) = (case raw_number pg_float ''diskPercent'' c of
      Inl e \<Rightarrow> Inl e
    | Inr v \<Rightarrow> (case disk_samples pg_float cs of
        Inl e \<Rightarrow> Inl e
      | Inr samples \<Rightarrow> Inr (case v of None \<Rightarrow> samples | Some q \<Rightarrow> \<lparr>ds_t = mc_checked_at c, ds_value = q\<rparr> # samples)))"

definition disk_reason :: "js_format \<Rightarrow> string \<Rightarrow> DiskForecast \<Rightarrow> string" where
  "disk_reason F name forecast = name @ '' disk projected full in ~'' @ js_number_text F (dq_daysToFull forecast) @ '' days (now '' @
     js_number_text F (dq_currentPct forecast) @ ''%, +'' @ js_number_text F (dq_ratePerDay forecast) @ ''%/day).''"

definition upsert_forecast :: "js_format \<Rightarrow> query_runner \<Rightarrow> uuid \<Rightarrow> monitor \<Rightarrow> DiskForecast \<Rightarrow> ('s observability_scheme, unit) tx" where
  "upsert_forecast F qr tenantId m forecast =
     tx_bind sql_now (\<lambda>now. tx_bind (tx_gets (\<lambda>s. filter (\<lambda>d. df_monitor_id d = row_id m) (disk_forecasts s))) (\<lambda>conflict. case conflict of
       [] \<Rightarrow> tx_bind gen_random_uuid (\<lambda>i.
         tx_bind (sql_insert disk_forecasts_update qr \<lparr>row_id = i, tenant_id = tenantId, df_monitor_id = row_id m, df_resource_id = Some (mo_resource_id m),
           df_current_pct = dq_currentPct forecast, df_rate_per_day = dq_ratePerDay forecast, df_days_to_full = dq_daysToFull forecast,
           df_reason_text = disk_reason F (mo_name m) forecast, df_status = Df_Open, df_created_at = now, df_updated_at = now\<rparr>) (\<lambda>_. tx_return ()))
     | d # _ \<Rightarrow> if \<not> tenant_isolation qr d then tx_throw insufficient_privilege
         else tx_bind (sql_update disk_forecasts disk_forecasts_update qr (\<lambda>d. df_monitor_id d = row_id m)
           (\<lambda>d. d\<lparr>df_current_pct := dq_currentPct forecast, df_rate_per_day := dq_ratePerDay forecast, df_days_to_full := dq_daysToFull forecast,
              df_reason_text := disk_reason F (mo_name m) forecast, df_status := Df_Open, df_updated_at := now\<rparr>)) (\<lambda>_. tx_return ())))"

definition due_forecast :: "DiskSample list \<Rightarrow> DiskForecast option" where
  "due_forecast samples = (case forecastDaysToFull samples of
      None \<Rightarrow> None
    | Some forecast \<Rightarrow> if dq_daysToFull forecast > HORIZON_DAYS then None else Some forecast)"

definition forecast_monitor :: "js_format \<Rightarrow> (string \<Rightarrow> rat option) \<Rightarrow> query_runner \<Rightarrow> uuid \<Rightarrow> monitor \<Rightarrow> nat \<Rightarrow> ('s observability_scheme, nat) tx" where
  "forecast_monitor F pg_float qr tenantId m recorded =
     tx_bind (tx_gets (\<lambda>s. disk_samples pg_float (disk_rows qr (row_id m) s))) (\<lambda>rows. case rows of
       Inl e \<Rightarrow> tx_throw e
     | Inr samples \<Rightarrow> (case due_forecast samples of
         None \<Rightarrow> tx_bind (sql_delete disk_forecasts disk_forecasts_update qr (\<lambda>d. df_monitor_id d = row_id m)) (\<lambda>_. tx_return recorded)
       | Some forecast \<Rightarrow> tx_bind (upsert_forecast F qr tenantId m forecast) (\<lambda>_. tx_return (Suc recorded))))"

definition disk_sweepTenant :: "js_format \<Rightarrow> (string \<Rightarrow> rat option) \<Rightarrow> uuid \<Rightarrow> ('s observability_scheme, nat) act" where
  "disk_sweepTenant F pg_float tenantId = withTenantContext tenantId (\<lambda>qr.
     tx_bind (sql_select monitors qr (\<lambda>m. mo_monitor_type m = Mt_Server_Agent)) (\<lambda>ms.
     tx_fold (forecast_monitor F pg_float qr tenantId) ms 0))"

definition disk_runSweepOnce :: "js_format \<Rightarrow> (string \<Rightarrow> rat option) \<Rightarrow> bool \<Rightarrow> ('s observability_scheme, nat) act" where
  "disk_runSweepOnce F pg_float running =
     (if running then act_return 0 else act_bind (act_gets tenants) (\<lambda>ts.
       act_fold (\<lambda>t n. act_catch (act_bind (disk_sweepTenant F pg_float (tn_id t)) (\<lambda>k. act_return (n + k))) (\<lambda>_. act_return n)) ts 0))"

section \<open>The service\<close>

definition diskForecasts_list :: "uuid \<Rightarrow> ('s observability_scheme, (disk_forecast \<times> string option) list) act" where
  "diskForecasts_list tenantId = withTenantContext tenantId (\<lambda>qr. tx_gets (\<lambda>s.
     map (\<lambda>d. (d, map_option re_name (Option.bind (df_resource_id d) (\<lambda>i. first_of (filter (by_id i) (visible qr (resources s)))))))
       (order_by df_days_to_full (filter (\<lambda>d. df_status d = Df_Open) (visible qr (disk_forecasts s))))))"

definition diskForecasts_dismiss :: "uuid \<Rightarrow> uuid \<Rightarrow> ('s observability_scheme, unit) act" where
  "diskForecasts_dismiss tenantId i = withTenantContext tenantId (\<lambda>qr. tx_bind sql_now (\<lambda>now.
     tx_bind (sql_update disk_forecasts disk_forecasts_update qr (by_id i) (\<lambda>d. d\<lparr>df_status := Df_Dismissed, df_updated_at := now\<rparr>)) (\<lambda>rows.
     if rows = [] then tx_throw (NotFound ''Disk forecast'' i) else tx_return ())))"

section \<open>The fitted line\<close>

lemma fold_cov_step:
  "fold (cov_step mx my) ps (a, b) = (a + (\<Sum>(x, y) \<leftarrow> ps. (x - mx) * (y - my)), b + (\<Sum>(x, y) \<leftarrow> ps. (x - mx) ^ 2))"
  by (induction ps arbitrary: a b) (auto simp: cov_step_def)

definition squared_error :: "rat \<Rightarrow> rat \<Rightarrow> (rat \<times> rat) list \<Rightarrow> rat" where
  "squared_error slope intercept ps = (\<Sum>(x, y) \<leftarrow> ps. (y - (intercept + slope * x)) ^ 2)"

lemma sum_list_map2_fst: "length xs = length ys \<Longrightarrow> (\<Sum>(x, y) \<leftarrow> zip xs ys. x) = sum_list (xs :: rat list)"
  by (induction xs ys rule: list_induct2) simp_all

lemma sum_list_map2_snd: "length xs = length ys \<Longrightarrow> (\<Sum>(x, y) \<leftarrow> zip xs ys. y) = sum_list (ys :: rat list)"
  by (induction xs ys rule: list_induct2) simp_all

lemma centred_sums:
  fixes ps :: "(rat \<times> rat) list"
  shows "(\<Sum>(x, y) \<leftarrow> ps. (x - mx) * (y - my)) =
      (\<Sum>(x, y) \<leftarrow> ps. x * y) - mx * (\<Sum>(x, y) \<leftarrow> ps. y) - my * (\<Sum>(x, y) \<leftarrow> ps. x) + of_nat (length ps) * mx * my" (is ?cov)
    and "(\<Sum>(x, y) \<leftarrow> ps. (x - mx) ^ 2) =
      (\<Sum>(x, y) \<leftarrow> ps. x ^ 2) - 2 * mx * (\<Sum>(x, y) \<leftarrow> ps. x) + of_nat (length ps) * mx ^ 2" (is ?var)
  by (induction ps) (auto simp: algebra_simps power2_eq_square)

lemma error_split:
  fixes ps :: "(rat \<times> rat) list"
  shows "squared_error b a ps = squared_error sl ic ps
     + 2 * (ic - a) * ((\<Sum>(x, y) \<leftarrow> ps. y) - of_nat (length ps) * ic - sl * (\<Sum>(x, y) \<leftarrow> ps. x))
     + 2 * (sl - b) * ((\<Sum>(x, y) \<leftarrow> ps. x * y) - ic * (\<Sum>(x, y) \<leftarrow> ps. x) - sl * (\<Sum>(x, y) \<leftarrow> ps. x ^ 2))
     + (\<Sum>(x, y) \<leftarrow> ps. ((ic - a) + (sl - b) * x) ^ 2)"
  unfolding squared_error_def by (induction ps) (auto simp: algebra_simps power2_eq_square)

lemma sum_list_squares_nonneg: "0 \<le> (\<Sum>p \<leftarrow> ps. (f p :: rat) ^ 2)"
  by (induction ps) simp_all

lemma sum_squares_zero: "(\<Sum>x \<leftarrow> xs. (x - m) ^ 2) = (0 :: rat) \<longleftrightarrow> (\<forall>x \<in> set xs. x = m)"
  by (induction xs) (auto simp: add_nonneg_eq_0_iff sum_list_squares_nonneg)

lemma mean_of_equal:
  assumes "xs \<noteq> []"
  shows "(\<forall>x \<in> set xs. x = sum_list xs / of_nat (length xs)) \<longleftrightarrow> (\<forall>x \<in> set xs. x = (hd xs :: rat))"
proof
  assume "\<forall>x \<in> set xs. x = hd xs"
  then have "xs = replicate (length xs) (hd xs)" by (simp add: list_eq_iff_nth_eq)
  then have "sum_list xs = of_nat (length xs) * hd xs" by (metis sum_list_replicate)
  with assms \<open>\<forall>x \<in> set xs. x = hd xs\<close> show "\<forall>x \<in> set xs. x = sum_list xs / of_nat (length xs)" by simp
next
  assume "\<forall>x \<in> set xs. x = sum_list xs / of_nat (length xs)"
  with assms show "\<forall>x \<in> set xs. x = hd xs" by (metis list.set_sel(1))
qed

lemma fit_line_sums:
  assumes "length xs = length ys"
  shows "fit_line xs ys = (let ps = zip xs ys; mx = sum_list xs / of_nat (length xs); my = sum_list ys / of_nat (length xs);
       cov = (\<Sum>(x, y) \<leftarrow> ps. (x - mx) * (y - my)); var = (\<Sum>x \<leftarrow> xs. (x - mx) ^ 2)
     in if var = 0 then None else Some (cov / var, my - cov / var * mx))"
proof -
  have "(\<Sum>(x, y) \<leftarrow> zip xs ys. (x - m) ^ 2) = (\<Sum>x \<leftarrow> xs. (x - m) ^ 2)" for m
    using assms by (induction xs ys rule: list_induct2) simp_all
  then show ?thesis by (simp add: fit_line_def fold_cov_step Let_def)
qed

lemma fit_line_optimal:
  assumes "length xs = length ys" and "xs \<noteq> []"
  shows "fit_line xs ys = None \<longleftrightarrow> (\<forall>x \<in> set xs. x = hd xs)"
    and "fit_line xs ys = Some (slope, intercept) \<Longrightarrow> squared_error slope intercept (zip xs ys) \<le> squared_error b a (zip xs ys)"
proof -
  define ps mx my where "ps = zip xs ys" and "mx = sum_list xs / of_nat (length xs)" and "my = sum_list ys / of_nat (length xs)"
  define cov var where "cov = (\<Sum>(x, y) \<leftarrow> ps. (x - mx) * (y - my))" and "var = (\<Sum>x \<leftarrow> xs. (x - mx) ^ 2)"
  define N where "N = (of_nat (length xs) :: rat)"
  have fit: "fit_line xs ys = (if var = 0 then None else Some (cov / var, my - cov / var * mx))"
    using fit_line_sums [OF assms(1)] by (simp add: Let_def ps_def mx_def my_def cov_def var_def)
  have len: "length ps = length xs" using assms(1) by (simp add: ps_def)
  have N: "N \<noteq> 0" using assms(2) by (simp add: N_def)
  have "ys \<noteq> []" using assms by (metis length_0_conv)
  then have sx: "(\<Sum>(x, y) \<leftarrow> ps. x) = N * mx" and sy: "(\<Sum>(x, y) \<leftarrow> ps. y) = N * my"
    using assms N by (simp_all add: ps_def sum_list_map2_fst sum_list_map2_snd mx_def my_def N_def)
  have var_ps: "var = (\<Sum>(x, y) \<leftarrow> ps. (x - mx) ^ 2)"
    unfolding var_def ps_def using assms(1) by (induction xs ys rule: list_induct2) simp_all
  have cov2: "(\<Sum>(x, y) \<leftarrow> ps. x * y) = cov + N * mx * my"
    using centred_sums(1) [of mx my ps] by (simp add: cov_def sx sy len N_def algebra_simps)
  have var2: "(\<Sum>(x, y) \<leftarrow> ps. x ^ 2) = var + N * mx ^ 2"
    using centred_sums(2) [of mx ps] by (simp add: var_ps sx len N_def algebra_simps power2_eq_square)
  have least: "squared_error (cov / var) (my - cov / var * mx) ps \<le> squared_error b a ps" if "var \<noteq> 0" for a b
  proof -
    let ?sl = "cov / var"
    have "(\<Sum>(x, y) \<leftarrow> ps. y) - of_nat (length ps) * (my - ?sl * mx) - ?sl * (\<Sum>(x, y) \<leftarrow> ps. x) = 0"
      by (simp add: sx sy len N_def algebra_simps)
    moreover have "?sl * var = cov" using that by simp
    then have "(\<Sum>(x, y) \<leftarrow> ps. x * y) - (my - ?sl * mx) * (\<Sum>(x, y) \<leftarrow> ps. x) - ?sl * (\<Sum>(x, y) \<leftarrow> ps. x ^ 2) = 0"
      unfolding sx cov2 var2 by (simp add: algebra_simps power2_eq_square del: times_divide_eq_left)
    moreover have "0 \<le> (\<Sum>(x, y) \<leftarrow> ps. ((my - ?sl * mx - a) + (?sl - b) * x) ^ 2)"
      using sum_list_squares_nonneg [of "\<lambda>(x, y). (my - ?sl * mx - a) + (?sl - b) * x" ps] by (simp add: case_prod_unfold)
    ultimately show ?thesis using error_split [of b a ps ?sl "my - ?sl * mx"] by simp
  qed
  show "fit_line xs ys = None \<longleftrightarrow> (\<forall>x \<in> set xs. x = hd xs)"
    using sum_squares_zero [of mx xs] mean_of_equal [OF assms(2)] by (simp add: fit var_def mx_def)
  show "squared_error slope intercept (zip xs ys) \<le> squared_error b a (zip xs ys)" if "fit_line xs ys = Some (slope, intercept)"
    using that least [of b a] by (auto simp: fit ps_def split: if_splits)
qed

text \<open>
  C33. The forecast fits the line of least squares: for as many values as times, not all at the same time, no line
  has a smaller sum of squared vertical distances from the samples than the line with the slope and intercept that
  are computed; and the fit exists exactly if the times are not all equal.
\<close>

theorem fit_line_least_squares:
  assumes "length xs = length ys" and "xs \<noteq> []"
  shows "(fit_line xs ys = None \<longleftrightarrow> (\<forall>x \<in> set xs. x = hd xs)) \<and>
    (\<forall>slope intercept b a. fit_line xs ys = Some (slope, intercept) \<longrightarrow> squared_error slope intercept (zip xs ys) \<le> squared_error b a (zip xs ys))"
  using fit_line_optimal [OF assms] by blast

theorem fit_line_least_squares_witness:
  "\<exists>slope intercept. fit_line [0, 1, 2] [10, 20, 60] = Some (slope, intercept) \<and>
     squared_error slope intercept (zip [0, 1, 2] [10, 20, 60]) \<le> squared_error 10 10 (zip [0, 1, 2] [10, 20, 60])"
proof -
  obtain slope intercept where fit: "fit_line [0, 1, 2] [10, 20, 60] = Some (slope, intercept)"
    using fit_line_least_squares [of "[0, 1, 2]" "[10, 20, 60]"] by (cases "fit_line [0, 1, 2] [10, 20, 60]") auto
  with fit_line_least_squares [of "[0, 1, 2]" "[10, 20, 60]"] show ?thesis by simp
qed

section \<open>The forecasts after a sweep\<close>

definition forecasts_of :: "uuid \<Rightarrow> 's observability_scheme \<Rightarrow> disk_forecast list" where
  "forecasts_of i s = filter (\<lambda>d. df_monitor_id d = i) (disk_forecasts s)"

definition samples_of :: "(string \<Rightarrow> rat option) \<Rightarrow> uuid \<Rightarrow> 's observability_scheme \<Rightarrow> monitor \<Rightarrow> error + DiskSample list" where
  "samples_of pg_float T s m = disk_samples pg_float (disk_rows T (row_id m) s)"

text \<open>What a sweep leaves for a monitor.\<close>

definition forecast_settled :: "(string \<Rightarrow> rat option) \<Rightarrow> uuid \<Rightarrow> 's observability_scheme \<Rightarrow> 's observability_scheme \<Rightarrow> monitor \<Rightarrow> bool" where
  "forecast_settled pg_float T s t m \<longleftrightarrow> (\<exists>samples. samples_of pg_float T s m = Inr samples \<and> (case due_forecast samples of
      None \<Rightarrow> visible T (forecasts_of (row_id m) t) = []
    | Some fc \<Rightarrow> \<exists>d. forecasts_of (row_id m) t = [d] \<and> tenant_id d = T \<and> df_status d = Df_Open \<and> df_days_to_full d = dq_daysToFull fc \<and>
        df_current_pct d = dq_currentPct fc \<and> df_rate_per_day d = dq_ratePerDay fc))"

definition has_forecast :: "(string \<Rightarrow> rat option) \<Rightarrow> uuid \<Rightarrow> 's observability_scheme \<Rightarrow> monitor \<Rightarrow> bool" where
  "has_forecast pg_float T s m \<longleftrightarrow> (\<exists>samples fc. samples_of pg_float T s m = Inr samples \<and> due_forecast samples = Some fc)"

lemma upsert_forecast_run:
  assumes "upsert_forecast F T T m fc s = Inr (u, t)" and "length (forecasts_of (row_id m) s) \<le> 1"
  shows "(\<exists>d. forecasts_of (row_id m) t = [d] \<and> tenant_id d = T \<and> df_status d = Df_Open \<and> df_days_to_full d = dq_daysToFull fc \<and>
        df_current_pct d = dq_currentPct fc \<and> df_rate_per_day d = dq_ratePerDay fc) \<and>
    (\<forall>i. i \<noteq> row_id m \<longrightarrow> forecasts_of i t = forecasts_of i s) \<and> monitor_checks t = monitor_checks s \<and> clock t = clock s"
proof (cases "forecasts_of (row_id m) s")
  case Nil
  with assms(1) show ?thesis
    by (auto simp: upsert_forecast_def forecasts_of_def tx_bind_def sql_now_def gen_random_uuid_def sql_insert_def tenant_isolation_def split: if_splits)
next
  case (Cons d ds)
  then have one: "forecasts_of (row_id m) s = [d]" using assms(2) by simp
  define f where "f = (\<lambda>d :: disk_forecast. d\<lparr>df_current_pct := dq_currentPct fc, df_rate_per_day := dq_ratePerDay fc, df_days_to_full := dq_daysToFull fc,
              df_reason_text := disk_reason F (mo_name m) fc, df_status := Df_Open, df_updated_at := clock s\<rparr>)"
  from assms(1) one have own: "tenant_isolation T d" and t: "t = s\<lparr>disk_forecasts := update_rows T (\<lambda>d. df_monitor_id d = row_id m) f (disk_forecasts s)\<rparr>"
    by (auto simp: upsert_forecast_def forecasts_of_def tx_bind_def sql_now_def sql_update_def f_def Let_def split: if_splits)
  have keep: "df_monitor_id (if tenant_isolation T x \<and> df_monitor_id x = row_id m then f x else x) = df_monitor_id x" for x
    by (simp add: f_def)
  have rows: "forecasts_of i t = map (\<lambda>x. if tenant_isolation T x \<and> df_monitor_id x = row_id m then f x else x) (forecasts_of i s)" for i
    by (simp add: t forecasts_of_def update_rows_def filter_map o_def keep)
  have "forecasts_of i t = forecasts_of i s" if "i \<noteq> row_id m" for i
    unfolding rows by (rule map_idI) (use that in \<open>auto simp: forecasts_of_def\<close>)
  moreover have "d \<in> set (forecasts_of (row_id m) s)" using one by simp
  then have "df_monitor_id d = row_id m" by (simp add: forecasts_of_def)
  then have "forecasts_of (row_id m) t = [f d]" using own by (simp add: rows one)
  moreover have "tenant_id (f d) = T" using own by (simp add: f_def tenant_isolation_def)
  ultimately show ?thesis by (simp add: f_def t)
qed

lemma forecast_monitor_run:
  assumes "forecast_monitor F pg_float T T m n s = Inr (n', t)" and "length (forecasts_of (row_id m) s) \<le> 1"
  shows "forecast_settled pg_float T s t m \<and> n' = (if has_forecast pg_float T s m then Suc n else n) \<and>
    (\<forall>i. i \<noteq> row_id m \<longrightarrow> forecasts_of i t = forecasts_of i s) \<and> monitor_checks t = monitor_checks s \<and> clock t = clock s"
proof -
  from assms(1) obtain samples where samples: "samples_of pg_float T s m = Inr samples"
    by (auto simp: forecast_monitor_def samples_of_def tx_bind_def split: sum.splits)
  show ?thesis
  proof (cases "due_forecast samples")
    case None
    then have t: "t = s\<lparr>disk_forecasts := delete_rows T (\<lambda>d. df_monitor_id d = row_id m) (disk_forecasts s)\<rparr>" and n: "n' = n"
      using assms(1) samples by (auto simp: forecast_monitor_def samples_of_def tx_bind_def sql_delete_def)
    have "forecasts_of i t = forecasts_of i s" if "i \<noteq> row_id m" for i
      using that by (auto simp: t forecasts_of_def delete_rows_def filter_filter intro!: filter_cong)
    moreover have "visible T (forecasts_of (row_id m) t) = []"
      by (auto simp: t forecasts_of_def delete_rows_def visible_def filter_empty_conv)
    ultimately show ?thesis using None samples n by (auto simp: forecast_settled_def has_forecast_def t)
  next
    case (Some fc)
    then obtain u where "upsert_forecast F T T m fc s = Inr (u, t)" and n: "n' = Suc n"
      using assms(1) samples by (auto simp: forecast_monitor_def samples_of_def tx_bind_def split: sum.splits)
    from upsert_forecast_run [OF this(1) assms(2)] n Some samples show ?thesis
      by (auto simp: forecast_settled_def has_forecast_def)
  qed
qed

lemma forecast_settled_view:
  assumes "monitor_checks s' = monitor_checks s" and "clock s' = clock s" and "forecasts_of (row_id m) t' = forecasts_of (row_id m) t"
  shows "forecast_settled pg_float T s' t' m = forecast_settled pg_float T s t m" and "has_forecast pg_float T s' m = has_forecast pg_float T s m"
  by (simp_all only: forecast_settled_def has_forecast_def samples_of_def disk_rows_def assms)

lemma forecast_monitors_run:
  assumes "tx_fold (forecast_monitor F pg_float T T) ms n s = Inr (n', t)" and "distinct (map row_id ms)"
    and "\<And>m. m \<in> set ms \<Longrightarrow> length (forecasts_of (row_id m) s) \<le> 1"
  shows "(\<forall>m \<in> set ms. forecast_settled pg_float T s t m) \<and> n' = n + length (filter (has_forecast pg_float T s) ms) \<and>
    (\<forall>i. i \<notin> row_id ` set ms \<longrightarrow> forecasts_of i t = forecasts_of i s)"
  using assms
proof (induction ms arbitrary: n s)
  case (Cons m ms)
  from Cons.prems(1) obtain k u where step: "forecast_monitor F pg_float T T m n s = Inr (k, u)"
    and rest: "tx_fold (forecast_monitor F pg_float T T) ms k u = Inr (n', t)"
    by (auto simp: tx_bind_def split: sum.splits)
  have "length (forecasts_of (row_id m) s) \<le> 1" using Cons.prems(3) by simp
  note one = forecast_monitor_run [OF step this]
  have ms: "row_id m \<notin> row_id ` set ms" using Cons.prems(2) by simp
  have u: "forecasts_of (row_id x) u = forecasts_of (row_id x) s" if "x \<in> set ms" for x using one that ms by (metis imageI)
  have IH: "(\<forall>x \<in> set ms. forecast_settled pg_float T u t x) \<and> n' = k + length (filter (has_forecast pg_float T u) ms) \<and>
      (\<forall>i. i \<notin> row_id ` set ms \<longrightarrow> forecasts_of i t = forecasts_of i u)"
    by (rule Cons.IH [OF rest]) (use Cons.prems u in auto)
  have "forecast_settled pg_float T s t m"
    using forecast_settled_view(1) [of s s m t u] one IH ms by simp
  moreover have "forecast_settled pg_float T s t x" if "x \<in> set ms" for x
    using forecast_settled_view(1) [of u s x t t pg_float T] one IH that by metis
  moreover have "filter (has_forecast pg_float T u) ms = filter (has_forecast pg_float T s) ms"
    using one by (intro filter_cong refl forecast_settled_view(2)) simp_all
  ultimately show ?case using one IH by auto
qed simp

text \<open>
  After a sweep of a tenant that succeeds, every server agent monitor of the tenant has one open forecast with
  the values its samples of the last week give, if these fill the disk within the horizon, and otherwise none; the
  sweep counts the forecasts. This also holds for a forecast that a user had dismissed: it is open again.
\<close>

theorem disk_forecasts_current:
  assumes "disk_sweepTenant F pg_float T s = (Inr n, t)" and "distinct (map row_id (monitors s))" and "distinct (map df_monitor_id (disk_forecasts s))"
  shows "let ms = filter (\<lambda>m. mo_monitor_type m = Mt_Server_Agent) (visible T (monitors s)) in
    (\<forall>m \<in> set ms. forecast_settled pg_float T s t m) \<and> n = length (filter (has_forecast pg_float T s) ms)"
proof -
  have "distinct (map row_id (filter P (monitors s)))" for P using assms(2) by (metis distinct_map_filter)
  then have d: "distinct (map row_id (filter (\<lambda>m. mo_monitor_type m = Mt_Server_Agent) (visible T (monitors s))))"
    by (simp add: visible_def)
  have "length (forecasts_of i s) \<le> 1" for i
  proof -
    have "distinct (map df_monitor_id (forecasts_of i s))" using assms(3) by (simp add: forecasts_of_def distinct_map_filter)
    moreover have "set (map df_monitor_id (forecasts_of i s)) \<subseteq> {i}" by (auto simp: forecasts_of_def)
    ultimately show ?thesis by (metis card_mono finite.emptyI finite_insert card.empty card_insert_disjoint distinct_card empty_iff length_map One_nat_def)
  qed
  with forecast_monitors_run [OF _ d, of F pg_float T 0 s n t] assms(1) show ?thesis
    by (auto simp: disk_sweepTenant_def withTenantContext_def tx_bind_def sql_select_def Let_def split: sum.splits)
qed

definition disk_check :: "nat \<Rightarrow> rat \<Rightarrow> monitor_check" where
  "disk_check day pct = \<lparr>row_id = 700 + day, tenant_id = 1, mc_monitor_id = row_id agent_monitor, mc_status = Up, mc_response_time_ms = None,
     mc_raw_output = JObj [(''diskPercent'', JNum pct)], mc_location = ''default'', mc_checked_at = int day * 86400000\<rparr>"

definition filling :: observability where
  "filling = observed\<lparr>clock := 172800000, monitors := [agent_monitor], monitor_checks := [disk_check 0 80, disk_check 1 85, disk_check 2 90],
     disk_forecasts := [\<lparr>row_id = 600, tenant_id = 1, df_monitor_id = row_id agent_monitor, df_resource_id = None, df_current_pct = 85, df_rate_per_day = 5,
       df_days_to_full = 3, df_reason_text = [], df_status = Df_Dismissed, df_created_at = 0, df_updated_at = 0\<rparr>]\<rparr>"

lemma filling_samples:
  "samples_of (\<lambda>_. None) 1 filling agent_monitor = Inr [\<lparr>ds_t = 0, ds_value = 80\<rparr>, \<lparr>ds_t = 86400000, ds_value = 85\<rparr>, \<lparr>ds_t = 172800000, ds_value = 90\<rparr>]"
  by (simp add: samples_of_def disk_rows_def filling_def disk_check_def agent_monitor_def order_by_def js_prop_def raw_number_def tenant_isolation_def
      LOOKBACK_DAYS_def MS_PER_DAY_def del: One_nat_def)

lemma filling_forecast:
  "due_forecast [\<lparr>ds_t = 0, ds_value = 80\<rparr>, \<lparr>ds_t = 86400000, ds_value = 85\<rparr>, \<lparr>ds_t = 172800000, ds_value = 90\<rparr>] =
     Some \<lparr>dq_daysToFull = 2, dq_ratePerDay = 5, dq_currentPct = 90\<rparr>"
  by (simp add: due_forecast_def forecastDaysToFull_def fit_line_def cov_step_def day_of_def MS_PER_DAY_def HORIZON_DAYS_def js_round_def Let_def power2_eq_square floor_eq_iff)

lemma filling_run: "\<exists>n t. disk_sweepTenant F (\<lambda>_. None) 1 filling = (Inr n, t)"
  using filling_samples filling_forecast
  by (simp add: disk_sweepTenant_def withTenantContext_def tx_bind_def sql_select_def filling_def agent_monitor_def forecast_monitor_def samples_of_def
      upsert_forecast_def sql_now_def sql_update_def tenant_isolation_def Let_def del: One_nat_def)

theorem disk_forecasts_current_witness:
  "\<exists>t d. disk_sweepTenant unary_format (\<lambda>_. None) 1 filling = (Inr 1, t) \<and> forecasts_of (row_id agent_monitor) t = [d] \<and> df_status d = Df_Open \<and> df_days_to_full d = 2"
proof -
  obtain n t where run: "disk_sweepTenant unary_format (\<lambda>_. None) 1 filling = (Inr n, t)" using filling_run by blast
  have ms: "filter (\<lambda>m. mo_monitor_type m = Mt_Server_Agent) (visible 1 (monitors filling)) = [agent_monitor]"
    by (simp add: filling_def agent_monitor_def web_monitor_def tenant_isolation_def del: One_nat_def)
  have "distinct (map row_id (monitors filling))" "distinct (map df_monitor_id (disk_forecasts filling))" by (simp_all add: filling_def)
  from disk_forecasts_current [OF run this] have "forecast_settled (\<lambda>_. None) 1 filling t agent_monitor"
    and "n = length (filter (has_forecast (\<lambda>_. None) 1 filling) [agent_monitor])" unfolding ms Let_def by simp_all
  with run show ?thesis by (auto simp: forecast_settled_def has_forecast_def filling_samples filling_forecast simp del: One_nat_def)
qed

end
