(* ===== verification/Cost_Math.thy ===== *)
theory Cost_Math
  imports Disk_Forecasts "HOL-Library.AList"
begin

text \<open>
  The arithmetic of the cost module: the pace of a budget (\<open>cost-pace.ts\<close>), the forecasts (\<open>forecast.ts\<close>), the test
  for anomalies (\<open>cost-anomaly-detect.ts\<close>), allocation tags (\<open>cost-allocation.ts\<close>), coverage and recommendation of
  commitments (\<open>commitments/commitment-coverage.ts\<close>, \<open>commitment-recommend.ts\<close>) and the sentence of a rightsizing
  recommendation (\<open>rightsizing-reason-text.ts\<close>). Amounts are rational numbers, square roots real ones.
  The lemmas: the tiers of a budget are the ones of its thresholds and more spend never gives a lower one; the
  forecasts lie in their bands, are exact for regular spend and the trend is the line of least squares; tags are
  normalised once and for all; a commitment never covers more than the spend or than it is worth, and the
  recommended level is exceeded on all but a fifth of the days.
\<close>

section \<open>Pace of a budget\<close>

definition js_toFixed1 :: "js_format \<Rightarrow> rat \<Rightarrow> string" where
  "js_toFixed1 F x =
     (if \<bar>x\<bar> \<ge> 10 ^ 21 then js_number_text F x
      else let n = nat \<lfloor>\<bar>x\<bar> * 10 + 1 / 2\<rfloor> in
        (if x < 0 then ''-'' else []) @ nat_text (n div 10) @ ''.'' @ [digit_char (n mod 10)])"

definition INFO_THRESHOLD_PCT :: rat where
  "INFO_THRESHOLD_PCT = 10"

record BudgetPaceInput =
  bi_mtdSpend :: rat
  bi_previousMonthTotal :: "rat option"
  bi_monthlyBudgetAmount :: "rat option"
  bi_daysElapsed :: int
  bi_daysInMonth :: int
  bi_warningThresholdPct :: rat
  bi_criticalThresholdPct :: rat

datatype baseline_source = By_Budget | By_Last_Month

record BudgetPaceResult =
  bp_projectedFullMonth :: rat
  bp_baseline :: rat
  bp_baselineSource :: baseline_source
  bp_pctOverPace :: rat
  bp_severity :: "alert_severity option"
  bp_hardCapBreached :: bool

definition calculateBudgetPace :: "BudgetPaceInput \<Rightarrow> BudgetPaceResult option" where
  "calculateBudgetPace input =
     (if bi_daysElapsed input \<le> 0 then None
      else case coalesce (bi_monthlyBudgetAmount input) (bi_previousMonthTotal input) of
        None \<Rightarrow> None
      | Some baseline \<Rightarrow>
          if baseline \<le> 0 then None
          else let projectedFullMonth = bi_mtdSpend input / of_int (bi_daysElapsed input) * of_int (bi_daysInMonth input);
                   pctOverPace = (projectedFullMonth - baseline) / baseline * 100;
                   hardCapBreached = (case bi_monthlyBudgetAmount input of None \<Rightarrow> False | Some b \<Rightarrow> bi_mtdSpend input > b);
                   severity = (if hardCapBreached \<or> pctOverPace \<ge> bi_criticalThresholdPct input then Some Sev_Critical
                               else if pctOverPace \<ge> bi_warningThresholdPct input then Some Sev_Warning
                               else if pctOverPace \<ge> INFO_THRESHOLD_PCT then Some Sev_Info else None)
               in Some \<lparr>bp_projectedFullMonth = projectedFullMonth, bp_baseline = baseline,
                        bp_baselineSource = (if bi_monthlyBudgetAmount input \<noteq> None then By_Budget else By_Last_Month),
                        bp_pctOverPace = pctOverPace, bp_severity = severity, bp_hardCapBreached = hardCapBreached\<rparr>)"

definition generateCostInsightText :: "js_format \<Rightarrow> string \<Rightarrow> BudgetPaceResult \<Rightarrow> string" where
  "generateCostInsightText F budgetName r =
     (if bp_hardCapBreached r
      then budgetName @ '' has already exceeded its monthly budget of '' @ js_toFixed2 F (bp_baseline r) @
        '' this month (spent so far puts it over, before the month is even out).''
      else budgetName @ [CHR 0x27] @ ''s month-to-date spend is on pace to '' @ (if bp_pctOverPace r \<ge> 0 then ''rise'' else ''drop'') @ '' '' @
        js_number_text F \<bar>js_round (bp_pctOverPace r)\<bar> @ ''% versus '' @
        (case bp_baselineSource r of By_Budget \<Rightarrow> ''its budget'' | By_Last_Month \<Rightarrow> ''last month'') @
        '', projected at '' @ js_toFixed2 F (bp_projectedFullMonth r) @ '' for the full month.'')"

text \<open>\<open>SEVERITY_RANK\<close> of \<open>cost-pace-check.service.ts\<close>.\<close>

fun SEVERITY_RANK :: "alert_severity \<Rightarrow> nat" where
  "SEVERITY_RANK Sev_Info = 1"
| "SEVERITY_RANK Sev_Warning = 2"
| "SEVERITY_RANK Sev_Critical = 3"

section \<open>Forecasts\<close>

definition MIN_DAYS_FOR_WEEKDAY_WEIGHTING :: nat where
  "MIN_DAYS_FOR_WEEKDAY_WEIGHTING = 7"

definition MIN_MONTHS_FOR_TREND :: nat where
  "MIN_MONTHS_FOR_TREND = 3"

record MonthEndForecastInput =
  mi_elapsedDailySpend :: "rat list"
  mi_elapsedDayOfWeek :: "int list"
  mi_remainingDayOfWeek :: "int list"

datatype forecast_method = Weekday_Weighted | Linear

record MonthEndForecastResult =
  mf_mtdSpend :: rat
  mf_projectedFullMonth :: rat
  mf_low :: real
  mf_high :: real
  mf_method :: forecast_method

definition spend_mean :: "rat list \<Rightarrow> rat" where
  "spend_mean vs = sum_list vs / of_nat (length vs)"

definition spend_stddev :: "rat list \<Rightarrow> rat \<Rightarrow> real" where
  "spend_stddev vs m = sqrt (of_rat ((\<Sum>v \<leftarrow> vs. (v - m) ^ 2) / of_nat (length vs)))"

text \<open>The bucket of a weekday, and its rate: \<open>weekdayAvg.get(dow) ?? overallAvg\<close>.\<close>

definition weekday_bucket :: "rat list \<Rightarrow> int list \<Rightarrow> int \<Rightarrow> rat list" where
  "weekday_bucket spend dows dow = map fst (filter (\<lambda>(amount, d). d = dow) (zip spend dows))"

definition weekday_rate :: "rat list \<Rightarrow> int list \<Rightarrow> int \<Rightarrow> rat" where
  "weekday_rate spend dows dow = (let bucket = weekday_bucket spend dows dow in
     if bucket = [] then spend_mean spend else spend_mean bucket)"

definition forecastMonthEnd :: "MonthEndForecastInput \<Rightarrow> MonthEndForecastResult option" where
  "forecastMonthEnd input =
     (let elapsed = mi_elapsedDailySpend input; remaining = mi_remainingDayOfWeek input in
      if elapsed = [] then None
      else let mtdSpend = sum_list elapsed;
               overallAvg = spend_mean elapsed;
               daySpread = spend_stddev elapsed overallAvg;
               (projectedRemaining, method) =
                 (if length elapsed < MIN_DAYS_FOR_WEEKDAY_WEIGHTING then (overallAvg * of_nat (length remaining), Linear)
                  else (\<Sum>dow \<leftarrow> remaining. weekday_rate elapsed (mi_elapsedDayOfWeek input) dow, Weekday_Weighted));
               projectedFullMonth = mtdSpend + projectedRemaining;
               bandWidth = daySpread * sqrt (real (length remaining))
           in Some \<lparr>mf_mtdSpend = mtdSpend, mf_projectedFullMonth = projectedFullMonth,
                    mf_low = max (of_rat mtdSpend) (of_rat projectedFullMonth - bandWidth),
                    mf_high = of_rat projectedFullMonth + bandWidth, mf_method = method\<rparr>)"

record MultiMonthForecastPoint =
  mp_monthsAhead :: nat
  mp_projected :: rat
  mp_low :: real
  mp_high :: real

record MultiMonthForecastResult =
  mm_points :: "MultiMonthForecastPoint list"
  mm_slopePerMonth :: rat
  mm_residualStddev :: real

text \<open>Slope and intercept of the regression over the positions of the list.\<close>

definition month_trend :: "rat list \<Rightarrow> rat \<times> rat" where
  "month_trend totals =
     (let xs = map of_nat [0..<length totals];
          xMean = spend_mean xs; yMean = spend_mean totals;
          numerator = (\<Sum>(x, y) \<leftarrow> zip xs totals. (x - xMean) * (y - yMean));
          denominator = (\<Sum>x \<leftarrow> xs. (x - xMean) ^ 2);
          slope = (if denominator > 0 then numerator / denominator else 0)
      in (slope, yMean - slope * xMean))"

definition forecast_point :: "nat \<Rightarrow> rat \<Rightarrow> rat \<Rightarrow> real \<Rightarrow> nat \<Rightarrow> MultiMonthForecastPoint" where
  "forecast_point n slope intercept residualStddev h =
     (let x = of_int (int n - 1 + int h); projected = max 0 (intercept + slope * x)
      in \<lparr>mp_monthsAhead = h, mp_projected = projected, mp_low = max 0 (of_rat projected - residualStddev),
          mp_high = of_rat projected + residualStddev\<rparr>)"

definition forecastMultiMonth :: "rat list \<Rightarrow> int \<Rightarrow> MultiMonthForecastResult option" where
  "forecastMultiMonth monthlyTotals horizonMonths =
     (let n = length monthlyTotals in
      if n < MIN_MONTHS_FOR_TREND \<or> horizonMonths < 1 then None
      else let (slope, intercept) = month_trend monthlyTotals;
               residuals = map (\<lambda>(x, y). y - (intercept + slope * x)) (zip (map of_nat [0..<n]) monthlyTotals);
               residualStddev = spend_stddev residuals 0
           in Some \<lparr>mm_points = map (forecast_point n slope intercept residualStddev) [1..<Suc (nat horizonMonths)],
                    mm_slopePerMonth = slope, mm_residualStddev = residualStddev\<rparr>)"

section \<open>Anomalies\<close>

record AnomalyThresholds =
  ath_minDeviationPct :: rat
  ath_minAbsoluteIncrease :: rat

definition DEFAULT_ANOMALY_THRESHOLDS :: AnomalyThresholds where
  "DEFAULT_ANOMALY_THRESHOLDS = \<lparr>ath_minDeviationPct = 50, ath_minAbsoluteIncrease = 5\<rparr>"

definition detectAnomaly :: "rat \<Rightarrow> rat \<Rightarrow> AnomalyThresholds \<Rightarrow> bool \<times> rat" where
  "detectAnomaly baselineDaily actual thresholds =
     (let increase = actual - baselineDaily;
          deviationPct = (if baselineDaily > 1 / 100 then increase / baselineDaily * 100 else if actual > 0 then 1000 else 0)
      in (increase \<ge> ath_minAbsoluteIncrease thresholds \<and> deviationPct \<ge> ath_minDeviationPct thresholds, js_round deviationPct))"

definition anomalyReasonText :: "js_format \<Rightarrow> string \<Rightarrow> string option \<Rightarrow> rat \<Rightarrow> rat \<Rightarrow> rat \<Rightarrow> string" where
  "anomalyReasonText F service region baselineDaily actual deviationPct =
     (case region of None \<Rightarrow> service | Some r \<Rightarrow> if r = [] then service else service @ '' in '' @ r) @
     '' spend rose '' @ js_number_text F deviationPct @ ''% to $'' @ js_toFixed2 F actual @ ''/day (baseline ~$'' @
     js_toFixed2 F baselineDaily @ ''/day).''"

section \<open>Allocation tags\<close>

text \<open>\<open>String(v)\<close> of a scalar; an assignment to \<open>__proto__\<close> of an object literal adds no entry.\<close>

definition tag_scalar :: "js_format \<Rightarrow> json \<Rightarrow> string option" where
  "tag_scalar F v = (case v of JStr s \<Rightarrow> Some s | JNum q \<Rightarrow> Some (js_number_text F q) | JBool b \<Rightarrow> Some (if b then ''true'' else ''false'')
     | JId u \<Rightarrow> Some (fmt_uuid F u) | _ \<Rightarrow> None)"

definition normalize_entry :: "js_format \<Rightarrow> string \<times> json \<Rightarrow> (string \<times> string) list \<Rightarrow> (string \<times> string) list" where
  "normalize_entry F entry out =
     (let key = js_trim (fst entry) in
      if key = [] then out
      else case tag_scalar F (snd entry) of
        None \<Rightarrow> out
      | Some s \<Rightarrow> (let v = js_trim s in if v = [] \<or> key = ''__proto__'' then out else AList.update key v out))"

definition normalizeAllocationTags :: "js_format \<Rightarrow> (string \<times> json) list option \<Rightarrow> (string \<times> string) list" where
  "normalizeAllocationTags F source = (case source of None \<Rightarrow> [] | Some entries \<Rightarrow> fold (normalize_entry F) entries [])"

text \<open>The map as the JSON of the column.\<close>

definition tags_json :: "(string \<times> string) list \<Rightarrow> (string \<times> json) list" where
  "tags_json tags = map (\<lambda>(k, v). (k, JStr v)) tags"

section \<open>Commitments\<close>

record DailySpendRow =
  dr_usage_date :: msec
  dr_amount :: rat

text \<open>The calendar day of an instant, which \<open>toISOString().slice(0, 10)\<close> denotes; days of the cursor.\<close>

definition iso_day :: "msec \<Rightarrow> int" where
  "iso_day t = t div MS_PER_DAY"

function spend_days :: "(int \<rightharpoonup> rat) \<Rightarrow> msec \<Rightarrow> msec \<Rightarrow> rat list" where
  "spend_days byDay cursor endDate = (if cursor \<le> endDate
     then (case byDay (iso_day cursor) of None \<Rightarrow> 0 | Some a \<Rightarrow> a) # spend_days byDay (cursor + MS_PER_DAY) endDate else [])"
  by pat_completeness auto
termination
  by (relation "measure (\<lambda>(byDay, cursor, endDate). nat (endDate + 1 - cursor))") (auto simp: MS_PER_DAY_def)

declare spend_days.simps [simp del]

definition buildDailySpend :: "msec \<Rightarrow> msec \<Rightarrow> DailySpendRow list \<Rightarrow> rat list" where
  "buildDailySpend startDate endDate rows = spend_days (map_of (rev (map (\<lambda>r. (iso_day (dr_usage_date r), dr_amount r)) rows))) startDate endDate"

record CoverageResult =
  cv_totalSpend :: rat
  cv_coveredSpend :: rat
  cv_coveragePct :: rat

definition computeCoverage :: "rat list \<Rightarrow> rat \<Rightarrow> CoverageResult" where
  "computeCoverage dailySpend dailyCommitmentAmount =
     (let totalSpend = sum_list dailySpend;
          coveredSpend = (\<Sum>v \<leftarrow> dailySpend. min v dailyCommitmentAmount)
      in \<lparr>cv_totalSpend = totalSpend, cv_coveredSpend = coveredSpend,
          cv_coveragePct = (if totalSpend > 0 then coveredSpend / totalSpend * 100 else 0)\<rparr>)"

record UtilizationResult =
  ut_committedTotal :: rat
  ut_usedTotal :: rat
  ut_utilizationPct :: rat
  ut_wastedAmount :: rat

definition computeUtilization :: "rat list \<Rightarrow> rat \<Rightarrow> UtilizationResult" where
  "computeUtilization dailySpend dailyCommitmentAmount =
     (let committedTotal = dailyCommitmentAmount * of_nat (length dailySpend);
          usedTotal = (\<Sum>v \<leftarrow> dailySpend. min v dailyCommitmentAmount)
      in \<lparr>ut_committedTotal = committedTotal, ut_usedTotal = usedTotal,
          ut_utilizationPct = (if committedTotal > 0 then usedTotal / committedTotal * 100 else 0),
          ut_wastedAmount = max 0 (committedTotal - usedTotal)\<rparr>)"

datatype CommitmentKind = Reserved_Instance | Savings_Plan

fun DISCOUNT_PCT :: "CommitmentKind \<Rightarrow> rat" where
  "DISCOUNT_PCT Reserved_Instance = 35 / 100"
| "DISCOUNT_PCT Savings_Plan = 27 / 100"

definition BASELINE_PERCENTILE :: rat where
  "BASELINE_PERCENTILE = 2 / 10"

definition MIN_DAYS :: nat where
  "MIN_DAYS = 14"

definition UPFRONT_SHARE :: rat where
  "UPFRONT_SHARE = 1 / 2"

record CommitmentRecommendation =
  cr_kind :: CommitmentKind
  cr_recommendedDailyCommitment :: rat
  cr_recommendedHourlyCommitment :: rat
  cr_estimatedMonthlySavings :: rat
  cr_breakEvenMonths :: rat
  cr_basedOnDays :: nat

definition spend_percentile :: "rat list \<Rightarrow> rat \<Rightarrow> rat" where
  "spend_percentile vs p =
     (if length vs = 1 then vs ! 0
      else let index = p * of_int (int (length vs) - 1); lower = \<lfloor>index\<rfloor>; upper = \<lceil>index\<rceil> in
        if lower = upper then vs ! nat lower
        else let weight = index - of_int lower in vs ! nat lower * (1 - weight) + vs ! nat upper * weight)"

definition recommendCommitment :: "rat list \<Rightarrow> CommitmentKind \<Rightarrow> CommitmentRecommendation option" where
  "recommendCommitment dailySpend kind =
     (if length dailySpend < MIN_DAYS then None
      else let recommendedDailyCommitment = spend_percentile (sort dailySpend) BASELINE_PERCENTILE in
        if recommendedDailyCommitment \<le> 0 then None
        else let discountPct = DISCOUNT_PCT kind;
                 estimatedMonthlySavings = recommendedDailyCommitment * 30 * discountPct;
                 annualDiscountedCost = recommendedDailyCommitment * 365 * (1 - discountPct);
                 upfrontCost = annualDiscountedCost * UPFRONT_SHARE;
                 breakEvenMonths = upfrontCost / estimatedMonthlySavings
             in Some \<lparr>cr_kind = kind, cr_recommendedDailyCommitment = recommendedDailyCommitment,
                      cr_recommendedHourlyCommitment = recommendedDailyCommitment / 24,
                      cr_estimatedMonthlySavings = estimatedMonthlySavings, cr_breakEvenMonths = breakEvenMonths,
                      cr_basedOnDays = length dailySpend\<rparr>)"

section \<open>Rightsizing\<close>

datatype RightsizingRecommendationType = Rs_Rightsize | Rs_Idle | Rs_Terminate

definition generateRightsizingReasonText :: "js_format \<Rightarrow> string \<Rightarrow> RightsizingRecommendationType \<Rightarrow> rat \<Rightarrow> string" where
  "generateRightsizingReasonText F resourceName type avgUtilizationPct =
     resourceName @ [CHR 0x27] @ ''s CPU utilization has averaged '' @ js_toFixed1 F avgUtilizationPct @ ''% over the last 14 days; consider '' @
     (if type = Rs_Idle then ''stopping or terminating it.'' else ''downsizing to a smaller instance type.'')"

fun SAVING_FRACTION :: "RightsizingRecommendationType \<Rightarrow> rat" where
  "SAVING_FRACTION Rs_Idle = 1"
| "SAVING_FRACTION Rs_Rightsize = 1 / 2"
| "SAVING_FRACTION Rs_Terminate = 1"

section \<open>Tiers of a budget\<close>

lemma pct_over:
  fixes baseline :: rat
  assumes "0 < baseline"
  shows "t \<le> (projected - baseline) / baseline * 100 \<longleftrightarrow> baseline * (1 + t / 100) \<le> projected"
proof -
  have "t \<le> (projected - baseline) / baseline * 100 \<longleftrightarrow> t * baseline \<le> (projected - baseline) * 100"
    using assms by (simp add: pos_le_divide_eq)
  also have "\<dots> \<longleftrightarrow> baseline * (1 + t / 100) \<le> projected" by (auto simp: field_simps)
  finally show ?thesis .
qed

definition cap_breached :: "BudgetPaceInput \<Rightarrow> bool" where
  "cap_breached i \<longleftrightarrow> (case bi_monthlyBudgetAmount i of None \<Rightarrow> False | Some b \<Rightarrow> b < bi_mtdSpend i)"

text \<open>The projection lies a percentage over the baseline, or more.\<close>

definition pace_reaches :: "BudgetPaceResult \<Rightarrow> rat \<Rightarrow> bool" where
  "pace_reaches r pct \<longleftrightarrow> bp_baseline r * (1 + pct / 100) \<le> bp_projectedFullMonth r"

definition severity_rank :: "alert_severity option \<Rightarrow> nat" where
  "severity_rank s = (case s of None \<Rightarrow> 0 | Some v \<Rightarrow> SEVERITY_RANK v)"

lemma budget_pace_Some:
  assumes "calculateBudgetPace i = Some r"
  shows "0 < bi_daysElapsed i \<and> coalesce (bi_monthlyBudgetAmount i) (bi_previousMonthTotal i) = Some (bp_baseline r) \<and> 0 < bp_baseline r \<and>
    bp_projectedFullMonth r = bi_mtdSpend i / of_int (bi_daysElapsed i) * of_int (bi_daysInMonth i) \<and> bp_hardCapBreached r = cap_breached i \<and>
    bp_severity r = (if cap_breached i \<or> bp_baseline r * (1 + bi_criticalThresholdPct i / 100) \<le> bp_projectedFullMonth r then Some Sev_Critical
      else if bp_baseline r * (1 + bi_warningThresholdPct i / 100) \<le> bp_projectedFullMonth r then Some Sev_Warning
      else if bp_baseline r * (1 + 10 / 100) \<le> bp_projectedFullMonth r then Some Sev_Info else None)"
proof -
  from assms obtain b where b: "coalesce (bi_monthlyBudgetAmount i) (bi_previousMonthTotal i) = Some b" and d: "0 < bi_daysElapsed i" and pos: "0 < b"
    by (auto simp: calculateBudgetPace_def split: if_splits option.splits)
  note pct = pct_over [OF pos]
  from assms b d pos show ?thesis
    by (auto simp: calculateBudgetPace_def Let_def INFO_THRESHOLD_PCT_def cap_breached_def pct [of _ "bi_mtdSpend i / of_int (bi_daysElapsed i) * of_int (bi_daysInMonth i)", simplified])
qed

lemma severity_rank_mono:
  assumes "c \<Longrightarrow> c'" and "w \<Longrightarrow> w'" and "n \<Longrightarrow> n'"
  shows "severity_rank (if c then Some Sev_Critical else if w then Some Sev_Warning else if n then Some Sev_Info else None)
    \<le> severity_rank (if c' then Some Sev_Critical else if w' then Some Sev_Warning else if n' then Some Sev_Info else None)"
  using assms by (simp add: severity_rank_def)

lemma budget_pace_same_baseline:
  assumes "calculateBudgetPace i = Some r"
  obtains r' where "calculateBudgetPace (i\<lparr>bi_mtdSpend := x\<rparr>) = Some r'" and "bp_baseline r' = bp_baseline r"
proof -
  from budget_pace_Some [OF assms] have "\<exists>r'. calculateBudgetPace (i\<lparr>bi_mtdSpend := x\<rparr>) = Some r'"
    by (auto simp: calculateBudgetPace_def Let_def)
  then obtain r' where r': "calculateBudgetPace (i\<lparr>bi_mtdSpend := x\<rparr>) = Some r'" ..
  with budget_pace_Some [OF assms] budget_pace_Some [OF r'] that show thesis by simp
qed

text \<open>
  C17. The tiers of a budget. When a pace is computed, the baseline is the monthly budget, or the spend of the previous month
  if there is none, and the projection is the daily spend so far over the days of the month. The pace is critical exactly if the
  spend has passed the budget or the projection reaches the critical threshold over the baseline; a warning exactly if it is not critical
  and the projection reaches the warning threshold; an information exactly if it is neither and the projection reaches ten percent over
  the baseline; and there is no alert exactly if the budget is not passed and the projection stays below all
  three thresholds. A higher spend, everything else equal, never gives a lower tier.
\<close>

theorem budget_pace_tiers:
  assumes "calculateBudgetPace i = Some r" and "0 \<le> bi_daysInMonth i" and "bi_mtdSpend i \<le> x"
  shows "Some (bp_baseline r) = (if bi_monthlyBudgetAmount i = None then bi_previousMonthTotal i else bi_monthlyBudgetAmount i) \<and>
    bp_projectedFullMonth r = bi_mtdSpend i / of_int (bi_daysElapsed i) * of_int (bi_daysInMonth i) \<and>
    (bp_severity r = Some Sev_Critical \<longleftrightarrow> cap_breached i \<or> pace_reaches r (bi_criticalThresholdPct i)) \<and>
    (bp_severity r = Some Sev_Warning \<longleftrightarrow>
      \<not> cap_breached i \<and> \<not> pace_reaches r (bi_criticalThresholdPct i) \<and> pace_reaches r (bi_warningThresholdPct i)) \<and>
    (bp_severity r = Some Sev_Info \<longleftrightarrow>
      \<not> cap_breached i \<and> \<not> pace_reaches r (bi_criticalThresholdPct i) \<and> \<not> pace_reaches r (bi_warningThresholdPct i) \<and> pace_reaches r 10) \<and>
    (bp_severity r = None \<longleftrightarrow> \<not> cap_breached i \<and>
      (\<forall>pct \<in> {bi_criticalThresholdPct i, bi_warningThresholdPct i, 10}. bp_projectedFullMonth r < bp_baseline r * (1 + pct / 100))) \<and>
    (\<exists>r'. calculateBudgetPace (i\<lparr>bi_mtdSpend := x\<rparr>) = Some r' \<and> severity_rank (bp_severity r) \<le> severity_rank (bp_severity r'))"
proof -
  note r = budget_pace_Some [OF assms(1)]
  obtain r' where r': "calculateBudgetPace (i\<lparr>bi_mtdSpend := x\<rparr>) = Some r'" and base: "bp_baseline r' = bp_baseline r"
    using budget_pace_same_baseline [OF assms(1)] by blast
  note s = budget_pace_Some [OF r']
  have proj: "bp_projectedFullMonth r \<le> bp_projectedFullMonth r'"
    using r s assms(2,3) by (simp add: divide_right_mono mult_right_mono)
  have cap: "cap_breached i \<Longrightarrow> cap_breached (i\<lparr>bi_mtdSpend := x\<rparr>)"
    using assms(3) by (auto simp: cap_breached_def split: option.splits)
  have up: "b \<le> bp_projectedFullMonth r \<Longrightarrow> b \<le> bp_projectedFullMonth r'" for b using proj by simp
  have "severity_rank (bp_severity r) \<le> severity_rank (bp_severity r')"
  proof -
    have sev: "bp_severity r = (if cap_breached i \<or> bp_baseline r * (1 + bi_criticalThresholdPct i / 100) \<le> bp_projectedFullMonth r then Some Sev_Critical
        else if bp_baseline r * (1 + bi_warningThresholdPct i / 100) \<le> bp_projectedFullMonth r then Some Sev_Warning
        else if bp_baseline r * (1 + 10 / 100) \<le> bp_projectedFullMonth r then Some Sev_Info else None)"
      using r by blast
    have sev': "bp_severity r' = (if cap_breached (i\<lparr>bi_mtdSpend := x\<rparr>) \<or> bp_baseline r * (1 + bi_criticalThresholdPct i / 100) \<le> bp_projectedFullMonth r' then Some Sev_Critical
        else if bp_baseline r * (1 + bi_warningThresholdPct i / 100) \<le> bp_projectedFullMonth r' then Some Sev_Warning
        else if bp_baseline r * (1 + 10 / 100) \<le> bp_projectedFullMonth r' then Some Sev_Info else None)"
      using s unfolding base by simp
    show ?thesis unfolding sev sev' by (rule severity_rank_mono) (use cap up in blast)+
  qed
  moreover have "bp_severity r = Some Sev_Critical \<longleftrightarrow> cap_breached i \<or> pace_reaches r (bi_criticalThresholdPct i)"
    "bp_severity r = Some Sev_Warning \<longleftrightarrow>
      \<not> cap_breached i \<and> \<not> pace_reaches r (bi_criticalThresholdPct i) \<and> pace_reaches r (bi_warningThresholdPct i)"
    "bp_severity r = Some Sev_Info \<longleftrightarrow>
      \<not> cap_breached i \<and> \<not> pace_reaches r (bi_criticalThresholdPct i) \<and> \<not> pace_reaches r (bi_warningThresholdPct i) \<and> pace_reaches r 10"
    using r unfolding pace_reaches_def by (simp_all del: distrib_left)
  moreover have "Some (bp_baseline r) = (if bi_monthlyBudgetAmount i = None then bi_previousMonthTotal i else bi_monthlyBudgetAmount i)"
    "bp_projectedFullMonth r = bi_mtdSpend i / of_int (bi_daysElapsed i) * of_int (bi_daysInMonth i)"
    using r by (auto simp: coalesce_def split: option.splits)
  moreover have "bp_severity r = None \<longleftrightarrow> \<not> cap_breached i \<and>
      (\<forall>pct \<in> {bi_criticalThresholdPct i, bi_warningThresholdPct i, 10}. bp_projectedFullMonth r < bp_baseline r * (1 + pct / 100))"
    using r by (auto simp: not_le)
  ultimately show ?thesis using r' by blast
qed

definition sample_pace :: BudgetPaceInput where
  "sample_pace = \<lparr>bi_mtdSpend = 60, bi_previousMonthTotal = Some 90, bi_monthlyBudgetAmount = Some 100, bi_daysElapsed = 15,
     bi_daysInMonth = 30, bi_warningThresholdPct = 20, bi_criticalThresholdPct = 40\<rparr>"

theorem budget_pace_tiers_witness:
  "\<exists>r r'. calculateBudgetPace sample_pace = Some r \<and> bp_severity r = Some Sev_Warning \<and>
     calculateBudgetPace (sample_pace\<lparr>bi_mtdSpend := 101\<rparr>) = Some r' \<and> severity_rank (bp_severity r) \<le> severity_rank (bp_severity r')"
proof -
  define r where "r = the (calculateBudgetPace sample_pace)"
  have r: "calculateBudgetPace sample_pace = Some r" "bp_severity r = Some Sev_Warning"
    by (simp_all add: r_def calculateBudgetPace_def sample_pace_def INFO_THRESHOLD_PCT_def)
  with budget_pace_tiers [OF r(1), of 101] show ?thesis by (simp add: sample_pace_def)
qed

text \<open>A budget of zero never alerts: without a positive baseline there is no result.\<close>

lemma zero_budget_never_alerts: "bi_monthlyBudgetAmount i = Some 0 \<Longrightarrow> calculateBudgetPace i = None"
  by (simp add: calculateBudgetPace_def)

section \<open>The forecast of the month\<close>

lemma spend_mean_replicate: "0 < n \<Longrightarrow> spend_mean (replicate n c) = c"
  by (simp add: spend_mean_def sum_list_replicate)

lemma spend_mean_const:
  assumes "\<forall>v \<in> set vs. v = c" and "vs \<noteq> []"
  shows "spend_mean vs = c"
proof -
  from assms(1) have "vs = replicate (length vs) c" by (simp add: list_eq_iff_nth_eq)
  with assms(2) show ?thesis by (metis length_greater_0_conv spend_mean_replicate)
qed

lemma spend_mean_nonneg: "\<forall>v \<in> set vs. 0 \<le> v \<Longrightarrow> 0 \<le> spend_mean vs"
  by (simp add: spend_mean_def sum_list_nonneg)

lemma weekday_bucket_subset: "set (weekday_bucket spend dows dow) \<subseteq> set spend"
  by (auto simp: weekday_bucket_def dest: set_zip_leftD)

lemma weekday_rate_nonneg: "\<forall>v \<in> set spend. 0 \<le> v \<Longrightarrow> 0 \<le> weekday_rate spend dows dow"
  using weekday_bucket_subset [of spend dows dow] by (auto simp: weekday_rate_def Let_def intro!: spend_mean_nonneg)

lemma weekday_rate_const:
  assumes "\<forall>v \<in> set spend. v = c" and "spend \<noteq> []"
  shows "weekday_rate spend dows dow = c"
proof (cases "weekday_bucket spend dows dow = []")
  case True
  with assms show ?thesis by (simp add: weekday_rate_def spend_mean_const)
next
  case False
  have "\<forall>v \<in> set (weekday_bucket spend dows dow). v = c" using assms(1) weekday_bucket_subset by blast
  with False show ?thesis by (simp add: weekday_rate_def Let_def spend_mean_const)
qed

definition projected_rest :: "MonthEndForecastInput \<Rightarrow> rat" where
  "projected_rest i = (if length (mi_elapsedDailySpend i) < 7 then spend_mean (mi_elapsedDailySpend i) * of_nat (length (mi_remainingDayOfWeek i))
     else (\<Sum>dow \<leftarrow> mi_remainingDayOfWeek i. weekday_rate (mi_elapsedDailySpend i) (mi_elapsedDayOfWeek i) dow))"

lemma forecastMonthEnd_Some:
  assumes "mi_elapsedDailySpend i \<noteq> []"
  shows "\<exists>r. forecastMonthEnd i = Some r \<and> mf_mtdSpend r = sum_list (mi_elapsedDailySpend i) \<and>
    mf_projectedFullMonth r = mf_mtdSpend r + projected_rest i \<and>
    (let band = spend_stddev (mi_elapsedDailySpend i) (spend_mean (mi_elapsedDailySpend i)) * sqrt (real (length (mi_remainingDayOfWeek i)))
     in mf_low r = max (of_rat (mf_mtdSpend r)) (of_rat (mf_projectedFullMonth r) - band) \<and> mf_high r = of_rat (mf_projectedFullMonth r) + band)"
  using assms by (simp add: forecastMonthEnd_def Let_def projected_rest_def MIN_DAYS_FOR_WEEKDAY_WEIGHTING_def)

lemma spend_stddev_nonneg: "0 \<le> spend_stddev vs m"
proof -
  have "0 \<le> (\<Sum>v \<leftarrow> vs. (v - m) ^ 2) / of_nat (length vs)" by (simp add: sum_list_squares_nonneg)
  then show ?thesis unfolding spend_stddev_def by simp
qed

lemma spend_stddev_const: "\<forall>v \<in> set vs. v = m \<Longrightarrow> spend_stddev vs m = 0"
  using sum_squares_zero [of m vs] by (simp add: spend_stddev_def)

text \<open>
  The forecast of the month. With some day of spend, no negative amount and a weekday for every day, there is a
  forecast; the spend so far is at most the lower end, the projection lies between the ends, and on the last day
  of the month all four are equal. If every day so far had the same spend, both methods project exactly that
  spend for every day of the month, with a band of no width.
\<close>

theorem month_end_forecast_band:
  assumes "mi_elapsedDailySpend i \<noteq> []" and nonneg: "\<forall>v \<in> set (mi_elapsedDailySpend i). 0 \<le> v"
  shows "\<exists>r. forecastMonthEnd i = Some r \<and> of_rat (sum_list (mi_elapsedDailySpend i)) \<le> mf_low r \<and>
    mf_low r \<le> of_rat (mf_projectedFullMonth r) \<and> of_rat (mf_projectedFullMonth r) \<le> mf_high r \<and>
    (mi_remainingDayOfWeek i = [] \<longrightarrow> mf_low r = of_rat (sum_list (mi_elapsedDailySpend i)) \<and> mf_high r = mf_low r) \<and>
    (\<forall>c. (\<forall>v \<in> set (mi_elapsedDailySpend i). v = c) \<longrightarrow>
      mf_projectedFullMonth r = c * of_nat (length (mi_elapsedDailySpend i) + length (mi_remainingDayOfWeek i)) \<and>
      mf_low r = of_rat (mf_projectedFullMonth r) \<and> mf_high r = mf_low r)"
proof -
  define elapsed remaining where "elapsed = mi_elapsedDailySpend i" and "remaining = mi_remainingDayOfWeek i"
  define band where "band = spend_stddev elapsed (spend_mean elapsed) * sqrt (real (length remaining))"
  obtain r where r: "forecastMonthEnd i = Some r" "mf_mtdSpend r = sum_list elapsed" "mf_projectedFullMonth r = mf_mtdSpend r + projected_rest i"
      "mf_low r = max (of_rat (mf_mtdSpend r)) (of_rat (mf_projectedFullMonth r) - band)" "mf_high r = of_rat (mf_projectedFullMonth r) + band"
    using forecastMonthEnd_Some [OF assms(1)] by (auto simp: Let_def band_def elapsed_def remaining_def)
  have band: "0 \<le> band" by (simp add: band_def spend_stddev_nonneg)
  have rest: "0 \<le> projected_rest i"
    using nonneg weekday_rate_nonneg [OF nonneg] spend_mean_nonneg [OF nonneg] by (auto simp: projected_rest_def intro!: sum_list_nonneg)
  then have le: "of_rat (sum_list elapsed) \<le> (of_rat (mf_projectedFullMonth r) :: real)" unfolding r(2,3) by (simp add: of_rat_less_eq)
  have last: "mf_low r = of_rat (sum_list elapsed) \<and> mf_high r = mf_low r" if "remaining = []"
    using that r by (simp add: band_def projected_rest_def remaining_def)
  have const: "mf_projectedFullMonth r = c * of_nat (length elapsed + length remaining) \<and> mf_low r = of_rat (mf_projectedFullMonth r) \<and> mf_high r = mf_low r"
    if c: "\<forall>v \<in> set elapsed. v = c" for c
  proof -
    have ne: "elapsed \<noteq> []" using assms(1) by (simp add: elapsed_def)
    have mean: "spend_mean elapsed = c" by (rule spend_mean_const [OF c ne])
    then have zero: "band = 0" using spend_stddev_const [of elapsed c] c by (simp add: band_def)
    have "elapsed = replicate (length elapsed) c" using c by (simp add: list_eq_iff_nth_eq)
    then have "sum_list elapsed = of_nat (length elapsed) * c" by (metis sum_list_replicate)
    moreover have "projected_rest i = of_nat (length remaining) * c"
      using mean weekday_rate_const [OF c ne] by (simp add: projected_rest_def elapsed_def [symmetric] remaining_def [symmetric] sum_list_triv)
    ultimately have "mf_projectedFullMonth r = c * of_nat (length elapsed + length remaining)" using r(2,3) by (simp add: algebra_simps)
    moreover have "mf_low r = of_rat (mf_projectedFullMonth r)" using r(2,4) le zero by (simp add: max_def)
    ultimately show ?thesis using r(5) zero by simp
  qed
  have "of_rat (sum_list elapsed) \<le> mf_low r" "mf_low r \<le> of_rat (mf_projectedFullMonth r)" "of_rat (mf_projectedFullMonth r) \<le> mf_high r"
    using r(2,4,5) le band by simp_all
  with r(1) last const show ?thesis unfolding elapsed_def remaining_def by blast
qed

definition sample_month :: MonthEndForecastInput where
  "sample_month = \<lparr>mi_elapsedDailySpend = [10, 10, 10, 10, 10, 10, 10, 10], mi_elapsedDayOfWeek = [1, 2, 3, 4, 5, 6, 0, 1], mi_remainingDayOfWeek = [2, 3]\<rparr>"

theorem month_end_forecast_band_witness:
  "\<exists>r. forecastMonthEnd sample_month = Some r \<and> mf_projectedFullMonth r = 100 \<and> mf_low r = 100"
proof -
  obtain r where "forecastMonthEnd sample_month = Some r" and
      "\<forall>c. (\<forall>v \<in> set (mi_elapsedDailySpend sample_month). v = c) \<longrightarrow>
        mf_projectedFullMonth r = c * of_nat (length (mi_elapsedDailySpend sample_month) + length (mi_remainingDayOfWeek sample_month)) \<and>
        mf_low r = of_rat (mf_projectedFullMonth r) \<and> mf_high r = mf_low r"
    using month_end_forecast_band [of sample_month] by (auto simp: sample_month_def)
  then show ?thesis by (auto simp: sample_month_def dest!: spec [of _ 10])
qed

section \<open>The trend\<close>

lemma month_trend_fit_line:
  assumes "2 \<le> length totals"
  shows "fit_line (map of_nat [0..<length totals]) totals = Some (month_trend totals)"
proof -
  define xs :: "rat list" where "xs = map of_nat [0..<length totals]"
  define m where "m = spend_mean xs"
  have len: "length xs = length totals" by (simp add: xs_def)
  have "(\<Sum>x \<leftarrow> xs. (x - m) ^ 2) \<noteq> 0"
  proof
    assume "(\<Sum>x \<leftarrow> xs. (x - m) ^ 2) = 0"
    then have "\<forall>x \<in> set xs. x = m" by (simp add: sum_squares_zero)
    moreover have "0 \<in> set xs" "1 \<in> set xs" using assms by (auto simp: xs_def image_iff intro: bexI [of _ 0] bexI [of _ 1])
    ultimately show False by (metis zero_neq_one)
  qed
  moreover have "0 \<le> (\<Sum>x \<leftarrow> xs. (x - m) ^ 2)" by (rule sum_list_squares_nonneg)
  ultimately show ?thesis
    using fit_line_sums [OF len] by (simp add: month_trend_def Let_def m_def spend_mean_def xs_def [symmetric] len)
qed

lemma forecastMultiMonth_Some:
  "forecastMultiMonth totals h \<noteq> None \<longleftrightarrow> 3 \<le> length totals \<and> 1 \<le> h"
  by (auto simp: forecastMultiMonth_def Let_def MIN_MONTHS_FOR_TREND_def case_prod_unfold)

text \<open>Totals that lie on a line are continued along it, without a band, as long as it stays above zero.\<close>

lemma squared_error_zero: "squared_error b a ps = 0 \<longleftrightarrow> (\<forall>(x, y) \<in> set ps. y = a + b * x)"
  unfolding squared_error_def
  by (induction ps) (auto simp: case_prod_unfold add_nonneg_eq_0_iff sum_list_squares_nonneg)

lemma month_trend_exact:
  assumes "2 \<le> length totals" and line: "\<And>k. k < length totals \<Longrightarrow> totals ! k = a + b * of_nat k"
  shows "month_trend totals = (b, a)"
proof -
  define xs :: "rat list" where "xs = map of_nat [0..<length totals]"
  obtain sl ic where trend: "month_trend totals = (sl, ic)" by fastforce
  have fit: "fit_line xs totals = Some (sl, ic)" using month_trend_fit_line [OF assms(1)] by (simp add: xs_def trend)
  have pair: "(of_nat k, totals ! k) \<in> set (zip xs totals)" if "k < length totals" for k
    using that by (auto simp: xs_def in_set_zip intro!: exI [of _ k])
  have "squared_error b a (zip xs totals) = 0"
    unfolding squared_error_zero using line by (auto simp: xs_def in_set_zip)
  moreover have "totals \<noteq> []" using assms(1) by auto
  then have "length xs = length totals" "xs \<noteq> []" by (simp_all add: xs_def)
  then have "squared_error sl ic (zip xs totals) \<le> squared_error b a (zip xs totals)" by (rule fit_line_optimal(2) [OF _ _ fit])
  moreover have "0 \<le> squared_error sl ic (zip xs totals)"
    unfolding squared_error_def using sum_list_squares_nonneg [of "\<lambda>(x, y). y - (ic + sl * x)" "zip xs totals"] by (simp add: case_prod_unfold)
  ultimately have "squared_error sl ic (zip xs totals) = 0" by simp
  then have on: "totals ! k = ic + sl * of_nat k" if "k < length totals" for k
    using pair [OF that] by (auto simp: squared_error_zero)
  have "0 < length totals" "1 < length totals" using assms(1) by linarith+
  from on [OF this(1)] line [OF this(1)] on [OF this(2)] line [OF this(2)] show ?thesis by (simp add: trend)
qed

lemma multi_month_exact:
  assumes "3 \<le> length totals" and "1 \<le> h" and line: "\<And>k. k < length totals \<Longrightarrow> totals ! k = a + b * of_nat k"
    and up: "0 \<le> b" and start: "0 \<le> a"
  shows "\<exists>r. forecastMultiMonth totals h = Some r \<and> mm_slopePerMonth r = b \<and> mm_residualStddev r = 0 \<and>
    mm_points r = map (\<lambda>k. let v = a + b * of_nat (length totals - 1 + k)
      in \<lparr>mp_monthsAhead = k, mp_projected = v, mp_low = of_rat v, mp_high = of_rat v\<rparr>) [1..<Suc (nat h)]"
proof -
  have trend: "month_trend totals = (b, a)" using assms(1) line by (intro month_trend_exact) simp_all
  have res: "spend_stddev (map (\<lambda>(x, y). y - (a + b * x)) (zip (map of_nat [0..<length totals]) totals)) 0 = 0"
    by (rule spend_stddev_const) (use line in \<open>auto simp: in_set_zip\<close>)
  have x: "of_int (int (length totals) - 1 + int k) = (of_nat (length totals - 1 + k) :: rat)" for k
    using assms(1) by (simp add: of_nat_diff)
  have nonneg: "0 \<le> a + b * of_nat j" for j using up start by simp
  have "forecast_point (length totals) b a 0 = (\<lambda>k. let v = a + b * of_nat (length totals - 1 + k)
      in \<lparr>mp_monthsAhead = k, mp_projected = v, mp_low = of_rat v, mp_high = of_rat v\<rparr>)"
    unfolding forecast_point_def x Let_def using nonneg by (intro ext) (simp add: max_def del: of_nat_add)
  with trend res assms(1,2) show ?thesis
    by (simp add: forecastMultiMonth_def MIN_MONTHS_FOR_TREND_def Let_def del: upt_Suc)
qed

section \<open>Tags\<close>

lemma trim_end_front:
  assumes "u = [] \<or> \<not> P (hd u)"
  shows "dropWhile P (rev (dropWhile P (rev u))) = rev (dropWhile P (rev u))"
proof (cases "rev (dropWhile P (rev u))")
  case (Cons c cs)
  have "u = rev (dropWhile P (rev u)) @ rev (takeWhile P (rev u))" by (metis rev_append rev_rev_ident takeWhile_dropWhile_id)
  then have "u \<noteq> [] \<and> hd u = c" unfolding Cons by (metis append_Cons list.sel(1) list.distinct(1))
  with assms Cons show ?thesis by simp
next
  case Nil
  then show ?thesis by (simp only: dropWhile.simps)
qed

lemma js_trim_idem [simp]: "js_trim (js_trim s) = js_trim s"
proof -
  have "dropWhile js_space s = [] \<or> \<not> js_space (hd (dropWhile js_space s))" using hd_dropWhile [of js_space s] by blast
  from trim_end_front [where P = js_space, OF this] show ?thesis by (simp add: js_trim_def)
qed

definition clean_tag :: "string \<times> string \<Rightarrow> bool" where
  "clean_tag = (\<lambda>(k, v). js_trim k = k \<and> k \<noteq> [] \<and> k \<noteq> ''__proto__'' \<and> js_trim v = v \<and> v \<noteq> [])"

lemma update_new_key: "k \<notin> fst ` set out \<Longrightarrow> AList.update k v out = out @ [(k, v)]"
  by (induction out) auto

lemma update_clean: "list_all clean_tag out \<Longrightarrow> clean_tag (k, v) \<Longrightarrow> list_all clean_tag (AList.update k v out)"
  by (induction out) (auto simp: clean_tag_def)

lemma normalize_entry_clean:
  assumes "distinct (map fst out)" and "list_all clean_tag out"
  shows "distinct (map fst (normalize_entry F entry out)) \<and> list_all clean_tag (normalize_entry F entry out)"
proof (cases "js_trim (fst entry) = [] \<or> tag_scalar F (snd entry) = None")
  case True
  with assms show ?thesis by (auto simp: normalize_entry_def Let_def)
next
  case False
  then obtain v where "tag_scalar F (snd entry) = Some v" and key: "js_trim (fst entry) \<noteq> []" by auto
  then show ?thesis using assms distinct_update [of out] update_clean [of out "js_trim (fst entry)" "js_trim v"]
    by (auto simp: normalize_entry_def Let_def clean_tag_def)
qed

lemma normalize_clean: "distinct (map fst (normalizeAllocationTags F src)) \<and> list_all clean_tag (normalizeAllocationTags F src)"
proof -
  have "distinct (map fst out) \<Longrightarrow> list_all clean_tag out \<Longrightarrow>
      distinct (map fst (fold (normalize_entry F) entries out)) \<and> list_all clean_tag (fold (normalize_entry F) entries out)" for entries out
    by (induction entries arbitrary: out) (use normalize_entry_clean in \<open>auto simp del: distinct_map\<close>)
  then show ?thesis by (simp add: normalizeAllocationTags_def split: option.splits)
qed

lemma normalize_clean_id:
  assumes "distinct (map fst tags)" and "list_all clean_tag tags"
  shows "normalizeAllocationTags F (Some (tags_json tags)) = tags"
proof -
  have "distinct (map fst (out @ rest)) \<Longrightarrow> list_all clean_tag rest \<Longrightarrow>
      fold (normalize_entry F) (tags_json rest) out = out @ rest" for out rest
  proof (induction rest arbitrary: out)
    case (Cons e rest)
    obtain k v where e: "e = (k, v)" by fastforce
    have "k \<notin> fst ` set out" using Cons.prems(1) e by auto
    then have "normalize_entry F (k, JStr v) out = out @ [e]"
      using Cons.prems(2) by (simp add: e normalize_entry_def Let_def tag_scalar_def clean_tag_def update_new_key)
    with Cons.IH [of "out @ [e]"] Cons.prems show ?case by (simp add: tags_json_def e)
  qed (simp add: tags_json_def)
  from this [of "[]"] assms show ?thesis by (simp add: normalizeAllocationTags_def)
qed

text \<open>Normalising stored tags again changes nothing.\<close>

lemma normalize_idempotent:
  "normalizeAllocationTags F (Some (tags_json (normalizeAllocationTags F src))) = normalizeAllocationTags F src"
  using normalize_clean_id normalize_clean by blast

section \<open>Coverage\<close>

lemma covered_bounds:
  fixes c :: rat
  assumes "\<forall>v \<in> set spend. 0 \<le> v" and "0 \<le> c"
  shows "0 \<le> (\<Sum>v \<leftarrow> spend. min v c)" and "(\<Sum>v \<leftarrow> spend. min v c) \<le> sum_list spend" and "(\<Sum>v \<leftarrow> spend. min v c) \<le> c * of_nat (length spend)"
proof -
  show "0 \<le> (\<Sum>v \<leftarrow> spend. min v c)" using assms by (auto intro!: sum_list_nonneg)
  show "(\<Sum>v \<leftarrow> spend. min v c) \<le> sum_list spend" by (induction spend) (auto intro: add_mono)
  show "(\<Sum>v \<leftarrow> spend. min v c) \<le> c * of_nat (length spend)"
  proof (induction spend)
    case (Cons v vs)
    have "min v c + (\<Sum>v \<leftarrow> vs. min v c) \<le> c + c * of_nat (length vs)" using Cons by (intro add_mono) simp_all
    then show ?case by (simp add: algebra_simps)
  qed simp
qed

text \<open>
  Coverage and utilisation of a commitment. For spend and commitment that are not negative, both results count the
  same amount as covered, at most the spend and at most the commitment; the percentages are between 0 and 100;
  what is used and what is wasted add up to what was committed; and the coverage is complete exactly if there is
  spend and no day exceeds the commitment.
\<close>

theorem commitment_coverage:
  assumes "\<forall>v \<in> set spend. 0 \<le> v" and "0 \<le> c"
  shows "cv_coveredSpend (computeCoverage spend c) = ut_usedTotal (computeUtilization spend c) \<and>
    cv_coveredSpend (computeCoverage spend c) \<le> cv_totalSpend (computeCoverage spend c) \<and>
    ut_usedTotal (computeUtilization spend c) + ut_wastedAmount (computeUtilization spend c) = ut_committedTotal (computeUtilization spend c) \<and>
    cv_coveragePct (computeCoverage spend c) \<in> {0..100} \<and> ut_utilizationPct (computeUtilization spend c) \<in> {0..100} \<and>
    (cv_coveragePct (computeCoverage spend c) = 100 \<longleftrightarrow> (\<exists>v \<in> set spend. 0 < v) \<and> (\<forall>v \<in> set spend. v \<le> c))"
proof -
  define covered total where "covered = (\<Sum>v \<leftarrow> spend. min v c)" and "total = sum_list spend"
  have bounds: "0 \<le> covered" "covered \<le> total" "covered \<le> c * of_nat (length spend)"
    using covered_bounds [OF assms] by (simp_all add: covered_def total_def)
  have full: "covered = total \<longleftrightarrow> (\<forall>v \<in> set spend. v \<le> c)"
  proof -
    have "total - covered = (\<Sum>v \<leftarrow> spend. v - min v c)" by (simp add: covered_def total_def sum_list_subtractf)
    moreover have "(\<Sum>v \<leftarrow> spend. v - min v c) = 0 \<longleftrightarrow> (\<forall>x \<in> set (map (\<lambda>v. v - min v c) spend). x = 0)"
      by (rule sum_list_nonneg_eq_0_iff) auto
    ultimately have "total - covered = 0 \<longleftrightarrow> (\<forall>v \<in> set spend. v - min v c = 0)" by simp
    then show ?thesis by (auto simp: min_def not_le split: if_splits)
  qed
  have pos: "0 < total \<longleftrightarrow> (\<exists>v \<in> set spend. 0 < v)"
    using assms(1) sum_list_nonneg_eq_0_iff [of spend] sum_list_nonneg [of spend]
    by (auto simp: total_def less_le)
  have pct: "0 \<le> x / y * 100 \<and> x / y * 100 \<le> 100" if "0 \<le> x" "x \<le> y" "0 < y" for x y :: rat
    using that by (simp add: divide_le_eq)
  have "cv_coveragePct (computeCoverage spend c) \<in> {0..100}" "ut_utilizationPct (computeUtilization spend c) \<in> {0..100}"
    using pct [OF bounds(1,2)] pct [OF bounds(1,3)] by (simp_all add: computeCoverage_def computeUtilization_def Let_def covered_def total_def)
  moreover have "cv_coveragePct (computeCoverage spend c) = 100 \<longleftrightarrow> (\<exists>v \<in> set spend. 0 < v) \<and> (\<forall>v \<in> set spend. v \<le> c)"
    using pos full by (auto simp: computeCoverage_def Let_def covered_def [symmetric] total_def [symmetric] divide_eq_eq)
  ultimately show ?thesis
    using bounds by (simp add: computeCoverage_def computeUtilization_def Let_def covered_def [symmetric] total_def [symmetric] max_def)
qed

theorem commitment_coverage_witness:
  "ut_usedTotal (computeUtilization [5, 0, 12] 10) + ut_wastedAmount (computeUtilization [5, 0, 12] 10) = ut_committedTotal (computeUtilization [5, 0, 12] 10) \<and>
   ut_usedTotal (computeUtilization [5, 0, 12] 10) = 15"
  using commitment_coverage [of "[5, 0, 12]" 10] by (simp add: computeUtilization_def)

section \<open>Daily spend\<close>

lemma iso_day_next [simp]: "iso_day (t + MS_PER_DAY) = iso_day t + 1"
  by (simp add: iso_day_def MS_PER_DAY_def)

lemma spend_days_map:
  "spend_days byDay cursor endDate = map (\<lambda>k. case byDay (iso_day cursor + int k) of None \<Rightarrow> 0 | Some a \<Rightarrow> a) [0..<nat ((endDate - cursor) div MS_PER_DAY + 1)]"
proof (induction byDay cursor endDate rule: spend_days.induct)
  case (1 byDay cursor endDate)
  show ?case
  proof (cases "cursor \<le> endDate")
    case True
    define n where "n = nat ((endDate - (cursor + MS_PER_DAY)) div MS_PER_DAY + 1)"
    have "(endDate - (cursor + MS_PER_DAY)) div MS_PER_DAY = (endDate - cursor) div MS_PER_DAY - 1"
      using div_add_self2 [of MS_PER_DAY "endDate - cursor - MS_PER_DAY"] by (simp add: MS_PER_DAY_def diff_diff_eq)
    moreover have "0 \<le> (endDate - cursor) div MS_PER_DAY" using True by (simp add: MS_PER_DAY_def pos_imp_zdiv_nonneg_iff)
    ultimately have n: "nat ((endDate - cursor) div MS_PER_DAY + 1) = Suc n" by (simp add: n_def)
    show ?thesis unfolding n
      using True 1 by (subst spend_days.simps) (simp add: n_def [symmetric] upt_conv_Cons map_Suc_upt [symmetric] o_def add.assoc del: upt_Suc)
  next
    case False
    then have "(endDate - cursor) div MS_PER_DAY < 0" by (simp add: MS_PER_DAY_def pos_imp_zdiv_neg_iff)
    with False show ?thesis by (subst spend_days.simps) simp
  qed
qed

lemma sum_list_single:
  fixes a :: rat
  assumes "distinct ds" and "k \<in> set ds"
  shows "(\<Sum>d \<leftarrow> ds. if d = k then a else 0) = a"
proof -
  have none: "k \<notin> set es \<Longrightarrow> (\<Sum>d \<leftarrow> es. if d = k then a else 0) = 0" for es by (induction es) auto
  show ?thesis using assms by (induction ds) (auto simp: none)
qed

lemma sum_zero_filled:
  fixes ps :: "(int \<times> rat) list"
  assumes "distinct (map fst ps)" and "fst ` set ps \<subseteq> set ds" and "distinct ds"
  shows "(\<Sum>d \<leftarrow> ds. case map_of ps d of None \<Rightarrow> 0 | Some a \<Rightarrow> a) = (\<Sum>p \<leftarrow> ps. snd p)"
  using assms
proof (induction ps)
  case (Cons p ps)
  obtain k a where p: "p = (k, a)" by fastforce
  have "map_of ps k = None" using Cons.prems(1) p by (simp add: map_of_eq_None_iff)
  then have "(case map_of (p # ps) d of None \<Rightarrow> 0 | Some a \<Rightarrow> a) = (if d = k then a else 0) + (case map_of ps d of None \<Rightarrow> 0 | Some a \<Rightarrow> a)" for d
    by (simp add: p)
  then have "(\<Sum>d \<leftarrow> ds. case map_of (p # ps) d of None \<Rightarrow> 0 | Some a \<Rightarrow> a) =
      (\<Sum>d \<leftarrow> ds. if d = k then a else 0) + (\<Sum>d \<leftarrow> ds. case map_of ps d of None \<Rightarrow> 0 | Some a \<Rightarrow> a)"
    by (simp only: sum_list_addf)
  moreover have "k \<in> set ds" using Cons.prems(2) p by simp
  ultimately show ?case using Cons by (simp add: p sum_list_single)
qed (simp add: sum_list_0)

text \<open>Filling the days without a row loses nothing: one number per day, with the sum of the rows.\<close>

lemma buildDailySpend_total:
  assumes "distinct (map (\<lambda>r. iso_day (dr_usage_date r)) rows)" and "startDate \<le> endDate"
    and "\<And>r. r \<in> set rows \<Longrightarrow> iso_day (dr_usage_date r) \<in> {iso_day startDate..iso_day startDate + (endDate - startDate) div MS_PER_DAY}"
  shows "length (buildDailySpend startDate endDate rows) = Suc (nat ((endDate - startDate) div MS_PER_DAY)) \<and>
    sum_list (buildDailySpend startDate endDate rows) = (\<Sum>r \<leftarrow> rows. dr_amount r)"
proof -
  define ps where "ps = rev (map (\<lambda>r. (iso_day (dr_usage_date r), dr_amount r)) rows)"
  define n where "n = nat ((endDate - startDate) div MS_PER_DAY)"
  have nn: "0 \<le> (endDate - startDate) div MS_PER_DAY" using assms(2) by (simp add: MS_PER_DAY_def pos_imp_zdiv_nonneg_iff)
  define ds where "ds = map (\<lambda>k. iso_day startDate + int k) [0..<Suc n]"
  have days: "buildDailySpend startDate endDate rows = map (\<lambda>d. case map_of ps d of None \<Rightarrow> 0 | Some a \<Rightarrow> a) ds"
  proof -
    have "nat ((endDate - startDate) div MS_PER_DAY + 1) = Suc n" using nn by (simp add: n_def)
    then show ?thesis unfolding buildDailySpend_def spend_days_map ps_def [symmetric] ds_def by (simp only: map_map o_def)
  qed
  have "map fst ps = rev (map (\<lambda>r. iso_day (dr_usage_date r)) rows)" by (simp add: ps_def rev_map)
  with assms(1) have "distinct (map fst ps)" by (simp only: distinct_rev)
  moreover have "iso_day (dr_usage_date r) \<in> set ds" if "r \<in> set rows" for r
    using assms(3) [OF that] nn by (auto simp: ds_def n_def image_iff simp del: upt_Suc intro!: bexI [of _ "nat (iso_day (dr_usage_date r) - iso_day startDate)"])
  then have "fst ` set ps \<subseteq> set ds" by (auto simp: ps_def)
  moreover have "distinct ds" by (simp add: ds_def distinct_map inj_on_def del: upt_Suc)
  ultimately have "sum_list (map (\<lambda>d. case map_of ps d of None \<Rightarrow> 0 | Some a \<Rightarrow> a) ds) = (\<Sum>p \<leftarrow> ps. snd p)" by (rule sum_zero_filled)
  also have "\<dots> = (\<Sum>r \<leftarrow> rows. dr_amount r)" by (simp add: ps_def rev_map [symmetric] o_def sum_list_rev del: rev_map)
  finally show ?thesis by (simp add: days ds_def n_def)
qed

section \<open>The recommended level\<close>

lemma length_filter_impl: "(\<And>x. P x \<Longrightarrow> Q x) \<Longrightarrow> length (filter P xs) \<le> length (filter Q xs)"
  by (induction xs) auto

lemma count_below_nth:
  fixes vs :: "rat list"
  assumes "sorted vs" and "u < length vs"
  shows "length (filter (\<lambda>v. v < vs ! u) vs) \<le> u"
proof -
  have "filter (\<lambda>v. v < vs ! u) (drop u vs) = []"
    using assms by (auto simp: filter_empty_conv in_set_conv_nth not_less intro!: sorted_nth_mono)
  then have "filter (\<lambda>v. v < vs ! u) vs = filter (\<lambda>v. v < vs ! u) (take u vs)"
    by (metis append_Nil2 append_take_drop_id filter_append)
  then show ?thesis by (metis length_filter_le length_take min.bounded_iff order_trans min.cobounded2)
qed

lemma percentile_below:
  assumes "sorted vs" and "2 \<le> length vs" and "0 \<le> p" and "p \<le> 1"
  shows "spend_percentile vs p \<le> vs ! nat \<lceil>p * of_int (int (length vs) - 1)\<rceil> \<and> nat \<lceil>p * of_int (int (length vs) - 1)\<rceil> < length vs"
proof -
  define x where "x = p * of_int (int (length vs) - 1)"
  have x: "0 \<le> x" "x \<le> of_int (int (length vs) - 1)" using assms(2-4) by (auto simp: x_def mult_left_le_one_le)
  then have up: "\<lceil>x\<rceil> \<le> int (length vs) - 1" by (metis ceiling_le_iff)
  have lo: "0 \<le> \<lfloor>x\<rfloor>" "\<lfloor>x\<rfloor> \<le> \<lceil>x\<rceil>" using x(1) by (simp_all add: floor_le_ceiling)
  have mono: "vs ! nat \<lfloor>x\<rfloor> \<le> vs ! nat \<lceil>x\<rceil>" using assms(1) lo up by (intro sorted_nth_mono) linarith+
  define w where "w = x - of_int \<lfloor>x\<rfloor>"
  have w: "0 \<le> w" "w \<le> 1" unfolding w_def by linarith+
  have "vs ! nat \<lfloor>x\<rfloor> * (1 - w) \<le> vs ! nat \<lceil>x\<rceil> * (1 - w)" using mono w by (intro mult_right_mono) simp_all
  then have "vs ! nat \<lfloor>x\<rfloor> * (1 - w) + vs ! nat \<lceil>x\<rceil> * w \<le> vs ! nat \<lceil>x\<rceil>" by (simp add: algebra_simps)
  moreover have "spend_percentile vs p = (if \<lfloor>x\<rfloor> = \<lceil>x\<rceil> then vs ! nat \<lfloor>x\<rfloor> else vs ! nat \<lfloor>x\<rfloor> * (1 - w) + vs ! nat \<lceil>x\<rceil> * w)"
    using assms(2) unfolding spend_percentile_def Let_def x_def [symmetric] w_def [symmetric] by simp
  moreover have "nat \<lceil>x\<rceil> < length vs" using up assms(2) by linarith
  ultimately show ?thesis unfolding x_def [symmetric] by simp
qed

text \<open>
  The level that is recommended is exceeded or met on all but a fifth of the days. The time to break even does not
  depend on the spend: about 11.3 months for a reserved instance, and 16.4 months, longer than the term of a year, for a
  savings plan.
\<close>

lemma recommendCommitment_level:
  assumes "recommendCommitment spend kind = Some r"
  shows "0 < cr_recommendedDailyCommitment r \<and> 14 \<le> length spend \<and>
    length (filter (\<lambda>v. v < cr_recommendedDailyCommitment r) spend) \<le> nat \<lceil>(of_int (int (length spend) - 1) / 5 :: rat)\<rceil> \<and>
    cr_breakEvenMonths r = 365 * (1 - DISCOUNT_PCT kind) / (60 * DISCOUNT_PCT kind)"
proof -
  define level where "level = spend_percentile (sort spend) BASELINE_PERCENTILE"
  have n: "14 \<le> length spend" and pos: "0 < level" and level: "cr_recommendedDailyCommitment r = level"
    and even: "cr_breakEvenMonths r = level * 365 * (1 - DISCOUNT_PCT kind) * UPFRONT_SHARE / (level * 30 * DISCOUNT_PCT kind)"
    using assms by (auto simp: recommendCommitment_def MIN_DAYS_def Let_def level_def split: if_splits)
  define u where "u = nat \<lceil>BASELINE_PERCENTILE * of_int (int (length (sort spend)) - 1)\<rceil>"
  have "level \<le> sort spend ! u \<and> u < length (sort spend)"
    unfolding level_def u_def by (rule percentile_below) (use n in \<open>simp_all add: BASELINE_PERCENTILE_def\<close>)
  then have le: "level \<le> sort spend ! u" and u: "u < length (sort spend)" by simp_all
  have "length (filter (\<lambda>v. v < level) spend) = length (filter (\<lambda>v. v < level) (sort spend))"
    by (metis filter_sort length_sort)
  also have "\<dots> \<le> length (filter (\<lambda>v. v < sort spend ! u) (sort spend))" by (rule length_filter_impl) (use le in auto)
  also have "\<dots> \<le> u" using u by (intro count_below_nth) simp_all
  finally have "length (filter (\<lambda>v. v < level) spend) \<le> nat \<lceil>(of_int (int (length spend) - 1) / 5 :: rat)\<rceil>"
    by (simp add: u_def BASELINE_PERCENTILE_def)
  moreover have "cr_breakEvenMonths r = 365 * (1 - DISCOUNT_PCT kind) / (60 * DISCOUNT_PCT kind)"
    using pos unfolding even by (cases kind) (simp_all add: UPFRONT_SHARE_def field_simps)
  ultimately show ?thesis using n pos level by simp
qed

end
