(* ===== verification/Cloud_Resources.thy ===== *)
theory Cloud_Resources
  imports Monitor_Scheduler "HOL-Library.AList"
begin

text \<open>
  Resources and their discovery: \<open>monitoring/resources.service.ts\<close>, \<open>cloud-credentials.service.ts\<close>,
  \<open>cloud-resource-poller.service.ts\<close> and the aggregations of \<open>monitoring-dashboard.service.ts\<close>. The clients of the cloud
  providers are a parameter. The configuration of a credential is encrypted in the database and never selected by
  the service. The tables of the cost module that refer to resources and credentials are not part of the state.
\<close>

section \<open>Resources\<close>

record CreateResource =
  kr_name :: string
  kr_resourceType :: ResourceType
  kr_groupName :: "string option"
  kr_tags :: "json option"

record UpdateResource =
  vr_name :: "string option option"
  vr_groupName :: "string option option"
  vr_tags :: "json option"

definition resources_list :: "uuid \<Rightarrow> ('s ticketing_scheme, resource list) act" where
  "resources_list tenantId = withTenantContext tenantId (\<lambda>qr.
     tx_bind (sql_select resources qr (\<lambda>_. True)) (\<lambda>rows. tx_return (order_by re_name rows)))"

definition resources_get :: "uuid \<Rightarrow> uuid \<Rightarrow> ('s ticketing_scheme, resource) act" where
  "resources_get tenantId i = withTenantContext tenantId (\<lambda>qr. find_row ''Resource'' resources qr i)"

definition resources_create :: "uuid \<Rightarrow> CreateResource \<Rightarrow> ('s ticketing_scheme, resource) act" where
  "resources_create tenantId dto = withTenantContext tenantId (\<lambda>qr.
     tx_bind gen_random_uuid (\<lambda>i. tx_bind sql_now (\<lambda>now.
     sql_insert resources_update qr \<lparr>row_id = i, tenant_id = tenantId, re_name = kr_name dto, re_resource_type = kr_resourceType dto,
       re_group_name = kr_groupName dto, re_external_ref = JObj [], re_tags = or_default (kr_tags dto) (JObj []), re_cloud_credential_id = None,
       re_created_at = now, re_updated_at = now\<rparr>)))"

definition resources_update_row :: "uuid \<Rightarrow> uuid \<Rightarrow> UpdateResource \<Rightarrow> ('s ticketing_scheme, resource) act" where
  "resources_update_row tenantId i dto = withTenantContext tenantId (\<lambda>qr.
     tx_bind (find_row ''Resource'' resources qr i) (\<lambda>_. tx_bind sql_now (\<lambda>now.
     patch_row ''Resource'' resources resources_update qr i
       (set_required (vr_name dto) (\<lambda>v r. r\<lparr>re_name := v\<rparr>) @ set_nullable (vr_groupName dto) (\<lambda>v r. r\<lparr>re_group_name := v\<rparr>) @
        set_nullable (vr_tags dto) (\<lambda>v r. r\<lparr>re_tags := v\<rparr>))
       [Some (\<lambda>r. r\<lparr>re_updated_at := now\<rparr>)])))"

text \<open>The status of a resource is the worst of the newest checks of its enabled monitors.\<close>

definition status_rank :: "CheckStatus \<Rightarrow> nat" where
  "status_rank c = (case c of Down \<Rightarrow> 0 | Critical \<Rightarrow> 1 | Trouble \<Rightarrow> 2 | Up \<Rightarrow> 3)"

definition resource_statuses :: "query_runner \<Rightarrow> uuid \<Rightarrow> 's monitoring_scheme \<Rightarrow> CheckStatus list" where
  "resource_statuses qr resourceId s = List.map_filter (\<lambda>m. map_option mc_status (latest_check qr (row_id m) s))
     (filter (\<lambda>m. mo_resource_id m = resourceId \<and> mo_is_enabled m) (visible qr (monitors s)))"

definition worst_status :: "query_runner \<Rightarrow> uuid \<Rightarrow> 's monitoring_scheme \<Rightarrow> CheckStatus option" where
  "worst_status qr resourceId s = first_of (order_by status_rank (resource_statuses qr resourceId s))"

record fleet_row =
  fl_id :: uuid
  fl_name :: string
  fl_resource_type :: ResourceType
  fl_group_name :: "string option"
  fl_monitor_count :: nat
  fl_worst_status :: "CheckStatus option"

definition fleetSummary :: "uuid \<Rightarrow> ('s monitoring_scheme, fleet_row list) act" where
  "fleetSummary tenantId = withTenantContext tenantId (\<lambda>qr. tx_gets (\<lambda>s.
     map (\<lambda>r. \<lparr>fl_id = row_id r, fl_name = re_name r, fl_resource_type = re_resource_type r, fl_group_name = re_group_name r,
         fl_monitor_count = length (filter (\<lambda>m. mo_resource_id m = row_id r) (visible qr (monitors s))),
         fl_worst_status = worst_status qr (row_id r) s\<rparr>)
       (order_by re_name (visible qr (resources s)))))"

record ResourceDashboard =
  rb_resource :: resource
  rb_monitors :: "(monitor \<times> monitor_check option) list"
  rb_activeAlerts :: "alert list"
  rb_openDowntime :: "downtime_event list"

definition active_alerts :: "query_runner \<Rightarrow> 's monitoring_scheme \<Rightarrow> alert list" where
  "active_alerts qr s = filter (\<lambda>a. at_status a = Alert_Open \<or> at_status a = Alert_Acknowledged) (visible qr (alerts s))"

definition resources_dashboard :: "uuid \<Rightarrow> uuid \<Rightarrow> ('s monitoring_scheme, ResourceDashboard) act" where
  "resources_dashboard tenantId i = withTenantContext tenantId (\<lambda>qr.
     tx_bind (find_row ''Resource'' resources qr i) (\<lambda>resource. tx_gets (\<lambda>s.
       let ms = filter (\<lambda>m. mo_resource_id m = i) (visible qr (monitors s)) in
       \<lparr>rb_resource = resource,
        rb_monitors = map (\<lambda>m. (m, latest_check qr (row_id m) s)) (order_by mo_name ms),
        rb_activeAlerts = order_by (\<lambda>a. - at_opened_at a) (filter (\<lambda>a. at_monitor_id a \<in> row_id ` set ms) (active_alerts qr s)),
        rb_openDowntime = order_by (\<lambda>d. - de_starts_at d) (filter (\<lambda>d. de_resource_id d = i \<and> de_ends_at d = None) (visible qr (downtime_events s)))\<rparr>)))"

text \<open>
  The keys that refer to a resource: a ticket keeps it from being deleted; its monitors go with it, with all that
  belongs to them, and so do its agent tokens and downtimes.
\<close>

definition cascade_resource :: "uuid \<Rightarrow> ('s observability_scheme, unit) tx" where
  "cascade_resource i =
     tx_bind (on_delete_restrict tickets tk_resource_id i) (\<lambda>_.
     tx_bind (tx_gets (\<lambda>s. map row_id (filter (\<lambda>m. mo_resource_id m = i) (monitors s)))) (\<lambda>ms.
     tx_bind (on_delete_cascade monitors_update (\<lambda>m. Some (mo_resource_id m)) i) (\<lambda>_.
     tx_bind (tx_fold (\<lambda>m _. cascade_monitor m) ms ()) (\<lambda>_.
     tx_bind (on_delete_cascade agent_tokens_update (\<lambda>k. Some (ak_resource_id k)) i) (\<lambda>_.
     tx_bind (on_delete_cascade downtime_events_update (\<lambda>d. Some (de_resource_id d)) i) (\<lambda>_.
     on_delete_set_null disk_forecasts_update df_resource_id (\<lambda>d. d\<lparr>df_resource_id := None\<rparr>) i))))))"

definition resources_remove :: "uuid \<Rightarrow> uuid \<Rightarrow> ('s observability_scheme, unit) act" where
  "resources_remove tenantId i = withTenantContext tenantId (\<lambda>qr.
     remove_referenced ''Resource'' resources resources_update qr i (cascade_resource i))"

section \<open>The dashboard of the module\<close>

record MonitoringSummary =
  mu_total :: nat
  mu_status :: "CheckStatus option \<Rightarrow> nat"
  mu_monitors :: nat
  mu_enabled :: nat
  mu_openAlerts :: nat
  mu_severity :: "alert_severity \<Rightarrow> nat"

definition monitoring_summary :: "uuid \<Rightarrow> ('s monitoring_scheme, MonitoringSummary) act" where
  "monitoring_summary tenantId = withTenantContext tenantId (\<lambda>qr. tx_gets (\<lambda>s.
     let worst = map (\<lambda>r. worst_status qr (row_id r) s) (visible qr (resources s)); ms = visible qr (monitors s); as = active_alerts qr s in
     \<lparr>mu_total = length worst, mu_status = (\<lambda>x. length (filter (\<lambda>w. w = x) worst)), mu_monitors = length ms,
      mu_enabled = length (filter mo_is_enabled ms), mu_openAlerts = length as,
      mu_severity = (\<lambda>x. length (filter (\<lambda>a. at_severity a = x) as))\<rparr>))"

text \<open>A day is its number since the epoch, in UTC.\<close>

definition day_number :: "msec \<Rightarrow> int" where
  "day_number t = t div 86400000"

record TrendDay =
  td_date :: int
  td_created :: nat
  td_resolved :: nat

definition day_count :: "int \<Rightarrow> msec \<Rightarrow> msec list \<Rightarrow> int \<Rightarrow> nat" where
  "day_count window now stamps day = length (filter (\<lambda>t. now - window * 86400000 \<le> t \<and> day_number t = day) stamps)"

definition monitoring_trends :: "uuid \<Rightarrow> int \<Rightarrow> ('s monitoring_scheme, TrendDay list) act" where
  "monitoring_trends tenantId n = withTenantContext tenantId (\<lambda>qr. tx_gets (\<lambda>s.
     let as = visible qr (alerts s) in
     map (\<lambda>i. let day = day_number (clock s) - i in
         \<lparr>td_date = day, td_created = day_count n (clock s) (map at_opened_at as) day,
          td_resolved = day_count n (clock s) (List.map_filter at_resolved_at as) day\<rparr>)
       (rev [0..n - 1])))"

section \<open>Credentials\<close>

record CreateCloudCredential =
  kc_provider :: string
  kc_label :: string
  kc_config :: json

record UpdateCloudCredential =
  vc_label :: "string option option"
  vc_config :: "json option"
  vc_isEnabled :: "bool option option"

text \<open>\<open>SAFE_COLUMNS\<close>.\<close>

record credential_view =
  cw_id :: uuid
  cw_provider :: string
  cw_label :: string
  cw_is_enabled :: bool
  cw_last_polled_at :: "msec option"
  cw_created_at :: msec

definition view_credential :: "cloud_credential \<Rightarrow> credential_view" where
  "view_credential c = \<lparr>cw_id = row_id c, cw_provider = cc_provider c, cw_label = cc_label c, cw_is_enabled = cc_is_enabled c,
     cw_last_polled_at = cc_last_polled_at c, cw_created_at = cc_created_at c\<rparr>"

definition credentials_list :: "uuid \<Rightarrow> ('s observability_scheme, credential_view list) act" where
  "credentials_list tenantId = withTenantContext tenantId (\<lambda>qr.
     tx_bind (sql_select cloud_credentials qr (\<lambda>_. True)) (\<lambda>rows. tx_return (map view_credential (order_by cc_created_at rows))))"

definition credentials_create :: "uuid \<Rightarrow> CreateCloudCredential \<Rightarrow> ('s observability_scheme, credential_view) act" where
  "credentials_create tenantId dto = withTenantContext tenantId (\<lambda>qr.
     tx_bind gen_random_uuid (\<lambda>i. tx_bind sql_now (\<lambda>now.
     tx_bind (sql_insert cloud_credentials_update qr \<lparr>row_id = i, tenant_id = tenantId, cc_provider = kc_provider dto, cc_label = kc_label dto,
       cc_config = kc_config dto, cc_is_enabled = True, cc_last_polled_at = None, cc_created_at = now\<rparr>) (\<lambda>row. tx_return (view_credential row)))))"

definition credentials_update_row :: "uuid \<Rightarrow> uuid \<Rightarrow> UpdateCloudCredential \<Rightarrow> ('s observability_scheme, credential_view) act" where
  "credentials_update_row tenantId i dto = withTenantContext tenantId (\<lambda>qr.
     tx_bind (find_row ''Cloud credential'' cloud_credentials qr i) (\<lambda>_.
     tx_bind (patch_row ''Cloud credential'' cloud_credentials cloud_credentials_update qr i
       (set_required (vc_label dto) (\<lambda>v c. c\<lparr>cc_label := v\<rparr>) @ set_nullable (vc_config dto) (\<lambda>v c. c\<lparr>cc_config := v\<rparr>) @
        set_required (vc_isEnabled dto) (\<lambda>v c. c\<lparr>cc_is_enabled := v\<rparr>)) []) (\<lambda>row. tx_return (view_credential row))))"

definition credentials_remove :: "uuid \<Rightarrow> uuid \<Rightarrow> ('s observability_scheme, unit) act" where
  "credentials_remove tenantId i = withTenantContext tenantId (\<lambda>qr.
     remove_referenced ''Cloud credential'' cloud_credentials cloud_credentials_update qr i
       (on_delete_set_null resources_update re_cloud_credential_id (\<lambda>r. r\<lparr>re_cloud_credential_id := None\<rparr>) i))"

section \<open>The poller\<close>

record CloudResourceRef =
  cf_externalId :: string
  cf_name :: string
  cf_provider :: string
  cf_region :: "string option"

record cloud_client =
  cp_listResources :: "error + CloudResourceRef list"
  cp_getMetrics :: "string \<Rightarrow> error + CloudMetricSample list"

type_synonym client_factory = "string \<Rightarrow> json \<Rightarrow> error + cloud_client"

definition external_ref :: "CloudResourceRef \<Rightarrow> json" where
  "external_ref remote = JObj ([(''externalId'', JStr (cf_externalId remote)), (''provider'', JStr (cf_provider remote))] @
     (case cf_region remote of None \<Rightarrow> [] | Some region \<Rightarrow> [(''region'', JStr region)]))"

text \<open>\<open>external_ref->>'externalId'\<close> and \<open>external_ref->>'provider'\<close>; only strings are stored there.\<close>

definition ext_key :: "resource \<Rightarrow> (string \<times> string) option" where
  "ext_key r = (case (js_prop (re_external_ref r) ''externalId'', js_prop (re_external_ref r) ''provider'') of
     (Some (JStr a), Some (JStr b)) \<Rightarrow> Some (a, b) | _ \<Rightarrow> None)"

definition ref_key :: "CloudResourceRef \<Rightarrow> string \<times> string" where
  "ref_key remote = (cf_externalId remote, cf_provider remote)"

definition upsertResource :: "uuid \<Rightarrow> CloudResourceRef \<Rightarrow> uuid \<Rightarrow> ('s observability_scheme, uuid) act" where
  "upsertResource tenantId remote cloudCredentialId = withTenantContext tenantId (\<lambda>qr.
     tx_bind (sql_first resources qr (\<lambda>r. ext_key r = Some (ref_key remote))) (\<lambda>existing.
     tx_bind (fk_check cloud_credentials cloudCredentialId) (\<lambda>_. tx_bind sql_now (\<lambda>now. case existing of
       Some r \<Rightarrow> tx_bind (sql_update resources resources_update qr (by_id (row_id r)) (\<lambda>r. r\<lparr>re_name := cf_name remote, re_external_ref := external_ref remote,
           re_cloud_credential_id := Some cloudCredentialId, re_updated_at := now\<rparr>)) (\<lambda>_. tx_return (row_id r))
     | None \<Rightarrow> tx_bind gen_random_uuid (\<lambda>i. tx_bind (sql_insert resources_update qr \<lparr>row_id = i, tenant_id = tenantId, re_name = cf_name remote,
           re_resource_type = Rt_Server, re_group_name = None, re_external_ref = external_ref remote, re_tags = JObj [],
           re_cloud_credential_id = Some cloudCredentialId, re_created_at = now, re_updated_at = now\<rparr>) (\<lambda>r. tx_return (row_id r)))))))"

text \<open>The map of the loop: a key that is set again keeps its place.\<close>

definition upsert_all :: "uuid \<Rightarrow> uuid \<Rightarrow> CloudResourceRef list \<Rightarrow> (string \<times> uuid) list \<Rightarrow> ('s observability_scheme, (string \<times> uuid) list) act" where
  "upsert_all tenantId credentialId = act_fold (\<lambda>remote m.
     act_bind (upsertResource tenantId remote credentialId) (\<lambda>i. act_return (AList.update (cf_externalId remote) i m)))"

definition findCloudMetricMonitor :: "uuid \<Rightarrow> uuid \<Rightarrow> ('s monitoring_scheme, monitor option) act" where
  "findCloudMetricMonitor tenantId resourceId = withTenantContext tenantId (\<lambda>qr.
     sql_first monitors qr (\<lambda>m. mo_resource_id m = resourceId \<and> mo_monitor_type m = Mt_Cloud_Metric \<and> mo_is_enabled m))"

definition poll_metric :: "engine \<Rightarrow> cloud_client \<Rightarrow> uuid \<Rightarrow> string \<times> uuid \<Rightarrow> nat \<Rightarrow> ('s monitoring_scheme, nat) act" where
  "poll_metric E client tenantId = (\<lambda>(externalId, resourceId) checkedCount.
     act_bind (findCloudMetricMonitor tenantId resourceId) (\<lambda>monitor. case monitor of
       None \<Rightarrow> act_return checkedCount
     | Some m \<Rightarrow> (case cp_getMetrics client externalId of
         Inl e \<Rightarrow> act_throw e
       | Inr samples \<Rightarrow>
           (let result = evaluateCloudMetrics (en_format E) (mo_config m) samples in
            act_bind (withTenantContext tenantId (\<lambda>qr. insert_check qr tenantId ''default'' (row_id m) result)) (\<lambda>_.
            act_bind (engine_evaluate E tenantId (evaluated None m) result) (\<lambda>_. act_return (Suc checkedCount)))))))"

definition pollCredential :: "engine \<Rightarrow> client_factory \<Rightarrow> uuid \<Rightarrow> cloud_credential \<Rightarrow> ('s observability_scheme, nat) act" where
  "pollCredential E factory tenantId credential =
     (case factory (cc_provider credential) (cc_config credential) of
        Inl e \<Rightarrow> act_throw e
      | Inr client \<Rightarrow> (case cp_listResources client of
          Inl e \<Rightarrow> act_throw e
        | Inr remotes \<Rightarrow>
            act_bind (upsert_all tenantId (row_id credential) remotes []) (\<lambda>ids.
            act_bind (withTenantContext tenantId (\<lambda>qr. tx_bind sql_now (\<lambda>now.
              sql_update cloud_credentials cloud_credentials_update qr (by_id (row_id credential)) (\<lambda>c. c\<lparr>cc_last_polled_at := Some now\<rparr>)))) (\<lambda>_.
            act_fold (poll_metric E client tenantId) ids 0))))"

definition cloud_pollTenant :: "engine \<Rightarrow> client_factory \<Rightarrow> uuid \<Rightarrow> ('s observability_scheme, nat) act" where
  "cloud_pollTenant E factory tenantId =
     act_bind (withTenantContext tenantId (\<lambda>qr. sql_select cloud_credentials qr cc_is_enabled)) (\<lambda>credentials.
     act_fold (\<lambda>c n. act_catch (act_bind (pollCredential E factory tenantId c) (\<lambda>k. act_return (n + k))) (\<lambda>_. act_return n)) credentials 0)"

definition cloud_pollOnce :: "engine \<Rightarrow> client_factory \<Rightarrow> bool \<Rightarrow> ('s observability_scheme, nat) act" where
  "cloud_pollOnce E factory running =
     (if running then act_return 0 else act_bind (act_gets tenants) (\<lambda>ts.
       act_fold (\<lambda>t n. act_catch (act_bind (cloud_pollTenant E factory (tn_id t)) (\<lambda>k. act_return (n + k))) (\<lambda>_. act_return n)) ts 0))"

section \<open>The inventory\<close>

definition inventory_keys :: "uuid \<Rightarrow> 's ticketing_scheme \<Rightarrow> (string \<times> string) set" where
  "inventory_keys T s = {k. \<exists>r \<in> set (resources s). tenant_id r = T \<and> ext_key r = Some k}"

text \<open>Identifiers are distinct and handed out before, and no two resources of the tenant stand for the same thing at the provider.\<close>

definition inventory :: "uuid \<Rightarrow> 's ticketing_scheme \<Rightarrow> bool" where
  "inventory T s \<longleftrightarrow> distinct (map row_id (resources s)) \<and> (\<forall>r \<in> set (resources s). row_id r < next_uuid s) \<and>
     inj_on ext_key {r \<in> set (resources s). tenant_id r = T \<and> ext_key r \<noteq> None}"

lemma ext_key_external_ref: "re_external_ref r = external_ref remote \<Longrightarrow> ext_key r = Some (ref_key remote)"
  by (simp add: ext_key_def external_ref_def js_prop_def ref_key_def)

lemma inventory_insert:
  assumes "inventory T s" and "tenant_id r = T" and "row_id r = next_uuid s" and "ext_key r = Some k" and "k \<notin> inventory_keys T s"
  shows "inventory T (s\<lparr>next_uuid := Suc (next_uuid s), resources := resources s @ [r]\<rparr>)"
proof -
  let ?S = "{x \<in> set (resources s). tenant_id x = T \<and> ext_key x \<noteq> None}"
  have "{x \<in> set (resources s @ [r]). tenant_id x = T \<and> ext_key x \<noteq> None} = insert r ?S" using assms(2,4) by auto
  moreover have "ext_key r \<notin> ext_key ` ?S" using assms(4,5) by (auto simp: inventory_keys_def)
  then have "inj_on ext_key (insert r ?S)" using assms(1) by (auto simp: inventory_def)
  ultimately show ?thesis using assms(1,3) by (auto simp: inventory_def less_Suc_eq)
qed

lemma inventory_change:
  assumes inv: "inventory T s" and g: "\<And>x. row_id (g x) = row_id x" "\<And>x. tenant_id (g x) = tenant_id x" "\<And>x. ext_key (g x) = ext_key x"
  shows "inventory T (s\<lparr>resources := map g (resources s)\<rparr>)"
proof -
  let ?S = "{x \<in> set (resources s). tenant_id x = T \<and> ext_key x \<noteq> None}"
  have "{x \<in> set (map g (resources s)). tenant_id x = T \<and> ext_key x \<noteq> None} = g ` ?S" using g(2,3) by auto
  moreover have "inj_on ext_key (g ` ?S)" using inv g(3) by (intro inj_on_imageI) (simp add: inventory_def o_def)
  ultimately show ?thesis using inv g(1) by (simp add: inventory_def o_def)
qed

lemma upsertResource_run:
  assumes "upsertResource T remote c s = (Inr i, t)" and "inventory T s"
  shows "inventory T t \<and> (\<exists>r \<in> set (resources t). tenant_id r = T \<and> row_id r = i \<and> ext_key r = Some (ref_key remote) \<and> re_name r = cf_name remote) \<and>
    inventory_keys T t = insert (ref_key remote) (inventory_keys T s) \<and>
    length (resources t) = length (resources s) + (if ref_key remote \<in> inventory_keys T s then 0 else 1)"
proof (cases "first_of (filter (\<lambda>r. ext_key r = Some (ref_key remote)) (visible T (resources s)))")
  case None
  then have new: "ref_key remote \<notin> inventory_keys T s" by (auto simp: inventory_keys_def filter_empty_conv tenant_isolation_def)
  define r where "r = \<lparr>row_id = next_uuid s, tenant_id = T, re_name = cf_name remote, re_resource_type = Rt_Server, re_group_name = None,
    re_external_ref = external_ref remote, re_tags = JObj [], re_cloud_credential_id = Some c, re_created_at = clock s, re_updated_at = clock s\<rparr>"
  have r: "tenant_id r = T" "row_id r = next_uuid s" "re_external_ref r = external_ref remote" "re_name r = cf_name remote" by (simp_all add: r_def)
  from assms(1) None have t: "t = s\<lparr>next_uuid := Suc (next_uuid s), resources := resources s @ [r]\<rparr>" and i: "i = next_uuid s"
    by (auto simp: upsertResource_def withTenantContext_def tx_bind_def sql_first_def fk_check_def sql_now_def gen_random_uuid_def sql_insert_def r_def
        split: if_splits sum.splits)
  note key = ext_key_external_ref [OF r(3)]
  from inventory_insert [OF assms(2) r(1,2) key new] show ?thesis
    using r key new i by (auto simp: t inventory_keys_def)
next
  case (Some r)
  then have r: "r \<in> set (resources s)" "tenant_id r = T" "ext_key r = Some (ref_key remote)"
    using first_of_filter_SomeD [OF Some] by (simp_all add: tenant_isolation_def)
  define r' where "r' = r\<lparr>re_name := cf_name remote, re_external_ref := external_ref remote, re_cloud_credential_id := Some c, re_updated_at := clock s\<rparr>"
  have key: "ext_key r' = ext_key r" using ext_key_external_ref [of r' remote] r(3) by (simp add: r'_def)
  have "update_rows T (by_id (row_id r)) (\<lambda>r. r\<lparr>re_name := cf_name remote, re_external_ref := external_ref remote, re_cloud_credential_id := Some c,
      re_updated_at := clock s\<rparr>) (resources s) = map (\<lambda>x. if x = r then r' else x) (resources s)"
    unfolding update_rows_def
    by (rule map_cong) (use row_id_inj [OF _ _ r(1)] assms(2) r in \<open>auto simp: r'_def by_id_def tenant_isolation_def inventory_def\<close>)
  then have t: "t = s\<lparr>resources := map (\<lambda>x. if x = r then r' else x) (resources s)\<rparr>" and i: "i = row_id r"
    using assms(1) Some by (auto simp: upsertResource_def withTenantContext_def tx_bind_def sql_first_def fk_check_def sql_now_def sql_update_def Let_def
        split: if_splits sum.splits)
  have same: "row_id r' = row_id r" "tenant_id r' = tenant_id r" "re_name r' = cf_name remote" by (simp_all add: r'_def)
  have "inventory_keys T t = inventory_keys T s" unfolding t inventory_keys_def using same key r by fastforce
  moreover have "ref_key remote \<in> inventory_keys T s" using r by (auto simp: inventory_keys_def)
  moreover have "r' \<in> set (resources t)" using r(1) by (auto simp: t)
  ultimately show ?thesis
    using inventory_change [OF assms(2), of "\<lambda>x. if x = r then r' else x"] r same key i by (auto simp: t)
qed

lemma upsert_all_run:
  assumes "upsert_all T c remotes m s = (Inr m', t)" and "inventory T s"
  shows "inventory T t \<and> inventory_keys T t = inventory_keys T s \<union> ref_key ` set remotes \<and>
    length (resources t) = length (resources s) + card (ref_key ` set remotes - inventory_keys T s)"
  using assms
proof (induction remotes arbitrary: m s)
  case (Cons remote remotes)
  from Cons.prems(1) obtain i u where step: "upsertResource T remote c s = (Inr i, u)"
    and rest: "upsert_all T c remotes (AList.update (cf_externalId remote) i m) u = (Inr m', t)"
    by (auto simp: upsert_all_def act_bind_eq_Inr)
  note one = upsertResource_run [OF step Cons.prems(2)]
  note more = Cons.IH [OF rest conjunct1 [OF one]]
  let ?K = "inventory_keys T s" and ?k = "ref_key remote" and ?R = "ref_key ` set remotes"
  have "card (insert ?k ?R - ?K) = card (?R - insert ?k ?K) + (if ?k \<in> ?K then 0 else 1)"
  proof (cases "?k \<in> ?K")
    case False
    then have "insert ?k ?R - ?K = insert ?k (?R - insert ?k ?K)" by blast
    with False show ?thesis by simp
  qed (simp add: insert_absorb insert_Diff_if)
  with one more show ?case by simp
qed (simp add: upsert_all_def)

text \<open>
  C20. Discovery keeps one resource per thing at the provider: if no two resources of a tenant have the same
  identifier and provider, this still holds after a poll of a credential has stored what the provider listed,
  however often the list names the same thing; afterwards there is a resource for everything that was listed and for
  everything that was there before, and a resource is added exactly for each thing that was not known. In
  particular a second poll of the same list adds nothing.
\<close>

theorem cloud_inventory_unique:
  assumes "upsert_all T c remotes [] s = (Inr ids, t)" and "inventory T s"
  shows "inventory T t \<and> inventory_keys T t = inventory_keys T s \<union> ref_key ` set remotes \<and>
    length (resources t) = length (resources s) + card (ref_key ` set remotes - inventory_keys T s) \<and>
    (\<forall>ids' u. upsert_all T c remotes [] t = (Inr ids', u) \<longrightarrow> length (resources u) = length (resources t))"
proof -
  note run = upsert_all_run [OF assms]
  have "length (resources u) = length (resources t)" if "upsert_all T c remotes [] t = (Inr ids', u)" for ids' u
    using upsert_all_run [OF that conjunct1 [OF run]] run by (simp add: Diff_eq_empty_iff [THEN iffD2])
  with run show ?thesis by blast
qed

definition virtual_machine :: CloudResourceRef where
  "virtual_machine = \<lparr>cf_externalId = ''i-1'', cf_name = ''web'', cf_provider = ''aws'', cf_region = None\<rparr>"

definition discovering :: observability where
  "discovering = observed\<lparr>resources := [], cloud_credentials := [\<lparr>row_id = 95, tenant_id = 1, cc_provider = ''aws'', cc_label = ''main'', cc_config = JObj [],
     cc_is_enabled = True, cc_last_polled_at = None, cc_created_at = 0\<rparr>]\<rparr>"

theorem cloud_inventory_unique_witness:
  "\<exists>ids t. upsert_all 1 95 [virtual_machine, virtual_machine] [] discovering = (Inr ids, t) \<and> length (resources t) = 1"
proof -
  obtain ids t where run: "upsert_all 1 95 [virtual_machine, virtual_machine] [] discovering = (Inr ids, t)"
    by (simp add: upsert_all_def upsertResource_def withTenantContext_def tx_bind_def sql_first_def fk_check_def sql_now_def gen_random_uuid_def sql_insert_def
        sql_update_def act_bind_def discovering_def ext_key_def external_ref_def js_prop_def ref_key_def virtual_machine_def tenant_isolation_def Let_def
        del: One_nat_def)
  moreover have "inventory 1 discovering" by (simp add: inventory_def discovering_def)
  ultimately have "length (resources t) = length (resources discovering) + card (ref_key ` {virtual_machine} - inventory_keys 1 discovering)"
    using cloud_inventory_unique by fastforce
  with run show ?thesis by (auto simp: discovering_def inventory_keys_def)
qed

text \<open>The status of a resource in the fleet view is the worst one: none of the newest checks of its enabled monitors is worse.\<close>

lemma worst_status_worst:
  shows "worst_status T i s = None \<longleftrightarrow> resource_statuses T i s = []"
    and "worst_status T i s = Some c \<Longrightarrow> c \<in> set (resource_statuses T i s) \<and> (\<forall>c' \<in> set (resource_statuses T i s). status_rank c \<le> status_rank c')"
proof -
  show "worst_status T i s = None \<longleftrightarrow> resource_statuses T i s = []"
    by (metis worst_status_def order_by_def first_of_eq_None length_0_conv length_sort)
next
  assume "worst_status T i s = Some c"
  then obtain cs where cs: "sort_key status_rank (resource_statuses T i s) = c # cs"
    by (auto simp: worst_status_def order_by_def first_of_def split: list.splits)
  then have "resource_statuses T i s \<noteq> []" by (metis length_sort length_0_conv list.distinct(1))
  from hd_sort_key_min [OF this, of status_rank] cs
  show "c \<in> set (resource_statuses T i s) \<and> (\<forall>c' \<in> set (resource_statuses T i s). status_rank c \<le> status_rank c')" by simp
qed

text \<open>A resource that a ticket refers to cannot be deleted.\<close>

lemma resource_with_ticket_stays:
  assumes "tk \<in> set (tickets s)" and "tk_resource_id tk = Some i"
  shows "snd (resources_remove T i s) = s"
proof -
  have "Some i \<in> tk_resource_id ` set (tickets s)" using assms by (metis imageI)
  then show ?thesis
    by (auto simp: resources_remove_def withTenantContext_def remove_referenced_def tx_bind_def sql_delete_def cascade_resource_def on_delete_restrict_def
        split: sum.splits)
qed

end
