(* ===== verification/Cost_Schema.thy ===== *)
theory Cost_Schema
  imports Cost_Math Cloud_Resources
begin

text \<open>
  The tables of the cost module (migrations \<open>1784130000000\<close>, \<open>1784140000000\<close>, \<open>1784150000000\<close>, \<open>1784160000000\<close>,
  \<open>1784220000000\<close>, \<open>1784250000000\<close>, \<open>1784430000000\<close>, \<open>1784450000000\<close>, \<open>1784575000000\<close>), as an extension of the monitoring
  state, and the frame of a tenant over all of it. A date is the number of its day since the epoch. The table
  \<open>alerts\<close> holds alerts of monitors and alerts of budgets, told apart by \<open>cost_budget_id\<close>; the latter are the list
  \<open>cost_alerts\<close> of the state.
\<close>

section \<open>Rows\<close>

record cost_line_item = row +
  li_cloud_credential_id :: uuid
  li_resource_id :: "uuid option"
  li_service :: string
  li_region :: "string option"
  li_usage_date :: int
  li_amount :: rat
  li_currency :: string
  li_tags :: json
  li_raw :: json
  li_synced_at :: msec

record cost_budget = row +
  cb_cloud_credential_id :: "uuid option"
  cb_name :: string
  cb_monthly_budget_amount :: "rat option"
  cb_pace_warning_threshold_pct :: int
  cb_pace_critical_threshold_pct :: int
  cb_notify_channel :: "string option"
  cb_notify_recipient :: "string option"
  cb_is_active :: bool
  cb_created_at :: msec

record cost_alert = row +
  ca_cost_budget_id :: uuid
  ca_severity :: alert_severity
  ca_status :: alert_status
  ca_reason_text :: string
  ca_repeat_count :: nat
  ca_opened_at :: msec
  ca_last_seen_at :: msec
  ca_resolved_at :: "msec option"

datatype recommendation_status = Rr_Open | Rr_Dismissed | Rr_Ticket_Created | Rr_Resolved

record rightsizing_recommendation = row +
  rr_resource_id :: uuid
  rr_recommendation_type :: RightsizingRecommendationType
  rr_reason_text :: string
  rr_estimated_monthly_saving :: "rat option"
  rr_status :: recommendation_status
  rr_ticket_id :: "uuid option"
  rr_created_at :: msec
  rr_updated_at :: msec

datatype cost_savings_status = Logged | Verified | Not_Materialized

record cost_saving = row +
  sv_resource_id :: uuid
  sv_recommendation_id :: "uuid option"
  sv_ticket_id :: "uuid option"
  sv_expected_monthly_saving :: rat
  sv_actual_monthly_saving :: "rat option"
  sv_status :: cost_savings_status
  sv_logged_at :: msec
  sv_verified_at :: "msec option"

datatype cost_anomaly_status = An_Open | An_Dismissed

record cost_anomaly = row +
  cn_cloud_credential_id :: uuid
  cn_service :: string
  cn_region :: "string option"
  cn_usage_date :: int
  cn_baseline_amount :: rat
  cn_actual_amount :: rat
  cn_deviation_pct :: rat
  cn_reason_text :: string
  cn_status :: cost_anomaly_status
  cn_created_at :: msec

datatype payment_option = No_Upfront | Partial_Upfront | All_Upfront

record commitment = row +
  cm_cloud_credential_id :: uuid
  cm_kind :: CommitmentKind
  cm_service :: string
  cm_region :: "string option"
  cm_term_months :: int
  cm_payment_option :: payment_option
  cm_hourly_commitment :: rat
  cm_start_date :: int
  cm_end_date :: int
  cm_created_at :: msec

datatype commitment_recommendation_status = Mr_Open | Mr_Dismissed

record commitment_recommendation = row +
  mr_cloud_credential_id :: uuid
  mr_kind :: CommitmentKind
  mr_service :: string
  mr_region :: "string option"
  mr_recommended_hourly_commitment :: rat
  mr_estimated_monthly_savings :: rat
  mr_break_even_months :: "rat option"
  mr_based_on_days :: nat
  mr_status :: commitment_recommendation_status
  mr_generated_at :: msec
  mr_updated_at :: msec

datatype ReportKind = Cost_Dashboard | Cost_By_Service | Cost_By_Tag | Commitment_Coverage
datatype report_format = Csv | Pdf
datatype ReportCadence = Daily | Weekly | Monthly

record scheduled_report = row +
  sr_name :: string
  sr_report_kind :: ReportKind
  sr_params :: json
  sr_format :: report_format
  sr_cadence :: ReportCadence
  sr_recipients :: "string list"
  sr_include_ai_summary :: bool
  sr_last_run_at :: "msec option"
  sr_next_run_at :: msec
  sr_is_active :: bool
  sr_created_at :: msec

section \<open>The state\<close>

record cost = observability +
  cost_line_items :: "cost_line_item list"
  cost_budgets :: "cost_budget list"
  cost_alerts :: "cost_alert list"
  rightsizing_recommendations :: "rightsizing_recommendation list"
  cost_savings_log :: "cost_saving list"
  cost_anomalies :: "cost_anomaly list"
  commitments :: "commitment list"
  commitment_recommendations :: "commitment_recommendation list"
  scheduled_reports :: "scheduled_report list"

definition cost_frame :: "query_runner \<Rightarrow> 's cost_scheme \<Rightarrow> 's cost_scheme \<Rightarrow> bool" where
  "cost_frame qr s t \<longleftrightarrow>
     observability_frame qr (observability.truncate s) (observability.truncate t) \<and>
     others qr (cost_line_items t) = others qr (cost_line_items s) \<and>
     others qr (cost_budgets t) = others qr (cost_budgets s) \<and>
     others qr (cost_alerts t) = others qr (cost_alerts s) \<and>
     others qr (rightsizing_recommendations t) = others qr (rightsizing_recommendations s) \<and>
     others qr (cost_savings_log t) = others qr (cost_savings_log s) \<and>
     others qr (cost_anomalies t) = others qr (cost_anomalies s) \<and>
     others qr (commitments t) = others qr (commitments s) \<and>
     others qr (commitment_recommendations t) = others qr (commitment_recommendations s) \<and>
     others qr (scheduled_reports t) = others qr (scheduled_reports s) \<and>
     cost.more t = cost.more s"

interpretation cost_frame: frame "cost_frame qr" for qr
  by unfold_locales (auto simp: cost_frame_def intro: observability_frame.frame_refl observability_frame.frame_trans)

lemma observability_cost_frame:
  fixes s t :: "'s cost_scheme"
  assumes "observability_frame qr s t"
  shows "cost_frame qr s t"
proof -
  have m: "observability.more t = observability.more s" using assms by (simp add: observability_frame_def)
  have "cost_line_items t = cost_line_items s"
    "cost_budgets t = cost_budgets s"
    "cost_alerts t = cost_alerts s"
    "rightsizing_recommendations t = rightsizing_recommendations s"
    "cost_savings_log t = cost_savings_log s"
    "cost_anomalies t = cost_anomalies s"
    "commitments t = commitments s"
    "commitment_recommendations t = commitment_recommendations s"
    "scheduled_reports t = scheduled_reports s"
    "cost.more t = cost.more s"
    using m by (cases s; cases t; simp)+
  moreover have "observability_frame qr (observability.truncate s) (observability.truncate t)"
    using assms by (simp add: observability_frame_defs observability.truncate_def observability.make_def)
  ultimately show ?thesis by (simp add: cost_frame_def)
qed

lemmas monitoring_cost_frame = observability_cost_frame [OF monitoring_observability_frame]
lemmas ticketing_cost_frame = observability_cost_frame [OF ticketing_observability_frame]

lemmas cost_frame_defs = cost_frame_def observability_frame_defs observability.truncate_def observability.make_def

interpretation cost_line_items_tbl: tenant_table cost_line_items cost_line_items_update cost_frame
  by unfold_locales (simp_all add: cost_frame_defs)
interpretation cost_budgets_tbl: tenant_table cost_budgets cost_budgets_update cost_frame
  by unfold_locales (simp_all add: cost_frame_defs)
interpretation cost_alerts_tbl: tenant_table cost_alerts cost_alerts_update cost_frame
  by unfold_locales (simp_all add: cost_frame_defs)
interpretation rightsizing_recommendations_tbl: tenant_table rightsizing_recommendations rightsizing_recommendations_update cost_frame
  by unfold_locales (simp_all add: cost_frame_defs)
interpretation cost_savings_log_tbl: tenant_table cost_savings_log cost_savings_log_update cost_frame
  by unfold_locales (simp_all add: cost_frame_defs)
interpretation cost_anomalies_tbl: tenant_table cost_anomalies cost_anomalies_update cost_frame
  by unfold_locales (simp_all add: cost_frame_defs)
interpretation commitments_tbl: tenant_table commitments commitments_update cost_frame
  by unfold_locales (simp_all add: cost_frame_defs)
interpretation commitment_recommendations_tbl: tenant_table commitment_recommendations commitment_recommendations_update cost_frame
  by unfold_locales (simp_all add: cost_frame_defs)
interpretation scheduled_reports_tbl: tenant_table scheduled_reports scheduled_reports_update cost_frame
  by unfold_locales (simp_all add: cost_frame_defs)
interpretation cost_credentials_tbl: tenant_table cloud_credentials cloud_credentials_update cost_frame
  by unfold_locales (simp_all add: cost_frame_defs)

lemma gen_random_uuid_cost_frame [frame_intros]: "tx_rel (cost_frame qr) gen_random_uuid"
  by (rule tx_rel_mono [OF gen_random_uuid_observability_frame observability_cost_frame])

lemma sql_now_cost_frame [frame_intros]: "tx_rel (cost_frame qr) sql_now"
  unfolding sql_now_def by (rule frame_intros)

lemma fk_check_cost_frame [frame_intros]: "tx_rel (cost_frame qr) (fk_check tbl i)"
  unfolding fk_check_def by (intro frame_intros)

section \<open>Updating the one row of a kind\<close>

lemma filter_replace:
  "filter P (map (\<lambda>x. if x = a then y else x) xs) = map (\<lambda>x. if x = a then y else x) (filter (\<lambda>x. if x = a then P y else P x) xs)"
  by (induction xs) auto

lemma update_rows_single:
  assumes "distinct (map row_id rows)" and "a \<in> set rows" and "tenant_id a = T"
  shows "update_rows T (by_id (row_id a)) f rows = map (\<lambda>x. if x = a then f a else x) rows"
  unfolding update_rows_def using assms by (intro map_cong) (auto simp: by_id_def tenant_isolation_def dest: row_id_inj)

lemma update_single:
  assumes "distinct (map row_id rows)" and one: "filter P rows = [a]" and "tenant_id a = T"
  shows "filter P (update_rows T (by_id (row_id a)) f rows) = filter P [f a]"
    and "\<not> Q a \<Longrightarrow> \<not> Q (f a) \<Longrightarrow> filter Q (update_rows T (by_id (row_id a)) f rows) = filter Q rows"
proof -
  have a: "a \<in> set rows" "P a" using arg_cong [OF one, of set] by auto
  note rows = update_rows_single [OF assms(1) a(1) assms(3), of f]
  show "filter P (update_rows T (by_id (row_id a)) f rows) = filter P [f a]"
  proof (cases "P (f a)")
    case True
    then have "filter (\<lambda>x. if x = a then P (f a) else P x) rows = [a]"
      unfolding one [symmetric] using a(2) by (intro filter_cong) auto
    with True show ?thesis unfolding rows filter_replace by simp
  next
    case False
    then have "filter (\<lambda>x. if x = a then P (f a) else P x) rows = filter (\<lambda>x. x \<noteq> a) (filter P rows)"
      unfolding filter_filter by (intro filter_cong) auto
    with False show ?thesis unfolding rows filter_replace by (simp add: one)
  qed
  assume no: "\<not> Q a" "\<not> Q (f a)"
  then have "filter (\<lambda>x. if x = a then Q (f a) else Q x) rows = filter Q rows" by (intro filter_cong) auto
  with no show "filter Q (update_rows T (by_id (row_id a)) f rows) = filter Q rows"
    unfolding rows filter_replace by (auto intro!: map_idI)
qed

section \<open>Dates\<close>

text \<open>The year and the month of an instant in UTC, \<open>date_trunc('month', t)::date\<close>, and the start of the month before.\<close>

definition utc_year :: "msec \<Rightarrow> int" where
  "utc_year t = year_from_day (iso_day t)"

definition utc_month :: "msec \<Rightarrow> nat" where
  "utc_month t = month_from_day (utc_year t) (iso_day t - DayFromYear (utc_year t))"

definition utc_date :: "msec \<Rightarrow> int" where
  "utc_date t = iso_day t - MakeDay (utc_year t) (utc_month t) 1 + 1"

text \<open>\<open>Date.UTC(y, m, d)\<close> as a day, for any month index.\<close>

definition utc_day :: "int \<Rightarrow> int \<Rightarrow> int \<Rightarrow> int" where
  "utc_day y m d = MakeDay (y + m div 12) (nat (m mod 12)) d"

definition month_start :: "msec \<Rightarrow> int" where
  "month_start t = utc_day (utc_year t) (int (utc_month t)) 1"

definition months_before :: "int \<Rightarrow> msec \<Rightarrow> int" where
  "months_before k t = utc_day (utc_year t) (int (utc_month t) - k) 1"

text \<open>\<open>new Date(Date.UTC(y, m + 1, 0)).getUTCDate()\<close>.\<close>

definition days_in_current_month :: "msec \<Rightarrow> int" where
  "days_in_current_month t = utc_date (utc_day (utc_year t) (int (utc_month t) + 1) 0 * MS_PER_DAY)"

text \<open>\<open>COALESCE(SUM(amount), 0)\<close> over the line items a condition selects.\<close>

definition sum_amount :: "query_runner \<Rightarrow> (cost_line_item \<Rightarrow> bool) \<Rightarrow> 's cost_scheme \<Rightarrow> rat" where
  "sum_amount qr P s = (\<Sum>l \<leftarrow> filter P (visible qr (cost_line_items s)). li_amount l)"

section \<open>The calendar\<close>

lemma month_starts_next:
  assumes "m < 11"
  shows "month_starts y ! Suc m = month_starts y ! m + days_in_month y m"
proof -
  have "m = 0 \<or> m = 1 \<or> m = 2 \<or> m = 3 \<or> m = 4 \<or> m = 5 \<or> m = 6 \<or> m = 7 \<or> m = 8 \<or> m = 9 \<or> m = 10" using assms by presburger
  then show ?thesis by (elim disjE) (simp_all add: month_starts_def days_in_month_def Let_def)
qed

lemma utc_day_next_month:
  assumes "m < 12"
  shows "utc_day y (int m + 1) d = utc_day y (int m) d + days_in_month y m"
proof (cases "m = 11")
  case True
  then show ?thesis by (simp add: utc_day_def MakeDay_def DayFromYear_step month_starts_def days_in_month_def Let_def)
next
  case False
  then have "m < 11" using assms by simp
  moreover from this have "(int m + 1) div 12 = 0" "nat ((int m + 1) mod 12) = Suc m" by auto
  ultimately show ?thesis by (simp add: utc_day_def MakeDay_def month_starts_next)
qed

lemma utc_parts:
  "utc_month t < 12" "iso_day t = utc_day (utc_year t) (int (utc_month t)) (utc_date t)"
  "1 \<le> utc_date t" "utc_date t \<le> days_in_month (utc_year t) (utc_month t)"
proof -
  show m: "utc_month t < 12" by (simp add: utc_month_def month_from_day_range)
  then show "iso_day t = utc_day (utc_year t) (int (utc_month t)) (utc_date t)" by (simp add: utc_day_def utc_date_def MakeDay_def)
  define n where "n = iso_day t - DayFromYear (utc_year t)"
  have "0 \<le> n" "n < (if leap_year (utc_year t) then 366 else 365)"
    using year_from_day_spec [of "iso_day t"] DayFromYear_step [of "utc_year t"] by (auto simp: n_def utc_year_def split: if_splits)
  from day_of_month_range [OF this] show "1 \<le> utc_date t" "utc_date t \<le> days_in_month (utc_year t) (utc_month t)"
    by (simp_all add: utc_date_def utc_month_def n_def MakeDay_def)
qed

lemma days_in_month_range: "28 \<le> days_in_month y m" "days_in_month y m \<le> 31"
  by (simp_all add: days_in_month_def)

section \<open>A sample state\<close>

definition cloud_line :: cost_line_item where
  "cloud_line = \<lparr>row_id = 96, tenant_id = 1, li_cloud_credential_id = 95, li_resource_id = None, li_service = ''EC2'', li_region = None, li_usage_date = 0,
     li_amount = 10, li_currency = ''USD'', li_tags = JObj [], li_raw = JObj [], li_synced_at = 0\<rparr>"

definition cloud_budget :: cost_budget where
  "cloud_budget = \<lparr>row_id = 97, tenant_id = 1, cb_cloud_credential_id = None, cb_name = ''total'', cb_monthly_budget_amount = Some 100,
     cb_pace_warning_threshold_pct = 20, cb_pace_critical_threshold_pct = 40, cb_notify_channel = None, cb_notify_recipient = None,
     cb_is_active = True, cb_created_at = 0\<rparr>"

definition billed :: cost where
  "billed = observability.extend discovering (cost.fields [cloud_line] [cloud_budget] [] [] [] [] [] [] [])"

lemma billed_simps [simp]:
  "cost_line_items billed = [cloud_line]" "cost_budgets billed = [cloud_budget]" "cost_alerts billed = []" "rightsizing_recommendations billed = []"
  "cost_savings_log billed = []" "cost_anomalies billed = []" "commitments billed = []" "commitment_recommendations billed = []" "scheduled_reports billed = []"
  "clock billed = 0" "next_uuid billed = 100" "cloud_credentials billed = cloud_credentials discovering" "resources billed = []"
  by (simp_all add: billed_def discovering_def observability.extend_def cost.fields_def)

lemma epoch_parts [simp]: "iso_day 0 = 0" "utc_year 0 = 1970" "utc_month 0 = 0" "utc_date 0 = 1"
  by (simp_all add: iso_day_def utc_year_def utc_month_def utc_date_def year_from_day_def DayFromYear_def month_from_day_def month_starts_def leap_year_def MakeDay_def Let_def)

lemma epoch_month [simp]: "month_start 0 = 0" "months_before 1 0 = -31" "days_in_current_month 0 = 31"
proof -
  show "month_start 0 = 0" "months_before 1 0 = -31"
    by (simp_all add: month_start_def months_before_def utc_day_def MakeDay_def DayFromYear_def month_starts_def leap_year_def Let_def)
  have "utc_day 1970 1 0 = 30" by (simp add: utc_day_def MakeDay_def DayFromYear_def month_starts_def leap_year_def Let_def)
  moreover have "utc_year (30 * MS_PER_DAY) = 1970" by (simp add: utc_year_def iso_day_def MS_PER_DAY_def year_from_day_def DayFromYear_def Let_def)
  moreover from this have "utc_month (30 * MS_PER_DAY) = 0"
    by (simp add: utc_month_def iso_day_def MS_PER_DAY_def month_from_day_def month_starts_def leap_year_def DayFromYear_def Let_def)
  ultimately show "days_in_current_month 0 = 31"
    by (simp add: days_in_current_month_def utc_date_def iso_day_def MakeDay_def DayFromYear_def month_starts_def leap_year_def Let_def) (simp add: MS_PER_DAY_def)
qed

end
