(* ===== verification/Cost_Budgets.thy ===== *)
theory Cost_Budgets
  imports Cost_Schema Logs Escalation
begin

text \<open>
  Budgets and what keeps them up to date: \<open>cost-budgets.service.ts\<close>, the pace check of \<open>cost-pace-check.service.ts\<close>, the
  anomalies of \<open>cost-anomaly-check.service.ts\<close> and \<open>cost-anomalies.service.ts\<close>, and the billing sync of
  \<open>cost-billing-sync.service.ts\<close> that runs both checks. The client of a cloud provider is a parameter. The lemmas: the
  sync writes the newest amount of every line and running it again changes no amount; a budget has an active alert
  exactly while its pace has a severity, and a notification leaves only when the alert opens or gets worse; a budget
  that ever had an alert cannot be deleted.
\<close>

section \<open>Budgets\<close>

record CreateCostBudget =
  kb_name :: string
  kb_cloudCredentialId :: "uuid option"
  kb_monthlyBudgetAmount :: "rat option"
  kb_paceWarningThresholdPct :: "int option"
  kb_paceCriticalThresholdPct :: "int option"
  kb_notifyChannel :: "string option"
  kb_notifyRecipient :: "string option"

record UpdateCostBudget =
  ub_name :: "string option option"
  ub_monthlyBudgetAmount :: "rat option option"
  ub_paceWarningThresholdPct :: "int option option"
  ub_paceCriticalThresholdPct :: "int option option"
  ub_notifyChannel :: "string option option"
  ub_notifyRecipient :: "string option option"
  ub_isActive :: "bool option option"

definition budgets_list :: "uuid \<Rightarrow> ('s cost_scheme, cost_budget list) act" where
  "budgets_list tenantId = withTenantContext tenantId (\<lambda>qr.
     tx_bind (sql_select cost_budgets qr (\<lambda>_. True)) (\<lambda>rows. tx_return (order_by cb_name rows)))"

definition budgets_create :: "uuid \<Rightarrow> CreateCostBudget \<Rightarrow> ('s cost_scheme, cost_budget) act" where
  "budgets_create tenantId dto = withTenantContext tenantId (\<lambda>qr.
     tx_bind (case kb_cloudCredentialId dto of None \<Rightarrow> tx_return () | Some c \<Rightarrow> fk_check cloud_credentials c) (\<lambda>_.
     tx_bind gen_random_uuid (\<lambda>i. tx_bind sql_now (\<lambda>now.
     sql_insert cost_budgets_update qr \<lparr>row_id = i, tenant_id = tenantId, cb_cloud_credential_id = kb_cloudCredentialId dto, cb_name = kb_name dto,
       cb_monthly_budget_amount = kb_monthlyBudgetAmount dto, cb_pace_warning_threshold_pct = or_default (kb_paceWarningThresholdPct dto) 20,
       cb_pace_critical_threshold_pct = or_default (kb_paceCriticalThresholdPct dto) 40, cb_notify_channel = kb_notifyChannel dto,
       cb_notify_recipient = kb_notifyRecipient dto, cb_is_active = True, cb_created_at = now\<rparr>))))"

definition budgets_update_row :: "uuid \<Rightarrow> uuid \<Rightarrow> UpdateCostBudget \<Rightarrow> ('s cost_scheme, cost_budget) act" where
  "budgets_update_row tenantId i dto = withTenantContext tenantId (\<lambda>qr.
     tx_bind (find_row ''Cost budget'' cost_budgets qr i) (\<lambda>_.
     patch_row ''Cost budget'' cost_budgets cost_budgets_update qr i
       (set_required (ub_name dto) (\<lambda>v b. b\<lparr>cb_name := v\<rparr>) @
        set_nullable (ub_monthlyBudgetAmount dto) (\<lambda>v b. b\<lparr>cb_monthly_budget_amount := v\<rparr>) @
        set_required (ub_paceWarningThresholdPct dto) (\<lambda>v b. b\<lparr>cb_pace_warning_threshold_pct := v\<rparr>) @
        set_required (ub_paceCriticalThresholdPct dto) (\<lambda>v b. b\<lparr>cb_pace_critical_threshold_pct := v\<rparr>) @
        set_nullable (ub_notifyChannel dto) (\<lambda>v b. b\<lparr>cb_notify_channel := v\<rparr>) @
        set_nullable (ub_notifyRecipient dto) (\<lambda>v b. b\<lparr>cb_notify_recipient := v\<rparr>) @
        set_required (ub_isActive dto) (\<lambda>v b. b\<lparr>cb_is_active := v\<rparr>)) []))"

text \<open>
  The key of \<open>alerts.cost_budget_id\<close> is set to null when the budget goes, which the constraint \<open>alerts_has_a_source\<close>
  forbids for an alert without a monitor.
\<close>

definition alerts_has_a_source :: "uuid \<Rightarrow> ('s cost_scheme, unit) tx" where
  "alerts_has_a_source i = tx_bind (tx_gets (\<lambda>s. \<exists>a \<in> set (cost_alerts s). ca_cost_budget_id a = i)) (\<lambda>orphans.
     if orphans then tx_throw check_violation else tx_return ())"

definition budgets_remove :: "uuid \<Rightarrow> uuid \<Rightarrow> ('s cost_scheme, unit) act" where
  "budgets_remove tenantId i = withTenantContext tenantId (\<lambda>qr.
     remove_referenced ''Cost budget'' cost_budgets cost_budgets_update qr i (alerts_has_a_source i))"

section \<open>The pace check\<close>

definition cost_EVENT_TYPE :: string where
  "cost_EVENT_TYPE = ''cost.pace_alert''"

definition cost_DEFAULT_BODY :: string where
  "cost_DEFAULT_BODY = ''$SEVERITY: $INSIGHT''"

definition budget_scope :: "cost_budget \<Rightarrow> cost_line_item \<Rightarrow> bool" where
  "budget_scope b l \<longleftrightarrow> (case cb_cloud_credential_id b of None \<Rightarrow> True | Some c \<Rightarrow> li_cloud_credential_id l = c)"

definition mtd_spend :: "query_runner \<Rightarrow> (cost_line_item \<Rightarrow> bool) \<Rightarrow> 's cost_scheme \<Rightarrow> rat" where
  "mtd_spend qr scope s = sum_amount qr (\<lambda>l. scope l \<and> li_usage_date l \<ge> month_start (clock s)) s"

definition previous_month_total :: "query_runner \<Rightarrow> (cost_line_item \<Rightarrow> bool) \<Rightarrow> 's cost_scheme \<Rightarrow> rat option" where
  "previous_month_total qr scope s =
     (let total = sum_amount qr (\<lambda>l. scope l \<and> li_usage_date l \<ge> months_before 1 (clock s) \<and> li_usage_date l < month_start (clock s)) s
      in if total > 0 then Some total else None)"

definition pace_of :: "query_runner \<Rightarrow> cost_budget \<Rightarrow> 's cost_scheme \<Rightarrow> BudgetPaceResult option" where
  "pace_of qr b s = calculateBudgetPace
     \<lparr>bi_mtdSpend = mtd_spend qr (budget_scope b) s, bi_previousMonthTotal = previous_month_total qr (budget_scope b) s,
      bi_monthlyBudgetAmount = cb_monthly_budget_amount b, bi_daysElapsed = utc_date (clock s), bi_daysInMonth = days_in_current_month (clock s),
      bi_warningThresholdPct = of_int (cb_pace_warning_threshold_pct b), bi_criticalThresholdPct = of_int (cb_pace_critical_threshold_pct b)\<rparr>"

definition active_cost_alert :: "uuid \<Rightarrow> cost_alert \<Rightarrow> bool" where
  "active_cost_alert budgetId a \<longleftrightarrow> ca_cost_budget_id a = budgetId \<and> (ca_status a = Alert_Open \<or> ca_status a = Alert_Acknowledged)"

text \<open>The transaction: whether the budget is over pace, and what is to be sent before it commits.\<close>

definition apply_pace :: "js_format \<Rightarrow> uuid \<Rightarrow> cost_budget \<Rightarrow> BudgetPaceResult option \<Rightarrow> query_runner \<Rightarrow>
    ('s cost_scheme, bool \<times> (alert_severity \<times> string) option) tx" where
  "apply_pace F tenantId b result qr =
     tx_bind (sql_first cost_alerts qr (active_cost_alert (row_id b))) (\<lambda>openAlert. tx_bind sql_now (\<lambda>now.
     case Option.bind result bp_severity of
       None \<Rightarrow> (case openAlert of
           None \<Rightarrow> tx_return (False, None)
         | Some a \<Rightarrow> tx_bind (sql_update cost_alerts cost_alerts_update qr (by_id (row_id a)) (\<lambda>a. a\<lparr>ca_status := Alert_Resolved, ca_resolved_at := Some now\<rparr>))
             (\<lambda>_. tx_return (False, None)))
     | Some severity \<Rightarrow> (let reasonText = generateCostInsightText F (cb_name b) (the result) in
         case openAlert of
           None \<Rightarrow>
             tx_bind (tx_gets (\<lambda>s. \<exists>a \<in> set (cost_alerts s). active_cost_alert (row_id b) a)) (\<lambda>dup.
             if dup then tx_throw unique_violation
             else tx_bind (fk_check cost_budgets (row_id b)) (\<lambda>_. tx_bind gen_random_uuid (\<lambda>i.
               tx_bind (sql_insert cost_alerts_update qr \<lparr>row_id = i, tenant_id = tenantId, ca_cost_budget_id = row_id b, ca_severity = severity,
                 ca_status = Alert_Open, ca_reason_text = reasonText, ca_repeat_count = 0, ca_opened_at = now, ca_last_seen_at = now, ca_resolved_at = None\<rparr>) (\<lambda>_.
               tx_return (True, Some (severity, reasonText))))))
         | Some a \<Rightarrow>
             tx_bind (sql_update cost_alerts cost_alerts_update qr (by_id (row_id a)) (\<lambda>a. a\<lparr>ca_severity := severity, ca_reason_text := reasonText,
               ca_repeat_count := ca_repeat_count a + 1, ca_last_seen_at := now\<rparr>)) (\<lambda>_.
             tx_return (True, if SEVERITY_RANK severity > SEVERITY_RANK (ca_severity a) then Some (severity, reasonText) else None)))))"

definition cost_notify :: "uuid \<Rightarrow> cost_budget \<Rightarrow> alert_severity \<Rightarrow> string \<Rightarrow> ('s cost_scheme, unit) act" where
  "cost_notify tenantId b severity reasonText =
     (case (cb_notify_channel b, cb_notify_recipient b) of
        (Some channel, Some recipient) \<Rightarrow>
          if recipient = [] then act_return ()
          else act_bind (withTenantContext tenantId (\<lambda>qr.
            tx_bind (sql_first notification_templates qr (\<lambda>p. np_channel p = channel \<and> np_event_type p = cost_EVENT_TYPE \<and> np_is_default p)) (\<lambda>template.
            tx_return (renderNotificationTemplate (case template of None \<Rightarrow> cost_DEFAULT_BODY | Some p \<Rightarrow> np_body p)
              [(''SEVERITY'', severity_text severity), (''INSIGHT'', reasonText), (''BUDGET_NAME'', cb_name b)])))) (\<lambda>body.
          act_bind (enqueue tenantId channel recipient ''cost.pace_alert''
            (JObj [(''subject'', JStr (''Cost alert: '' @ cb_name b)), (''body'', JStr body)])) (\<lambda>_. act_return ()))
      | _ \<Rightarrow> act_return ())"

text \<open>
  The notification is enqueued, on connections of its own, before the transaction of the alert commits; when that
  raises, the alert is rolled back and what was already stored of the notification stays.
\<close>

definition commit_after_notify :: "uuid \<Rightarrow> cost_budget \<Rightarrow> (query_runner \<Rightarrow> ('s cost_scheme, bool \<times> (alert_severity \<times> string) option) tx) \<Rightarrow> ('s cost_scheme, bool) act" where
  "commit_after_notify tenantId b work = (\<lambda>s. case withTenantContext tenantId work s of
      (Inl e, t) \<Rightarrow> (Inl e, t)
    | (Inr (over, None), t) \<Rightarrow> (Inr over, t)
    | (Inr (over, Some (severity, reasonText)), t) \<Rightarrow> (case cost_notify tenantId b severity reasonText t of
          (Inl e, u) \<Rightarrow> (Inl e, u\<lparr>cost_alerts := cost_alerts s\<rparr>)
        | (Inr _, u) \<Rightarrow> (Inr over, u)))"

definition checkBudget :: "js_format \<Rightarrow> uuid \<Rightarrow> cost_budget \<Rightarrow> ('s cost_scheme, bool) act" where
  "checkBudget F tenantId b =
     act_bind (withTenantContext tenantId (\<lambda>qr. tx_gets (pace_of qr b))) (\<lambda>result.
     commit_after_notify tenantId b (apply_pace F tenantId b result))"

definition pace_checkTenant :: "js_format \<Rightarrow> uuid \<Rightarrow> ('s cost_scheme, nat) act" where
  "pace_checkTenant F tenantId =
     act_bind (withTenantContext tenantId (\<lambda>qr. sql_select cost_budgets qr cb_is_active)) (\<lambda>budgets.
     act_fold (\<lambda>b n. act_catch (act_bind (checkBudget F tenantId b) (\<lambda>over. act_return (if over then Suc n else n))) (\<lambda>_. act_return n)) budgets 0)"

section \<open>Anomalies\<close>

definition cost_LOOKBACK_DAYS :: int where
  "cost_LOOKBACK_DAYS = 14"

record ServiceDayRow =
  sd_cloud_credential_id :: uuid
  sd_service :: string
  sd_region :: "string option"
  sd_usage_date :: int
  sd_actual :: rat
  sd_baseline :: rat

definition service_key :: "cost_line_item \<Rightarrow> uuid \<times> string \<times> string option" where
  "service_key l = (li_cloud_credential_id l, li_service l, li_region l)"

text \<open>The groups of the newest day with data, each with its spend on that day and its mean over the days before.\<close>

definition service_day_rows :: "query_runner \<Rightarrow> 's cost_scheme \<Rightarrow> ServiceDayRow list" where
  "service_day_rows qr s = (let lines = visible qr (cost_line_items s) in
     if lines = [] then []
     else let latest = Max (li_usage_date ` set lines);
              groups = js_unique (map service_key (filter (\<lambda>l. li_usage_date l = latest) lines))
          in map (\<lambda>k. \<lparr>sd_cloud_credential_id = fst k, sd_service = fst (snd k), sd_region = snd (snd k), sd_usage_date = latest,
                 sd_actual = sum_amount qr (\<lambda>l. service_key l = k \<and> li_usage_date l = latest) s,
                 sd_baseline = sum_amount qr (\<lambda>l. service_key l = k \<and> latest - cost_LOOKBACK_DAYS \<le> li_usage_date l \<and> li_usage_date l < latest) s / of_int cost_LOOKBACK_DAYS\<rparr>) groups)"

definition coalesce_text :: "string option \<Rightarrow> string" where
  "coalesce_text r = (case r of None \<Rightarrow> [] | Some v \<Rightarrow> v)"

definition anomaly_key :: "cost_anomaly \<Rightarrow> uuid \<times> string \<times> string \<times> int" where
  "anomaly_key a = (cn_cloud_credential_id a, cn_service a, coalesce_text (cn_region a), cn_usage_date a)"

definition row_key :: "ServiceDayRow \<Rightarrow> uuid \<times> string \<times> string \<times> int" where
  "row_key r = (sd_cloud_credential_id r, sd_service r, coalesce_text (sd_region r), sd_usage_date r)"

definition upsert_anomaly :: "js_format \<Rightarrow> query_runner \<Rightarrow> uuid \<Rightarrow> ServiceDayRow \<Rightarrow> rat \<Rightarrow> ('s cost_scheme, unit) tx" where
  "upsert_anomaly F qr tenantId r deviationPct =
     (let reason = anomalyReasonText F (sd_service r) (sd_region r) (sd_baseline r) (sd_actual r) deviationPct in
      tx_bind sql_now (\<lambda>now. tx_bind (tx_gets (\<lambda>s. filter (\<lambda>a. anomaly_key a = row_key r) (cost_anomalies s))) (\<lambda>conflict. case conflict of
        [] \<Rightarrow> tx_bind gen_random_uuid (\<lambda>i. tx_bind (sql_insert cost_anomalies_update qr
            \<lparr>row_id = i, tenant_id = tenantId, cn_cloud_credential_id = sd_cloud_credential_id r, cn_service = sd_service r, cn_region = sd_region r,
             cn_usage_date = sd_usage_date r, cn_baseline_amount = sd_baseline r, cn_actual_amount = sd_actual r, cn_deviation_pct = deviationPct,
             cn_reason_text = reason, cn_status = An_Open, cn_created_at = now\<rparr>) (\<lambda>_. tx_return ()))
      | a # _ \<Rightarrow> if \<not> tenant_isolation qr a then tx_throw insufficient_privilege
          else tx_bind (sql_update cost_anomalies cost_anomalies_update qr (\<lambda>a. anomaly_key a = row_key r)
            (\<lambda>a. a\<lparr>cn_baseline_amount := sd_baseline r, cn_actual_amount := sd_actual r, cn_deviation_pct := deviationPct, cn_reason_text := reason\<rparr>)) (\<lambda>_. tx_return ()))))"

definition anomaly_checkTenant :: "js_format \<Rightarrow> uuid \<Rightarrow> ('s cost_scheme, nat) act" where
  "anomaly_checkTenant F tenantId = withTenantContext tenantId (\<lambda>qr.
     tx_bind (tx_gets (service_day_rows qr)) (\<lambda>rows.
     tx_fold (\<lambda>r recorded. case detectAnomaly (sd_baseline r) (sd_actual r) DEFAULT_ANOMALY_THRESHOLDS of
         (isAnomaly, deviationPct) \<Rightarrow>
           if \<not> isAnomaly then tx_return recorded
           else tx_bind (upsert_anomaly F qr tenantId r deviationPct) (\<lambda>_. tx_return (Suc recorded))) rows 0))"

definition anomalies_list :: "uuid \<Rightarrow> ('s cost_scheme, cost_anomaly list) act" where
  "anomalies_list tenantId = withTenantContext tenantId (\<lambda>qr.
     tx_bind (sql_select cost_anomalies qr (\<lambda>a. cn_status a = An_Open)) (\<lambda>rows.
     tx_return (order_by (\<lambda>a. (- cn_usage_date a, - cn_actual_amount a)) rows)))"

definition anomalies_dismiss :: "uuid \<Rightarrow> uuid \<Rightarrow> ('s cost_scheme, unit) act" where
  "anomalies_dismiss tenantId i = withTenantContext tenantId (\<lambda>qr.
     tx_bind (sql_update cost_anomalies cost_anomalies_update qr (by_id i) (\<lambda>a. a\<lparr>cn_status := An_Dismissed\<rparr>)) (\<lambda>rows.
     if rows = [] then tx_throw (NotFound ''Cost anomaly'' i) else tx_return ()))"

section \<open>The billing sync\<close>

record CloudCostLineItem =
  lc_service :: string
  lc_region :: "string option"
  lc_usageDate :: int
  lc_amount :: rat
  lc_currency :: string
  lc_tags :: "(string \<times> json) list option"
  lc_raw :: json

type_synonym billing_factory = "string \<Rightarrow> json \<Rightarrow> error + (int \<Rightarrow> int \<Rightarrow> error + CloudCostLineItem list)"

definition TRAILING_MONTHS :: int where
  "TRAILING_MONTHS = 7"

definition syncWindow :: "msec \<Rightarrow> int \<times> int" where
  "syncWindow now = (months_before (TRAILING_MONTHS - 1) now, utc_day (utc_year now) (int (utc_month now)) (utc_date now + 1))"

type_synonym ledger_key = "uuid \<times> string \<times> string \<times> int"

definition line_key :: "cost_line_item \<Rightarrow> ledger_key" where
  "line_key l = (li_cloud_credential_id l, li_service l, coalesce_text (li_region l), li_usage_date l)"

definition item_key :: "uuid \<Rightarrow> CloudCostLineItem \<Rightarrow> ledger_key" where
  "item_key credentialId x = (credentialId, lc_service x, coalesce_text (lc_region x), lc_usageDate x)"

definition upsert_line_item :: "js_format \<Rightarrow> query_runner \<Rightarrow> uuid \<Rightarrow> uuid \<Rightarrow> CloudCostLineItem \<Rightarrow> ('s cost_scheme, unit) tx" where
  "upsert_line_item F qr tenantId credentialId x =
     (let tags = JObj (tags_json (normalizeAllocationTags F (lc_tags x))) in
      tx_bind (fk_check cloud_credentials credentialId) (\<lambda>_. tx_bind sql_now (\<lambda>now.
      tx_bind (tx_gets (\<lambda>s. filter (\<lambda>l. line_key l = item_key credentialId x) (cost_line_items s))) (\<lambda>conflict. case conflict of
        [] \<Rightarrow> tx_bind gen_random_uuid (\<lambda>i. tx_bind (sql_insert cost_line_items_update qr
            \<lparr>row_id = i, tenant_id = tenantId, li_cloud_credential_id = credentialId, li_resource_id = None, li_service = lc_service x, li_region = lc_region x,
             li_usage_date = lc_usageDate x, li_amount = lc_amount x, li_currency = lc_currency x, li_tags = tags, li_raw = lc_raw x, li_synced_at = now\<rparr>) (\<lambda>_. tx_return ()))
      | l # _ \<Rightarrow> if \<not> tenant_isolation qr l then tx_throw insufficient_privilege
          else tx_bind (sql_update cost_line_items cost_line_items_update qr (\<lambda>l. line_key l = item_key credentialId x)
            (\<lambda>l. l\<lparr>li_amount := lc_amount x, li_currency := lc_currency x, li_tags := tags, li_raw := lc_raw x, li_synced_at := now\<rparr>)) (\<lambda>_. tx_return ())))))"

definition sync_line_items :: "js_format \<Rightarrow> query_runner \<Rightarrow> uuid \<Rightarrow> uuid \<Rightarrow> CloudCostLineItem list \<Rightarrow> ('s cost_scheme, unit) tx" where
  "sync_line_items F qr tenantId credentialId items = tx_fold (\<lambda>x _. upsert_line_item F qr tenantId credentialId x) items ()"

definition syncCredential :: "js_format \<Rightarrow> billing_factory \<Rightarrow> uuid \<Rightarrow> cloud_credential \<Rightarrow> ('s cost_scheme, nat) act" where
  "syncCredential F factory tenantId credential =
     (case factory (cc_provider credential) (cc_config credential) of
        Inl e \<Rightarrow> act_throw e
      | Inr getCostAndUsage \<Rightarrow> act_bind (act_gets clock) (\<lambda>now.
          case getCostAndUsage (fst (syncWindow now)) (snd (syncWindow now)) of
            Inl e \<Rightarrow> act_throw e
          | Inr lineItems \<Rightarrow> act_bind (withTenantContext tenantId (\<lambda>qr.
              tx_bind (sync_line_items F qr tenantId (row_id credential) lineItems) (\<lambda>_. tx_bind sql_now (\<lambda>now.
              sql_update cloud_credentials cloud_credentials_update qr (by_id (row_id credential)) (\<lambda>c. c\<lparr>cc_last_polled_at := Some now\<rparr>))))) (\<lambda>_.
              act_return (length lineItems))))"

definition syncTenant :: "js_format \<Rightarrow> billing_factory \<Rightarrow> uuid \<Rightarrow> ('s cost_scheme, nat) act" where
  "syncTenant F factory tenantId =
     act_bind (withTenantContext tenantId (\<lambda>qr. sql_select cloud_credentials qr cc_is_enabled)) (\<lambda>credentials.
     act_bind (act_fold (\<lambda>c n. act_catch (act_bind (syncCredential F factory tenantId c) (\<lambda>k. act_return (n + k))) (\<lambda>_. act_return n)) credentials 0) (\<lambda>syncedCount.
     act_bind (act_catch (act_bind (pace_checkTenant F tenantId) (\<lambda>_. act_return ())) (\<lambda>_. act_return ())) (\<lambda>_.
     act_bind (act_catch (act_bind (anomaly_checkTenant F tenantId) (\<lambda>_. act_return ())) (\<lambda>_. act_return ())) (\<lambda>_.
     act_return syncedCount))))"

definition syncOnce :: "js_format \<Rightarrow> billing_factory \<Rightarrow> bool \<Rightarrow> ('s cost_scheme, nat) act" where
  "syncOnce F factory running =
     (if running then act_return 0 else act_bind (act_gets tenants) (\<lambda>ts.
       act_fold (\<lambda>t n. act_catch (act_bind (syncTenant F factory (tn_id t)) (\<lambda>k. act_return (n + k))) (\<lambda>_. act_return n)) ts 0))"

section \<open>The ledger\<close>

definition ledger :: "'s cost_scheme \<Rightarrow> ledger_key \<rightharpoonup> rat" where
  "ledger s = map_of (map (\<lambda>l. (line_key l, li_amount l)) (cost_line_items s))"

text \<open>The unique index, and that the lines of a credential are the tenant's.\<close>

definition lines_ok :: "uuid \<Rightarrow> uuid \<Rightarrow> 's cost_scheme \<Rightarrow> bool" where
  "lines_ok T c s \<longleftrightarrow> distinct (map line_key (cost_line_items s)) \<and> (\<forall>l \<in> set (cost_line_items s). li_cloud_credential_id l = c \<longrightarrow> tenant_id l = T)"

lemma map_of_replace:
  "k \<in> K ` set ls \<Longrightarrow> map_of (map (\<lambda>l. (K l, if K l = k then v else A l)) ls) = (map_of (map (\<lambda>l. (K l, A l)) ls))(k \<mapsto> v)"
proof (induction ls)
  case (Cons l ls)
  have "k \<notin> K ` set ls \<Longrightarrow> map_of (map (\<lambda>l. (K l, if K l = k then v else A l)) ls) = map_of (map (\<lambda>l. (K l, A l)) ls)"
    by (induction ls) auto
  with Cons show ?case by (cases "k \<in> K ` set ls") auto
qed simp

lemma upsert_line_item_run:
  assumes "upsert_line_item F T T c x s = Inr (u, t)" and "lines_ok T c s"
  shows "lines_ok T c t \<and> ledger t = (ledger s)(item_key c x \<mapsto> lc_amount x)"
proof (cases "filter (\<lambda>l. line_key l = item_key c x) (cost_line_items s)")
  case Nil
  then have new: "item_key c x \<notin> line_key ` set (cost_line_items s)" by (auto simp: filter_empty_conv)
  from assms(1) Nil obtain r where t: "cost_line_items t = cost_line_items s @ [r]" and r: "line_key r = item_key c x" "li_amount r = lc_amount x" "tenant_id r = T"
    by (auto simp: upsert_line_item_def Let_def fk_check_def tx_bind_def sql_now_def gen_random_uuid_def sql_insert_def line_key_def item_key_def split: if_splits)
  have "map_of (map (\<lambda>l. (line_key l, li_amount l)) (cost_line_items s)) (item_key c x) = None"
    using new by (simp add: map_of_eq_None_iff image_image)
  then have "ledger t = (ledger s)(item_key c x \<mapsto> lc_amount x)"
    by (auto simp: ledger_def t r map_add_def fun_eq_iff split: option.splits)
  then show ?thesis using assms(2) new r by (auto simp: lines_ok_def t)
next
  case (Cons l ls)
  define f where "f = (\<lambda>l :: cost_line_item. l\<lparr>li_amount := lc_amount x, li_currency := lc_currency x,
      li_tags := JObj (tags_json (normalizeAllocationTags F (lc_tags x))), li_raw := lc_raw x, li_synced_at := clock s\<rparr>)"
  from assms(1) Cons have t: "cost_line_items t = update_rows T (\<lambda>l. line_key l = item_key c x) f (cost_line_items s)"
    by (auto simp: upsert_line_item_def Let_def fk_check_def tx_bind_def sql_now_def sql_update_def f_def split: if_splits)
  have f: "line_key (f l) = line_key l" "tenant_id (f l) = tenant_id l" "li_cloud_credential_id (f l) = li_cloud_credential_id l" "li_amount (f l) = lc_amount x" for l
    by (simp_all add: f_def line_key_def)
  have own: "line_key l = item_key c x \<Longrightarrow> l \<in> set (cost_line_items s) \<Longrightarrow> tenant_id l = T" for l
    using assms(2) by (auto simp: lines_ok_def line_key_def item_key_def)
  have "l \<in> set (filter (\<lambda>l. line_key l = item_key c x) (cost_line_items s))" using Cons by simp
  then have "item_key c x \<in> line_key ` set (cost_line_items s)" by force
  moreover have "map (\<lambda>l. (line_key l, li_amount l)) (cost_line_items t) =
      map (\<lambda>l. (line_key l, if line_key l = item_key c x then lc_amount x else li_amount l)) (cost_line_items s)"
    by (auto simp: t update_rows_def f tenant_isolation_def own)
  ultimately have "ledger t = (ledger s)(item_key c x \<mapsto> lc_amount x)" by (simp add: ledger_def map_of_replace)
  moreover have "lines_ok T c t"
    using assms(2) f by (auto simp: lines_ok_def t map_update_rows dest!: set_update_rowsD)
  ultimately show ?thesis by blast
qed

lemma sync_line_items_run:
  assumes "sync_line_items F T T c items s = Inr (u, t)" and "lines_ok T c s"
  shows "lines_ok T c t \<and> ledger t = ledger s ++ map_of (rev (map (\<lambda>x. (item_key c x, lc_amount x)) items))"
  using assms unfolding sync_line_items_def
proof (induction items arbitrary: s)
  case (Cons x items)
  from Cons.prems(1) obtain v where v: "upsert_line_item F T T c x s = Inr ((), v)"
      and rest: "tx_fold (\<lambda>x _. upsert_line_item F T T c x) items () v = Inr (u, t)"
    by (auto elim!: tx_bindE)
  note step = upsert_line_item_run [OF v Cons.prems(2)]
  have "ledger v = ledger s ++ [item_key c x \<mapsto> lc_amount x]" using step by simp
  with Cons.IH [OF rest] step show ?case by (simp only: list.map rev.simps map_of_append map_of.simps fst_conv snd_conv map_add_assoc simp_thms)
qed simp

lemma ledger_size: "lines_ok T c s \<Longrightarrow> length (cost_line_items s) = card (dom (ledger s))"
  by (simp add: lines_ok_def ledger_def dom_map_of_conv_image_fst image_image) (metis distinct_card length_map set_map)

text \<open>
  C15. The billing sync as an update of a ledger. Read as a map from account, service, region and day to an amount, the
  line items after a sync are the ones before it, overwritten by the amounts of the items in their order; the unique
  index holds again. Running the same sync a second time changes no amount and adds no line.
\<close>

theorem billing_sync_refines_ledger:
  assumes "sync_line_items F T T c items s = Inr (u, t)" and "lines_ok T c s"
  shows "lines_ok T c t \<and> ledger t = ledger s ++ map_of (rev (map (\<lambda>x. (item_key c x, lc_amount x)) items)) \<and>
    (\<forall>v w. sync_line_items F T T c items t = Inr (v, w) \<longrightarrow> ledger w = ledger t \<and> length (cost_line_items w) = length (cost_line_items t))"
proof (intro conjI allI impI)
  note first = sync_line_items_run [OF assms]
  show "lines_ok T c t" "ledger t = ledger s ++ map_of (rev (map (\<lambda>x. (item_key c x, lc_amount x)) items))" using first by blast+
  fix v w
  assume "sync_line_items F T T c items t = Inr (v, w)"
  note second = sync_line_items_run [OF this, OF conjunct1 [OF first]]
  have "m ++ n ++ n = m ++ n" for m n :: "ledger_key \<rightharpoonup> rat" by (simp add: map_add_assoc [symmetric] map_add_subsumed1)
  with first second show same: "ledger w = ledger t" by metis
  show "length (cost_line_items w) = length (cost_line_items t)"
    using ledger_size [OF conjunct1 [OF first]] ledger_size [OF conjunct1 [OF second]] same by simp
qed

definition billed_item :: "rat \<Rightarrow> CloudCostLineItem" where
  "billed_item a = \<lparr>lc_service = ''EC2'', lc_region = Some [], lc_usageDate = 0, lc_amount = a, lc_currency = ''USD'', lc_tags = None, lc_raw = JObj []\<rparr>"

theorem billing_sync_refines_ledger_witness:
  "\<exists>t. sync_line_items unary_format 1 1 95 [billed_item 5, billed_item 7] billed = Inr ((), t) \<and> ledger t (95, ''EC2'', [], 0) = Some 7"
proof -
  obtain t where run: "sync_line_items unary_format 1 1 95 [billed_item 5, billed_item 7] billed = Inr ((), t)"
    by (simp add: sync_line_items_def upsert_line_item_def Let_def tx_bind_def fk_check_def sql_now_def sql_update_def discovering_def line_key_def item_key_def
        coalesce_text_def cloud_line_def billed_item_def tenant_isolation_def update_rows_def)
  moreover have "lines_ok 1 95 billed" by (simp add: lines_ok_def cloud_line_def)
  ultimately have "ledger t = ledger billed ++ map_of (rev (map (\<lambda>x. (item_key 95 x, lc_amount x)) [billed_item 5, billed_item 7]))"
    using billing_sync_refines_ledger by blast
  with run show ?thesis by (simp add: item_key_def billed_item_def coalesce_text_def)
qed

section \<open>Removing a budget\<close>

text \<open>
  Removing a budget. A budget of the tenant that has ever had an alert cannot be removed, not even by its owner and
  whatever the status of the alert: the statement fails on the constraint of the alerts and nothing changes. Without
  an alert exactly the budget goes, and a budget of another tenant is not found.
\<close>

theorem budget_removal:
  "budgets_remove T i s =
    (if \<forall>x \<in> set (cost_budgets s). row_id x = i \<longrightarrow> tenant_id x \<noteq> T then (Inl (NotFound ''Cost budget'' i), s)
     else if \<exists>a \<in> set (cost_alerts s). ca_cost_budget_id a = i then (Inl check_violation, s)
     else (Inr (), s\<lparr>cost_budgets := delete_rows T (by_id i) (cost_budgets s)\<rparr>))"
proof -
  have "filter (by_id i) (visible T (cost_budgets s)) = [] \<longleftrightarrow> (\<forall>x \<in> set (cost_budgets s). row_id x = i \<longrightarrow> tenant_id x \<noteq> T)"
    by (auto simp: filter_empty_conv by_id_def)
  then show ?thesis
    by (auto simp: budgets_remove_def withTenantContext_def remove_referenced_def tx_bind_def sql_delete_def alerts_has_a_source_def split: sum.splits)
qed

definition budget_alert :: cost_alert where
  "budget_alert = \<lparr>row_id = 98, tenant_id = 1, ca_cost_budget_id = 97, ca_severity = Sev_Info, ca_status = Alert_Resolved, ca_reason_text = [],
     ca_repeat_count = 0, ca_opened_at = 0, ca_last_seen_at = 0, ca_resolved_at = Some 0\<rparr>"

theorem budget_removal_witness:
  "budgets_remove 1 97 (billed\<lparr>cost_alerts := [budget_alert]\<rparr>) = (Inl check_violation, billed\<lparr>cost_alerts := [budget_alert]\<rparr>)"
  using budget_removal [of 1 97 "billed\<lparr>cost_alerts := [budget_alert]\<rparr>"] by (simp add: cloud_budget_def budget_alert_def)

section \<open>The alert of a budget\<close>

lemma enqueue_run:
  assumes "enqueue T channel recipient name payload s = (Inr i, t)"
  shows "length (notifications t) = Suc (length (notifications s)) \<and> platform.more t = platform.more s"
  using assms
  by (auto simp: enqueue_def act_bind_eq_Inr randomUUID_def withTenantContext_def sql_insert_def publish_run Let_def split: if_splits)

definition notifiable :: "cost_budget \<Rightarrow> bool" where
  "notifiable b \<longleftrightarrow> cb_notify_channel b \<noteq> None \<and> cb_notify_recipient b \<notin> {None, Some []}"

lemma cost_notify_run:
  fixes s :: "'s cost_scheme"
  assumes "cost_notify T b v reason s = (Inr u, t)"
  shows "length (notifications t) = length (notifications s) + (if notifiable b then 1 else 0) \<and> cost_alerts t = cost_alerts s"
proof (cases "notifiable b")
  case True
  then obtain channel recipient where ch: "cb_notify_channel b = Some channel" "cb_notify_recipient b = Some recipient" "recipient \<noteq> []"
    by (auto simp: notifiable_def)
  from assms obtain body j where "enqueue T channel recipient ''cost.pace_alert'' (JObj [(''subject'', JStr (''Cost alert: '' @ cb_name b)), (''body'', JStr body)]) s = (Inr j, t)"
    by (auto simp: cost_notify_def ch act_bind_eq_Inr withTenantContext_Inr sql_first_def)
  from enqueue_run [OF this] have "length (notifications t) = Suc (length (notifications s))" and "platform.more t = platform.more s" by simp_all
  moreover from this(2) have "cost_alerts t = cost_alerts s" by (cases s; cases t; simp)
  ultimately show ?thesis using True by simp
next
  case False
  with assms show ?thesis by (auto simp: cost_notify_def notifiable_def split: option.splits if_splits)
qed

definition alert_of :: "uuid \<Rightarrow> 's cost_scheme \<Rightarrow> cost_alert list" where
  "alert_of i s = filter (active_cost_alert i) (cost_alerts s)"

text \<open>Identifiers are distinct, the alerts of the budget are the tenant's, and at most one of them is active.\<close>

definition budget_alerts_ok :: "uuid \<Rightarrow> uuid \<Rightarrow> 's cost_scheme \<Rightarrow> bool" where
  "budget_alerts_ok T i s \<longleftrightarrow> distinct (map row_id (cost_alerts s)) \<and> (\<forall>a \<in> set (cost_alerts s). row_id a < next_uuid s) \<and>
     (\<forall>a \<in> set (cost_alerts s). ca_cost_budget_id a = i \<longrightarrow> tenant_id a = T) \<and> length (alert_of i s) \<le> 1"

lemma first_alert:
  assumes "budget_alerts_ok T i s"
  shows "first_of (filter (active_cost_alert i) (visible T (cost_alerts s))) = first_of (alert_of i s)"
proof -
  have "filter (active_cost_alert i) (visible T (cost_alerts s)) = alert_of i s"
    unfolding alert_of_def visible_def filter_filter
    by (rule filter_cong) (use assms in \<open>auto simp: budget_alerts_ok_def active_cost_alert_def tenant_isolation_def\<close>)
  then show ?thesis by simp
qed

lemma update_one_alert:
  assumes ok: "budget_alerts_ok T i s" and one: "alert_of i s = [a]"
    and f: "row_id (f a) = row_id a" "tenant_id (f a) = tenant_id a" "ca_cost_budget_id (f a) = ca_cost_budget_id a"
    and t: "cost_alerts t = update_rows T (by_id (row_id a)) f (cost_alerts s)" "next_uuid t = next_uuid s"
  shows "budget_alerts_ok T i t \<and> alert_of i t = filter (active_cost_alert i) [f a] \<and>
    (\<forall>j. j \<noteq> i \<longrightarrow> alert_of j t = alert_of j s)"
proof -
  have a: "a \<in> set (cost_alerts s)" "active_cost_alert i a" using arg_cong [OF one, of set] by (auto simp: alert_of_def)
  have ids: "distinct (map row_id (cost_alerts s))" and T: "tenant_id a = T"
    using ok a by (auto simp: budget_alerts_ok_def active_cost_alert_def)
  note single = update_single [where f = f, OF ids one [unfolded alert_of_def] T]
  have own: "alert_of i t = filter (active_cost_alert i) [f a]" using single(1) by (simp add: alert_of_def t)
  have other: "alert_of j t = alert_of j s" if "j \<noteq> i" for j
    using single(2) [where Q = "active_cost_alert j"] a(2) f(3) that by (simp add: alert_of_def t active_cost_alert_def)
  note rows = update_rows_single [OF ids a(1) T, of f]
  have "map row_id (cost_alerts t) = map row_id (cost_alerts s)" unfolding t rows using f(1) by simp
  moreover have "x \<in> set (cost_alerts t) \<Longrightarrow> x \<in> set (cost_alerts s) \<or> x = f a" for x unfolding t rows by (auto split: if_splits)
  moreover have "length (alert_of i t) \<le> 1" unfolding own by simp
  ultimately have "budget_alerts_ok T i t" using ok a f t(2) unfolding budget_alerts_ok_def by metis
  with own other show ?thesis by blast
qed

text \<open>What the transaction of the check leaves.\<close>

definition pace_applied :: "uuid \<Rightarrow> alert_severity option \<Rightarrow> 's cost_scheme \<Rightarrow> 's cost_scheme \<Rightarrow> bool" where
  "pace_applied i sev s t \<longleftrightarrow> map ca_severity (alert_of i t) = (case sev of None \<Rightarrow> [] | Some v \<Rightarrow> [v]) \<and>
     (\<forall>j. j \<noteq> i \<longrightarrow> alert_of j t = alert_of j s)"

definition worsened :: "uuid \<Rightarrow> alert_severity option \<Rightarrow> 's cost_scheme \<Rightarrow> bool" where
  "worsened i sev s \<longleftrightarrow> (case sev of None \<Rightarrow> False | Some v \<Rightarrow> \<forall>a \<in> set (alert_of i s). SEVERITY_RANK (ca_severity a) < SEVERITY_RANK v)"

lemma apply_pace_new:
  assumes run: "apply_pace F T b result T s = Inr ((over, msg), t)" and ok: "budget_alerts_ok T (row_id b) s" and none: "alert_of (row_id b) s = []"
  shows "budget_alerts_ok T (row_id b) t \<and> pace_applied (row_id b) (Option.bind result bp_severity) s t \<and> over = (Option.bind result bp_severity \<noteq> None) \<and>
    (msg \<noteq> None \<longleftrightarrow> worsened (row_id b) (Option.bind result bp_severity) s) \<and> notifications t = notifications s"
proof (cases "Option.bind result bp_severity")
  case None
  with run ok none show ?thesis
    by (auto simp: apply_pace_def tx_bind_def sql_first_def first_alert sql_now_def pace_applied_def worsened_def)
next
  case (Some v)
  define r where "r = \<lparr>row_id = next_uuid s, tenant_id = T, ca_cost_budget_id = row_id b, ca_severity = v, ca_status = Alert_Open,
      ca_reason_text = generateCostInsightText F (cb_name b) (the result), ca_repeat_count = 0, ca_opened_at = clock s, ca_last_seen_at = clock s, ca_resolved_at = None\<rparr>"
  have r: "active_cost_alert (row_id b) r" "ca_cost_budget_id r = row_id b" "ca_severity r = v" "row_id r = next_uuid s" "tenant_id r = T"
    by (simp_all add: r_def active_cost_alert_def)
  have t: "cost_alerts t = cost_alerts s @ [r]" "next_uuid t = Suc (next_uuid s)" "notifications t = notifications s" and res: "over" "msg \<noteq> None"
    using run none Some by (auto simp: apply_pace_def tx_bind_def sql_first_def first_alert [OF ok] sql_now_def Let_def fk_check_def gen_random_uuid_def sql_insert_def
        r_def split: if_splits)
  have "alert_of (row_id b) t = [r]" using none r by (simp add: alert_of_def t)
  moreover have "alert_of j t = alert_of j s" if "j \<noteq> row_id b" for j using that r by (simp add: alert_of_def t active_cost_alert_def)
  moreover have "budget_alerts_ok T (row_id b) t"
  proof -
    have "next_uuid s \<notin> row_id ` set (cost_alerts s)" using ok by (auto simp: budget_alerts_ok_def)
    moreover have "\<forall>a \<in> set (cost_alerts s). row_id a < Suc (next_uuid s)" using ok by (simp add: budget_alerts_ok_def less_Suc_eq)
    ultimately show ?thesis using ok r(2,4,5) \<open>alert_of (row_id b) t = [r]\<close> by (simp add: budget_alerts_ok_def t)
  qed
  ultimately show ?thesis using Some r res t none by (simp add: pace_applied_def worsened_def)
qed

lemma apply_pace_open:
  assumes run: "apply_pace F T b result T s = Inr ((over, msg), t)" and ok: "budget_alerts_ok T (row_id b) s" and one: "alert_of (row_id b) s = [a]"
  shows "budget_alerts_ok T (row_id b) t \<and> pace_applied (row_id b) (Option.bind result bp_severity) s t \<and> over = (Option.bind result bp_severity \<noteq> None) \<and>
    (msg \<noteq> None \<longleftrightarrow> worsened (row_id b) (Option.bind result bp_severity) s) \<and> notifications t = notifications s"
proof (cases "Option.bind result bp_severity")
  case None
  define f where "f = (\<lambda>a :: cost_alert. a\<lparr>ca_status := Alert_Resolved, ca_resolved_at := Some (clock s)\<rparr>)"
  from run one None have t: "cost_alerts t = update_rows T (by_id (row_id a)) f (cost_alerts s)" "next_uuid t = next_uuid s" "notifications t = notifications s"
      and res: "\<not> over" "msg = None"
    by (auto simp: apply_pace_def tx_bind_def sql_first_def first_alert [OF ok] sql_now_def sql_update_def f_def Let_def split: if_splits)
  have "\<not> active_cost_alert (row_id b) (f a)" by (simp add: f_def active_cost_alert_def)
  with update_one_alert [OF ok one _ _ _ t(1,2)] None res t(3) show ?thesis by (simp add: f_def pace_applied_def worsened_def)
next
  case (Some v)
  define f where "f = (\<lambda>a :: cost_alert. a\<lparr>ca_severity := v, ca_reason_text := generateCostInsightText F (cb_name b) (the result),
               ca_repeat_count := ca_repeat_count a + 1, ca_last_seen_at := clock s\<rparr>)"
  from run one Some have t: "cost_alerts t = update_rows T (by_id (row_id a)) f (cost_alerts s)" "next_uuid t = next_uuid s" "notifications t = notifications s"
      and res: "over" "msg \<noteq> None \<longleftrightarrow> SEVERITY_RANK (ca_severity a) < SEVERITY_RANK v"
    by (auto simp: apply_pace_def tx_bind_def sql_first_def first_alert [OF ok] sql_now_def sql_update_def f_def Let_def split: if_splits)
  have "active_cost_alert (row_id b) a" using arg_cong [OF one, of set] by (auto simp: alert_of_def)
  then have "active_cost_alert (row_id b) (f a)" by (simp add: f_def active_cost_alert_def)
  with update_one_alert [OF ok one _ _ _ t(1,2)] Some res t(3) one show ?thesis by (simp add: f_def pace_applied_def worsened_def)
qed

lemma apply_pace_run:
  assumes "apply_pace F T b result T s = Inr ((over, msg), t)" and "budget_alerts_ok T (row_id b) s"
  shows "budget_alerts_ok T (row_id b) t \<and> pace_applied (row_id b) (Option.bind result bp_severity) s t \<and> over = (Option.bind result bp_severity \<noteq> None) \<and>
    (msg \<noteq> None \<longleftrightarrow> worsened (row_id b) (Option.bind result bp_severity) s) \<and> notifications t = notifications s"
proof (cases "alert_of (row_id b) s")
  case Nil
  with assms show ?thesis by (rule apply_pace_new)
next
  case (Cons a as)
  with assms(2) have "alert_of (row_id b) s = [a]" by (simp add: budget_alerts_ok_def)
  with assms show ?thesis by (rule apply_pace_open)
qed

text \<open>
  C16. The alert of a budget. A check that succeeds leaves the budget with exactly one active alert, of the severity of
  its pace, if the pace has one, and with none otherwise; the alerts of other budgets stay as they are. It reports
  whether the budget is over pace. A notification is queued exactly if the budget names a channel and a recipient
  and the severity is higher than the one of the alert that was active before (or there was none).
\<close>

theorem budget_alert_follows_pace:
  fixes s t :: "'s cost_scheme"
  assumes "checkBudget F T b s = (Inr over, t)" and "budget_alerts_ok T (row_id b) s"
  shows "map ca_severity (alert_of (row_id b) t) = (case Option.bind (pace_of T b s) bp_severity of None \<Rightarrow> [] | Some v \<Rightarrow> [v]) \<and>
    (\<forall>j. j \<noteq> row_id b \<longrightarrow> alert_of j t = alert_of j s) \<and> over = (Option.bind (pace_of T b s) bp_severity \<noteq> None) \<and>
    length (notifications t) = length (notifications s) +
      (if notifiable b \<and> worsened (row_id b) (Option.bind (pace_of T b s) bp_severity) s then 1 else 0)"
proof -
  let ?work = "apply_pace F T b (pace_of T b s)"
  from assms(1) have run: "commit_after_notify T b ?work s = (Inr over, t)" by (simp add: checkBudget_def withTenantContext_def)
  then obtain msg u where work: "?work T s = Inr ((over, msg), u)"
    by (auto simp: commit_after_notify_def withTenantContext_def split: sum.splits prod.splits option.splits)
  note u = apply_pace_run [OF work assms(2)]
  have t: "length (notifications t) = length (notifications u) + (if notifiable b \<and> msg \<noteq> None then 1 else 0) \<and> cost_alerts t = cost_alerts u"
  proof (cases msg)
    case None
    with run work show ?thesis by (simp add: commit_after_notify_def withTenantContext_def)
  next
    case (Some m)
    obtain v reason where m: "m = (v, reason)" by fastforce
    with run work Some obtain w where "cost_notify T b v reason u = (Inr w, t)"
      by (auto simp: commit_after_notify_def withTenantContext_def split: sum.splits prod.splits)
    from cost_notify_run [OF this] Some show ?thesis by simp
  qed
  then have alerts: "alert_of j t = alert_of j u" for j by (simp add: alert_of_def)
  from u t show ?thesis unfolding alerts pace_applied_def by simp
qed

theorem budget_alert_follows_pace_witness:
  "\<exists>t. checkBudget unary_format 1 cloud_budget billed = (Inr True, t) \<and> map ca_severity (alert_of 97 t) = [Sev_Critical]"
proof -
  have pace: "Option.bind (pace_of 1 cloud_budget billed) bp_severity = Some Sev_Critical"
    by (simp add: pace_of_def mtd_spend_def previous_month_total_def sum_amount_def budget_scope_def calculateBudgetPace_def Let_def cloud_line_def cloud_budget_def
        tenant_isolation_def)
  then obtain over t where run: "checkBudget unary_format 1 cloud_budget billed = (Inr over, t)"
    by (simp add: checkBudget_def withTenantContext_def commit_after_notify_def apply_pace_def tx_bind_def sql_first_def sql_now_def fk_check_def gen_random_uuid_def
        sql_insert_def tenant_isolation_def cost_notify_def Let_def) (simp add: cloud_budget_def)
  have "budget_alerts_ok 1 (row_id cloud_budget) billed" by (simp add: budget_alerts_ok_def alert_of_def)
  from budget_alert_follows_pace [OF run this] pace have "over" "map ca_severity (alert_of (row_id cloud_budget) t) = [Sev_Critical]" by simp_all
  with run show ?thesis by (auto simp: cloud_budget_def)
qed

end
