(* ===== verification/Cost_Insights.thy ===== *)
theory Cost_Insights
  imports Cost_Budgets
begin

text \<open>
  What the cost module reads: allocation by tag (\<open>cost-allocation.service.ts\<close>), the dashboard and the forecast of
  \<open>cost-dashboard.service.ts\<close>, and the accounts of \<open>cost-accounts.service.ts\<close>. The lemmas: the rows of an allocation
  add up to the spend of the period, the spend of a month is the sum over its days, and nothing here writes.
\<close>

section \<open>Groups\<close>

text \<open>\<open>SELECT k, SUM(v) \<dots> GROUP BY k\<close>, the groups in the order of their first row.\<close>

definition group_sums :: "('r \<Rightarrow> 'k) \<Rightarrow> ('r \<Rightarrow> rat) \<Rightarrow> 'r list \<Rightarrow> ('k \<times> rat) list" where
  "group_sums key val rows = map (\<lambda>k. (k, \<Sum>r \<leftarrow> filter (\<lambda>r. key r = k) rows. val r)) (js_unique (map key rows))"

definition cost_lines :: "query_runner \<Rightarrow> (cost_line_item \<Rightarrow> bool) \<Rightarrow> 's cost_scheme \<Rightarrow> cost_line_item list" where
  "cost_lines qr P s = filter P (visible qr (cost_line_items s))"

section \<open>Allocation\<close>

record AllocationOptions =
  ao_from :: "int option"
  ao_to :: "int option"

record Allocation =
  al_tagKey :: string
  al_total :: rat
  al_rows :: "(string \<times> rat) list"

text \<open>\<open>COALESCE(NULLIF(tags->>key, ''), '(untagged)')\<close>; the sync stores strings only.\<close>

definition tag_value :: "string \<Rightarrow> cost_line_item \<Rightarrow> string" where
  "tag_value tagKey l = (case js_prop (li_tags l) tagKey of Some (JStr v) \<Rightarrow> if v = [] then ''(untagged)'' else v | _ \<Rightarrow> ''(untagged)'')"

definition json_keys :: "json \<Rightarrow> string list" where
  "json_keys j = (case j of JObj kvs \<Rightarrow> map fst kvs | _ \<Rightarrow> [])"

definition tagKeys :: "uuid \<Rightarrow> ('s cost_scheme, string list) act" where
  "tagKeys tenantId = withTenantContext tenantId (\<lambda>qr. tx_gets (\<lambda>s.
     sort (js_unique (concat (map (\<lambda>l. json_keys (li_tags l)) (cost_lines qr (\<lambda>l. li_tags l \<noteq> JObj []) s))))))"

definition allocation_period :: "AllocationOptions \<Rightarrow> msec \<Rightarrow> cost_line_item \<Rightarrow> bool" where
  "allocation_period opts now l \<longleftrightarrow>
     (case ao_from opts of Some d \<Rightarrow> li_usage_date l \<ge> d | None \<Rightarrow> li_usage_date l \<ge> month_start now) \<and>
     (case ao_to opts of Some d \<Rightarrow> li_usage_date l \<le> d | None \<Rightarrow> True)"

definition allocationByTag :: "uuid \<Rightarrow> string \<Rightarrow> AllocationOptions \<Rightarrow> ('s cost_scheme, Allocation) act" where
  "allocationByTag tenantId tagKey opts = withTenantContext tenantId (\<lambda>qr. tx_gets (\<lambda>s.
     let rows = order_by (\<lambda>r. - snd r) (group_sums (tag_value tagKey) li_amount (cost_lines qr (allocation_period opts (clock s)) s))
     in \<lparr>al_tagKey = tagKey, al_total = (\<Sum>r \<leftarrow> rows. snd r), al_rows = rows\<rparr>))"

section \<open>The dashboard\<close>

definition everything :: "cost_line_item \<Rightarrow> bool" where
  "everything l \<longleftrightarrow> True"

text \<open>\<open>calculateBudgetPace\<close> without a budget, with the thresholds of the dashboards.\<close>

definition spend_pace :: "query_runner \<Rightarrow> (cost_line_item \<Rightarrow> bool) \<Rightarrow> 's cost_scheme \<Rightarrow> BudgetPaceResult option" where
  "spend_pace qr scope s = calculateBudgetPace
     \<lparr>bi_mtdSpend = mtd_spend qr scope s, bi_previousMonthTotal = previous_month_total qr scope s, bi_monthlyBudgetAmount = None,
      bi_daysElapsed = utc_date (clock s), bi_daysInMonth = days_in_current_month (clock s), bi_warningThresholdPct = 20, bi_criticalThresholdPct = 40\<rparr>"

record CostSummary =
  cs_mtdSpend :: rat
  cs_previousMonthTotal :: "rat option"
  cs_forecast :: "rat option"
  cs_forecastPctChange :: "rat option"
  cs_connectedAccounts :: nat
  cs_openBudgetAlerts :: nat
  cs_openRecommendations :: nat

definition cost_summary :: "uuid \<Rightarrow> ('s cost_scheme, CostSummary) act" where
  "cost_summary tenantId = withTenantContext tenantId (\<lambda>qr. tx_gets (\<lambda>s.
     \<lparr>cs_mtdSpend = mtd_spend qr everything s, cs_previousMonthTotal = previous_month_total qr everything s,
      cs_forecast = map_option bp_projectedFullMonth (spend_pace qr everything s),
      cs_forecastPctChange = map_option bp_pctOverPace (spend_pace qr everything s),
      cs_connectedAccounts = length (filter cc_is_enabled (visible qr (cloud_credentials s))),
      cs_openBudgetAlerts = length (filter (\<lambda>a. ca_status a = Alert_Open \<or> ca_status a = Alert_Acknowledged) (visible qr (cost_alerts s))),
      cs_openRecommendations = length (filter (\<lambda>r. rr_status r = Rr_Open) (visible qr (rightsizing_recommendations s)))\<rparr>))"

text \<open>\<open>to_char(date_trunc('month', usage_date), 'YYYY-MM')\<close>.\<close>

definition pad_zeros :: "nat \<Rightarrow> string \<Rightarrow> string" where
  "pad_zeros n t = replicate (n - length t) (CHR ''0'') @ t"

definition month_text :: "int \<Rightarrow> string" where
  "month_text d = pad_zeros 4 (int_text (utc_year (d * MS_PER_DAY))) @ ''-'' @ pad_zeros 2 (nat_text (utc_month (d * MS_PER_DAY) + 1))"

definition monthly_totals :: "cost_line_item list \<Rightarrow> (string \<times> rat) list" where
  "monthly_totals lines = order_by fst (group_sums (\<lambda>l. month_text (li_usage_date l)) li_amount lines)"

definition cost_trend :: "uuid \<Rightarrow> ('s cost_scheme, (string \<times> rat) list) act" where
  "cost_trend tenantId = withTenantContext tenantId (\<lambda>qr. tx_gets (\<lambda>s.
     monthly_totals (cost_lines qr (\<lambda>l. li_usage_date l \<ge> months_before 6 (clock s)) s)))"

definition TREND_MONTHS_FOR_REGRESSION :: int where
  "TREND_MONTHS_FOR_REGRESSION = 12"

definition day_rows :: "cost_line_item list \<Rightarrow> DailySpendRow list" where
  "day_rows lines = map (\<lambda>(d, a). \<lparr>dr_usage_date = d * MS_PER_DAY, dr_amount = a\<rparr>) (group_sums li_usage_date li_amount lines)"

definition account_scope :: "uuid option \<Rightarrow> cost_line_item \<Rightarrow> bool" where
  "account_scope c l \<longleftrightarrow> (case c of None \<Rightarrow> True | Some i \<Rightarrow> li_cloud_credential_id l = i)"

definition month_end_input :: "query_runner \<Rightarrow> uuid option \<Rightarrow> 's cost_scheme \<Rightarrow> MonthEndForecastInput" where
  "month_end_input qr c s =
     (let now = clock s; start = month_start now; today = iso_day now;
          elapsed = buildDailySpend (start * MS_PER_DAY) (today * MS_PER_DAY)
            (day_rows (cost_lines qr (\<lambda>l. start \<le> li_usage_date l \<and> li_usage_date l \<le> today \<and> account_scope c l) s))
      in \<lparr>mi_elapsedDailySpend = elapsed,
          mi_elapsedDayOfWeek = map (\<lambda>i. week_day (start + int i)) [0..<length elapsed],
          mi_remainingDayOfWeek = map (\<lambda>day. week_day (utc_day (utc_year now) (int (utc_month now)) day)) [utc_date now + 1..days_in_current_month now]\<rparr>)"

definition cost_forecast :: "uuid \<Rightarrow> uuid option \<Rightarrow> int \<Rightarrow> ('s cost_scheme, MonthEndForecastResult option \<times> MultiMonthForecastResult option) act" where
  "cost_forecast tenantId c horizonMonths = withTenantContext tenantId (\<lambda>qr. tx_gets (\<lambda>s.
     (forecastMonthEnd (month_end_input qr c s),
      forecastMultiMonth (map snd (monthly_totals (cost_lines qr (\<lambda>l. months_before TREND_MONTHS_FOR_REGRESSION (clock s) \<le> li_usage_date l \<and>
        li_usage_date l < month_start (clock s) \<and> account_scope c l) s))) horizonMonths)))"

section \<open>Accounts\<close>

record AccountSummary =
  ac_cloudCredentialId :: uuid
  ac_provider :: string
  ac_label :: string
  ac_lastPolledAt :: "msec option"
  ac_previousMonthTotal :: "rat option"
  ac_mtdSpend :: rat
  ac_mtdPctChange :: "rat option"
  ac_forecast :: "rat option"
  ac_forecastPctChange :: "rat option"
  ac_insightText :: "string option"
  ac_trend :: "(string \<times> rat) list"
  ac_topServices :: "(string \<times> rat) list"
  ac_topRegions :: "(string \<times> rat) list"

definition same_period_total :: "query_runner \<Rightarrow> (cost_line_item \<Rightarrow> bool) \<Rightarrow> 's cost_scheme \<Rightarrow> rat option" where
  "same_period_total qr scope s =
     (let start = months_before 1 (clock s);
          total = sum_amount qr (\<lambda>l. scope l \<and> start \<le> li_usage_date l \<and> li_usage_date l < start + utc_date (clock s)) s
      in if total > 0 then Some total else None)"

definition top_five :: "(string \<times> rat) list \<Rightarrow> (string \<times> rat) list" where
  "top_five rows = take 5 (order_by (\<lambda>r. - snd r) rows)"

definition buildSummary :: "js_format \<Rightarrow> query_runner \<Rightarrow> cloud_credential \<Rightarrow> 's cost_scheme \<Rightarrow> AccountSummary" where
  "buildSummary F qr c s =
     (let scope = (\<lambda>l. li_cloud_credential_id l = row_id c);
          mtdSpend = mtd_spend qr scope s;
          pace = spend_pace qr scope s;
          this_month = cost_lines qr (\<lambda>l. scope l \<and> li_usage_date l \<ge> month_start (clock s)) s
      in \<lparr>ac_cloudCredentialId = row_id c, ac_provider = cc_provider c, ac_label = cc_label c, ac_lastPolledAt = cc_last_polled_at c,
          ac_previousMonthTotal = previous_month_total qr scope s, ac_mtdSpend = mtdSpend,
          ac_mtdPctChange = map_option (\<lambda>prev. (mtdSpend - prev) / prev * 100) (same_period_total qr scope s),
          ac_forecast = map_option bp_projectedFullMonth pace, ac_forecastPctChange = map_option bp_pctOverPace pace,
          ac_insightText = map_option (generateCostInsightText F (cc_label c)) pace,
          ac_trend = monthly_totals (cost_lines qr scope s),
          ac_topServices = top_five (group_sums li_service li_amount this_month),
          ac_topRegions = top_five (group_sums (\<lambda>l. case li_region l of None \<Rightarrow> ''unspecified'' | Some r \<Rightarrow> r) li_amount this_month)\<rparr>)"

definition accountsSummary :: "js_format \<Rightarrow> uuid \<Rightarrow> ('s cost_scheme, AccountSummary list) act" where
  "accountsSummary F tenantId = withTenantContext tenantId (\<lambda>qr.
     tx_bind (sql_select cloud_credentials qr cc_is_enabled) (\<lambda>credentials.
     tx_gets (\<lambda>s. map (\<lambda>c. buildSummary F qr c s) (order_by cc_label credentials))))"

definition accountSummary :: "js_format \<Rightarrow> uuid \<Rightarrow> uuid \<Rightarrow> ('s cost_scheme, AccountSummary) act" where
  "accountSummary F tenantId credentialId = withTenantContext tenantId (\<lambda>qr.
     tx_bind (find_row ''Cloud credential'' cloud_credentials qr credentialId) (\<lambda>c. tx_gets (buildSummary F qr c)))"

record LineItemFilters =
  lf_startDate :: "int option"
  lf_endDate :: "int option"
  lf_service :: "string option"
  lf_region :: "string option"

text \<open>An absent filter, or one that is empty, does not restrict.\<close>

definition line_matches :: "LineItemFilters \<Rightarrow> cost_line_item \<Rightarrow> bool" where
  "line_matches f l \<longleftrightarrow>
     (case lf_startDate f of None \<Rightarrow> True | Some d \<Rightarrow> li_usage_date l \<ge> d) \<and> (case lf_endDate f of None \<Rightarrow> True | Some d \<Rightarrow> li_usage_date l \<le> d) \<and>
     (case lf_service f of None \<Rightarrow> True | Some v \<Rightarrow> v = [] \<or> li_service l = v) \<and> (case lf_region f of None \<Rightarrow> True | Some v \<Rightarrow> v = [] \<or> li_region l = Some v)"

definition lineItems :: "uuid \<Rightarrow> uuid \<Rightarrow> LineItemFilters \<Rightarrow> ('s cost_scheme, cost_line_item list) act" where
  "lineItems tenantId credentialId filters = withTenantContext tenantId (\<lambda>qr.
     tx_bind (find_row ''Cloud credential'' cloud_credentials qr credentialId) (\<lambda>_.
     tx_bind (sql_select cost_line_items qr (\<lambda>l. li_cloud_credential_id l = credentialId \<and> line_matches filters l)) (\<lambda>rows.
     tx_return (take 500 (order_by (\<lambda>l. (- li_usage_date l, - li_amount l)) rows)))))"

section \<open>Sums of groups\<close>

lemma sum_partition:
  fixes v :: "'r \<Rightarrow> rat"
  assumes "distinct ks" and "key ` set rows \<subseteq> set ks"
  shows "(\<Sum>k \<leftarrow> ks. \<Sum>r \<leftarrow> filter (\<lambda>r. key r = k) rows. v r) = (\<Sum>r \<leftarrow> rows. v r)"
  using assms(2)
proof (induction rows)
  case (Cons r rows)
  have "(\<Sum>k \<leftarrow> ks. \<Sum>r \<leftarrow> filter (\<lambda>r. key r = k) (r # rows). v r) =
      (\<Sum>k \<leftarrow> ks. (if k = key r then v r else 0) + (\<Sum>r \<leftarrow> filter (\<lambda>r. key r = k) rows. v r))"
    by (intro arg_cong [of _ _ sum_list] map_cong) auto
  also have "\<dots> = (\<Sum>k \<leftarrow> ks. if k = key r then v r else 0) + (\<Sum>k \<leftarrow> ks. \<Sum>r \<leftarrow> filter (\<lambda>r. key r = k) rows. v r)"
    by (rule sum_list_addf)
  also have "(\<Sum>k \<leftarrow> ks. if k = key r then v r else 0) = v r" using Cons.prems assms(1) by (intro sum_list_single) auto
  finally show ?case using Cons by simp
qed simp

lemma group_sums_total: "(\<Sum>g \<leftarrow> group_sums key val rows. snd g) = (\<Sum>r \<leftarrow> rows. val r)"
  using sum_partition [of "js_unique (map key rows)" key rows val] by (simp add: group_sums_def o_def distinct_js_unique)

lemma group_sums_keys: "distinct (map fst (group_sums key val rows))"
  by (simp add: group_sums_def o_def distinct_js_unique)

lemma sum_order_by: "(\<Sum>r \<leftarrow> order_by k rows. (f r :: rat)) = (\<Sum>r \<leftarrow> rows. f r)"
  unfolding order_by_def by (metis mset_map mset_sort sum_mset_sum_list)

text \<open>
  C23. The allocation reconciles. Whatever tag is asked for, the total is the spend of the tenant in the period, line
  items without the tag included; every value of the tag has one row, with the sum of its line items, highest first.
\<close>

theorem allocation_reconciles:
  "\<exists>A. allocationByTag T tagKey opts s = (Inr A, s) \<and> al_total A = sum_amount T (allocation_period opts (clock s)) s \<and>
    al_total A = (\<Sum>r \<leftarrow> al_rows A. snd r) \<and> distinct (map fst (al_rows A)) \<and> sorted (rev (map snd (al_rows A))) \<and>
    set (al_rows A) = (\<lambda>v. (v, sum_amount T (\<lambda>l. allocation_period opts (clock s) l \<and> tag_value tagKey l = v) s)) `
      tag_value tagKey ` {l \<in> set (cost_line_items s). tenant_id l = T \<and> allocation_period opts (clock s) l}"
proof -
  define lines where "lines = cost_lines T (allocation_period opts (clock s)) s"
  define groups where "groups = group_sums (tag_value tagKey) li_amount lines"
  define A where "A = \<lparr>al_tagKey = tagKey, al_total = (\<Sum>r \<leftarrow> order_by (\<lambda>r. - snd r) groups. snd r), al_rows = order_by (\<lambda>r. - snd r) groups\<rparr>"
  have run: "allocationByTag T tagKey opts s = (Inr A, s)"
    by (simp add: allocationByTag_def withTenantContext_def Let_def A_def groups_def lines_def)
  have total: "al_total A = sum_amount T (allocation_period opts (clock s)) s"
    by (simp add: A_def sum_order_by groups_def group_sums_total lines_def cost_lines_def sum_amount_def)
  have keys: "distinct (map fst (al_rows A))"
    using group_sums_keys [of "tag_value tagKey" li_amount lines] by (simp add: A_def groups_def order_by_def distinct_map)
  have "sorted (map (\<lambda>r. - snd r) (al_rows A))" by (simp add: A_def order_by_def)
  then have falling: "sorted (rev (map snd (al_rows A)))" by (simp add: sorted_wrt_rev sorted_wrt_map)
  have "set (al_rows A) = (\<lambda>v. (v, \<Sum>l \<leftarrow> filter (\<lambda>l. tag_value tagKey l = v) lines. li_amount l)) ` tag_value tagKey ` set lines"
    by (simp add: A_def order_by_def groups_def group_sums_def)
  moreover have "(\<Sum>l \<leftarrow> filter (\<lambda>l. tag_value tagKey l = v) lines. li_amount l) = sum_amount T (\<lambda>l. allocation_period opts (clock s) l \<and> tag_value tagKey l = v) s" for v
    by (simp add: lines_def cost_lines_def sum_amount_def conj_commute)
  moreover have "set lines = {l \<in> set (cost_line_items s). tenant_id l = T \<and> allocation_period opts (clock s) l}"
    by (auto simp: lines_def cost_lines_def)
  ultimately have "set (al_rows A) = (\<lambda>v. (v, sum_amount T (\<lambda>l. allocation_period opts (clock s) l \<and> tag_value tagKey l = v) s)) `
      tag_value tagKey ` {l \<in> set (cost_line_items s). tenant_id l = T \<and> allocation_period opts (clock s) l}"
    by (simp only:)
  moreover have "al_total A = (\<Sum>r \<leftarrow> al_rows A. snd r)" by (simp add: A_def)
  ultimately show ?thesis using run total keys falling by blast
qed

text \<open>The forecast starts from one number per day of the month so far, which add up to the spend of these days.\<close>

lemma iso_day_of_day [simp]: "iso_day (d * MS_PER_DAY) = d"
  by (simp add: iso_day_def MS_PER_DAY_def)

lemma month_start_le_today: "month_start t \<le> iso_day t"
  using utc_parts [of t] by (simp add: month_start_def utc_day_def MakeDay_def)

lemma month_end_input_total:
  "length (mi_elapsedDailySpend (month_end_input T c s)) = nat (utc_date (clock s)) \<and>
   sum_list (mi_elapsedDailySpend (month_end_input T c s)) =
     sum_amount T (\<lambda>l. month_start (clock s) \<le> li_usage_date l \<and> li_usage_date l \<le> iso_day (clock s) \<and> account_scope c l) s"
proof -
  define start today where "start = month_start (clock s)" and "today = iso_day (clock s)"
  define lines where "lines = cost_lines T (\<lambda>l. start \<le> li_usage_date l \<and> li_usage_date l \<le> today \<and> account_scope c l) s"
  have le: "start \<le> today" by (simp add: start_def today_def month_start_le_today)
  have span: "(today * MS_PER_DAY - start * MS_PER_DAY) div MS_PER_DAY = today - start"
    using nonzero_mult_div_cancel_right [of MS_PER_DAY "today - start"] by (simp add: left_diff_distrib MS_PER_DAY_def)
  have mono: "start * MS_PER_DAY \<le> today * MS_PER_DAY" using le by (simp add: MS_PER_DAY_def)
  have days: "map (\<lambda>r. iso_day (dr_usage_date r)) (day_rows lines) = map fst (group_sums li_usage_date li_amount lines)"
    by (simp add: day_rows_def case_prod_unfold)
  have "distinct (map (\<lambda>r. iso_day (dr_usage_date r)) (day_rows lines))" unfolding days by (rule group_sums_keys)
  moreover have "iso_day (dr_usage_date r) \<in> {start..today}" if "r \<in> set (day_rows lines)" for r
    using that by (auto simp: day_rows_def group_sums_def lines_def cost_lines_def)
  ultimately have "length (buildDailySpend (start * MS_PER_DAY) (today * MS_PER_DAY) (day_rows lines)) = Suc (nat (today - start)) \<and>
      sum_list (buildDailySpend (start * MS_PER_DAY) (today * MS_PER_DAY) (day_rows lines)) = (\<Sum>r \<leftarrow> day_rows lines. dr_amount r)"
    using buildDailySpend_total [of "day_rows lines" "start * MS_PER_DAY" "today * MS_PER_DAY"] le mono by (simp add: span)
  moreover have "(\<Sum>r \<leftarrow> day_rows lines. dr_amount r) = (\<Sum>l \<leftarrow> lines. li_amount l)"
    by (simp add: day_rows_def case_prod_unfold o_def group_sums_total)
  moreover have "Suc (nat (today - start)) = nat (utc_date (clock s))"
    using utc_parts [of "clock s"] le by (simp add: start_def today_def month_start_def utc_day_def MakeDay_def)
  ultimately show ?thesis
    by (simp add: month_end_input_def Let_def start_def today_def lines_def cost_lines_def sum_amount_def)
qed

end
