(* ===== verification/Cost_Optimisation.thy ===== *)
theory Cost_Optimisation
  imports Cost_Insights
begin

text \<open>
  Savings: the estimate of \<open>cost-savings-estimate.ts\<close>, the sweep of \<open>rightsizing-sweep.service.ts\<close>, the service of
  \<open>recommendations.service.ts\<close>, the sweep of \<open>cost-savings-sweep.service.ts\<close> and its log, and the commitments of
  \<open>commitments/commitments.service.ts\<close> and \<open>commitment-sweep.service.ts\<close>. The rationale that a language model writes for a
  recommendation is not awaited and not part of the model. The lemmas: a resource has an open recommendation exactly
  while its utilisation is low; one metric that is not a number undoes the whole sweep of a tenant; a recommendation
  gets one ticket.
\<close>

section \<open>Loops that catch the errors of their statements\<close>

text \<open>
  A statement that fails aborts its transaction: all later statements fail, and the final \<open>COMMIT\<close> rolls back. The
  sweeps catch the error of each item inside one transaction; the result is the count, and the state the loop leaves
  or \<open>None\<close> when it was aborted.
\<close>

fun caught_fold :: "('x \<Rightarrow> nat \<Rightarrow> ('s, nat) tx) \<Rightarrow> 'x list \<Rightarrow> nat \<Rightarrow> 's \<Rightarrow> nat \<times> 's option" where
  "caught_fold f [] n s = (n, Some s)"
| "caught_fold f (x # xs) n s = (case f x n s of Inl e \<Rightarrow> (n, None) | Inr (k, t) \<Rightarrow> caught_fold f xs k t)"

definition tx_caught :: "('x \<Rightarrow> nat \<Rightarrow> ('s, nat) tx) \<Rightarrow> 'x list \<Rightarrow> ('s, nat) tx" where
  "tx_caught f xs = (\<lambda>s. case caught_fold f xs 0 s of (n, Some t) \<Rightarrow> Inr (n, t) | (n, None) \<Rightarrow> Inr (n, s))"

definition in_failed_sql_transaction :: error where
  "in_failed_sql_transaction = DbError ''25P02''"

definition count_if :: "('s, bool) tx \<Rightarrow> nat \<Rightarrow> ('s, nat) tx" where
  "count_if m n = tx_bind m (\<lambda>done. tx_return (if done then Suc n else n))"

section \<open>Rightsizing\<close>

definition IDLE_THRESHOLD_PCT :: rat where
  "IDLE_THRESHOLD_PCT = 5"

definition RIGHTSIZE_THRESHOLD_PCT :: rat where
  "RIGHTSIZE_THRESHOLD_PCT = 20"

definition RIGHTSIZING_LOOKBACK_DAYS :: int where
  "RIGHTSIZING_LOOKBACK_DAYS = 14"

definition server_count :: "query_runner \<Rightarrow> uuid \<Rightarrow> 's cost_scheme \<Rightarrow> nat" where
  "server_count qr c s = length (filter (\<lambda>r. re_cloud_credential_id r = Some c \<and> re_resource_type r = Rt_Server) (visible qr (resources s)))"

definition credential_of :: "query_runner \<Rightarrow> uuid \<Rightarrow> 's cost_scheme \<Rightarrow> uuid option" where
  "credential_of qr resourceId s = Option.bind (first_of (filter (by_id resourceId) (visible qr (resources s)))) re_cloud_credential_id"

definition estimateMonthlySaving :: "query_runner \<Rightarrow> uuid \<Rightarrow> RightsizingRecommendationType \<Rightarrow> 's cost_scheme \<Rightarrow> rat option" where
  "estimateMonthlySaving qr resourceId type s = (case credential_of qr resourceId s of
      None \<Rightarrow> None
    | Some c \<Rightarrow>
        (let monthlySpend = sum_amount qr (\<lambda>l. li_cloud_credential_id l = c \<and> months_before 1 (clock s) \<le> li_usage_date l \<and> li_usage_date l < month_start (clock s)) s;
             resourceCount = server_count qr c s
         in if monthlySpend \<le> 0 \<or> resourceCount = 0 then None
            else Some (monthlySpend / of_nat resourceCount * SAVING_FRACTION type)))"

text \<open>\<open>AVG\<close> and \<open>COUNT(*)\<close> over the checks of the last two weeks that have a value; \<open>AVG\<close> ignores nulls.\<close>

definition metric_rows :: "query_runner \<Rightarrow> uuid \<Rightarrow> 's cost_scheme \<Rightarrow> monitor_check list" where
  "metric_rows qr monitorId s = filter (\<lambda>c. mc_monitor_id c = monitorId \<and> mc_checked_at c \<ge> clock s - RIGHTSIZING_LOOKBACK_DAYS * MS_PER_DAY \<and>
     js_prop (mc_raw_output c) ''value'' \<noteq> None) (visible qr (monitor_checks s))"

definition average :: "rat list \<Rightarrow> rat option" where
  "average vs = (if vs = [] then None else Some (sum_list vs / of_nat (length vs)))"

definition utilization :: "(string \<Rightarrow> rat option) \<Rightarrow> query_runner \<Rightarrow> uuid \<Rightarrow> 's cost_scheme \<Rightarrow> error + rat option" where
  "utilization pg_float qr monitorId s = (case collect_values (raw_number pg_float ''value'') (metric_rows qr monitorId s) of
      Inl e \<Rightarrow> Inl e
    | Inr vs \<Rightarrow> Inr (average (List.map_filter id vs)))"

definition recommendation_type :: "rat \<Rightarrow> RightsizingRecommendationType option" where
  "recommendation_type avg = (if avg < IDLE_THRESHOLD_PCT then Some Rs_Idle else if avg < RIGHTSIZE_THRESHOLD_PCT then Some Rs_Rightsize else None)"

definition open_recommendation :: "uuid \<Rightarrow> rightsizing_recommendation \<Rightarrow> bool" where
  "open_recommendation resourceId r \<longleftrightarrow> rr_resource_id r = resourceId \<and> rr_status r = Rr_Open"

definition evaluateMonitor :: "js_format \<Rightarrow> (string \<Rightarrow> rat option) \<Rightarrow> query_runner \<Rightarrow> uuid \<Rightarrow> monitor \<times> resource \<Rightarrow> ('s cost_scheme, bool) tx" where
  "evaluateMonitor F pg_float qr tenantId = (\<lambda>(m, resource).
     tx_bind (tx_gets (utilization pg_float qr (row_id m))) (\<lambda>avg. case avg of
       Inl e \<Rightarrow> tx_throw e
     | Inr avgValue \<Rightarrow>
     tx_bind (sql_first rightsizing_recommendations qr (open_recommendation (mo_resource_id m))) (\<lambda>openRec. tx_bind sql_now (\<lambda>now. case avgValue of
       None \<Rightarrow> tx_return False
     | Some a \<Rightarrow> (case recommendation_type a of
         None \<Rightarrow> (case openRec of
             None \<Rightarrow> tx_return False
           | Some r \<Rightarrow> tx_bind (sql_update rightsizing_recommendations rightsizing_recommendations_update qr (by_id (row_id r))
               (\<lambda>r. r\<lparr>rr_status := Rr_Resolved, rr_updated_at := now\<rparr>)) (\<lambda>_. tx_return False))
       | Some type \<Rightarrow> (let reasonText = generateRightsizingReasonText F (re_name resource) type a in
           tx_bind (tx_gets (estimateMonthlySaving qr (mo_resource_id m) type)) (\<lambda>saving. case openRec of
             None \<Rightarrow>
               tx_bind (tx_gets (\<lambda>s. \<exists>r \<in> set (rightsizing_recommendations s). open_recommendation (mo_resource_id m) r)) (\<lambda>dup.
               if dup then tx_throw unique_violation
               else tx_bind gen_random_uuid (\<lambda>i. tx_bind (sql_insert rightsizing_recommendations_update qr
                 \<lparr>row_id = i, tenant_id = tenantId, rr_resource_id = mo_resource_id m, rr_recommendation_type = type, rr_reason_text = reasonText,
                  rr_estimated_monthly_saving = saving, rr_status = Rr_Open, rr_ticket_id = None, rr_created_at = now, rr_updated_at = now\<rparr>) (\<lambda>_. tx_return True)))
           | Some r \<Rightarrow> tx_bind (sql_update rightsizing_recommendations rightsizing_recommendations_update qr (by_id (row_id r))
               (\<lambda>r. r\<lparr>rr_recommendation_type := type, rr_reason_text := reasonText, rr_estimated_monthly_saving := saving, rr_updated_at := now\<rparr>)) (\<lambda>_. tx_return True))))))))"

definition metric_monitors :: "query_runner \<Rightarrow> 's cost_scheme \<Rightarrow> (monitor \<times> resource) list" where
  "metric_monitors qr s = [(m, r). m \<leftarrow> filter (\<lambda>m. mo_monitor_type m = Mt_Cloud_Metric \<and> mo_is_enabled m) (visible qr (monitors s)),
     r \<leftarrow> filter (by_id (mo_resource_id m)) (visible qr (resources s))]"

definition rightsizing_sweepTenant :: "js_format \<Rightarrow> (string \<Rightarrow> rat option) \<Rightarrow> uuid \<Rightarrow> ('s cost_scheme, nat) act" where
  "rightsizing_sweepTenant F pg_float tenantId = withTenantContext tenantId (\<lambda>qr.
     tx_bind (tx_gets (metric_monitors qr)) (tx_caught (\<lambda>m. count_if (evaluateMonitor F pg_float qr tenantId m))))"

definition rightsizing_sweepOnce :: "js_format \<Rightarrow> (string \<Rightarrow> rat option) \<Rightarrow> bool \<Rightarrow> ('s cost_scheme, nat) act" where
  "rightsizing_sweepOnce F pg_float running =
     (if running then act_return 0 else act_bind (act_gets tenants) (\<lambda>ts.
       act_fold (\<lambda>t n. act_catch (act_bind (rightsizing_sweepTenant F pg_float (tn_id t)) (\<lambda>k. act_return (n + k))) (\<lambda>_. act_return n)) ts 0))"

section \<open>Recommendations\<close>

record RecommendationFilters =
  rf_resourceId :: "uuid option"
  rf_status :: "recommendation_status option"
  rf_type :: "RightsizingRecommendationType option"

definition matches_option :: "'v option \<Rightarrow> 'v \<Rightarrow> bool" where
  "matches_option f v \<longleftrightarrow> (case f of None \<Rightarrow> True | Some w \<Rightarrow> v = w)"

definition recommendations_list :: "uuid \<Rightarrow> RecommendationFilters \<Rightarrow> ('s cost_scheme, rightsizing_recommendation list) act" where
  "recommendations_list tenantId filters = withTenantContext tenantId (\<lambda>qr.
     tx_bind (sql_select rightsizing_recommendations qr (\<lambda>r. matches_option (rf_resourceId filters) (rr_resource_id r) \<and>
       matches_option (rf_status filters) (rr_status r) \<and> matches_option (rf_type filters) (rr_recommendation_type r))) (\<lambda>rows.
     tx_return (order_by (\<lambda>r. - rr_created_at r) rows)))"

definition recommendations_update_row :: "uuid \<Rightarrow> uuid \<Rightarrow> recommendation_status \<Rightarrow> ('s cost_scheme, rightsizing_recommendation) act" where
  "recommendations_update_row tenantId i status = withTenantContext tenantId (\<lambda>qr. tx_bind sql_now (\<lambda>now.
     tx_bind (sql_update rightsizing_recommendations rightsizing_recommendations_update qr (by_id i) (\<lambda>r. r\<lparr>rr_status := status, rr_updated_at := now\<rparr>))
       (first_row ''Recommendation'' i)))"

fun recommendation_type_text :: "RightsizingRecommendationType \<Rightarrow> string" where
  "recommendation_type_text Rs_Rightsize = ''rightsize''"
| "recommendation_type_text Rs_Idle = ''idle''"
| "recommendation_type_text Rs_Terminate = ''terminate''"

fun recommendation_status_text :: "recommendation_status \<Rightarrow> string" where
  "recommendation_status_text Rr_Open = ''open''"
| "recommendation_status_text Rr_Dismissed = ''dismissed''"
| "recommendation_status_text Rr_Ticket_Created = ''ticket_created''"
| "recommendation_status_text Rr_Resolved = ''resolved''"

text \<open>Unlike the alert engine, the service does not catch a failed \<open>fetch\<close>; a response that is not ok is \<open>null\<close>.\<close>

definition cost_callInternalApi :: "bool \<Rightarrow> ('s, 'a) act \<Rightarrow> ('s, 'a option) act" where
  "cost_callInternalApi reachable endpoint =
     (if reachable then callInternalApi True endpoint else act_throw (Failure ''fetch failed''))"

definition recommendation_ticket :: "rightsizing_recommendation \<Rightarrow> resource \<Rightarrow> CreateTicketFromAlert" where
  "recommendation_ticket r resource =
     \<lparr>fa_subject = ''[Cost] '' @ re_name resource @ '': '' @ recommendation_type_text (rr_recommendation_type r) @ '' recommendation'',
      fa_description = rr_reason_text r, fa_resourceId = Some (rr_resource_id r), fa_priority = Some Medium\<rparr>"

definition recommendation_with_resource :: "query_runner \<Rightarrow> uuid \<Rightarrow> 's cost_scheme \<Rightarrow> (rightsizing_recommendation \<times> resource) option" where
  "recommendation_with_resource qr i s = first_of [(r, resource). r \<leftarrow> filter (by_id i) (visible qr (rightsizing_recommendations s)),
     resource \<leftarrow> filter (by_id (rr_resource_id r)) (visible qr (resources s))]"

definition recommendations_createTicket :: "engine \<Rightarrow> uuid \<Rightarrow> uuid \<Rightarrow> ('s cost_scheme, uuid) act" where
  "recommendations_createTicket E tenantId i =
     act_bind (withTenantContext tenantId (\<lambda>qr. tx_gets (recommendation_with_resource qr i))) (\<lambda>found. case found of
       None \<Rightarrow> act_throw (NotFound ''Recommendation'' i)
     | Some (r, resource) \<Rightarrow> (case rr_ticket_id r of
         Some ticketId \<Rightarrow> act_return ticketId
       | None \<Rightarrow>
           if rr_status r \<noteq> Rr_Open
           then act_throw (BadRequest (''Recommendation '' @ fmt_uuid (en_format E) i @ '' is '' @ recommendation_status_text (rr_status r) @ '', not open''))
           else act_bind (cost_callInternalApi (en_reachable E)
               (fromAlert (en_format E) (en_intl E) (en_html E) tenantId (recommendation_ticket r resource))) (\<lambda>ticket. case ticket of
             None \<Rightarrow> act_throw (BadRequest ''Ticket creation failed -- recommendation left open'')
           | Some tk \<Rightarrow> act_bind (withTenantContext tenantId (\<lambda>qr. tx_bind sql_now (\<lambda>now.
               sql_update rightsizing_recommendations rightsizing_recommendations_update qr (by_id i)
                 (\<lambda>r. r\<lparr>rr_status := Rr_Ticket_Created, rr_ticket_id := Some (row_id tk), rr_updated_at := now\<rparr>)))) (\<lambda>_.
               act_return (row_id tk)))))"

section \<open>Savings\<close>

definition MATERIALIZATION_WINDOW_DAYS :: int where
  "MATERIALIZATION_WINDOW_DAYS = 14"

definition savings_candidates :: "query_runner \<Rightarrow> 's cost_scheme \<Rightarrow> rightsizing_recommendation list" where
  "savings_candidates qr s = filter (\<lambda>r. rr_status r = Rr_Ticket_Created \<and>
     (\<exists>t \<in> set (visible qr (tickets s)). rr_ticket_id r = Some (row_id t) \<and> (tk_status t = Resolved \<or> tk_status t = Closed)) \<and>
     (\<forall>v \<in> set (visible qr (cost_savings_log s)). sv_recommendation_id v \<noteq> Some (row_id r))) (visible qr (rightsizing_recommendations s))"

definition log_saving :: "query_runner \<Rightarrow> uuid \<Rightarrow> rightsizing_recommendation \<Rightarrow> nat \<Rightarrow> ('s cost_scheme, nat) tx" where
  "log_saving qr tenantId r n = (case rr_estimated_monthly_saving r of
      None \<Rightarrow> tx_return n
    | Some saving \<Rightarrow>
        tx_bind (tx_gets (\<lambda>s. \<exists>v \<in> set (cost_savings_log s). sv_recommendation_id v = Some (row_id r))) (\<lambda>dup.
        if dup then tx_throw unique_violation
        else tx_bind gen_random_uuid (\<lambda>i. tx_bind sql_now (\<lambda>now.
          tx_bind (sql_insert cost_savings_log_update qr \<lparr>row_id = i, tenant_id = tenantId, sv_resource_id = rr_resource_id r, sv_recommendation_id = Some (row_id r),
            sv_ticket_id = rr_ticket_id r, sv_expected_monthly_saving = saving, sv_actual_monthly_saving = None, sv_status = Logged, sv_logged_at = now,
            sv_verified_at = None\<rparr>) (\<lambda>_. tx_return (Suc n))))))"

text \<open>\<open>COALESCE(AVG(daily.total), 0)\<close> over the days with data from \<open>a\<close> up to and without \<open>b\<close>.\<close>

definition average_daily :: "query_runner \<Rightarrow> uuid \<Rightarrow> int \<Rightarrow> int \<Rightarrow> 's cost_scheme \<Rightarrow> rat" where
  "average_daily qr c a b s =
     or_default (average (map snd (group_sums li_usage_date li_amount (cost_lines qr (\<lambda>l. li_cloud_credential_id l = c \<and> a \<le> li_usage_date l \<and> li_usage_date l < b) s)))) 0"

definition actual_saving :: "query_runner \<Rightarrow> cost_saving \<Rightarrow> 's cost_scheme \<Rightarrow> rat option" where
  "actual_saving qr v s = (case credential_of qr (sv_resource_id v) s of
      None \<Rightarrow> None
    | Some c \<Rightarrow> (let day = iso_day (sv_logged_at v); n = server_count qr c s in
        if n = 0 then None
        else Some ((average_daily qr c (day - MATERIALIZATION_WINDOW_DAYS) day s * 30 -
                    average_daily qr c day (day + MATERIALIZATION_WINDOW_DAYS) s * 30) / of_nat n)))"

definition materializeOne :: "query_runner \<Rightarrow> cost_saving \<Rightarrow> ('s cost_scheme, bool) tx" where
  "materializeOne qr v = tx_bind (tx_gets (actual_saving qr v)) (\<lambda>saving. case saving of
      None \<Rightarrow> tx_return False
    | Some a \<Rightarrow> tx_bind sql_now (\<lambda>now.
        tx_bind (sql_update cost_savings_log cost_savings_log_update qr (by_id (row_id v))
          (\<lambda>v. v\<lparr>sv_status := (if a > 0 then Verified else Not_Materialized), sv_actual_monthly_saving := Some a, sv_verified_at := Some now\<rparr>)) (\<lambda>_. tx_return True)))"

definition due_savings :: "query_runner \<Rightarrow> 's cost_scheme \<Rightarrow> cost_saving list" where
  "due_savings qr s = filter (\<lambda>v. sv_status v = Logged \<and> sv_logged_at v \<le> clock s - MATERIALIZATION_WINDOW_DAYS * MS_PER_DAY) (visible qr (cost_savings_log s))"

definition savings_body :: "uuid \<Rightarrow> query_runner \<Rightarrow> ('s cost_scheme, nat \<times> nat) tx" where
  "savings_body tenantId qr = (\<lambda>s. case caught_fold (log_saving qr tenantId) (savings_candidates qr s) 0 s of
      (lg, None) \<Rightarrow> Inl in_failed_sql_transaction
    | (lg, Some t) \<Rightarrow> (case caught_fold (\<lambda>v. count_if (materializeOne qr v)) (due_savings qr t) 0 t of
        (materialized, None) \<Rightarrow> Inr ((lg, materialized), s)
      | (materialized, Some u) \<Rightarrow> Inr ((lg, materialized), u)))"

definition savings_sweepTenant :: "uuid \<Rightarrow> ('s cost_scheme, nat \<times> nat) act" where
  "savings_sweepTenant tenantId = withTenantContext tenantId (savings_body tenantId)"

definition savings_sweepOnce :: "bool \<Rightarrow> ('s cost_scheme, nat \<times> nat) act" where
  "savings_sweepOnce running =
     (if running then act_return (0, 0) else act_bind (act_gets tenants) (\<lambda>ts.
       act_fold (\<lambda>t n. act_catch (act_bind (savings_sweepTenant (tn_id t)) (\<lambda>k. act_return (fst n + fst k, snd n + snd k))) (\<lambda>_. act_return n)) ts (0, 0)))"

record SavingsFilters =
  sf_resourceId :: "uuid option"
  sf_ticketId :: "uuid option"
  sf_status :: "cost_savings_status option"

definition savings_list :: "uuid \<Rightarrow> SavingsFilters \<Rightarrow> ('s cost_scheme, cost_saving list) act" where
  "savings_list tenantId filters = withTenantContext tenantId (\<lambda>qr.
     tx_bind (sql_select cost_savings_log qr (\<lambda>v. matches_option (sf_resourceId filters) (sv_resource_id v) \<and>
       (case sf_ticketId filters of None \<Rightarrow> True | Some i \<Rightarrow> sv_ticket_id v = Some i) \<and> matches_option (sf_status filters) (sv_status v))) (\<lambda>rows.
     tx_return (order_by (\<lambda>v. - sv_logged_at v) rows)))"

section \<open>Commitments\<close>

record CreateCommitment =
  km_cloudCredentialId :: uuid
  km_kind :: CommitmentKind
  km_service :: string
  km_region :: "string option"
  km_termMonths :: int
  km_paymentOption :: "payment_option option"
  km_hourlyCommitment :: rat
  km_startDate :: int
  km_endDate :: int

definition commitments_list :: "uuid \<Rightarrow> ('s cost_scheme, commitment list) act" where
  "commitments_list tenantId = withTenantContext tenantId (\<lambda>qr.
     tx_bind (sql_select commitments qr (\<lambda>_. True)) (\<lambda>rows. tx_return (order_by (\<lambda>c. - cm_start_date c) rows)))"

text \<open>The checks of the table.\<close>

definition commitment_checks :: "CreateCommitment \<Rightarrow> bool" where
  "commitment_checks dto \<longleftrightarrow> km_termMonths dto \<in> {12, 36} \<and> 0 < km_hourlyCommitment dto \<and> km_startDate dto < km_endDate dto"

definition commitments_create :: "uuid \<Rightarrow> CreateCommitment \<Rightarrow> ('s cost_scheme, commitment) act" where
  "commitments_create tenantId dto = withTenantContext tenantId (\<lambda>qr.
     tx_bind (find_row ''Cloud credential'' cloud_credentials qr (km_cloudCredentialId dto)) (\<lambda>_.
     if \<not> commitment_checks dto then tx_throw check_violation
     else tx_bind gen_random_uuid (\<lambda>i. tx_bind sql_now (\<lambda>now.
       sql_insert commitments_update qr \<lparr>row_id = i, tenant_id = tenantId, cm_cloud_credential_id = km_cloudCredentialId dto, cm_kind = km_kind dto,
         cm_service = km_service dto, cm_region = km_region dto, cm_term_months = km_termMonths dto,
         cm_payment_option = or_default (km_paymentOption dto) No_Upfront, cm_hourly_commitment = km_hourlyCommitment dto,
         cm_start_date = km_startDate dto, cm_end_date = km_endDate dto, cm_created_at = now\<rparr>))))"

definition commitments_remove :: "uuid \<Rightarrow> uuid \<Rightarrow> ('s cost_scheme, unit) act" where
  "commitments_remove tenantId i = withTenantContext tenantId (\<lambda>qr. remove_row ''Commitment'' commitments commitments_update qr i)"

definition loadDailySpend :: "query_runner \<Rightarrow> uuid \<Rightarrow> string \<Rightarrow> string option \<Rightarrow> int \<Rightarrow> int \<Rightarrow> 's cost_scheme \<Rightarrow> rat list" where
  "loadDailySpend qr c service region startDay endDay s = buildDailySpend (startDay * MS_PER_DAY) (endDay * MS_PER_DAY)
     (day_rows (cost_lines qr (\<lambda>l. li_cloud_credential_id l = c \<and> li_service l = service \<and> li_region l = region \<and>
        startDay \<le> li_usage_date l \<and> li_usage_date l \<le> endDay) s))"

record CommitmentReport =
  cp_commitment :: commitment
  cp_coverage :: "CoverageResult option"
  cp_utilization :: "UtilizationResult option"
  cp_reason :: "string option"

definition getCoverage :: "uuid \<Rightarrow> uuid \<Rightarrow> ('s cost_scheme, CommitmentReport) act" where
  "getCoverage tenantId i = withTenantContext tenantId (\<lambda>qr.
     tx_bind (find_row ''Commitment'' commitments qr i) (\<lambda>c. tx_gets (\<lambda>s.
       let endDay = min (cm_end_date c) (iso_day (clock s)) in
       if endDay < cm_start_date c
       then \<lparr>cp_commitment = c, cp_coverage = None, cp_utilization = None, cp_reason = Some ''commitment term has not started yet''\<rparr>
       else let dailySpend = loadDailySpend qr (cm_cloud_credential_id c) (cm_service c) (cm_region c) (cm_start_date c) endDay s;
                daily = cm_hourly_commitment c * 24
            in \<lparr>cp_commitment = c, cp_coverage = Some (computeCoverage dailySpend daily), cp_utilization = Some (computeUtilization dailySpend daily), cp_reason = None\<rparr>)))"

definition commitments_listRecommendations :: "uuid \<Rightarrow> ('s cost_scheme, commitment_recommendation list) act" where
  "commitments_listRecommendations tenantId = withTenantContext tenantId (\<lambda>qr.
     tx_bind (sql_select commitment_recommendations qr (\<lambda>r. mr_status r = Mr_Open)) (\<lambda>rows.
     tx_return (order_by (\<lambda>r. - mr_estimated_monthly_savings r) rows)))"

definition commitments_dismissRecommendation :: "uuid \<Rightarrow> uuid \<Rightarrow> ('s cost_scheme, commitment_recommendation) act" where
  "commitments_dismissRecommendation tenantId i = withTenantContext tenantId (\<lambda>qr. tx_bind sql_now (\<lambda>now.
     tx_bind (sql_update commitment_recommendations commitment_recommendations_update qr (by_id i) (\<lambda>r. r\<lparr>mr_status := Mr_Dismissed, mr_updated_at := now\<rparr>))
       (first_row ''Commitment recommendation'' i)))"

section \<open>The sweep of commitments\<close>

definition COMMITMENT_KINDS :: "CommitmentKind list" where
  "COMMITMENT_KINDS = [Reserved_Instance, Savings_Plan]"

definition COMMITMENT_LOOKBACK_DAYS :: int where
  "COMMITMENT_LOOKBACK_DAYS = 30"

record ScopeRow =
  sp_cloud_credential_id :: uuid
  sp_service :: string
  sp_region :: "string option"
  sp_amounts :: "rat list"

definition loadScopes :: "query_runner \<Rightarrow> 's cost_scheme \<Rightarrow> ScopeRow list" where
  "loadScopes qr s =
     (let today = iso_day (clock s); endDay = today - 1; startDay = endDay - (COMMITMENT_LOOKBACK_DAYS - 1);
          scopes = js_unique (map service_key (cost_lines qr (\<lambda>l. li_usage_date l \<ge> today - COMMITMENT_LOOKBACK_DAYS) s))
      in map (\<lambda>(c, service, region). \<lparr>sp_cloud_credential_id = c, sp_service = service, sp_region = region,
           sp_amounts = loadDailySpend qr c service region startDay endDay s\<rparr>) scopes)"

definition same_scope :: "ScopeRow \<Rightarrow> CommitmentKind \<Rightarrow> commitment_recommendation \<Rightarrow> bool" where
  "same_scope scope kind r \<longleftrightarrow> mr_cloud_credential_id r = sp_cloud_credential_id scope \<and> mr_service r = sp_service scope \<and>
     mr_region r = sp_region scope \<and> mr_kind r = kind"

definition scope_index :: "ScopeRow \<Rightarrow> CommitmentKind \<Rightarrow> commitment_recommendation \<Rightarrow> bool" where
  "scope_index scope kind r \<longleftrightarrow> mr_cloud_credential_id r = sp_cloud_credential_id scope \<and> mr_service r = sp_service scope \<and>
     coalesce_text (mr_region r) = coalesce_text (sp_region scope) \<and> mr_kind r = kind"

definition evaluateScope :: "query_runner \<Rightarrow> uuid \<Rightarrow> ScopeRow \<times> CommitmentKind \<Rightarrow> ('s cost_scheme, bool) tx" where
  "evaluateScope qr tenantId = (\<lambda>(scope, kind).
     tx_bind (sql_first commitment_recommendations qr (same_scope scope kind)) (\<lambda>existing. tx_bind sql_now (\<lambda>now.
     case recommendCommitment (sp_amounts scope) kind of
       None \<Rightarrow> tx_return False
     | Some rec \<Rightarrow> (case existing of
         None \<Rightarrow>
           tx_bind (tx_gets (\<lambda>s. \<exists>r \<in> set (commitment_recommendations s). scope_index scope kind r)) (\<lambda>dup.
           if dup then tx_throw unique_violation
           else tx_bind gen_random_uuid (\<lambda>i. tx_bind (sql_insert commitment_recommendations_update qr
             \<lparr>row_id = i, tenant_id = tenantId, mr_cloud_credential_id = sp_cloud_credential_id scope, mr_kind = kind, mr_service = sp_service scope,
              mr_region = sp_region scope, mr_recommended_hourly_commitment = cr_recommendedHourlyCommitment rec,
              mr_estimated_monthly_savings = cr_estimatedMonthlySavings rec, mr_break_even_months = Some (cr_breakEvenMonths rec),
              mr_based_on_days = cr_basedOnDays rec, mr_status = Mr_Open, mr_generated_at = now, mr_updated_at = now\<rparr>) (\<lambda>_. tx_return True)))
       | Some r \<Rightarrow> tx_bind (sql_update commitment_recommendations commitment_recommendations_update qr (by_id (row_id r))
           (\<lambda>r. r\<lparr>mr_recommended_hourly_commitment := cr_recommendedHourlyCommitment rec, mr_estimated_monthly_savings := cr_estimatedMonthlySavings rec,
              mr_break_even_months := Some (cr_breakEvenMonths rec), mr_based_on_days := cr_basedOnDays rec, mr_status := Mr_Open, mr_updated_at := now\<rparr>)) (\<lambda>_. tx_return True)))))"

definition commitment_sweepTenant :: "uuid \<Rightarrow> ('s cost_scheme, nat) act" where
  "commitment_sweepTenant tenantId = withTenantContext tenantId (\<lambda>qr.
     tx_bind (tx_gets (loadScopes qr)) (\<lambda>scopes.
     tx_caught (\<lambda>p. count_if (evaluateScope qr tenantId p)) [(scope, kind). scope \<leftarrow> scopes, kind \<leftarrow> COMMITMENT_KINDS]))"

definition commitment_sweepOnce :: "bool \<Rightarrow> ('s cost_scheme, nat) act" where
  "commitment_sweepOnce running =
     (if running then act_return 0 else act_bind (act_gets tenants) (\<lambda>ts.
       act_fold (\<lambda>t n. act_catch (act_bind (commitment_sweepTenant (tn_id t)) (\<lambda>k. act_return (n + k))) (\<lambda>_. act_return n)) ts 0))"

section \<open>A sweep that is aborted\<close>

lemma caught_fold_aborted:
  assumes "x \<in> set xs" and "I s"
    and fails: "\<And>n u. I u \<Longrightarrow> isl (f x n u)" and keeps: "\<And>y n u k v. I u \<Longrightarrow> f y n u = Inr (k, v) \<Longrightarrow> I v"
  shows "\<exists>k. caught_fold f xs n s = (k, None)"
  using assms(1,2)
proof (induction xs arbitrary: n s)
  case (Cons y ys)
  show ?case
  proof (cases "f y n s")
    case (Inr p)
    obtain k v where p: "p = (k, v)" by fastforce
    have "y \<noteq> x" using fails [OF Cons.prems(2), of n] Inr by auto
    with Cons.prems(1) have "x \<in> set ys" by simp
    from Cons.IH [OF this keeps [OF Cons.prems(2) Inr [unfolded p]]] Inr p show ?thesis by simp
  qed simp
qed simp

lemma evaluateMonitor_checks: "tx_rel (same (\<lambda>s. (monitor_checks s, clock s))) (evaluateMonitor F pg_float qr T p)"
  unfolding evaluateMonitor_def Let_def
  by (cases p) (simp, intro frame_intros row_intros; simp)

lemma utilization_same: "monitor_checks t = monitor_checks s \<Longrightarrow> clock t = clock s \<Longrightarrow> utilization pg_float qr i t = utilization pg_float qr i s"
  by (simp add: utilization_def metric_rows_def)

text \<open>
  C36. One bad metric undoes the sweep. If the metric of a single enabled cloud monitor of the tenant cannot be read as a
  number, the rightsizing sweep of the tenant changes nothing at all, for no monitor, and still reports the number of
  monitors it got to as a success.
\<close>

theorem rightsizing_sweep_undone:
  fixes s :: "'s cost_scheme"
  assumes "(m, r) \<in> set (metric_monitors T s)" and "utilization pg_float T (row_id m) s = Inl e"
  shows "\<exists>n. rightsizing_sweepTenant F pg_float T s = (Inr n, s)"
proof -
  let ?f = "\<lambda>p. count_if (evaluateMonitor F pg_float T T p) :: nat \<Rightarrow> ('s cost_scheme, nat) tx"
  let ?I = "\<lambda>u :: 's cost_scheme. monitor_checks u = monitor_checks s \<and> clock u = clock s"
  have "\<exists>k. caught_fold ?f (metric_monitors T s) 0 s = (k, None)"
  proof (rule caught_fold_aborted [where I = ?I, OF assms(1)])
    fix n u assume "?I u"
    then have "utilization pg_float T (row_id m) u = Inl e" using assms(2) utilization_same by metis
    then show "isl (?f (m, r) n u)" by (simp add: count_if_def evaluateMonitor_def tx_bind_def)
  next
    fix y n u k v assume "?I u" and run: "?f y n u = Inr (k, v)"
    then obtain b where "evaluateMonitor F pg_float T T y u = Inr (b, v)"
      by (auto simp: count_if_def elim!: tx_bindE)
    from tx_relD [OF evaluateMonitor_checks this] \<open>?I u\<close> show "?I v" by (simp add: same_def)
  qed simp
  then show ?thesis by (auto simp: rightsizing_sweepTenant_def withTenantContext_def tx_caught_def)
qed

definition metric_monitor :: monitor where
  "metric_monitor = web_monitor\<lparr>row_id := 91, mo_resource_id := 92, mo_monitor_type := Mt_Cloud_Metric, mo_is_enabled := True\<rparr>"

definition metric_resource :: resource where
  "metric_resource = \<lparr>row_id = 92, tenant_id = 1, re_name = ''vm'', re_resource_type = Rt_Server, re_group_name = None, re_external_ref = JObj [], re_tags = JObj [],
     re_cloud_credential_id = None, re_created_at = 0, re_updated_at = 0\<rparr>"

definition metric_check :: "json \<Rightarrow> monitor_check" where
  "metric_check v = \<lparr>row_id = 93, tenant_id = 1, mc_monitor_id = 91, mc_status = Up, mc_response_time_ms = None,
     mc_raw_output = JObj [(''value'', v)], mc_location = ''default'', mc_checked_at = 0\<rparr>"

definition metered :: "json \<Rightarrow> cost" where
  "metered v = billed\<lparr>monitors := [metric_monitor], resources := [metric_resource], monitor_checks := [metric_check v]\<rparr>"

theorem rightsizing_sweep_undone_witness:
  "\<exists>n. rightsizing_sweepTenant unary_format (\<lambda>_. None) 1 (metered (JBool True)) = (Inr n, metered (JBool True))"
proof -
  have "(metric_monitor, metric_resource) \<in> set (metric_monitors 1 (metered (JBool True)))"
    by (simp add: metric_monitors_def metered_def metric_monitor_def metric_resource_def web_monitor_def tenant_isolation_def by_id_def)
  moreover have "utilization (\<lambda>_. None) 1 (row_id metric_monitor) (metered (JBool True)) = Inl invalid_text_representation"
    by (simp add: utilization_def metric_rows_def metered_def metric_monitor_def metric_check_def raw_number_def js_prop_def tenant_isolation_def
        RIGHTSIZING_LOOKBACK_DAYS_def MS_PER_DAY_def)
  ultimately show ?thesis by (rule rightsizing_sweep_undone)
qed

section \<open>Recommendations and utilisation\<close>

definition open_recs :: "uuid \<Rightarrow> 's cost_scheme \<Rightarrow> rightsizing_recommendation list" where
  "open_recs i s = filter (open_recommendation i) (rightsizing_recommendations s)"

definition recs_ok :: "uuid \<Rightarrow> uuid \<Rightarrow> 's cost_scheme \<Rightarrow> bool" where
  "recs_ok T i s \<longleftrightarrow> distinct (map row_id (rightsizing_recommendations s)) \<and>
     (\<forall>r \<in> set (rightsizing_recommendations s). rr_resource_id r = i \<longrightarrow> tenant_id r = T) \<and> length (open_recs i s) \<le> 1"

lemma first_rec:
  assumes "recs_ok T i s"
  shows "first_of (filter (open_recommendation i) (visible T (rightsizing_recommendations s))) = first_of (open_recs i s)"
proof -
  have "filter (open_recommendation i) (visible T (rightsizing_recommendations s)) = open_recs i s"
    unfolding open_recs_def visible_def filter_filter
    by (rule filter_cong) (use assms in \<open>auto simp: recs_ok_def open_recommendation_def tenant_isolation_def\<close>)
  then show ?thesis by simp
qed

lemma update_one_rec:
  assumes ok: "recs_ok T i s" and one: "open_recs i s = [r]" and f: "rr_resource_id (f r) = rr_resource_id r"
    and t: "rightsizing_recommendations t = update_rows T (by_id (row_id r)) f (rightsizing_recommendations s)"
  shows "open_recs i t = filter (open_recommendation i) [f r] \<and> (\<forall>j. j \<noteq> i \<longrightarrow> open_recs j t = open_recs j s)"
proof -
  have r: "r \<in> set (rightsizing_recommendations s)" "open_recommendation i r" using arg_cong [OF one, of set] by (auto simp: open_recs_def)
  have ids: "distinct (map row_id (rightsizing_recommendations s))" and T: "tenant_id r = T"
    using ok r by (auto simp: recs_ok_def open_recommendation_def)
  note single = update_single [where f = f, OF ids one [unfolded open_recs_def] T]
  have "open_recs j t = open_recs j s" if "j \<noteq> i" for j
    using single(2) [where Q = "open_recommendation j"] r(2) f that by (simp add: open_recs_def t open_recommendation_def)
  with single(1) show ?thesis by (simp add: open_recs_def t)
qed

text \<open>What evaluating a monitor with the mean utilisation \<open>a\<close> leaves for its resource.\<close>

definition rec_settled :: "uuid \<Rightarrow> rat \<Rightarrow> bool \<Rightarrow> 's cost_scheme \<Rightarrow> 's cost_scheme \<Rightarrow> bool" where
  "rec_settled i a found s t \<longleftrightarrow> (found \<longleftrightarrow> a < 20) \<and>
     map rr_recommendation_type (open_recs i t) = (if a < 5 then [Rs_Idle] else if a < 20 then [Rs_Rightsize] else []) \<and>
     (\<forall>j. j \<noteq> i \<longrightarrow> open_recs j t = open_recs j s)"

lemma recommendation_type_cases: "recommendation_type a = (if a < 5 then Some Rs_Idle else if a < 20 then Some Rs_Rightsize else None)"
  by (simp add: recommendation_type_def IDLE_THRESHOLD_PCT_def RIGHTSIZE_THRESHOLD_PCT_def)

lemmas evaluate_defs = evaluateMonitor_def tx_bind_def sql_first_def sql_now_def Let_def

lemma evaluateMonitor_new:
  assumes run: "evaluateMonitor F pg_float T T (m, resource) s = Inr (found, t)" and ok: "recs_ok T (mo_resource_id m) s"
    and avg: "utilization pg_float T (row_id m) s = Inr (Some a)" and none: "open_recs (mo_resource_id m) s = []"
  shows "rec_settled (mo_resource_id m) a found s t"
proof (cases "recommendation_type a")
  case None
  with run avg none have "t = s" "\<not> found" by (auto simp: evaluate_defs first_rec [OF ok])
  with None none show ?thesis by (auto simp: rec_settled_def recommendation_type_cases split: if_splits)
next
  case (Some type)
  let ?i = "mo_resource_id m"
  define new where "new = \<lparr>row_id = next_uuid s, tenant_id = T, rr_resource_id = ?i, rr_recommendation_type = type,
    rr_reason_text = generateRightsizingReasonText F (re_name resource) type a, rr_estimated_monthly_saving = estimateMonthlySaving T ?i type s,
    rr_status = Rr_Open, rr_ticket_id = None, rr_created_at = clock s, rr_updated_at = clock s\<rparr>"
  have t: "rightsizing_recommendations t = rightsizing_recommendations s @ [new]" "found"
    using run avg none Some by (auto simp: evaluate_defs first_rec [OF ok] gen_random_uuid_def sql_insert_def new_def split: if_splits)
  have new: "open_recommendation j new \<longleftrightarrow> j = ?i" "rr_recommendation_type new = type" for j by (auto simp: new_def open_recommendation_def)
  have "open_recs j t = open_recs j s @ filter (\<lambda>_. j = ?i) [new]" for j using new(1) by (simp add: open_recs_def t)
  with none Some t new(2) show ?thesis by (auto simp: rec_settled_def recommendation_type_cases split: if_splits)
qed

lemma evaluateMonitor_open:
  assumes run: "evaluateMonitor F pg_float T T (m, resource) s = Inr (found, t)" and ok: "recs_ok T (mo_resource_id m) s"
    and avg: "utilization pg_float T (row_id m) s = Inr (Some a)" and one: "open_recs (mo_resource_id m) s = [r]"
  shows "rec_settled (mo_resource_id m) a found s t"
proof (cases "recommendation_type a")
  case None
  with run avg one have t: "rightsizing_recommendations t = update_rows T (by_id (row_id r)) (\<lambda>r. r\<lparr>rr_status := Rr_Resolved, rr_updated_at := clock s\<rparr>)
      (rightsizing_recommendations s)" "\<not> found"
    by (auto simp: evaluate_defs first_rec [OF ok] sql_update_def split: if_splits)
  from update_one_rec [OF ok one _ t(1)] None t(2) show ?thesis
    by (auto simp: rec_settled_def recommendation_type_cases open_recommendation_def split: if_splits)
next
  case (Some type)
  let ?i = "mo_resource_id m"
  define f where "f = (\<lambda>r :: rightsizing_recommendation. r\<lparr>rr_recommendation_type := type,
    rr_reason_text := generateRightsizingReasonText F (re_name resource) type a, rr_estimated_monthly_saving := estimateMonthlySaving T ?i type s, rr_updated_at := clock s\<rparr>)"
  from run avg one Some have t: "rightsizing_recommendations t = update_rows T (by_id (row_id r)) f (rightsizing_recommendations s)" "found"
    by (auto simp: evaluate_defs first_rec [OF ok] sql_update_def f_def split: if_splits)
  have "open_recommendation ?i r" using arg_cong [OF one, of set] by (auto simp: open_recs_def)
  then have "open_recommendation ?i (f r)" by (simp add: f_def open_recommendation_def)
  with update_one_rec [OF ok one _ t(1)] Some t(2) show ?thesis
    by (auto simp: rec_settled_def recommendation_type_cases f_def split: if_splits)
qed

text \<open>
  C31. Recommendations follow the utilisation. Evaluating a monitor leaves its resource with exactly one open
  recommendation, to stop it below 5 per cent of mean utilisation and to downsize it below 20, and with none from
  there on; without data the open recommendations stay. The recommendations of other resources are not touched.
\<close>

theorem recommendation_follows_utilisation:
  fixes s t :: "'s cost_scheme"
  assumes run: "evaluateMonitor F pg_float T T (m, resource) s = Inr (found, t)" and ok: "recs_ok T (mo_resource_id m) s"
  shows "\<exists>avg. utilization pg_float T (row_id m) s = Inr avg \<and>
    (case avg of None \<Rightarrow> \<not> found \<and> t = s
     | Some a \<Rightarrow> (found \<longleftrightarrow> a < 20) \<and> map rr_recommendation_type (open_recs (mo_resource_id m) t) =
         (if a < 5 then [Rs_Idle] else if a < 20 then [Rs_Rightsize] else []) \<and>
         (\<forall>j. j \<noteq> mo_resource_id m \<longrightarrow> open_recs j t = open_recs j s))"
proof -
  obtain avg where avg: "utilization pg_float T (row_id m) s = Inr avg"
    using run by (auto simp: evaluateMonitor_def tx_bind_def split: sum.splits)
  show ?thesis
  proof (cases avg)
    case None
    with run avg show ?thesis by (auto simp: evaluate_defs)
  next
    case (Some a)
    consider (none) "open_recs (mo_resource_id m) s = []" | (one) r where "open_recs (mo_resource_id m) s = [r]"
      using ok by (cases "open_recs (mo_resource_id m) s") (auto simp: recs_ok_def)
    then have "rec_settled (mo_resource_id m) a found s t"
      using evaluateMonitor_new [OF run ok avg [unfolded Some]] evaluateMonitor_open [OF run ok avg [unfolded Some]] by cases
    with avg Some show ?thesis by (simp add: rec_settled_def)
  qed
qed

theorem recommendation_follows_utilisation_witness:
  "\<exists>t. evaluateMonitor unary_format (\<lambda>_. None) 1 1 (metric_monitor, metric_resource) (metered (JNum 3)) = Inr (True, t) \<and>
     map rr_recommendation_type (open_recs 92 t) = [Rs_Idle]"
proof -
  have avg: "utilization (\<lambda>_. None) 1 (row_id metric_monitor) (metered (JNum 3)) = Inr (Some 3)"
    by (simp add: utilization_def metric_rows_def metered_def metric_monitor_def metric_check_def raw_number_def js_prop_def tenant_isolation_def
        RIGHTSIZING_LOOKBACK_DAYS_def MS_PER_DAY_def average_def List.map_filter_def)
  have ok: "recs_ok 1 (mo_resource_id metric_monitor) (metered (JNum 3))" by (simp add: recs_ok_def metered_def open_recs_def)
  obtain found t where run: "evaluateMonitor unary_format (\<lambda>_. None) 1 1 (metric_monitor, metric_resource) (metered (JNum 3)) = Inr (found, t)"
    using avg by (simp add: evaluate_defs first_rec [OF ok] recommendation_type_cases gen_random_uuid_def sql_insert_def tenant_isolation_def)
      (simp add: open_recs_def metered_def tx_bind_def gen_random_uuid_def sql_insert_def tenant_isolation_def)
  from recommendation_follows_utilisation [OF run ok] avg have "found \<and> map rr_recommendation_type (open_recs (mo_resource_id metric_monitor) t) = [Rs_Idle]" by auto
  with run show ?thesis by (auto simp: metric_monitor_def)
qed

section \<open>The ticket of a recommendation\<close>

lemma recommendation_with_resource_one:
  assumes "distinct (map row_id (rightsizing_recommendations s))" and "r \<in> set (rightsizing_recommendations s)" and "tenant_id r = T"
  shows "recommendation_with_resource T (row_id r) s = map_option (Pair r) (first_of (filter (by_id (rr_resource_id r)) (visible T (resources s))))"
proof -
  have "recommendation_with_resource T (row_id r) s = first_of (map (Pair r) (filter (by_id (rr_resource_id r)) (visible T (resources s))))"
    unfolding recommendation_with_resource_def visible_by_id [OF assms] by simp
  then show ?thesis by (cases "filter (by_id (rr_resource_id r)) (visible T (resources s))") (simp_all add: first_of_def)
qed

lemma recommendation_with_resource_in:
  assumes "recommendation_with_resource T i s = Some (r, resource)"
  shows "r \<in> set (rightsizing_recommendations s)" "tenant_id r = T" "row_id r = i"
proof -
  have in_first: "first_of xs = Some x \<Longrightarrow> x \<in> set xs" for x :: "rightsizing_recommendation \<times> resource" and xs by (cases xs) (simp_all add: first_of_def)
  have "(r, resource) \<in> set [(r, resource). r \<leftarrow> filter (by_id i) (visible T (rightsizing_recommendations s)),
     resource \<leftarrow> filter (by_id (rr_resource_id r)) (visible T (resources s))]"
    using assms unfolding recommendation_with_resource_def by (rule in_first)
  then show "r \<in> set (rightsizing_recommendations s)" "tenant_id r = T" "row_id r = i" by (auto simp: by_id_def)
qed

lemma fromAlert_recommendations:
  fixes s v :: "'s cost_scheme"
  assumes "cost_callInternalApi b (fromAlert F I H T dto) s = (Inr x, v)"
  shows "rightsizing_recommendations v = rightsizing_recommendations s"
proof -
  have "act_rel (ticketing_frame T) (callInternalApi True (fromAlert F I H T dto))" by (intro frame_intros)
  moreover have "callInternalApi True (fromAlert F I H T dto) s = (Inr x, v)" using assms by (auto simp: cost_callInternalApi_def split: if_splits)
  ultimately have "ticketing_frame T s v" by (rule act_relD)
  then have "ticketing.more v = ticketing.more s" by (simp add: ticketing_frame_def)
  then show ?thesis by (cases s; cases v; simp)
qed

text \<open>
  A recommendation gets one ticket. Once a ticket was requested with success, every later request, in whatever state
  with the same recommendations and resources, answers with the same ticket and changes nothing.
\<close>

theorem recommendation_ticket_once:
  fixes s t u :: "'s cost_scheme"
  assumes run: "recommendations_createTicket E T i s = (Inr tid, t)" and ids: "distinct (map row_id (rightsizing_recommendations s))"
    and later: "rightsizing_recommendations u = rightsizing_recommendations t" "resources u = resources s"
  shows "recommendations_createTicket E T i u = (Inr tid, u)"
proof -
  obtain r resource where found: "recommendation_with_resource T i s = Some (r, resource)"
    using run by (auto simp: recommendations_createTicket_def withTenantContext_def split: option.splits)
  note r = recommendation_with_resource_in [OF found]
  have res: "first_of (filter (by_id (rr_resource_id r)) (visible T (resources s))) = Some resource"
    using found unfolding recommendation_with_resource_one [OF ids r(1,2), unfolded r(3)] by auto
  show ?thesis
  proof (cases "rr_ticket_id r")
    case (Some k)
    with run found have "tid = k" "t = s" by (simp_all add: recommendations_createTicket_def withTenantContext_def)
    moreover have "recommendation_with_resource T i u = Some (r, resource)"
      using found later \<open>t = s\<close> by (simp add: recommendation_with_resource_def)
    ultimately show ?thesis using Some by (simp add: recommendations_createTicket_def withTenantContext_def)
  next
    case None
    let ?api = "cost_callInternalApi (en_reachable E) (fromAlert (en_format E) (en_intl E) (en_html E) T (recommendation_ticket r resource))"
    from run found None obtain tk v where api: "?api s = (Inr (Some tk), v)" and tid: "tid = row_id tk"
        and t: "rightsizing_recommendations t = update_rows T (by_id i) (\<lambda>r. r\<lparr>rr_status := Rr_Ticket_Created, rr_ticket_id := Some (row_id tk), rr_updated_at := clock v\<rparr>)
          (rightsizing_recommendations v)"
      by (auto simp: recommendations_createTicket_def withTenantContext_def act_bind_eq_Inr tx_bind_def sql_now_def sql_update_def Let_def
          split: if_splits option.splits)
    define r' where "r' = r\<lparr>rr_status := Rr_Ticket_Created, rr_ticket_id := Some (row_id tk), rr_updated_at := clock v\<rparr>"
    have v: "rightsizing_recommendations v = rightsizing_recommendations s" by (rule fromAlert_recommendations [OF api])
    have "distinct (map row_id (rightsizing_recommendations u))" using ids by (simp add: later t v map_update_rows)
    moreover have "r' \<in> set (rightsizing_recommendations u)"
      using r by (auto simp: later t v r'_def update_rows_def tenant_isolation_def by_id_def image_iff intro!: bexI [of _ r])
    moreover have "row_id r' = i" "tenant_id r' = T" "rr_resource_id r' = rr_resource_id r" using r by (simp_all add: r'_def)
    ultimately have "recommendation_with_resource T i u = Some (r', resource)"
      using recommendation_with_resource_one [of u r' T] res later(2) by simp
    moreover have "rr_ticket_id r' = Some tid" by (simp add: r'_def tid)
    ultimately show ?thesis by (simp add: recommendations_createTicket_def withTenantContext_def)
  qed
qed

definition ticketed :: cost where
  "ticketed = (metered JNull)\<lparr>rightsizing_recommendations := [\<lparr>row_id = 94, tenant_id = 1, rr_resource_id = 92, rr_recommendation_type = Rs_Idle, rr_reason_text = [],
     rr_estimated_monthly_saving = None, rr_status = Rr_Ticket_Created, rr_ticket_id = Some 7, rr_created_at = 0, rr_updated_at = 0\<rparr>]\<rparr>"

theorem recommendation_ticket_once_witness:
  "recommendations_createTicket toy_engine 1 94 (ticketed\<lparr>clock := 5\<rparr>) = (Inr 7, ticketed\<lparr>clock := 5\<rparr>)"
proof -
  have "recommendations_createTicket toy_engine 1 94 ticketed = (Inr 7, ticketed)"
    by (simp add: recommendations_createTicket_def withTenantContext_def recommendation_with_resource_def ticketed_def metered_def metric_resource_def by_id_def tenant_isolation_def)
  then show ?thesis by (rule recommendation_ticket_once) (simp_all add: ticketed_def)
qed

end
