(* ===== verification/Cost_Reports.thy ===== *)
theory Cost_Reports
  imports Cost_Optimisation
begin

text \<open>
  Scheduled reports (\<open>cost/reporting\<close>): the tables of \<open>report-generator.service.ts\<close>, their CSV and the text of their PDF
  (\<open>report-export.ts\<close>), the calendar of \<open>report-schedule.ts\<close>, the service and the sweep. The PDF library and the language
  model that writes a summary are parameters. The lemmas: a CSV file reads back as the table it was made of; the next
  run is after the last one, by one to 31 days; a delivered report is queued once per recipient and not due before its
  next run.
\<close>

section \<open>Export\<close>

record ReportTable =
  rt_title :: string
  rt_columns :: "string list"
  rt_rows :: "json list list"
  rt_aiSummary :: "string option"

definition QUOTE :: char where
  "QUOTE = CHR 0x22"

definition LF :: char where
  "LF = CHR 0x0A"

definition CR :: char where
  "CR = CHR 0x0D"

definition csv_quote :: "string \<Rightarrow> string" where
  "csv_quote s = (if \<exists>c \<in> set s. c = QUOTE \<or> c = CHR '','' \<or> c = LF
     then [QUOTE] @ concat (map (\<lambda>c. if c = QUOTE then [QUOTE, QUOTE] else [c]) s) @ [QUOTE] else s)"

definition csvEscape :: "js_format \<Rightarrow> json \<Rightarrow> string" where
  "csvEscape F v = csv_quote (js_text F v)"

definition truthy_summary :: "string option \<Rightarrow> string option" where
  "truthy_summary v = (case v of None \<Rightarrow> None | Some t \<Rightarrow> if t = [] then None else Some t)"

definition toCsv :: "js_format \<Rightarrow> ReportTable \<Rightarrow> string" where
  "toCsv F table = js_join [LF]
     ((case truthy_summary (rt_aiSummary table) of None \<Rightarrow> [] | Some t \<Rightarrow> [csvEscape F (JStr (''AI Summary: '' @ t)), []]) @
      [js_join '','' (map (\<lambda>c. csvEscape F (JStr c)) (rt_columns table))] @
      map (\<lambda>row. js_join '','' (map (csvEscape F) row)) (rt_rows table))"

text \<open>The lines of the PDF; a cell beyond the columns is not padded. A length is a number of UTF-16 units.\<close>

definition js_length :: "string \<Rightarrow> nat" where
  "js_length s = sum_list (map (\<lambda>c. let b = of_char c :: nat in if b div 64 = 2 then 0 else if 240 \<le> b then 2 else 1) s)"

definition cell_at :: "js_format \<Rightarrow> nat \<Rightarrow> json list \<Rightarrow> string" where
  "cell_at F i row = (if i < length row then (if row ! i = JNull then [] else js_text F (row ! i)) else [])"

definition columnWidths :: "js_format \<Rightarrow> ReportTable \<Rightarrow> nat list" where
  "columnWidths F table = map (\<lambda>i. fold max (map (\<lambda>row. js_length (cell_at F i row)) (rt_rows table)) (js_length (rt_columns table ! i)))
     [0..<length (rt_columns table)]"

definition padEnd :: "nat \<Rightarrow> string \<Rightarrow> string" where
  "padEnd n s = s @ replicate (n - js_length s) (CHR '' '')"

definition formatRow :: "js_format \<Rightarrow> json list \<Rightarrow> nat list \<Rightarrow> string" where
  "formatRow F cells widths = concat (map (\<lambda>i. padEnd (if i < length widths then widths ! i + 2 else 0) (js_text F (cells ! i))) [0..<length cells])"

definition pdf_lines :: "js_format \<Rightarrow> ReportTable \<Rightarrow> string list" where
  "pdf_lines F table = [rt_title table] @ (case truthy_summary (rt_aiSummary table) of None \<Rightarrow> [] | Some t \<Rightarrow> [t]) @
     [formatRow F (map JStr (rt_columns table)) (columnWidths F table)] @ map (\<lambda>row. formatRow F row (columnWidths F table)) (rt_rows table) @
     (if rt_rows table = [] then [''No data for this period.''] else [])"

definition toPdf :: "js_format \<Rightarrow> (string list \<Rightarrow> error + string) \<Rightarrow> ReportTable \<Rightarrow> error + string" where
  "toPdf F pdfkit table = pdfkit (pdf_lines F table)"

section \<open>The schedule\<close>

text \<open>\<open>setUTCDate\<close> and \<open>setUTCMonth\<close> keep the time of the day; a day the month does not have runs over into the next one.\<close>

definition nextRunAt :: "ReportCadence \<Rightarrow> msec \<Rightarrow> msec" where
  "nextRunAt cadence from = (case cadence of
      Daily \<Rightarrow> utc_day (utc_year from) (int (utc_month from)) (utc_date from + 1) * MS_PER_DAY + from mod MS_PER_DAY
    | Weekly \<Rightarrow> utc_day (utc_year from) (int (utc_month from)) (utc_date from + 7) * MS_PER_DAY + from mod MS_PER_DAY
    | Monthly \<Rightarrow> utc_day (utc_year from) (int (utc_month from) + 1) (utc_date from) * MS_PER_DAY + from mod MS_PER_DAY)"

section \<open>The tables\<close>

definition fixed_or_dash :: "js_format \<Rightarrow> rat option \<Rightarrow> string" where
  "fixed_or_dash F v = (case v of None \<Rightarrow> em_dash | Some q \<Rightarrow> js_toFixed2 F q)"

definition costDashboardTable :: "js_format \<Rightarrow> uuid \<Rightarrow> ('s cost_scheme, ReportTable) act" where
  "costDashboardTable F tenantId = act_bind (cost_summary tenantId) (\<lambda>summary. act_return
     \<lparr>rt_title = ''Cost Dashboard Summary'', rt_columns = [''Metric'', ''Value''],
      rt_rows = [[JStr ''Month to date'', JStr (js_toFixed2 F (cs_mtdSpend summary))],
        [JStr ''Previous month'', JStr (fixed_or_dash F (cs_previousMonthTotal summary))],
        [JStr ''Forecast (full month)'', JStr (fixed_or_dash F (cs_forecast summary))],
        [JStr ''Connected accounts'', JNum (of_nat (cs_connectedAccounts summary))],
        [JStr ''Open budget alerts'', JNum (of_nat (cs_openBudgetAlerts summary))],
        [JStr ''Open recommendations'', JNum (of_nat (cs_openRecommendations summary))]], rt_aiSummary = None\<rparr>)"

definition costByServiceTable :: "js_format \<Rightarrow> uuid \<Rightarrow> ('s cost_scheme, ReportTable) act" where
  "costByServiceTable F tenantId = withTenantContext tenantId (\<lambda>qr. tx_gets (\<lambda>s.
     \<lparr>rt_title = ''Cost by Service (month to date)'', rt_columns = [''Service'', ''Amount''],
      rt_rows = map (\<lambda>(service, amount). [JStr service, JStr (js_toFixed2 F amount)])
        (order_by (\<lambda>r. - snd r) (group_sums li_service li_amount (cost_lines qr (\<lambda>l. li_usage_date l \<ge> month_start (clock s)) s))), rt_aiSummary = None\<rparr>))"

definition costByTagTable :: "js_format \<Rightarrow> uuid \<Rightarrow> json \<Rightarrow> ('s cost_scheme, ReportTable) act" where
  "costByTagTable F tenantId params = (case js_prop params ''tagKey'' of
      Some (JStr tagKey) \<Rightarrow>
        if tagKey = [] then act_throw (BadRequest ''cost_by_tag reports require a params.tagKey'')
        else act_bind (allocationByTag tenantId tagKey \<lparr>ao_from = None, ao_to = None\<rparr>) (\<lambda>A. act_return
          \<lparr>rt_title = ''Cost by Tag: '' @ tagKey @ '' (month to date)'', rt_columns = [tagKey, ''Amount''],
           rt_rows = map (\<lambda>(v, amount). [JStr v, JStr (js_toFixed2 F amount)]) (al_rows A), rt_aiSummary = None\<rparr>)
    | _ \<Rightarrow> act_throw (BadRequest ''cost_by_tag reports require a params.tagKey''))"

fun commitment_kind_text :: "CommitmentKind \<Rightarrow> string" where
  "commitment_kind_text Reserved_Instance = ''reserved_instance''"
| "commitment_kind_text Savings_Plan = ''savings_plan''"

definition coverage_row :: "js_format \<Rightarrow> commitment \<Rightarrow> CommitmentReport \<Rightarrow> json list" where
  "coverage_row F c result = map JStr [cm_service c, (case cm_region c of None \<Rightarrow> em_dash | Some r \<Rightarrow> r), commitment_kind_text (cm_kind c), js_toFixed2 F (cm_hourly_commitment c),
     (case cp_coverage result of None \<Rightarrow> em_dash | Some v \<Rightarrow> js_toFixed1 F (cv_coveragePct v) @ ''%''),
     (case cp_utilization result of None \<Rightarrow> em_dash | Some v \<Rightarrow> js_toFixed1 F (ut_utilizationPct v) @ ''%''),
     (case cp_utilization result of None \<Rightarrow> em_dash | Some v \<Rightarrow> js_toFixed2 F (ut_wastedAmount v))]"

definition commitmentCoverageTable :: "js_format \<Rightarrow> uuid \<Rightarrow> ('s cost_scheme, ReportTable) act" where
  "commitmentCoverageTable F tenantId = act_bind (commitments_list tenantId) (\<lambda>owned.
     act_bind (act_fold (\<lambda>c rows. act_bind (getCoverage tenantId (row_id c)) (\<lambda>result. act_return (rows @ [coverage_row F c result]))) owned []) (\<lambda>rows. act_return
     \<lparr>rt_title = ''Commitment Coverage & Utilization'',
      rt_columns = [''Service'', ''Region'', ''Kind'', ''Hourly $'', ''Coverage'', ''Utilization'', ''Wasted $''], rt_rows = rows, rt_aiSummary = None\<rparr>))"

text \<open>The prompt of the summary, and what is kept of the answer; any failure leaves the report without one.\<close>

definition summary_prompt :: "js_format \<Rightarrow> ReportTable \<Rightarrow> string" where
  "summary_prompt F table = ''Report: '' @ rt_title table @ [LF] @ ''Columns: '' @ js_join '', '' (rt_columns table) @ [LF] @ ''Data (up to 30 rows):'' @ [LF] @
     js_join [LF] (map (\<lambda>row. js_join [CHR 0x09] (map (js_text F) row)) (take 30 (rt_rows table)))"

definition buildAiSummary :: "js_format \<Rightarrow> (string \<Rightarrow> error + string) option \<Rightarrow> ReportTable \<Rightarrow> string option" where
  "buildAiSummary F client table = (case client of
      None \<Rightarrow> None
    | Some ask \<Rightarrow> (case ask (summary_prompt F table) of
        Inl e \<Rightarrow> None
      | Inr raw \<Rightarrow> (let trimmed = js_trim raw in if trimmed = [] then None else Some trimmed)))"

definition generate_report :: "js_format \<Rightarrow> (string \<Rightarrow> error + string) option \<Rightarrow> uuid \<Rightarrow> ReportKind \<Rightarrow> json \<Rightarrow> bool \<Rightarrow> ('s cost_scheme, ReportTable) act" where
  "generate_report F client tenantId kind params includeAiSummary =
     act_bind (case kind of
         Cost_Dashboard \<Rightarrow> costDashboardTable F tenantId
       | Cost_By_Service \<Rightarrow> costByServiceTable F tenantId
       | Cost_By_Tag \<Rightarrow> costByTagTable F tenantId params
       | Commitment_Coverage \<Rightarrow> commitmentCoverageTable F tenantId) (\<lambda>table.
     act_return (if includeAiSummary then table\<lparr>rt_aiSummary := buildAiSummary F client table\<rparr> else table))"

section \<open>Scheduled reports\<close>

record CreateScheduledReport =
  ks_name :: string
  ks_reportKind :: ReportKind
  ks_params :: "json option"
  ks_format :: report_format
  ks_cadence :: ReportCadence
  ks_recipients :: "string list"

definition scheduledReports_list :: "uuid \<Rightarrow> ('s cost_scheme, scheduled_report list) act" where
  "scheduledReports_list tenantId = withTenantContext tenantId (\<lambda>qr.
     tx_bind (sql_select scheduled_reports qr (\<lambda>_. True)) (\<lambda>rows. tx_return (order_by (\<lambda>r. - sr_created_at r) rows)))"

definition scheduledReports_create :: "uuid \<Rightarrow> CreateScheduledReport \<Rightarrow> ('s cost_scheme, scheduled_report) act" where
  "scheduledReports_create tenantId dto = withTenantContext tenantId (\<lambda>qr.
     tx_bind gen_random_uuid (\<lambda>i. tx_bind sql_now (\<lambda>now.
     sql_insert scheduled_reports_update qr \<lparr>row_id = i, tenant_id = tenantId, sr_name = ks_name dto, sr_report_kind = ks_reportKind dto,
       sr_params = or_default (ks_params dto) (JObj []), sr_format = ks_format dto, sr_cadence = ks_cadence dto, sr_recipients = ks_recipients dto,
       sr_include_ai_summary = False, sr_last_run_at = None, sr_next_run_at = nextRunAt (ks_cadence dto) now, sr_is_active = True, sr_created_at = now\<rparr>)))"

definition scheduledReports_remove :: "uuid \<Rightarrow> uuid \<Rightarrow> ('s cost_scheme, unit) act" where
  "scheduledReports_remove tenantId i = withTenantContext tenantId (\<lambda>qr. remove_row ''Scheduled report'' scheduled_reports scheduled_reports_update qr i)"

record RenderedReportFile =
  rd_buffer :: string
  rd_contentType :: string
  rd_filename :: string

definition file_char :: "char \<Rightarrow> bool" where
  "file_char c \<longleftrightarrow> CHR ''a'' \<le> c \<and> c \<le> CHR ''z'' \<or> CHR ''A'' \<le> c \<and> c \<le> CHR ''Z'' \<or> js_digit c \<or> c = CHR ''_'' \<or> c = CHR ''.'' \<or> c = CHR ''-''"

text \<open>\<open>name.replace(/[^\w.-]+/g, '_')\<close>.\<close>

fun safe_name :: "bool \<Rightarrow> string \<Rightarrow> string" where
  "safe_name gap [] = []"
| "safe_name gap (c # s) = (if file_char c then c # safe_name False s else if gap then safe_name True s else CHR ''_'' # safe_name True s)"

record report_lib =
  rl_pdfkit :: "string list \<Rightarrow> error + string"
  rl_ai :: "(string \<Rightarrow> error + string) option"

definition render_report :: "js_format \<Rightarrow> report_lib \<Rightarrow> uuid \<Rightarrow> scheduled_report \<Rightarrow> ('s cost_scheme, RenderedReportFile) act" where
  "render_report F L tenantId sr =
     act_bind (generate_report F (rl_ai L) tenantId (sr_report_kind sr) (sr_params sr) (sr_include_ai_summary sr)) (\<lambda>table.
     let safeName = safe_name False (sr_name sr) in
     case sr_format sr of
       Csv \<Rightarrow> act_return \<lparr>rd_buffer = toCsv F table, rd_contentType = ''text/csv'', rd_filename = safeName @ ''.csv''\<rparr>
     | Pdf \<Rightarrow> (case toPdf F (rl_pdfkit L) table of
         Inl e \<Rightarrow> act_throw e
       | Inr b \<Rightarrow> act_return \<lparr>rd_buffer = b, rd_contentType = ''application/pdf'', rd_filename = safeName @ ''.pdf''\<rparr>))"

definition scheduledReports_runNow :: "js_format \<Rightarrow> report_lib \<Rightarrow> uuid \<Rightarrow> uuid \<Rightarrow> ('s cost_scheme, RenderedReportFile) act" where
  "scheduledReports_runNow F L tenantId i =
     act_bind (withTenantContext tenantId (\<lambda>qr. find_row ''Scheduled report'' scheduled_reports qr i)) (render_report F L tenantId)"

text \<open>\<open>Buffer.toString('base64')\<close> of a string of bytes.\<close>

definition base64_char :: "nat \<Rightarrow> char" where
  "base64_char n = (''ABCDEFGHIJKLMNOPQRSTUVWXYZabcdefghijklmnopqrstuvwxyz0123456789+/'') ! n"

fun base64 :: "nat list \<Rightarrow> string" where
  "base64 [] = []"
| "base64 [a] = [base64_char (a div 4), base64_char (a mod 4 * 16), CHR ''='', CHR ''='']"
| "base64 [a, b] = [base64_char (a div 4), base64_char (a mod 4 * 16 + b div 16), base64_char (b mod 16 * 4), CHR ''='']"
| "base64 (a # b # c # bs) = [base64_char (a div 4), base64_char (a mod 4 * 16 + b div 16), base64_char (b mod 16 * 4 + c div 64), base64_char (c mod 64)] @ base64 bs"

definition buffer_base64 :: "string \<Rightarrow> string" where
  "buffer_base64 s = base64 (map of_char s)"

definition report_payload :: "scheduled_report \<Rightarrow> RenderedReportFile \<Rightarrow> json" where
  "report_payload sr file = JObj [(''reportName'', JStr (sr_name sr)), (''format'', JStr (case sr_format sr of Csv \<Rightarrow> ''csv'' | Pdf \<Rightarrow> ''pdf'')),
     (''attachment'', JObj [(''filename'', JStr (rd_filename file)), (''contentType'', JStr (rd_contentType file)), (''base64'', JStr (buffer_base64 (rd_buffer file)))])]"

definition send_one :: "uuid \<Rightarrow> scheduled_report \<Rightarrow> RenderedReportFile \<Rightarrow> string \<Rightarrow> unit \<Rightarrow> ('s cost_scheme, unit) act" where
  "send_one tenantId sr file recipient u =
     act_bind (enqueue tenantId ''email'' recipient ''cost.scheduled_report'' (report_payload sr file)) (\<lambda>_. act_return ())"

definition send_report :: "uuid \<Rightarrow> scheduled_report \<Rightarrow> RenderedReportFile \<Rightarrow> ('s cost_scheme, unit) act" where
  "send_report tenantId sr file = act_fold (send_one tenantId sr file) (sr_recipients sr) ()"

definition runAndDeliver :: "js_format \<Rightarrow> report_lib \<Rightarrow> uuid \<Rightarrow> scheduled_report \<Rightarrow> ('s cost_scheme, unit) act" where
  "runAndDeliver F L tenantId sr =
     act_bind (render_report F L tenantId sr) (\<lambda>file.
     act_bind (send_report tenantId sr file) (\<lambda>_.
     act_bind (act_gets clock) (\<lambda>now.
     act_bind (withTenantContext tenantId (\<lambda>qr. sql_update scheduled_reports scheduled_reports_update qr (by_id (row_id sr))
       (\<lambda>r. r\<lparr>sr_last_run_at := Some now, sr_next_run_at := nextRunAt (sr_cadence sr) now\<rparr>))) (\<lambda>_. act_return ()))))"

definition due_report :: "msec \<Rightarrow> scheduled_report \<Rightarrow> bool" where
  "due_report now r \<longleftrightarrow> sr_is_active r \<and> sr_next_run_at r \<le> now"

definition reports_sweepTenant :: "js_format \<Rightarrow> report_lib \<Rightarrow> uuid \<Rightarrow> ('s cost_scheme, nat) act" where
  "reports_sweepTenant F L tenantId =
     act_bind (withTenantContext tenantId (\<lambda>qr. tx_bind sql_now (\<lambda>now. sql_select scheduled_reports qr (due_report now)))) (\<lambda>due_reports.
     act_fold (\<lambda>r n. act_catch (act_bind (runAndDeliver F L tenantId r) (\<lambda>_. act_return (Suc n))) (\<lambda>_. act_return n)) due_reports 0)"

definition reports_sweepOnce :: "js_format \<Rightarrow> report_lib \<Rightarrow> bool \<Rightarrow> ('s cost_scheme, nat) act" where
  "reports_sweepOnce F L running =
     (if running then act_return 0 else act_bind (act_gets tenants) (\<lambda>ts.
       act_fold (\<lambda>t n. act_catch (act_bind (reports_sweepTenant F L (tn_id t)) (\<lambda>k. act_return (n + k))) (\<lambda>_. act_return n)) ts 0))"

section \<open>Reading a CSV file\<close>

text \<open>
  RFC 4180 as a reader: a field that starts with a quote ends at a quote that is not doubled; outside of quotes a comma
  ends a field and a line feed, with or without a carriage return before it, ends a record.
\<close>

datatype csv_mode = Plain | Quoted | Ended

fun csv_records :: "csv_mode \<Rightarrow> string \<Rightarrow> string list \<Rightarrow> string \<Rightarrow> string list list" where
  "csv_records md field row [] = [row @ [field]]"
| "csv_records Quoted field row (c # s) = (if c = QUOTE then csv_records Ended field row s else csv_records Quoted (field @ [c]) row s)"
| "csv_records md field row (c # s) =
     (if c = CHR '','' then csv_records Plain [] (row @ [field]) s
      else if c = LF then (row @ [field]) # csv_records Plain [] [] s
      else if c = CR \<and> s \<noteq> [] \<and> hd s = LF then csv_records md field row s
      else if c = QUOTE \<and> md = Ended then csv_records Quoted (field @ [QUOTE]) row s
      else if c = QUOTE \<and> field = [] then csv_records Quoted [] row s
      else csv_records Plain (field @ [c]) row s)"

definition read_csv :: "string \<Rightarrow> string list list" where
  "read_csv s = csv_records Plain [] [] s"

lemmas csv_chars = QUOTE_def LF_def CR_def

definition plain_text :: "string \<Rightarrow> bool" where
  "plain_text x \<longleftrightarrow> (\<forall>c \<in> set x. c \<noteq> QUOTE \<and> c \<noteq> CHR '','' \<and> c \<noteq> LF \<and> c \<noteq> CR)"

lemma csv_plain: "plain_text x \<Longrightarrow> csv_records Plain field row (x @ rest) = csv_records Plain (field @ x) row rest"
  by (induction x arbitrary: field) (auto simp: plain_text_def)

lemma csv_doubled:
  "csv_records Quoted field row (concat (map (\<lambda>c. if c = QUOTE then [QUOTE, QUOTE] else [c]) x) @ rest) = csv_records Quoted (field @ x) row rest"
  by (induction x arbitrary: field) (auto simp: csv_chars)

text \<open>What follows a field: the end, a comma or a line feed.\<close>

definition after_field :: "string \<Rightarrow> bool" where
  "after_field rest \<longleftrightarrow> rest = [] \<or> hd rest = CHR '','' \<or> hd rest = LF"

lemma csv_ended: "after_field rest \<Longrightarrow> csv_records Ended field row rest = csv_records Plain field row rest"
  by (cases rest) (auto simp: after_field_def csv_chars)

text \<open>A carriage return is kept where it is inside of quotes, that is next to a quote, a comma or a line feed.\<close>

definition cr_quoted :: "string \<Rightarrow> bool" where
  "cr_quoted x \<longleftrightarrow> CR \<in> set x \<longrightarrow> QUOTE \<in> set x \<or> CHR '','' \<in> set x \<or> LF \<in> set x"

lemma csv_field:
  assumes "cr_quoted x" and "after_field rest"
  shows "csv_records Plain [] row (csv_quote x @ rest) = csv_records Plain x row rest"
proof (cases "\<exists>c \<in> set x. c = QUOTE \<or> c = CHR '','' \<or> c = LF")
  case True
  have "csv_records Plain [] row (csv_quote x @ rest) = csv_records Quoted [] row (concat (map (\<lambda>c. if c = QUOTE then [QUOTE, QUOTE] else [c]) x) @ QUOTE # rest)"
    using True by (simp add: csv_quote_def) (simp add: csv_chars)
  also have "\<dots> = csv_records Ended x row rest" by (simp add: csv_doubled)
  finally show ?thesis using csv_ended [OF assms(2)] by simp
next
  case False
  then have "plain_text x" using assms(1) by (auto simp: plain_text_def cr_quoted_def)
  then show ?thesis using False csv_plain [of x "[]" row rest] by (simp add: csv_quote_def)
qed

lemma csv_line:
  assumes "xs \<noteq> []" and "\<forall>x \<in> set xs. cr_quoted x" and "rest = [] \<or> hd rest = LF"
  shows "csv_records Plain [] row (js_join '','' (map csv_quote xs) @ rest) = csv_records Plain (last xs) (row @ butlast xs) rest"
  using assms(1,2)
proof (induction xs arbitrary: row rule: list_nonempty_induct)
  case (single x)
  have "after_field rest" using assms(3) by (auto simp: after_field_def)
  with single show ?case by (simp add: csv_field)
next
  case (cons x xs)
  then obtain y ys where xs: "xs = y # ys" by (cases xs) auto
  have "csv_records Plain [] row (js_join '','' (map csv_quote (x # xs)) @ rest) =
      csv_records Plain x row (CHR '','' # js_join '','' (map csv_quote xs) @ rest)"
    using cons.prems csv_field [of x "CHR '','' # js_join '','' (map csv_quote xs) @ rest" row] by (simp add: xs after_field_def)
  also have "\<dots> = csv_records Plain [] (row @ [x]) (js_join '','' (map csv_quote xs) @ rest)" by simp
  finally show ?case using cons by simp
qed

lemma csv_lines:
  assumes "recs \<noteq> []" and "\<forall>xs \<in> set recs. xs \<noteq> [] \<and> (\<forall>x \<in> set xs. cr_quoted x)"
  shows "csv_records Plain [] [] (js_join [LF] (map (\<lambda>xs. js_join '','' (map csv_quote xs)) recs)) = recs"
  using assms
proof (induction recs rule: list_nonempty_induct)
  case (single xs)
  then show ?case using csv_line [of xs "[]" "[]"] by simp
next
  case (cons xs recs)
  then obtain ys yss where recs: "recs = ys # yss" by (cases recs) auto
  let ?rest = "js_join [LF] (map (\<lambda>xs. js_join '','' (map csv_quote xs)) recs)"
  have "csv_records Plain [] [] (js_join [LF] (map (\<lambda>xs. js_join '','' (map csv_quote xs)) (xs # recs))) = csv_records Plain (last xs) (butlast xs) (LF # ?rest)"
    using cons.prems csv_line [of xs "LF # ?rest" "[]"] by (simp add: recs)
  also have "\<dots> = xs # csv_records Plain [] [] ?rest" using cons.prems by (simp add: csv_chars)
  finally show ?case using cons by simp
qed

text \<open>The records of a table: the summary with an empty line after it, the header and the rows.\<close>

definition table_records :: "js_format \<Rightarrow> ReportTable \<Rightarrow> string list list" where
  "table_records F table = (case truthy_summary (rt_aiSummary table) of None \<Rightarrow> [] | Some t \<Rightarrow> [[''AI Summary: '' @ t], [[]]]) @
     rt_columns table # map (map (js_text F)) (rt_rows table)"

lemma toCsv_records: "toCsv F table = js_join [LF] (map (\<lambda>xs. js_join '','' (map csv_quote xs)) (table_records F table))"
proof -
  have "csv_quote [] = []" by (simp add: csv_quote_def)
  moreover have "csvEscape F = (\<lambda>v. csv_quote (js_text F v))" by (simp add: csvEscape_def fun_eq_iff)
  ultimately show ?thesis by (simp add: toCsv_def table_records_def o_def split: option.splits)
qed

text \<open>
  C25. CSV files read back. For a table with a column and rows that are not empty, in which every field with a carriage return
  also has a quote, a comma or a line feed (the exporter does not quote a field for a carriage return alone), a reader
  of RFC 4180 gets exactly the fields of the table out of the exported file, whatever quotes, commas and line feeds
  they contain; a summary comes first, followed by an empty line.
\<close>

theorem csv_roundtrip:
  assumes "\<forall>xs \<in> set (table_records F table). xs \<noteq> [] \<and> (\<forall>x \<in> set xs. cr_quoted x)"
  shows "read_csv (toCsv F table) = table_records F table"
  unfolding read_csv_def toCsv_records by (rule csv_lines [OF _ assms]) (simp add: table_records_def)

theorem csv_roundtrip_witness:
  "read_csv (toCsv unary_format \<lparr>rt_title = [], rt_columns = [''a,b'', ''c''], rt_rows = [[JStr [QUOTE, LF], JBool True]], rt_aiSummary = Some ''ok''\<rparr>) =
    [[''AI Summary: ok''], [[]], [''a,b'', ''c''], [[QUOTE, LF], ''true'']]"
  using csv_roundtrip [of unary_format "\<lparr>rt_title = [], rt_columns = [''a,b'', ''c''], rt_rows = [[JStr [QUOTE, LF], JBool True]], rt_aiSummary = Some ''ok''\<rparr>"]
  by (simp add: table_records_def truthy_summary_def cr_quoted_def csv_chars)

text \<open>A carriage return alone at the end of a record is lost: the reader takes it for a part of the line end.\<close>

lemma csv_loses_carriage_return:
  "read_csv (toCsv unary_format \<lparr>rt_title = [], rt_columns = [[CHR ''a'', CR]], rt_rows = [[JStr ''b'']], rt_aiSummary = None\<rparr>) = [[''a''], [''b'']]"
  by (simp add: read_csv_def toCsv_records table_records_def truthy_summary_def csv_quote_def csv_chars)

section \<open>The next run\<close>

lemma nextRunAt_days:
  "nextRunAt cadence start = start + (case cadence of Daily \<Rightarrow> 1 | Weekly \<Rightarrow> 7 | Monthly \<Rightarrow> days_in_month (utc_year start) (utc_month start)) * MS_PER_DAY"
proof -
  have shift: "utc_day y m (d + k) = utc_day y m d + k" for y m d k by (simp add: utc_day_def MakeDay_def)
  have day: "utc_day (utc_year start) (int (utc_month start)) (utc_date start) = iso_day start" using utc_parts(2) [of start] by simp
  have split: "start = iso_day start * MS_PER_DAY + start mod MS_PER_DAY" by (simp add: iso_day_def)
  have step: "(iso_day start + k) * MS_PER_DAY + start mod MS_PER_DAY = start + k * MS_PER_DAY" for k
    using split by (simp add: distrib_right)
  show ?thesis
  proof (cases cadence)
    case Monthly
    then show ?thesis using utc_day_next_month [OF utc_parts(1), of "utc_year start" start "utc_date start"] day step
      by (simp add: nextRunAt_def)
  qed (simp_all only: nextRunAt_def ReportCadence.case shift day step)
qed

lemma nextRunAt_later: "start < nextRunAt cadence start"
  using days_in_month_range [of "utc_year start" "utc_month start"] by (cases cadence; simp add: nextRunAt_days MS_PER_DAY_def)

text \<open>
  The next run is strictly after the last one, by a day, a week, or as many days as the current month has, so never by
  more than 31 days.
\<close>

theorem next_run_later:
  "start < nextRunAt cadence start \<and> nextRunAt cadence start \<le> start + 31 * MS_PER_DAY \<and>
   nextRunAt cadence start mod MS_PER_DAY = start mod MS_PER_DAY \<and>
   nextRunAt Monthly start = start + days_in_month (utc_year start) (utc_month start) * MS_PER_DAY"
proof -
  define k where "k = (case cadence of Daily \<Rightarrow> 1 | Weekly \<Rightarrow> 7 | Monthly \<Rightarrow> days_in_month (utc_year start) (utc_month start))"
  have "0 < k" "k \<le> 31" using days_in_month_range [of "utc_year start" "utc_month start"] by (cases cadence; simp add: k_def)+
  moreover have "nextRunAt cadence start = start + k * MS_PER_DAY" by (simp add: nextRunAt_days k_def)
  moreover have "(start + k * MS_PER_DAY) mod MS_PER_DAY = start mod MS_PER_DAY" by simp
  ultimately show ?thesis by (simp add: nextRunAt_days) (simp add: MS_PER_DAY_def)
qed

text \<open>A report of the last day of January is next due on the third of March: February is skipped.\<close>

lemma monthly_skips_february:
  "utc_month (30 * MS_PER_DAY) = 0" "utc_date (30 * MS_PER_DAY) = 31" "utc_month (nextRunAt Monthly (30 * MS_PER_DAY)) = 2" "utc_date (nextRunAt Monthly (30 * MS_PER_DAY)) = 3"
proof -
  note defs = utc_year_def utc_month_def utc_date_def iso_day_def year_from_day_def DayFromYear_def month_from_day_def month_starts_def leap_year_def MakeDay_def Let_def
  have y: "utc_year (30 * MS_PER_DAY) = 1970" by (simp add: defs)
  show m: "utc_month (30 * MS_PER_DAY) = 0" by (simp add: utc_month_def y) (simp add: defs)
  show d: "utc_date (30 * MS_PER_DAY) = 31" by (simp add: utc_date_def y m) (simp add: defs)
  have nxt: "nextRunAt Monthly (30 * MS_PER_DAY) = 61 * MS_PER_DAY" unfolding nextRunAt_days by (simp add: y m days_in_month_def)
  have y': "utc_year (61 * MS_PER_DAY) = 1970" by (simp add: defs)
  show m': "utc_month (nextRunAt Monthly (30 * MS_PER_DAY)) = 2" unfolding nxt by (simp add: utc_month_def y') (simp add: defs)
  then show "utc_date (nextRunAt Monthly (30 * MS_PER_DAY)) = 3" unfolding nxt by (simp add: utc_date_def y') (simp add: defs)
qed

section \<open>Delivery\<close>

text \<open>What a delivery leaves alone, and the mail of a recipient.\<close>

definition report_mail :: "uuid \<Rightarrow> scheduled_report \<Rightarrow> RenderedReportFile \<Rightarrow> string \<Rightarrow> notification \<Rightarrow> bool" where
  "report_mail T r file recipient n \<longleftrightarrow> tenant_id n = T \<and> nf_channel n = ''email'' \<and> nf_recipient n = recipient \<and>
     nf_template_name n = ''cost.scheduled_report'' \<and> nf_payload n = report_payload r file \<and> nf_status n = Queued"

definition quiet_for_reports :: "'s cost_scheme \<Rightarrow> 's cost_scheme \<Rightarrow> bool" where
  "quiet_for_reports s t \<longleftrightarrow> scheduled_reports t = scheduled_reports s \<and> clock t = clock s"

lemma send_one_run:
  fixes s t :: "'s cost_scheme"
  assumes "send_one T r file x u s = (Inr w, t)"
  shows "\<exists>n. notifications t = notifications s @ [n] \<and> report_mail T r file x n \<and> quiet_for_reports s t"
proof -
  from assms obtain i where run: "enqueue T ''email'' x ''cost.scheduled_report'' (report_payload r file) s = (Inr i, t)"
    by (auto simp: send_one_def act_bind_eq_Inr)
  from enqueue_run [OF this] have "platform.more t = platform.more s" by simp
  then have "scheduled_reports t = scheduled_reports s" by (cases s; cases t; simp)
  with run show ?thesis
    by (auto simp: enqueue_def act_bind_eq_Inr randomUUID_def withTenantContext_def sql_insert_def publish_run Let_def report_mail_def quiet_for_reports_def split: if_splits)
qed

lemma send_report_run:
  fixes s t :: "'s cost_scheme"
  assumes "send_report T r file s = (Inr u, t)"
  shows "\<exists>ns. notifications t = notifications s @ ns \<and> list_all2 (report_mail T r file) (sr_recipients r) ns \<and> quiet_for_reports s t"
proof -
  have "act_fold (send_one T r file) rs w s = (Inr u, t) \<Longrightarrow>
      \<exists>ns. notifications t = notifications s @ ns \<and> list_all2 (report_mail T r file) rs ns \<and> quiet_for_reports s t" for rs w
  proof (induction rs arbitrary: s w)
    case (Cons x rs)
    from Cons.prems obtain w' v where v: "send_one T r file x w s = (Inr w', v)" and rest: "act_fold (send_one T r file) rs w' v = (Inr u, t)"
      by (auto simp: act_bind_eq_Inr)
    from send_one_run [OF v] obtain n where "notifications v = notifications s @ [n]" "report_mail T r file x n" "quiet_for_reports s v" by blast
    moreover from Cons.IH [OF rest] obtain ns where "notifications t = notifications v @ ns" "list_all2 (report_mail T r file) rs ns" "quiet_for_reports v t" by blast
    ultimately show ?case by (intro exI [of _ "n # ns"]) (simp add: quiet_for_reports_def)
  qed (simp add: quiet_for_reports_def)
  with assms show ?thesis unfolding send_report_def by blast
qed

text \<open>Rendering only reads.\<close>

lemma act_rel_sum [frame_intros]:
  "(\<And>x. act_rel R (f x)) \<Longrightarrow> (\<And>y. act_rel R (g y)) \<Longrightarrow> act_rel R (case v of Inl x \<Rightarrow> f x | Inr y \<Rightarrow> g y)"
  by (cases v) simp_all

lemma report_tables_read:
  "act_rel (same (\<lambda>s. s)) (costDashboardTable F T)" "act_rel (same (\<lambda>s. s)) (costByServiceTable F T)"
  "act_rel (same (\<lambda>s. s)) (costByTagTable F T params)" "act_rel (same (\<lambda>s. s)) (commitmentCoverageTable F T)"
proof -
  show "act_rel (same (\<lambda>s. s)) (costDashboardTable F T)"
    unfolding costDashboardTable_def cost_summary_def Let_def by (intro frame_intros)
  show "act_rel (same (\<lambda>s. s)) (costByServiceTable F T)"
    unfolding costByServiceTable_def by (intro frame_intros)
  have tag: "act_rel (same (\<lambda>s. s)) (allocationByTag T k opts)" for k opts
    unfolding allocationByTag_def Let_def by (intro frame_intros)
  show "act_rel (same (\<lambda>s. s)) (costByTagTable F T params)"
    unfolding costByTagTable_def by (intro act_rel_option frame_intros) (simp split: json.split, intro conjI allI impI frame_intros tag)
  show "act_rel (same (\<lambda>s. s)) (commitmentCoverageTable F T)"
    unfolding commitmentCoverageTable_def commitments_list_def getCoverage_def Let_def by (intro frame_intros)
qed

lemma render_report_reads: "act_rel (same (\<lambda>s. s)) (render_report F L T r)"
proof -
  have gen: "act_rel (same (\<lambda>s. s)) (generate_report F c T k params b)" for c k params b
    unfolding generate_report_def by (cases k) (simp_all, (intro frame_intros report_tables_read)+)
  show ?thesis unfolding render_report_def Let_def
    by (cases "sr_format r") (simp_all, (intro frame_intros gen)+)
qed

lemma updated_row:
  "x \<in> set (update_rows T (by_id i) f rows) \<Longrightarrow> tenant_id x = T \<Longrightarrow> row_id x = i \<Longrightarrow> \<exists>y. x = f y"
  by (auto simp: update_rows_def tenant_isolation_def by_id_def split: if_splits)

lemma runAndDeliver_run:
  fixes s t :: "'s cost_scheme"
  assumes "runAndDeliver F L T r s = (Inr u, t)"
  shows "\<exists>file ns. render_report F L T r s = (Inr file, s) \<and> notifications t = notifications s @ ns \<and>
    list_all2 (report_mail T r file) (sr_recipients r) ns \<and>
    scheduled_reports t = update_rows T (by_id (row_id r))
      (\<lambda>x. x\<lparr>sr_last_run_at := Some (clock s), sr_next_run_at := nextRunAt (sr_cadence r) (clock s)\<rparr>) (scheduled_reports s) \<and>
    (\<forall>x \<in> set (scheduled_reports t). tenant_id x = T \<and> row_id x = row_id r \<longrightarrow> \<not> due_report (clock t) x)"
proof -
  let ?f = "\<lambda>x. x\<lparr>sr_last_run_at := Some (clock s), sr_next_run_at := nextRunAt (sr_cadence r) (clock s)\<rparr>"
  from assms obtain doc v w where doc: "render_report F L T r s = (Inr doc, v)" and sent: "send_report T r doc v = (Inr (), w)"
    and t: "t = scheduled_reports_update (update_rows T (by_id (row_id r))
      (\<lambda>x. x\<lparr>sr_last_run_at := Some (clock w), sr_next_run_at := nextRunAt (sr_cadence r) (clock w)\<rparr>)) w"
    by (auto simp: runAndDeliver_def act_bind_eq_Inr withTenantContext_def sql_update_def act_gets_def Let_def split: if_splits)
  have "v = s" using act_rel_snd [OF render_report_reads, of s F L T r] doc by (simp add: same_def)
  with send_report_run [OF sent] obtain ns where ns: "notifications w = notifications s @ ns" "list_all2 (report_mail T r doc) (sr_recipients r) ns"
    and quiet: "scheduled_reports w = scheduled_reports s" "clock w = clock s" by (auto simp: quiet_for_reports_def)
  have rows: "scheduled_reports t = update_rows T (by_id (row_id r)) ?f (scheduled_reports s)" using t quiet by simp
  have later: "clock s < nextRunAt (sr_cadence r) (clock s)" by (rule nextRunAt_later)
  have "clock t = clock s" using t quiet by simp
  then have "\<not> due_report (clock t) (?f y)" for y using later by (simp add: due_report_def)
  then have "\<forall>x \<in> set (scheduled_reports t). tenant_id x = T \<and> row_id x = row_id r \<longrightarrow> \<not> due_report (clock t) x"
    unfolding rows using updated_row [of _ T "row_id r" ?f "scheduled_reports s"] by (metis (no_types, lifting))
  with doc \<open>v = s\<close> ns rows t show ?thesis by (intro exI [of _ doc] exI [of _ ns]) simp
qed

text \<open>With Redis up, nothing in a delivery fails once the report is rendered.\<close>

lemma send_one_returns: "redis_up s \<Longrightarrow> \<exists>t. send_one T r doc x u s = (Inr (), t) \<and> redis_up t"
  by (simp add: send_one_def enqueue_def act_bind_def randomUUID_def withTenantContext_def sql_insert_def publish_run tenant_isolation_def Let_def)

lemma send_report_returns: "redis_up s \<Longrightarrow> \<exists>t. send_report T r doc s = (Inr (), t)"
proof -
  have "redis_up s \<Longrightarrow> \<exists>t. act_fold (send_one T r doc) rs () s = (Inr (), t)" for rs
  proof (induction rs arbitrary: s)
    case (Cons x rs)
    from send_one_returns [OF Cons.prems, of T r doc x "()"] obtain v where "send_one T r doc x () s = (Inr (), v)" "redis_up v" by blast
    with Cons.IH [of v] show ?case by (simp add: act_bind_def)
  qed simp
  then show "redis_up s \<Longrightarrow> \<exists>t. send_report T r doc s = (Inr (), t)" unfolding send_report_def .
qed

lemma runAndDeliver_returns:
  assumes "redis_up s" and "render_report F L T r s = (Inr doc, s)"
  shows "\<exists>t. runAndDeliver F L T r s = (Inr (), t)"
proof -
  obtain v where v: "send_report T r doc s = (Inr (), v)" using send_report_returns [OF assms(1)] by blast
  have "list_all (tenant_isolation T) (map (\<lambda>x. x\<lparr>sr_last_run_at := a, sr_next_run_at := b\<rparr>) (filter P (visible T rows)))" for a b P rows
    by (auto simp: list_all_iff visible_def tenant_isolation_def)
  with assms(2) v show ?thesis by (simp add: runAndDeliver_def act_bind_def act_gets_def withTenantContext_def sql_update_def Let_def)
qed

text \<open>
  C26. Delivery of a scheduled report. When the report can be rendered and Redis is up, the delivery succeeds. It queues one
  mail per recipient with the rendered file attached, in the order of the recipients and after what was queued
  before, and stamps the report alone with the run and the next run, so that it is not due again at this moment.
\<close>

theorem scheduled_report_delivery:
  fixes s :: "'s cost_scheme"
  assumes "redis_up s" and "render_report F L T r s = (Inr doc, s)"
  shows "\<exists>t ns. runAndDeliver F L T r s = (Inr (), t) \<and> notifications t = notifications s @ ns \<and>
    list_all2 (report_mail T r doc) (sr_recipients r) ns \<and>
    scheduled_reports t = update_rows T (by_id (row_id r))
      (\<lambda>x. x\<lparr>sr_last_run_at := Some (clock s), sr_next_run_at := nextRunAt (sr_cadence r) (clock s)\<rparr>) (scheduled_reports s) \<and>
    (\<forall>x \<in> set (scheduled_reports t). tenant_id x = T \<and> row_id x = row_id r \<longrightarrow> \<not> due_report (clock t) x)"
proof -
  obtain t where run: "runAndDeliver F L T r s = (Inr (), t)" using runAndDeliver_returns [OF assms] by blast
  with runAndDeliver_run [OF run] assms(2) show ?thesis by auto
qed

definition weekly_report :: scheduled_report where
  "weekly_report = \<lparr>row_id = 96, tenant_id = 1, sr_name = ''Week'', sr_report_kind = Cost_By_Service, sr_params = JNull, sr_format = Csv, sr_cadence = Weekly,
     sr_recipients = [''a@x.org'', ''b@x.org''], sr_include_ai_summary = False, sr_last_run_at = None, sr_next_run_at = 0, sr_is_active = True, sr_created_at = 0\<rparr>"

theorem scheduled_report_delivery_witness:
  "\<exists>t. runAndDeliver unary_format \<lparr>rl_pdfkit = Inr \<circ> concat, rl_ai = None\<rparr> 1 weekly_report (billed\<lparr>redis_up := True, scheduled_reports := [weekly_report]\<rparr>) = (Inr (), t) \<and>
     length (notifications t) = length (notifications billed) + 2"
proof -
  let ?L = "\<lparr>rl_pdfkit = Inr \<circ> concat, rl_ai = None\<rparr>" and ?s = "billed\<lparr>redis_up := True, scheduled_reports := [weekly_report]\<rparr>"
  obtain doc where doc: "render_report unary_format ?L 1 weekly_report ?s = (Inr doc, ?s)"
    by (simp add: render_report_def generate_report_def costByServiceTable_def weekly_report_def act_bind_def act_return_def withTenantContext_def tx_gets_def Let_def)
  have up: "redis_up ?s" by simp
  from scheduled_report_delivery [OF up doc] obtain t ns where "runAndDeliver unary_format ?L 1 weekly_report ?s = (Inr (), t)"
    "notifications t = notifications ?s @ ns" "list_all2 (report_mail 1 weekly_report doc) (sr_recipients weekly_report) ns" by blast
  moreover from this(3) have "length ns = 2" by (simp add: weekly_report_def list_all2_Cons1) auto
  ultimately show ?thesis by auto
qed

end
