(* ===== verification/Cost_Isolation.thy ===== *)
theory Cost_Isolation
  imports Cost_Reports
begin

text \<open>
  Isolation of tenants in the cost module: every operation of its services and every sweep of a tenant, with the mail
  it queues and the tickets it opens, leaves the rows of all other tenants as they are. The steps are the facts
  of the interpretations of \<open>tenant_table\<close> on the tables of the module.
\<close>

section \<open>Platform and ticketing under the cost module\<close>

lemma platform_cost_frame:
  fixes s t :: "'s cost_scheme"
  shows "platform_frame qr s t \<Longrightarrow> cost_frame qr s t"
  by (rule ticketing_cost_frame [OF platform_ticketing_frame])

lemma enqueue_cost_frame [frame_intros]: "act_rel (cost_frame T) (enqueue T c r n p)"
  by (rule act_rel_mono [OF enqueue_frame platform_cost_frame])

lemma fromAlert_cost_frame [frame_intros]: "act_rel (cost_frame T) (fromAlert F I H T dto)"
  by (rule act_rel_mono [OF endpoint_frames(2) ticketing_cost_frame])

lemma cost_callInternalApi_frame [frame_intros]: "act_rel (cost_frame T) m \<Longrightarrow> act_rel (cost_frame T) (cost_callInternalApi b m)"
  unfolding cost_callInternalApi_def by (intro frame_intros)

text \<open>What only reads.\<close>

lemma reads_cost_frame: "act_rel (same (\<lambda>s. s)) m \<Longrightarrow> act_rel (cost_frame T) m"
  by (erule act_rel_mono) (simp add: same_def cost_frame.frame_refl)

section \<open>Loops that catch errors\<close>

lemma caught_fold_frame:
  assumes "\<And>x n. tx_rel (cost_frame qr) (f x n)"
  shows "caught_fold f xs n s = (k, Some t) \<Longrightarrow> cost_frame qr s t"
proof (induction xs arbitrary: n s)
  case (Cons x xs)
  from Cons.prems obtain j u where u: "f x n s = Inr (j, u)" and rest: "caught_fold f xs j u = (k, Some t)"
    by (auto split: sum.splits)
  show ?case by (rule cost_frame.frame_trans [OF tx_relD [OF assms u] Cons.IH [OF rest]])
qed (simp add: cost_frame.frame_refl)

lemma tx_caught_frame [frame_intros]:
  assumes "\<And>x n. tx_rel (cost_frame qr) (f x n)"
  shows "tx_rel (cost_frame qr) (tx_caught f xs)"
  by (rule tx_relI) (auto simp: tx_caught_def cost_frame.frame_refl dest: caught_fold_frame [OF assms] split: prod.splits option.splits)

lemma count_if_frame [frame_intros]: "tx_rel (cost_frame qr) m \<Longrightarrow> tx_rel (cost_frame qr) (count_if m n)"
  unfolding count_if_def by (intro frame_intros)

section \<open>Budgets, anomalies and the billing sync\<close>

lemma budgets_frames:
  "act_rel (cost_frame T) (budgets_create T kb)" "act_rel (cost_frame T) (budgets_update_row T i ub)" "act_rel (cost_frame T) (budgets_remove T i)"
  unfolding budgets_create_def budgets_update_row_def patch_row_def budgets_remove_def alerts_has_a_source_def by (intro frame_intros)+

lemma apply_pace_frame [frame_intros]: "tx_rel (cost_frame qr) (apply_pace F T b result qr)"
  unfolding apply_pace_def by (intro frame_intros)

lemma cost_notify_frame [frame_intros]: "act_rel (cost_frame T) (cost_notify T b v reason)"
  unfolding cost_notify_def by (intro frame_intros)

lemma commit_after_notify_frame [frame_intros]:
  assumes "\<And>qr. tx_rel (cost_frame qr) (work qr)"
  shows "act_rel (cost_frame T) (commit_after_notify T b work)"
proof (rule act_relI)
  fix s r t
  assume run: "commit_after_notify T b work s = (r, t)"
  obtain q u where first: "withTenantContext T work s = (q, u)" by fastforce
  have "act_rel (cost_frame T) (withTenantContext T work)" by (intro frame_intros assms)
  from act_relD [OF this first] have su: "cost_frame T s u" .
  show "cost_frame T s t"
  proof (cases "\<exists>over v reason. q = Inr (over, Some (v, reason))")
    case True
    then obtain over v reason where q: "q = Inr (over, Some (v, reason))" by blast
    obtain p w where sent: "cost_notify T b v reason u = (p, w)" by fastforce
    from cost_frame.frame_trans [OF su act_relD [OF cost_notify_frame sent]] have sw: "cost_frame T s w" .
    then have "cost_frame T s (w\<lparr>cost_alerts := cost_alerts s\<rparr>)" by (simp add: cost_frame_defs)
    with sw run first q sent show ?thesis by (auto simp: commit_after_notify_def split: sum.splits)
  next
    case False
    with run first su show ?thesis by (auto simp: commit_after_notify_def split: sum.splits option.splits prod.splits)
  qed
qed

lemma pace_checkTenant_frame [frame_intros]: "act_rel (cost_frame T) (pace_checkTenant F T)"
  unfolding pace_checkTenant_def checkBudget_def by (intro frame_intros)

lemma anomaly_frames [frame_intros]: "act_rel (cost_frame T) (anomaly_checkTenant F T)" "act_rel (cost_frame T) (anomalies_dismiss T i)"
  unfolding anomaly_checkTenant_def upsert_anomaly_def anomalies_dismiss_def by (intro frame_intros)+

lemma syncTenant_frame: "act_rel (cost_frame T) (syncTenant F factory T)"
  unfolding syncTenant_def syncCredential_def sync_line_items_def upsert_line_item_def by (intro frame_intros)

section \<open>Savings and commitments\<close>

lemma evaluateMonitor_frame [frame_intros]: "tx_rel (cost_frame qr) (evaluateMonitor F pg_float qr T p)"
  unfolding evaluateMonitor_def by (intro frame_intros)

lemma rightsizing_frames: "act_rel (cost_frame T) (rightsizing_sweepTenant F pg_float T)" "act_rel (cost_frame T) (recommendations_update_row T i status)"
  "act_rel (cost_frame T) (recommendations_createTicket E T i)"
  unfolding rightsizing_sweepTenant_def recommendations_update_row_def recommendations_createTicket_def by (intro frame_intros)+

lemma log_saving_frame [frame_intros]: "tx_rel (cost_frame qr) (log_saving qr T r n)"
  unfolding log_saving_def by (intro frame_intros)

lemma materializeOne_frame [frame_intros]: "tx_rel (cost_frame qr) (materializeOne qr v)"
  unfolding materializeOne_def by (intro frame_intros)

lemma savings_body_frame [frame_intros]: "tx_rel (cost_frame qr) (savings_body T qr)"
proof (rule tx_relI)
  fix s x t
  assume run: "savings_body T qr s = Inr (x, t)"
  then obtain lg u where u: "caught_fold (log_saving qr T) (savings_candidates qr s) 0 s = (lg, Some u)"
    by (auto simp: savings_body_def split: prod.splits option.splits)
  obtain m r where r: "caught_fold (\<lambda>v. count_if (materializeOne qr v)) (due_savings qr u) 0 u = (m, r)" by fastforce
  have "cost_frame qr s u" by (rule caught_fold_frame [OF log_saving_frame u])
  moreover have "r = Some t \<Longrightarrow> cost_frame qr u t"
    by (rule caught_fold_frame [where f = "\<lambda>v. count_if (materializeOne qr v)"]) (intro frame_intros, use r in simp)
  ultimately show "cost_frame qr s t"
    using run u r by (auto simp: savings_body_def cost_frame.frame_refl intro: cost_frame.frame_trans split: option.splits)
qed

lemma savings_sweepTenant_frame: "act_rel (cost_frame T) (savings_sweepTenant T)"
  unfolding savings_sweepTenant_def by (intro frame_intros)

lemma evaluateScope_frame [frame_intros]: "tx_rel (cost_frame qr) (evaluateScope qr T p)"
  unfolding evaluateScope_def by (intro frame_intros)

lemma commitments_frames: "act_rel (cost_frame T) (commitments_create T km)" "act_rel (cost_frame T) (commitments_remove T i)"
  "act_rel (cost_frame T) (commitments_dismissRecommendation T i)" "act_rel (cost_frame T) (commitment_sweepTenant T)"
  unfolding commitments_create_def commitments_remove_def commitments_dismissRecommendation_def commitment_sweepTenant_def by (intro frame_intros)+

section \<open>Reports\<close>

lemma runAndDeliver_frame [frame_intros]: "act_rel (cost_frame T) (runAndDeliver F L T r)"
  unfolding runAndDeliver_def send_report_def send_one_def by (intro frame_intros reads_cost_frame [OF render_report_reads])

lemma reports_frames: "act_rel (cost_frame T) (scheduledReports_create T ks)" "act_rel (cost_frame T) (scheduledReports_remove T i)"
  "act_rel (cost_frame T) (reports_sweepTenant F L T)"
  unfolding scheduledReports_create_def scheduledReports_remove_def reports_sweepTenant_def by (intro frame_intros)+

section \<open>Settings\<close>

text \<open>
  The cost settings are columns of the tenant's own row in \<open>tenants\<close>, a table without row level security: the
  \<open>UPDATE\<close> by the identifier of the tenant has to leave the other rows alone by itself.
\<close>

definition settings_frame :: "uuid \<Rightarrow> 's platform_scheme \<Rightarrow> 's platform_scheme \<Rightarrow> bool" where
  "settings_frame T s t \<longleftrightarrow> t = s\<lparr>tenants := tenants t\<rparr> \<and> map tn_id (tenants t) = map tn_id (tenants s) \<and>
     filter (\<lambda>x. tn_id x \<noteq> T) (tenants t) = filter (\<lambda>x. tn_id x \<noteq> T) (tenants s)"

lemma update_tenant_frame:
  assumes "\<And>a f t. a \<in> set sets \<Longrightarrow> snd a = Some f \<Longrightarrow> tn_id (f t) = tn_id t"
  shows "settings_frame T s (snd (update_tenant T sets s))"
proof -
  let ?f = "\<lambda>t. fold (\<lambda>a t. the (snd a) t) sets t"
  show ?thesis
  proof (cases "list_ex (\<lambda>a. snd a = None) sets")
    case True
    then show ?thesis by (simp add: update_tenant_def settings_frame_def)
  next
    case False
    then have "\<And>a t. a \<in> set sets \<Longrightarrow> tn_id (the (snd a) t) = tn_id t" using assms by (fastforce simp: list_ex_iff)
    then have f: "tn_id (?f t) = tn_id t" for t by (induction sets arbitrary: t) simp_all
    have "map tn_id (map (\<lambda>t. if tn_id t = T then ?f t else t) xs) = map tn_id xs"
      "filter (\<lambda>x. tn_id x \<noteq> T) (map (\<lambda>t. if tn_id t = T then ?f t else t) xs) = filter (\<lambda>x. tn_id x \<noteq> T) xs" for xs
      by (induction xs) (simp_all add: f)
    then show ?thesis by (simp add: update_tenant_def settings_frame_def Let_def)
  qed
qed

lemma cost_settings_frame: "settings_frame T s (snd (cost_settings_update T us s))"
proof (cases "cost_settings_sets us = []")
  case True
  then show ?thesis by (simp add: cost_settings_update_def get_tenant_def settings_frame_def split: option.splits)
next
  case False
  have "settings_frame T s (snd (update_tenant T (cost_settings_sets us) s))"
    by (rule update_tenant_frame) (auto simp: cost_settings_sets_def assign_def split: option.splits)
  with False show ?thesis by (simp add: cost_settings_update_def)
qed

section \<open>Isolation\<close>

text \<open>
  C13. The operations of the cost module that change data touch no other tenant: whatever the request, the bills of the provider, the
  metrics and the answers of other modules are, and also when an operation fails half way, the rows of every
  other tenant in every table are unchanged after the changes of budgets, commitments, recommendations, anomalies and
  reports and after each of the five background jobs of the tenant; and changing the cost settings changes at most the
  row of the tenant in \<open>tenants\<close>. The texts a language model writes (narratives, explanations and summaries) are not part of it.
\<close>

theorem cost_tenant_isolation:
  "cost_frame T s (snd (budgets_create T kb s)) \<and> cost_frame T s (snd (budgets_update_row T i ub s)) \<and> cost_frame T s (snd (budgets_remove T i s)) \<and>
   cost_frame T s (snd (anomalies_dismiss T i s)) \<and> cost_frame T s (snd (syncTenant F factory T s)) \<and>
   cost_frame T s (snd (rightsizing_sweepTenant F pg_float T s)) \<and> cost_frame T s (snd (recommendations_update_row T i status s)) \<and>
   cost_frame T s (snd (recommendations_createTicket E T i s)) \<and> cost_frame T s (snd (savings_sweepTenant T s)) \<and>
   cost_frame T s (snd (commitments_create T km s)) \<and> cost_frame T s (snd (commitments_remove T i s)) \<and>
   cost_frame T s (snd (commitments_dismissRecommendation T i s)) \<and> cost_frame T s (snd (commitment_sweepTenant T s)) \<and>
   cost_frame T s (snd (scheduledReports_create T ks s)) \<and> cost_frame T s (snd (scheduledReports_remove T i s)) \<and>
   cost_frame T s (snd (reports_sweepTenant F L T s)) \<and> settings_frame T s (snd (cost_settings_update T us s))"
  using act_rel_snd [OF budgets_frames(1)] act_rel_snd [OF budgets_frames(2)] act_rel_snd [OF budgets_frames(3)] act_rel_snd [OF anomaly_frames(2)]
    act_rel_snd [OF syncTenant_frame] act_rel_snd [OF rightsizing_frames(1)] act_rel_snd [OF rightsizing_frames(2)] act_rel_snd [OF rightsizing_frames(3)]
    act_rel_snd [OF savings_sweepTenant_frame] act_rel_snd [OF commitments_frames(1)] act_rel_snd [OF commitments_frames(2)]
    act_rel_snd [OF commitments_frames(3)] act_rel_snd [OF commitments_frames(4)] act_rel_snd [OF reports_frames(1)] act_rel_snd [OF reports_frames(2)]
    act_rel_snd [OF reports_frames(3)] cost_settings_frame
  by (intro conjI) assumption+

end
