(* ===== verification/Spec2Isabelle.thy ===== *)
theory Spec2Isabelle
  imports Notifications Ticket_Merging Overdue_Sweep Email_Intake Catalogue Sso Apm_Rum Status_Pages Network_Devices Portal Cost_Isolation
begin

text \<open>
  A verification development for the Cloud Ops Tool, a multi-tenant platform for managed service providers: a NestJS
  API server (\<open>apps/api\<close>) over Postgres and Redis with three modules, ticketing, monitoring and cost management, on
  a shared platform of tenants, authentication, an event bus and notifications. The web and portal frontends call the
  API; an agent on the customers' hosts reports metrics to it.

  \<^bold>\<open>How the parts interact.\<close> Every service works in a transaction of \<open>withTenantContext\<close>, which sets the tenant of the
  database session; row level security hides the rows of all other tenants. Modules talk to each other through the
  event bus (a Redis stream and the table \<open>events\<close>), through the queue of notifications, and through internal HTTP calls:
  the alert engine, the network poller and the cost module open tickets that way. Timers run sweeps over all tenants:
  overdue tickets, time-based rules, inbound mail, due monitors, escalations, log rules, disk forecasts, discovery of
  cloud resources, billing, rightsizing, savings, commitments and reports.

  \<^bold>\<open>The state.\<close> The state of the model is a record with one list of rows per table, extended module by module:
  \<open>platform\<close> (\<open>Database\<close>: the clock, the supply of identifiers, tenants, users, events, notifications, the Redis
  stream and whether Redis is up, the messages that left), \<open>ticketing\<close> (\<open>Ticketing_Schema\<close>), \<open>helpdesk\<close> (\<open>Helpdesk_Schema\<close>),
  \<open>monitoring\<close> (\<open>Monitoring_Schema\<close>), \<open>observability\<close> (\<open>Observability_Schema\<close>), \<open>cost\<close> (\<open>Cost_Schema\<close>), and beside them
  \<open>auth\<close> (\<open>Auth\<close>) on the platform and \<open>portal\<close> (\<open>Portal\<close>) on the help desk. An operation works on every extension of the record it needs, so that modules compose. A row
  carries its id and its tenant; the columns are the ones of the entities and migrations under \<open>database/\<close>. The body of a
  transaction is a \<open>tx\<close>: it returns an error and no state (rolled back), or a value and the new state. A method of a
  service is an \<open>act\<close>: it returns an error or a value, and always a state, since what was committed before an error stays.
  Errors are values of the datatype \<open>error\<close>: the HTTP exceptions, an SQLSTATE, and a plain \<open>Error\<close>.

  \<^bold>\<open>The theories and the code they model\<close> (paths under \<open>src/apps/api/src\<close>).

  \<^item> \<open>Prelude\<close>: identifiers, JSON values, the rules of JavaScript's text and comparison the code uses, the two monads with
    their loops, and the locale \<open>frame\<close>: what a reflexive and transitive relation between states gives for sequencing, branching,
    loops and code that only reads. \<open>Database\<close>: the SQL statements as operations under row level security
    (\<open>sql_select\<close>, \<open>sql_insert\<close>, \<open>sql_update\<close>, \<open>sql_delete\<close>), \<open>database/context/tenant-context.ts\<close>, the foundation tables, and
    the locale \<open>tenant_table\<close>: a table whose statements stay within the rows of the session's tenant.
  \<^item> \<open>Event_Bus\<close> (\<open>event-bus/\<close>), \<open>Notifications\<close> (\<open>notifications/\<close>, the channels and templates included).
  \<^item> \<open>Business_Hours\<close> (\<open>ticketing/sla/business-hours.ts\<close>, \<open>calculate-due-dates.ts\<close>), with the calendar arithmetic of
    \<open>Date\<close>; \<open>Tenant_Settings\<close> (business hours and cost settings of a tenant).
  \<^item> Ticketing: \<open>Custom_Fields\<close>, \<open>Assignment\<close>, \<open>Automation\<close> (actions and the rule engine), \<open>Time_Automation\<close> (rules service and
    sweep), \<open>Ticket_Support\<close> (sanitising, watchers, knowledge base), \<open>Tickets\<close> and \<open>Ticket_Updates\<close> (\<open>tickets.service.ts\<close>),
    \<open>Ticket_Properties\<close> and \<open>Ticket_Merging\<close> (their theorems), \<open>Overdue_Sweep\<close>, \<open>Email_Intake\<close>, \<open>Catalogue\<close> (groups, agents,
    contacts, companies, types, SLA policies, canned responses), \<open>Ticket_Extras\<close> (to-dos, time logs, links, views,
    scenarios, presence, ratings, the setup checklist), \<open>Portal\<close> (accounts and tickets of contacts, live chat, attachments on
    disk, search).
  \<^item> Monitoring: \<open>Alert_Rules\<close> (rules, alerts, checks reported by agents and clouds), \<open>Alert_Evaluation\<close>
    (\<open>alert-evaluation.service.ts\<close> with the internal ticket endpoints), \<open>Escalation\<close> (policies, on-call schedules, templates,
    the sweep), \<open>Probes\<close> (\<open>checks/\<close>), \<open>Monitor_Scheduler\<close> (monitors, scheduler, agents and their tokens, synthetic
    scripts), \<open>Logs\<close>, \<open>Apm_Rum\<close>, \<open>Status_Pages\<close>, \<open>Disk_Forecasts\<close> (with the monitoring dashboard), \<open>Network_Devices\<close>,
    \<open>Cloud_Resources\<close> (resources, credentials, the discovery poller).
  \<^item> Platform: \<open>Totp\<close>, \<open>Auth\<close> (login, sessions, password reset, two factors, guards, audit log), \<open>Sso\<close>.
  \<^item> Cost (\<open>modules/cost\<close>): \<open>Cost_Math\<close> (pace, forecasts, anomalies, tags, coverage, commitment recommendations),
    \<open>Cost_Budgets\<close> (budgets, the pace and the anomaly check, the billing sync), \<open>Cost_Insights\<close> (allocation, dashboard,
    accounts), \<open>Cost_Optimisation\<close> (rightsizing, tickets for recommendations, savings, commitments), \<open>Cost_Reports\<close>
    (tables, export, schedule and delivery), \<open>Cost_Isolation\<close>.

  A definition keeps the name of the function or method it models; where several services have a method of that name, the
  name of the service comes first (\<open>budgets_create\<close>, \<open>tickets_merge\<close>).

  \<^bold>\<open>What is proved.\<close>

  \<^item> \<^bold>\<open>Isolation.\<close> Each schema has a relation \<open>..._frame\<close>: all rows of other tenants are the same before and after. It is an
    interpretation of \<open>frame\<close>, each table is one of \<open>tenant_table\<close>, and the rules both give are collected in
    \<open>frame_intros\<close>, so that isolation of an operation is proved by unfolding it. The statements for the
    ticket service and for the cost module list every modelled operation that writes.
  \<^item> \<^bold>\<open>Invariants\<close>, kept by every operation: the life cycle and the numbers of tickets, one active alert per monitor, one resource
    per thing at the provider, complete alert rules. \<open>keeps\<close> is one more interpretation of \<open>frame\<close>.
  \<^item> \<^bold>\<open>Refinement.\<close> Alerts move along an abstract state machine (an inductive step relation); the billing sync is an update of an
    abstract ledger.
  \<^item> \<^bold>\<open>Sweeps.\<close> What a sweep reports, records or sends, against a specification read off the tables (\<open>due_step\<close>, \<open>check_due\<close>), and that it does
    so once: overdue tickets, time-based rules, escalation
    steps, log rules, due monitors, forecasts, budget alerts, recommendations, reports.
  \<^item> \<^bold>\<open>Arithmetic.\<close> Due dates are the instants at which exactly the promised business minutes have passed on the local clock, summer
    time included unless the clocks are changed right at the result; the fitted line is the one of least squares; percentiles are
    nearest-rank; the tiers of a budget are exactly those of its thresholds and monotone in the spend; allocations reconcile.
  \<^item> \<^bold>\<open>Round trips\<close>: base32 secrets, replies to ticket mail, CSV export, uploaded files.
  \<^item> \<^bold>\<open>Access\<close>: sessions only for correct credentials, their end, single use of reset tokens, the limit on attempts, roles,
    agent tokens, what a public status page shows, what a contact reads in the portal and how a contact can be claimed.
  \<^item> \<^bold>\<open>Failures\<close> the code does not survive, stated as they are: settings that can never be written, one bad monitor that blocks
    a tenant, one bad metric that undoes a whole rightsizing sweep, breaches lost while Redis is down, messages that
    are never retried.

  \<^bold>\<open>Loops.\<close> Most loops are structural recursion over lists (\<open>tx_fold\<close>, \<open>act_fold\<close>). The search for business minutes may run
    forever in the code (a list of days that are no weekdays); \<open>next_working_day\<close> and \<open>consume_minutes\<close> are partial functions into
    \<open>option\<close> and are proved to return for every list of weekdays, in every time zone that has a week without a change of the clocks after
    every instant. The other recursive functions (\<open>spend_days\<close>, \<open>chunks\<close>, the scanners of
    templates and mail bodies) have a measure. No definition uses fuel. A timer is not part of the model: a sweep is one
    call, and \<open>running\<close> says whether the previous one is still under way.

  \<^bold>\<open>Parameters\<close> stand for code outside of the repository: how numbers, identifiers and dates are printed (\<open>js_format\<close>), time
    zones (\<open>Intl\<close>), the HTML sanitiser and parser, JWT, bcrypt and HMAC, the network behind the probes, SNMP, the
    cloud and billing clients, OpenID Connect, SMTP and HTTP transports, IMAP and MIME, the headless browser, PDF
    and the language model, and Postgres' reading of a text as a number. Results hold for all of them; where a
    property needs one to behave, that is a hypothesis, and its witness has a concrete instance.

  \<^bold>\<open>Conventions.\<close> Times are milliseconds, dates are days since the epoch, the server works in UTC. \<open>numeric\<close> and JavaScript numbers
    are rationals (square roots are taken in the reals), without rounding. Strings are bytes; comparison of
    strings in SQL is by code point. \<open>ORDER BY\<close> keeps the order of insertion among equals. Encrypted columns hold their
    plain value. Alerts of budgets are a list of their own (\<open>cost_alerts\<close>), although they share the table \<open>alerts\<close> with the ones of
    monitors; the services of alerts are modelled for the latter. Deleting a resource or a credential does not
    cascade into the cost tables in the model. A transaction runs alone; the interleavings that matter (the unique index on
    active alerts, a lost race) are branches of the definitions. A statement that fails inside a transaction aborts it, also when
    the code catches the error (\<open>tx_caught\<close>).

  \<^bold>\<open>Not modelled.\<close> Calls to a language model and what is stored of its answers (triage, narratives, rationales), which the modelled
    code does not wait for; the ticket dashboard and the report builder, which are single SQL aggregations and generated
    SQL text; the one-time import from Freshdesk; the clients of the cloud
    providers, which wrap their SDKs; NestJS wiring and controllers, which only pass requests on; the frontends (React); the
    agent (Go).
\<close>

end
